(* ===== verification/Prelude.thy ===== *)
theory Prelude
  imports Main "HOL-Library.Char_ord" "HOL-Library.List_Lexorder"
begin

text \<open>
  Shared vocabulary of the development: the JavaScript library operations the
  program uses on strings, numbers and arrays, results of operations that throw,
  and two interfaces (a machine whose steps may be refused, and a ledger of
  identified events) that several components implement.

  A string is a list of code units below 256. A number is an \<open>int\<close>: every
  numeric field the program persists is guarded by \<open>Number.isSafeInteger\<close> or is
  a count, so fractions, infinities and NaN are outside the model. An optional
  field is an \<open>option\<close>; \<open>undefined\<close> and \<open>null\<close> are both \<open>None\<close> unless a theory
  says otherwise. A thrown error is the left side of a sum.
\<close>

section \<open>Collections of facts\<close>

named_theorems guard_defs \<open>definitions of the guards of a transition\<close>
named_theorems shape_defs \<open>definitions of the structural validators\<close>
named_theorems frame_simps \<open>fields an operation leaves alone\<close>

section \<open>Strings\<close>

definition js_space :: "char \<Rightarrow> bool" where
  "js_space c \<longleftrightarrow>
     c \<in> {CHR 0x09, CHR 0x0A, CHR 0x0B, CHR 0x0C, CHR 0x0D, CHR 0x20, CHR 0xA0}"

definition trim_start :: "string \<Rightarrow> string" where
  "trim_start s = dropWhile js_space s"

definition trim_end :: "string \<Rightarrow> string" where
  "trim_end s = rev (dropWhile js_space (rev s))"

definition trim :: "string \<Rightarrow> string" where
  "trim s = trim_end (trim_start s)"

text \<open>\<open>blank s\<close> is the code's \<open>s.trim() === ''\<close>.\<close>

definition blank :: "string \<Rightarrow> bool" where
  "blank s \<longleftrightarrow> trim s = []"

lemma blank_iff: "blank s \<longleftrightarrow> (\<forall>c \<in> set s. js_space c)"
proof -
  have "blank s \<longleftrightarrow> (\<forall>c \<in> set (dropWhile js_space s). js_space c)"
    by (simp add: blank_def trim_def trim_end_def trim_start_def)
  also have "\<dots> \<longleftrightarrow> dropWhile js_space s = []"
  proof
    assume all: "\<forall>c \<in> set (dropWhile js_space s). js_space c"
    show "dropWhile js_space s = []"
    proof (rule ccontr)
      assume ne: "dropWhile js_space s \<noteq> []"
      then have "\<not> js_space (hd (dropWhile js_space s))" by (rule hd_dropWhile)
      with all ne show False by (meson hd_in_set)
    qed
  next
    assume "dropWhile js_space s = []"
    then show "\<forall>c \<in> set (dropWhile js_space s). js_space c" by (simp only:) simp
  qed
  also have "\<dots> \<longleftrightarrow> (\<forall>c \<in> set s. js_space c)"
    by simp
  finally show ?thesis .
qed

lemma blank_Nil [simp]: "blank []"
  by (simp add: blank_iff)

lemma trim_Nil [simp]: "trim [] = []"
  by (simp add: trim_def trim_end_def trim_start_def)

lemma trim_end_idem [simp]: "trim_end (trim_end s) = trim_end s"
  by (simp add: trim_end_def)

lemma dropWhile_dropWhile_rev:
  assumes "dropWhile P xs = xs"
  shows "dropWhile P (rev (dropWhile P (rev xs))) = rev (dropWhile P (rev xs))"
proof (cases "dropWhile P (rev xs) = []")
  case False
  then obtain x where x: "x \<in> set (rev xs)" "\<not> P x"
    using dropWhile_eq_Nil_conv by blast
  then have "xs \<noteq> []" by auto
  with assms have hd: "\<not> P (hd xs)"
    by (metis hd_dropWhile)
  obtain ys where ys: "rev xs = ys @ dropWhile P (rev xs)"
    using takeWhile_dropWhile_id by metis
  then have "xs = rev (dropWhile P (rev xs)) @ rev ys"
    by (metis rev_append rev_rev_ident)
  with False have "hd (rev (dropWhile P (rev xs))) = hd xs"
    by (metis hd_append2 rev_is_Nil_conv)
  with hd False show ?thesis
    by (cases "rev (dropWhile P (rev xs))") auto
next
  case True
  then show ?thesis by (simp only: True) simp
qed

lemma trim_idem [simp]: "trim (trim s) = trim s"
proof -
  have "trim_start (trim_end (trim_start s)) = trim_end (trim_start s)"
    unfolding trim_start_def trim_end_def
    by (rule dropWhile_dropWhile_rev) simp
  then show ?thesis by (simp add: trim_def)
qed

lemma blank_trim [simp]: "blank (trim s) \<longleftrightarrow> blank s"
  by (simp add: blank_def)

lemma trim_pad:
  assumes "blank pad" and "blank pad'"
  shows "trim (pad @ s @ pad') = trim s"
proof -
  have pads: "\<forall>c \<in> set pad. js_space c" "\<forall>c \<in> set pad'. js_space c"
    using assms by (simp_all add: blank_iff)
  have left: "trim_start (pad @ s @ pad') = trim_start (s @ pad')"
    using pads(1) by (simp add: trim_start_def dropWhile_append)
  show ?thesis
  proof (cases "\<forall>c \<in> set s. js_space c")
    case True
    with assms pads have "blank (pad @ s @ pad')" "blank s" by (auto simp: blank_iff)
    then show ?thesis by (simp add: blank_def)
  next
    case False
    then have "trim_start (s @ pad') = trim_start s @ pad'"
      by (auto simp: trim_start_def dropWhile_append)
    with left pads(2) show ?thesis
      by (simp add: trim_def trim_end_def dropWhile_append)
  qed
qed

lemma trim_no_space:
  assumes "\<forall>c \<in> set s. \<not> js_space c"
  shows "trim s = s"
proof -
  have "dropWhile js_space xs = xs" if "\<forall>c \<in> set xs. \<not> js_space c" for xs
    using that by (cases xs) auto
  from this[of s] this[of "rev s"] assms show ?thesis
    by (simp add: trim_def trim_start_def trim_end_def)
qed

text \<open>A string option that is present and not blank: the code's usable identities.\<close>

definition usable :: "string option \<Rightarrow> bool" where
  "usable s = (case s of None \<Rightarrow> False | Some v \<Rightarrow> \<not> blank v)"

lemma usable_simps [simp]:
  "\<not> usable None"
  "usable (Some v) \<longleftrightarrow> \<not> blank v"
  by (simp_all add: usable_def)

lemma usable_iff: "usable s \<longleftrightarrow> (\<exists>v. s = Some v \<and> \<not> blank v)"
  by (cases s) simp_all

text \<open>A test that applies only to a field that is present.\<close>

definition absent_or :: "('a \<Rightarrow> bool) \<Rightarrow> 'a option \<Rightarrow> bool" where
  "absent_or P x = (case x of None \<Rightarrow> True | Some v \<Rightarrow> P v)"

lemma absent_or_simps [simp]:
  "absent_or P None"
  "absent_or P (Some v) \<longleftrightarrow> P v"
  by (simp_all add: absent_or_def)

text \<open>A test that only a present field can pass.\<close>

definition present_and :: "('a \<Rightarrow> bool) \<Rightarrow> 'a option \<Rightarrow> bool" where
  "present_and P x = (case x of None \<Rightarrow> False | Some v \<Rightarrow> P v)"

lemma present_and_simps [simp]:
  "\<not> present_and P None"
  "present_and P (Some v) \<longleftrightarrow> P v"
  by (simp_all add: present_and_def)

lemma present_and_iff: "present_and P x \<longleftrightarrow> (\<exists>v. x = Some v \<and> P v)"
  by (cases x) simp_all

text \<open>The nullish choice \<open>a ?? b\<close>.\<close>

fun or_else :: "'a option \<Rightarrow> 'a option \<Rightarrow> 'a option" where
  "or_else None b = b"
| "or_else (Some a) b = Some a"

lemma or_else_eq_None [simp]: "or_else a b = None \<longleftrightarrow> a = None \<and> b = None"
  by (cases a) simp_all

definition starts_with :: "string \<Rightarrow> string \<Rightarrow> bool" where
  "starts_with s p \<longleftrightarrow> take (length p) s = p"

lemma starts_with_append [simp]: "starts_with (p @ s) p"
  by (simp add: starts_with_def)

text \<open>\<open>s.indexOf(p)\<close>, with \<open>None\<close> for \<open>-1\<close>.\<close>

fun index_of :: "string \<Rightarrow> string \<Rightarrow> nat option" where
  "index_of [] p = (if p = [] then Some 0 else None)"
| "index_of (c # s) p =
     (if starts_with (c # s) p then Some 0 else map_option Suc (index_of s p))"

definition contains :: "string \<Rightarrow> string \<Rightarrow> bool" where
  "contains s p \<longleftrightarrow> index_of s p \<noteq> None"

section \<open>Numbers\<close>

definition is_safe_integer :: "int \<Rightarrow> bool" where
  "is_safe_integer n \<longleftrightarrow> \<bar>n\<bar> \<le> 9007199254740991"

definition digit_char :: "nat \<Rightarrow> char" where
  "digit_char d = ''0123456789'' ! d"

text \<open>The decimal text of a count, as a template literal writes it.\<close>

fun nat_str :: "nat \<Rightarrow> string" where
  "nat_str n = (if n < 10 then [digit_char n] else nat_str (n div 10) @ [digit_char (n mod 10)])"

declare nat_str.simps [simp del]

lemma digit_char_inj:
  assumes "a < 10" and "b < 10" and "digit_char a = digit_char b"
  shows "a = b"
proof -
  have "distinct ''0123456789''" by simp
  with assms show ?thesis
    unfolding digit_char_def by (subst (asm) nth_eq_iff_index_eq) simp_all
qed

lemma nat_str_not_Nil [simp]: "nat_str n \<noteq> []"
  by (subst nat_str.simps) simp

lemma nat_str_inj: "nat_str m = nat_str n \<Longrightarrow> m = n"
proof (induction m arbitrary: n rule: nat_str.induct)
  case (1 m)
  consider "m < 10" "n < 10" | "m < 10" "\<not> n < 10" | "\<not> m < 10" "n < 10" | "\<not> m < 10" "\<not> n < 10"
    by blast
  then show ?case
  proof cases
    case 4
    with "1.prems" have "nat_str (m div 10) = nat_str (n div 10)"
      and "digit_char (m mod 10) = digit_char (n mod 10)"
      by (auto simp: nat_str.simps[of m] nat_str.simps[of n])
    with 4 "1.IH" have "m div 10 = n div 10" "m mod 10 = n mod 10"
      by (auto intro: digit_char_inj[rotated 2])
    then show ?thesis by (metis div_mult_mod_eq)
  qed (use "1.prems" in \<open>auto simp: nat_str.simps[of m] nat_str.simps[of n] append_eq_Cons_conv Cons_eq_append_conv intro: digit_char_inj\<close>)
qed

lemma nat_str_eq_iff [simp]: "nat_str m = nat_str n \<longleftrightarrow> m = n"
  using nat_str_inj by blast

section \<open>Arrays\<close>

lemma length_dropWhile_less [termination_simp]: "length (dropWhile P xs) < Suc (length xs)"
  by (simp add: length_dropWhile_le less_Suc_eq_le)

text \<open>\<open>xs.slice(-n)\<close> for a positive \<open>n\<close>: the last \<open>n\<close> elements.\<close>

definition slice_last :: "nat \<Rightarrow> 'a list \<Rightarrow> 'a list" where
  "slice_last n xs = drop (length xs - n) xs"

lemma length_slice_last [simp]: "length (slice_last n xs) = min (length xs) n"
  by (simp add: slice_last_def)

lemma slice_last_id: "length xs \<le> n \<Longrightarrow> slice_last n xs = xs"
  by (simp add: slice_last_def)

lemma slice_last_idem [simp]: "slice_last n (slice_last n xs) = slice_last n xs"
  by (simp add: slice_last_def)

lemma set_slice_last: "set (slice_last n xs) \<subseteq> set xs"
  by (simp add: slice_last_def set_drop_subset)

lemma slice_last_map: "slice_last n (map f xs) = map f (slice_last n xs)"
  by (simp add: slice_last_def drop_map)

lemma distinct_slice_last: "distinct xs \<Longrightarrow> distinct (slice_last n xs)"
  by (simp add: slice_last_def)

lemma last_slice_last: "0 < n \<Longrightarrow> xs \<noteq> [] \<Longrightarrow> last (slice_last n xs) = last xs"
  by (simp add: slice_last_def last_drop)

lemma slice_last_Nil [simp]: "slice_last n xs = [] \<longleftrightarrow> n = 0 \<or> xs = []"
  by (cases xs) (auto simp: slice_last_def)

text \<open>\<open>[...new Set(xs)]\<close>: first occurrences, in order.\<close>

fun js_set :: "'a list \<Rightarrow> 'a list" where
  "js_set [] = []"
| "js_set (x # xs) = x # filter (\<lambda>y. y \<noteq> x) (js_set xs)"

lemma set_js_set [simp]: "set (js_set xs) = set xs"
  by (induction xs) auto

lemma distinct_js_set [simp]: "distinct (js_set xs)"
  by (induction xs) auto

lemma js_set_distinct_id: "distinct xs \<Longrightarrow> js_set xs = xs"
  by (induction xs) (auto intro: filter_True)

text \<open>\<open>findIndex\<close>, and a backwards search for the last matching index.\<close>

fun find_index_from :: "nat \<Rightarrow> (nat \<Rightarrow> 'a \<Rightarrow> bool) \<Rightarrow> 'a list \<Rightarrow> nat option" where
  "find_index_from i p [] = None"
| "find_index_from i p (x # xs) = (if p i x then Some i else find_index_from (Suc i) p xs)"

definition find_index :: "(nat \<Rightarrow> 'a \<Rightarrow> bool) \<Rightarrow> 'a list \<Rightarrow> nat option" where
  "find_index p xs = find_index_from 0 p xs"

fun find_last_index_from :: "nat \<Rightarrow> (nat \<Rightarrow> 'a \<Rightarrow> bool) \<Rightarrow> 'a list \<Rightarrow> nat option" where
  "find_last_index_from i p [] = None"
| "find_last_index_from i p (x # xs) =
     (case find_last_index_from (Suc i) p xs of
        Some j \<Rightarrow> Some j
      | None \<Rightarrow> if p i x then Some i else None)"

definition find_last_index :: "(nat \<Rightarrow> 'a \<Rightarrow> bool) \<Rightarrow> 'a list \<Rightarrow> nat option" where
  "find_last_index p xs = find_last_index_from 0 p xs"

lemma find_index_from_SomeD:
  "find_index_from i p xs = Some j \<Longrightarrow> i \<le> j \<and> j < i + length xs \<and> p j (xs ! (j - i))"
proof (induction xs arbitrary: i)
  case (Cons x xs)
  show ?case
  proof (cases "p i x")
    case False
    with Cons.prems have "find_index_from (Suc i) p xs = Some j" by simp
    from Cons.IH[OF this] have "Suc i \<le> j" "j < Suc i + length xs" "p j (xs ! (j - Suc i))"
      by auto
    moreover from \<open>Suc i \<le> j\<close> have "j - i = Suc (j - Suc i)" by simp
    ultimately show ?thesis by simp
  qed (use Cons.prems in simp)
qed simp

lemma find_index_SomeD:
  "find_index p xs = Some j \<Longrightarrow> j < length xs \<and> p j (xs ! j)"
  by (auto simp: find_index_def dest: find_index_from_SomeD)

lemma find_last_index_from_NoneD:
  "find_last_index_from m p ys = None \<Longrightarrow> k < length ys \<Longrightarrow> \<not> p (m + k) (ys ! k)"
proof (induction ys arbitrary: m k)
  case (Cons y ys)
  then have "find_last_index_from (Suc m) p ys = None" and "\<not> p m y"
    by (auto split: option.splits if_splits)
  with Cons.IH[of "Suc m"] Cons.prems(2) show ?case
    by (cases k) auto
qed simp

lemma find_last_index_from_SomeD:
  "find_last_index_from i p xs = Some j \<Longrightarrow>
     i \<le> j \<and> j < i + length xs \<and> p j (xs ! (j - i)) \<and>
     (\<forall>k. j < k \<and> k < i + length xs \<longrightarrow> \<not> p k (xs ! (k - i)))"
proof (induction xs arbitrary: i j)
  case (Cons x xs)
  show ?case
  proof (cases "find_last_index_from (Suc i) p xs")
    case None
    from None Cons.prems have j: "j = i" "p i x" by (auto split: if_splits)
    have "\<not> p k ((x # xs) ! (k - i))" if "i < k" "k < i + length (x # xs)" for k
    proof -
      define d where "d = k - Suc i"
      with that have d: "k = Suc i + d" "d < length xs" by simp_all
      have "\<not> p (Suc i + d) (xs ! d)"
        by (rule find_last_index_from_NoneD[OF None d(2)])
      moreover have "k - i = Suc d" using d(1) by simp
      ultimately show ?thesis using d(1) by simp
    qed
    with j show ?thesis by simp
  next
    case (Some k)
    with Cons.prems have k: "k = j" by simp
    from Cons.IH[OF Some[unfolded k]] have
      *: "Suc i \<le> j" "j < Suc i + length xs" "p j (xs ! (j - Suc i))"
         "\<forall>k. j < k \<and> k < Suc i + length xs \<longrightarrow> \<not> p k (xs ! (k - Suc i))"
      by auto
    have sub: "(x # xs) ! (k - i) = xs ! (k - Suc i)" if "Suc i \<le> k" for k
      using that by (simp add: nth_Cons' Suc_diff_le)
    from * show ?thesis by (auto simp: sub)
  qed
qed simp

lemma find_last_index_SomeD:
  "find_last_index p xs = Some j \<Longrightarrow>
     j < length xs \<and> p j (xs ! j) \<and> (\<forall>k. j < k \<and> k < length xs \<longrightarrow> \<not> p k (xs ! k))"
  by (auto simp: find_last_index_def dest: find_last_index_from_SomeD)

lemma find_SomeD: "find P xs = Some x \<Longrightarrow> x \<in> set xs \<and> P x"
  by (auto simp: find_Some_iff)

section \<open>Parsed JSON\<close>

text \<open>
  What \<open>JSON.parse\<close> returns. An object keeps its own keys in order, each once;
  \<open>JFraction\<close> stands for every number that is not an integer.
\<close>

datatype json =
    JNull
  | JBool bool
  | JNumber int
  | JFraction
  | JString string
  | JArray "json list"
  | JObject "(string \<times> json) list"

text \<open>Reading a property: \<open>None\<close> is the value \<open>undefined\<close>.\<close>

definition js_get :: "(string \<times> json) list \<Rightarrow> string \<Rightarrow> json option" where
  "js_get fields k = map_of fields k"

definition is_nonempty_string :: "json option \<Rightarrow> bool" where
  "is_nonempty_string v = (case v of Some (JString s) \<Rightarrow> \<not> blank s | _ \<Rightarrow> False)"

text \<open>Lower case of a code unit: ASCII and Latin-1 letters.\<close>

definition lower_char :: "char \<Rightarrow> char" where
  "lower_char c =
     (let n = of_char c :: nat in
      if (65 \<le> n \<and> n \<le> 90) \<or> (192 \<le> n \<and> n \<le> 222 \<and> n \<noteq> 215) then char_of (n + 32) else c)"

definition lower :: "string \<Rightarrow> string" where
  "lower s = map lower_char s"

lemma lower_char_space: "js_space c \<Longrightarrow> lower_char c = c"
  unfolding js_space_def lower_char_def by (auto simp: Let_def)

end
