(* ===== verification/Interfaces.thy ===== *)
theory Interfaces
  imports Prelude
begin

text \<open>
  The contracts several components share, as locales. A \<^emph>\<open>guarded machine\<close> is a
  step that may be refused and keeps a well-formedness predicate; extended with a log
  that only grows it is a \<^emph>\<open>logged machine\<close>. An \<^emph>\<open>interleaved system\<close> is a step relation
  of several parties with an invariant, a \<^emph>\<open>codec\<close> a text format that is read back. An \<^emph>\<open>event ledger\<close> appends identified
  events and ignores those whose identity it already holds. The state machine, the wait
  ledger and the run telemetry interpret them in their own theories.
\<close>

section \<open>Guards\<close>

text \<open>Guards are written in the code's order; the first that fires is the error thrown.\<close>

fun first_error :: "'e option list \<Rightarrow> 'e option" where
  "first_error [] = None"
| "first_error (None # es) = first_error es"
| "first_error (Some e # es) = Some e"

lemma first_error_None_iff: "first_error es = None \<longleftrightarrow> (\<forall>e \<in> set es. e = None)"
  by (induction es rule: first_error.induct) auto

lemma first_error_SomeD: "first_error es = Some e \<Longrightarrow> Some e \<in> set es"
  by (induction es rule: first_error.induct) auto

lemma first_error_append [simp]:
  "first_error (es @ fs) = (case first_error es of None \<Rightarrow> first_error fs | Some e \<Rightarrow> Some e)"
  by (induction es rule: first_error.induct) auto

definition fail_if :: "bool \<Rightarrow> 'e \<Rightarrow> 'e option" where
  "fail_if c e = (if c then Some e else None)"

lemma fail_if_None [simp]: "fail_if c e = None \<longleftrightarrow> \<not> c"
  by (simp add: fail_if_def)

lemma fail_if_Some [simp]: "fail_if c e = Some f \<longleftrightarrow> c \<and> f = e"
  by (auto simp: fail_if_def)

section \<open>Machines whose steps may be refused\<close>

fun run_steps :: "('s \<Rightarrow> 'i \<Rightarrow> 'e + 's) \<Rightarrow> 's \<Rightarrow> 'i list \<Rightarrow> 'e + 's" where
  "run_steps step s [] = Inr s"
| "run_steps step s (i # is) =
     (case step s i of Inl e \<Rightarrow> Inl e | Inr t \<Rightarrow> run_steps step t is)"

text \<open>A caller that survives a refused step keeps the state it had.\<close>

definition settle :: "('s \<Rightarrow> 'i \<Rightarrow> 'e + 's) \<Rightarrow> 's \<Rightarrow> 'i \<Rightarrow> 's" where
  "settle step s i = (case step s i of Inl _ \<Rightarrow> s | Inr t \<Rightarrow> t)"

locale guarded_machine =
  fixes step :: "'s \<Rightarrow> 'i \<Rightarrow> 'e + 's"
    and ok :: "'s \<Rightarrow> bool"
  assumes step_ok: "ok s \<Longrightarrow> step s i = Inr t \<Longrightarrow> ok t"
begin

lemma run_ok: "ok s \<Longrightarrow> run_steps step s is = Inr t \<Longrightarrow> ok t"
  by (induction "is" arbitrary: s) (auto split: sum.splits intro: step_ok)

lemma settle_ok: "ok s \<Longrightarrow> ok (settle step s i)"
  by (auto simp: settle_def split: sum.splits intro: step_ok)

lemma settles_ok: "ok s \<Longrightarrow> ok (foldl (settle step) s is)"
  by (induction "is" arbitrary: s) (auto intro: settle_ok)

end

locale logged_machine = guarded_machine +
  fixes log :: "'s \<Rightarrow> 'l list"
  assumes step_log: "ok s \<Longrightarrow> step s i = Inr t \<Longrightarrow> \<exists>es. log t = log s @ es"
begin

lemma settle_log: "ok s \<Longrightarrow> \<exists>es. log (settle step s i) = log s @ es"
  by (auto simp: settle_def split: sum.splits intro: step_log)

lemma settles_log: "ok s \<Longrightarrow> \<exists>es. log (foldl (settle step) s is) = log s @ es"
proof (induction "is" arbitrary: s)
  case (Cons i "is")
  from Cons.prems have "ok (settle step s i)" by (rule settle_ok)
  from Cons.IH[OF this] settle_log[OF Cons.prems, of i] show ?case
    by (metis append.assoc foldl_Cons)
qed simp

end

section \<open>Interleaved systems\<close>

text \<open>Steps of several parties on shared state, as a relation, and an invariant they keep.\<close>

locale interleaved_system =
  fixes step :: "'s \<Rightarrow> 's \<Rightarrow> bool"
    and initial :: "'s \<Rightarrow> bool"
    and holds :: "'s \<Rightarrow> bool"
  assumes initial_holds: "initial s \<Longrightarrow> holds s"
    and step_holds: "holds s \<Longrightarrow> step s t \<Longrightarrow> holds t"
begin

lemma steps_hold: "step\<^sup>*\<^sup>* s t \<Longrightarrow> holds s \<Longrightarrow> holds t"
  by (induction rule: rtranclp_induct) (auto intro: step_holds)

lemma reached_holds: "initial s \<Longrightarrow> step\<^sup>*\<^sup>* s t \<Longrightarrow> holds t"
  using steps_hold initial_holds by blast

end

section \<open>Texts that are written and read back\<close>

locale codec =
  fixes render :: "'a \<Rightarrow> string"
    and parse :: "string \<Rightarrow> 'a option"
    and proper :: "'a \<Rightarrow> bool"
  assumes parse_render: "proper x \<Longrightarrow> parse (render x) = Some x"
begin

lemma render_inj: "proper x \<Longrightarrow> proper y \<Longrightarrow> render x = render y \<Longrightarrow> x = y"
  by (metis option.inject parse_render)

end

section \<open>Ledgers of identified events\<close>

text \<open>The events whose identity is not yet held, each identity once.\<close>

fun fresh_events :: "('e \<Rightarrow> 'k) \<Rightarrow> 'k list \<Rightarrow> 'e list \<Rightarrow> 'e list" where
  "fresh_events ident seen [] = []"
| "fresh_events ident seen (e # es) =
     (if ident e \<in> set seen then fresh_events ident seen es
      else e # fresh_events ident (ident e # seen) es)"

lemma fresh_events_set:
  "ident ` set (fresh_events ident seen es) = ident ` set es - set seen"
  by (induction ident seen es rule: fresh_events.induct) auto

lemma fresh_events_subset: "set (fresh_events ident seen es) \<subseteq> set es"
  by (induction ident seen es rule: fresh_events.induct) auto

lemma fresh_events_distinct: "distinct (map ident (fresh_events ident seen es))"
proof (induction ident seen es rule: fresh_events.induct)
  case (2 ident seen e es)
  then show ?case
    using fresh_events_set[of ident "ident e # seen" es] by auto
qed simp

lemma fresh_events_none: "ident ` set es \<subseteq> set seen \<Longrightarrow> fresh_events ident seen es = []"
  by (induction ident seen es rule: fresh_events.induct) auto

locale event_ledger =
  fixes events :: "'s \<Rightarrow> 'e list"
    and ident :: "'e \<Rightarrow> 'k"
    and append :: "'s \<Rightarrow> 'e list \<Rightarrow> 's"
  assumes events_append:
    "events (append s es) = events s @ fresh_events ident (map ident (events s)) es"
begin

lemma events_prefix: "\<exists>fs. events (append s es) = events s @ fs"
  by (simp add: events_append)

lemma identities_append:
  "ident ` set (events (append s es)) = ident ` set (events s) \<union> ident ` set es"
  using fresh_events_set[of ident "map ident (events s)" es]
  by (auto simp: events_append image_Un)

lemma distinct_append:
  assumes "distinct (map ident (events s))"
  shows "distinct (map ident (events (append s es)))"
  using assms fresh_events_set[of ident "map ident (events s)" es]
  by (auto simp: events_append fresh_events_distinct)

lemma replay_append: "events (append (append s es) es) = events (append s es)"
proof -
  have "ident ` set es \<subseteq> set (map ident (events (append s es)))"
    using identities_append by simp
  then show ?thesis
    by (simp add: events_append[of "append s es"] fresh_events_none)
qed

end

end
