(* ===== verification/Execution_Profiles.thy ===== *)
theory Execution_Profiles
  imports Interfaces
begin

text \<open>
  \<^verbatim>\<open>src/execution-profiles.ts\<close>: the execution profiles, the operator's spelling of a
  reasoning effort, the parsing of an operator configuration (from the value
  \<open>JSON.parse\<close> returned) and the resolution of a profile to an execution snapshot.
\<close>

section \<open>Data\<close>

datatype execution_profile_name = Routine | Standard | Complex | Critical

datatype reasoning_effort = Minimal | Low | Medium | High | XHigh

datatype sandbox_mode = Read_only | Workspace_write | Danger_full_access

datatype approval_policy = Untrusted | On_request | Never

definition EXECUTION_PROFILE_NAMES :: "execution_profile_name list" where
  "EXECUTION_PROFILE_NAMES = [Routine, Standard, Complex, Critical]"

fun profile_text :: "execution_profile_name \<Rightarrow> string" where
  "profile_text Routine = ''routine''"
| "profile_text Standard = ''standard''"
| "profile_text Complex = ''complex''"
| "profile_text Critical = ''critical''"

fun effort_text :: "reasoning_effort \<Rightarrow> string" where
  "effort_text Minimal = ''minimal''"
| "effort_text Low = ''low''"
| "effort_text Medium = ''medium''"
| "effort_text High = ''high''"
| "effort_text XHigh = ''xhigh''"

lemma set_EXECUTION_PROFILE_NAMES [simp]: "set EXECUTION_PROFILE_NAMES = UNIV"
  unfolding EXECUTION_PROFILE_NAMES_def by (auto intro: execution_profile_name.exhaust)

text \<open>The profile a string names (\<open>profileName\<close> and the narrowing it performs).\<close>

definition profile_of_text :: "string \<Rightarrow> execution_profile_name option" where
  "profile_of_text s = find (\<lambda>p. profile_text p = s) EXECUTION_PROFILE_NAMES"

lemma profile_of_text_text [simp]: "profile_of_text (profile_text p) = Some p"
  by (cases p) (simp_all add: profile_of_text_def EXECUTION_PROFILE_NAMES_def)

lemma profile_of_text_SomeD: "profile_of_text s = Some p \<Longrightarrow> s = profile_text p"
  by (auto simp: profile_of_text_def find_Some_iff)

section \<open>Reasoning-effort spellings\<close>

text \<open>
  \<open>REASONING_EFFORT_ALIASES\<close> is an object literal, so reading a key that is not an own
  key still finds the properties of \<open>Object.prototype\<close>. Among those, \<open>constructor\<close> is
  the only one the normalised spelling (lower case, no underscore) can produce.
\<close>

datatype alias_value = Canonical reasoning_effort | Inherited_property

text \<open>Secret-free immutable settings retained with a run.\<close>

record resolved_execution =
  ex_profile :: execution_profile_name
  ex_revision :: string
  ex_executor :: string
  ex_model :: "string option"
  ex_reasoningEffort :: "alias_value option"
  ex_timeoutMs :: int
  ex_sandboxMode :: "sandbox_mode option"
  ex_approvalPolicy :: "approval_policy option"

definition REASONING_EFFORT_ALIASES :: "(string \<times> reasoning_effort) list" where
  "REASONING_EFFORT_ALIASES =
     [(''minimal'', Minimal), (''min'', Minimal), (''low'', Low), (''medium'', Medium),
      (''med'', Medium), (''moderate'', Medium), (''high'', High), (''xhigh'', XHigh),
      (''x-high'', XHigh), (''extrahigh'', XHigh), (''extra-high'', XHigh),
      (''veryhigh'', XHigh), (''very-high'', XHigh)]"

definition alias_lookup :: "string \<Rightarrow> alias_value option" where
  "alias_lookup k =
     (case map_of REASONING_EFFORT_ALIASES k of
        Some e \<Rightarrow> Some (Canonical e)
      | None \<Rightarrow> if k = ''constructor'' then Some Inherited_property else None)"

text \<open>\<open>s.replace(/p+/g, '-')\<close>: every maximal run of matching units becomes one hyphen.\<close>

fun hyphenate :: "(char \<Rightarrow> bool) \<Rightarrow> string \<Rightarrow> string" where
  "hyphenate p [] = []"
| "hyphenate p (c # s) =
     (if p c then CHR ''-'' # hyphenate p (dropWhile p s) else c # hyphenate p s)"

definition alias_key :: "string \<Rightarrow> string" where
  "alias_key value =
     hyphenate (\<lambda>c. c = CHR ''-'')
       (hyphenate (\<lambda>c. js_space c \<or> c = CHR ''_'') (lower (trim value)))"

datatype config_error =
    Invalid_reasoning_effort string
  | Not_an_object string
  | Unsupported_setting string
  | Invalid_executor string
  | Invalid_timeout string
  | Invalid_model string
  | Invalid_effort_type string
  | Invalid_sandbox string
  | Invalid_approval string
  | Invalid_configuration
  | Invalid_profiles
  | Unknown_profile string
  | Unavailable_executor string
  | Unsupported_by_provider

definition normalize_reasoning_effort :: "string \<Rightarrow> config_error + alias_value" where
  "normalize_reasoning_effort value =
     (case alias_lookup (alias_key value) of
        Some a \<Rightarrow> Inr a
      | None \<Rightarrow> Inl (Invalid_reasoning_effort value))"

section \<open>Parsing an operator configuration\<close>

definition SANDBOX_MODES :: "(string \<times> sandbox_mode) list" where
  "SANDBOX_MODES =
     [(''read-only'', Read_only), (''workspace-write'', Workspace_write),
      (''danger-full-access'', Danger_full_access)]"

definition APPROVAL_POLICIES :: "(string \<times> approval_policy) list" where
  "APPROVAL_POLICIES =
     [(''untrusted'', Untrusted), (''on-request'', On_request), (''never'', Never)]"

definition PROFILE_KEYS :: "string list" where
  "PROFILE_KEYS =
     [''executor'', ''timeoutMs'', ''model'', ''reasoningEffort'', ''sandboxMode'', ''approvalPolicy'']"

definition CONFIGURATION_KEYS :: "string list" where
  "CONFIGURATION_KEYS = [''revision'', ''profiles'']"

definition MAX_EXECUTION_TIMEOUT_MS :: int where
  "MAX_EXECUTION_TIMEOUT_MS = 2147483647"

text \<open>The settings of a profile, before its name and revision are attached.\<close>

record profile_settings =
  ps_executor :: string
  ps_timeoutMs :: int
  ps_model :: "string option"
  ps_reasoningEffort :: "alias_value option"
  ps_sandboxMode :: "sandbox_mode option"
  ps_approvalPolicy :: "approval_policy option"

record profile_configuration =
  pc_revision :: string
  pc_profiles :: "(execution_profile_name \<times> profile_settings) list"

text \<open>Membership of an optional enumerated string: absent is accepted, anything else must be listed.\<close>

definition optional_member :: "(string \<times> 'a) list \<Rightarrow> json option \<Rightarrow> bool" where
  "optional_member table v =
     (case v of None \<Rightarrow> True | Some (JString s) \<Rightarrow> map_of table s \<noteq> None | Some _ \<Rightarrow> False)"

definition member_value :: "(string \<times> 'a) list \<Rightarrow> json option \<Rightarrow> 'a option" where
  "member_value table v = (case v of Some (JString s) \<Rightarrow> map_of table s | _ \<Rightarrow> None)"

definition timeout_ok :: "json option \<Rightarrow> bool" where
  "timeout_ok v =
     (case v of
        Some (JNumber n) \<Rightarrow> is_safe_integer n \<and> 1 \<le> n \<and> n \<le> MAX_EXECUTION_TIMEOUT_MS
      | _ \<Rightarrow> False)"

definition string_value :: "json option \<Rightarrow> string" where
  "string_value v = (case v of Some (JString s) \<Rightarrow> s | _ \<Rightarrow> [])"

definition number_value :: "json option \<Rightarrow> int" where
  "number_value v = (case v of Some (JNumber n) \<Rightarrow> n | _ \<Rightarrow> 0)"

definition parse_effort :: "json option \<Rightarrow> config_error + alias_value option" where
  "parse_effort v =
     (case v of
        Some (JString s) \<Rightarrow>
          (case normalize_reasoning_effort s of Inl e \<Rightarrow> Inl e | Inr a \<Rightarrow> Inr (Some a))
      | _ \<Rightarrow> Inr None)"

definition profile_shape_error :: "string \<Rightarrow> (string \<times> json) list \<Rightarrow> config_error option" where
  "profile_shape_error name f = first_error
     [fail_if (\<not> (\<forall>k \<in> set (map fst f). k \<in> set PROFILE_KEYS)) (Unsupported_setting name),
      fail_if (\<not> is_nonempty_string (js_get f ''executor'')) (Invalid_executor name),
      fail_if (\<not> timeout_ok (js_get f ''timeoutMs'')) (Invalid_timeout name),
      fail_if (js_get f ''model'' \<noteq> None \<and> \<not> is_nonempty_string (js_get f ''model'')) (Invalid_model name),
      fail_if (\<not> (case js_get f ''reasoningEffort'' of
                    None \<Rightarrow> True | Some (JString _) \<Rightarrow> True | Some _ \<Rightarrow> False))
        (Invalid_effort_type name),
      fail_if (\<not> optional_member SANDBOX_MODES (js_get f ''sandboxMode'')) (Invalid_sandbox name),
      fail_if (\<not> optional_member APPROVAL_POLICIES (js_get f ''approvalPolicy'')) (Invalid_approval name)]"

fun parse_profile :: "string \<Rightarrow> json \<Rightarrow> config_error + profile_settings" where
  "parse_profile name (JObject f) =
     (case profile_shape_error name f of
        Some e \<Rightarrow> Inl e
      | None \<Rightarrow>
          (case parse_effort (js_get f ''reasoningEffort'') of
             Inl e \<Rightarrow> Inl e
           | Inr effort \<Rightarrow> Inr
               \<lparr> ps_executor = trim (string_value (js_get f ''executor'')),
                 ps_timeoutMs = number_value (js_get f ''timeoutMs''),
                 ps_model = map_option (\<lambda>v. trim (string_value (Some v))) (js_get f ''model''),
                 ps_reasoningEffort = effort,
                 ps_sandboxMode = member_value SANDBOX_MODES (js_get f ''sandboxMode''),
                 ps_approvalPolicy = member_value APPROVAL_POLICIES (js_get f ''approvalPolicy'') \<rparr>))"
| "parse_profile name _ = Inl (Not_an_object name)"

fun parse_profiles ::
  "(string \<times> json) list \<Rightarrow> execution_profile_name list \<Rightarrow>
     config_error + (execution_profile_name \<times> profile_settings) list" where
  "parse_profiles f [] = Inr []"
| "parse_profiles f (p # ps) =
     (case js_get f (profile_text p) of
        None \<Rightarrow> Inl Invalid_profiles
      | Some v \<Rightarrow>
          (case parse_profile (profile_text p) v of
             Inl e \<Rightarrow> Inl e
           | Inr settings \<Rightarrow>
               (case parse_profiles f ps of
                  Inl e \<Rightarrow> Inl e
                | Inr rest \<Rightarrow> Inr ((p, settings) # rest))))"

fun parse_execution_profile_configuration :: "json \<Rightarrow> config_error + profile_configuration" where
  "parse_execution_profile_configuration (JObject f) =
     (case js_get f ''profiles'' of
        Some (JObject profiles) \<Rightarrow>
          if \<not> is_nonempty_string (js_get f ''revision'')
             \<or> \<not> (\<forall>k \<in> set (map fst f). k \<in> set CONFIGURATION_KEYS)
          then Inl Invalid_configuration
          else if (\<exists>k \<in> set (map fst profiles). profile_of_text k = None)
             \<or> (\<exists>p \<in> set EXECUTION_PROFILE_NAMES. js_get profiles (profile_text p) = None)
          then Inl Invalid_profiles
          else (case parse_profiles profiles EXECUTION_PROFILE_NAMES of
                  Inl e \<Rightarrow> Inl e
                | Inr ps \<Rightarrow> Inr \<lparr> pc_revision = trim (string_value (js_get f ''revision'')),
                                    pc_profiles = ps \<rparr>)
      | _ \<Rightarrow> Inl Invalid_configuration)"
| "parse_execution_profile_configuration _ = Inl Invalid_configuration"

section \<open>Resolution\<close>

definition resolve_execution_profile ::
  "profile_configuration \<Rightarrow> string \<Rightarrow> string list \<Rightarrow> config_error + resolved_execution" where
  "resolve_execution_profile configuration selected available =
     (case profile_of_text selected of
        None \<Rightarrow> Inl (Unknown_profile selected)
      | Some p \<Rightarrow>
          (case map_of (pc_profiles configuration) p of
             None \<Rightarrow> Inl Invalid_profiles
           | Some s \<Rightarrow>
               if ps_executor s \<notin> set available then Inl (Unavailable_executor selected)
               else Inr \<lparr> ex_profile = p, ex_revision = pc_revision configuration,
                          ex_executor = ps_executor s, ex_model = ps_model s,
                          ex_reasoningEffort = ps_reasoningEffort s,
                          ex_timeoutMs = ps_timeoutMs s, ex_sandboxMode = ps_sandboxMode s,
                          ex_approvalPolicy = ps_approvalPolicy s \<rparr>))"

text \<open>\<open>assertExecutionSupportedByProvider\<close>: true where the code returns.\<close>

definition execution_supported_by_provider :: "resolved_execution \<Rightarrow> bool" where
  "execution_supported_by_provider e =
     (let codexOnly = ex_reasoningEffort e \<noteq> None \<or> ex_sandboxMode e \<noteq> None
                      \<or> ex_approvalPolicy e \<noteq> None
      in \<not> (ex_executor e = ''claude-code'' \<and> codexOnly
          \<or> ex_executor e = ''worker-router'' \<and> (ex_model e \<noteq> None \<or> codexOnly)
          \<or> ex_executor e = ''luna-isolated'' \<and>
              (ex_profile e \<noteq> Routine \<or> ex_model e \<noteq> Some ''gpt-5.6-luna''
               \<or> ex_sandboxMode e \<noteq> Some Workspace_write \<or> ex_approvalPolicy e \<noteq> Some Never)))"

section \<open>What parsing guarantees\<close>

definition settings_ok :: "profile_settings \<Rightarrow> bool" where
  "settings_ok s \<longleftrightarrow>
     \<not> blank (ps_executor s) \<and> trim (ps_executor s) = ps_executor s
     \<and> 1 \<le> ps_timeoutMs s \<and> ps_timeoutMs s \<le> MAX_EXECUTION_TIMEOUT_MS
     \<and> (\<forall>m. ps_model s = Some m \<longrightarrow> \<not> blank m \<and> trim m = m)"

lemma nonempty_string_value:
  "is_nonempty_string v \<Longrightarrow> \<not> blank (string_value v)"
  by (auto simp: is_nonempty_string_def string_value_def split: option.splits json.splits)

lemma timeout_value:
  "timeout_ok v \<Longrightarrow> 1 \<le> number_value v \<and> number_value v \<le> MAX_EXECUTION_TIMEOUT_MS"
  by (auto simp: timeout_ok_def number_value_def split: option.splits json.splits)

lemma parse_profile_ok:
  assumes "parse_profile name v = Inr s"
  shows "settings_ok s"
proof -
  from assms obtain f where v: "v = JObject f" by (cases v) auto
  from assms[unfolded v] have none: "profile_shape_error name f = None"
    by (auto split: option.splits)
  then have shape: "is_nonempty_string (js_get f ''executor'')" "timeout_ok (js_get f ''timeoutMs'')"
      "js_get f ''model'' = None \<or> is_nonempty_string (js_get f ''model'')"
    by (auto simp: profile_shape_error_def first_error_None_iff)
  from assms[unfolded v] none obtain effort where
    s: "ps_executor s = trim (string_value (js_get f ''executor''))"
       "ps_timeoutMs s = number_value (js_get f ''timeoutMs'')"
       "ps_model s = map_option (\<lambda>v. trim (string_value (Some v))) (js_get f ''model'')"
    by (auto split: sum.splits)
  show ?thesis
    using shape timeout_value[OF shape(2)] nonempty_string_value
    by (auto simp: settings_ok_def s)
qed

lemma parse_profiles_ok:
  "parse_profiles f ps = Inr out \<Longrightarrow>
     map fst out = ps \<and> (\<forall>s \<in> set (map snd out). settings_ok s)"
proof (induction f ps arbitrary: out rule: parse_profiles.induct)
  case (2 f p ps)
  then obtain v settings rest where
    "parse_profile (profile_text p) v = Inr settings"
    "parse_profiles f ps = Inr rest" "out = (p, settings) # rest"
    "js_get f (profile_text p) = Some v"
    by (auto split: option.splits sum.splits)
  with "2.IH"[OF this(4,1)] show ?case by (simp add: parse_profile_ok)
qed simp

lemma parse_configuration_ok:
  assumes "parse_execution_profile_configuration v = Inr c"
  shows "\<not> blank (pc_revision c) \<and> map fst (pc_profiles c) = EXECUTION_PROFILE_NAMES
         \<and> (\<forall>s \<in> set (map snd (pc_profiles c)). settings_ok s)"
proof -
  from assms obtain f where v: "v = JObject f" by (cases v) auto
  from assms[unfolded v] obtain profiles out where
    parsed: "parse_profiles profiles EXECUTION_PROFILE_NAMES = Inr out"
    and rev: "is_nonempty_string (js_get f ''revision'')"
    and c: "c = \<lparr> pc_revision = trim (string_value (js_get f ''revision'')), pc_profiles = out \<rparr>"
    by (auto split: option.splits json.splits if_splits sum.splits)
  show ?thesis
    using parse_profiles_ok[OF parsed] nonempty_string_value[OF rev] by (simp add: c)
qed

text \<open>An accepted operator configuration defines every profile, and resolving any of
  them for an available executor yields a snapshot with a non-blank normalised executor, a
  non-blank revision and a timeout that fits a Node timer.\<close>

theorem accepted_configuration_resolves:
  assumes "parse_execution_profile_configuration v = Inr c"
  shows "\<exists>s. map_of (pc_profiles c) p = Some s \<and>
           (ps_executor s \<in> set available \<longrightarrow>
             (\<exists>e. resolve_execution_profile c (profile_text p) available = Inr e
                \<and> ex_profile e = p \<and> \<not> blank (ex_revision e)
                \<and> \<not> blank (ex_executor e) \<and> trim (ex_executor e) = ex_executor e
                \<and> 1 \<le> ex_timeoutMs e \<and> ex_timeoutMs e \<le> 2147483647))"
proof -
  note ok = parse_configuration_ok[OF assms]
  then have "p \<in> fst ` set (pc_profiles c)"
    by (metis UNIV_I list.set_map set_EXECUTION_PROFILE_NAMES)
  then obtain s where s: "map_of (pc_profiles c) p = Some s"
    by (metis map_of_eq_None_iff not_None_eq)
  with ok have "settings_ok s" by (force dest: map_of_SomeD)
  with ok s show ?thesis
    by (auto simp: resolve_execution_profile_def settings_ok_def MAX_EXECUTION_TIMEOUT_MS_def)
qed

definition sample_profile :: json where
  "sample_profile = JObject [(''executor'', JString '' codex-cli ''), (''timeoutMs'', JNumber 60000),
     (''reasoningEffort'', JString ''Very High'')]"

definition sample_configuration :: json where
  "sample_configuration = JObject [(''revision'', JString ''r1''),
     (''profiles'', JObject [(''routine'', sample_profile), (''standard'', sample_profile),
        (''complex'', sample_profile), (''critical'', sample_profile)])]"

definition sample_parsed :: profile_configuration where
  "sample_parsed = (case parse_execution_profile_configuration sample_configuration of
     Inr c \<Rightarrow> c | Inl _ \<Rightarrow> \<lparr> pc_revision = [], pc_profiles = [] \<rparr>)"

lemma sample_parses: "parse_execution_profile_configuration sample_configuration = Inr sample_parsed"
  by code_simp

theorem accepted_configuration_resolves_witness:
  "\<exists>s. map_of (pc_profiles sample_parsed) Complex = Some s \<and> ps_executor s = ''codex-cli'' \<and>
     (\<exists>e. resolve_execution_profile sample_parsed ''complex'' [''codex-cli''] = Inr e
        \<and> ex_timeoutMs e \<le> 2147483647)"
proof -
  have "map_option ps_executor (map_of (pc_profiles sample_parsed) Complex) = Some ''codex-cli''"
    by code_simp
  then have executor: "map_of (pc_profiles sample_parsed) Complex = Some s \<Longrightarrow> ps_executor s = ''codex-cli''" for s
    by auto
  show ?thesis
    using accepted_configuration_resolves[OF sample_parses, of Complex "[''codex-cli'']"] executor
    by fastforce
qed

text \<open>Every canonical reasoning effort, however the operator spells its case and
  spacing around it, is read back as itself; no alias weakens a request.\<close>

theorem canonical_effort_roundtrip:
  assumes "blank pad" and "blank pad'" and "lower spelling = effort_text e"
  shows "normalize_reasoning_effort (pad @ spelling @ pad') = Inr (Canonical e)"
proof -
  have "\<not> js_space c" if "c \<in> set spelling" for c
  proof
    assume "js_space c"
    with that have "c \<in> set (lower spelling)"
      by (metis imageI lower_char_space lower_def set_map)
    with assms(3) \<open>js_space c\<close> show False
      by (cases e) (auto simp: js_space_def)
  qed
  then have "trim (pad @ spelling @ pad') = spelling"
    using assms(1,2) by (simp add: trim_pad trim_no_space)
  then have "alias_key (pad @ spelling @ pad') =
      hyphenate (\<lambda>c. c = CHR ''-'') (hyphenate (\<lambda>c. js_space c \<or> c = CHR ''_'') (effort_text e))"
    by (simp add: alias_key_def assms(3))
  also have "\<dots> = effort_text e"
    by (cases e) (simp_all add: js_space_def)
  finally show ?thesis
    by (cases e) (simp_all add: normalize_reasoning_effort_def alias_lookup_def
        REASONING_EFFORT_ALIASES_def)
qed

theorem canonical_effort_roundtrip_witness:
  "normalize_reasoning_effort ('' '' @ ''XHigh'' @ [CHR 0x09]) = Inr (Canonical XHigh)"
proof (rule canonical_effort_roundtrip)
  show "blank '' ''" "blank [CHR 0x09]" "lower ''XHigh'' = effort_text XHigh"
    by code_simp+
qed

text \<open>The alias table is a plain object, so the spelling \<open>constructor\<close> is accepted: the
  value handed on is the inherited property and not one of the canonical efforts.\<close>

theorem inherited_key_accepted:
  "normalize_reasoning_effort ''Constructor'' = Inr Inherited_property"
  by code_simp

end
