(* ===== verification/Domain_Types.thy ===== *)
theory Domain_Types
  imports Execution_Profiles
begin

text \<open>
  The plain data the workflow core sees: \<^verbatim>\<open>src/domain/types.ts\<close> up to the result of a
  review and of a validation, and the telemetry records of \<^verbatim>\<open>src/domain/telemetry.ts\<close>.
  Field names carry a prefix for their record; the rest of the name is the source's.
\<close>

section \<open>Targets and workflow states\<close>

datatype target =
    Issue (t_owner: string) (t_repo: string) (t_issueNumber: int)
  | Repository (t_owner: string) (t_repo: string) (t_branch: string)
      (t_publicationBranch: "string option")

datatype workflow_state =
    READY | IMPLEMENTING | VALIDATING | REVIEWING | CHANGES_REQUESTED | FINAL_GATE
  | MERGE_READY | MERGED | WAITING_DEPENDENCY | NEEDS_HUMAN | FAILED

fun state_name :: "workflow_state \<Rightarrow> string" where
  "state_name READY = ''READY''"
| "state_name IMPLEMENTING = ''IMPLEMENTING''"
| "state_name VALIDATING = ''VALIDATING''"
| "state_name REVIEWING = ''REVIEWING''"
| "state_name CHANGES_REQUESTED = ''CHANGES_REQUESTED''"
| "state_name FINAL_GATE = ''FINAL_GATE''"
| "state_name MERGE_READY = ''MERGE_READY''"
| "state_name MERGED = ''MERGED''"
| "state_name WAITING_DEPENDENCY = ''WAITING_DEPENDENCY''"
| "state_name NEEDS_HUMAN = ''NEEDS_HUMAN''"
| "state_name FAILED = ''FAILED''"

datatype transition_type =
    T_start | T_bootstrap_prepared | T_agent_succeeded | T_agent_failed
  | T_validation_passed | T_validation_failed | T_review_approved | T_changes_requested
  | T_start_fix | T_repair_executor_handoff | T_repair_executor_continued | T_revalidate
  | T_recheck_readiness | T_gate_blocked | T_merged | T_wait_dependency
  | T_dependency_satisfied | T_escalate | T_human_resolved | T_fail

fun transition_name :: "transition_type \<Rightarrow> string" where
  "transition_name T_start = ''start''"
| "transition_name T_bootstrap_prepared = ''bootstrap_prepared''"
| "transition_name T_agent_succeeded = ''agent_succeeded''"
| "transition_name T_agent_failed = ''agent_failed''"
| "transition_name T_validation_passed = ''validation_passed''"
| "transition_name T_validation_failed = ''validation_failed''"
| "transition_name T_review_approved = ''review_approved''"
| "transition_name T_changes_requested = ''changes_requested''"
| "transition_name T_start_fix = ''start_fix''"
| "transition_name T_repair_executor_handoff = ''repair_executor_handoff''"
| "transition_name T_repair_executor_continued = ''repair_executor_continued''"
| "transition_name T_revalidate = ''revalidate''"
| "transition_name T_recheck_readiness = ''recheck_readiness''"
| "transition_name T_gate_blocked = ''gate_blocked''"
| "transition_name T_merged = ''merged''"
| "transition_name T_wait_dependency = ''wait_dependency''"
| "transition_name T_dependency_satisfied = ''dependency_satisfied''"
| "transition_name T_escalate = ''escalate''"
| "transition_name T_human_resolved = ''human_resolved''"
| "transition_name T_fail = ''fail''"

definition TRANSITION_TYPES :: "transition_type list" where
  "TRANSITION_TYPES =
     [T_start, T_bootstrap_prepared, T_agent_succeeded, T_agent_failed, T_validation_passed,
      T_validation_failed, T_review_approved, T_changes_requested, T_start_fix,
      T_repair_executor_handoff, T_repair_executor_continued, T_revalidate, T_recheck_readiness,
      T_gate_blocked, T_merged, T_wait_dependency, T_dependency_satisfied, T_escalate,
      T_human_resolved, T_fail]"

lemma set_TRANSITION_TYPES [simp]: "set TRANSITION_TYPES = UNIV"
  unfolding TRANSITION_TYPES_def by (auto intro: transition_type.exhaust)

text \<open>Transition types are ordered by their names, as \<open>Array.prototype.sort\<close> orders them.\<close>

lemma transition_name_inj: "transition_name a = transition_name b \<Longrightarrow> a = b"
  by (cases a; cases b) simp_all

instantiation transition_type :: linorder
begin

definition less_eq_transition_type :: "transition_type \<Rightarrow> transition_type \<Rightarrow> bool" where
  "less_eq_transition_type a b \<longleftrightarrow> transition_name a \<le> transition_name b"

definition less_transition_type :: "transition_type \<Rightarrow> transition_type \<Rightarrow> bool" where
  "less_transition_type a b \<longleftrightarrow> transition_name a < transition_name b"

instance
  by standard (auto simp: less_eq_transition_type_def less_transition_type_def
      intro: transition_name_inj)

end

section \<open>Agents, reviews and validation evidence\<close>

datatype bootstrap_kind = Linked_worktree | Standalone_isolated

record bootstrap_identity =
  b_bootstrapKind :: bootstrap_kind
  b_owner :: string
  b_repo :: string
  b_issueNumber :: int
  b_baseBranch :: string
  b_baseSha :: string
  b_branch :: string
  b_publicationBranch :: "string option"
  b_workspacePath :: string

record pull_request_identity =
  pr_number :: int
  pr_headSha :: string

datatype agent_exit_status = Success | Failure

record executor_identity =
  e_provider :: string
  e_sessionId :: string
  e_generation :: "string option"

datatype review_verdict = Approve | Request_changes

datatype finding_severity = Blocking | Non_blocking

record review_finding =
  f_severity :: finding_severity
  f_summary :: string
  f_detail :: "string option"

datatype validation_status = Passed | Failed | Waiting | Unknown

datatype command_outcome = C_passed | C_failed | C_timed_out | C_unavailable | C_malformed

record command_evidence =
  c_commandIndex :: int
  c_executable :: string
  c_outcome :: command_outcome
  c_exitCode :: "int option"
  c_durationMs :: int

datatype local_status = L_passed | L_failed | L_unknown

record local_evidence =
  l_status :: local_status
  l_configRevision :: "string option"
  l_commands :: "command_evidence list"

datatype hosted_status = H_passed | H_failed | H_waiting | H_unknown | H_not_required
datatype availability = Available | Unavailable
datatype overall_checks = O_pending | O_passing | O_failing | O_unknown | O_unavailable
datatype policy_mode = M_required | M_not_required | M_unconfigured

record hosted_evidence =
  h_status :: hosted_status
  h_observedAt :: string
  h_pullRequestNumber :: "int option"
  h_availability :: availability
  h_overall :: overall_checks
  h_policyRevision :: "string option"
  h_policyMode :: policy_mode
  h_requiredCheckNames :: "string list"
  h_observedCheckNames :: "string list"

record validation_result =
  v_headSha :: string
  v_status :: validation_status
  v_local :: local_evidence
  v_hosted :: hosted_evidence

section \<open>Telemetry records\<close>

text \<open>\<open>MetricObservation\<close>: \<open>Partial value observedSamples totalSamples reason\<close>.\<close>

datatype 'a metric =
    Observed 'a
  | Partial 'a nat nat string
  | Unobserved string

record efficiency_thresholds =
  th_revision :: string
  th_repeatedUnchangedStateWakeups :: int
  th_reviewerStartsAtSameHead :: int
  th_largeToolResultBytes :: int
  th_repeatedConfigurationPreflightFailures :: int
  th_reviewerRestarts :: int

datatype telemetry_role = Worker | Reviewer | Lead
datatype spawn_attempt_kind = K_initial | K_resume | K_repair | K_review | K_review_restart | K_lead
datatype spawn_context_mode = Bounded | Full | Context_unknown
datatype spawn_context_justification = Live_target_bounded | Operator_full_override
datatype provider_failure_category = Configuration_preflight | Executed_runtime
datatype completion_outcome = Completed | Outcome_failed | Configuration_preflight_failed

record provider_token_usage =
  u_inputTokens :: "int option"
  u_cachedInputTokens :: "int option"
  u_outputTokens :: "int option"
  u_reasoningTokens :: "int option"

record provider_capability =
  cap_source :: string
  cap_revision :: "string option"
  cap_verified :: "bool option"
  cap_unverifiedReason :: "string option"

record provider_failure =
  fail_category :: provider_failure_category
  fail_code :: string

record provider_context =
  ctx_initialTokens :: "int option"
  ctx_peakTokens :: "int option"

record provider_telemetry =
  pt_provider :: string
  pt_model :: "string option"
  pt_reasoningEffort :: "string option"
  pt_turns :: "int option"
  pt_usage :: "provider_token_usage option"
  pt_capability :: "provider_capability option"
  pt_failure :: "provider_failure option"
  pt_context :: "provider_context option"
  pt_largestToolResultBytes :: "int option"

record spawn_event =
  sp_id :: string
  sp_at :: string
  sp_role :: telemetry_role
  sp_invocationId :: string
  sp_attempt :: nat
  sp_attemptKind :: spawn_attempt_kind
  sp_headSha :: "string option"
  sp_provider :: "string option"
  sp_model :: "string option"
  sp_reasoningEffort :: "string option"
  sp_profile :: "string option"
  sp_contextMode :: spawn_context_mode
  sp_contextJustification :: "spawn_context_justification option"

record metric_usage =
  mu_inputTokens :: "int metric"
  mu_cachedInputTokens :: "int metric"
  mu_outputTokens :: "int metric"
  mu_reasoningTokens :: "int metric"

record metric_capability =
  mc_source :: string
  mc_revision :: "string metric"
  mc_verified :: "bool option"
  mc_unverifiedReason :: "string option"

record metric_context =
  mx_initialTokens :: "int metric"
  mx_peakTokens :: "int metric"

record completion_event =
  co_id :: string
  co_at :: string
  co_role :: telemetry_role
  co_invocationId :: string
  co_provider :: "string option"
  co_model :: "string option"
  co_reasoningEffort :: "string option"
  co_outcome :: completion_outcome
  co_failureCode :: "string option"
  co_turns :: "int metric"
  co_usage :: metric_usage
  co_capability :: "metric_capability option"
  co_context :: metric_context
  co_largestToolResultBytes :: "int metric"

record wait_event =
  we_id :: string
  we_at :: string
  we_state :: string
  we_headSha :: "string option"
  we_reason :: "string option"
  we_observationSource :: "string option"
  we_subjectId :: "string option"
  we_observationStatus :: "string option"
  we_observationDigest :: "string option"

datatype telemetry_event =
    Spawn spawn_event
  | Completion completion_event
  | Wait_status_wakeup wait_event

fun event_id :: "telemetry_event \<Rightarrow> string" where
  "event_id (Spawn e) = sp_id e"
| "event_id (Completion e) = co_id e"
| "event_id (Wait_status_wakeup e) = we_id e"

datatype telemetry_coverage = Complete_coverage | Partial_coverage

record run_telemetry =
  tel_revision :: string
  tel_coverage :: telemetry_coverage
  tel_thresholds :: efficiency_thresholds
  tel_events :: "telemetry_event list"

section \<open>Results that carry provider telemetry\<close>

record agent_result =
  a_exitStatus :: agent_exit_status
  a_summary :: string
  a_headSha :: "string option"
  a_changedFiles :: "string list option"
  a_diagnostics :: "string list option"
  a_executor :: "executor_identity option"
  a_sessionId :: "string option"
  a_durationMs :: "int option"
  a_telemetry :: "provider_telemetry option"

record review_result =
  r_verdict :: review_verdict
  r_reviewerName :: string
  r_headSha :: string
  r_findings :: "review_finding list"
  r_telemetry :: "provider_telemetry option"

end
