(* ===== verification/Native_Types.thy ===== *)
theory Native_Types
  imports Domain_Types
begin

text \<open>
  The records of the native oracle boundary that a run carries: the review and lead
  ledgers (\<^verbatim>\<open>src/oracle/types.ts\<close>, \<^verbatim>\<open>src/oracle/native-lead.ts\<close>,
  \<^verbatim>\<open>src/oracle/completion-proof.ts\<close>), the merge attempt (\<^verbatim>\<open>src/workflow/merge.ts\<close>) and
  the dispatch location they may retain (\<^verbatim>\<open>src/dispatch/config.ts\<close>).
\<close>

datatype oracle_effort = Oracle_Medium | Oracle_High | Oracle_Extra_High

datatype review_risk_tier = R1 | R2 | R3 | R4 | R5

record merge_policy =
  mp_enabled :: bool
  mp_revision :: string
  mp_releaseId :: string
  mp_campaign :: string
  mp_dispatchRevision :: string
  mp_owner :: string
  mp_repo :: string
  mp_controlIssue :: int
  mp_queueCommentId :: int
  mp_baseBranch :: string
  mp_method :: string
  mp_integrationPolicy :: string
  mp_reviewPolicyRevision :: string
  mp_localValidationRevision :: string
  mp_hostedValidationRevision :: string

record dispatch_configuration =
  dc_owner :: string
  dc_repo :: string
  dc_controlIssue :: int
  dc_queueCommentId :: int
  dc_revision :: string
  dc_leaseDurationMs :: int
  dc_merge :: "merge_policy option"

record completion_proof =
  cp_file :: string
  cp_digest :: string

section \<open>Native review\<close>

record review_identity =
  ri_requestId :: string
  ri_correlationId :: string
  ri_runId :: string
  ri_claimId :: string
  ri_missionId :: string
  ri_laneId :: string
  ri_ownerGeneration :: int
  ri_phase :: string
  ri_targetKey :: string
  ri_repository :: string
  ri_pullRequestNumber :: int
  ri_baseSha :: string
  ri_headSha :: string
  ri_contractRevision :: string
  ri_role :: string
  ri_scope :: string
  ri_policyRevision :: string
  ri_bindingId :: string
  ri_requestedModel :: string
  ri_requestedEffort :: oracle_effort
  ri_floor :: review_risk_tier
  ri_sourceSha256 :: string
  ri_diffSha256 :: string

datatype request_status =
  Pending | Qualified_complete | Incomplete | Terminal_unknown | Retired | Replaced

datatype native_failure = Transport_failure | Safety_refusal | Missing_evidence

record review_request =
  rr_identity :: review_identity
  rr_status :: request_status
  rr_submissionPossible :: bool
  rr_observations :: int
  rr_nextObservationAt :: string
  rr_conversationUrl :: "string option"
  rr_failure :: "native_failure option"
  rr_replacedBy :: "string option"
  rr_terminalDigest :: "string option"
  rr_completionProof :: "completion_proof option"
  rr_terminalStatus :: "request_status option"
  rr_retirementReason :: "string option"

record review_acceptance =
  ra_requestId :: string
  ra_receiptId :: string
  ra_digest :: string
  ra_identity :: review_identity

datatype review_wait_kind = W_binding | W_request | W_lead | W_qualification

record review_wait =
  rw_kind :: review_wait_kind
  rw_nextAttemptAt :: string

record native_review =
  nr_recoveryConfiguration :: "dispatch_configuration option"
  nr_repairLimit :: "int option"
  nr_requests :: "review_request list"
  nr_activeRequestId :: "string option"
  nr_accepted :: "review_acceptance option"
  nr_wait :: "review_wait option"

record review_authentication =
  au_actorId :: string
  au_model :: string
  au_effort :: oracle_effort
  au_transportReceipt :: string

text \<open>The \<open>terminal\<close> variant of \<open>NativeOracleEvidence\<close>.\<close>

record review_terminal =
  rt_id :: string
  rt_identity :: review_identity
  rt_result :: review_result
  rt_authentication :: review_authentication

section \<open>Native lead\<close>

record lead_origin =
  lo_requestId :: string
  lo_receiptId :: string
  lo_digest :: string

record lead_identity =
  li_requestId :: string
  li_correlationId :: string
  li_incarnation :: string
  li_runId :: string
  li_claimId :: string
  li_missionId :: string
  li_laneId :: string
  li_ownerGeneration :: int
  li_phase :: string
  li_role :: string
  li_repository :: string
  li_targetKey :: string
  li_pullRequestNumber :: int
  li_baseSha :: string
  li_headSha :: string
  li_origin :: lead_origin
  li_authoritySha256 :: string
  li_sourceSha256 :: string
  li_diffSha256 :: string
  li_packetSha256 :: string
  li_blockingFindingIds :: "string list"
  li_repairOrdinal :: int
  li_repairLimit :: int
  li_bindingId :: string
  li_policyRevision :: string
  li_requestedModel :: string
  li_requestedEffort :: oracle_effort

datatype lead_stop_reason =
    Disputed_blocking_finding | Scope_or_authority_change | Complex_or_decision_required
  | Qualified_execution_unavailable | Cannot_safely_repair

datatype lead_disposition =
    Lead_repair (ld_origin: lead_origin) (ld_authoritySha256: string)
      (ld_acceptedFindingIds: "string list") (ld_instructions: string)
  | Lead_stop (ld_reason: lead_stop_reason) (ld_evidence: string)

record lead_request =
  lr_identity :: lead_identity
  lr_status :: request_status
  lr_submissionPossible :: bool
  lr_observations :: int
  lr_nextObservationAt :: string
  lr_conversationUrl :: "string option"
  lr_failure :: "native_failure option"
  lr_replacedBy :: "string option"
  lr_replacementReason :: "string option"
  lr_terminalDigest :: "string option"
  lr_completionProof :: "completion_proof option"

record lead_acceptance =
  la_requestId :: string
  la_receiptId :: string
  la_digest :: string
  la_identity :: lead_identity
  la_disposition :: lead_disposition

datatype succession_status = Prepared | Confirmed
datatype predecessor_status = Parked | Released

record owner_succession =
  os_missionId :: string
  os_laneId :: string
  os_claimId :: string
  os_workspace :: string
  os_fromGeneration :: int
  os_toGeneration :: int
  os_predecessorSha256 :: string
  os_status :: succession_status
  os_predecessorGeneration :: int
  os_predecessorPhase :: string
  os_predecessorStatus :: predecessor_status

record stopped_recovery =
  sr_fromGeneration :: int
  sr_releasedGeneration :: int
  sr_missionId :: string
  sr_workspace :: string
  sr_receiptSha256 :: string

datatype lead_wait_kind = LW_binding | LW_request | LW_qualification | LW_stop

record lead_wait =
  lw_kind :: lead_wait_kind
  lw_nextAttemptAt :: string

record native_lead =
  nl_recoveryConfiguration :: "dispatch_configuration option"
  nl_requests :: "lead_request list"
  nl_acceptances :: "lead_acceptance list"
  nl_ownerSuccessions :: "owner_succession list"
  nl_stoppedRecoveries :: "stopped_recovery list option"
  nl_activeRequestId :: "string option"
  nl_wait :: "lead_wait option"

text \<open>\<open>LeadRepairReference\<close> extends an acceptance with the evidence it consumes.\<close>

record lead_repair_reference = lead_acceptance +
  lrr_originEvidence :: review_terminal
  lrr_consumptionGeneration :: int
  lrr_implementationAuthoritySha256 :: string
  lrr_instructionsSha256 :: string

section \<open>Merge attempt\<close>

record merge_identity =
  mi_attemptId :: string
  mi_runId :: string
  mi_claimId :: string
  mi_missionId :: string
  mi_laneId :: string
  mi_generation :: int
  mi_pullRequestNumber :: int
  mi_sourceBranch :: string
  mi_headSha :: string
  mi_baseSha :: string
  mi_treeSha :: string
  mi_reviewDigest :: string
  mi_validationDigest :: string
  mi_policy :: merge_policy
  mi_preparedAt :: string

record merge_qualification =
  mq_mergeCommitSha :: string
  mq_parentSha :: string
  mq_treeSha :: string
  mq_mainSha :: string
  mq_observedAt :: string

record merge_attempt =
  ma_identity :: merge_identity
  ma_submissionPossible :: bool
  ma_issuanceGeneration :: "int option"
  ma_observations :: int
  ma_nextObservationAt :: string
  ma_observedMerged :: "(string \<times> string) option"
  ma_qualification :: "merge_qualification option"
  ma_reason :: "string option"

end
