(* ===== verification/Run_Types.thy ===== *)
theory Run_Types
  imports Native_Types
begin

text \<open>
  The persisted unit of work: repair admissions and hand-offs
  (\<^verbatim>\<open>src/domain/repair-admission.ts\<close>), the original implementation authority
  (\<^verbatim>\<open>src/domain/implementation-authority.ts\<close>, \<^verbatim>\<open>src/agents/implementation-packet.ts\<close>),
  interrupts, history, the run and the payload of a transition
  (\<^verbatim>\<open>src/domain/types.ts\<close>), and the run a target starts as (\<^verbatim>\<open>src/domain/run.ts\<close>).
\<close>

section \<open>Repair admission\<close>

datatype task_shape = Shape_bounded | Shape_interacting | Shape_decision

record repair_task_shape_authority =
  au_revision :: string
  au_shape :: task_shape

datatype repair_finding_kind = Review_blocking | Validation_failed

text \<open>\<open>executionProfile\<close> of a snapshot: only these two profiles can be admitted.\<close>

datatype repair_profile = Repair_routine | Repair_complex

record repair_attempt_binding =
  bi_admissionIndex :: int
  bi_startFixHistoryIndex :: int
  bi_predecessorExecutor :: "executor_identity option"
  bi_predecessorSessionId :: "string option"
  bi_freshExecutor :: bool
  bi_runtimeGeneration :: string

record repair_admission_snapshot =
  ad_leadDisposition :: "lead_repair_reference option"
  ad_packetSha256 :: "string option"
  ad_budgetLimit :: "int option"
  ad_authorityRevision :: string
  ad_taskShape :: task_shape
  ad_taxonomyRevision :: string
  ad_finding :: repair_finding_kind
  ad_headSha :: string
  ad_pullRequestNumber :: int
  ad_executionProfile :: repair_profile
  ad_executionRevision :: string
  ad_execution :: resolved_execution
  ad_admittedAt :: string
  ad_attemptBinding :: "repair_attempt_binding option"

datatype repair_executor_handoff =
    Handoff_executor executor_identity
  | Handoff_sessionless string

record repair_handoff_record =
  hr_admissionHistoryIndex :: int
  hr_startFixHistoryIndex :: int
  hr_outcome :: repair_executor_handoff

section \<open>Original implementation authority\<close>

datatype packet_kind = Packet_initial | Packet_validation_repair | Packet_review_repair
datatype handoff_scope = Scope_issue | Scope_pull_request
datatype handoff_freshness = Current | Stale | Freshness_unknown

record packet_identity =
  pi_runId :: string
  pi_target :: target
  pi_workspacePath :: string
  pi_branch :: string
  pi_baseSha :: string
  pi_execution :: resolved_execution

record packet_issue =
  is_id :: string
  is_number :: int
  is_updatedAt :: string
  is_title :: string
  is_body :: string

record packet_scope =
  sc_sourceId :: string
  sc_sourceScope :: handoff_scope
  sc_sourceUpdatedAt :: string
  sc_freshness :: handoff_freshness
  sc_text :: string

record packet_repair =
  re_headSha :: string
  re_pullRequestNumber :: int
  re_evidenceRef :: string
  re_evidence :: string
  re_evidenceKind :: string
  re_evidenceHeadSha :: string
  re_evidencePullRequestNumber :: int
  re_evidenceStatus :: string
  re_blockingFindings :: "string list"
  re_leadDisposition :: "lead_repair_reference option"

record implementation_packet_input =
  ip_kind :: packet_kind
  ip_identity :: packet_identity
  ip_repository :: "string \<times> string"
  ip_issue :: packet_issue
  ip_acceptedScope :: packet_scope
  ip_repair :: "packet_repair option"

record original_implementation_authority =
  oa_input :: implementation_packet_input
  oa_taskShape :: repair_task_shape_authority
  oa_packetSha256 :: string

section \<open>History and interrupts\<close>

datatype interrupt_kind = Needs_human_interrupt | Waiting_dependency_interrupt

record interrupt =
  i_kind :: interrupt_kind
  i_reason :: string
  i_createdAt :: string
  i_resolvedAt :: "string option"
  i_evidence :: "string option"
  i_choices :: "string list option"

record native_lead_stop =
  st_requestId :: string
  st_receiptId :: string
  st_digest :: string

text \<open>
  What a history record names: a transition, the marker the workflow's own final gate
  records, or the retired marker old histories contain.
\<close>

datatype history_type = Applied transition_type | Final_gate_verified | Gate_passed

record transition_record =
  tr_nativeLeadStop :: "native_lead_stop option"
  tr_type :: history_type
  tr_from :: workflow_state
  tr_to :: workflow_state
  tr_at :: string
  tr_reason :: "string option"
  tr_repairHandoff :: "repair_handoff_record option"
  tr_repairAdmissionIndex :: "int option"

section \<open>The run and a transition's payload\<close>

record run =
  run_id :: string
  run_target :: target
  run_state :: workflow_state
  run_createdAt :: string
  run_updatedAt :: string
  run_dispatchClaimId :: "string option"
  run_history :: "transition_record list"
  run_execution :: "resolved_execution option"
  run_repairTaskShapeAuthority :: "repair_task_shape_authority option"
  run_implementationAuthority :: "original_implementation_authority option"
  run_repairAdmissions :: "repair_admission_snapshot list option"
  run_interruptedFrom :: "workflow_state option"
  run_interrupt :: "interrupt option"
  run_agentResult :: "agent_result option"
  run_executor :: "executor_identity option"
  run_bootstrap :: "bootstrap_identity option"
  run_pullRequest :: "pull_request_identity option"
  run_reviewResult :: "review_result option"
  run_nativeReview :: "native_review option"
  run_nativeLead :: "native_lead option"
  run_mergeAttempt :: "merge_attempt option"
  run_validationResult :: "validation_result option"
  run_headSha :: "string option"
  run_telemetry :: "run_telemetry option"

record transition_input =
  in_nativeLeadStop :: "native_lead_stop option"
  in_type :: transition_type
  in_reason :: "string option"
  in_agentResult :: "agent_result option"
  in_reviewResult :: "review_result option"
  in_validationResult :: "validation_result option"
  in_headSha :: "string option"
  in_executor :: "executor_identity option"
  in_repairAdmission :: "repair_admission_snapshot option"
  in_repairAgentResult :: "agent_result option"
  in_bootstrap :: "bootstrap_identity option"
  in_pullRequest :: "pull_request_identity option"
  in_interruptEvidence :: "string option"
  in_interruptChoices :: "string list option"

text \<open>A payload that carries nothing but its type.\<close>

definition bare_input :: "transition_type \<Rightarrow> transition_input" where
  "bare_input t =
     \<lparr> in_nativeLeadStop = None, in_type = t, in_reason = None, in_agentResult = None,
       in_reviewResult = None, in_validationResult = None, in_headSha = None,
       in_executor = None, in_repairAdmission = None, in_repairAgentResult = None,
       in_bootstrap = None, in_pullRequest = None, in_interruptEvidence = None,
       in_interruptChoices = None \<rparr>"

end
