(* ===== verification/Validation.thy ===== *)
theory Validation
  imports Run_Types
begin

text \<open>
  \<^verbatim>\<open>src/domain/validation.ts\<close>: when a persisted validation result is coherent, that is,
  when its aggregate status is the one its local and hosted evidence imply; and the
  bounded human decisions of \<^verbatim>\<open>src/domain/decisions.ts\<close>.

  The code reads \<open>unknown\<close> values; here the records' types discharge the \<open>typeof\<close> and
  enumeration tests, and every test on a value is kept.
\<close>

section \<open>Bounded decisions\<close>

definition LIVE_HEAD_SYNC_DECISION :: string where
  "LIVE_HEAD_SYNC_DECISION = ''Sync the run to the live HEAD and continue''"

definition REESTABLISH_READINESS_DECISION :: string where
  "REESTABLISH_READINESS_DECISION = ''Re-establish current readiness authority''"

definition RECOVER_LEGACY_PULL_REQUEST_DECISION :: string where
  "RECOVER_LEGACY_PULL_REQUEST_DECISION =
     ''Re-establish the accepted pull request and exact HEAD, then retry''"

definition CANCEL_RUN_DECISION :: string where
  "CANCEL_RUN_DECISION = ''Cancel the run''"

definition LIVE_HEAD_SYNC_INTERRUPT_STATES :: "workflow_state list" where
  "LIVE_HEAD_SYNC_INTERRUPT_STATES =
     [IMPLEMENTING, VALIDATING, REVIEWING, CHANGES_REQUESTED, FINAL_GATE]"

definition can_synchronize_interrupted_head :: "workflow_state option \<Rightarrow> bool" where
  "can_synchronize_interrupted_head s \<longleftrightarrow>
     (case s of None \<Rightarrow> False | Some st \<Rightarrow> st \<in> set LIVE_HEAD_SYNC_INTERRUPT_STATES)"

definition can_reestablish_interrupted_readiness :: "workflow_state option \<Rightarrow> bool" where
  "can_reestablish_interrupted_readiness s \<longleftrightarrow> s = Some MERGE_READY"

definition can_recover_legacy_pull_request :: "workflow_state option \<Rightarrow> bool" where
  "can_recover_legacy_pull_request s \<longleftrightarrow> s = Some CHANGES_REQUESTED"

section \<open>Local evidence\<close>

fun commands_ok :: "int \<Rightarrow> command_evidence list \<Rightarrow> bool" where
  "commands_ok i [] = True"
| "commands_ok i (c # cs) =
     (c_commandIndex c = i
      \<and> (\<not> blank (c_executable c) \<or> c_outcome c = C_malformed)
      \<and> is_safe_integer (c_durationMs c) \<and> 0 \<le> c_durationMs c
      \<and> commands_ok (i + 1) cs)"

definition final_command :: "command_evidence list \<Rightarrow> command_evidence option" where
  "final_command cs = (if cs = [] then None else Some (last cs))"

definition is_local_evidence :: "local_evidence \<Rightarrow> bool" where
  "is_local_evidence ev \<longleftrightarrow>
     absent_or (\<lambda>r. \<not> blank r) (l_configRevision ev) \<and> commands_ok 0 (l_commands ev) \<and>
     (case l_status ev of
        L_passed \<Rightarrow> l_commands ev \<noteq> []
          \<and> (\<forall>c \<in> set (l_commands ev). c_outcome c = C_passed \<and> c_exitCode c = Some 0)
      | L_failed \<Rightarrow>
          (case final_command (l_commands ev) of
             None \<Rightarrow> False
           | Some c \<Rightarrow> c_outcome c = C_timed_out \<or> c_outcome c = C_failed \<and> c_exitCode c \<noteq> Some 0)
      | L_unknown \<Rightarrow> l_configRevision ev = None \<and> l_commands ev = []
          \<or> (case final_command (l_commands ev) of
               None \<Rightarrow> False
             | Some c \<Rightarrow> c_outcome c = C_unavailable \<or> c_outcome c = C_malformed))"

section \<open>Hosted evidence\<close>

definition expected_hosted_status :: "hosted_evidence \<Rightarrow> hosted_status" where
  "expected_hosted_status h =
     (if h_availability h \<noteq> Available then H_unknown
      else case h_overall h of
          O_passing \<Rightarrow> H_passed | O_failing \<Rightarrow> H_failed | O_pending \<Rightarrow> H_waiting | _ \<Rightarrow> H_unknown)"

definition is_hosted_evidence :: "hosted_evidence \<Rightarrow> bool" where
  "is_hosted_evidence h \<longleftrightarrow>
     \<not> blank (h_observedAt h)
     \<and> absent_or (\<lambda>n. is_safe_integer n \<and> 1 \<le> n) (h_pullRequestNumber h)
     \<and> absent_or (\<lambda>r. \<not> blank r) (h_policyRevision h)
     \<and> (\<forall>n \<in> set (h_requiredCheckNames h). \<not> blank n)
     \<and> (\<forall>n \<in> set (h_observedCheckNames h). \<not> blank n)
     \<and> \<not> (h_policyMode h \<noteq> M_required \<and> h_requiredCheckNames h \<noteq> [])
     \<and> (if h_status h = H_not_required then h_policyMode h = M_not_required
        else if h_policyMode h = M_not_required then False
        else if h_policyMode h = M_unconfigured then h_status h = H_unknown
        else if h_policyMode h = M_required
          \<and> ((\<exists>n \<in> set (h_requiredCheckNames h). n \<notin> set (h_observedCheckNames h))
             \<or> h_overall h = O_passing \<and> h_observedCheckNames h = [])
        then h_status h = H_unknown
        else h_status h = expected_hosted_status h)"

section \<open>The aggregate\<close>

definition expected_status :: "local_evidence \<Rightarrow> hosted_evidence \<Rightarrow> validation_status" where
  "expected_status l h =
     (if l_status l = L_failed \<or> h_status h = H_failed then Failed
      else if l_status l = L_unknown \<or> h_status h = H_unknown then Unknown
      else if h_status h = H_waiting then Waiting else Passed)"

definition is_validation_result_coherent :: "validation_result \<Rightarrow> bool" where
  "is_validation_result_coherent v \<longleftrightarrow>
     \<not> blank (v_headSha v) \<and> is_local_evidence (v_local v) \<and> is_hosted_evidence (v_hosted v)
     \<and> v_status v = expected_status (v_local v) (v_hosted v)"

text \<open>The same test on an optional value: \<open>undefined\<close> is not coherent.\<close>

definition coherent_validation :: "validation_result option \<Rightarrow> bool" where
  "coherent_validation v = (case v of None \<Rightarrow> False | Some r \<Rightarrow> is_validation_result_coherent r)"

lemmas validation_shape [shape_defs] =
  is_validation_result_coherent_def is_local_evidence_def is_hosted_evidence_def
  expected_status_def expected_hosted_status_def

lemma coherent_validation_simps [simp]:
  "\<not> coherent_validation None"
  "coherent_validation (Some r) \<longleftrightarrow> is_validation_result_coherent r"
  by (simp_all add: coherent_validation_def)

lemma passed_local:
  "is_local_evidence l \<Longrightarrow> l_status l = L_passed \<Longrightarrow>
     l_commands l \<noteq> [] \<and> (\<forall>c \<in> set (l_commands l). c_outcome c = C_passed \<and> c_exitCode c = Some 0)"
  by (simp add: is_local_evidence_def)

lemma passed_hosted:
  assumes "is_hosted_evidence h" and "h_status h = H_passed"
  shows "h_policyMode h = M_required \<and> h_availability h = Available \<and> h_overall h = O_passing
         \<and> h_observedCheckNames h \<noteq> []
         \<and> set (h_requiredCheckNames h) \<subseteq> set (h_observedCheckNames h)"
  using assms
  by (cases "h_policyMode h"; cases "h_overall h"; cases "h_availability h")
     (auto simp: is_hosted_evidence_def expected_hosted_status_def split: if_splits)

text \<open>Validation fails closed: a coherent result that passed ran at least one local
  command and every one of them passed with exit code 0, and its hosted evidence is either
  explicitly not required by policy or an available, passing observation in which every
  required check, and at least one check, was seen.\<close>

theorem passed_validation_is_proved:
  assumes "is_validation_result_coherent v" and "v_status v = Passed"
  shows "l_commands (v_local v) \<noteq> []
         \<and> (\<forall>c \<in> set (l_commands (v_local v)). c_outcome c = C_passed \<and> c_exitCode c = Some 0)
         \<and> (h_status (v_hosted v) = H_not_required \<and> h_policyMode (v_hosted v) = M_not_required
            \<or> h_availability (v_hosted v) = Available \<and> h_overall (v_hosted v) = O_passing
              \<and> h_observedCheckNames (v_hosted v) \<noteq> []
              \<and> set (h_requiredCheckNames (v_hosted v)) \<subseteq> set (h_observedCheckNames (v_hosted v)))"
proof -
  have local: "l_status (v_local v) = L_passed"
    and hosted: "h_status (v_hosted v) = H_passed \<or> h_status (v_hosted v) = H_not_required"
    using assms
    by (cases "l_status (v_local v)"; cases "h_status (v_hosted v)";
        simp add: is_validation_result_coherent_def expected_status_def)+
  from assms(1) have l: "is_local_evidence (v_local v)" and h: "is_hosted_evidence (v_hosted v)"
    by (simp_all add: is_validation_result_coherent_def)
  from h hosted have "h_status (v_hosted v) = H_not_required \<and> h_policyMode (v_hosted v) = M_not_required
      \<or> h_status (v_hosted v) = H_passed"
    by (auto simp: is_hosted_evidence_def)
  with passed_local[OF l local] passed_hosted[OF h] show ?thesis by auto
qed

definition sample_validation :: validation_result where
  "sample_validation =
     \<lparr> v_headSha = ''abc'', v_status = Passed,
       v_local = \<lparr> l_status = L_passed, l_configRevision = Some ''local-1'',
         l_commands = [\<lparr> c_commandIndex = 0, c_executable = ''pnpm'', c_outcome = C_passed,
                         c_exitCode = Some 0, c_durationMs = 12 \<rparr>] \<rparr>,
       v_hosted = \<lparr> h_status = H_passed, h_observedAt = ''t0'', h_pullRequestNumber = Some 7,
         h_availability = Available, h_overall = O_passing, h_policyRevision = Some ''hosted-1'',
         h_policyMode = M_required, h_requiredCheckNames = [''build''],
         h_observedCheckNames = [''build'', ''lint''] \<rparr> \<rparr>"

lemma sample_validation_coherent: "is_validation_result_coherent sample_validation"
  by code_simp

theorem passed_validation_is_proved_witness:
  "h_overall (v_hosted sample_validation) = O_passing
   \<and> list_all (\<lambda>c. c_exitCode c = Some 0) (l_commands (v_local sample_validation))"
proof -
  have "v_status sample_validation = Passed" by (simp add: sample_validation_def)
  note p = passed_validation_is_proved[OF sample_validation_coherent this]
  have "h_status (v_hosted sample_validation) \<noteq> H_not_required"
    by (simp add: sample_validation_def)
  with p show ?thesis by (simp only: list_all_iff) blast
qed

end
