(* ===== verification/Native_Evidence.thy ===== *)
theory Native_Evidence
  imports Validation
begin

text \<open>
  The evidence of the native oracles: the identities, verdicts, dispositions and stored
  completions of \<^verbatim>\<open>src/oracle/native-reviewer.ts\<close>, \<^verbatim>\<open>src/oracle/native-lead.ts\<close> and
  \<^verbatim>\<open>src/oracle/completion-proof.ts\<close>, and when each is valid.

  What lies outside the program is the record \<open>oracle_host\<close>: the private receipt files
  (\<open>oh_read\<close>), the host binding that reverifies a proof object (\<open>oh_bound\<close>),
  \<open>Date.parse\<close>, the \<open>URL\<close> parser and SHA-256 of canonical JSON. Every definition takes it
  as its first argument and every theorem holds for all of its values. The code compares
  structured values by the digest of their canonical JSON (\<open>same\<close>); here such a
  comparison is equality.
\<close>

section \<open>Evidence of a completion\<close>

record lead_authentication =
  lau_actorId :: string
  lau_model :: string
  lau_effort :: oracle_effort
  lau_role :: string
  lau_readOnly :: bool
  lau_transportReceipt :: string

text \<open>The \<open>terminal\<close> and the \<open>completion\<close> variants of \<open>NativeLeadEvidence\<close>.\<close>

record lead_terminal =
  lt_id :: string
  lt_identity :: lead_identity
  lt_disposition :: lead_disposition
  lt_authentication :: lead_authentication

record lead_completion =
  lc_id :: string
  lc_identity :: lead_identity
  lc_terminalSha256 :: string
  lc_reason :: string
  lc_authentication :: lead_authentication

datatype completion_evidence =
    Review_terminal review_terminal
  | Lead_terminal lead_terminal
  | Lead_completion lead_completion

datatype request_identity = Review_requested review_identity | Lead_requested lead_identity

datatype completion_namespace = Ns_review | Ns_lead

record completion_record =
  cr_namespace :: completion_namespace
  cr_request :: request_identity
  cr_evidence :: completion_evidence

record oracle_host =
  oh_bound :: "completion_proof \<Rightarrow> bool"
  oh_read :: "string \<Rightarrow> completion_record option"
  oh_request_payload :: "completion_record \<Rightarrow> bool"
  oh_record_digest :: "completion_record \<Rightarrow> string"
  oh_evidence_digest :: "completion_evidence \<Rightarrow> string"
  oh_date :: "string \<Rightarrow> int option"
  oh_https_url :: "string \<Rightarrow> bool"
  oh_target_sha256 :: "target \<Rightarrow> string"
  oh_disposition_digest :: "lead_disposition \<Rightarrow> string"
  oh_authority_digest :: "original_implementation_authority \<Rightarrow> string"
  oh_validation_digest :: "validation_result option \<Rightarrow> string"

section \<open>Lexical checks\<close>

definition all_in :: "string \<Rightarrow> string \<Rightarrow> bool" where
  "all_in alphabet s \<longleftrightarrow> (\<forall>c \<in> set s. c \<in> set alphabet)"

definition HEX :: string where
  "HEX = ''0123456789abcdef''"

definition ALPHANUM :: string where
  "ALPHANUM = ''ABCDEFGHIJKLMNOPQRSTUVWXYZabcdefghijklmnopqrstuvwxyz0123456789''"

definition is_sha :: "string \<Rightarrow> bool" where
  "is_sha s \<longleftrightarrow> length s = 40 \<and> all_in HEX s"

definition is_digest :: "string \<Rightarrow> bool" where
  "is_digest s \<longleftrightarrow> length s = 64 \<and> all_in HEX s"

definition is_review_id :: "string \<Rightarrow> bool" where
  "is_review_id s \<longleftrightarrow> s \<noteq> [] \<and> length s \<le> 300 \<and> all_in (ALPHANUM @ ''._:-'') s"

definition is_lead_id :: "string \<Rightarrow> bool" where
  "is_lead_id s \<longleftrightarrow> s \<noteq> [] \<and> length s \<le> 260 \<and> all_in (ALPHANUM @ ''._-'') s"

text \<open>\<open>text\<close> of the reviewer counts code units, \<open>text\<close> of the lead counts UTF-8 bytes.\<close>

definition is_text :: "string \<Rightarrow> bool" where
  "is_text s \<longleftrightarrow> \<not> blank s \<and> length s \<le> 500"

definition utf8_length :: "string \<Rightarrow> nat" where
  "utf8_length s = sum_list (map (\<lambda>c. if (of_char c :: nat) < 128 then 1 else 2) s)"

definition is_bounded_text :: "nat \<Rightarrow> string \<Rightarrow> bool" where
  "is_bounded_text limit s \<longleftrightarrow> \<not> blank s \<and> utf8_length s \<le> limit"

definition positive :: "int \<Rightarrow> bool" where
  "positive n \<longleftrightarrow> is_safe_integer n \<and> 0 < n"

definition valid_url :: "oracle_host \<Rightarrow> string \<Rightarrow> bool" where
  "valid_url host s \<longleftrightarrow> length s \<le> 2000 \<and> oh_https_url host s"

definition valid_completion_proof :: "completion_proof \<Rightarrow> bool" where
  "valid_completion_proof p \<longleftrightarrow> is_digest (cp_digest p) \<and> starts_with (cp_file p) ''/''"

definition repository_of :: "target \<Rightarrow> string" where
  "repository_of t = lower (t_owner t @ ''/'' @ t_repo t)"

text \<open>\<open>canonicalReviewTarget(target)?.key\<close>.\<close>

definition name_ok :: "string \<Rightarrow> bool" where
  "name_ok s \<longleftrightarrow> s \<noteq> [] \<and> length s \<le> 100 \<and> all_in (ALPHANUM @ ''_.-'') s"

fun split_on :: "char \<Rightarrow> string \<Rightarrow> string list" where
  "split_on d [] = [[]]"
| "split_on d (c # s) =
     (if c = d then [] # split_on d s
      else case split_on d s of [] \<Rightarrow> [[c]] | w # ws \<Rightarrow> (c # w) # ws)"

definition branch_ok :: "string \<Rightarrow> bool" where
  "branch_ok s \<longleftrightarrow> s \<noteq> [] \<and> length s \<le> 240 \<and> \<not> starts_with s ''/'' \<and> CHR 0x5C \<notin> set s
     \<and> (\<forall>part \<in> set (split_on (CHR ''/'') s). part \<noteq> [] \<and> part \<noteq> ''.'' \<and> part \<noteq> ''..'')"

definition canonical_target :: "target \<Rightarrow> bool" where
  "canonical_target t \<longleftrightarrow> name_ok (t_owner t) \<and> name_ok (t_repo t) \<and>
     (case t of
        Issue _ _ n \<Rightarrow> positive n
      | Repository _ _ branch publication \<Rightarrow> branch_ok branch \<and> absent_or branch_ok publication)"

definition review_target_key :: "oracle_host \<Rightarrow> target \<Rightarrow> string option" where
  "review_target_key host t =
     (if canonical_target t then Some (''review-target/v1:'' @ oh_target_sha256 host t) else None)"

section \<open>Shapes of the reviewer's evidence\<close>

definition valid_review_identity :: "review_identity \<Rightarrow> bool" where
  "valid_review_identity v \<longleftrightarrow>
     is_review_id (ri_requestId v) \<and> ri_correlationId v = ri_requestId v
     \<and> (\<forall>s \<in> set [ri_runId v, ri_claimId v, ri_missionId v, ri_laneId v, ri_targetKey v,
                  ri_repository v, ri_contractRevision v, ri_scope v, ri_policyRevision v,
                  ri_bindingId v, ri_requestedModel v]. is_text s)
     \<and> ri_laneId v = ''run:'' @ ri_runId v \<and> ri_phase v = ''review''
     \<and> ri_role v = ''independent-reviewer'' \<and> positive (ri_ownerGeneration v)
     \<and> positive (ri_pullRequestNumber v) \<and> is_sha (ri_baseSha v) \<and> is_sha (ri_headSha v)
     \<and> is_digest (ri_sourceSha256 v) \<and> is_digest (ri_diffSha256 v) \<and> ri_floor v = R5
     \<and> ri_requestedEffort v = Oracle_Extra_High"

text \<open>\<open>isProviderExecutionTelemetry\<close> of \<^verbatim>\<open>src/domain/telemetry.ts\<close>.\<close>

definition is_provider_execution_telemetry :: "provider_telemetry \<Rightarrow> bool" where
  "is_provider_execution_telemetry t \<longleftrightarrow>
     \<not> blank (pt_provider t)
     \<and> absent_or (\<lambda>s. \<not> blank s) (pt_model t)
     \<and> absent_or (\<lambda>s. \<not> blank s) (pt_reasoningEffort t)
     \<and> absent_or (\<lambda>n. 0 \<le> n) (pt_turns t)
     \<and> absent_or (\<lambda>n. 0 \<le> n) (pt_largestToolResultBytes t)
     \<and> absent_or (\<lambda>u. \<forall>v \<in> set [u_inputTokens u, u_cachedInputTokens u, u_outputTokens u,
           u_reasoningTokens u]. absent_or (\<lambda>n. 0 \<le> n) v) (pt_usage t)
     \<and> absent_or (\<lambda>c. \<not> blank (cap_source c) \<and> absent_or (\<lambda>s. \<not> blank s) (cap_revision c)
           \<and> absent_or (\<lambda>s. \<not> blank s) (cap_unverifiedReason c)) (pt_capability t)
     \<and> absent_or (\<lambda>f. \<not> blank (fail_code f)) (pt_failure t)
     \<and> absent_or (\<lambda>c. absent_or (\<lambda>n. 0 \<le> n) (ctx_initialTokens c)
           \<and> absent_or (\<lambda>n. 0 \<le> n) (ctx_peakTokens c)) (pt_context t)"

definition valid_review_terminal :: "review_terminal \<Rightarrow> bool" where
  "valid_review_terminal e \<longleftrightarrow>
     valid_review_identity (rt_identity e)
     \<and> rt_id e = ri_requestId (rt_identity e) @ ''.terminal''
     \<and> is_text (r_reviewerName (rt_result e))
     \<and> r_headSha (rt_result e) = ri_headSha (rt_identity e)
     \<and> absent_or is_provider_execution_telemetry (r_telemetry (rt_result e))
     \<and> length (r_findings (rt_result e)) \<le> 20
     \<and> (\<forall>f \<in> set (r_findings (rt_result e)).
          is_text (f_summary f) \<and> absent_or (\<lambda>d. length d \<le> 2000) (f_detail f))
     \<and> (if r_verdict (rt_result e) = Approve
        then \<not> (\<exists>f \<in> set (r_findings (rt_result e)). f_severity f = Blocking)
        else \<exists>f \<in> set (r_findings (rt_result e)). f_severity f = Blocking)
     \<and> is_text (au_actorId (rt_authentication e))
     \<and> is_text (au_transportReceipt (rt_authentication e))
     \<and> au_model (rt_authentication e) = ri_requestedModel (rt_identity e)
     \<and> au_effort (rt_authentication e) = ri_requestedEffort (rt_identity e)"

section \<open>Shapes of the lead's evidence\<close>

definition valid_origin :: "lead_origin \<Rightarrow> bool" where
  "valid_origin o' \<longleftrightarrow> is_lead_id (lo_requestId o') \<and> lo_receiptId o' = lo_requestId o' @ ''.terminal''
     \<and> is_digest (lo_digest o')"

text \<open>\<^verbatim>\<open>/^[0-9a-f]{64}:\d{1,2}$/\<close>: a digest, a colon and one or two digits.\<close>

definition is_finding_id :: "string \<Rightarrow> bool" where
  "is_finding_id s \<longleftrightarrow> is_digest (take 64 s) \<and> take 1 (drop 64 s) = '':''
     \<and> all_in ''0123456789'' (drop 65 s) \<and> (length s = 66 \<or> length s = 67)"

definition finding_ids_ok :: "string list \<Rightarrow> bool" where
  "finding_ids_ok ids \<longleftrightarrow> ids \<noteq> [] \<and> length ids \<le> 20 \<and> distinct ids \<and> (\<forall>i \<in> set ids. is_finding_id i)"

definition valid_lead_identity :: "lead_identity \<Rightarrow> bool" where
  "valid_lead_identity i \<longleftrightarrow>
     is_lead_id (li_requestId i) \<and> li_correlationId i = li_requestId i
     \<and> li_phase i = ''lead-disposition'' \<and> li_role i = ''bounded-lead''
     \<and> li_requestedEffort i = Oracle_High
     \<and> (\<forall>s \<in> set [li_runId i, li_claimId i, li_missionId i, li_repository i, li_targetKey i,
                  li_bindingId i, li_policyRevision i, li_requestedModel i]. is_bounded_text 500 s)
     \<and> li_laneId i = ''run:'' @ li_runId i
     \<and> positive (li_ownerGeneration i) \<and> positive (li_pullRequestNumber i)
     \<and> positive (li_repairOrdinal i) \<and> positive (li_repairLimit i)
     \<and> li_repairOrdinal i \<le> li_repairLimit i
     \<and> finding_ids_ok (li_blockingFindingIds i)
     \<and> (\<forall>f \<in> set (li_blockingFindingIds i). starts_with f (lo_digest (li_origin i) @ '':''))
     \<and> is_sha (li_baseSha i) \<and> is_sha (li_headSha i) \<and> valid_origin (li_origin i)
     \<and> (\<forall>d \<in> set [li_incarnation i, li_authoritySha256 i, li_sourceSha256 i, li_diffSha256 i,
                  li_packetSha256 i]. is_digest d)"

fun valid_lead_disposition :: "lead_disposition \<Rightarrow> bool" where
  "valid_lead_disposition (Lead_stop reason evidence) = is_bounded_text 2000 evidence"
| "valid_lead_disposition (Lead_repair origin authority ids instructions) =
     (valid_origin origin \<and> is_digest authority \<and> is_bounded_text 4000 instructions
      \<and> finding_ids_ok ids)"

text \<open>A repair disposition answers exactly the request it was asked for.\<close>

fun disposition_answers :: "lead_identity \<Rightarrow> lead_disposition \<Rightarrow> bool" where
  "disposition_answers i (Lead_stop reason evidence) = True"
| "disposition_answers i (Lead_repair origin authority ids instructions) =
     (origin = li_origin i \<and> authority = li_authoritySha256 i
      \<and> sort ids = sort (li_blockingFindingIds i))"

fun is_repair :: "lead_disposition \<Rightarrow> bool" where
  "is_repair (Lead_repair _ _ _ _) = True"
| "is_repair (Lead_stop _ _) = False"

definition valid_lead_authentication :: "lead_authentication \<Rightarrow> lead_identity \<Rightarrow> bool" where
  "valid_lead_authentication a i \<longleftrightarrow>
     is_bounded_text 500 (lau_actorId a) \<and> is_bounded_text 500 (lau_transportReceipt a)
     \<and> lau_role a = ''bounded-lead'' \<and> lau_readOnly a
     \<and> lau_model a = li_requestedModel i \<and> lau_effort a = li_requestedEffort i"

text \<open>\<open>validLeadEvidence\<close> on a terminal and on a completion.\<close>

definition valid_lead_terminal :: "lead_terminal \<Rightarrow> bool" where
  "valid_lead_terminal e \<longleftrightarrow>
     valid_lead_identity (lt_identity e)
     \<and> lt_id e = li_requestId (lt_identity e) @ ''.terminal''
     \<and> valid_lead_disposition (lt_disposition e)
     \<and> disposition_answers (lt_identity e) (lt_disposition e)
     \<and> valid_lead_authentication (lt_authentication e) (lt_identity e)"

definition valid_lead_completion :: "lead_completion \<Rightarrow> bool" where
  "valid_lead_completion e \<longleftrightarrow>
     valid_lead_identity (lc_identity e)
     \<and> lc_id e = li_requestId (lc_identity e) @ ''.completion''
     \<and> is_digest (lc_terminalSha256 e) \<and> lc_reason e = ''rejected_disposition''
     \<and> valid_lead_authentication (lc_authentication e) (lc_identity e)"

section \<open>Stored completions\<close>

fun evidence_request :: "completion_evidence \<Rightarrow> request_identity" where
  "evidence_request (Review_terminal e) = Review_requested (rt_identity e)"
| "evidence_request (Lead_terminal e) = Lead_requested (lt_identity e)"
| "evidence_request (Lead_completion e) = Lead_requested (lc_identity e)"

fun valid_evidence :: "completion_namespace \<Rightarrow> completion_evidence \<Rightarrow> bool" where
  "valid_evidence Ns_review (Review_terminal e) = valid_review_terminal e"
| "valid_evidence Ns_lead (Lead_terminal e) = valid_lead_terminal e"
| "valid_evidence Ns_lead (Lead_completion e) = valid_lead_completion e"
| "valid_evidence _ _ = False"

text \<open>
  A stored record pairs the request that was issued with its evidence. The request's own
  payload (its source manifest or packet) is not part of the model: its test is
  \<open>oh_request_payload\<close>.
\<close>

definition valid_completion_record :: "oracle_host \<Rightarrow> completion_record \<Rightarrow> bool" where
  "valid_completion_record host r \<longleftrightarrow>
     cr_request r = evidence_request (cr_evidence r)
     \<and> oh_request_payload host r \<and> valid_evidence (cr_namespace r) (cr_evidence r)"

definition completion_of ::
  "request_identity \<Rightarrow> string option \<Rightarrow> completion_namespace \<Rightarrow> oracle_host
     \<Rightarrow> completion_record \<Rightarrow> bool" where
  "completion_of i digest ns host r \<longleftrightarrow>
     cr_namespace r = ns \<and> cr_request r = i
     \<and> Some (oh_evidence_digest host (cr_evidence r)) = digest"

definition has_authenticated_completion ::
  "oracle_host \<Rightarrow> request_identity \<Rightarrow> string option \<Rightarrow> completion_proof option
     \<Rightarrow> completion_namespace \<Rightarrow> bool" where
  "has_authenticated_completion host i digest proof ns =
     present_and (\<lambda>p. valid_completion_proof p \<and> oh_bound host p
       \<and> present_and (completion_of i digest ns host) (oh_read host (cp_file p))) proof"

definition authenticated_completion_evidence ::
  "oracle_host \<Rightarrow> request_identity \<Rightarrow> string option \<Rightarrow> completion_proof option
     \<Rightarrow> completion_namespace \<Rightarrow> completion_evidence option" where
  "authenticated_completion_evidence host i digest proof ns =
     (if \<not> has_authenticated_completion host i digest proof ns then None
      else case proof of
          None \<Rightarrow> None
        | Some p \<Rightarrow>
            (case oh_read host (cp_file p) of
               None \<Rightarrow> None
             | Some r \<Rightarrow>
                 (if valid_completion_record host r \<and> completion_of i digest ns host r
                     \<and> oh_record_digest host r = cp_digest p
                  then Some (cr_evidence r) else None)))"

end
