(* ===== verification/Telemetry.thy ===== *)
theory Telemetry
  imports Run_Types
begin

text \<open>
  The durable efficiency ledger of a run (\<^verbatim>\<open>src/domain/telemetry.ts\<close>): creation and
  thresholds, appending events by identity, spawn and completion records and the wait
  records the state machine and the wait contract write. The projection that reads the
  ledger is in the theory \<open>Telemetry_Projection\<close>.
\<close>

section \<open>Thresholds and creation\<close>

definition RUN_TELEMETRY_REVISION :: string where
  "RUN_TELEMETRY_REVISION = ''run-efficiency-v1''"

definition RUN_TELEMETRY_THRESHOLD_REVISION :: string where
  "RUN_TELEMETRY_THRESHOLD_REVISION = ''run-efficiency-thresholds-v1''"

definition DEFAULT_EFFICIENCY_THRESHOLDS :: efficiency_thresholds where
  "DEFAULT_EFFICIENCY_THRESHOLDS =
     \<lparr> th_revision = RUN_TELEMETRY_THRESHOLD_REVISION, th_repeatedUnchangedStateWakeups = 3,
       th_reviewerStartsAtSameHead = 2, th_largeToolResultBytes = 1000000,
       th_repeatedConfigurationPreflightFailures = 2, th_reviewerRestarts = 2 \<rparr>"

record threshold_overrides =
  ov_revision :: "string option"
  ov_repeatedUnchangedStateWakeups :: "int option"
  ov_reviewerStartsAtSameHead :: "int option"
  ov_largeToolResultBytes :: "int option"
  ov_repeatedConfigurationPreflightFailures :: "int option"
  ov_reviewerRestarts :: "int option"

definition no_overrides :: threshold_overrides where
  "no_overrides =
     \<lparr> ov_revision = None, ov_repeatedUnchangedStateWakeups = None,
       ov_reviewerStartsAtSameHead = None, ov_largeToolResultBytes = None,
       ov_repeatedConfigurationPreflightFailures = None, ov_reviewerRestarts = None \<rparr>"

text \<open>The object spread \<open>{...thresholds, ...overrides}\<close>.\<close>

definition override_thresholds ::
  "efficiency_thresholds \<Rightarrow> threshold_overrides \<Rightarrow> efficiency_thresholds" where
  "override_thresholds t ov =
     \<lparr> th_revision = case_option (th_revision t) id (ov_revision ov),
       th_repeatedUnchangedStateWakeups =
         case_option (th_repeatedUnchangedStateWakeups t) id (ov_repeatedUnchangedStateWakeups ov),
       th_reviewerStartsAtSameHead =
         case_option (th_reviewerStartsAtSameHead t) id (ov_reviewerStartsAtSameHead ov),
       th_largeToolResultBytes =
         case_option (th_largeToolResultBytes t) id (ov_largeToolResultBytes ov),
       th_repeatedConfigurationPreflightFailures =
         case_option (th_repeatedConfigurationPreflightFailures t) id
           (ov_repeatedConfigurationPreflightFailures ov),
       th_reviewerRestarts = case_option (th_reviewerRestarts t) id (ov_reviewerRestarts ov) \<rparr>"

definition positive_limit :: "int \<Rightarrow> bool" where
  "positive_limit n \<longleftrightarrow> is_safe_integer n \<and> 1 \<le> n"

text \<open>\<open>assertThresholds\<close>: true where the code does not throw.\<close>

definition thresholds_valid :: "efficiency_thresholds \<Rightarrow> bool" where
  "thresholds_valid t \<longleftrightarrow>
     \<not> blank (th_revision t)
     \<and> positive_limit (th_repeatedUnchangedStateWakeups t)
     \<and> positive_limit (th_reviewerStartsAtSameHead t)
     \<and> positive_limit (th_largeToolResultBytes t)
     \<and> positive_limit (th_repeatedConfigurationPreflightFailures t)
     \<and> positive_limit (th_reviewerRestarts t)"

datatype telemetry_error = Invalid_thresholds

definition create_run_telemetry :: "threshold_overrides \<Rightarrow> telemetry_error + run_telemetry" where
  "create_run_telemetry ov =
     (let t = override_thresholds DEFAULT_EFFICIENCY_THRESHOLDS ov in
      if thresholds_valid t
      then Inr \<lparr> tel_revision = RUN_TELEMETRY_REVISION, tel_coverage = Complete_coverage,
                 tel_thresholds = t, tel_events = [] \<rparr>
      else Inl Invalid_thresholds)"

text \<open>\<open>createRunTelemetry()\<close> without overrides, which cannot throw.\<close>

definition fresh_run_telemetry :: run_telemetry where
  "fresh_run_telemetry =
     \<lparr> tel_revision = RUN_TELEMETRY_REVISION, tel_coverage = Complete_coverage,
       tel_thresholds = DEFAULT_EFFICIENCY_THRESHOLDS, tel_events = [] \<rparr>"

lemma create_run_telemetry_default: "create_run_telemetry no_overrides = Inr fresh_run_telemetry"
  by code_simp

definition with_run_telemetry_thresholds ::
  "run \<Rightarrow> threshold_overrides \<Rightarrow> telemetry_error + run" where
  "with_run_telemetry_thresholds r ov =
     (case run_telemetry r of
        None \<Rightarrow>
          (case create_run_telemetry ov of
             Inl e \<Rightarrow> Inl e
           | Inr t \<Rightarrow> Inr (r\<lparr>run_telemetry := Some (t\<lparr>tel_coverage := Partial_coverage\<rparr>)\<rparr>))
      | Some t \<Rightarrow>
          (let th = override_thresholds (tel_thresholds t) ov in
           if thresholds_valid th
           then Inr (r\<lparr>run_telemetry := Some (t\<lparr>tel_thresholds := th\<rparr>)\<rparr>)
           else Inl Invalid_thresholds))"

section \<open>A new run\<close>

text \<open>\<^verbatim>\<open>src/domain/run.ts\<close>: a run starts in \<open>READY\<close> with an empty history and ledger.\<close>

definition create_run ::
  "target \<Rightarrow> string \<Rightarrow> string \<Rightarrow> resolved_execution option \<Rightarrow> string option
     \<Rightarrow> repair_task_shape_authority option \<Rightarrow> run" where
  "create_run tgt now rid execution claim authority =
     \<lparr> run_id = rid, run_target = tgt, run_state = READY, run_createdAt = now,
       run_updatedAt = now, run_dispatchClaimId = claim, run_history = [],
       run_execution = execution, run_repairTaskShapeAuthority = authority,
       run_implementationAuthority = None, run_repairAdmissions = None,
       run_interruptedFrom = None, run_interrupt = None, run_agentResult = None,
       run_executor = None, run_bootstrap = None, run_pullRequest = None,
       run_reviewResult = None, run_nativeReview = None, run_nativeLead = None,
       run_mergeAttempt = None, run_validationResult = None, run_headSha = None,
       run_telemetry = Some fresh_run_telemetry \<rparr>"

definition sample_run :: run where
  "sample_run = create_run (Issue ''acme'' ''widgets'' 42) ''t0'' ''run-1'' None None None"

section \<open>Appending\<close>

definition run_events :: "run \<Rightarrow> telemetry_event list" where
  "run_events r = (case run_telemetry r of None \<Rightarrow> [] | Some t \<Rightarrow> tel_events t)"

definition existing_telemetry :: "run \<Rightarrow> run_telemetry" where
  "existing_telemetry r =
     (case run_telemetry r of
        None \<Rightarrow> fresh_run_telemetry\<lparr>tel_coverage := Partial_coverage\<rparr>
      | Some t \<Rightarrow> t)"

definition append_run_telemetry_events :: "run \<Rightarrow> telemetry_event list \<Rightarrow> run" where
  "append_run_telemetry_events r es =
     (if es = [] \<and> run_telemetry r \<noteq> None then r
      else
        let existing = existing_telemetry r;
            additions = fresh_events event_id (map event_id (tel_events existing)) es
        in if additions = [] \<and> run_telemetry r \<noteq> None then r
           else r\<lparr>run_telemetry := Some (existing\<lparr>tel_events := tel_events existing @ additions\<rparr>)\<rparr>)"

lemma run_events_existing: "run_events r = tel_events (existing_telemetry r)"
  by (simp add: run_events_def existing_telemetry_def fresh_run_telemetry_def split: option.split)

interpretation telemetry_ledger: event_ledger run_events event_id append_run_telemetry_events
proof unfold_locales
  fix r es
  show "run_events (append_run_telemetry_events r es) =
        run_events r @ fresh_events event_id (map event_id (run_events r)) es"
    by (auto simp: append_run_telemetry_events_def Let_def run_events_existing[of r])
       (simp_all add: run_events_def)
qed

text \<open>Appending writes the telemetry field and nothing else.\<close>

lemma append_run_telemetry_only:
  "append_run_telemetry_events r es =
     r\<lparr>run_telemetry := run_telemetry (append_run_telemetry_events r es)\<rparr>"
  unfolding append_run_telemetry_events_def Let_def by simp

lemma append_run_telemetry_frame [simp, frame_simps]:
  "run_id (append_run_telemetry_events r es) = run_id r"
  "run_target (append_run_telemetry_events r es) = run_target r"
  "run_state (append_run_telemetry_events r es) = run_state r"
  "run_history (append_run_telemetry_events r es) = run_history r"
  "run_interruptedFrom (append_run_telemetry_events r es) = run_interruptedFrom r"
  "run_interrupt (append_run_telemetry_events r es) = run_interrupt r"
  "run_agentResult (append_run_telemetry_events r es) = run_agentResult r"
  "run_executor (append_run_telemetry_events r es) = run_executor r"
  "run_bootstrap (append_run_telemetry_events r es) = run_bootstrap r"
  "run_pullRequest (append_run_telemetry_events r es) = run_pullRequest r"
  "run_reviewResult (append_run_telemetry_events r es) = run_reviewResult r"
  "run_validationResult (append_run_telemetry_events r es) = run_validationResult r"
  "run_nativeReview (append_run_telemetry_events r es) = run_nativeReview r"
  "run_nativeLead (append_run_telemetry_events r es) = run_nativeLead r"
  "run_headSha (append_run_telemetry_events r es) = run_headSha r"
  "run_repairAdmissions (append_run_telemetry_events r es) = run_repairAdmissions r"
  "run_repairTaskShapeAuthority (append_run_telemetry_events r es) = run_repairTaskShapeAuthority r"
  "run_createdAt (append_run_telemetry_events r es) = run_createdAt r"
  "run_updatedAt (append_run_telemetry_events r es) = run_updatedAt r"
  "run_dispatchClaimId (append_run_telemetry_events r es) = run_dispatchClaimId r"
  "run_execution (append_run_telemetry_events r es) = run_execution r"
  "run_implementationAuthority (append_run_telemetry_events r es) = run_implementationAuthority r"
  "run_mergeAttempt (append_run_telemetry_events r es) = run_mergeAttempt r"
  by (subst append_run_telemetry_only, simp)+

section \<open>Spawns and completions\<close>

fun role_name :: "telemetry_role \<Rightarrow> string" where
  "role_name Worker = ''worker''"
| "role_name Reviewer = ''reviewer''"
| "role_name Lead = ''lead''"

text \<open>\<open>nonEmpty(v) ? v.trim() : null\<close>.\<close>

definition clean :: "string option \<Rightarrow> string option" where
  "clean v = (case v of None \<Rightarrow> None | Some s \<Rightarrow> if blank s then None else Some (trim s))"

record spawn_input =
  si_role :: telemetry_role
  si_attemptKind :: spawn_attempt_kind
  si_headSha :: "string option"
  si_provider :: "string option"
  si_model :: "string option"
  si_reasoningEffort :: "string option"
  si_profile :: "string option"
  si_contextMode :: "spawn_context_mode option"
  si_contextJustification :: "spawn_context_justification option"

fun completes :: "string \<Rightarrow> telemetry_event \<Rightarrow> bool" where
  "completes iid (Completion e) = (co_invocationId e = iid)"
| "completes iid _ = False"

definition completion_exists :: "run \<Rightarrow> string \<Rightarrow> bool" where
  "completion_exists r iid \<longleftrightarrow> (\<exists>e \<in> set (run_events r). completes iid e)"

text \<open>The spawns of one role at one HEAD, in order.\<close>

fun scope_spawns :: "telemetry_role \<Rightarrow> string option \<Rightarrow> telemetry_event list \<Rightarrow> spawn_event list" where
  "scope_spawns role head [] = []"
| "scope_spawns role head (Spawn e # es) =
     (if sp_role e = role \<and> sp_headSha e = head then e # scope_spawns role head es
      else scope_spawns role head es)"
| "scope_spawns role head (_ # es) = scope_spawns role head es"

definition invocation_id :: "string \<Rightarrow> telemetry_role \<Rightarrow> string option \<Rightarrow> nat \<Rightarrow> string" where
  "invocation_id rid role head attempt =
     ''spawn:'' @ rid @ '':'' @ role_name role @ '':'' @ case_option ''no-head'' id head @ '':''
       @ nat_str attempt"

text \<open>The event of a spawn that continues no unfinished invocation.\<close>

definition next_spawn_event :: "run \<Rightarrow> spawn_input \<Rightarrow> string \<Rightarrow> spawn_event" where
  "next_spawn_event r i at =
     (let head = clean (si_headSha i);
          attempt = length (scope_spawns (si_role i) head (run_events r)) + 1;
          iid = invocation_id (run_id r) (si_role i) head attempt
      in \<lparr> sp_id = iid, sp_at = at, sp_role = si_role i, sp_invocationId = iid,
           sp_attempt = attempt, sp_attemptKind = si_attemptKind i, sp_headSha = head,
           sp_provider = clean (si_provider i), sp_model = clean (si_model i),
           sp_reasoningEffort = clean (si_reasoningEffort i), sp_profile = clean (si_profile i),
           sp_contextMode = case_option Context_unknown id (si_contextMode i),
           sp_contextJustification = si_contextJustification i \<rparr>)"

definition record_spawn_telemetry ::
  "run \<Rightarrow> spawn_input \<Rightarrow> string \<Rightarrow> run \<times> string \<times> bool" where
  "record_spawn_telemetry r i at =
     (case find (\<lambda>e. \<not> completion_exists r (sp_invocationId e))
             (scope_spawns (si_role i) (clean (si_headSha i)) (run_events r)) of
        Some e \<Rightarrow> (r, sp_invocationId e, True)
      | None \<Rightarrow>
          (let e = next_spawn_event r i at
           in (append_run_telemetry_events r [Spawn e], sp_invocationId e, False)))"

lemma next_spawn_event_simps [simp]:
  "sp_id (next_spawn_event r i at) = sp_invocationId (next_spawn_event r i at)"
  "sp_role (next_spawn_event r i at) = si_role i"
  "sp_headSha (next_spawn_event r i at) = clean (si_headSha i)"
  "sp_attempt (next_spawn_event r i at) =
     Suc (length (scope_spawns (si_role i) (clean (si_headSha i)) (run_events r)))"
  by (simp_all add: next_spawn_event_def Let_def)

lemma next_spawn_event_id:
  "sp_invocationId (next_spawn_event r i at) =
     invocation_id (run_id r) (si_role i) (clean (si_headSha i))
       (Suc (length (scope_spawns (si_role i) (clean (si_headSha i)) (run_events r))))"
  by (simp add: next_spawn_event_def Let_def)

record completion_input =
  ci_role :: telemetry_role
  ci_invocationId :: string
  ci_provider :: "string option"
  ci_model :: "string option"
  ci_reasoningEffort :: "string option"
  ci_outcome :: completion_outcome
  ci_failureCode :: "string option"
  ci_turns :: "int option"
  ci_usage :: "provider_token_usage option"
  ci_capability :: "provider_capability option"
  ci_context :: "provider_context option"
  ci_largestToolResultBytes :: "int option"

definition numeric_metric :: "int option \<Rightarrow> string \<Rightarrow> int metric" where
  "numeric_metric v reason =
     (case v of Some n \<Rightarrow> if 0 \<le> n then Observed n else Unobserved reason | None \<Rightarrow> Unobserved reason)"

definition string_metric :: "string option \<Rightarrow> string \<Rightarrow> string metric" where
  "string_metric v reason = (case clean v of Some s \<Rightarrow> Observed s | None \<Rightarrow> Unobserved reason)"

definition completion_metrics :: "provider_token_usage option \<Rightarrow> metric_usage" where
  "completion_metrics u =
     \<lparr> mu_inputTokens =
         numeric_metric (Option.bind u u_inputTokens) ''provider-did-not-report-input-tokens'',
       mu_cachedInputTokens =
         numeric_metric (Option.bind u u_cachedInputTokens) ''provider-did-not-report-cached-input-tokens'',
       mu_outputTokens =
         numeric_metric (Option.bind u u_outputTokens) ''provider-did-not-report-output-tokens'',
       mu_reasoningTokens =
         numeric_metric (Option.bind u u_reasoningTokens) ''provider-did-not-report-reasoning-tokens'' \<rparr>"

definition completion_event_of :: "completion_input \<Rightarrow> string \<Rightarrow> completion_event" where
  "completion_event_of i at =
     \<lparr> co_id = ''completion:'' @ ci_invocationId i, co_at = at, co_role = ci_role i,
       co_invocationId = ci_invocationId i, co_provider = clean (ci_provider i),
       co_model = clean (ci_model i), co_reasoningEffort = clean (ci_reasoningEffort i),
       co_outcome = ci_outcome i, co_failureCode = clean (ci_failureCode i),
       co_turns = numeric_metric (ci_turns i) ''provider-did-not-report-turn-count'',
       co_usage = completion_metrics (ci_usage i),
       co_capability = map_option (\<lambda>c.
         \<lparr> mc_source = cap_source c,
           mc_revision = string_metric (cap_revision c) ''capability-revision-not-reported'',
           mc_verified = cap_verified c,
           mc_unverifiedReason = clean (cap_unverifiedReason c) \<rparr>) (ci_capability i),
       co_context =
         \<lparr> mx_initialTokens =
             numeric_metric (Option.bind (ci_context i) ctx_initialTokens) ''context-size-not-observed'',
           mx_peakTokens =
             numeric_metric (Option.bind (ci_context i) ctx_peakTokens) ''context-size-not-observed'' \<rparr>,
       co_largestToolResultBytes =
         numeric_metric (ci_largestToolResultBytes i) ''tool-result-size-not-observed'' \<rparr>"

definition record_completion_telemetry :: "run \<Rightarrow> completion_input \<Rightarrow> string \<Rightarrow> run" where
  "record_completion_telemetry r i at =
     append_run_telemetry_events r [Completion (completion_event_of i at)]"

section \<open>Waits\<close>

definition record_wait_telemetry :: "run \<Rightarrow> string \<Rightarrow> run" where
  "record_wait_telemetry r at =
     (if run_state r \<noteq> WAITING_DEPENDENCY then r
      else append_run_telemetry_events r
        [Wait_status_wakeup
          \<lparr> we_id = ''wait:'' @ run_id r @ '':'' @ nat_str (length (run_history r)) @ '':''
                      @ state_name (run_state r),
            we_at = at, we_state = state_name (run_state r), we_headSha = run_headSha r,
            we_reason = None, we_observationSource = None, we_subjectId = None,
            we_observationStatus = None, we_observationDigest = None \<rparr>])"

record wait_wake_input =
  ww_at :: string
  ww_reason :: string
  ww_source :: string
  ww_subjectId :: string
  ww_status :: string
  ww_observationDigest :: string

definition record_wait_wake_telemetry :: "run \<Rightarrow> wait_wake_input \<Rightarrow> run" where
  "record_wait_wake_telemetry r i =
     append_run_telemetry_events r
       [Wait_status_wakeup
         \<lparr> we_id = ''wait-wake:'' @ run_id r @ '':'' @ ww_subjectId i @ '':''
                     @ ww_observationDigest i @ '':'' @ ww_reason i,
           we_at = ww_at i, we_state = state_name (run_state r), we_headSha = run_headSha r,
           we_reason = Some (ww_reason i), we_observationSource = Some (ww_source i),
           we_subjectId = Some (ww_subjectId i), we_observationStatus = Some (ww_status i),
           we_observationDigest = Some (ww_observationDigest i) \<rparr>]"

section \<open>Spawn identities\<close>

lemma split_first_unique:
  assumes "a @ c # x = b @ c # y" and "c \<notin> set a" and "c \<notin> set b"
  shows "a = b \<and> x = y"
proof -
  have "c \<notin> set l \<Longrightarrow> takeWhile (\<lambda>d. d \<noteq> c) (l @ c # r) = l" for l r
    by (induction l) auto
  from this[OF assms(2), of x] this[OF assms(3), of y] have "a = b"
    by (simp only: assms(1))
  with assms(1) show ?thesis by simp
qed

lemma split_last_unique:
  assumes "x @ c # a = y @ c # b" and "c \<notin> set a" and "c \<notin> set b"
  shows "x = y \<and> a = b"
proof -
  have "rev a @ c # rev x = rev b @ c # rev y"
    using assms(1) by (metis append.assoc append_Cons append_Nil rev.simps(2) rev_append)
  from split_first_unique[OF this] assms(2,3) show ?thesis by auto
qed

lemma nat_str_chars: "set (nat_str n) \<subseteq> set ''0123456789''"
proof (induction n rule: nat_str.induct)
  case (1 n)
  have digit: "digit_char d \<in> set ''0123456789''" if "d < 10" for d
    unfolding digit_char_def using that by (intro nth_mem) simp
  show ?case
  proof (cases "n < 10")
    case True
    with digit show ?thesis by (subst nat_str.simps) simp
  next
    case False
    with 1 digit[of "n mod 10"] show ?thesis
      by (subst nat_str.simps) (simp only: if_False set_append Un_subset_iff, simp)
  qed
qed

lemma colon_not_in_nat_str: "CHR '':'' \<notin> set (nat_str n)"
proof
  assume "CHR '':'' \<in> set (nat_str n)"
  with nat_str_chars[of n] have "CHR '':'' \<in> set ''0123456789''" by blast
  then show False by simp
qed

lemma role_name_inj: "role_name a = role_name b \<longleftrightarrow> a = b"
  by (cases a; cases b) simp_all

lemma colon_not_in_role_name: "CHR '':'' \<notin> set (role_name a)"
  by (cases a) simp_all

lemma invocation_id_inj:
  assumes "invocation_id rid role head n = invocation_id rid role' head' n'"
    and "head \<noteq> Some ''no-head''" and "head' \<noteq> Some ''no-head''"
  shows "role = role' \<and> head = head' \<and> n = n'"
proof -
  have "role_name role @ CHR '':'' # (case_option ''no-head'' id head @ CHR '':'' # nat_str n) =
        role_name role' @ CHR '':'' # (case_option ''no-head'' id head' @ CHR '':'' # nat_str n')"
    using assms(1) by (simp add: invocation_id_def)
  from split_first_unique[OF this] colon_not_in_role_name have
    "role = role'" and
    "case_option ''no-head'' id head @ CHR '':'' # nat_str n =
     case_option ''no-head'' id head' @ CHR '':'' # nat_str n'"
    by (simp_all add: role_name_inj)
  moreover from split_last_unique[OF this(2)] colon_not_in_nat_str have
    "case_option ''no-head'' id head = case_option ''no-head'' id head'" and "n = n'"
    by simp_all
  ultimately show ?thesis using assms(2,3) by (auto split: option.splits)
qed

lemma set_scope_spawns:
  "e \<in> set (scope_spawns role head es) \<longleftrightarrow>
     Spawn e \<in> set es \<and> sp_role e = role \<and> sp_headSha e = head"
  by (induction role head es rule: scope_spawns.induct) auto

lemma scope_spawns_append [simp]:
  "scope_spawns role head (es @ fs) = scope_spawns role head es @ scope_spawns role head fs"
  by (induction role head es rule: scope_spawns.induct) auto

fun well_identified :: "string \<Rightarrow> telemetry_event \<Rightarrow> bool" where
  "well_identified rid (Spawn e) \<longleftrightarrow>
     sp_id e = invocation_id rid (sp_role e) (sp_headSha e) (sp_attempt e)
     \<and> sp_invocationId e = sp_id e \<and> sp_headSha e \<noteq> Some ''no-head''"
| "well_identified rid e \<longleftrightarrow> \<not> starts_with (event_id e) ''spawn:''"

text \<open>
  The ledger's discipline: identities are distinct, each spawn's identity is built from
  its own role, HEAD and attempt, and the attempts of a scope are numbered from 1.
\<close>

definition spawn_ledger_ok :: "string \<Rightarrow> telemetry_event list \<Rightarrow> bool" where
  "spawn_ledger_ok rid es \<longleftrightarrow>
     distinct (map event_id es) \<and> (\<forall>e \<in> set es. well_identified rid e)
     \<and> (\<forall>role head. map sp_attempt (scope_spawns role head es) =
                     [1..<Suc (length (scope_spawns role head es))])"

lemma spawn_ledger_ok_Nil [simp]: "spawn_ledger_ok rid []"
  by (simp add: spawn_ledger_ok_def)

lemma next_invocation_fresh:
  assumes ok: "spawn_ledger_ok rid es" and head: "head \<noteq> Some ''no-head''"
  shows "invocation_id rid role head (Suc (length (scope_spawns role head es))) \<notin> event_id ` set es"
proof
  let ?n = "length (scope_spawns role head es)"
  assume "invocation_id rid role head (Suc ?n) \<in> event_id ` set es"
  then obtain e where e: "e \<in> set es" "event_id e = invocation_id rid role head (Suc ?n)"
    by auto
  from ok e(1) have wi: "well_identified rid e" by (simp add: spawn_ledger_ok_def)
  have "starts_with (event_id e) ''spawn:''"
    unfolding e(2) invocation_id_def by (rule starts_with_append)
  with wi obtain s where s: "e = Spawn s" by (cases e) auto
  with wi e(2) have "invocation_id rid (sp_role s) (sp_headSha s) (sp_attempt s) =
      invocation_id rid role head (Suc ?n)" by simp
  from invocation_id_inj[OF this] wi s head
  have "sp_role s = role" "sp_headSha s = head" "sp_attempt s = Suc ?n" by auto
  with e(1) s have "Suc ?n \<in> set (map sp_attempt (scope_spawns role head es))"
    by (force simp: set_scope_spawns)
  moreover from ok have "map sp_attempt (scope_spawns role head es) = [1..<Suc ?n]"
    by (simp add: spawn_ledger_ok_def)
  ultimately show False by (simp only: set_upt) simp
qed

lemma find_last_only:
  "\<forall>s \<in> set xs. \<not> P s \<Longrightarrow> P x \<Longrightarrow> find P (xs @ [x]) = Some x"
  by (induction xs) auto

text \<open>A spawn that is not a continuation gets an identity no event of the ledger holds and
  the next attempt number of its role and HEAD, it is the only event appended, and the
  ledger's discipline is kept.\<close>

theorem new_spawn_is_fresh:
  assumes ok: "spawn_ledger_ok (run_id r) (run_events r)"
    and head: "clean (si_headSha i) \<noteq> Some ''no-head''"
    and spawn: "record_spawn_telemetry r i at = (r', iid, False)"
  shows "iid \<notin> event_id ` set (run_events r)
    \<and> (\<exists>e. run_events r' = run_events r @ [Spawn e] \<and> sp_invocationId e = iid
         \<and> sp_attempt e = Suc (length (scope_spawns (si_role i) (clean (si_headSha i)) (run_events r))))
    \<and> spawn_ledger_ok (run_id r') (run_events r')"
proof -
  let ?head = "clean (si_headSha i)" and ?e = "next_spawn_event r i at"
  from spawn have r': "r' = append_run_telemetry_events r [Spawn ?e]"
    and iid: "sp_invocationId ?e = iid"
    by (simp_all add: record_spawn_telemetry_def Let_def split: option.splits)
  have fresh: "iid \<notin> event_id ` set (run_events r)"
    unfolding iid[symmetric] next_spawn_event_id by (rule next_invocation_fresh[OF ok head])
  then have events: "run_events r' = run_events r @ [Spawn ?e]"
    unfolding r' telemetry_ledger.events_append using iid by (auto simp: image_iff)
  have rid: "run_id r' = run_id r" by (simp add: r')
  have "map sp_attempt (scope_spawns role h (run_events r')) =
        [1..<Suc (length (scope_spawns role h (run_events r')))]" for role h
  proof -
    have "map sp_attempt (scope_spawns role h (run_events r)) =
          [1..<Suc (length (scope_spawns role h (run_events r)))]"
      using ok by (simp add: spawn_ledger_ok_def)
    moreover have "scope_spawns role h (run_events r') =
        scope_spawns role h (run_events r) @ (if role = si_role i \<and> h = ?head then [?e] else [])"
      by (auto simp: events)
    moreover have "role = si_role i \<and> h = ?head \<Longrightarrow>
        sp_attempt ?e = Suc (length (scope_spawns role h (run_events r)))"
      by simp
    ultimately show ?thesis by (cases "role = si_role i \<and> h = ?head") simp_all
  qed
  moreover have "well_identified (run_id r) (Spawn ?e)"
    using head by (simp add: next_spawn_event_id)
  moreover have "distinct (map event_id (run_events r'))"
    using ok fresh iid by (simp add: events spawn_ledger_ok_def)
  ultimately have "spawn_ledger_ok (run_id r') (run_events r')"
    using ok by (simp add: spawn_ledger_ok_def rid) (simp add: events)
  with fresh events iid show ?thesis by force
qed

definition sample_spawn :: spawn_input where
  "sample_spawn =
     \<lparr> si_role = Reviewer, si_attemptKind = K_review, si_headSha = Some '' abc '', si_provider = None,
       si_model = None, si_reasoningEffort = None, si_profile = None, si_contextMode = None,
       si_contextJustification = None \<rparr>"

lemma sample_run_events: "run_events sample_run = []"
  by (simp add: run_events_def sample_run_def create_run_def fresh_run_telemetry_def)

lemma sample_head: "clean (si_headSha sample_spawn) = Some ''abc''"
  by (simp add: sample_spawn_def clean_def) code_simp

definition sample_spawned :: run where
  "sample_spawned = fst (record_spawn_telemetry sample_run sample_spawn ''t1'')"

lemma sample_spawned: "record_spawn_telemetry sample_run sample_spawn ''t1'' =
    (sample_spawned, ''spawn:run-1:reviewer:abc:1'', False)"
proof -
  have "snd (record_spawn_telemetry sample_run sample_spawn ''t1'') = (''spawn:run-1:reviewer:abc:1'', False)"
    by code_simp
  then show ?thesis by (simp add: sample_spawned_def prod_eq_iff)
qed

theorem new_spawn_is_fresh_witness:
  "spawn_ledger_ok (run_id sample_spawned) (run_events sample_spawned)
   \<and> length (run_events sample_spawned) = 1"
proof -
  have "spawn_ledger_ok (run_id sample_run) (run_events sample_run)"
    by (simp add: sample_run_events)
  from new_spawn_is_fresh[OF this _ sample_spawned] show ?thesis
    by (auto simp: sample_head sample_run_events)
qed

text \<open>A spawn is idempotent until it completes: asking again for the same role and HEAD
  returns the same invocation, reports it as reused and changes nothing.\<close>

theorem unfinished_spawn_is_reused:
  assumes spawn: "record_spawn_telemetry r i at = (r', iid, reused)"
    and open_: "\<not> completion_exists r' iid"
    and fresh: "iid \<notin> event_id ` set (run_events r) \<or> reused"
    and same: "si_role j = si_role i" "clean (si_headSha j) = clean (si_headSha i)"
  shows "record_spawn_telemetry r' j at' = (r', iid, True)"
proof -
  let ?same = "scope_spawns (si_role i) (clean (si_headSha i)) (run_events r)"
  show ?thesis
  proof (cases "find (\<lambda>e. \<not> completion_exists r (sp_invocationId e)) ?same")
    case (Some e)
    with spawn have "r' = r" "iid = sp_invocationId e"
      by (auto simp: record_spawn_telemetry_def Let_def)
    with Some same show ?thesis by (simp add: record_spawn_telemetry_def Let_def)
  next
    case None
    let ?e = "next_spawn_event r i at"
    from None spawn have r': "r' = append_run_telemetry_events r [Spawn ?e]"
      and iid: "sp_invocationId ?e = iid" and reused: "\<not> reused"
      by (simp_all add: record_spawn_telemetry_def Let_def)
    have events: "run_events r' = run_events r @ [Spawn ?e]"
      unfolding r' telemetry_ledger.events_append using fresh reused iid by (auto simp: image_iff)
    then have mono: "completion_exists r x \<Longrightarrow> completion_exists r' x" for x
      by (auto simp: completion_exists_def)
    have "find (\<lambda>e. \<not> completion_exists r' (sp_invocationId e)) (?same @ [?e]) = Some ?e"
    proof -
      have "\<forall>s \<in> set ?same. \<not> \<not> completion_exists r' (sp_invocationId s)"
        using None mono by (auto simp: find_None_iff)
      moreover have "\<not> completion_exists r' (sp_invocationId ?e)" using open_ iid by simp
      ultimately show ?thesis by (rule find_last_only)
    qed
    with events iid same show ?thesis by (simp add: record_spawn_telemetry_def Let_def)
  qed
qed

theorem unfinished_spawn_is_reused_witness:
  "record_spawn_telemetry sample_spawned (sample_spawn\<lparr>si_attemptKind := K_review_restart\<rparr>) ''t2'' =
     (sample_spawned, ''spawn:run-1:reviewer:abc:1'', True)"
proof (rule unfinished_spawn_is_reused[OF sample_spawned])
  show "\<not> completion_exists sample_spawned ''spawn:run-1:reviewer:abc:1''"
    by code_simp
qed (simp_all add: sample_run_events sample_spawn_def)

end
