(* ===== verification/Native_Review.thy ===== *)
theory Native_Review
  imports Native_Evidence Telemetry
begin

text \<open>
  The review ledger of a run (\<^verbatim>\<open>src/oracle/native-reviewer.ts\<close>): when it is coherent, which
  request is active or still unresolved, which verdict is accepted, and how the ledger may
  change from one write of the run to the next.
\<close>

section \<open>Review failures\<close>

definition semantic_native_failure :: "native_failure option \<Rightarrow> bool" where
  "semantic_native_failure f \<longleftrightarrow> f = Some Safety_refusal \<or> f = Some Missing_evidence"

definition retained_native_failure ::
  "native_failure option \<Rightarrow> native_failure option \<Rightarrow> native_failure option" where
  "retained_native_failure previous observed =
     (if semantic_native_failure previous then previous else or_else observed previous)"

definition native_failure_progresses ::
  "native_failure option \<Rightarrow> native_failure option \<Rightarrow> bool" where
  "native_failure_progresses previous next \<longleftrightarrow> retained_native_failure previous next = next"

lemma native_failure_progresses_refl: "native_failure_progresses f f"
  by (cases f) (simp_all add: native_failure_progresses_def retained_native_failure_def)

lemma native_failure_progresses_trans:
  "native_failure_progresses a b \<Longrightarrow> native_failure_progresses b c \<Longrightarrow> native_failure_progresses a c"
  by (cases a; cases b; cases c)
     (auto simp: native_failure_progresses_def retained_native_failure_def
        semantic_native_failure_def split: if_splits)

lemma semantic_failure_kept:
  "native_failure_progresses a b \<Longrightarrow> semantic_native_failure a \<Longrightarrow> b = a"
  by (auto simp: native_failure_progresses_def retained_native_failure_def)

section \<open>The review ledger\<close>

definition same_candidate :: "review_identity \<Rightarrow> review_identity \<Rightarrow> bool" where
  "same_candidate a b \<longleftrightarrow>
     ri_runId a = ri_runId b \<and> ri_claimId a = ri_claimId b \<and> ri_missionId a = ri_missionId b
     \<and> ri_phase a = ri_phase b \<and> ri_targetKey a = ri_targetKey b
     \<and> ri_repository a = ri_repository b \<and> ri_pullRequestNumber a = ri_pullRequestNumber b
     \<and> ri_baseSha a = ri_baseSha b \<and> ri_headSha a = ri_headSha b \<and> ri_scope a = ri_scope b
     \<and> ri_sourceSha256 a = ri_sourceSha256 b \<and> ri_diffSha256 a = ri_diffSha256 b"

definition review_authenticated :: "oracle_host \<Rightarrow> review_request \<Rightarrow> bool" where
  "review_authenticated host r =
     has_authenticated_completion host (Review_requested (rr_identity r)) (rr_terminalDigest r)
       (rr_completionProof r) Ns_review"

definition NATIVE_REVIEW_OBSERVATIONS :: int where
  "NATIVE_REVIEW_OBSERVATIONS = 3"

definition verdict_eligible :: "review_request option \<Rightarrow> bool" where
  "verdict_eligible r = present_and (\<lambda>r. rr_status r = Qualified_complete
     \<and> (rr_failure r = None \<or> rr_failure r = Some Transport_failure)) r"

definition active_native_review :: "run \<Rightarrow> review_request option" where
  "active_native_review r =
     (case run_nativeReview r of
        None \<Rightarrow> None
      | Some l \<Rightarrow> find (\<lambda>q. Some (ri_requestId (rr_identity q)) = nr_activeRequestId l) (nr_requests l))"

definition unresolved_native_review :: "oracle_host \<Rightarrow> run \<Rightarrow> bool" where
  "unresolved_native_review host r =
     present_and (\<lambda>l. \<exists>q \<in> set (nr_requests l).
       rr_submissionPossible q \<and> \<not> review_authenticated host q) (run_nativeReview r)"

definition valid_recovery_configuration :: "run \<Rightarrow> dispatch_configuration \<Rightarrow> bool" where
  "valid_recovery_configuration r c \<longleftrightarrow>
     dc_merge c = None \<and> is_text (dc_revision c)
     \<and> lower (dc_owner c) = lower (t_owner (run_target r))
     \<and> lower (dc_repo c) = lower (t_repo (run_target r))
     \<and> positive (dc_controlIssue c) \<and> positive (dc_queueCommentId c)
     \<and> dc_leaseDurationMs c = 60000"

definition terminal_digest_ok :: "oracle_host \<Rightarrow> bool \<Rightarrow> review_request \<Rightarrow> bool" where
  "terminal_digest_ok host inspect r \<longleftrightarrow>
     absent_or (\<lambda>d. is_digest d
       \<and> (rr_status r \<in> {Qualified_complete, Retired, Replaced}
          \<or> rr_status r = Incomplete \<and> rr_submissionPossible r \<and> rr_failure r \<noteq> None
            \<and> rr_failure r \<noteq> Some Transport_failure \<and> rr_completionProof r \<noteq> None)
       \<and> absent_or (\<lambda>p. valid_completion_proof p \<and> (inspect \<or> review_authenticated host r))
           (rr_completionProof r)) (rr_terminalDigest r)
     \<and> \<not> (rr_completionProof r \<noteq> None \<and> rr_terminalDigest r = None)
     \<and> \<not> (rr_status r = Qualified_complete
          \<and> (\<not> rr_submissionPossible r \<or> rr_terminalDigest r = None
             \<or> \<not> inspect \<and> rr_failure r \<noteq> None \<and> rr_failure r \<noteq> Some Transport_failure))"

text \<open>Whether a request may have been superseded by another for the same candidate.\<close>

definition replaceable_failure :: "review_request \<Rightarrow> bool" where
  "replaceable_failure r \<longleftrightarrow>
     rr_failure r = Some Transport_failure
     \<or> semantic_native_failure (rr_failure r) \<and> rr_terminalStatus r = Some Incomplete"

definition review_request_ok ::
  "oracle_host \<Rightarrow> bool \<Rightarrow> run \<Rightarrow> review_request list \<Rightarrow> review_request \<Rightarrow> bool" where
  "review_request_ok host inspect run qs r \<longleftrightarrow>
     valid_review_identity (rr_identity r)
     \<and> ri_runId (rr_identity r) = run_id run
     \<and> Some (ri_claimId (rr_identity r)) = run_dispatchClaimId run
     \<and> Some (ri_targetKey (rr_identity r)) = review_target_key host (run_target run)
     \<and> ri_repository (rr_identity r) = repository_of (run_target run)
     \<and> is_safe_integer (rr_observations r) \<and> 0 \<le> rr_observations r
     \<and> rr_observations r \<le> NATIVE_REVIEW_OBSERVATIONS
     \<and> oh_date host (rr_nextObservationAt r) \<noteq> None
     \<and> absent_or (valid_url host) (rr_conversationUrl r)
     \<and> terminal_digest_ok host inspect r
     \<and> absent_or (\<lambda>s. s \<in> {Incomplete, Terminal_unknown}) (rr_terminalStatus r)
     \<and> absent_or (\<lambda>s. s = ''irrecoverable_transport'') (rr_retirementReason r)
     \<and> \<not> (rr_status r = Replaced
          \<and> (\<not> replaceable_failure r
               \<and> \<not> (rr_terminalStatus r = Some Terminal_unknown
                     \<and> rr_retirementReason r = Some ''irrecoverable_transport'')
             \<or> \<not> (\<exists>n \<in> set qs. Some (ri_requestId (rr_identity n)) = rr_replacedBy r
                      \<and> same_candidate (rr_identity r) (rr_identity n))))"

text \<open>At most two requests per candidate, the earlier one replaced by the later.\<close>

definition succession_ok :: "review_request list \<Rightarrow> nat \<Rightarrow> review_request \<Rightarrow> bool" where
  "succession_ok qs i r \<longleftrightarrow>
     length (filter (\<lambda>n. same_candidate (rr_identity r) (rr_identity n)) qs) \<le> 2
     \<and> absent_or (\<lambda>p. rr_status p = Replaced
         \<and> (replaceable_failure p \<or> rr_retirementReason p = Some ''irrecoverable_transport'')
         \<and> rr_replacedBy p = Some (ri_requestId (rr_identity r))
         \<and> ri_floor (rr_identity r) = R5)
       (find (\<lambda>n. same_candidate (rr_identity r) (rr_identity n)) (take i qs))"

fun requests_ok ::
  "oracle_host \<Rightarrow> bool \<Rightarrow> run \<Rightarrow> review_request list \<Rightarrow> nat \<Rightarrow> review_request list \<Rightarrow> bool" where
  "requests_ok host inspect run qs i [] = True"
| "requests_ok host inspect run qs i (r # rs) =
     (review_request_ok host inspect run qs r \<and> succession_ok qs i r
      \<and> requests_ok host inspect run qs (Suc i) rs)"

definition review_acceptance_ok :: "review_request option \<Rightarrow> review_acceptance \<Rightarrow> bool" where
  "review_acceptance_ok active a = present_and (\<lambda>q.
     rr_status q = Qualified_complete \<and> ri_requestId (rr_identity q) = ra_requestId a
     \<and> ra_receiptId a = ra_requestId a @ ''.terminal''
     \<and> Some (ra_digest a) = rr_terminalDigest q \<and> ra_identity a = rr_identity q) active"

definition native_review_coherent :: "oracle_host \<Rightarrow> bool \<Rightarrow> run \<Rightarrow> bool" where
  "native_review_coherent host inspect run =
     absent_or (\<lambda>l.
       absent_or (valid_recovery_configuration run) (nr_recoveryConfiguration l)
       \<and> absent_or (\<lambda>n. is_safe_integer n \<and> 1 \<le> n) (nr_repairLimit l)
       \<and> length (nr_requests l) \<le> 20
       \<and> distinct (map (\<lambda>q. ri_requestId (rr_identity q)) (nr_requests l))
       \<and> absent_or (\<lambda>w. oh_date host (rw_nextAttemptAt w) \<noteq> None) (nr_wait l)
       \<and> requests_ok host inspect run (nr_requests l) 0 (nr_requests l)
       \<and> absent_or (\<lambda>_. present_and (\<lambda>q. rr_status q \<noteq> Retired \<and> rr_status q \<noteq> Replaced)
             (active_native_review run)) (nr_activeRequestId l)
       \<and> absent_or (review_acceptance_ok (active_native_review run)) (nr_accepted l))
     (run_nativeReview run)"

section \<open>The accepted verdict\<close>

definition authenticated_review_matches :: "oracle_host \<Rightarrow> run \<Rightarrow> review_result option \<Rightarrow> bool" where
  "authenticated_review_matches host r result =
     (case (active_native_review r, Option.bind (run_nativeReview r) nr_accepted) of
        (Some active, Some accepted) \<Rightarrow>
          verdict_eligible (Some active)
          \<and> ri_requestId (rr_identity active) = ra_requestId accepted
          \<and> (case authenticated_completion_evidence host (Review_requested (rr_identity active))
                      (rr_terminalDigest active) (rr_completionProof active) Ns_review of
                 Some (Review_terminal e) \<Rightarrow>
                   rt_id e = ra_receiptId accepted
                   \<and> oh_evidence_digest host (Review_terminal e) = ra_digest accepted
                   \<and> present_and (\<lambda>res. valid_review_terminal (e\<lparr>rt_result := res\<rparr>)
                        \<and> rt_result e = res) result
               | _ \<Rightarrow> False)
      | _ \<Rightarrow> False)"

section \<open>How the ledger may change\<close>

text \<open>A field that is set stays as it is.\<close>

definition kept :: "'a option \<Rightarrow> 'a option \<Rightarrow> bool" where
  "kept a b \<longleftrightarrow> a = None \<or> b = a"

lemma kept_refl [simp]: "kept a a"
  by (simp add: kept_def)

lemma kept_trans: "kept a b \<Longrightarrow> kept b c \<Longrightarrow> kept a c"
  by (auto simp: kept_def)

text \<open>A terminal digest that the previous version did not hold must be authenticated.\<close>

definition new_digests_authenticated :: "oracle_host \<Rightarrow> native_review option \<Rightarrow> native_review \<Rightarrow> bool" where
  "new_digests_authenticated host previous l \<longleftrightarrow>
     (\<forall>n \<in> set (nr_requests l). rr_terminalDigest n = None
        \<or> present_and (\<lambda>p. \<exists>r \<in> set (nr_requests p).
             ri_requestId (rr_identity r) = ri_requestId (rr_identity n)
             \<and> rr_terminalDigest r = rr_terminalDigest n) previous
        \<or> review_authenticated host n)"

definition status_progresses :: "oracle_host \<Rightarrow> review_request \<Rightarrow> review_request \<Rightarrow> bool" where
  "status_progresses host r n \<longleftrightarrow>
     rr_status r = rr_status n \<or> rr_status r = Pending
     \<or> rr_status r = Terminal_unknown \<and> rr_status n \<in> {Pending, Qualified_complete, Incomplete}
     \<or> rr_status r = Incomplete \<and> rr_failure r = Some Transport_failure
        \<and> (rr_status n = Replaced \<or> rr_status n = Qualified_complete \<and> review_authenticated host n)
     \<or> rr_status r = Terminal_unknown \<and> rr_status n = Replaced
        \<and> rr_retirementReason n = Some ''irrecoverable_transport''
     \<or> rr_status r \<in> {Qualified_complete, Incomplete, Terminal_unknown} \<and> rr_status n = Retired"

definition request_progresses :: "oracle_host \<Rightarrow> review_request \<Rightarrow> review_request \<Rightarrow> bool" where
  "request_progresses host r n \<longleftrightarrow>
     \<not> (semantic_native_failure (rr_failure n) \<and> rr_status n = Replaced \<and> rr_status r \<noteq> Replaced)
     \<and> \<not> (rr_failure r \<noteq> None \<and> rr_failure r \<noteq> Some Transport_failure
          \<and> rr_status n = Qualified_complete)
     \<and> \<not> (rr_terminalDigest r = None \<and> rr_terminalDigest n \<noteq> None
          \<and> (rr_status n \<noteq> Qualified_complete \<and> rr_status n \<noteq> rr_status r
             \<or> \<not> review_authenticated host n))
     \<and> rr_identity r = rr_identity n
     \<and> (rr_submissionPossible r \<longrightarrow> rr_submissionPossible n)
     \<and> rr_observations r \<le> rr_observations n
     \<and> kept (rr_conversationUrl r) (rr_conversationUrl n)
     \<and> native_failure_progresses (rr_failure r) (rr_failure n)
     \<and> absent_or (\<lambda>_. rr_terminalDigest n = rr_terminalDigest r
          \<and> kept (rr_completionProof r) (rr_completionProof n)
          \<and> \<not> (rr_completionProof r = None \<and> rr_completionProof n \<noteq> None
               \<and> \<not> review_authenticated host n)) (rr_terminalDigest r)
     \<and> kept (rr_replacedBy r) (rr_replacedBy n)
     \<and> kept (rr_terminalStatus r) (rr_terminalStatus n)
     \<and> kept (rr_retirementReason r) (rr_retirementReason n)
     \<and> status_progresses host r n"

definition native_review_progresses ::
  "oracle_host \<Rightarrow> native_review option \<Rightarrow> native_review option \<Rightarrow> bool" where
  "native_review_progresses host previous next \<longleftrightarrow>
     absent_or (new_digests_authenticated host previous) next
     \<and> absent_or (\<lambda>old. present_and (\<lambda>l.
          kept (nr_repairLimit old) (nr_repairLimit l)
          \<and> length (nr_requests old) \<le> length (nr_requests l)
          \<and> \<not> (nr_recoveryConfiguration old = None \<and> nr_recoveryConfiguration l \<noteq> None
               \<and> (\<exists>r \<in> set (nr_requests old). rr_submissionPossible r))
          \<and> kept (nr_recoveryConfiguration old) (nr_recoveryConfiguration l)
          \<and> list_all2 (request_progresses host) (nr_requests old)
               (take (length (nr_requests old)) (nr_requests l))) next) previous"

text \<open>What survives any number of accepted writes of a request.\<close>

definition request_retained :: "review_request \<Rightarrow> review_request \<Rightarrow> bool" where
  "request_retained r n \<longleftrightarrow>
     rr_identity n = rr_identity r
     \<and> (rr_submissionPossible r \<longrightarrow> rr_submissionPossible n)
     \<and> rr_observations r \<le> rr_observations n
     \<and> kept (rr_conversationUrl r) (rr_conversationUrl n)
     \<and> kept (rr_terminalDigest r) (rr_terminalDigest n)
     \<and> (semantic_native_failure (rr_failure r) \<longrightarrow> rr_failure n = rr_failure r)"

lemma request_retained_refl [simp]: "request_retained r r"
  by (simp add: request_retained_def)

lemma request_retained_trans:
  "request_retained a b \<Longrightarrow> request_retained b c \<Longrightarrow> request_retained a c"
  by (auto simp: request_retained_def elim: kept_trans)

lemma request_progresses_retains:
  assumes p: "request_progresses host r n"
  shows "request_retained r n"
proof -
  have "kept (rr_terminalDigest r) (rr_terminalDigest n)"
    using p by (cases "rr_terminalDigest r") (simp_all add: request_progresses_def kept_def)
  moreover have "rr_failure n = rr_failure r" if "semantic_native_failure (rr_failure r)"
    using p that by (intro semantic_failure_kept) (simp_all add: request_progresses_def)
  ultimately show ?thesis
    using p by (simp add: request_progresses_def request_retained_def)
qed

definition ledger_retained :: "native_review option \<Rightarrow> native_review option \<Rightarrow> bool" where
  "ledger_retained a b \<longleftrightarrow>
     absent_or (\<lambda>old. present_and (\<lambda>l.
       kept (nr_repairLimit old) (nr_repairLimit l)
       \<and> kept (nr_recoveryConfiguration old) (nr_recoveryConfiguration l)
       \<and> list_all2 request_retained (nr_requests old)
            (take (length (nr_requests old)) (nr_requests l))) b) a"

lemma ledger_retained_refl [simp]: "ledger_retained a a"
  by (cases a) (simp_all add: ledger_retained_def list_all2_conv_all_nth)

lemma ledger_retained_trans:
  assumes "ledger_retained a b" and "ledger_retained b c"
  shows "ledger_retained a c"
proof (cases a)
  case (Some x)
  with assms obtain y z where yz: "b = Some y" "c = Some z"
    by (auto simp: ledger_retained_def absent_or_def present_and_def split: option.splits)
  have "request_retained (nr_requests x ! i) (nr_requests z ! i)" if "i < length (nr_requests x)" for i
    using assms that unfolding Some yz
    by (auto simp: ledger_retained_def list_all2_conv_all_nth
        intro: request_retained_trans[of _ "nr_requests y ! i"])
  with assms show ?thesis unfolding Some yz
    by (auto simp: ledger_retained_def list_all2_conv_all_nth elim: kept_trans)
qed (simp add: ledger_retained_def)

lemma native_review_progresses_retains:
  "native_review_progresses host a b \<Longrightarrow> ledger_retained a b"
  by (cases a; cases b)
     (auto simp: native_review_progresses_def ledger_retained_def
       elim: list.rel_mono_strong intro: request_progresses_retains)

text \<open>A sequence of versions in which each write was accepted after the one before it.\<close>

fun accepted_writes :: "oracle_host \<Rightarrow> native_review option list \<Rightarrow> bool" where
  "accepted_writes host (a # b # rest) =
     (native_review_progresses host a b \<and> accepted_writes host (b # rest))"
| "accepted_writes host _ = True"

text \<open>However often a run is written, an accepted write never forgets a native review
  request: in every later version each request stands at its place with the same identity,
  a possible submission stays possible, its observation count does not fall, its terminal
  digest and conversation stay, and a semantic failure is never replaced by another one.\<close>

theorem review_requests_never_forgotten:
  assumes "accepted_writes host (v # vs)" and "w \<in> set (v # vs)"
  shows "ledger_retained v w"
  using assms
proof (induction vs arbitrary: v)
  case (Cons u us)
  then have "ledger_retained v u" by (auto intro: native_review_progresses_retains)
  moreover have "ledger_retained u w" if "w \<in> set (u # us)"
    using Cons that by auto
  ultimately show ?case
    using Cons.prems(2) by (auto intro: ledger_retained_trans)
qed simp

section \<open>Sample values\<close>

definition sample_host :: oracle_host where
  "sample_host =
     \<lparr> oh_bound = (\<lambda>p. True), oh_read = (\<lambda>f. None), oh_request_payload = (\<lambda>r. True),
       oh_record_digest = (\<lambda>r. []), oh_evidence_digest = (\<lambda>e. []), oh_date = (\<lambda>s. Some 0),
       oh_https_url = (\<lambda>s. True), oh_target_sha256 = (\<lambda>t. ''k''),
       oh_disposition_digest = (\<lambda>d. []), oh_authority_digest = (\<lambda>a. []),
       oh_validation_digest = (\<lambda>v. replicate 64 (CHR ''d'')) \<rparr>"

definition sample_review_request :: review_request where
  "sample_review_request =
     \<lparr> rr_identity =
         \<lparr> ri_requestId = ''req-1'', ri_correlationId = ''req-1'', ri_runId = ''run-1'',
           ri_claimId = ''claim-1'', ri_missionId = ''m'', ri_laneId = ''run:run-1'',
           ri_ownerGeneration = 1, ri_phase = ''review'', ri_targetKey = ''review-target/v1:k'',
           ri_repository = ''acme/widgets'', ri_pullRequestNumber = 7,
           ri_baseSha = replicate 40 (CHR ''a''), ri_headSha = replicate 40 (CHR ''b''),
           ri_contractRevision = ''c1'', ri_role = ''independent-reviewer'', ri_scope = ''s'',
           ri_policyRevision = ''p1'', ri_bindingId = ''b1'', ri_requestedModel = ''model'',
           ri_requestedEffort = Oracle_Extra_High, ri_floor = R5,
           ri_sourceSha256 = replicate 64 (CHR ''c''), ri_diffSha256 = replicate 64 (CHR ''d'') \<rparr>,
       rr_status = Pending, rr_submissionPossible = True, rr_observations = 0,
       rr_nextObservationAt = ''t1'', rr_conversationUrl = None, rr_failure = None,
       rr_replacedBy = None, rr_terminalDigest = None, rr_completionProof = None,
       rr_terminalStatus = None, rr_retirementReason = None \<rparr>"

definition sample_ledger :: "review_request list \<Rightarrow> native_review" where
  "sample_ledger qs =
     \<lparr> nr_recoveryConfiguration = None, nr_repairLimit = Some 2, nr_requests = qs,
       nr_activeRequestId = Some ''req-1'', nr_accepted = None, nr_wait = None \<rparr>"

lemma sample_ledger_coherent:
  "native_review_coherent sample_host False
     ((create_run (Issue ''acme'' ''widgets'' 42) ''t0'' ''run-1'' None (Some ''claim-1'') None)
        \<lparr>run_nativeReview := Some (sample_ledger [sample_review_request])\<rparr>)"
  by code_simp

text \<open>The request is observed, refused on safety grounds, and retired.\<close>

definition sample_versions :: "native_review option list" where
  "sample_versions =
     [Some (sample_ledger [sample_review_request]),
      Some (sample_ledger [sample_review_request\<lparr>rr_observations := 1, rr_status := Incomplete,
              rr_failure := Some Safety_refusal\<rparr>]),
      Some (sample_ledger [sample_review_request\<lparr>rr_observations := 1, rr_status := Retired,
              rr_failure := Some Safety_refusal\<rparr>])]"

theorem review_requests_never_forgotten_witness:
  "ledger_retained (sample_versions ! 0) (sample_versions ! 2)"
proof -
  have "accepted_writes sample_host sample_versions" by code_simp
  moreover have "sample_versions = sample_versions ! 0 # tl sample_versions"
    and "sample_versions ! 2 \<in> set (sample_versions ! 0 # tl sample_versions)"
    by (simp_all add: sample_versions_def)
  ultimately show ?thesis
    by (metis review_requests_never_forgotten)
qed

end
