(* ===== verification/Native_Lead.thy ===== *)
theory Native_Lead
  imports Native_Review "HOL-Library.Sublist"
begin

text \<open>
  The lead ledger of a run (\<^verbatim>\<open>src/oracle/native-lead.ts\<close>): the accepted disposition, the
  one-time consumption of a disposition by a repair, proof of the owner's succession,
  coherence of the ledger with the run that carries it, when an observation is due, and how
  the ledger may change from one write to the next.
\<close>

section \<open>Reading the ledger\<close>

definition LEAD_OBSERVATIONS :: int where
  "LEAD_OBSERVATIONS = 3"

definition lead_authenticated :: "oracle_host \<Rightarrow> lead_request \<Rightarrow> bool" where
  "lead_authenticated host r =
     has_authenticated_completion host (Lead_requested (lr_identity r)) (lr_terminalDigest r)
       (lr_completionProof r) Ns_lead"

definition lead_requests :: "run \<Rightarrow> lead_request list" where
  "lead_requests r = (case run_nativeLead r of None \<Rightarrow> [] | Some l \<Rightarrow> nl_requests l)"

definition active_native_lead :: "run \<Rightarrow> lead_request option" where
  "active_native_lead r =
     (case run_nativeLead r of
        None \<Rightarrow> None
      | Some l \<Rightarrow> find (\<lambda>q. Some (li_requestId (lr_identity q)) = nl_activeRequestId l) (nl_requests l))"

definition accepted_native_lead :: "run \<Rightarrow> lead_acceptance option" where
  "accepted_native_lead r =
     (case (run_nativeLead r, active_native_lead r) of
        (Some l, Some q) \<Rightarrow>
          (if \<not> semantic_native_failure (lr_failure q) \<and> lr_status q = Qualified_complete
           then find (\<lambda>a. Some (la_requestId a) = nl_activeRequestId l) (nl_acceptances l)
           else None)
      | _ \<Rightarrow> None)"

definition unresolved_native_lead :: "oracle_host \<Rightarrow> run \<Rightarrow> bool" where
  "unresolved_native_lead host r \<longleftrightarrow>
     (\<exists>q \<in> set (lead_requests r). lr_submissionPossible q \<and> \<not> lead_authenticated host q)"

definition unresolved_native_repair_history :: "oracle_host \<Rightarrow> run \<Rightarrow> bool" where
  "unresolved_native_repair_history host r \<longleftrightarrow>
     unresolved_native_review host r \<or> unresolved_native_lead host r"

definition native_lead_stopped :: "run \<Rightarrow> bool" where
  "native_lead_stopped r \<longleftrightarrow>
     present_and (\<lambda>a. \<not> is_repair (la_disposition a)) (accepted_native_lead r)
     \<or> (\<exists>h \<in> set (run_history r). tr_nativeLeadStop h \<noteq> None)"

section \<open>Owner succession\<close>

record lead_owner =
  ow_missionId :: string
  ow_laneId :: string
  ow_generation :: int

fun reaches :: "(owner_succession \<Rightarrow> bool) \<Rightarrow> int \<Rightarrow> int \<Rightarrow> owner_succession list \<Rightarrow> bool" where
  "reaches ok goal g [] = (g = goal)"
| "reaches ok goal g (s # ss) =
     (g = goal
      \<or> reaches ok goal (if ok s \<and> os_fromGeneration s = g then os_toGeneration s else g) ss)"

definition succession_confirmed :: "run \<Rightarrow> lead_owner \<Rightarrow> owner_succession \<Rightarrow> bool" where
  "succession_confirmed r owner s \<longleftrightarrow>
     os_status s = Confirmed \<and> os_missionId s = ow_missionId owner \<and> os_laneId s = ow_laneId owner
     \<and> Some (os_claimId s) = run_dispatchClaimId r
     \<and> Some (os_workspace s) = map_option b_workspacePath (run_bootstrap r)"

definition owner_successions :: "run \<Rightarrow> owner_succession list" where
  "owner_successions r = (case run_nativeLead r of None \<Rightarrow> [] | Some l \<Rightarrow> nl_ownerSuccessions l)"

definition lead_owner_proved :: "run \<Rightarrow> lead_identity \<Rightarrow> lead_owner option \<Rightarrow> bool" where
  "lead_owner_proved r i owner = present_and (\<lambda>w.
     ow_missionId w = li_missionId i \<and> ow_laneId w = li_laneId i
     \<and> reaches (succession_confirmed r w) (ow_generation w) (li_ownerGeneration i)
         (owner_successions r)) owner"

section \<open>Consuming a disposition\<close>

fun blocking_ids_from :: "string \<Rightarrow> nat \<Rightarrow> review_finding list \<Rightarrow> string list" where
  "blocking_ids_from digest i [] = []"
| "blocking_ids_from digest i (f # fs) =
     (if f_severity f = Blocking then [digest @ '':'' @ nat_str i] else [])
     @ blocking_ids_from digest (Suc i) fs"

definition blocking_finding_ids :: "oracle_host \<Rightarrow> review_terminal \<Rightarrow> string list" where
  "blocking_finding_ids host e =
     blocking_ids_from (oh_evidence_digest host (Review_terminal e)) 0 (r_findings (rt_result e))"

definition strip_consumption :: "lead_repair_reference \<Rightarrow> lead_acceptance" where
  "strip_consumption r = lead_acceptance.truncate r"

definition valid_lead_repair_reference :: "oracle_host \<Rightarrow> lead_repair_reference \<Rightarrow> bool" where
  "valid_lead_repair_reference host r \<longleftrightarrow>
     valid_review_terminal (lrr_originEvidence r)
     \<and> r_verdict (rt_result (lrr_originEvidence r)) = Request_changes
     \<and> oh_evidence_digest host (Review_terminal (lrr_originEvidence r))
         = lo_digest (li_origin (la_identity r))
     \<and> blocking_finding_ids host (lrr_originEvidence r) = li_blockingFindingIds (la_identity r)
     \<and> is_digest (lrr_implementationAuthoritySha256 r)
     \<and> valid_lead_identity (la_identity r) \<and> is_digest (la_digest r)
     \<and> la_receiptId r = la_requestId r @ ''.terminal''
     \<and> la_requestId r = li_requestId (la_identity r)
     \<and> valid_lead_disposition (la_disposition r) \<and> is_repair (la_disposition r)
     \<and> disposition_answers (la_identity r) (la_disposition r)
     \<and> is_safe_integer (lrr_consumptionGeneration r)
     \<and> li_ownerGeneration (la_identity r) \<le> lrr_consumptionGeneration r
     \<and> lrr_instructionsSha256 r = oh_disposition_digest host (la_disposition r)"

definition lead_acceptance_matches ::
  "oracle_host \<Rightarrow> lead_request \<Rightarrow> lead_acceptance \<Rightarrow> bool" where
  "lead_acceptance_matches host q a =
     (case authenticated_completion_evidence host (Lead_requested (lr_identity q))
             (lr_terminalDigest q) (lr_completionProof q) Ns_lead of
        Some (Lead_terminal e) \<Rightarrow> lt_id e = la_receiptId a \<and> lt_disposition e = la_disposition a
      | _ \<Rightarrow> False)"

definition admissions :: "run \<Rightarrow> repair_admission_snapshot list" where
  "admissions r = (case run_repairAdmissions r of None \<Rightarrow> [] | Some as \<Rightarrow> as)"

definition consumed_dispositions :: "run \<Rightarrow> lead_repair_reference list" where
  "consumed_dispositions r = List.map_filter ad_leadDisposition (admissions r)"

definition start_fixes :: "transition_record list \<Rightarrow> int" where
  "start_fixes hs = int (length (filter (\<lambda>h. tr_type h = Applied T_start_fix) hs))"

definition reference_owner :: "lead_repair_reference \<Rightarrow> lead_owner" where
  "reference_owner r =
     \<lparr> ow_missionId = li_missionId (la_identity r), ow_laneId = li_laneId (la_identity r),
       ow_generation = lrr_consumptionGeneration r \<rparr>"

definition lead_consumption_valid ::
  "oracle_host \<Rightarrow> run \<Rightarrow> lead_repair_reference option \<Rightarrow> bool" where
  "lead_consumption_valid host run reference \<longleftrightarrow>
     native_review_coherent host False run \<and> \<not> unresolved_native_repair_history host run
     \<and> present_and (\<lambda>r. present_and (\<lambda>q. present_and (\<lambda>a.
         lead_authenticated host q \<and> valid_lead_repair_reference host r
         \<and> present_and (\<lambda>authority. lrr_implementationAuthoritySha256 r
              = oh_authority_digest host authority) (run_implementationAuthority run)
         \<and> lead_acceptance_matches host q a \<and> a = strip_consumption r
         \<and> lr_status q = Qualified_complete
         \<and> present_and (\<lambda>v. r_verdict v = Request_changes
              \<and> li_blockingFindingIds (la_identity r)
                 = blocking_ids_from (lo_digest (li_origin (la_identity r))) 0 (r_findings v))
             (run_reviewResult run)
         \<and> map_option ra_digest (Option.bind (run_nativeReview run) nr_accepted)
             = Some (lo_digest (li_origin (la_identity r)))
         \<and> run_headSha run = Some (li_headSha (la_identity r))
         \<and> map_option pr_number (run_pullRequest run) = Some (li_pullRequestNumber (la_identity r))
         \<and> li_repairOrdinal (la_identity r) = start_fixes (run_history run) + 1
         \<and> li_repairOrdinal (la_identity r) \<le> li_repairLimit (la_identity r)
         \<and> (\<forall>c \<in> set (consumed_dispositions run).
              li_incarnation (la_identity c) \<noteq> li_incarnation (la_identity r))
         \<and> lead_owner_proved run (la_identity r) (Some (reference_owner r)))
         (accepted_native_lead run)) (active_native_lead run)) reference"

section \<open>Coherence\<close>

definition lead_recovery_configuration_ok :: "run \<Rightarrow> dispatch_configuration \<Rightarrow> bool" where
  "lead_recovery_configuration_ok r c \<longleftrightarrow>
     dc_merge c = None \<and> is_bounded_text 500 (dc_revision c)
     \<and> lower (dc_owner c) = lower (t_owner (run_target r))
     \<and> lower (dc_repo c) = lower (t_repo (run_target r))
     \<and> positive (dc_controlIssue c) \<and> positive (dc_queueCommentId c)
     \<and> dc_leaseDurationMs c = 60000"

definition stopped_recovery_ok :: "stopped_recovery \<Rightarrow> bool" where
  "stopped_recovery_ok s \<longleftrightarrow>
     positive (sr_fromGeneration s) \<and> is_safe_integer (sr_releasedGeneration s)
     \<and> sr_fromGeneration s < sr_releasedGeneration s
     \<and> sr_releasedGeneration s \<le> sr_fromGeneration s + 2
     \<and> is_bounded_text 500 (sr_missionId s) \<and> is_bounded_text 4096 (sr_workspace s)
     \<and> is_digest (sr_receiptSha256 s)"

definition stopped_recoveries :: "native_lead \<Rightarrow> stopped_recovery list" where
  "stopped_recoveries l = (case nl_stoppedRecoveries l of None \<Rightarrow> [] | Some ss \<Rightarrow> ss)"

definition owner_succession_ok :: "run \<Rightarrow> native_lead \<Rightarrow> owner_succession \<Rightarrow> bool" where
  "owner_succession_ok r l s \<longleftrightarrow>
     (\<forall>v \<in> set [os_missionId s, os_claimId s, os_workspace s]. is_bounded_text 4096 v)
     \<and> os_laneId s = ''run:'' @ run_id r \<and> Some (os_claimId s) = run_dispatchClaimId r
     \<and> positive (os_fromGeneration s) \<and> is_safe_integer (os_toGeneration s)
     \<and> os_fromGeneration s < os_toGeneration s
     \<and> os_predecessorPhase s \<in> {''parked'', ''park_transition'', ''released''}
     \<and> is_safe_integer (os_predecessorGeneration s)
     \<and> os_toGeneration s = os_predecessorGeneration s + 1
     \<and> (if os_predecessorStatus s = Parked
        then os_fromGeneration s = os_predecessorGeneration s - 1
        else \<exists>p \<in> set (stopped_recoveries l).
               sr_fromGeneration p = os_fromGeneration s
               \<and> sr_releasedGeneration p = os_predecessorGeneration s
               \<and> sr_missionId p = os_missionId s \<and> sr_workspace p = os_workspace s)
     \<and> is_digest (os_predecessorSha256 s)"

definition origin_known :: "run \<Rightarrow> lead_identity \<Rightarrow> bool" where
  "origin_known r i = present_and (\<lambda>l. \<exists>n \<in> set (nr_requests l).
     ri_requestId (rr_identity n) = lo_requestId (li_origin i)
     \<and> rr_terminalDigest n = Some (lo_digest (li_origin i))
     \<and> ri_headSha (rr_identity n) = li_headSha i \<and> ri_baseSha (rr_identity n) = li_baseSha i)
     (run_nativeReview r)"

definition lead_request_ok :: "oracle_host \<Rightarrow> bool \<Rightarrow> run \<Rightarrow> lead_request \<Rightarrow> bool" where
  "lead_request_ok host inspect run q \<longleftrightarrow>
     origin_known run (lr_identity q) \<and> valid_lead_identity (lr_identity q)
     \<and> li_runId (lr_identity q) = run_id run
     \<and> Some (li_claimId (lr_identity q)) = run_dispatchClaimId run
     \<and> li_repository (lr_identity q) = repository_of (run_target run)
     \<and> is_safe_integer (lr_observations q) \<and> 0 \<le> lr_observations q
     \<and> lr_observations q \<le> LEAD_OBSERVATIONS
     \<and> oh_date host (lr_nextObservationAt q) \<noteq> None
     \<and> absent_or (valid_url host) (lr_conversationUrl q)
     \<and> absent_or (\<lambda>d. is_digest d \<and> absent_or (\<lambda>p. valid_completion_proof p
          \<and> (inspect \<or> lead_authenticated host q)) (lr_completionProof q)) (lr_terminalDigest q)
     \<and> \<not> (lr_completionProof q \<noteq> None \<and> lr_terminalDigest q = None)
     \<and> \<not> (lr_status q = Qualified_complete
          \<and> (\<not> lr_submissionPossible q \<or> lr_terminalDigest q = None
             \<or> \<not> inspect \<and> semantic_native_failure (lr_failure q)))"

definition incarnation_ok :: "lead_request list \<Rightarrow> lead_request \<Rightarrow> bool" where
  "incarnation_ok qs q =
     (case filter (\<lambda>n. li_incarnation (lr_identity n) = li_incarnation (lr_identity q)) qs of
        [a, b] \<Rightarrow> lr_status a = Replaced \<and> lr_replacementReason a = Some ''irrecoverable_transport''
                  \<and> lr_replacedBy a = Some (li_requestId (lr_identity b))
      | rivals \<Rightarrow> length rivals \<le> 2)"

definition lead_acceptance_ok ::
  "oracle_host \<Rightarrow> bool \<Rightarrow> native_lead \<Rightarrow> lead_acceptance \<Rightarrow> bool" where
  "lead_acceptance_ok host inspect l a = present_and (\<lambda>q.
     (inspect \<or> lr_completionProof q = None \<or> lead_acceptance_matches host q a)
     \<and> la_receiptId a = la_requestId a @ ''.terminal''
     \<and> lr_terminalDigest q = Some (la_digest a) \<and> la_identity a = lr_identity q
     \<and> valid_lead_disposition (la_disposition a)
     \<and> disposition_answers (la_identity a) (la_disposition a))
     (find (\<lambda>q. li_requestId (lr_identity q) = la_requestId a) (nl_requests l))"

text \<open>\<open>xs.slice(0, n)\<close>: a negative end counts from the end of the array.\<close>

definition js_slice_to :: "int \<Rightarrow> 'a list \<Rightarrow> 'a list" where
  "js_slice_to n xs = (if 0 \<le> n then take (nat n) xs else take (length xs - nat (- n)) xs)"

definition bound_start_fix :: "repair_admission_snapshot \<Rightarrow> int" where
  "bound_start_fix a =
     (case ad_attemptBinding a of None \<Rightarrow> - 1 | Some b \<Rightarrow> bi_startFixHistoryIndex b)"

definition admission_reference_ok ::
  "run \<Rightarrow> nat \<Rightarrow> repair_admission_snapshot \<Rightarrow> lead_repair_reference \<Rightarrow> bool" where
  "admission_reference_ok run i a ref \<longleftrightarrow>
     ad_budgetLimit a = Some (li_repairLimit (la_identity ref))
     \<and> li_headSha (la_identity ref) = ad_headSha a
     \<and> li_pullRequestNumber (la_identity ref) = ad_pullRequestNumber a
     \<and> li_repairOrdinal (la_identity ref)
         = start_fixes (js_slice_to (bound_start_fix a + 1) (run_history run))
     \<and> map_option bi_admissionIndex (ad_attemptBinding a) = Some (int i)
     \<and> lead_owner_proved run (la_identity ref) (Some (reference_owner ref))"

fun admissions_coherent :: "run \<Rightarrow> nat \<Rightarrow> repair_admission_snapshot list \<Rightarrow> bool" where
  "admissions_coherent run i [] = True"
| "admissions_coherent run i (a # as) =
     (\<not> (ad_finding a = Review_blocking \<and> ad_leadDisposition a = None
         \<and> present_and (\<lambda>l. \<exists>q \<in> set (nr_requests l). ri_headSha (rr_identity q) = ad_headSha a)
             (run_nativeReview run))
      \<and> absent_or (admission_reference_ok run i a) (ad_leadDisposition a)
      \<and> admissions_coherent run (Suc i) as)"

definition stop_ok :: "native_lead \<Rightarrow> transition_record \<Rightarrow> bool" where
  "stop_ok l h = absent_or (\<lambda>ref.
     tr_type h = Applied T_escalate \<and> tr_from h = CHANGES_REQUESTED \<and> tr_to h = NEEDS_HUMAN
     \<and> (\<exists>a \<in> set (nl_acceptances l). la_requestId a = st_requestId ref
          \<and> la_receiptId a = st_receiptId ref \<and> la_digest a = st_digest ref
          \<and> \<not> is_repair (la_disposition a))) (tr_nativeLeadStop h)"

definition lead_ledger_ok :: "oracle_host \<Rightarrow> bool \<Rightarrow> run \<Rightarrow> native_lead \<Rightarrow> bool" where
  "lead_ledger_ok host inspect run l \<longleftrightarrow>
     length (nl_requests l) \<le> 20 \<and> length (nl_ownerSuccessions l) \<le> 200
     \<and> distinct (map (\<lambda>q. li_requestId (lr_identity q)) (nl_requests l))
     \<and> distinct (map la_requestId (nl_acceptances l))
     \<and> absent_or (lead_recovery_configuration_ok run) (nl_recoveryConfiguration l)
     \<and> absent_or (\<lambda>ss. length ss \<le> 200 \<and> distinct (map sr_releasedGeneration ss)
          \<and> list_all stopped_recovery_ok ss) (nl_stoppedRecoveries l)
     \<and> distinct (map os_toGeneration (nl_ownerSuccessions l))
     \<and> list_all (owner_succession_ok run l) (nl_ownerSuccessions l)
     \<and> list_all (\<lambda>q. lead_request_ok host inspect run q \<and> incarnation_ok (nl_requests l) q)
         (nl_requests l)
     \<and> absent_or (\<lambda>i. \<exists>q \<in> set (nl_requests l). li_requestId (lr_identity q) = i
          \<and> lr_status q \<noteq> Retired \<and> lr_status q \<noteq> Replaced) (nl_activeRequestId l)
     \<and> absent_or (\<lambda>w. oh_date host (lw_nextAttemptAt w) \<noteq> None) (nl_wait l)
     \<and> list_all (lead_acceptance_ok host inspect l) (nl_acceptances l)
     \<and> admissions_coherent run 0 (admissions run)
     \<and> distinct (map st_requestId (List.map_filter tr_nativeLeadStop (run_history run)))
     \<and> list_all (stop_ok l) (run_history run)
     \<and> distinct (map (\<lambda>c. li_incarnation (la_identity c)) (consumed_dispositions run))
     \<and> list_all (\<lambda>c. strip_consumption c \<in> set (nl_acceptances l)
          \<and> valid_lead_repair_reference host c) (consumed_dispositions run)"

definition native_lead_coherent :: "oracle_host \<Rightarrow> bool \<Rightarrow> run \<Rightarrow> bool" where
  "native_lead_coherent host inspect run =
     (case run_nativeLead run of
        None \<Rightarrow> consumed_dispositions run = []
                \<and> (\<forall>h \<in> set (run_history run). tr_nativeLeadStop h = None)
      | Some l \<Rightarrow> lead_ledger_ok host inspect run l)"

section \<open>Scheduling\<close>

text \<open>\<open>Date.parse(a) <= Date.parse(b)\<close>, false when either is not a date.\<close>

definition date_le :: "oracle_host \<Rightarrow> string \<Rightarrow> string \<Rightarrow> bool" where
  "date_le host a b \<longleftrightarrow> present_and (\<lambda>x. present_and (\<lambda>y. x \<le> y) (oh_date host b)) (oh_date host a)"

definition date_gt :: "oracle_host \<Rightarrow> string \<Rightarrow> string \<Rightarrow> bool" where
  "date_gt host a b \<longleftrightarrow> present_and (\<lambda>x. present_and (\<lambda>y. y < x) (oh_date host b)) (oh_date host a)"

definition native_lead_reentry :: "oracle_host \<Rightarrow> run \<Rightarrow> string \<Rightarrow> bool" where
  "native_lead_reentry host r now \<longleftrightarrow>
     run_state r = WAITING_DEPENDENCY \<and> run_interruptedFrom r = Some CHANGES_REQUESTED \<and>
     (case run_nativeLead r of
        None \<Rightarrow> present_and (\<lambda>w. rw_kind w = W_lead \<and> date_le host (rw_nextAttemptAt w) now)
                 (Option.bind (run_nativeReview r) nr_wait)
      | Some l \<Rightarrow>
          (if present_and (\<lambda>w. lw_kind w = LW_stop \<or> lw_kind w = LW_qualification
                \<or> date_gt host (lw_nextAttemptAt w) now) (nl_wait l) then False
           else if \<exists>q \<in> set (nl_requests l).
               Some (li_requestId (lr_identity q)) \<noteq> nl_activeRequestId l
               \<and> lr_submissionPossible q \<and> \<not> present_and (\<lambda>d. d \<noteq> []) (lr_terminalDigest q)
               \<and> lr_observations q < LEAD_OBSERVATIONS
               \<and> date_le host (lr_nextObservationAt q) now then True
           else absent_or (\<lambda>q. \<not> semantic_native_failure (lr_failure q)
               \<and> (lr_status q = Qualified_complete \<or> lr_status q = Terminal_unknown
                  \<or> lr_status q = Incomplete \<and> lr_failure q = Some Transport_failure
                  \<or> lr_observations q < LEAD_OBSERVATIONS
                    \<and> date_le host (lr_nextObservationAt q) now)) (active_native_lead r)))"

text \<open>The optional binding is \<open>Some (bindingId, model)\<close>.\<close>

definition native_lead_observation_due ::
  "oracle_host \<Rightarrow> run \<Rightarrow> string \<Rightarrow> (string \<times> string) option \<Rightarrow> bool" where
  "native_lead_observation_due host r now binding =
     present_and (\<lambda>l.
       \<not> present_and (\<lambda>w. lw_kind w = LW_stop \<or> lw_kind w = LW_qualification) (nl_wait l)
       \<and> \<not> native_lead_stopped r
       \<and> \<not> present_and (\<lambda>w. date_gt host (lw_nextAttemptAt w) now) (nl_wait l)
       \<and> (\<exists>q \<in> set (nl_requests l). lr_submissionPossible q \<and> \<not> lead_authenticated host q
            \<and> absent_or (\<lambda>b. li_bindingId (lr_identity q) = fst b
                 \<and> li_requestedModel (lr_identity q) = snd b) binding
            \<and> \<not> semantic_native_failure (lr_failure q)
            \<and> (lr_status q \<noteq> Incomplete \<or> lr_failure q = Some Transport_failure)
            \<and> lr_observations q < LEAD_OBSERVATIONS
            \<and> date_le host (lr_nextObservationAt q) now)) (run_nativeLead r)"

section \<open>How the ledger may change\<close>

definition lead_request_progresses :: "lead_request \<Rightarrow> lead_request \<Rightarrow> bool" where
  "lead_request_progresses r a \<longleftrightarrow>
     lr_identity r = lr_identity a
     \<and> (lr_submissionPossible r \<longrightarrow> lr_submissionPossible a)
     \<and> lr_observations r \<le> lr_observations a
     \<and> native_failure_progresses (lr_failure r) (lr_failure a)
     \<and> \<not> (semantic_native_failure (lr_failure r) \<and> lr_status a = Qualified_complete)
     \<and> \<not> (semantic_native_failure (lr_failure a) \<and> lr_status a = Replaced \<and> lr_status r \<noteq> Replaced)
     \<and> kept (lr_conversationUrl r) (lr_conversationUrl a)
     \<and> kept (lr_terminalDigest r) (lr_terminalDigest a)
     \<and> kept (lr_completionProof r) (lr_completionProof a)
     \<and> kept (lr_replacedBy r) (lr_replacedBy a)
     \<and> kept (lr_replacementReason r) (lr_replacementReason a)
     \<and> (lr_status r = lr_status a
        \<or> lr_status r = Qualified_complete \<and> lr_status a = Retired
        \<or> lr_status r = Incomplete \<and> lr_status a = Qualified_complete \<and> lr_completionProof a \<noteq> None
        \<or> lr_status r \<in> {Pending, Terminal_unknown}
        \<or> lr_status r = Incomplete \<and> lr_failure r = Some Transport_failure \<and> lr_status a = Replaced)"

definition succession_progresses :: "owner_succession \<Rightarrow> owner_succession \<Rightarrow> bool" where
  "succession_progresses a b \<longleftrightarrow>
     b\<lparr>os_status := os_status a\<rparr> = a
     \<and> (os_status a = os_status b \<or> os_status a = Prepared \<and> os_status b = Confirmed)"

definition is_prefix_of :: "'a list \<Rightarrow> 'a list \<Rightarrow> bool" where
  "is_prefix_of xs ys \<longleftrightarrow> take (length xs) ys = xs"

definition native_lead_progresses ::
  "oracle_host \<Rightarrow> native_lead option \<Rightarrow> native_lead option \<Rightarrow> bool" where
  "native_lead_progresses host previous next \<longleftrightarrow>
     absent_or (\<lambda>l. \<forall>n \<in> set (nl_requests l). lr_terminalDigest n = None
        \<or> present_and (\<lambda>p. \<exists>r \<in> set (nl_requests p).
             li_requestId (lr_identity r) = li_requestId (lr_identity n)
             \<and> lr_terminalDigest r = lr_terminalDigest n) previous
        \<or> lead_authenticated host n) next
     \<and> absent_or (\<lambda>old. present_and (\<lambda>l.
          kept (nl_recoveryConfiguration old) (nl_recoveryConfiguration l)
          \<and> length (nl_requests old) \<le> length (nl_requests l)
          \<and> length (nl_ownerSuccessions old) \<le> length (nl_ownerSuccessions l)
          \<and> is_prefix_of (nl_acceptances old) (nl_acceptances l)
          \<and> list_all2 succession_progresses (nl_ownerSuccessions old)
               (take (length (nl_ownerSuccessions old)) (nl_ownerSuccessions l))
          \<and> is_prefix_of (stopped_recoveries old) (stopped_recoveries l)
          \<and> list_all2 lead_request_progresses (nl_requests old)
               (take (length (nl_requests old)) (nl_requests l))) next) previous"

lemma is_prefix_of_refl [simp]: "is_prefix_of xs xs"
  by (simp add: is_prefix_of_def)

lemma is_prefix_of_iff: "is_prefix_of xs ys \<longleftrightarrow> (\<exists>zs. ys = xs @ zs)"
  by (auto simp: is_prefix_of_def) (metis append_take_drop_id)

lemma is_prefix_of_trans: "is_prefix_of xs ys \<Longrightarrow> is_prefix_of ys zs \<Longrightarrow> is_prefix_of xs zs"
  by (auto simp: is_prefix_of_iff)

fun accepted_lead_writes :: "oracle_host \<Rightarrow> native_lead option list \<Rightarrow> bool" where
  "accepted_lead_writes host (a # b # rest) =
     (native_lead_progresses host a b \<and> accepted_lead_writes host (b # rest))"
| "accepted_lead_writes host _ = True"

definition dispositions_retained :: "native_lead option \<Rightarrow> native_lead option \<Rightarrow> bool" where
  "dispositions_retained a b \<longleftrightarrow>
     absent_or (\<lambda>old. present_and (\<lambda>l.
       is_prefix_of (nl_acceptances old) (nl_acceptances l)
       \<and> is_prefix_of (stopped_recoveries old) (stopped_recoveries l)
       \<and> is_prefix_of (map lr_identity (nl_requests old)) (map lr_identity (nl_requests l))
       \<and> is_prefix_of (map os_toGeneration (nl_ownerSuccessions old))
            (map os_toGeneration (nl_ownerSuccessions l))) b) a"

lemma dispositions_retained_refl [simp]: "dispositions_retained a a"
  by (cases a) (simp_all add: dispositions_retained_def)

lemma dispositions_retained_trans:
  "dispositions_retained a b \<Longrightarrow> dispositions_retained b c \<Longrightarrow> dispositions_retained a c"
  by (cases a; cases b; cases c)
     (auto simp: dispositions_retained_def intro: is_prefix_of_trans)

lemma map_prefix:
  assumes "list_all2 R xs (take (length xs) ys)" and "\<And>x y. R x y \<Longrightarrow> f y = f x"
  shows "is_prefix_of (map f xs) (map f ys)"
proof -
  have "list_all2 (\<lambda>x y. f x = f y) xs (take (length xs) ys)"
    using assms by (metis (mono_tags, lifting) list.rel_mono_strong)
  then have "map f xs = map f (take (length xs) ys)"
    by (simp add: list.rel_eq list_all2_map1 list_all2_map2 flip: list.rel_eq)
  then show ?thesis unfolding is_prefix_of_def by (metis length_map take_map)
qed

lemma native_lead_progresses_retains:
  assumes p: "native_lead_progresses host a b"
  shows "dispositions_retained a b"
proof (cases a)
  case (Some old)
  with p obtain l where l: "b = Some l"
    by (cases b) (simp_all add: native_lead_progresses_def)
  have "is_prefix_of (map lr_identity (nl_requests old)) (map lr_identity (nl_requests l))"
    by (rule map_prefix[of lead_request_progresses])
       (use p Some l in \<open>simp_all add: native_lead_progresses_def lead_request_progresses_def\<close>)
  moreover have "os_toGeneration y = os_toGeneration x" if "succession_progresses x y" for x y
    using that by (cases x; cases y) (simp add: succession_progresses_def)
  then have "is_prefix_of (map os_toGeneration (nl_ownerSuccessions old))
        (map os_toGeneration (nl_ownerSuccessions l))"
    by (rule map_prefix[of succession_progresses, rotated])
       (use p Some l in \<open>simp_all add: native_lead_progresses_def\<close>)
  ultimately show ?thesis
    using p Some l by (simp add: native_lead_progresses_def dispositions_retained_def)
qed (simp add: dispositions_retained_def)

text \<open>The lead's decisions are append-only: through any sequence of accepted writes of a
  run, the accepted dispositions, the recorded stopped recoveries, the identities of the
  requests and the generations of the owner successions of an earlier version are an initial
  part of those of every later version.\<close>

theorem lead_decisions_append_only:
  assumes "accepted_lead_writes host (v # vs)" and "w \<in> set (v # vs)"
  shows "dispositions_retained v w"
  using assms
proof (induction vs arbitrary: v)
  case (Cons u us)
  then have "dispositions_retained v u" by (auto intro: native_lead_progresses_retains)
  moreover have "dispositions_retained u w" if "w \<in> set (u # us)"
    using Cons that by auto
  ultimately show ?case
    using Cons.prems(2) by (auto intro: dispositions_retained_trans)
qed simp

definition empty_lead_ledger :: native_lead where
  "empty_lead_ledger =
     \<lparr> nl_recoveryConfiguration = None, nl_requests = [], nl_acceptances = [],
       nl_ownerSuccessions = [], nl_stoppedRecoveries = None, nl_activeRequestId = None,
       nl_wait = None \<rparr>"

definition sample_succession :: owner_succession where
  "sample_succession =
     \<lparr> os_missionId = ''m'', os_laneId = ''run:run-1'', os_claimId = ''claim-1'',
       os_workspace = ''/w'', os_fromGeneration = 1, os_toGeneration = 3,
       os_predecessorSha256 = replicate 64 (CHR ''a''), os_status = Prepared,
       os_predecessorGeneration = 2, os_predecessorPhase = ''parked'',
       os_predecessorStatus = Parked \<rparr>"

definition sample_lead_versions :: "native_lead option list" where
  "sample_lead_versions =
     [Some (empty_lead_ledger\<lparr>nl_ownerSuccessions := [sample_succession]\<rparr>),
      Some (empty_lead_ledger\<lparr>nl_ownerSuccessions := [sample_succession\<lparr>os_status := Confirmed\<rparr>]\<rparr>),
      Some (empty_lead_ledger\<lparr>nl_ownerSuccessions := [sample_succession\<lparr>os_status := Confirmed\<rparr>],
              nl_stoppedRecoveries := Some []\<rparr>)]"

theorem lead_decisions_append_only_witness:
  "dispositions_retained (sample_lead_versions ! 0) (sample_lead_versions ! 2)"
proof -
  have "accepted_lead_writes sample_host sample_lead_versions" by code_simp
  moreover have "sample_lead_versions = sample_lead_versions ! 0 # tl sample_lead_versions"
    and "sample_lead_versions ! 2 \<in> set (sample_lead_versions ! 0 # tl sample_lead_versions)"
    by (simp_all add: sample_lead_versions_def)
  ultimately show ?thesis
    by (metis lead_decisions_append_only)
qed

section \<open>Owner succession is a chain\<close>

fun chain_between :: "int \<Rightarrow> int \<Rightarrow> owner_succession list \<Rightarrow> bool" where
  "chain_between g goal [] = (g = goal)"
| "chain_between g goal (s # ss) =
     (os_fromGeneration s = g \<and> chain_between (os_toGeneration s) goal ss)"

lemma reaches_chain:
  "reaches ok goal g ss \<Longrightarrow> \<exists>cs. subseq cs ss \<and> chain_between g goal cs \<and> (\<forall>c \<in> set cs. ok c)"
proof (induction ok goal g ss rule: reaches.induct)
  case (1 ok goal g)
  then show ?case by (intro exI[of _ "[]"]) simp
next
  case (2 ok goal g s ss)
  show ?case
  proof (cases "g = goal")
    case True
    then show ?thesis by (intro exI[of _ "[]"]) simp
  next
    case False
    with 2 obtain cs where cs: "subseq cs ss" "\<forall>c \<in> set cs. ok c"
      "chain_between (if ok s \<and> os_fromGeneration s = g then os_toGeneration s else g) goal cs"
      by auto
    show ?thesis
    proof (cases "ok s \<and> os_fromGeneration s = g")
      case True
      with cs show ?thesis by (intro exI[of _ "s # cs"]) simp
    next
      case False
      with cs show ?thesis by (intro exI[of _ cs]) auto
    qed
  qed
qed

text \<open>A proof of ownership across generations is a chain of confirmed successions: when
  the ledger proves that an owner of another generation holds a request, some of its
  successions, in ledger order, each confirmed and of the owner's mission and lane and the
  run's claim and workspace, lead from the request's generation to the owner's.\<close>

theorem proved_owner_has_chain:
  assumes "lead_owner_proved r i (Some w)"
  shows "\<exists>cs. subseq cs (owner_successions r)
           \<and> chain_between (li_ownerGeneration i) (ow_generation w) cs
           \<and> (\<forall>c \<in> set cs. os_status c = Confirmed \<and> os_missionId c = li_missionId i
                \<and> os_laneId c = li_laneId i \<and> Some (os_claimId c) = run_dispatchClaimId r)"
proof -
  from assms have "reaches (succession_confirmed r w) (ow_generation w) (li_ownerGeneration i)
      (owner_successions r)"
    and same: "ow_missionId w = li_missionId i" "ow_laneId w = li_laneId i"
    by (simp_all add: lead_owner_proved_def)
  from reaches_chain[OF this(1)] show ?thesis
    unfolding succession_confirmed_def same by blast
qed

definition sample_lead_identity :: lead_identity where
  "sample_lead_identity =
     \<lparr> li_requestId = ''lead-1'', li_correlationId = ''lead-1'',
       li_incarnation = replicate 64 (CHR ''a''), li_runId = ''run-1'', li_claimId = ''claim-1'',
       li_missionId = ''m'', li_laneId = ''run:run-1'', li_ownerGeneration = 1,
       li_phase = ''lead-disposition'', li_role = ''bounded-lead'',
       li_repository = ''acme/widgets'', li_targetKey = ''review-target/v1:k'',
       li_pullRequestNumber = 7, li_baseSha = replicate 40 (CHR ''a''),
       li_headSha = replicate 40 (CHR ''b''),
       li_origin = \<lparr> lo_requestId = ''req-1'', lo_receiptId = ''req-1.terminal'',
                     lo_digest = replicate 64 (CHR ''e'') \<rparr>,
       li_authoritySha256 = replicate 64 (CHR ''a''), li_sourceSha256 = replicate 64 (CHR ''c''),
       li_diffSha256 = replicate 64 (CHR ''d''), li_packetSha256 = replicate 64 (CHR ''f''),
       li_blockingFindingIds = [replicate 64 (CHR ''e'') @ '':0''], li_repairOrdinal = 1,
       li_repairLimit = 2, li_bindingId = ''b1'', li_policyRevision = ''p1'',
       li_requestedModel = ''model'', li_requestedEffort = Oracle_High \<rparr>"

lemma sample_lead_identity_valid: "valid_lead_identity sample_lead_identity"
  by code_simp

definition sample_owner :: lead_owner where
  "sample_owner = \<lparr> ow_missionId = ''m'', ow_laneId = ''run:run-1'', ow_generation = 3 \<rparr>"

definition sample_owned_run :: run where
  "sample_owned_run =
     (create_run (Issue ''acme'' ''widgets'' 42) ''t0'' ''run-1'' None (Some ''claim-1'') None)
       \<lparr>run_nativeLead := Some (empty_lead_ledger
          \<lparr>nl_ownerSuccessions := [sample_succession\<lparr>os_status := Confirmed\<rparr>]\<rparr>),
        run_bootstrap := Some \<lparr> b_bootstrapKind = Standalone_isolated, b_owner = ''acme'',
          b_repo = ''widgets'', b_issueNumber = 42, b_baseBranch = ''main'',
          b_baseSha = replicate 40 (CHR ''a''), b_branch = ''issue-42'',
          b_publicationBranch = None, b_workspacePath = ''/w'' \<rparr>\<rparr>"

theorem proved_owner_has_chain_witness:
  "\<exists>cs. subseq cs (owner_successions sample_owned_run) \<and> cs \<noteq> []
      \<and> (\<forall>c \<in> set cs. os_status c = Confirmed)"
proof -
  have "lead_owner_proved sample_owned_run sample_lead_identity (Some sample_owner)"
    by code_simp
  from proved_owner_has_chain[OF this] obtain cs where
    cs: "subseq cs (owner_successions sample_owned_run)" "\<forall>c \<in> set cs. os_status c = Confirmed"
    "chain_between (li_ownerGeneration sample_lead_identity) (ow_generation sample_owner) cs"
    by auto
  have "li_ownerGeneration sample_lead_identity \<noteq> ow_generation sample_owner" by code_simp
  with cs(3) have "cs \<noteq> []" by auto
  with cs show ?thesis by blast
qed

end
