(* ===== verification/Repair_Admission.thy ===== *)
theory Repair_Admission
  imports Native_Lead Interfaces
begin

text \<open>
  Repair admission (\<^verbatim>\<open>src/domain/repair-admission.ts\<close>): who may continue a repair, the
  binding of an attempt to one \<open>start_fix\<close> event, the snapshot that admits it, the hand-off
  of the executor's identity, and the admission that is active in a run.

  \<open>randomUUID\<close> is an argument. The validators of the code take \<open>unknown\<close>; here they take
  the typed record, so their \<open>typeof\<close> and closed-key tests are discharged by the type, and
  \<open>parse_repair_task_shape_authority\<close>, which reads JSON, keeps them.
\<close>

section \<open>Executor identities\<close>

datatype repair_identity_error =
    Executors_disagree
  | Session_disagrees
  | Predecessor_without_generation

definition same_repair_executor_identity ::
  "executor_identity option \<Rightarrow> executor_identity option \<Rightarrow> bool" where
  "same_repair_executor_identity a b \<longleftrightarrow>
     map_option e_provider a = map_option e_provider b
     \<and> map_option e_sessionId a = map_option e_sessionId b
     \<and> Option.bind a e_generation = Option.bind b e_generation
     \<and> (a = None) = (b = None)"

lemma same_repair_executor_identity_iff [simp]: "same_repair_executor_identity a b \<longleftrightarrow> a = b"
  by (cases a; cases b) (auto simp: same_repair_executor_identity_def)

definition result_session :: "run \<Rightarrow> string option" where
  "result_session r = Option.bind (run_agentResult r) a_sessionId"

definition result_executor :: "run \<Rightarrow> executor_identity option" where
  "result_executor r = Option.bind (run_agentResult r) a_executor"

definition resolve_repair_predecessor :: "run \<Rightarrow> repair_identity_error + executor_identity option" where
  "resolve_repair_predecessor r =
     (if run_executor r \<noteq> None \<and> result_executor r \<noteq> None
         \<and> \<not> same_repair_executor_identity (run_executor r) (result_executor r)
      then Inl Executors_disagree
      else
        let predecessor = or_else (run_executor r) (result_executor r)
        in if predecessor \<noteq> None \<and> result_session r \<noteq> None
              \<and> map_option e_sessionId predecessor \<noteq> result_session r
           then Inl Session_disagrees
           else Inr predecessor)"

definition lacks_generation :: "executor_identity \<Rightarrow> bool" where
  "lacks_generation e \<longleftrightarrow> absent_or blank (e_generation e)"

definition generationless_app_server_predecessor ::
  "run \<Rightarrow> repair_identity_error + executor_identity option" where
  "generationless_app_server_predecessor r =
     (case resolve_repair_predecessor r of
        Inl e \<Rightarrow> Inl e
      | Inr predecessor \<Rightarrow>
          Inr (if present_and (\<lambda>e. e_provider e = ''codex-app-server'' \<and> lacks_generation e) predecessor
               then predecessor else None))"

section \<open>Unfinished attempts\<close>

definition is_start_fix :: "transition_record \<Rightarrow> bool" where
  "is_start_fix h \<longleftrightarrow>
     tr_type h = Applied T_start_fix \<and> tr_from h = CHANGES_REQUESTED \<and> tr_to h = IMPLEMENTING"

definition last_start_fix :: "transition_record list \<Rightarrow> nat option" where
  "last_start_fix hs = find_last_index (\<lambda>i h. is_start_fix h) hs"

definition attempt_finished :: "transition_record list \<Rightarrow> nat \<Rightarrow> bool" where
  "attempt_finished hs i \<longleftrightarrow>
     (\<exists>h \<in> set (drop (Suc i) hs). tr_type h = Applied T_agent_succeeded \<or> tr_type h = Applied T_agent_failed)"

definition unfinished_bound_repair_attempt :: "run \<Rightarrow> (nat \<times> int option) option" where
  "unfinished_bound_repair_attempt r =
     (if run_state r \<noteq> IMPLEMENTING then None
      else case last_start_fix (run_history r) of
          None \<Rightarrow> None
        | Some i \<Rightarrow>
            (if attempt_finished (run_history r) i then None
             else
               let marker = tr_repairAdmissionIndex (run_history r ! i);
                   bound = find_index (\<lambda>k a. present_and (\<lambda>b. bi_admissionIndex b = int k
                     \<and> bi_startFixHistoryIndex b = int i) (ad_attemptBinding a)) (admissions r)
               in if marker = None \<and> bound = None then None
                  else Some (i, or_else marker (map_option int bound))))"

section \<open>Bindings\<close>

definition fresh_required :: "string \<Rightarrow> executor_identity option \<Rightarrow> string option \<Rightarrow> bool" where
  "fresh_required selected predecessor session \<longleftrightarrow>
     selected = ''luna-isolated'' \<or> selected = ''worker-router''
     \<or> predecessor \<noteq> None
       \<and> \<not> (map_option e_provider predecessor = Some selected
            \<or> map_option e_provider predecessor = Some ''codex-app-server'' \<and> selected = ''codex-cli'')
     \<or> predecessor = None \<and> session \<noteq> None"

definition continues_generationless :: "string \<Rightarrow> executor_identity option \<Rightarrow> bool" where
  "continues_generationless selected predecessor \<longleftrightarrow>
     (selected = ''codex-cli'' \<or> selected = ''codex-app-server'')
     \<and> present_and (\<lambda>e. e_provider e = ''codex-app-server'' \<and> lacks_generation e) predecessor"

definition create_repair_attempt_binding ::
  "run \<Rightarrow> resolved_execution \<Rightarrow> string \<Rightarrow> repair_identity_error + repair_attempt_binding" where
  "create_repair_attempt_binding r execution uuid =
     (case resolve_repair_predecessor r of
        Inl e \<Rightarrow> Inl e
      | Inr predecessor \<Rightarrow>
          let fresh = fresh_required (ex_executor execution) predecessor (result_session r);
              new = ''repair-'' @ uuid
          in if \<not> fresh \<and> continues_generationless (ex_executor execution) predecessor
             then Inl Predecessor_without_generation
             else Inr
               \<lparr> bi_admissionIndex = int (length (admissions r)),
                 bi_startFixHistoryIndex = int (length (run_history r)),
                 bi_predecessorExecutor = predecessor,
                 bi_predecessorSessionId = result_session r,
                 bi_freshExecutor = fresh,
                 bi_runtimeGeneration =
                   (if fresh then new
                    else case Option.bind predecessor e_generation of None \<Rightarrow> new | Some g \<Rightarrow> g) \<rparr>)"

definition is_repair_executor_identity :: "executor_identity \<Rightarrow> bool" where
  "is_repair_executor_identity e \<longleftrightarrow>
     \<not> blank (e_provider e) \<and> \<not> blank (e_sessionId e) \<and> absent_or (\<lambda>g. \<not> blank g) (e_generation e)"

definition is_repair_attempt_binding :: "repair_attempt_binding \<Rightarrow> bool" where
  "is_repair_attempt_binding b \<longleftrightarrow>
     is_safe_integer (bi_admissionIndex b) \<and> 0 \<le> bi_admissionIndex b
     \<and> is_safe_integer (bi_startFixHistoryIndex b) \<and> 0 \<le> bi_startFixHistoryIndex b
     \<and> absent_or is_repair_executor_identity (bi_predecessorExecutor b)
     \<and> absent_or (\<lambda>s. \<not> blank s) (bi_predecessorSessionId b)
     \<and> absent_or (\<lambda>e. absent_or (\<lambda>s. e_sessionId e = s) (bi_predecessorSessionId b))
         (bi_predecessorExecutor b)
     \<and> \<not> blank (bi_runtimeGeneration b)"

definition is_attempt_binding_compatible :: "string \<Rightarrow> repair_attempt_binding \<Rightarrow> bool" where
  "is_attempt_binding_compatible selected b \<longleftrightarrow>
     bi_freshExecutor b
       = fresh_required selected (bi_predecessorExecutor b) (bi_predecessorSessionId b)
     \<and> \<not> (\<not> bi_freshExecutor b \<and> continues_generationless selected (bi_predecessorExecutor b))
     \<and> \<not> (\<not> bi_freshExecutor b
          \<and> present_and (\<lambda>g. bi_runtimeGeneration b \<noteq> g)
              (Option.bind (bi_predecessorExecutor b) e_generation))
     \<and> \<not> (bi_freshExecutor b
          \<and> Option.bind (bi_predecessorExecutor b) e_generation = Some (bi_runtimeGeneration b))"

section \<open>Hand-off\<close>

definition provider_matches :: "string \<Rightarrow> string \<Rightarrow> bool" where
  "provider_matches selected provider \<longleftrightarrow>
     (if selected = ''luna-isolated'' then provider = ''codex-cli''
      else if selected = ''codex-cli'' then provider = ''codex-cli'' \<or> provider = ''codex-app-server''
      else provider = selected)"

fun is_repair_handoff_compatible ::
  "string \<Rightarrow> repair_attempt_binding \<Rightarrow> repair_executor_handoff \<Rightarrow> repair_executor_handoff option
     \<Rightarrow> bool" where
  "is_repair_handoff_compatible selected b (Handoff_sessionless provider) previous =
     (selected = ''worker-router'' \<and> provider = ''worker-router''
      \<and> absent_or (\<lambda>p. p = Handoff_sessionless provider) previous)"
| "is_repair_handoff_compatible selected b (Handoff_executor e) previous =
     (selected \<noteq> ''worker-router'' \<and> e_provider e \<noteq> ''worker-router''
      \<and> provider_matches selected (e_provider e)
      \<and> \<not> (e_provider e = ''codex-app-server'' \<and> e_generation e \<noteq> Some (bi_runtimeGeneration b))
      \<and> (bi_freshExecutor b
         \<or> absent_or (\<lambda>p. same_repair_executor_identity (Some p) (Some e)) (bi_predecessorExecutor b)
           \<and> absent_or (\<lambda>s. s = e_sessionId e) (bi_predecessorSessionId b))
      \<and> absent_or (\<lambda>p. case p of
            Handoff_executor d \<Rightarrow> same_repair_executor_identity (Some d) (Some e)
          | Handoff_sessionless _ \<Rightarrow> False) previous)"

fun handoff_outcome_ok :: "repair_executor_handoff \<Rightarrow> bool" where
  "handoff_outcome_ok (Handoff_executor e) = is_repair_executor_identity e"
| "handoff_outcome_ok (Handoff_sessionless provider) = (provider = ''worker-router'')"

definition is_repair_handoff_record :: "repair_handoff_record \<Rightarrow> bool" where
  "is_repair_handoff_record h \<longleftrightarrow>
     is_safe_integer (hr_admissionHistoryIndex h) \<and> 0 \<le> hr_admissionHistoryIndex h
     \<and> is_safe_integer (hr_startFixHistoryIndex h) \<and> 0 \<le> hr_startFixHistoryIndex h
     \<and> handoff_outcome_ok (hr_outcome h)"

section \<open>Snapshots\<close>

definition REPAIR_FINDING_TAXONOMY_REVISION :: string where
  "REPAIR_FINDING_TAXONOMY_REVISION = ''repair-finding-taxonomy-v1''"

definition is_repair_task_shape_authority :: "repair_task_shape_authority \<Rightarrow> bool" where
  "is_repair_task_shape_authority a \<longleftrightarrow> \<not> blank (au_revision a)"

fun snapshot_profile_matches_task_shape :: "task_shape \<Rightarrow> repair_profile \<Rightarrow> bool" where
  "snapshot_profile_matches_task_shape Shape_bounded Repair_routine = True"
| "snapshot_profile_matches_task_shape Shape_interacting Repair_complex = True"
| "snapshot_profile_matches_task_shape _ _ = False"

definition is_resolved_execution :: "resolved_execution \<Rightarrow> bool" where
  "is_resolved_execution e \<longleftrightarrow>
     \<not> blank (ex_revision e) \<and> \<not> blank (ex_executor e)
     \<and> is_safe_integer (ex_timeoutMs e) \<and> 0 < ex_timeoutMs e"

fun repair_profile_name :: "repair_profile \<Rightarrow> execution_profile_name" where
  "repair_profile_name Repair_routine = Routine"
| "repair_profile_name Repair_complex = Complex"

fun as_repair_profile :: "execution_profile_name \<Rightarrow> repair_profile option" where
  "as_repair_profile Routine = Some Repair_routine"
| "as_repair_profile Complex = Some Repair_complex"
| "as_repair_profile _ = None"

definition is_repair_admission_snapshot ::
  "oracle_host \<Rightarrow> repair_admission_snapshot \<Rightarrow> bool" where
  "is_repair_admission_snapshot host a \<longleftrightarrow>
     \<not> blank (ad_authorityRevision a)
     \<and> ad_taxonomyRevision a = REPAIR_FINDING_TAXONOMY_REVISION
     \<and> \<not> blank (ad_headSha a)
     \<and> positive (ad_pullRequestNumber a)
     \<and> snapshot_profile_matches_task_shape (ad_taskShape a) (ad_executionProfile a)
     \<and> \<not> blank (ad_executionRevision a)
     \<and> is_resolved_execution (ad_execution a)
     \<and> ex_profile (ad_execution a) = repair_profile_name (ad_executionProfile a)
     \<and> ex_revision (ad_execution a) = ad_executionRevision a
     \<and> absent_or positive (ad_budgetLimit a)
     \<and> absent_or (\<lambda>l. valid_lead_repair_reference host l
          \<and> present_and is_digest (ad_packetSha256 a)) (ad_leadDisposition a)
     \<and> absent_or (\<lambda>b. is_repair_attempt_binding b
          \<and> is_attempt_binding_compatible (ex_executor (ad_execution a)) b) (ad_attemptBinding a)"

datatype repair_escalation = Decision_required | Complex_unavailable

datatype repair_admission_decision = Admit repair_profile | Park repair_escalation

fun decide_repair_admission :: "task_shape \<Rightarrow> repair_admission_decision" where
  "decide_repair_admission Shape_bounded = Admit Repair_routine"
| "decide_repair_admission Shape_interacting = Admit Repair_complex"
| "decide_repair_admission Shape_decision = Park Decision_required"

datatype snapshot_error =
    Invalid_authority | Invalid_head_or_pull_request | Unresolved_execution | Profile_mismatch

definition create_repair_admission_snapshot ::
  "repair_task_shape_authority \<Rightarrow> repair_finding_kind \<Rightarrow> string \<Rightarrow> int \<Rightarrow> resolved_execution
     \<Rightarrow> string \<Rightarrow> snapshot_error + repair_admission_snapshot" where
  "create_repair_admission_snapshot authority finding head pr execution now =
     (if \<not> is_repair_task_shape_authority authority then Inl Invalid_authority
      else if blank head \<or> \<not> is_safe_integer pr \<or> pr < 1 then Inl Invalid_head_or_pull_request
      else case as_repair_profile (ex_profile execution) of
          None \<Rightarrow> Inl Unresolved_execution
        | Some profile \<Rightarrow>
            (if \<not> is_resolved_execution execution then Inl Unresolved_execution
             else if \<not> snapshot_profile_matches_task_shape (au_shape authority) profile
             then Inl Profile_mismatch
             else Inr
               \<lparr> ad_leadDisposition = None, ad_packetSha256 = None, ad_budgetLimit = None,
                 ad_authorityRevision = au_revision authority, ad_taskShape = au_shape authority,
                 ad_taxonomyRevision = REPAIR_FINDING_TAXONOMY_REVISION, ad_finding = finding,
                 ad_headSha = head, ad_pullRequestNumber = pr, ad_executionProfile = profile,
                 ad_executionRevision = ex_revision execution, ad_execution = execution,
                 ad_admittedAt = now, ad_attemptBinding = None \<rparr>))"

text \<open>\<open>parseRepairTaskShapeAuthority\<close>, on the value \<open>JSON.parse\<close> gives (\<open>None\<close>: it throws).\<close>

fun task_shape_of :: "string \<Rightarrow> task_shape option" where
  "task_shape_of s =
     (if s = ''bounded'' then Some Shape_bounded
      else if s = ''interacting'' then Some Shape_interacting
      else if s = ''decision'' then Some Shape_decision else None)"

datatype authority_error = Not_JSON | Not_strict

fun parse_repair_task_shape_authority ::
  "json option \<Rightarrow> authority_error + repair_task_shape_authority" where
  "parse_repair_task_shape_authority None = Inl Not_JSON"
| "parse_repair_task_shape_authority (Some (JObject props)) =
     (if \<exists>k \<in> set (map fst props). k \<noteq> ''revision'' \<and> k \<noteq> ''shape'' then Inl Not_strict
      else case (js_get props ''revision'', js_get props ''shape'') of
          (Some (JString revision), Some (JString shape)) \<Rightarrow>
            (if blank revision then Inl Not_strict
             else case task_shape_of shape of
                 None \<Rightarrow> Inl Not_strict
               | Some t \<Rightarrow> Inr \<lparr> au_revision = revision, au_shape = t \<rparr>)
        | _ \<Rightarrow> Inl Not_strict)"
| "parse_repair_task_shape_authority (Some _) = Inl Not_strict"

section \<open>The active admission\<close>

record active_admission =
  act_snapshot :: repair_admission_snapshot
  act_admissionHistoryIndex :: nat
  act_startFixHistoryIndex :: nat
  act_handoff :: "repair_handoff_record option"

definition validation_status_of :: "run \<Rightarrow> validation_status option" where
  "validation_status_of r = map_option v_status (run_validationResult r)"

definition review_verdict_of :: "run \<Rightarrow> review_verdict option" where
  "review_verdict_of r = map_option r_verdict (run_reviewResult r)"

definition expected_finding :: "run \<Rightarrow> repair_finding_kind" where
  "expected_finding r =
     (if validation_status_of r = Some Failed \<and> review_verdict_of r \<noteq> Some Request_changes
      then Validation_failed else Review_blocking)"

definition finding_is_current :: "run \<Rightarrow> repair_finding_kind \<Rightarrow> bool" where
  "finding_is_current r f \<longleftrightarrow>
     f = expected_finding r
     \<and> (f = Review_blocking \<longrightarrow> present_and (\<lambda>v. r_verdict v = Request_changes
          \<and> Some (r_headSha v) = run_headSha r) (run_reviewResult r))
     \<and> (f = Validation_failed \<longrightarrow> present_and (\<lambda>v. v_status v = Failed
          \<and> Some (v_headSha v) = run_headSha r) (run_validationResult r))"

definition admission_applies ::
  "oracle_host \<Rightarrow> run \<Rightarrow> nat \<Rightarrow> int \<Rightarrow> nat \<Rightarrow> repair_admission_snapshot \<Rightarrow> bool" where
  "admission_applies host r i marker k a \<longleftrightarrow>
     is_repair_admission_snapshot host a
     \<and> present_and (\<lambda>b. bi_admissionIndex b = int k \<and> bi_startFixHistoryIndex b = int i)
         (ad_attemptBinding a)
     \<and> int k = marker
     \<and> present_and (\<lambda>au. ad_authorityRevision a = au_revision au \<and> ad_taskShape a = au_shape au)
         (run_repairTaskShapeAuthority r)
     \<and> Some (ad_headSha a) = run_headSha r
     \<and> Some (ad_pullRequestNumber a) = map_option pr_number (run_pullRequest r)"

definition recorded_handoff :: "run \<Rightarrow> nat \<Rightarrow> nat \<Rightarrow> repair_handoff_record option" where
  "recorded_handoff r k i =
     Option.bind (find (\<lambda>h.
         (tr_type h = Applied T_repair_executor_handoff \<or> tr_type h = Applied T_repair_executor_continued)
         \<and> present_and (\<lambda>o'. hr_admissionHistoryIndex o' = int k
              \<and> hr_startFixHistoryIndex o' = int i) (tr_repairHandoff h))
       (rev (run_history r))) tr_repairHandoff"

definition identity_held ::
  "run \<Rightarrow> executor_identity option \<Rightarrow> repair_attempt_binding \<Rightarrow> repair_handoff_record option \<Rightarrow> bool" where
  "identity_held r predecessor b handoff =
     (case handoff of
        None \<Rightarrow> same_repair_executor_identity predecessor (bi_predecessorExecutor b)
                \<and> result_session r = bi_predecessorSessionId b
      | Some h \<Rightarrow>
          (case hr_outcome h of
             Handoff_sessionless _ \<Rightarrow>
               run_executor r = None \<and> result_executor r = None \<and> result_session r = None
           | Handoff_executor e \<Rightarrow>
               run_executor r \<noteq> None
               \<and> same_repair_executor_identity (run_executor r) (Some e)
               \<and> same_repair_executor_identity predecessor (Some e)
               \<and> absent_or (\<lambda>s. s = e_sessionId e) (result_session r)))"

definition active_repair_admission :: "oracle_host \<Rightarrow> run \<Rightarrow> active_admission option" where
  "active_repair_admission host r =
     (if run_state r \<noteq> IMPLEMENTING \<or> run_headSha r = None \<or> run_pullRequest r = None
         \<or> run_repairTaskShapeAuthority r = None then None
      else case last_start_fix (run_history r) of
          None \<Rightarrow> None
        | Some i \<Rightarrow>
            (if attempt_finished (run_history r) i then None
             else case tr_repairAdmissionIndex (run_history r ! i) of
                 None \<Rightarrow> None
               | Some marker \<Rightarrow>
                   (if \<not> is_safe_integer marker then None
                    else case find_index (admission_applies host r i marker) (admissions r) of
                        None \<Rightarrow> None
                      | Some k \<Rightarrow>
                          let a = admissions r ! k; handoff = recorded_handoff r k i in
                          (if \<not> finding_is_current r (ad_finding a) then None
                           else case (resolve_repair_predecessor r, ad_attemptBinding a) of
                               (Inr predecessor, Some b) \<Rightarrow>
                                 (if identity_held r predecessor b handoff
                                  then Some \<lparr> act_snapshot = a, act_admissionHistoryIndex = k,
                                              act_startFixHistoryIndex = i, act_handoff = handoff \<rparr>
                                  else None)
                             | _ \<Rightarrow> None))))"

section \<open>Properties\<close>

lemma predecessor_session:
  assumes "resolve_repair_predecessor r = Inr (Some e)" and "result_session r = Some s"
  shows "e_sessionId e = s"
  using assms by (auto simp: resolve_repair_predecessor_def Let_def split: if_splits)

lemma active_repair_admissionD:
  assumes "active_repair_admission host r = Some act"
  shows "run_state r = IMPLEMENTING"
    and "last_start_fix (run_history r) = Some (act_startFixHistoryIndex act)"
    and "\<not> attempt_finished (run_history r) (act_startFixHistoryIndex act)"
    and "act_admissionHistoryIndex act < length (admissions r)"
    and "act_snapshot act = admissions r ! act_admissionHistoryIndex act"
    and "is_repair_admission_snapshot host (act_snapshot act)"
    and "tr_repairAdmissionIndex (run_history r ! act_startFixHistoryIndex act)
           = Some (int (act_admissionHistoryIndex act))"
    and "Some (ad_headSha (act_snapshot act)) = run_headSha r"
    and "Some (ad_pullRequestNumber (act_snapshot act)) = map_option pr_number (run_pullRequest r)"
    and "finding_is_current r (ad_finding (act_snapshot act))"
    and "act_handoff act = recorded_handoff r (act_admissionHistoryIndex act) (act_startFixHistoryIndex act)"
    and "\<exists>b. ad_attemptBinding (act_snapshot act) = Some b
           \<and> bi_admissionIndex b = int (act_admissionHistoryIndex act)
           \<and> bi_startFixHistoryIndex b = int (act_startFixHistoryIndex act)"
    and "\<exists>p b. resolve_repair_predecessor r = Inr p \<and> ad_attemptBinding (act_snapshot act) = Some b
           \<and> identity_held r p b (act_handoff act)"
proof -
  from assms obtain i marker k where act:
    "run_state r = IMPLEMENTING" "last_start_fix (run_history r) = Some i"
    "\<not> attempt_finished (run_history r) i"
    "tr_repairAdmissionIndex (run_history r ! i) = Some marker"
    "find_index (admission_applies host r i marker) (admissions r) = Some k"
    "act = \<lparr> act_snapshot = admissions r ! k, act_admissionHistoryIndex = k,
             act_startFixHistoryIndex = i, act_handoff = recorded_handoff r k i \<rparr>"
    "finding_is_current r (ad_finding (admissions r ! k))"
    and held: "\<exists>p b. resolve_repair_predecessor r = Inr p \<and> ad_attemptBinding (admissions r ! k) = Some b
           \<and> identity_held r p b (recorded_handoff r k i)"
    unfolding active_repair_admission_def
    by (auto simp: Let_def split: option.splits if_splits sum.splits)
  have k: "k < length (admissions r)" and ap: "admission_applies host r i marker k (admissions r ! k)"
    using find_index_SomeD[OF act(5)] by auto
  show "run_state r = IMPLEMENTING"
    and "last_start_fix (run_history r) = Some (act_startFixHistoryIndex act)"
    and "\<not> attempt_finished (run_history r) (act_startFixHistoryIndex act)"
    and "act_admissionHistoryIndex act < length (admissions r)"
    and "act_snapshot act = admissions r ! act_admissionHistoryIndex act"
    and "is_repair_admission_snapshot host (act_snapshot act)"
    and "tr_repairAdmissionIndex (run_history r ! act_startFixHistoryIndex act)
           = Some (int (act_admissionHistoryIndex act))"
    and "Some (ad_headSha (act_snapshot act)) = run_headSha r"
    and "Some (ad_pullRequestNumber (act_snapshot act)) = map_option pr_number (run_pullRequest r)"
    and "finding_is_current r (ad_finding (act_snapshot act))"
    and "act_handoff act = recorded_handoff r (act_admissionHistoryIndex act) (act_startFixHistoryIndex act)"
    using act k ap by (simp_all add: admission_applies_def)
  show "\<exists>b. ad_attemptBinding (act_snapshot act) = Some b
           \<and> bi_admissionIndex b = int (act_admissionHistoryIndex act)
           \<and> bi_startFixHistoryIndex b = int (act_startFixHistoryIndex act)"
    using ap act(6) by (auto simp: admission_applies_def present_and_iff)
  show "\<exists>p b. resolve_repair_predecessor r = Inr p \<and> ad_attemptBinding (act_snapshot act) = Some b
           \<and> identity_held r p b (act_handoff act)"
    using held act(6) by simp
qed

text \<open>A binding the code creates is one its validators accept: when the run's history and
  admissions are of representable length, the recorded predecessor and session are usable and
  the new generation is not the predecessor's, the created binding names the next admission
  and the next history index, passes the shape test, and is compatible with the selected
  executor.\<close>

theorem created_binding_accepted:
  assumes "create_repair_attempt_binding r execution uuid = Inr b"
    and "int (length (admissions r)) \<le> 9007199254740991"
    and "int (length (run_history r)) \<le> 9007199254740991"
    and "absent_or is_repair_executor_identity (or_else (run_executor r) (result_executor r))"
    and "absent_or (\<lambda>s. \<not> blank s) (result_session r)"
    and "Option.bind (or_else (run_executor r) (result_executor r)) e_generation \<noteq> Some (''repair-'' @ uuid)"
  shows "is_repair_attempt_binding b \<and> is_attempt_binding_compatible (ex_executor execution) b
         \<and> bi_admissionIndex b = int (length (admissions r))
         \<and> bi_startFixHistoryIndex b = int (length (run_history r))"
proof -
  from assms(1) obtain p where p: "resolve_repair_predecessor r = Inr p"
    by (auto simp: create_repair_attempt_binding_def split: sum.splits)
  then have pe: "p = or_else (run_executor r) (result_executor r)"
    by (auto simp: resolve_repair_predecessor_def Let_def split: if_splits)
  have session: "absent_or (\<lambda>e. absent_or (\<lambda>s. e_sessionId e = s) (result_session r)) p"
    using predecessor_session[of r] p by (auto simp: absent_or_def split: option.splits)
  have new: "\<not> blank (''repair-'' @ uuid)"
    by (simp add: blank_iff js_space_def)
  have gen: "\<not> blank g" if "Option.bind p e_generation = Some g" for g
    using assms(4) that unfolding pe[symmetric]
    by (cases p) (auto simp: is_repair_executor_identity_def)
  have b: "b = \<lparr> bi_admissionIndex = int (length (admissions r)),
                 bi_startFixHistoryIndex = int (length (run_history r)),
                 bi_predecessorExecutor = p, bi_predecessorSessionId = result_session r,
                 bi_freshExecutor = fresh_required (ex_executor execution) p (result_session r),
                 bi_runtimeGeneration =
                   (if fresh_required (ex_executor execution) p (result_session r)
                    then ''repair-'' @ uuid
                    else case Option.bind p e_generation of None \<Rightarrow> ''repair-'' @ uuid | Some g \<Rightarrow> g) \<rparr>"
    and nc: "fresh_required (ex_executor execution) p (result_session r)
             \<or> \<not> continues_generationless (ex_executor execution) p"
    using assms(1) p
    by (auto simp: create_repair_attempt_binding_def Let_def split: if_splits option.splits)
  have "is_repair_attempt_binding b"
    unfolding b is_repair_attempt_binding_def is_safe_integer_def
    using assms(2-5) session new gen pe
    by (auto split: option.splits)
  moreover have "is_attempt_binding_compatible (ex_executor execution) b"
    unfolding b is_attempt_binding_compatible_def
    using nc assms(6) pe by (auto simp: present_and_def split: option.splits)
  ultimately show ?thesis unfolding b by simp
qed

text \<open>C40. A snapshot the code creates is one its validator accepts, and its profile is the one
  the pure admission decision maps the authority's task shape to: an authority whose shape
  asks for a decision is never admitted.\<close>

theorem created_snapshot_accepted:
  assumes "create_repair_admission_snapshot authority finding head pr execution now = Inr a"
  shows "is_repair_admission_snapshot host a
         \<and> decide_repair_admission (au_shape authority) = Admit (ad_executionProfile a)
         \<and> ad_authorityRevision a = au_revision authority \<and> ad_headSha a = head
         \<and> ad_pullRequestNumber a = pr \<and> ad_finding a = finding"
proof -
  have profile: "ex_profile execution = repair_profile_name p"
    if "as_repair_profile (ex_profile execution) = Some p" for p
    using that by (cases "ex_profile execution") auto
  have shape: "decide_repair_admission t = Admit p"
    if "snapshot_profile_matches_task_shape t p" for t p
    using that by (cases t; cases p) auto
  show ?thesis
    using assms profile shape
    by (auto simp: create_repair_admission_snapshot_def is_repair_admission_snapshot_def
        is_repair_task_shape_authority_def is_resolved_execution_def positive_def
        split: if_splits option.splits)
qed

text \<open>A repair never changes hands: an outcome compatible with an earlier hand-off of the
  same attempt is that hand-off, a continued (not fresh) attempt can only be handed to the
  exact predecessor it is bound to, and an App Server identity carries the attempt's own
  runtime generation.\<close>

theorem handoff_keeps_identity:
  assumes "is_repair_handoff_compatible selected b (Handoff_executor e) previous"
  shows "absent_or (\<lambda>p. p = Handoff_executor e) previous
         \<and> (\<not> bi_freshExecutor b \<longrightarrow> absent_or (\<lambda>p. p = e) (bi_predecessorExecutor b))
         \<and> (e_provider e = ''codex-app-server'' \<longrightarrow> e_generation e = Some (bi_runtimeGeneration b))
         \<and> e_provider e \<noteq> ''worker-router''"
  using assms
  by (cases previous; cases "bi_predecessorExecutor b")
     (auto split: repair_executor_handoff.splits)

text \<open>An active admission is exactly the one its \<open>start_fix\<close> event recorded: the event is
  the last \<open>start_fix\<close> of the history and unfinished, names the admission by its index, and
  the admission is valid, bound to that event, and still about the run's exact HEAD, pull
  request and current finding.\<close>

theorem active_admission_is_current:
  assumes "active_repair_admission host r = Some act"
  shows "run_state r = IMPLEMENTING
         \<and> (\<exists>i < length (run_history r). is_start_fix (run_history r ! i)
              \<and> (\<forall>j. i < j \<and> j < length (run_history r) \<longrightarrow> \<not> is_start_fix (run_history r ! j))
              \<and> \<not> attempt_finished (run_history r) i
              \<and> tr_repairAdmissionIndex (run_history r ! i) = Some (int (act_admissionHistoryIndex act)))
         \<and> act_snapshot act = admissions r ! act_admissionHistoryIndex act
         \<and> is_repair_admission_snapshot host (act_snapshot act)
         \<and> Some (ad_headSha (act_snapshot act)) = run_headSha r
         \<and> Some (ad_pullRequestNumber (act_snapshot act)) = map_option pr_number (run_pullRequest r)
         \<and> ad_finding (act_snapshot act) = expected_finding r"
proof -
  note d = active_repair_admissionD[OF assms]
  from d(2) have "act_startFixHistoryIndex act < length (run_history r)
      \<and> is_start_fix (run_history r ! act_startFixHistoryIndex act)
      \<and> (\<forall>j. act_startFixHistoryIndex act < j \<and> j < length (run_history r)
            \<longrightarrow> \<not> is_start_fix (run_history r ! j))"
    unfolding last_start_fix_def by (rule find_last_index_SomeD)
  with d show ?thesis
    by (auto simp: finding_is_current_def)
qed

fun shape_name :: "task_shape \<Rightarrow> string" where
  "shape_name Shape_bounded = ''bounded''"
| "shape_name Shape_interacting = ''interacting''"
| "shape_name Shape_decision = ''decision''"

lemma task_shape_of_iff: "task_shape_of s = Some t \<longleftrightarrow> s = shape_name t"
  by (cases t) auto

text \<open>The unattended command line accepts an authority exactly when its JSON is an object
  with no key but \<open>revision\<close> and \<open>shape\<close>, a revision that is not blank and a shape of the
  closed vocabulary, and then it is that revision and shape; nothing is inferred.\<close>

theorem parse_authority_iff:
  "parse_repair_task_shape_authority v = Inr a \<longleftrightarrow>
     (\<exists>props. v = Some (JObject props) \<and> fst ` set props \<subseteq> {''revision'', ''shape''}
        \<and> js_get props ''revision'' = Some (JString (au_revision a)) \<and> \<not> blank (au_revision a)
        \<and> js_get props ''shape'' = Some (JString (shape_name (au_shape a))))"
  (is "?l \<longleftrightarrow> ?r")
proof
  assume ?l
  then show ?r
    by (cases v rule: parse_repair_task_shape_authority.cases)
       (auto simp del: task_shape_of.simps simp: task_shape_of_iff
          split: if_splits option.splits json.splits)
next
  assume ?r
  then obtain props where v: "v = Some (JObject props)"
    and keys: "\<not> (\<exists>k \<in> set (map fst props). k \<noteq> ''revision'' \<and> k \<noteq> ''shape'')"
    and get: "js_get props ''revision'' = Some (JString (au_revision a))" "\<not> blank (au_revision a)"
      "js_get props ''shape'' = Some (JString (shape_name (au_shape a)))"
    by (auto simp: image_subset_iff)
  have "task_shape_of (shape_name (au_shape a)) = Some (au_shape a)"
    by (simp only: task_shape_of_iff)
  with get keys show ?l
    unfolding v parse_repair_task_shape_authority.simps by (simp only: if_False) simp
qed

section \<open>Sample values\<close>

definition sample_execution :: resolved_execution where
  "sample_execution =
     \<lparr> ex_profile = Routine, ex_revision = ''profiles-1'', ex_executor = ''codex-cli'',
       ex_model = None, ex_reasoningEffort = None, ex_timeoutMs = 60000,
       ex_sandboxMode = None, ex_approvalPolicy = None \<rparr>"

definition sample_authority :: repair_task_shape_authority where
  "sample_authority = \<lparr> au_revision = ''task-1'', au_shape = Shape_bounded \<rparr>"

definition sample_executor :: executor_identity where
  "sample_executor = \<lparr> e_provider = ''codex-cli'', e_sessionId = ''session-1'', e_generation = None \<rparr>"

definition sample_agent_result :: agent_result where
  "sample_agent_result =
     \<lparr> a_exitStatus = Success, a_summary = ''done'', a_headSha = Some ''abc'',
       a_changedFiles = None, a_diagnostics = None, a_executor = Some sample_executor,
       a_sessionId = Some ''session-1'', a_durationMs = None, a_telemetry = None \<rparr>"

definition failed_validation :: validation_result where
  "failed_validation = sample_validation\<lparr>v_status := Failed,
     v_local := \<lparr> l_status = L_failed, l_configRevision = Some ''local-1'',
       l_commands = [\<lparr> c_commandIndex = 0, c_executable = ''pnpm'', c_outcome = C_failed,
                       c_exitCode = Some 1, c_durationMs = 12 \<rparr>] \<rparr>\<rparr>"

definition rejected_run :: run where
  "rejected_run = sample_run
     \<lparr>run_state := CHANGES_REQUESTED, run_repairTaskShapeAuthority := Some sample_authority,
      run_agentResult := Some sample_agent_result, run_executor := Some sample_executor,
      run_headSha := Some ''abc'', run_pullRequest := Some \<lparr> pr_number = 7, pr_headSha = ''abc'' \<rparr>,
      run_validationResult := Some failed_validation\<rparr>"

definition sample_binding :: repair_attempt_binding where
  "sample_binding =
     \<lparr> bi_admissionIndex = 0, bi_startFixHistoryIndex = 0,
       bi_predecessorExecutor = Some sample_executor, bi_predecessorSessionId = Some ''session-1'',
       bi_freshExecutor = False, bi_runtimeGeneration = ''repair-u1'' \<rparr>"

definition sample_snapshot :: repair_admission_snapshot where
  "sample_snapshot =
     \<lparr> ad_leadDisposition = None, ad_packetSha256 = None, ad_budgetLimit = None,
       ad_authorityRevision = ''task-1'', ad_taskShape = Shape_bounded,
       ad_taxonomyRevision = REPAIR_FINDING_TAXONOMY_REVISION, ad_finding = Validation_failed,
       ad_headSha = ''abc'', ad_pullRequestNumber = 7, ad_executionProfile = Repair_routine,
       ad_executionRevision = ''profiles-1'', ad_execution = sample_execution,
       ad_admittedAt = ''t1'', ad_attemptBinding = None \<rparr>"

definition bound_snapshot :: repair_admission_snapshot where
  "bound_snapshot = sample_snapshot\<lparr>ad_attemptBinding := Some sample_binding\<rparr>"

definition repairing_run :: run where
  "repairing_run = rejected_run
     \<lparr>run_state := IMPLEMENTING, run_repairAdmissions := Some [bound_snapshot],
      run_history := [\<lparr> tr_nativeLeadStop = None, tr_type = Applied T_start_fix,
        tr_from = CHANGES_REQUESTED, tr_to = IMPLEMENTING, tr_at = ''t1'', tr_reason = None,
        tr_repairHandoff = None, tr_repairAdmissionIndex = Some 0 \<rparr>]\<rparr>"

theorem created_binding_accepted_witness:
  "is_attempt_binding_compatible ''codex-cli'' sample_binding \<and> bi_admissionIndex sample_binding = 0"
proof -
  have "create_repair_attempt_binding rejected_run sample_execution ''u1'' = Inr sample_binding"
    and "int (length (admissions rejected_run)) \<le> 9007199254740991"
    and "int (length (run_history rejected_run)) \<le> 9007199254740991"
    and "absent_or is_repair_executor_identity
           (or_else (run_executor rejected_run) (result_executor rejected_run))"
    and "absent_or (\<lambda>s. \<not> blank s) (result_session rejected_run)"
    and "Option.bind (or_else (run_executor rejected_run) (result_executor rejected_run)) e_generation
           \<noteq> Some (''repair-'' @ ''u1'')"
    by code_simp+
  note b = created_binding_accepted[OF this]
  have "ex_executor sample_execution = ''codex-cli''" by (simp add: sample_execution_def)
  moreover have "length (admissions rejected_run) = 0" by code_simp
  ultimately show ?thesis using b by simp
qed

theorem created_snapshot_accepted_witness:
  "is_repair_admission_snapshot sample_host sample_snapshot"
proof -
  have "create_repair_admission_snapshot sample_authority Validation_failed ''abc'' 7
          sample_execution ''t1'' = Inr sample_snapshot"
    by code_simp
  from created_snapshot_accepted[OF this, of sample_host] show ?thesis by simp
qed

theorem handoff_keeps_identity_witness:
  "absent_or (\<lambda>p. p = sample_executor) (bi_predecessorExecutor sample_binding)"
proof -
  have "is_repair_handoff_compatible ''codex-cli'' sample_binding (Handoff_executor sample_executor) None"
    by code_simp
  from handoff_keeps_identity[OF this] show ?thesis by (simp add: sample_binding_def)
qed

definition sample_active :: active_admission where
  "sample_active =
     \<lparr> act_snapshot = bound_snapshot, act_admissionHistoryIndex = 0,
       act_startFixHistoryIndex = 0, act_handoff = None \<rparr>"

lemma sample_active_admission: "active_repair_admission sample_host repairing_run = Some sample_active"
  by code_simp

theorem active_admission_is_current_witness:
  "expected_finding repairing_run = Validation_failed"
proof -
  have "ad_finding (act_snapshot sample_active) = Validation_failed"
    by (simp add: sample_active_def bound_snapshot_def sample_snapshot_def)
  with active_admission_is_current[OF sample_active_admission] show ?thesis by simp
qed

end
