(* ===== verification/State_Machine.thy ===== *)
theory State_Machine
  imports Repair_Admission
begin

text \<open>
  The workflow state machine (\<^verbatim>\<open>src/domain/state-machine.ts\<close>): the transition table, the
  freshness of review and validation evidence, the guards a payload must pass, in the
  source's order, and the application of a transition. A thrown \<open>InvalidTransitionError\<close> is
  the left side of a sum, with its code, state and transition (not its message).
\<close>

section \<open>Errors\<close>

datatype invalid_transition_code =
    Invalid_native_evidence | Terminal_state | Unknown_transition | Missing_payload
  | Wrong_verdict | Contradictory_review | Wrong_exit_status | Executor_provider_mismatch
  | Executor_mutation_not_allowed | Invalid_executor_identity | Invalid_bootstrap_identity
  | Bootstrap_identity_mismatch | Invalid_pull_request_identity | Unexpected_payload
  | Head_mutation_not_allowed | Missing_head_sha | Empty_head_sha | Conflicting_head_sha
  | Stale_review | Stale_validation | Invalid_validation_result | Fresh_review
  | No_interrupt_context | Invalid_repair_admission | Invalid_repair_handoff

record transition_error =
  te_code :: invalid_transition_code
  te_from :: workflow_state
  te_transition :: transition_type

definition raise_if ::
  "bool \<Rightarrow> invalid_transition_code \<Rightarrow> run \<Rightarrow> transition_input \<Rightarrow> transition_error option" where
  "raise_if c code r i =
     fail_if c \<lparr> te_code = code, te_from = run_state r, te_transition = in_type i \<rparr>"

lemma raise_if_None [simp]: "raise_if c code r i = None \<longleftrightarrow> \<not> c"
  by (simp add: raise_if_def)

section \<open>The transition table\<close>

datatype transition_target = To workflow_state | RESUME

fun TRANSITION_TABLE :: "workflow_state \<Rightarrow> (transition_type \<times> transition_target) list" where
  "TRANSITION_TABLE READY =
     [(T_start, To IMPLEMENTING), (T_wait_dependency, To WAITING_DEPENDENCY),
      (T_escalate, To NEEDS_HUMAN), (T_fail, To FAILED)]"
| "TRANSITION_TABLE IMPLEMENTING =
     [(T_bootstrap_prepared, To IMPLEMENTING), (T_repair_executor_handoff, To IMPLEMENTING),
      (T_repair_executor_continued, To IMPLEMENTING), (T_agent_succeeded, To VALIDATING),
      (T_agent_failed, To FAILED), (T_wait_dependency, To WAITING_DEPENDENCY),
      (T_escalate, To NEEDS_HUMAN), (T_fail, To FAILED)]"
| "TRANSITION_TABLE VALIDATING =
     [(T_validation_passed, To REVIEWING), (T_validation_failed, To CHANGES_REQUESTED),
      (T_wait_dependency, To WAITING_DEPENDENCY), (T_escalate, To NEEDS_HUMAN),
      (T_fail, To FAILED)]"
| "TRANSITION_TABLE REVIEWING =
     [(T_review_approved, To FINAL_GATE), (T_changes_requested, To CHANGES_REQUESTED),
      (T_revalidate, To VALIDATING), (T_wait_dependency, To WAITING_DEPENDENCY),
      (T_escalate, To NEEDS_HUMAN), (T_fail, To FAILED)]"
| "TRANSITION_TABLE CHANGES_REQUESTED =
     [(T_start_fix, To IMPLEMENTING), (T_revalidate, To VALIDATING),
      (T_wait_dependency, To WAITING_DEPENDENCY), (T_escalate, To NEEDS_HUMAN),
      (T_fail, To FAILED)]"
| "TRANSITION_TABLE FINAL_GATE =
     [(T_revalidate, To VALIDATING), (T_gate_blocked, To REVIEWING),
      (T_wait_dependency, To WAITING_DEPENDENCY), (T_escalate, To NEEDS_HUMAN),
      (T_fail, To FAILED)]"
| "TRANSITION_TABLE MERGE_READY =
     [(T_recheck_readiness, To FINAL_GATE), (T_merged, To MERGED),
      (T_wait_dependency, To WAITING_DEPENDENCY), (T_escalate, To NEEDS_HUMAN),
      (T_fail, To FAILED)]"
| "TRANSITION_TABLE MERGED = []"
| "TRANSITION_TABLE WAITING_DEPENDENCY = [(T_dependency_satisfied, RESUME), (T_fail, To FAILED)]"
| "TRANSITION_TABLE NEEDS_HUMAN = [(T_human_resolved, RESUME), (T_fail, To FAILED)]"
| "TRANSITION_TABLE FAILED = []"

definition table_target :: "workflow_state \<Rightarrow> transition_type \<Rightarrow> transition_target option" where
  "table_target s t = map_of (TRANSITION_TABLE s) t"

definition allowed_transitions :: "workflow_state \<Rightarrow> transition_type list" where
  "allowed_transitions s = sort (map fst (TRANSITION_TABLE s))"

definition is_terminal :: "workflow_state \<Rightarrow> bool" where
  "is_terminal s \<longleftrightarrow> length (allowed_transitions s) = 0"

definition can_transition :: "workflow_state \<Rightarrow> transition_type \<Rightarrow> bool" where
  "can_transition s t \<longleftrightarrow> t \<in> set (map fst (TRANSITION_TABLE s))"

definition REQUIRES_AGENT_RESULT :: "transition_type list" where
  "REQUIRES_AGENT_RESULT = [T_agent_succeeded, T_agent_failed]"

definition REQUIRES_REVIEW_RESULT :: "transition_type list" where
  "REQUIRES_REVIEW_RESULT = [T_review_approved, T_changes_requested]"

definition HEAD_UPDATING_TRANSITIONS :: "transition_type list" where
  "HEAD_UPDATING_TRANSITIONS = [T_agent_succeeded, T_agent_failed]"

datatype required_result = Requires_agent | Requires_review | Requires_none

definition transition_requires_result :: "transition_type \<Rightarrow> required_result" where
  "transition_requires_result t =
     (if t \<in> set REQUIRES_AGENT_RESULT then Requires_agent
      else if t \<in> set REQUIRES_REVIEW_RESULT then Requires_review else Requires_none)"

section \<open>Bounded human decisions\<close>

definition offers :: "run \<Rightarrow> string \<Rightarrow> bool" where
  "offers r decision =
     present_and (\<lambda>n. present_and (\<lambda>cs. decision \<in> set cs) (i_choices n)) (run_interrupt r)"

definition decides :: "run \<Rightarrow> transition_input \<Rightarrow> string \<Rightarrow> bool" where
  "decides r i decision \<longleftrightarrow>
     in_type i = T_human_resolved \<and> map_option trim (in_reason i) = Some decision
     \<and> run_state r = NEEDS_HUMAN"

definition is_authorized_human_head_sync :: "run \<Rightarrow> transition_input \<Rightarrow> bool" where
  "is_authorized_human_head_sync r i \<longleftrightarrow>
     decides r i LIVE_HEAD_SYNC_DECISION
       \<and> can_synchronize_interrupted_head (run_interruptedFrom r) \<and> offers r LIVE_HEAD_SYNC_DECISION
     \<or> decides r i REESTABLISH_READINESS_DECISION
       \<and> can_reestablish_interrupted_readiness (run_interruptedFrom r)
       \<and> offers r REESTABLISH_READINESS_DECISION"

definition is_authorized_legacy_pull_request_recovery :: "run \<Rightarrow> transition_input \<Rightarrow> bool" where
  "is_authorized_legacy_pull_request_recovery r i \<longleftrightarrow>
     decides r i RECOVER_LEGACY_PULL_REQUEST_DECISION
     \<and> run_interruptedFrom r = Some CHANGES_REQUESTED \<and> run_pullRequest r = None
     \<and> offers r RECOVER_LEGACY_PULL_REQUEST_DECISION"

section \<open>Freshness of evidence\<close>

definition is_review_bound_to_head :: "run \<Rightarrow> review_result \<Rightarrow> bool" where
  "is_review_bound_to_head r v \<longleftrightarrow> usable (run_headSha r) \<and> Some (r_headSha v) = run_headSha r"

definition is_review_internally_consistent :: "review_result \<Rightarrow> bool" where
  "is_review_internally_consistent v \<longleftrightarrow>
     r_verdict v \<noteq> Approve \<or> (\<forall>f \<in> set (r_findings v). f_severity f \<noteq> Blocking)"

definition is_review_fresh :: "run \<Rightarrow> bool" where
  "is_review_fresh r = present_and (is_review_bound_to_head r) (run_reviewResult r)"

datatype local_policy_identity = Local_absent | Local_configured string | Local_invalid

datatype hosted_policy_identity =
  Hosted_absent | Hosted_configured policy_mode string | Hosted_invalid

record active_validation =
  av_local :: local_policy_identity
  av_hosted :: hosted_policy_identity

definition active_local_policy_identity :: "string option \<Rightarrow> bool \<Rightarrow> local_policy_identity" where
  "active_local_policy_identity revision present =
     (if \<not> present then Local_absent
      else case revision of
          Some v \<Rightarrow> if \<not> blank v then Local_configured v else Local_invalid
        | None \<Rightarrow> Local_invalid)"

definition validation_local_policy_identity :: "string option \<Rightarrow> local_policy_identity" where
  "validation_local_policy_identity revision =
     (case revision of
        Some v \<Rightarrow> if \<not> blank v then Local_configured v else Local_invalid
      | None \<Rightarrow> Local_invalid)"

definition active_hosted_policy_identity ::
  "string option \<Rightarrow> policy_mode option \<Rightarrow> hosted_policy_identity" where
  "active_hosted_policy_identity revision mode =
     (case mode of
        None \<Rightarrow> Hosted_absent
      | Some m \<Rightarrow>
          (if m = M_unconfigured then Hosted_absent
           else case revision of
               Some v \<Rightarrow> if \<not> blank v then Hosted_configured m v else Hosted_invalid
             | None \<Rightarrow> Hosted_invalid))"

definition validation_hosted_policy_identity ::
  "string option \<Rightarrow> policy_mode \<Rightarrow> hosted_policy_identity" where
  "validation_hosted_policy_identity revision mode =
     (if mode = M_unconfigured then Hosted_absent
      else case revision of
          Some v \<Rightarrow> if \<not> blank v then Hosted_configured mode v else Hosted_invalid
        | None \<Rightarrow> Hosted_invalid)"

fun same_local_policy_identity :: "local_policy_identity \<Rightarrow> local_policy_identity \<Rightarrow> bool" where
  "same_local_policy_identity (Local_configured a) (Local_configured b) = (a = b)"
| "same_local_policy_identity _ _ = False"

fun same_hosted_policy_identity :: "hosted_policy_identity \<Rightarrow> hosted_policy_identity \<Rightarrow> bool" where
  "same_hosted_policy_identity (Hosted_configured m a) (Hosted_configured n b) = (m = n \<and> a = b)"
| "same_hosted_policy_identity _ _ = False"

definition validation_evidence_matches_active ::
  "validation_result \<Rightarrow> active_validation \<Rightarrow> bool" where
  "validation_evidence_matches_active v active \<longleftrightarrow>
     same_local_policy_identity
       (validation_local_policy_identity (l_configRevision (v_local v))) (av_local active)
     \<and> same_hosted_policy_identity
       (validation_hosted_policy_identity (h_policyRevision (v_hosted v)) (h_policyMode (v_hosted v)))
       (av_hosted active)"

definition is_validation_fresh :: "run \<Rightarrow> active_validation \<Rightarrow> bool" where
  "is_validation_fresh r active =
     present_and (\<lambda>v. usable (run_headSha r)
       \<and> present_and (\<lambda>p. Some (pr_headSha p) = run_headSha r
            \<and> h_pullRequestNumber (v_hosted v) = Some (pr_number p)) (run_pullRequest r)
       \<and> Some (v_headSha v) = run_headSha r \<and> v_status v = Passed
       \<and> validation_evidence_matches_active v active) (run_validationResult r)"

definition accepts_validation_result :: "workflow_state \<Rightarrow> transition_type \<Rightarrow> bool" where
  "accepts_validation_result from t \<longleftrightarrow>
     t = T_validation_passed \<or> t = T_validation_failed
     \<or> from = VALIDATING \<and> (t = T_wait_dependency \<or> t = T_escalate)"

definition same_bootstrap :: "bootstrap_identity \<Rightarrow> bootstrap_identity \<Rightarrow> bool" where
  "same_bootstrap a b \<longleftrightarrow>
     b_owner a = b_owner b \<and> b_repo a = b_repo b \<and> b_issueNumber a = b_issueNumber b
     \<and> b_baseBranch a = b_baseBranch b \<and> b_baseSha a = b_baseSha b \<and> b_branch a = b_branch b
     \<and> b_workspacePath a = b_workspacePath b"

section \<open>The repair hand-off a result proves\<close>

definition refused_diagnostic :: "string \<Rightarrow> bool" where
  "refused_diagnostic d \<longleftrightarrow> contains d ''EXECUTOR_PROVIDER_'' \<or> contains d ''EXECUTOR_RECONSTRUCTION_FAILED''"

definition handoff_outcome ::
  "string \<Rightarrow> agent_result \<Rightarrow> repair_executor_handoff option" where
  "handoff_outcome provider result =
     (if provider = ''worker-router'' then
        (if a_exitStatus result \<noteq> Success \<or> a_executor result \<noteq> None \<or> a_sessionId result \<noteq> None
            \<or> present_and (\<lambda>ds. \<exists>d \<in> set ds. refused_diagnostic d) (a_diagnostics result)
         then None else Some (Handoff_sessionless ''worker-router''))
      else case a_executor result of
          None \<Rightarrow> None
        | Some e \<Rightarrow>
            (if \<not> is_repair_executor_identity e \<or> blank (e_sessionId e)
                \<or> present_and (\<lambda>s. s \<noteq> e_sessionId e) (a_sessionId result)
             then None else Some (Handoff_executor e)))"

definition handoff_due :: "bool \<Rightarrow> active_admission \<Rightarrow> bool" where
  "handoff_due continued act = (if continued then act_handoff act \<noteq> None else act_handoff act = None)"

definition previous_outcome :: "bool \<Rightarrow> active_admission \<Rightarrow> repair_executor_handoff option" where
  "previous_outcome continued act =
     (if continued then map_option hr_outcome (act_handoff act) else None)"

text \<open>\<open>validateRepairHandoff\<close>: \<open>None\<close> where the code throws.\<close>

definition validate_repair_handoff ::
  "oracle_host \<Rightarrow> run \<Rightarrow> agent_result \<Rightarrow> bool \<Rightarrow> repair_handoff_record option" where
  "validate_repair_handoff host r result continued =
     (case active_repair_admission host r of
        None \<Rightarrow> None
      | Some act \<Rightarrow>
          (if \<not> handoff_due continued act then None
           else case (handoff_outcome (ex_executor (ad_execution (act_snapshot act))) result,
                      ad_attemptBinding (act_snapshot act)) of
               (Some outcome, Some b) \<Rightarrow>
                 (if is_repair_handoff_compatible (ex_executor (ad_execution (act_snapshot act))) b outcome
                       (previous_outcome continued act)
                  then Some \<lparr> hr_admissionHistoryIndex = int (act_admissionHistoryIndex act),
                              hr_startFixHistoryIndex = int (act_startFixHistoryIndex act),
                              hr_outcome = outcome \<rparr>
                  else None)
             | _ \<Rightarrow> None))"

section \<open>The guards of a payload\<close>

text \<open>\<open>assertPayload\<close>, in consecutive groups of its throws, each in the source's order.\<close>

definition guard_required_payload :: "run \<Rightarrow> transition_input \<Rightarrow> transition_error option" where
  "guard_required_payload r i = first_error
     [raise_if (in_type i \<in> set REQUIRES_AGENT_RESULT \<and> in_agentResult i = None) Missing_payload r i,
      raise_if (in_type i \<in> set REQUIRES_REVIEW_RESULT \<and> in_reviewResult i = None) Missing_payload r i,
      raise_if ((in_type i = T_validation_passed \<or> in_type i = T_validation_failed)
        \<and> in_validationResult i = None) Missing_payload r i,
      raise_if (in_type i = T_bootstrap_prepared \<and> in_bootstrap i = None) Missing_payload r i]"

definition lead_stop_ok :: "run \<Rightarrow> transition_input \<Rightarrow> native_lead_stop \<Rightarrow> bool" where
  "lead_stop_ok r i ref \<longleftrightarrow>
     in_type i = T_escalate \<and> run_state r = CHANGES_REQUESTED
     \<and> present_and (\<lambda>a. \<not> is_repair (la_disposition a) \<and> la_requestId a = st_requestId ref
          \<and> la_receiptId a = st_receiptId ref \<and> la_digest a = st_digest ref) (accepted_native_lead r)
     \<and> (\<forall>h \<in> set (run_history r).
          map_option st_requestId (tr_nativeLeadStop h) \<noteq> Some (st_requestId ref))"

definition guard_lead_stop :: "run \<Rightarrow> transition_input \<Rightarrow> transition_error option" where
  "guard_lead_stop r i =
     raise_if (present_and (\<lambda>ref. \<not> lead_stop_ok r i ref) (in_nativeLeadStop i)) Unexpected_payload r i"

definition admission_budget_ok :: "run \<Rightarrow> transition_input \<Rightarrow> bool" where
  "admission_budget_ok r i = absent_or (\<lambda>limit.
     Option.bind (in_repairAdmission i) ad_budgetLimit = Some limit
     \<and> start_fixes (run_history r) < limit) (Option.bind (run_nativeReview r) nr_repairLimit)"

definition admission_ok :: "oracle_host \<Rightarrow> run \<Rightarrow> repair_admission_snapshot \<Rightarrow> bool" where
  "admission_ok host r a \<longleftrightarrow>
     run_state r = CHANGES_REQUESTED
     \<and> is_repair_admission_snapshot host a
     \<and> present_and (\<lambda>b. bi_admissionIndex b = int (length (admissions r))
          \<and> bi_startFixHistoryIndex b = int (length (run_history r))) (ad_attemptBinding a)
     \<and> present_and (\<lambda>au. ad_authorityRevision a = au_revision au \<and> ad_taskShape a = au_shape au)
          (run_repairTaskShapeAuthority r)
     \<and> (case resolve_repair_predecessor r of
          Inl _ \<Rightarrow> False
        | Inr p \<Rightarrow> same_repair_executor_identity
                   (Option.bind (ad_attemptBinding a) bi_predecessorExecutor) p)
     \<and> Option.bind (ad_attemptBinding a) bi_predecessorSessionId = result_session r
     \<and> Some (ad_headSha a) = run_headSha r
     \<and> Some (ad_pullRequestNumber a) = map_option pr_number (run_pullRequest r)
     \<and> ad_finding a = expected_finding r"

definition guard_repair_admission ::
  "oracle_host \<Rightarrow> run \<Rightarrow> transition_input \<Rightarrow> transition_error option" where
  "guard_repair_admission host r i = first_error
     [raise_if (in_repairAdmission i \<noteq> None \<and> in_type i \<noteq> T_start_fix) Unexpected_payload r i,
      raise_if (in_type i = T_start_fix \<and> \<not> admission_budget_ok r i) Invalid_repair_admission r i,
      raise_if (in_type i = T_start_fix \<and> (run_nativeReview r \<noteq> None \<or> run_nativeLead r \<noteq> None)
        \<and> review_verdict_of r = Some Request_changes
        \<and> \<not> lead_consumption_valid host r (Option.bind (in_repairAdmission i) ad_leadDisposition))
        Invalid_repair_admission r i,
      raise_if (in_type i = T_start_fix
        \<and> (case in_repairAdmission i of
             Some a \<Rightarrow> \<not> admission_ok host r a
           | None \<Rightarrow> run_repairTaskShapeAuthority r \<noteq> None)) Invalid_repair_admission r i]"

definition is_handoff_transition :: "transition_type \<Rightarrow> bool" where
  "is_handoff_transition t \<longleftrightarrow> t = T_repair_executor_handoff \<or> t = T_repair_executor_continued"

text \<open>The hand-off a transition records; its error names \<open>repair_executor_handoff\<close> for both types.\<close>

definition input_handoff ::
  "oracle_host \<Rightarrow> run \<Rightarrow> transition_input \<Rightarrow> repair_handoff_record option" where
  "input_handoff host r i =
     Option.bind (in_repairAgentResult i)
       (\<lambda>result. validate_repair_handoff host r result (in_type i = T_repair_executor_continued))"

definition guard_repair_handoff ::
  "oracle_host \<Rightarrow> run \<Rightarrow> transition_input \<Rightarrow> transition_error option" where
  "guard_repair_handoff host r i = first_error
     [raise_if (is_handoff_transition (in_type i) \<noteq> (in_repairAgentResult i \<noteq> None))
        (if in_repairAgentResult i = None then Missing_payload else Unexpected_payload) r i,
      fail_if (in_repairAgentResult i \<noteq> None \<and> input_handoff host r i = None)
        \<lparr> te_code = Invalid_repair_handoff, te_from = run_state r,
          te_transition = T_repair_executor_handoff \<rparr>]"

definition guard_unexpected_results :: "run \<Rightarrow> transition_input \<Rightarrow> transition_error option" where
  "guard_unexpected_results r i = first_error
     [raise_if (in_type i \<notin> set REQUIRES_AGENT_RESULT \<and> in_agentResult i \<noteq> None) Unexpected_payload r i,
      raise_if (in_type i \<notin> set REQUIRES_REVIEW_RESULT \<and> in_reviewResult i \<noteq> None) Unexpected_payload r i,
      raise_if (in_validationResult i \<noteq> None \<and> \<not> accepts_validation_result (run_state r) (in_type i))
        Unexpected_payload r i]"

text \<open>\<open>assertValidationResult\<close>.\<close>

definition assert_validation_result ::
  "run \<Rightarrow> transition_input \<Rightarrow> validation_result \<Rightarrow> transition_error option" where
  "assert_validation_result r i v = first_error
     [raise_if (blank (v_headSha v) \<or> \<not> usable (run_headSha r) \<or> Some (v_headSha v) \<noteq> run_headSha r)
        (if Some (v_headSha v) \<noteq> run_headSha r then Stale_validation else Invalid_validation_result) r i,
      raise_if (\<not> is_validation_result_coherent v) Invalid_validation_result r i]"

definition accepted_pull_request :: "run \<Rightarrow> transition_input \<Rightarrow> pull_request_identity option" where
  "accepted_pull_request r i = or_else (in_pullRequest i) (run_pullRequest r)"

definition guard_validation :: "run \<Rightarrow> transition_input \<Rightarrow> transition_error option" where
  "guard_validation r i = first_error
     [(case in_validationResult i of None \<Rightarrow> None | Some v \<Rightarrow> first_error
         [assert_validation_result r i v,
          raise_if (\<not> present_and (\<lambda>p. Some (pr_headSha p) = run_headSha r) (accepted_pull_request r i))
            Missing_payload r i,
          raise_if (h_pullRequestNumber (v_hosted v) \<noteq> map_option pr_number (accepted_pull_request r i))
            Invalid_validation_result r i]),
      raise_if (in_type i = T_validation_passed
        \<and> map_option v_status (in_validationResult i) \<noteq> Some Passed) Invalid_validation_result r i,
      raise_if (in_type i = T_validation_failed
        \<and> map_option v_status (in_validationResult i) \<noteq> Some Failed) Invalid_validation_result r i]"

fun bootstrap_matches_target :: "bootstrap_identity \<Rightarrow> target \<Rightarrow> bool" where
  "bootstrap_matches_target b (Issue owner repo n) =
     (b_owner b = owner \<and> b_repo b = repo \<and> b_issueNumber b = n)"
| "bootstrap_matches_target b (Repository _ _ _ _) = False"

definition guard_bootstrap :: "run \<Rightarrow> transition_input \<Rightarrow> transition_error option" where
  "guard_bootstrap r i = first_error
     [raise_if (in_type i \<noteq> T_bootstrap_prepared \<and> in_bootstrap i \<noteq> None) Unexpected_payload r i,
      (case in_bootstrap i of None \<Rightarrow> None | Some b \<Rightarrow> first_error
         [raise_if (\<not> bootstrap_matches_target b (run_target r)
            \<or> (\<exists>s \<in> set [b_owner b, b_repo b, b_baseBranch b, b_baseSha b, b_branch b, b_workspacePath b].
                 blank s)) Invalid_bootstrap_identity r i,
          raise_if (present_and (\<lambda>old. \<not> same_bootstrap old b) (run_bootstrap r))
            Bootstrap_identity_mismatch r i])]"

definition reported_head :: "transition_input \<Rightarrow> string option" where
  "reported_head i = or_else (in_headSha i) (Option.bind (in_agentResult i) a_headSha)"

definition guard_pull_request :: "run \<Rightarrow> transition_input \<Rightarrow> transition_error option" where
  "guard_pull_request r i =
     (let sync = is_authorized_human_head_sync r i;
          recovery = is_authorized_legacy_pull_request_recovery r i;
          outcome = (run_state r = VALIDATING \<and> in_validationResult i \<noteq> None) in
      first_error
       [raise_if (in_pullRequest i \<noteq> None \<and> in_type i \<noteq> T_agent_succeeded \<and> \<not> outcome \<and> \<not> sync
          \<and> \<not> recovery) Unexpected_payload r i,
        (case in_pullRequest i of None \<Rightarrow> None | Some p \<Rightarrow>
           (let expected = (if in_type i = T_agent_succeeded \<or> sync
                            then map_option trim (reported_head i) else run_headSha r) in
            raise_if (\<not> is_safe_integer (pr_number p) \<or> pr_number p < 1 \<or> blank (pr_headSha p)
              \<or> Some (pr_headSha p) \<noteq> expected
              \<or> present_and (\<lambda>old. pr_number p \<noteq> pr_number old) (run_pullRequest r))
              Invalid_pull_request_identity r i)),
        raise_if (((run_bootstrap r \<noteq> None \<or> run_pullRequest r \<noteq> None) \<and> in_type i = T_agent_succeeded
            \<or> run_pullRequest r \<noteq> None \<and> sync) \<and> in_pullRequest i = None) Missing_payload r i])"

definition guard_executor :: "run \<Rightarrow> transition_input \<Rightarrow> transition_error option" where
  "guard_executor r i = first_error
     [raise_if (in_executor i \<noteq> None \<and> (in_type i \<noteq> T_escalate \<or> run_state r \<noteq> IMPLEMENTING))
        Executor_mutation_not_allowed r i,
      raise_if (present_and (\<lambda>e. blank (e_provider e) \<or> blank (e_sessionId e)) (in_executor i))
        Invalid_executor_identity r i,
      raise_if (present_and (\<lambda>e. present_and (\<lambda>old. e_provider e \<noteq> e_provider old) (run_executor r))
        (in_executor i)) Executor_provider_mismatch r i]"

definition guard_head :: "run \<Rightarrow> transition_input \<Rightarrow> transition_error option" where
  "guard_head r i =
     (let sync = is_authorized_human_head_sync r i in
      first_error
       [raise_if (in_type i \<notin> set HEAD_UPDATING_TRANSITIONS \<and> \<not> sync \<and> in_headSha i \<noteq> None)
          Head_mutation_not_allowed r i,
        raise_if (sync \<and> present_and blank (in_headSha i)) Empty_head_sha r i,
        raise_if (sync \<and> in_headSha i = None) Missing_head_sha r i])"

definition guard_agent_outcome :: "run \<Rightarrow> transition_input \<Rightarrow> transition_error option" where
  "guard_agent_outcome r i = first_error
     [raise_if (in_type i = T_agent_succeeded
        \<and> present_and (\<lambda>a. a_exitStatus a \<noteq> Success) (in_agentResult i)) Wrong_exit_status r i,
      raise_if (in_type i = T_agent_failed
        \<and> present_and (\<lambda>a. a_exitStatus a \<noteq> Failure) (in_agentResult i)) Wrong_exit_status r i,
      raise_if ((in_type i = T_agent_succeeded \<or> in_type i = T_agent_failed)
        \<and> present_and (\<lambda>e. present_and (\<lambda>old. e_provider old \<noteq> e_provider e) (run_executor r))
             (Option.bind (in_agentResult i) a_executor)) Executor_provider_mismatch r i]"

definition guard_agent_head :: "run \<Rightarrow> transition_input \<Rightarrow> transition_error option" where
  "guard_agent_head r i =
     (let input = in_headSha i; result = Option.bind (in_agentResult i) a_headSha in
      if in_type i \<noteq> T_agent_succeeded then None
      else first_error
       [raise_if (present_and blank input) Empty_head_sha r i,
        raise_if (present_and blank result) Empty_head_sha r i,
        raise_if (\<not> usable input \<and> \<not> usable result) Missing_head_sha r i,
        raise_if (usable input \<and> usable result \<and> map_option trim input \<noteq> map_option trim result)
          Conflicting_head_sha r i])"

definition guard_verdict :: "run \<Rightarrow> transition_input \<Rightarrow> transition_error option" where
  "guard_verdict r i = first_error
     [raise_if (in_type i = T_human_resolved \<and> present_and blank (in_headSha i)) Empty_head_sha r i,
      raise_if (in_type i = T_review_approved
        \<and> present_and (\<lambda>v. r_verdict v \<noteq> Approve) (in_reviewResult i)) Wrong_verdict r i,
      raise_if (in_type i = T_changes_requested
        \<and> present_and (\<lambda>v. r_verdict v \<noteq> Request_changes) (in_reviewResult i)) Wrong_verdict r i,
      raise_if (in_type i = T_review_approved
        \<and> present_and (\<lambda>v. \<not> is_review_internally_consistent v) (in_reviewResult i))
        Contradictory_review r i]"

definition guard_review ::
  "run \<Rightarrow> transition_input \<Rightarrow> active_validation option \<Rightarrow> transition_error option" where
  "guard_review r i active =
     (if in_type i \<noteq> T_review_approved \<and> in_type i \<noteq> T_changes_requested then None
      else first_error
       [raise_if (present_and (\<lambda>v. \<not> is_review_bound_to_head r v) (in_reviewResult i)) Stale_review r i,
        raise_if (run_pullRequest r = None \<or> run_headSha r = None
          \<or> \<not> present_and (\<lambda>v. is_validation_result_coherent v \<and> Some (v_headSha v) = run_headSha r
               \<and> h_pullRequestNumber (v_hosted v) = map_option pr_number (run_pullRequest r))
               (run_validationResult r)) Stale_validation r i,
        raise_if (\<not> present_and (is_validation_fresh r) active) Stale_validation r i])"

definition assert_payload ::
  "oracle_host \<Rightarrow> run \<Rightarrow> transition_input \<Rightarrow> active_validation option \<Rightarrow> transition_error option" where
  "assert_payload host r i active = first_error
     [guard_required_payload r i, guard_lead_stop r i, guard_repair_admission host r i,
      guard_repair_handoff host r i, guard_unexpected_results r i, guard_validation r i,
      guard_bootstrap r i, guard_pull_request r i, guard_executor r i, guard_head r i,
      guard_agent_outcome r i, guard_agent_head r i, guard_verdict r i, guard_review r i active]"

section \<open>Applying a transition\<close>

definition strip_agent_telemetry :: "agent_result \<Rightarrow> agent_result" where
  "strip_agent_telemetry a = a\<lparr>a_telemetry := None\<rparr>"

definition strip_review_telemetry :: "review_result \<Rightarrow> review_result" where
  "strip_review_telemetry v = v\<lparr>r_telemetry := None\<rparr>"

definition NEEDS_SETTLED_HISTORY :: "transition_type list" where
  "NEEDS_SETTLED_HISTORY =
     [T_start, T_start_fix, T_review_approved, T_changes_requested, T_merged, T_agent_succeeded]"

definition guard_native ::
  "oracle_host \<Rightarrow> run \<Rightarrow> transition_input \<Rightarrow> transition_error option" where
  "guard_native host r i = first_error
     [raise_if (\<not> native_review_coherent host False r \<or> \<not> native_lead_coherent host False r)
        Invalid_native_evidence r i,
      raise_if (in_type i \<in> set NEEDS_SETTLED_HISTORY \<and> unresolved_native_repair_history host r)
        Invalid_native_evidence r i,
      raise_if (in_type i \<in> set REQUIRES_REVIEW_RESULT \<and> run_nativeReview r \<noteq> None
        \<and> \<not> authenticated_review_matches host r (in_reviewResult i)) Invalid_native_evidence r i]"

definition resolve_target ::
  "run \<Rightarrow> transition_input \<Rightarrow> transition_target \<Rightarrow> transition_error + workflow_state" where
  "resolve_target r i target =
     (case target of
        To s \<Rightarrow> Inr s
      | RESUME \<Rightarrow>
          (case run_interruptedFrom r of
             None \<Rightarrow> Inl \<lparr> te_code = No_interrupt_context, te_from = run_state r,
                           te_transition = in_type i \<rparr>
           | Some s \<Rightarrow> Inr (if is_authorized_human_head_sync r i then VALIDATING else s)))"

definition is_interrupt_state :: "workflow_state \<Rightarrow> bool" where
  "is_interrupt_state s \<longleftrightarrow> s = WAITING_DEPENDENCY \<or> s = NEEDS_HUMAN"

text \<open>The HEAD a transition accepts: \<open>None\<close> leaves the run's HEAD as it is.\<close>

definition accepted_head :: "run \<Rightarrow> transition_input \<Rightarrow> string option" where
  "accepted_head r i =
     (if \<not> (in_type i = T_agent_failed \<and> (run_bootstrap r \<noteq> None \<or> run_pullRequest r \<noteq> None))
         \<and> (in_type i \<in> set HEAD_UPDATING_TRANSITIONS \<or> is_authorized_human_head_sync r i)
      then Option.bind (reported_head i) (\<lambda>h. if trim h = [] then None else Some (trim h))
      else None)"

definition invalidates_evidence :: "run \<Rightarrow> transition_input \<Rightarrow> bool" where
  "invalidates_evidence r i \<longleftrightarrow> accepted_head r i \<noteq> None \<and> accepted_head r i \<noteq> run_headSha r"

definition transition_entry ::
  "oracle_host \<Rightarrow> run \<Rightarrow> transition_input \<Rightarrow> string \<Rightarrow> workflow_state \<Rightarrow> transition_record" where
  "transition_entry host r i now to =
     \<lparr> tr_nativeLeadStop = in_nativeLeadStop i, tr_type = Applied (in_type i),
       tr_from = run_state r, tr_to = to, tr_at = now, tr_reason = in_reason i,
       tr_repairHandoff = input_handoff host r i,
       tr_repairAdmissionIndex =
         (if in_type i = T_start_fix
          then map_option bi_admissionIndex (Option.bind (in_repairAdmission i) ad_attemptBinding)
          else None) \<rparr>"

definition entered_interrupt :: "transition_input \<Rightarrow> string \<Rightarrow> workflow_state \<Rightarrow> interrupt" where
  "entered_interrupt i now to =
     \<lparr> i_kind = (if to = NEEDS_HUMAN then Needs_human_interrupt else Waiting_dependency_interrupt),
       i_reason = (case in_reason i of None \<Rightarrow> [] | Some s \<Rightarrow> s), i_createdAt = now,
       i_resolvedAt = None, i_evidence = in_interruptEvidence i,
       i_choices = (if in_interruptChoices i = Some [] then None else in_interruptChoices i) \<rparr>"

definition resolved_interrupt :: "run \<Rightarrow> string \<Rightarrow> interrupt option" where
  "resolved_interrupt r now = map_option (\<lambda>n. n\<lparr>i_resolvedAt := Some now\<rparr>) (run_interrupt r)"

text \<open>The object the code builds as \<open>next\<close>; a later spread overrides an earlier one.\<close>

definition next_run ::
  "oracle_host \<Rightarrow> run \<Rightarrow> transition_input \<Rightarrow> string \<Rightarrow> workflow_state \<Rightarrow> run" where
  "next_run host r i now to =
     r\<lparr> run_state := to, run_updatedAt := now,
        run_history := run_history r @ [transition_entry host r i now to],
        run_agentResult := or_else (map_option strip_agent_telemetry (in_agentResult i)) (run_agentResult r),
        run_executor := or_else (in_executor i)
          (or_else (Option.bind (in_agentResult i) a_executor) (run_executor r)),
        run_bootstrap := or_else (in_bootstrap i) (run_bootstrap r),
        run_pullRequest := or_else (in_pullRequest i) (run_pullRequest r),
        run_reviewResult := or_else (map_option strip_review_telemetry (in_reviewResult i))
          (if invalidates_evidence r i \<or> in_type i = T_revalidate then None else run_reviewResult r),
        run_validationResult := or_else (in_validationResult i)
          (if invalidates_evidence r i then None else run_validationResult r),
        run_repairAdmissions :=
          (if in_type i = T_start_fix
           then case in_repairAdmission i of
               Some a \<Rightarrow> Some (admissions r @ [a])
             | None \<Rightarrow> run_repairAdmissions r
           else run_repairAdmissions r),
        run_headSha := or_else (accepted_head r i) (run_headSha r),
        run_interruptedFrom :=
          (if is_interrupt_state (run_state r) then None
           else if is_interrupt_state to then Some (run_state r) else run_interruptedFrom r),
        run_interrupt :=
          (if is_interrupt_state (run_state r) \<and> run_interrupt r \<noteq> None then resolved_interrupt r now
           else if is_interrupt_state to then Some (entered_interrupt i now to)
           else run_interrupt r) \<rparr>"

fun handoff_identity :: "repair_executor_handoff \<Rightarrow> executor_identity option" where
  "handoff_identity (Handoff_executor e) = Some e"
| "handoff_identity (Handoff_sessionless _) = None"

text \<open>After a repair hand-off the run and its result carry the adopted identity, or none.\<close>

definition adopt_handoff :: "run \<Rightarrow> repair_handoff_record \<Rightarrow> run" where
  "adopt_handoff r h =
     (let adopted = handoff_identity (hr_outcome h) in
      r\<lparr> run_executor := adopted,
         run_agentResult := map_option
           (\<lambda>a. a\<lparr>a_executor := adopted, a_sessionId := map_option e_sessionId adopted\<rparr>)
           (run_agentResult r) \<rparr>)"

definition apply_transition ::
  "oracle_host \<Rightarrow> run \<Rightarrow> transition_input \<Rightarrow> string \<Rightarrow> active_validation option
     \<Rightarrow> transition_error + run" where
  "apply_transition host r i now active =
     (case guard_native host r i of
        Some e \<Rightarrow> Inl e
      | None \<Rightarrow>
          (case table_target (run_state r) (in_type i) of
             None \<Rightarrow> Inl \<lparr> te_code = (if is_terminal (run_state r) then Terminal_state
                                     else Unknown_transition),
                           te_from = run_state r, te_transition = in_type i \<rparr>
           | Some target \<Rightarrow>
               (case assert_payload host r i active of
                  Some e \<Rightarrow> Inl e
                | None \<Rightarrow>
                    (case resolve_target r i target of
                       Inl e \<Rightarrow> Inl e
                     | Inr to \<Rightarrow>
                         (let recorded = record_wait_telemetry (next_run host r i now to) now in
                          Inr (case input_handoff host r i of
                                 None \<Rightarrow> recorded
                               | Some h \<Rightarrow> adopt_handoff recorded h))))))"

end
