(* ===== verification/Transition_Properties.thy ===== *)
theory Transition_Properties
  imports State_Machine
begin

text \<open>
  What an accepted transition guarantees: where it may go, what it records, which evidence
  survives, who may change the HEAD and the executor, and the interrupt invariant of every
  run the machine produces.
\<close>

section \<open>An accepted transition\<close>

definition finish_transition ::
  "oracle_host \<Rightarrow> run \<Rightarrow> transition_input \<Rightarrow> string \<Rightarrow> workflow_state \<Rightarrow> run" where
  "finish_transition host r i now to =
     (let recorded = record_wait_telemetry (next_run host r i now to) now in
      case input_handoff host r i of None \<Rightarrow> recorded | Some h \<Rightarrow> adopt_handoff recorded h)"

lemma apply_transitionD:
  assumes "apply_transition host r i now active = Inr s"
  obtains target to where
    "guard_native host r i = None"
    "table_target (run_state r) (in_type i) = Some target"
    "assert_payload host r i active = None"
    "resolve_target r i target = Inr to"
    "s = finish_transition host r i now to"
  using assms
  by (auto simp: apply_transition_def finish_transition_def Let_def split: option.splits sum.splits)

lemma record_wait_telemetry_frame [simp]:
  "run_id (record_wait_telemetry r at) = run_id r"
  "run_target (record_wait_telemetry r at) = run_target r"
  "run_state (record_wait_telemetry r at) = run_state r"
  "run_history (record_wait_telemetry r at) = run_history r"
  "run_interruptedFrom (record_wait_telemetry r at) = run_interruptedFrom r"
  "run_interrupt (record_wait_telemetry r at) = run_interrupt r"
  "run_agentResult (record_wait_telemetry r at) = run_agentResult r"
  "run_executor (record_wait_telemetry r at) = run_executor r"
  "run_bootstrap (record_wait_telemetry r at) = run_bootstrap r"
  "run_pullRequest (record_wait_telemetry r at) = run_pullRequest r"
  "run_reviewResult (record_wait_telemetry r at) = run_reviewResult r"
  "run_validationResult (record_wait_telemetry r at) = run_validationResult r"
  "run_nativeReview (record_wait_telemetry r at) = run_nativeReview r"
  "run_nativeLead (record_wait_telemetry r at) = run_nativeLead r"
  "run_headSha (record_wait_telemetry r at) = run_headSha r"
  "run_repairAdmissions (record_wait_telemetry r at) = run_repairAdmissions r"
  "run_repairTaskShapeAuthority (record_wait_telemetry r at) = run_repairTaskShapeAuthority r"
  "run_dispatchClaimId (record_wait_telemetry r at) = run_dispatchClaimId r"
  "run_mergeAttempt (record_wait_telemetry r at) = run_mergeAttempt r"
  "run_execution (record_wait_telemetry r at) = run_execution r"
  "run_createdAt (record_wait_telemetry r at) = run_createdAt r"
  "run_implementationAuthority (record_wait_telemetry r at) = run_implementationAuthority r"
  by (simp_all add: record_wait_telemetry_def)

lemma adopt_handoff_frame [simp]:
  "run_id (adopt_handoff r h) = run_id r"
  "run_target (adopt_handoff r h) = run_target r"
  "run_state (adopt_handoff r h) = run_state r"
  "run_history (adopt_handoff r h) = run_history r"
  "run_interruptedFrom (adopt_handoff r h) = run_interruptedFrom r"
  "run_interrupt (adopt_handoff r h) = run_interrupt r"
  "run_bootstrap (adopt_handoff r h) = run_bootstrap r"
  "run_pullRequest (adopt_handoff r h) = run_pullRequest r"
  "run_reviewResult (adopt_handoff r h) = run_reviewResult r"
  "run_validationResult (adopt_handoff r h) = run_validationResult r"
  "run_nativeReview (adopt_handoff r h) = run_nativeReview r"
  "run_nativeLead (adopt_handoff r h) = run_nativeLead r"
  "run_headSha (adopt_handoff r h) = run_headSha r"
  "run_repairAdmissions (adopt_handoff r h) = run_repairAdmissions r"
  "run_repairTaskShapeAuthority (adopt_handoff r h) = run_repairTaskShapeAuthority r"
  "run_dispatchClaimId (adopt_handoff r h) = run_dispatchClaimId r"
  "run_mergeAttempt (adopt_handoff r h) = run_mergeAttempt r"
  "run_execution (adopt_handoff r h) = run_execution r"
  "run_createdAt (adopt_handoff r h) = run_createdAt r"
  "run_implementationAuthority (adopt_handoff r h) = run_implementationAuthority r"
  "run_executor (adopt_handoff r h) = handoff_identity (hr_outcome h)"
  by (simp_all add: adopt_handoff_def Let_def)

lemma finish_frame [simp]:
  "run_id (finish_transition host r i now to) = run_id r"
  "run_target (finish_transition host r i now to) = run_target r"
  "run_nativeReview (finish_transition host r i now to) = run_nativeReview r"
  "run_nativeLead (finish_transition host r i now to) = run_nativeLead r"
  "run_repairTaskShapeAuthority (finish_transition host r i now to) = run_repairTaskShapeAuthority r"
  "run_dispatchClaimId (finish_transition host r i now to) = run_dispatchClaimId r"
  "run_mergeAttempt (finish_transition host r i now to) = run_mergeAttempt r"
  "run_execution (finish_transition host r i now to) = run_execution r"
  "run_createdAt (finish_transition host r i now to) = run_createdAt r"
  "run_implementationAuthority (finish_transition host r i now to) = run_implementationAuthority r"
  by (simp_all add: finish_transition_def Let_def next_run_def split: option.split)

lemma finish_fields:
  "run_state (finish_transition host r i now to) = to"
  "run_history (finish_transition host r i now to) = run_history r @ [transition_entry host r i now to]"
  "run_bootstrap (finish_transition host r i now to) = or_else (in_bootstrap i) (run_bootstrap r)"
  "run_pullRequest (finish_transition host r i now to) = or_else (in_pullRequest i) (run_pullRequest r)"
  "run_reviewResult (finish_transition host r i now to) =
     or_else (map_option strip_review_telemetry (in_reviewResult i))
       (if invalidates_evidence r i \<or> in_type i = T_revalidate then None else run_reviewResult r)"
  "run_validationResult (finish_transition host r i now to) =
     or_else (in_validationResult i) (if invalidates_evidence r i then None else run_validationResult r)"
  "run_headSha (finish_transition host r i now to) = or_else (accepted_head r i) (run_headSha r)"
  "run_interruptedFrom (finish_transition host r i now to) =
     (if is_interrupt_state (run_state r) then None
      else if is_interrupt_state to then Some (run_state r) else run_interruptedFrom r)"
  "run_interrupt (finish_transition host r i now to) =
     (if is_interrupt_state (run_state r) \<and> run_interrupt r \<noteq> None then resolved_interrupt r now
      else if is_interrupt_state to then Some (entered_interrupt i now to) else run_interrupt r)"
  "admissions (finish_transition host r i now to) =
     admissions r @ (if in_type i = T_start_fix then case_option [] (\<lambda>a. [a]) (in_repairAdmission i) else [])"
  by (simp_all add: finish_transition_def Let_def next_run_def admissions_def split: option.split)

lemma finish_executor:
  "run_executor (finish_transition host r i now to) =
     (case input_handoff host r i of
        Some h \<Rightarrow> handoff_identity (hr_outcome h)
      | None \<Rightarrow> or_else (in_executor i) (or_else (Option.bind (in_agentResult i) a_executor) (run_executor r)))"
  by (simp add: finish_transition_def Let_def next_run_def split: option.split)

lemma assert_payloadD:
  assumes "assert_payload host r i active = None"
  shows "guard_required_payload r i = None" "guard_lead_stop r i = None"
    "guard_repair_admission host r i = None" "guard_repair_handoff host r i = None"
    "guard_unexpected_results r i = None" "guard_validation r i = None" "guard_bootstrap r i = None"
    "guard_pull_request r i = None" "guard_executor r i = None" "guard_head r i = None"
    "guard_agent_outcome r i = None" "guard_agent_head r i = None" "guard_verdict r i = None"
    "guard_review r i active = None"
  using assms unfolding assert_payload_def first_error_None_iff by simp_all

section \<open>Where a transition may go\<close>

lemma table_target_cases:
  "table_target s t = Some (To u) \<Longrightarrow> u \<noteq> MERGE_READY \<and> (u = MERGED \<longrightarrow> s = MERGE_READY \<and> t = T_merged)
     \<and> s \<noteq> MERGED \<and> s \<noteq> FAILED \<and> (u = s \<longrightarrow> s = IMPLEMENTING)"
  "table_target s t = Some RESUME \<Longrightarrow>
     s = WAITING_DEPENDENCY \<and> t = T_dependency_satisfied \<or> s = NEEDS_HUMAN \<and> t = T_human_resolved"
  by (cases s; auto simp: table_target_def split: if_splits)+

text \<open>Terminal states absorb: a merged or failed run accepts no transition at all, whatever
  its payload, and the error says so unless the run's native evidence is already refused.\<close>

theorem terminal_states_absorb:
  assumes "run_state r = MERGED \<or> run_state r = FAILED"
  shows "\<exists>e. apply_transition host r i now active = Inl e
           \<and> (te_code e = Terminal_state \<or> te_code e = Invalid_native_evidence)"
proof -
  have "table_target (run_state r) (in_type i) = None" and "is_terminal (run_state r)"
    using assms by (auto simp: table_target_def is_terminal_def allowed_transitions_def)
  moreover have "te_code e = Invalid_native_evidence" if "guard_native host r i = Some e" for e
    using first_error_SomeD[OF that[unfolded guard_native_def]]
    by (auto simp: raise_if_def fail_if_def split: if_splits)
  ultimately show ?thesis
    by (auto simp: apply_transition_def split: option.split)
qed

text \<open>A transition goes where the table says: the new state is the table's target, and for a
  resuming transition it is the state the run was interrupted from, or \<open>VALIDATING\<close> when a
  human took an offered HEAD synchronization.\<close>

theorem transition_follows_table:
  assumes "apply_transition host r i now active = Inr s"
  shows "(\<exists>u. table_target (run_state r) (in_type i) = Some (To u) \<and> run_state s = u)
         \<or> table_target (run_state r) (in_type i) = Some RESUME
           \<and> (run_interruptedFrom r = Some (run_state s)
              \<or> run_interruptedFrom r \<noteq> None \<and> is_authorized_human_head_sync r i
                \<and> run_state s = VALIDATING)"
proof -
  from assms obtain target to where
    t: "table_target (run_state r) (in_type i) = Some target" "resolve_target r i target = Inr to"
      "s = finish_transition host r i now to"
    by (rule apply_transitionD)
  then show ?thesis
    by (cases target)
       (auto simp: resolve_target_def finish_fields split: option.splits if_splits)
qed

text \<open>History is append-only: an accepted transition adds exactly one record, which names
  its type, its payload's reason, the time, the state left and the state entered; and the
  run's identity, target, creation time, dispatch claim, execution snapshot, authorities and
  native ledgers are untouched.\<close>

theorem transition_appends_one_record:
  assumes "apply_transition host r i now active = Inr s"
  shows "\<exists>h. run_history s = run_history r @ [h] \<and> tr_type h = Applied (in_type i)
           \<and> tr_from h = run_state r \<and> tr_to h = run_state s \<and> tr_at h = now
           \<and> tr_reason h = in_reason i
         \<and> run_id s = run_id r \<and> run_target s = run_target r \<and> run_createdAt s = run_createdAt r
         \<and> run_dispatchClaimId s = run_dispatchClaimId r \<and> run_execution s = run_execution r
         \<and> run_repairTaskShapeAuthority s = run_repairTaskShapeAuthority r
         \<and> run_implementationAuthority s = run_implementationAuthority r
         \<and> run_nativeReview s = run_nativeReview r \<and> run_nativeLead s = run_nativeLead r
         \<and> run_mergeAttempt s = run_mergeAttempt r"
  using assms
  by (rule apply_transitionD) (simp add: finish_fields transition_entry_def)

section \<open>Who may change the HEAD\<close>

lemma head_change_authority:
  assumes "run_headSha (finish_transition host r i now to) \<noteq> run_headSha r"
  shows "in_type i = T_agent_succeeded
         \<or> in_type i = T_agent_failed \<and> run_bootstrap r = None \<and> run_pullRequest r = None
         \<or> is_authorized_human_head_sync r i"
    and "invalidates_evidence r i"
    and "\<exists>h. accepted_head r i = Some h"
proof -
  from assms show inv: "invalidates_evidence r i" and ex: "\<exists>h. accepted_head r i = Some h"
    by (cases "accepted_head r i"; auto simp: finish_fields invalidates_evidence_def)+
  then show "in_type i = T_agent_succeeded
         \<or> in_type i = T_agent_failed \<and> run_bootstrap r = None \<and> run_pullRequest r = None
         \<or> is_authorized_human_head_sync r i"
    by (auto simp: accepted_head_def HEAD_UPDATING_TRANSITIONS_def split: if_splits)
qed

text \<open>C4. The HEAD of a run changes only by an implementation event or by a human taking a HEAD
  synchronization that was offered, and a failed implementation of a run that owns a
  workspace or a pull request never changes it. The new HEAD is trimmed and not empty.\<close>

theorem head_changes_only_by_authority:
  assumes "apply_transition host r i now active = Inr s" and "run_headSha s \<noteq> run_headSha r"
  shows "(in_type i = T_agent_succeeded
          \<or> in_type i = T_agent_failed \<and> run_bootstrap r = None \<and> run_pullRequest r = None
          \<or> is_authorized_human_head_sync r i)
         \<and> (\<exists>h. run_headSha s = Some h \<and> h \<noteq> [] \<and> trim h = h \<and> map_option trim (reported_head i) = Some h)"
proof -
  from assms(1) obtain to where s: "s = finish_transition host r i now to"
    by (rule apply_transitionD)
  note change = head_change_authority[OF assms(2)[unfolded s]]
  then obtain h where h: "accepted_head r i = Some h" by blast
  then have "Option.bind (reported_head i) (\<lambda>h. if trim h = [] then None else Some (trim h)) = Some h"
    by (auto simp: accepted_head_def split: if_splits)
  then have "h \<noteq> [] \<and> trim h = h \<and> map_option trim (reported_head i) = Some h"
    by (cases "reported_head i") (auto split: if_splits)
  with change(1) h show ?thesis by (auto simp: s finish_fields)
qed

text \<open>C3. Evidence does not outlive its HEAD: after a transition that changes the HEAD the run
  carries no validation and no review result from before, and a revalidation drops the
  review as well.\<close>

theorem stale_evidence_dropped:
  assumes "apply_transition host r i now active = Inr s"
    and "run_headSha s \<noteq> run_headSha r \<or> in_type i = T_revalidate"
  shows "run_reviewResult s = None \<and> (run_headSha s \<noteq> run_headSha r \<longrightarrow> run_validationResult s = None)"
proof -
  from assms(1) obtain to where s: "s = finish_transition host r i now to"
    and p: "assert_payload host r i active = None"
    by (rule apply_transitionD)
  have inv: "invalidates_evidence r i" if "run_headSha s \<noteq> run_headSha r"
    using head_change_authority(2) that unfolding s .
  have type: "in_type i \<in> {T_agent_succeeded, T_agent_failed, T_human_resolved, T_revalidate}"
    using head_change_authority(1)[of host r i now to] assms(2)
    by (auto simp: s is_authorized_human_head_sync_def decides_def)
  have none: "in_reviewResult i = None" "in_validationResult i = None"
    using assert_payloadD(5)[OF p] type
    by (auto simp: guard_unexpected_results_def first_error_None_iff REQUIRES_REVIEW_RESULT_def
        accepts_validation_result_def)
  show ?thesis
    using assms(2) inv by (auto simp: s finish_fields none)
qed

section \<open>Owned identities\<close>

text \<open>C8. The owned workspace and pull request never change hands: once a run has a bootstrap
  identity every later one names the same owner, repository, issue, base, branch and
  workspace; once it has accepted a pull request every later identity has the same number;
  and neither is ever dropped.\<close>

theorem owned_identity_kept:
  assumes "apply_transition host r i now active = Inr s"
  shows "absent_or (\<lambda>b. present_and (same_bootstrap b) (run_bootstrap s)) (run_bootstrap r)
         \<and> absent_or (\<lambda>p. present_and (\<lambda>q. pr_number q = pr_number p) (run_pullRequest s))
             (run_pullRequest r)"
proof -
  from assms obtain to where s: "s = finish_transition host r i now to"
    and p: "assert_payload host r i active = None"
    by (rule apply_transitionD)
  have b: "same_bootstrap old new" if "in_bootstrap i = Some new" "run_bootstrap r = Some old" for old new
    using assert_payloadD(7)[OF p] that by (simp add: guard_bootstrap_def first_error_None_iff)
  have q: "pr_number new = pr_number old" if "in_pullRequest i = Some new" "run_pullRequest r = Some old" for old new
    using assert_payloadD(8)[OF p] that
    by (simp add: guard_pull_request_def first_error_None_iff Let_def)
  have "absent_or (\<lambda>b. present_and (same_bootstrap b) (run_bootstrap s)) (run_bootstrap r)"
  proof (cases "run_bootstrap r")
    case (Some old)
    then show ?thesis
      using b[OF _ Some] unfolding s finish_fields
      by (cases "in_bootstrap i") (simp_all add: same_bootstrap_def)
  qed simp
  moreover have "absent_or (\<lambda>p. present_and (\<lambda>q. pr_number q = pr_number p) (run_pullRequest s))
             (run_pullRequest r)"
  proof (cases "run_pullRequest r")
    case (Some old)
    show ?thesis
    proof (cases "in_pullRequest i")
      case new: (Some new)
      from q[OF new Some] new Some show ?thesis by (simp add: s finish_fields)
    qed (use Some in \<open>simp add: s finish_fields\<close>)
  qed simp
  ultimately show ?thesis ..
qed

text \<open>C9. The executor's provider is continuous: outside a repair hand-off, a transition that
  leaves a run with an executor leaves it with one of the same provider if it had one, and it
  only ever replaces it by the identity of an implementation result or, when an
  implementation is escalated to a human, by the interrupted one.\<close>

theorem executor_continuity:
  assumes "apply_transition host r i now active = Inr s" and "\<not> is_handoff_transition (in_type i)"
  shows "absent_or (\<lambda>e. present_and (\<lambda>e'. e_provider e' = e_provider e) (run_executor s)) (run_executor r)
         \<and> (run_executor s = run_executor r
            \<or> run_executor s = in_executor i \<and> in_type i = T_escalate \<and> run_state r = IMPLEMENTING
            \<or> run_executor s = Option.bind (in_agentResult i) a_executor
              \<and> (in_type i = T_agent_succeeded \<or> in_type i = T_agent_failed))"
proof -
  from assms(1) obtain to where s: "s = finish_transition host r i now to"
    and p: "assert_payload host r i active = None"
    by (rule apply_transitionD)
  note d = assert_payloadD[OF p]
  have "in_repairAgentResult i = None"
    using d(4) assms(2) by (simp add: guard_repair_handoff_def first_error_None_iff)
  then have e: "run_executor s = or_else (in_executor i)
      (or_else (Option.bind (in_agentResult i) a_executor) (run_executor r))"
    by (simp add: s finish_executor input_handoff_def)
  have esc: "in_executor i \<noteq> None \<Longrightarrow> in_type i = T_escalate \<and> run_state r = IMPLEMENTING"
    and prov: "\<And>x y. in_executor i = Some x \<Longrightarrow> run_executor r = Some y \<Longrightarrow> e_provider x = e_provider y"
    using d(9) by (auto simp: guard_executor_def first_error_None_iff)
  have agent: "in_agentResult i \<noteq> None \<Longrightarrow> in_type i = T_agent_succeeded \<or> in_type i = T_agent_failed"
    using d(5) by (auto simp: guard_unexpected_results_def first_error_None_iff REQUIRES_AGENT_RESULT_def)
  have aprov: "e_provider x = e_provider y"
    if "Option.bind (in_agentResult i) a_executor = Some x" "run_executor r = Some y" for x y
  proof -
    from that(1) have "in_agentResult i \<noteq> None" by (cases "in_agentResult i") simp_all
    from agent[OF this] d(11) that show ?thesis
      by (auto simp: guard_agent_outcome_def first_error_None_iff)
  qed
  have same: "absent_or (\<lambda>e. present_and (\<lambda>e'. e_provider e' = e_provider e) (Some x)) (run_executor r)"
    if "\<And>y. run_executor r = Some y \<Longrightarrow> e_provider x = e_provider y" for x
    using that by (cases "run_executor r") simp_all
  consider x where "in_executor i = Some x"
    | x where "in_executor i = None" "Option.bind (in_agentResult i) a_executor = Some x"
    | "in_executor i = None" "Option.bind (in_agentResult i) a_executor = None"
    by (cases "in_executor i"; cases "Option.bind (in_agentResult i) a_executor") auto
  then show ?thesis
  proof cases
    case (1 x)
    then have "run_executor s = Some x" by (simp add: e)
    with esc 1 same[OF prov[OF 1]] show ?thesis by simp
  next
    case (2 x)
    then have "run_executor s = Some x" by (simp add: e)
    moreover from 2(2) have "in_agentResult i \<noteq> None" by (cases "in_agentResult i") simp_all
    from agent[OF this] have "in_type i = T_agent_succeeded \<or> in_type i = T_agent_failed" .
    ultimately show ?thesis using 2(2) same[OF aprov[OF 2(2)]] by simp
  next
    case 3
    then have "run_executor s = run_executor r" by (simp add: e)
    then show ?thesis by (simp add: absent_or_def split: option.split)
  qed
qed

section \<open>Evidence a review needs\<close>

text \<open>C1. An approval reaches the final gate only when it is fresh and clean: the stored
  review is an approval of the run's exact, usable HEAD with no blocking finding, and the
  validation it rests on is coherent, passed, about that HEAD and the accepted pull request,
  and was produced under the currently active policies.\<close>

theorem approval_is_fresh_and_validated:
  assumes "apply_transition host r i now active = Inr s" and "in_type i = T_review_approved"
  shows "run_state s = FINAL_GATE \<and> is_review_fresh s
         \<and> present_and (\<lambda>v. r_verdict v = Approve \<and> (\<forall>f \<in> set (r_findings v). f_severity f \<noteq> Blocking))
             (run_reviewResult s)
         \<and> coherent_validation (run_validationResult s)
         \<and> present_and (is_validation_fresh s) active"
proof -
  from assms(1) obtain target to where s: "s = finish_transition host r i now to"
    and p: "assert_payload host r i active = None"
    and t: "table_target (run_state r) (in_type i) = Some target" "resolve_target r i target = Inr to"
    by (rule apply_transitionD)
  note d = assert_payloadD[OF p]
  have to: "to = FINAL_GATE"
    using t assms(2) by (cases "run_state r") (auto simp: table_target_def resolve_target_def)
  from d(1) assms(2) obtain v where v: "in_reviewResult i = Some v"
    by (auto simp: guard_required_payload_def first_error_None_iff REQUIRES_REVIEW_RESULT_def)
  have verdict: "r_verdict v = Approve" "\<forall>f \<in> set (r_findings v). f_severity f \<noteq> Blocking"
    using d(13) assms(2) v
    by (auto simp: guard_verdict_def first_error_None_iff is_review_internally_consistent_def)
  have bound: "is_review_bound_to_head r v" and fresh: "present_and (is_validation_fresh r) active"
    and coh: "coherent_validation (run_validationResult r)"
    using d(14) assms(2) v
    by (auto simp: guard_review_def first_error_None_iff present_and_iff)
  have head: "accepted_head r i = None"
    using assms(2) by (simp add: accepted_head_def HEAD_UPDATING_TRANSITIONS_def
        is_authorized_human_head_sync_def decides_def)
  have nov: "in_validationResult i = None"
    using d(5) assms(2) by (auto simp: guard_unexpected_results_def first_error_None_iff accepts_validation_result_def)
  have nopr: "in_pullRequest i = None"
    using d(8) assms(2) nov
    by (auto simp: guard_pull_request_def first_error_None_iff Let_def is_authorized_human_head_sync_def
        is_authorized_legacy_pull_request_recovery_def decides_def)
  have f: "run_headSha s = run_headSha r" "run_pullRequest s = run_pullRequest r"
    "run_validationResult s = run_validationResult r"
    "run_reviewResult s = Some (strip_review_telemetry v)" "run_state s = FINAL_GATE"
    by (simp_all add: s finish_fields head nov nopr v to invalidates_evidence_def)
  have "is_validation_fresh s = is_validation_fresh r"
    by (rule ext) (simp add: is_validation_fresh_def f)
  with f verdict bound fresh coh show ?thesis
    by (simp add: is_review_fresh_def is_review_bound_to_head_def strip_review_telemetry_def)
qed

text \<open>Leaving \<open>VALIDATING\<close> with an outcome stores the evidence for it: a passed (failed)
  validation moves to review (to changes requested) with a coherent result of that status
  about the run's exact HEAD and the accepted pull request.\<close>

theorem validation_outcome_is_evidenced:
  assumes "apply_transition host r i now active = Inr s"
    and "in_type i = T_validation_passed \<or> in_type i = T_validation_failed"
  shows "run_state s = (if in_type i = T_validation_passed then REVIEWING else CHANGES_REQUESTED)
         \<and> present_and (\<lambda>v. is_validation_result_coherent v
              \<and> v_status v = (if in_type i = T_validation_passed then Passed else Failed)
              \<and> Some (v_headSha v) = run_headSha s
              \<and> h_pullRequestNumber (v_hosted v) = map_option pr_number (run_pullRequest s))
              (run_validationResult s)
         \<and> present_and (\<lambda>p. Some (pr_headSha p) = run_headSha s) (run_pullRequest s)"
proof -
  from assms(1) obtain target to where s: "s = finish_transition host r i now to"
    and p: "assert_payload host r i active = None"
    and t: "table_target (run_state r) (in_type i) = Some target" "resolve_target r i target = Inr to"
    by (rule apply_transitionD)
  note d = assert_payloadD[OF p]
  have to: "to = (if in_type i = T_validation_passed then REVIEWING else CHANGES_REQUESTED)"
    using t assms(2) by (cases "run_state r") (auto simp: table_target_def resolve_target_def)
  from d(1) assms(2) obtain v where v: "in_validationResult i = Some v"
    by (auto simp: guard_required_payload_def first_error_None_iff)
  have ev: "is_validation_result_coherent v" "Some (v_headSha v) = run_headSha r"
    "present_and (\<lambda>p. Some (pr_headSha p) = run_headSha r) (accepted_pull_request r i)"
    "h_pullRequestNumber (v_hosted v) = map_option pr_number (accepted_pull_request r i)"
    "v_status v = (if in_type i = T_validation_passed then Passed else Failed)"
    using d(6) assms(2) v
    by (auto simp: guard_validation_def assert_validation_result_def first_error_None_iff)
  have head: "accepted_head r i = None"
    using assms(2) by (auto simp: accepted_head_def HEAD_UPDATING_TRANSITIONS_def
        is_authorized_human_head_sync_def decides_def)
  show ?thesis
    using ev to by (simp add: s finish_fields head v accepted_pull_request_def)
qed

section \<open>The machine and its invariant\<close>

type_synonym workflow_input = "transition_input \<times> string \<times> active_validation option"

fun workflow_step :: "oracle_host \<Rightarrow> run \<Rightarrow> workflow_input \<Rightarrow> transition_error + run" where
  "workflow_step host r (i, now, active) = apply_transition host r i now active"

definition interrupt_kind_of :: "workflow_state \<Rightarrow> interrupt_kind" where
  "interrupt_kind_of s =
     (if s = NEEDS_HUMAN then Needs_human_interrupt else Waiting_dependency_interrupt)"

definition handoffs_ok :: "transition_record list \<Rightarrow> bool" where
  "handoffs_ok hs \<longleftrightarrow>
     (\<forall>h \<in> set hs. absent_or (\<lambda>k. hr_startFixHistoryIndex k < int (length hs)) (tr_repairHandoff h))"

definition run_wf :: "run \<Rightarrow> bool" where
  "run_wf r \<longleftrightarrow>
     is_interrupt_state (run_state r) = (run_interruptedFrom r \<noteq> None)
     \<and> absent_or (\<lambda>s. \<not> is_terminal s \<and> \<not> is_interrupt_state s) (run_interruptedFrom r)
     \<and> (is_interrupt_state (run_state r) \<longrightarrow>
          present_and (\<lambda>n. i_kind n = interrupt_kind_of (run_state r) \<and> i_resolvedAt n = None)
            (run_interrupt r))
     \<and> handoffs_ok (run_history r)"

lemma is_terminal_iff: "is_terminal s \<longleftrightarrow> s = MERGED \<or> s = FAILED"
  by (cases s) (simp_all add: is_terminal_def allowed_transitions_def)

lemma validate_repair_handoffD:
  assumes v: "validate_repair_handoff host r result c = Some k"
  obtains act b outcome where "active_repair_admission host r = Some act"
    "handoff_due c act"
    "handoff_outcome (ex_executor (ad_execution (act_snapshot act))) result = Some outcome"
    "ad_attemptBinding (act_snapshot act) = Some b"
    "is_repair_handoff_compatible (ex_executor (ad_execution (act_snapshot act))) b outcome
       (previous_outcome c act)"
    "k = \<lparr> hr_admissionHistoryIndex = int (act_admissionHistoryIndex act),
           hr_startFixHistoryIndex = int (act_startFixHistoryIndex act), hr_outcome = outcome \<rparr>"
proof -
  from v obtain act where act: "active_repair_admission host r = Some act" and due: "handoff_due c act"
    by (cases "active_repair_admission host r")
       (auto simp: validate_repair_handoff_def split: if_splits)
  let ?p = "ex_executor (ad_execution (act_snapshot act))"
  from v act due obtain outcome b where o: "handoff_outcome ?p result = Some outcome"
    "ad_attemptBinding (act_snapshot act) = Some b"
    by (cases "handoff_outcome ?p result"; cases "ad_attemptBinding (act_snapshot act)")
       (simp_all add: validate_repair_handoff_def)
  with v act due have "is_repair_handoff_compatible ?p b outcome (previous_outcome c act)"
    and "k = \<lparr> hr_admissionHistoryIndex = int (act_admissionHistoryIndex act),
             hr_startFixHistoryIndex = int (act_startFixHistoryIndex act), hr_outcome = outcome \<rparr>"
    by (simp_all add: validate_repair_handoff_def split: if_splits)
  with that act o due show thesis by blast
qed

lemma input_handoff_index:
  assumes "input_handoff host r i = Some k"
  shows "hr_startFixHistoryIndex k < int (length (run_history r))"
proof -
  from assms obtain result where
    "validate_repair_handoff host r result (in_type i = T_repair_executor_continued) = Some k"
    by (cases "in_repairAgentResult i") (simp_all add: input_handoff_def)
  then obtain act where act: "active_repair_admission host r = Some act"
    and k: "hr_startFixHistoryIndex k = int (act_startFixHistoryIndex act)"
    by (rule validate_repair_handoffD) simp
  from active_repair_admissionD(2)[OF act] have "act_startFixHistoryIndex act < length (run_history r)"
    unfolding last_start_fix_def by (auto dest: find_last_index_SomeD)
  with k show ?thesis by simp
qed

lemma handoffs_ok_finish:
  assumes "handoffs_ok (run_history r)"
  shows "handoffs_ok (run_history (finish_transition host r i now to))"
  using assms input_handoff_index[of host r i]
  by (auto simp: handoffs_ok_def finish_fields transition_entry_def absent_or_def split: option.splits)

lemma transition_keeps_wf:
  assumes wf: "run_wf r" and "apply_transition host r i now active = Inr s"
  shows "run_wf s"
proof -
  from assms(2) obtain target to where s: "s = finish_transition host r i now to"
    and t: "table_target (run_state r) (in_type i) = Some target" "resolve_target r i target = Inr to"
    by (rule apply_transitionD)
  have h: "handoffs_ok (run_history s)"
    using wf unfolding s by (intro handoffs_ok_finish) (simp add: run_wf_def)
  have live: "\<not> is_terminal (run_state r)"
    using t by (cases target) (auto simp: is_terminal_iff dest: table_target_cases)
  show ?thesis
  proof (cases "is_interrupt_state (run_state r)")
    case True
    have "\<not> is_interrupt_state to"
    proof (cases target)
      case (To u)
      with t True show ?thesis
        by (auto simp: is_interrupt_state_def table_target_def resolve_target_def split: if_splits)
    next
      case RESUME
      with t wf show ?thesis
        by (auto simp: run_wf_def resolve_target_def is_interrupt_state_def split: option.splits if_splits)
    qed
    with True h show ?thesis by (simp add: s run_wf_def finish_fields)
  next
    case False
    with wf have "run_interruptedFrom r = None" by (simp add: run_wf_def)
    with False live h show ?thesis
      by (auto simp: s run_wf_def finish_fields is_interrupt_state_def interrupt_kind_of_def
          entered_interrupt_def)
  qed
qed

lemma transition_extends_history:
  "apply_transition host r i now active = Inr s \<Longrightarrow> \<exists>es. run_history s = run_history r @ es"
  by (erule apply_transitionD) (simp add: finish_fields)

interpretation workflow: logged_machine "workflow_step host" run_wf run_history for host
  by unfold_locales (auto elim: transition_keeps_wf transition_extends_history)

lemma create_run_wf: "run_wf (create_run tgt now rid execution claim authority)"
  by (simp add: create_run_def run_wf_def is_interrupt_state_def handoffs_ok_def)

text \<open>C2. Every run the machine produces is well formed, whatever sequence of transitions is
  tried and however many are refused: it is interrupted exactly when it remembers a state to
  resume to, that state is neither terminal nor itself an interrupt, the pending interrupt is
  of the matching kind and unresolved, and every recorded repair hand-off refers to a
  \<open>start_fix\<close> inside the history.\<close>

theorem reachable_runs_well_formed:
  "run_wf (foldl (settle (workflow_step host)) (create_run tgt now rid execution claim authority) steps)"
  by (rule workflow.settles_ok[OF create_run_wf])

text \<open>Readiness is not a transition: only the workflow's final gate writes \<open>MERGE_READY\<close>.\<close>

definition unready :: "run \<Rightarrow> bool" where
  "unready r \<longleftrightarrow> run_state r \<noteq> MERGE_READY \<and> run_state r \<noteq> MERGED
     \<and> run_interruptedFrom r \<noteq> Some MERGE_READY \<and> run_interruptedFrom r \<noteq> Some MERGED"

lemma transition_keeps_unready:
  assumes "unready r" and "apply_transition host r i now active = Inr s"
  shows "unready s"
proof -
  from assms(2) obtain target to where s: "s = finish_transition host r i now to"
    and t: "table_target (run_state r) (in_type i) = Some target" "resolve_target r i target = Inr to"
    by (rule apply_transitionD)
  have "to \<noteq> MERGE_READY \<and> to \<noteq> MERGED"
    using t assms(1)
    by (cases target) (auto simp: unready_def resolve_target_def split: option.splits if_splits
        dest: table_target_cases)
  then show ?thesis
    using assms(1) t
    by (auto simp: s unready_def finish_fields)
qed

lemma run_unready_init: "unready (create_run tgt now rid execution claim authority)"
  by (simp add: create_run_def unready_def)

interpretation unready: guarded_machine "workflow_step host" unready for host
  by unfold_locales (auto elim: transition_keeps_unready)

text \<open>No sequence of transitions makes a run ready or merged: from a new run every
  reachable run is neither \<open>MERGE_READY\<close> nor \<open>MERGED\<close>, so a merge always passes through
  the workflow's own final gate.\<close>

theorem readiness_is_not_a_transition:
  "run_state (foldl (settle (workflow_step host)) (create_run tgt now rid execution claim authority) steps)
     \<notin> {MERGE_READY, MERGED}"
  using unready.settles_ok[OF run_unready_init, of host tgt now rid execution claim authority steps]
  by (simp add: unready_def)

section \<open>Waiting and resuming\<close>

lemma no_head_accepted:
  "in_type i \<notin> {T_agent_succeeded, T_agent_failed, T_human_resolved} \<Longrightarrow> accepted_head r i = None"
  by (simp add: accepted_head_def HEAD_UPDATING_TRANSITIONS_def is_authorized_human_head_sync_def decides_def)

text \<open>Payloads an accepted transition cannot carry.\<close>

lemma payload_absent:
  assumes p: "assert_payload host r i active = None"
  shows "in_type i \<notin> {T_review_approved, T_changes_requested} \<Longrightarrow> in_reviewResult i = None"
    and "in_type i \<notin> {T_agent_succeeded, T_agent_failed} \<Longrightarrow> in_agentResult i = None"
    and "in_type i \<noteq> T_bootstrap_prepared \<Longrightarrow> in_bootstrap i = None"
    and "in_type i \<noteq> T_escalate \<Longrightarrow> in_executor i = None"
    and "in_type i \<noteq> T_start_fix \<Longrightarrow> in_repairAdmission i = None"
    and "\<not> is_handoff_transition (in_type i) \<Longrightarrow> in_repairAgentResult i = None"
    and "\<not> is_handoff_transition (in_type i) \<Longrightarrow> input_handoff host r i = None"
    and "\<not> accepts_validation_result (run_state r) (in_type i) \<Longrightarrow> in_validationResult i = None"
proof -
  note d = assert_payloadD[OF p]
  show "in_type i \<notin> {T_review_approved, T_changes_requested} \<Longrightarrow> in_reviewResult i = None"
    and "in_type i \<notin> {T_agent_succeeded, T_agent_failed} \<Longrightarrow> in_agentResult i = None"
    and "\<not> accepts_validation_result (run_state r) (in_type i) \<Longrightarrow> in_validationResult i = None"
    using d(5) by (simp_all add: guard_unexpected_results_def first_error_None_iff
        REQUIRES_REVIEW_RESULT_def REQUIRES_AGENT_RESULT_def)
  show "in_type i \<noteq> T_bootstrap_prepared \<Longrightarrow> in_bootstrap i = None"
    using d(7) by (simp add: guard_bootstrap_def first_error_None_iff)
  show "in_type i \<noteq> T_escalate \<Longrightarrow> in_executor i = None"
    using d(9) by (auto simp: guard_executor_def first_error_None_iff)
  show "in_type i \<noteq> T_start_fix \<Longrightarrow> in_repairAdmission i = None"
    using d(3) by (auto simp: guard_repair_admission_def first_error_None_iff)
  show none: "\<not> is_handoff_transition (in_type i) \<Longrightarrow> in_repairAgentResult i = None"
    using d(4) by (simp add: guard_repair_handoff_def first_error_None_iff)
  show "\<not> is_handoff_transition (in_type i) \<Longrightarrow> input_handoff host r i = None"
    using none by (simp add: input_handoff_def)
qed

text \<open>Waiting for a dependency is a round trip: a run that waits and is then resumed is back
  in the state it left, not interrupted, with its HEAD, review, executor, implementation
  result, workspace and repair admissions as they were, and with the validation it had unless
  the wait itself recorded one.\<close>

theorem wait_then_resume:
  assumes "apply_transition host r i now active = Inr s" and "in_type i = T_wait_dependency"
    and "apply_transition host s j now' active' = Inr t" and "in_type j = T_dependency_satisfied"
  shows "run_state t = run_state r \<and> run_interruptedFrom t = None \<and> run_headSha t = run_headSha r
         \<and> run_reviewResult t = run_reviewResult r \<and> run_executor t = run_executor r
         \<and> run_bootstrap t = run_bootstrap r \<and> admissions t = admissions r
         \<and> run_validationResult t = or_else (in_validationResult i) (run_validationResult r)"
proof -
  from assms(1) obtain tg1 to1 where s: "s = finish_transition host r i now to1"
    and p: "assert_payload host r i active = None"
    and t1: "table_target (run_state r) (in_type i) = Some tg1" "resolve_target r i tg1 = Inr to1"
    by (rule apply_transitionD)
  from assms(3) obtain tg2 to2 where t: "t = finish_transition host s j now' to2"
    and q: "assert_payload host s j active' = None"
    and t2: "table_target (run_state s) (in_type j) = Some tg2" "resolve_target s j tg2 = Inr to2"
    by (rule apply_transitionD)
  have to1: "to1 = WAITING_DEPENDENCY" and live: "\<not> is_interrupt_state (run_state r)"
    using t1 assms(2) by (cases "run_state r"; auto simp: table_target_def resolve_target_def is_interrupt_state_def)+
  have type: "in_type i \<notin> {T_agent_succeeded, T_agent_failed, T_human_resolved}"
    "in_type j \<notin> {T_agent_succeeded, T_agent_failed, T_human_resolved}"
    using assms(2,4) by simp_all
  note q1 = no_head_accepted[OF type(1)] payload_absent[OF p] and
    q2 = no_head_accepted[OF type(2)] payload_absent[OF q]
  have from_r: "run_interruptedFrom s = Some (run_state r)" "run_state s = WAITING_DEPENDENCY"
    using live by (simp_all add: s finish_fields to1 is_interrupt_state_def)
  have to2: "to2 = run_state r"
    using t2 assms(4) from_r
    by (auto simp: table_target_def resolve_target_def is_authorized_human_head_sync_def decides_def
        split: if_splits)
  have i: "in_reviewResult i = None" "in_agentResult i = None" "in_bootstrap i = None"
    "in_executor i = None" "in_repairAdmission i = None" "input_handoff host r i = None"
    using q1 assms(2) by (simp_all add: is_handoff_transition_def)
  have j: "in_reviewResult j = None" "in_agentResult j = None" "in_bootstrap j = None"
    "in_executor j = None" "in_repairAdmission j = None" "input_handoff host s j = None"
    "in_validationResult j = None"
    using q2 assms(4) by (simp_all add: is_handoff_transition_def accepts_validation_result_def)
  have at: "run_state t = run_state r" "run_interruptedFrom t = None"
    by (simp_all add: t finish_fields to2 from_r is_interrupt_state_def)
  have rt: "run_headSha t = run_headSha s" "run_reviewResult t = run_reviewResult s"
      "run_executor t = run_executor s" "run_bootstrap t = run_bootstrap s"
      "admissions t = admissions s" "run_validationResult t = run_validationResult s"
    using q2(1) j assms(4)
    by (simp_all add: t finish_fields finish_executor invalidates_evidence_def)
  have rs: "run_headSha s = run_headSha r" "run_reviewResult s = run_reviewResult r"
      "run_executor s = run_executor r" "run_bootstrap s = run_bootstrap r"
      "admissions s = admissions r"
      "run_validationResult s = or_else (in_validationResult i) (run_validationResult r)"
    using q1(1) i assms(2)
    by (simp_all add: s finish_fields finish_executor invalidates_evidence_def)
  show ?thesis unfolding at rt rs by simp
qed

section \<open>Repair\<close>

definition within_budget :: "run \<Rightarrow> bool" where
  "within_budget r = absent_or (\<lambda>limit. start_fixes (run_history r) \<le> limit)
     (Option.bind (run_nativeReview r) nr_repairLimit)"

lemma transition_keeps_budget:
  assumes "within_budget r" and "apply_transition host r i now active = Inr s"
  shows "within_budget s"
proof -
  from assms(2) obtain to where s: "s = finish_transition host r i now to"
    and p: "assert_payload host r i active = None"
    by (rule apply_transitionD)
  have count: "start_fixes (run_history s) = start_fixes (run_history r) + (if in_type i = T_start_fix then 1 else 0)"
    by (simp add: s finish_fields start_fixes_def transition_entry_def)
  have "in_type i = T_start_fix \<Longrightarrow> admission_budget_ok r i"
    using assert_payloadD(3)[OF p] by (simp add: guard_repair_admission_def first_error_None_iff)
  then show ?thesis
    using assms(1) unfolding within_budget_def count
    by (cases "Option.bind (run_nativeReview r) nr_repairLimit")
       (auto simp: s admission_budget_ok_def)
qed

interpretation budget: guarded_machine "workflow_step host" within_budget for host
  by unfold_locales (auto elim: transition_keeps_budget)

text \<open>C6. The native repair budget holds forever: whatever transitions are tried, a run whose
  native ledger limits repairs never records more \<open>start_fix\<close> events than that limit, if it
  did not before.\<close>

theorem repair_budget_never_exceeded:
  assumes "within_budget r"
  shows "within_budget (foldl (settle (workflow_step host)) r steps)"
  by (rule budget.settles_ok[OF assms])

lemma find_last_index_from_append:
  "p (i + length xs) x \<Longrightarrow> find_last_index_from i p (xs @ [x]) = Some (i + length xs)"
  by (induction xs arbitrary: i) simp_all

lemma find_last_index_append: "p (length xs) x \<Longrightarrow> find_last_index p (xs @ [x]) = Some (length xs)"
  using find_last_index_from_append[of p 0 xs x] by (simp add: find_last_index_def)

lemma find_last_index_from_skip:
  "\<not> p (i + length xs) x \<Longrightarrow> find_last_index_from i p (xs @ [x]) = find_last_index_from i p xs"
  by (induction xs arbitrary: i) simp_all

lemma find_last_index_skip: "\<not> p (length xs) x \<Longrightarrow> find_last_index p (xs @ [x]) = find_last_index p xs"
  using find_last_index_from_skip[of p 0 xs x] by (simp add: find_last_index_def)

lemma find_index_from_append:
  assumes "\<And>k. k < length xs \<Longrightarrow> \<not> p (i + k) (xs ! k)" and "p (i + length xs) x"
  shows "find_index_from i p (xs @ [x]) = Some (i + length xs)"
  using assms
proof (induction xs arbitrary: i)
  case (Cons y ys)
  have "\<not> p i y" using Cons.prems(1)[of 0] by simp
  moreover have "find_index_from (Suc i) p (ys @ [x]) = Some (Suc i + length ys)"
  proof (rule Cons.IH)
    show "\<not> p (Suc i + k) (ys ! k)" if "k < length ys" for k
      using Cons.prems(1)[of "Suc k"] that by simp
    show "p (Suc i + length ys) x" using Cons.prems(2) by simp
  qed
  ultimately show ?case by simp
qed simp

lemma find_index_append:
  assumes "\<And>k. k < length xs \<Longrightarrow> \<not> p k (xs ! k)" and "p (length xs) x"
  shows "find_index p (xs @ [x]) = Some (length xs)"
  using find_index_from_append[of xs p 0 x] assms by (simp add: find_index_def)

lemma start_fix_fields:
  assumes s: "s = finish_transition host r i now to" and p: "assert_payload host r i active = None"
    and type: "in_type i = T_start_fix"
  shows "run_headSha s = run_headSha r" "run_reviewResult s = run_reviewResult r"
    "run_validationResult s = run_validationResult r" "run_executor s = run_executor r"
    "run_agentResult s = run_agentResult r" "run_pullRequest s = run_pullRequest r"
    "tr_repairHandoff (transition_entry host r i now to) = None"
proof -
  have t: "in_type i \<notin> {T_agent_succeeded, T_agent_failed, T_human_resolved}" using type by simp
  note no = no_head_accepted[OF t] payload_absent[OF p]
  have absent: "accepted_head r i = None" "in_reviewResult i = None" "in_agentResult i = None"
    "in_executor i = None" "input_handoff host r i = None" "in_validationResult i = None"
    using no type by (simp_all add: is_handoff_transition_def accepts_validation_result_def)
  have "in_pullRequest i = None"
    using assert_payloadD(8)[OF p] type absent(6)
    by (auto simp: guard_pull_request_def first_error_None_iff Let_def is_authorized_human_head_sync_def
        is_authorized_legacy_pull_request_recovery_def decides_def)
  with absent type show "run_headSha s = run_headSha r" "run_reviewResult s = run_reviewResult r"
    "run_validationResult s = run_validationResult r" "run_executor s = run_executor r"
    "run_pullRequest s = run_pullRequest r"
    "tr_repairHandoff (transition_entry host r i now to) = None"
    by (simp_all add: s finish_fields finish_executor invalidates_evidence_def transition_entry_def)
  show "run_agentResult s = run_agentResult r"
    using absent by (simp add: s finish_transition_def next_run_def Let_def)
qed

lemma start_fix_guard:
  assumes "assert_payload host r i active = None" and "in_type i = T_start_fix"
    and "in_repairAdmission i = Some a"
  shows "admission_ok host r a"
  using assert_payloadD(3)[OF assms(1)] assms(2,3)
  by (simp add: guard_repair_admission_def first_error_None_iff)

lemma handoffs_before:
  assumes "handoffs_ok hs" and "tr_repairHandoff h = None"
  shows "find (\<lambda>h. (tr_type h = Applied T_repair_executor_handoff \<or> tr_type h = Applied T_repair_executor_continued)
         \<and> present_and (\<lambda>o'. hr_admissionHistoryIndex o' = k
              \<and> hr_startFixHistoryIndex o' = int (length hs)) (tr_repairHandoff h)) (rev (hs @ [h])) = None"
proof -
  have "\<not> present_and (\<lambda>o'. hr_admissionHistoryIndex o' = k \<and> hr_startFixHistoryIndex o' = int (length hs))
          (tr_repairHandoff x)" if "x \<in> set (rev (hs @ [h]))" for x
    using that assms by (auto simp: handoffs_ok_def present_and_iff)
  then show ?thesis unfolding find_None_iff by blast
qed

text \<open>Admitting a repair and starting it are one step: when a well-formed run accepts a
  \<open>start_fix\<close> with an admission whose finding rests on evidence about the current HEAD, the
  next run's active admission is exactly that receipt, at the next admission index and at the
  history index of that very event, and nothing has been handed off yet.\<close>

theorem start_fix_activates_admission:
  assumes wf: "run_wf r" and accepted: "apply_transition host r i now active = Inr s"
    and type: "in_type i = T_start_fix" and a: "in_repairAdmission i = Some a"
    and current: "finding_is_current r (ad_finding a)"
  shows "active_repair_admission host s = Some
           \<lparr> act_snapshot = a, act_admissionHistoryIndex = length (admissions r),
             act_startFixHistoryIndex = length (run_history r), act_handoff = None \<rparr>"
proof -
  from accepted obtain target to where s: "s = finish_transition host r i now to"
    and p: "assert_payload host r i active = None"
    and t: "table_target (run_state r) (in_type i) = Some target" "resolve_target r i target = Inr to"
    by (rule apply_transitionD)
  note same = start_fix_fields[OF s p type]
  have ok: "admission_ok host r a" by (rule start_fix_guard[OF p type a])
  then have to: "to = IMPLEMENTING" and from_r: "run_state r = CHANGES_REQUESTED"
    using t type by (auto simp: admission_ok_def table_target_def resolve_target_def)
  from ok obtain b pred where b: "ad_attemptBinding a = Some b"
    "bi_admissionIndex b = int (length (admissions r))"
    "bi_startFixHistoryIndex b = int (length (run_history r))"
    and pred: "resolve_repair_predecessor r = Inr pred" "bi_predecessorExecutor b = pred"
    and sess: "bi_predecessorSessionId b = result_session r"
    by (auto simp: admission_ok_def present_and_iff split: sum.splits)
  have safe: "is_safe_integer (int (length (admissions r)))"
    using ok b by (auto simp: admission_ok_def is_repair_admission_snapshot_def is_repair_attempt_binding_def)
  let ?e = "transition_entry host r i now to"
  have e: "is_start_fix ?e" "tr_repairAdmissionIndex ?e = Some (int (length (admissions r)))"
    using type a b from_r to by (simp_all add: transition_entry_def is_start_fix_def)
  have hist: "run_history s = run_history r @ [?e]" and adm: "admissions s = admissions r @ [a]"
    and shape: "run_repairTaskShapeAuthority s = run_repairTaskShapeAuthority r"
    by (simp_all add: s finish_fields type a)
  have last: "last_start_fix (run_history s) = Some (length (run_history r))"
    unfolding last_start_fix_def hist by (rule find_last_index_append) (rule e(1))
  have applies: "admission_applies host s (length (run_history r)) (int (length (admissions r)))
      (length (admissions r)) a"
    using ok b by (simp add: admission_applies_def admission_ok_def same shape)
  have idx: "find_index (admission_applies host s (length (run_history r)) (int (length (admissions r))))
      (admissions s) = Some (length (admissions r))"
    unfolding adm using applies by (intro find_index_append) (simp_all add: admission_applies_def)
  have none: "recorded_handoff s (length (admissions r)) (length (run_history r)) = None"
    unfolding recorded_handoff_def hist
    using handoffs_before[of "run_history r" ?e] same(7) wf by (simp add: run_wf_def)
  have carriers: "result_session s = result_session r" "result_executor s = result_executor r"
    by (simp_all add: result_executor_def result_session_def same)
  then have pred_s: "resolve_repair_predecessor s = Inr pred"
    using pred(1) unfolding resolve_repair_predecessor_def same carriers by simp
  have cur: "finding_is_current s (ad_finding a)"
    using current by (simp add: finding_is_current_def expected_finding_def validation_status_of_def
        review_verdict_of_def same)
  have live: "run_state s = IMPLEMENTING" "run_headSha s \<noteq> None" "run_pullRequest s \<noteq> None"
    "run_repairTaskShapeAuthority s \<noteq> None"
  proof -
    show "run_state s = IMPLEMENTING" by (simp add: s finish_fields to)
    show "run_headSha s \<noteq> None"
      using ok unfolding same by (cases "run_headSha r") (simp_all add: admission_ok_def)
    show "run_pullRequest s \<noteq> None"
      using ok unfolding same by (cases "run_pullRequest r") (simp_all add: admission_ok_def)
    show "run_repairTaskShapeAuthority s \<noteq> None"
      using ok unfolding shape by (cases "run_repairTaskShapeAuthority r") (simp_all add: admission_ok_def)
  qed
  show ?thesis
    using live last idx none pred_s carriers(1) cur safe b pred sess e
    by (simp add: active_repair_admission_def hist adm attempt_finished_def identity_held_def Let_def
        nth_append)
qed

text \<open>C7. A hand-off is adopted, recorded, and unrepeatable: an accepted \<open>repair_executor_handoff\<close>
  records the outcome that the result proves for the run's active admission, leaves the run
  with exactly that executor (none for a sessionless provider), and the same admission then
  refuses a second hand-off by any result.\<close>

theorem handoff_adopted_once:
  assumes "apply_transition host r i now active = Inr s" and "in_type i = T_repair_executor_handoff"
  shows "\<exists>act k. active_repair_admission host r = Some act \<and> act_handoff act = None
           \<and> input_handoff host r i = Some k
           \<and> hr_admissionHistoryIndex k = int (act_admissionHistoryIndex act)
           \<and> hr_startFixHistoryIndex k = int (act_startFixHistoryIndex act)
           \<and> map_option tr_repairHandoff (find (\<lambda>h. tr_type h = Applied T_repair_executor_handoff)
                (rev (run_history s))) = Some (Some k)
           \<and> run_executor s = handoff_identity (hr_outcome k)
           \<and> (\<forall>result. validate_repair_handoff host s result False = None)"
proof -
  from assms(1) obtain target to where s: "s = finish_transition host r i now to"
    and p: "assert_payload host r i active = None"
    and t: "table_target (run_state r) (in_type i) = Some target" "resolve_target r i target = Inr to"
    by (rule apply_transitionD)
  from assert_payloadD(4)[OF p] assms(2) obtain result k where
    result: "in_repairAgentResult i = Some result" and k: "input_handoff host r i = Some k"
    by (auto simp: guard_repair_handoff_def first_error_None_iff is_handoff_transition_def)
  then have "validate_repair_handoff host r result False = Some k"
    using assms(2) by (simp add: input_handoff_def)
  then obtain act where act: "active_repair_admission host r = Some act" "act_handoff act = None"
    and ix: "hr_admissionHistoryIndex k = int (act_admissionHistoryIndex act)"
      "hr_startFixHistoryIndex k = int (act_startFixHistoryIndex act)"
    by (rule validate_repair_handoffD) (simp add: handoff_due_def)
  let ?e = "transition_entry host r i now to"
  have hist: "run_history s = run_history r @ [?e]" by (simp add: s finish_fields)
  have e: "tr_type ?e = Applied T_repair_executor_handoff" "tr_repairHandoff ?e = Some k" "\<not> is_start_fix ?e"
    using assms(2) k by (simp_all add: transition_entry_def is_start_fix_def)
  note d = active_repair_admissionD[OF act(1)]
  have no_second: "validate_repair_handoff host s x False = None" for x
  proof (rule ccontr)
    assume "validate_repair_handoff host s x False \<noteq> None"
    then obtain k' where "validate_repair_handoff host s x False = Some k'" by blast
    then obtain act' where act': "active_repair_admission host s = Some act'" "act_handoff act' = None"
      by (rule validate_repair_handoffD) (simp add: handoff_due_def)
    note d' = active_repair_admissionD[OF act'(1)]
    have "last_start_fix (run_history s) = last_start_fix (run_history r)"
      unfolding last_start_fix_def hist using e(3) by (rule find_last_index_skip)
    with d(2) d'(2) have i': "act_startFixHistoryIndex act' = act_startFixHistoryIndex act" by simp
    from d(2) have "act_startFixHistoryIndex act < length (run_history r)"
      unfolding last_start_fix_def by (auto dest: find_last_index_SomeD)
    with d(7) d'(7) i' have k': "act_admissionHistoryIndex act' = act_admissionHistoryIndex act"
      by (simp add: hist nth_append)
    have "recorded_handoff s (act_admissionHistoryIndex act) (act_startFixHistoryIndex act) = Some k"
      unfolding recorded_handoff_def hist using e(1,2) ix by simp
    with d'(11) act'(2) i' k' show False by simp
  qed
  have "run_executor s = handoff_identity (hr_outcome k)"
    by (simp add: s finish_executor k)
  with act k ix e hist no_second show ?thesis by auto
qed

text \<open>C5. A lead disposition is spent once: when a run with native evidence whose review asks for
  changes starts a repair, the admission carries a disposition of the active lead request that was
  never consumed before, for the run's HEAD and pull request and with the next repair
  ordinal; and afterwards all consumed dispositions still have distinct incarnations. A
  repair of failed validation, where no review asks for changes, consumes none and is not
  covered.\<close>

theorem disposition_consumed_once:
  assumes "apply_transition host r i now active = Inr s" and "in_type i = T_start_fix"
    and "run_nativeReview r \<noteq> None \<or> run_nativeLead r \<noteq> None"
    and "review_verdict_of r = Some Request_changes"
  shows "\<exists>a l. in_repairAdmission i = Some a \<and> ad_leadDisposition a = Some l
           \<and> valid_lead_repair_reference host l \<and> is_repair (la_disposition l)
           \<and> run_headSha r = Some (li_headSha (la_identity l))
           \<and> li_repairOrdinal (la_identity l) = start_fixes (run_history s)
           \<and> consumed_dispositions s = consumed_dispositions r @ [l]
           \<and> distinct (map (\<lambda>c. li_incarnation (la_identity c)) (consumed_dispositions s))"
proof -
  from assms(1) obtain to where s: "s = finish_transition host r i now to"
    and p: "assert_payload host r i active = None" and g: "guard_native host r i = None"
    by (rule apply_transitionD)
  have c: "lead_consumption_valid host r (Option.bind (in_repairAdmission i) ad_leadDisposition)"
    using assert_payloadD(3)[OF p] assms(2-4)
    by (auto simp: guard_repair_admission_def first_error_None_iff)
  then obtain l where l: "Option.bind (in_repairAdmission i) ad_leadDisposition = Some l"
    by (cases "Option.bind (in_repairAdmission i) ad_leadDisposition") (simp_all add: lead_consumption_valid_def)
  then obtain a where a: "in_repairAdmission i = Some a" "ad_leadDisposition a = Some l"
    by (cases "in_repairAdmission i") simp_all
  from c l have v: "valid_lead_repair_reference host l" "run_headSha r = Some (li_headSha (la_identity l))"
    "li_repairOrdinal (la_identity l) = start_fixes (run_history r) + 1"
    and new: "\<forall>c \<in> set (consumed_dispositions r). li_incarnation (la_identity c) \<noteq> li_incarnation (la_identity l)"
    by (auto simp: lead_consumption_valid_def present_and_iff)
  have "native_lead_coherent host False r"
    using g by (simp add: guard_native_def first_error_None_iff)
  then have dist: "distinct (map (\<lambda>c. li_incarnation (la_identity c)) (consumed_dispositions r))"
    by (auto simp: native_lead_coherent_def lead_ledger_ok_def split: option.splits)
  have con: "consumed_dispositions s = consumed_dispositions r @ [l]"
    using a assms(2) by (simp add: consumed_dispositions_def s finish_fields map_filter_def)
  have "start_fixes (run_history s) = start_fixes (run_history r) + 1"
    using assms(2) by (simp add: s finish_fields start_fixes_def transition_entry_def)
  moreover have "distinct (map (\<lambda>c. li_incarnation (la_identity c)) (consumed_dispositions s))"
    using dist new by (auto simp: con)
  moreover have "is_repair (la_disposition l)"
    using v(1) by (simp add: valid_lead_repair_reference_def)
  ultimately show ?thesis using a v con by auto
qed

text \<open>C10. Uncertain native work fences the run: while some issued review or lead request has no
  authenticated completion, no run starts, starts a repair, accepts an implementation or a
  review, or is marked merged.\<close>

theorem unresolved_history_fences:
  assumes "unresolved_native_repair_history host r"
    and "in_type i \<in> {T_start, T_start_fix, T_agent_succeeded, T_review_approved, T_changes_requested, T_merged}"
  shows "\<exists>e. apply_transition host r i now active = Inl e \<and> te_code e = Invalid_native_evidence"
proof -
  have "guard_native host r i \<noteq> None"
    using assms by (auto simp: guard_native_def first_error_None_iff NEEDS_SETTLED_HISTORY_def)
  then obtain e where e: "guard_native host r i = Some e" by blast
  have "te_code e = Invalid_native_evidence"
    using first_error_SomeD[OF e[unfolded guard_native_def]]
    by (auto simp: raise_if_def fail_if_def split: if_splits)
  with e show ?thesis by (simp add: apply_transition_def)
qed

end
