(* ===== verification/Transition_Witnesses.thy ===== *)
theory Transition_Witnesses
  imports Transition_Properties
begin

text \<open>
  Concrete runs of the state machine: one issue driven from \<open>READY\<close> to a fresh approval and
  through one repair, and the properties of \<open>Transition_Properties\<close> applied to its steps.
\<close>

definition sample_active_validation :: active_validation where
  "sample_active_validation =
     \<lparr> av_local = Local_configured ''local-1'', av_hosted = Hosted_configured M_required ''hosted-1'' \<rparr>"

definition step :: "run \<Rightarrow> transition_input \<Rightarrow> transition_error + run" where
  "step r i = apply_transition sample_host r i ''t1'' (Some sample_active_validation)"

definition after :: "run \<Rightarrow> transition_input \<Rightarrow> run" where
  "after r i = (case step r i of Inl e \<Rightarrow> r | Inr s \<Rightarrow> s)"

lemma accepted:
  assumes "\<not> isl (step r i)"
  shows "apply_transition sample_host r i ''t1'' (Some sample_active_validation) = Inr (after r i)"
  using assms unfolding after_def step_def
  by (cases "apply_transition sample_host r i ''t1'' (Some sample_active_validation)") simp_all

definition succeeded :: transition_input where
  "succeeded = (bare_input T_agent_succeeded)
     \<lparr>in_agentResult := Some sample_agent_result, in_headSha := Some ''abc''\<rparr>"

definition implementing_run :: run where
  "implementing_run = after sample_run (bare_input T_start)"

definition validating_run :: run where
  "validating_run = after implementing_run succeeded"

definition validated :: transition_input where
  "validated = (bare_input T_validation_passed)
     \<lparr>in_validationResult := Some sample_validation,
      in_pullRequest := Some \<lparr> pr_number = 7, pr_headSha = ''abc'' \<rparr>\<rparr>"

definition reviewing_run :: run where
  "reviewing_run = after validating_run validated"

definition sample_review :: review_result where
  "sample_review =
     \<lparr> r_verdict = Approve, r_reviewerName = ''reviewer'', r_headSha = ''abc'',
       r_findings = [\<lparr> f_severity = Non_blocking, f_summary = ''nit'', f_detail = None \<rparr>],
       r_telemetry = None \<rparr>"

definition approved :: transition_input where
  "approved = (bare_input T_review_approved)\<lparr>in_reviewResult := Some sample_review\<rparr>"

definition waits :: transition_input where
  "waits = (bare_input T_wait_dependency)\<lparr>in_reason := Some ''checks pending''\<rparr>"

definition resumes :: transition_input where
  "resumes = bare_input T_dependency_satisfied"

definition repairs :: transition_input where
  "repairs = (bare_input T_start_fix)\<lparr>in_repairAdmission := Some bound_snapshot\<rparr>"

definition hands_off :: transition_input where
  "hands_off = (bare_input T_repair_executor_handoff)\<lparr>in_repairAgentResult := Some sample_agent_result\<rparr>"

definition reimplementing_run :: run where
  "reimplementing_run = implementing_run
     \<lparr>run_headSha := Some ''old'', run_reviewResult := Some sample_review,
      run_validationResult := Some sample_validation\<rparr>"

definition gated_run :: run where
  "gated_run = after reviewing_run approved"

definition recorded :: "transition_type \<Rightarrow> workflow_state \<Rightarrow> workflow_state \<Rightarrow> transition_record" where
  "recorded t a b =
     \<lparr> tr_nativeLeadStop = None, tr_type = Applied t, tr_from = a, tr_to = b, tr_at = ''t1'',
       tr_reason = None, tr_repairHandoff = None, tr_repairAdmissionIndex = None \<rparr>"

text \<open>Every step of the sample runs, evaluated together; the runs written out are then their code
  equations, so that a later evaluation does not repeat the steps.\<close>

lemma sample_evaluation:
  "implementing_run = sample_run
     \<lparr>run_state := IMPLEMENTING, run_updatedAt := ''t1'', run_history := [recorded T_start READY IMPLEMENTING]\<rparr>
   \<and> validating_run = implementing_run
     \<lparr>run_state := VALIDATING, run_headSha := Some ''abc'', run_agentResult := Some sample_agent_result,
      run_executor := a_executor sample_agent_result,
      run_history := run_history implementing_run @ [recorded T_agent_succeeded IMPLEMENTING VALIDATING]\<rparr>
   \<and> reviewing_run = validating_run
     \<lparr>run_state := REVIEWING, run_validationResult := Some sample_validation,
      run_pullRequest := Some \<lparr> pr_number = 7, pr_headSha = ''abc'' \<rparr>,
      run_history := run_history validating_run @ [recorded T_validation_passed VALIDATING REVIEWING]\<rparr>
   \<and> gated_run = reviewing_run
     \<lparr>run_state := FINAL_GATE, run_reviewResult := Some sample_review,
      run_history := run_history reviewing_run @ [recorded T_review_approved REVIEWING FINAL_GATE]\<rparr>
   \<and> \<not> isl (step sample_run (bare_input T_start)) \<and> \<not> isl (step implementing_run succeeded)
   \<and> \<not> isl (step validating_run validated) \<and> \<not> isl (step reviewing_run approved)
   \<and> \<not> isl (step reviewing_run waits) \<and> \<not> isl (step (after reviewing_run waits) resumes)
   \<and> \<not> isl (step rejected_run repairs) \<and> \<not> isl (step (after rejected_run repairs) hands_off)
   \<and> \<not> isl (step reimplementing_run succeeded)
   \<and> run_headSha (after implementing_run succeeded) \<noteq> run_headSha implementing_run
   \<and> run_headSha (after reimplementing_run succeeded) \<noteq> run_headSha reimplementing_run"
  by code_simp

lemmas sample_values [code] =
  sample_evaluation[THEN conjunct1]
  sample_evaluation[THEN conjunct2, THEN conjunct1]
  sample_evaluation[THEN conjunct2, THEN conjunct2, THEN conjunct1]
  sample_evaluation[THEN conjunct2, THEN conjunct2, THEN conjunct2, THEN conjunct1]

lemma sample_steps:
  "\<not> isl (step sample_run (bare_input T_start))"
  "\<not> isl (step implementing_run succeeded)"
  "\<not> isl (step validating_run validated)"
  "\<not> isl (step reviewing_run approved)"
  "\<not> isl (step reviewing_run waits)"
  "\<not> isl (step (after reviewing_run waits) resumes)"
  "\<not> isl (step rejected_run repairs)"
  "\<not> isl (step (after rejected_run repairs) hands_off)"
  "\<not> isl (step reimplementing_run succeeded)"
  using sample_evaluation by blast+

lemma sample_head_changes:
  "run_headSha (after implementing_run succeeded) \<noteq> run_headSha implementing_run"
  "run_headSha (after reimplementing_run succeeded) \<noteq> run_headSha reimplementing_run"
  using sample_evaluation by blast+

section \<open>The properties at these steps\<close>

theorem terminal_states_absorb_witness:
  "\<exists>e. apply_transition sample_host (sample_run\<lparr>run_state := MERGED\<rparr>) (bare_input T_fail) ''t1'' None = Inl e"
  using terminal_states_absorb[of "sample_run\<lparr>run_state := MERGED\<rparr>" sample_host "bare_input T_fail" "''t1''" None]
  by auto

theorem transition_follows_table_witness:
  "run_state (after rejected_run repairs) = IMPLEMENTING"
proof -
  have "table_target (run_state rejected_run) (in_type repairs) = Some (To IMPLEMENTING)" by code_simp
  with transition_follows_table[OF accepted[OF sample_steps(7)]] show ?thesis by auto
qed

theorem transition_appends_one_record_witness:
  "length (run_history (after rejected_run repairs)) = 1"
proof -
  have "run_history rejected_run = []" by code_simp
  with transition_appends_one_record[OF accepted[OF sample_steps(7)]] show ?thesis by auto
qed

theorem head_changes_only_by_authority_witness:
  "\<exists>h. run_headSha validating_run = Some h \<and> trim h = h"
proof -
  from head_changes_only_by_authority[OF accepted[OF sample_steps(2)] sample_head_changes(1)] show ?thesis
    unfolding validating_run_def by blast
qed

theorem stale_evidence_dropped_witness:
  "run_reviewResult (after reimplementing_run succeeded) = None
   \<and> run_validationResult (after reimplementing_run succeeded) = None"
proof -
  from stale_evidence_dropped[OF accepted[OF sample_steps(9)]] sample_head_changes(2) show ?thesis by blast
qed

theorem owned_identity_kept_witness:
  "present_and (\<lambda>q. pr_number q = 7) (run_pullRequest (after rejected_run repairs))"
proof -
  have "run_pullRequest rejected_run = Some \<lparr> pr_number = 7, pr_headSha = ''abc'' \<rparr>" by code_simp
  with owned_identity_kept[OF accepted[OF sample_steps(7)]] show ?thesis by simp
qed

theorem executor_continuity_witness:
  "present_and (\<lambda>e. e_provider e = ''codex-cli'') (run_executor (after rejected_run repairs))"
proof -
  have "\<not> is_handoff_transition (in_type repairs)" and "run_executor rejected_run = Some sample_executor"
    and "e_provider sample_executor = ''codex-cli''"
    by code_simp+
  with executor_continuity[OF accepted[OF sample_steps(7)]] show ?thesis by simp
qed

theorem approval_is_fresh_and_validated_witness:
  "run_state (after reviewing_run approved) = FINAL_GATE \<and> is_review_fresh (after reviewing_run approved)"
proof -
  have "in_type approved = T_review_approved" by code_simp
  from approval_is_fresh_and_validated[OF accepted[OF sample_steps(4)] this] show ?thesis by blast
qed

theorem validation_outcome_is_evidenced_witness:
  "run_state (after validating_run validated) = REVIEWING
   \<and> present_and (\<lambda>v. v_status v = Passed) (run_validationResult (after validating_run validated))"
proof -
  have "in_type validated = T_validation_passed" by code_simp
  with validation_outcome_is_evidenced[OF accepted[OF sample_steps(3)]] show ?thesis
    by (auto simp: present_and_iff)
qed

theorem wait_then_resume_witness:
  "run_state (after (after reviewing_run waits) resumes) = run_state reviewing_run"
proof -
  have "in_type waits = T_wait_dependency" and "in_type resumes = T_dependency_satisfied"
    by code_simp+
  from wait_then_resume[OF accepted[OF sample_steps(5)] this(1) accepted[OF sample_steps(6)] this(2)]
  show ?thesis by blast
qed

theorem repair_budget_never_exceeded_witness:
  "within_budget (foldl (settle (workflow_step sample_host))
     (rejected_run\<lparr>run_nativeReview := Some (sample_ledger [])\<rparr>)
     [(repairs, ''t1'', None), (bare_input T_start_fix, ''t2'', None)])"
  by (rule repair_budget_never_exceeded) code_simp

lemma rejected_run_wf: "run_wf rejected_run"
  by code_simp

theorem start_fix_activates_admission_witness:
  "\<exists>act. active_repair_admission sample_host (after rejected_run repairs) = Some act
     \<and> act_snapshot act = bound_snapshot"
proof -
  have "in_type repairs = T_start_fix" and "in_repairAdmission repairs = Some bound_snapshot"
    and "finding_is_current rejected_run (ad_finding bound_snapshot)"
    by code_simp+
  from start_fix_activates_admission[OF rejected_run_wf accepted[OF sample_steps(7)] this]
  show ?thesis by simp
qed

theorem handoff_adopted_once_witness:
  "\<forall>result. validate_repair_handoff sample_host (after (after rejected_run repairs) hands_off) result False
     = None"
proof -
  have "in_type hands_off = T_repair_executor_handoff" by code_simp
  from handoff_adopted_once[OF accepted[OF sample_steps(8)] this] show ?thesis by blast
qed

theorem unresolved_history_fences_witness:
  "\<exists>e. apply_transition sample_host
         (sample_run\<lparr>run_nativeReview := Some (sample_ledger [sample_review_request])\<rparr>)
         (bare_input T_start) ''t1'' None = Inl e"
proof -
  have "unresolved_native_repair_history sample_host
         (sample_run\<lparr>run_nativeReview := Some (sample_ledger [sample_review_request])\<rparr>)"
    and "in_type (bare_input T_start) \<in> {T_start, T_start_fix, T_agent_succeeded, T_review_approved,
          T_changes_requested, T_merged}"
    by code_simp+
  from unresolved_history_fences[OF this, of "''t1''" None] show ?thesis by blast
qed

section \<open>A repair under native evidence\<close>

definition digest64 :: "char \<Rightarrow> string" where
  "digest64 c = replicate 64 c"

definition review_proof :: completion_proof where
  "review_proof = \<lparr> cp_file = ''/review'', cp_digest = digest64 (CHR ''1'') \<rparr>"

definition lead_proof :: completion_proof where
  "lead_proof = \<lparr> cp_file = ''/lead'', cp_digest = digest64 (CHR ''2'') \<rparr>"

definition refused_review :: review_result where
  "refused_review =
     \<lparr> r_verdict = Request_changes, r_reviewerName = ''reviewer'',
       r_headSha = replicate 40 (CHR ''b''),
       r_findings = [\<lparr> f_severity = Blocking, f_summary = ''broken'', f_detail = None \<rparr>],
       r_telemetry = None \<rparr>"

definition sample_terminal :: review_terminal where
  "sample_terminal =
     \<lparr> rt_id = ''req-1.terminal'', rt_identity = rr_identity sample_review_request,
       rt_result = refused_review,
       rt_authentication = \<lparr> au_actorId = ''actor'', au_model = ''model'',
         au_effort = Oracle_Extra_High, au_transportReceipt = ''receipt'' \<rparr> \<rparr>"

definition sample_disposition :: lead_disposition where
  "sample_disposition =
     Lead_repair (li_origin sample_lead_identity) (li_authoritySha256 sample_lead_identity)
       (li_blockingFindingIds sample_lead_identity) ''fix the finding''"

definition sample_lead_terminal :: lead_terminal where
  "sample_lead_terminal =
     \<lparr> lt_id = ''lead-1.terminal'', lt_identity = sample_lead_identity,
       lt_disposition = sample_disposition,
       lt_authentication = \<lparr> lau_actorId = ''actor'', lau_model = ''model'',
         lau_effort = Oracle_High, lau_role = ''bounded-lead'', lau_readOnly = True,
         lau_transportReceipt = ''receipt'' \<rparr> \<rparr>"

text \<open>A host that holds the two completions and reverifies them.\<close>

definition native_host :: oracle_host where
  "native_host = sample_host
     \<lparr>oh_read := (\<lambda>f.
        if f = ''/review'' then Some \<lparr> cr_namespace = Ns_review,
          cr_request = Review_requested (rr_identity sample_review_request),
          cr_evidence = Review_terminal sample_terminal \<rparr>
        else if f = ''/lead'' then Some \<lparr> cr_namespace = Ns_lead,
          cr_request = Lead_requested sample_lead_identity,
          cr_evidence = Lead_terminal sample_lead_terminal \<rparr>
        else None),
      oh_record_digest := (\<lambda>r. digest64 (if cr_namespace r = Ns_review then CHR ''1'' else CHR ''2'')),
      oh_evidence_digest := (\<lambda>e. digest64 (case e of Review_terminal _ \<Rightarrow> CHR ''e'' | _ \<Rightarrow> CHR ''f'')),
      oh_disposition_digest := (\<lambda>d. digest64 (CHR ''b'')),
      oh_authority_digest := (\<lambda>a. digest64 (CHR ''a''))\<rparr>"

definition completed_review :: review_request where
  "completed_review = sample_review_request
     \<lparr>rr_status := Qualified_complete, rr_observations := 1,
      rr_terminalDigest := Some (digest64 (CHR ''e'')), rr_completionProof := Some review_proof\<rparr>"

definition completed_lead :: lead_request where
  "completed_lead =
     \<lparr> lr_identity = sample_lead_identity, lr_status = Qualified_complete,
       lr_submissionPossible = True, lr_observations = 1, lr_nextObservationAt = ''t1'',
       lr_conversationUrl = None, lr_failure = None, lr_replacedBy = None,
       lr_replacementReason = None, lr_terminalDigest = Some (digest64 (CHR ''f'')),
       lr_completionProof = Some lead_proof \<rparr>"

definition sample_lead_acceptance :: lead_acceptance where
  "sample_lead_acceptance =
     \<lparr> la_requestId = ''lead-1'', la_receiptId = ''lead-1.terminal'',
       la_digest = digest64 (CHR ''f''), la_identity = sample_lead_identity,
       la_disposition = sample_disposition \<rparr>"

definition sample_reference :: lead_repair_reference where
  "sample_reference =
     \<lparr> la_requestId = ''lead-1'', la_receiptId = ''lead-1.terminal'',
       la_digest = digest64 (CHR ''f''), la_identity = sample_lead_identity,
       la_disposition = sample_disposition, lrr_originEvidence = sample_terminal,
       lrr_consumptionGeneration = 1, lrr_implementationAuthoritySha256 = digest64 (CHR ''a''),
       lrr_instructionsSha256 = digest64 (CHR ''b'') \<rparr>"

definition sample_original_authority :: original_implementation_authority where
  "sample_original_authority =
     \<lparr> oa_input =
         \<lparr> ip_kind = Packet_initial,
           ip_identity = \<lparr> pi_runId = ''run-1'', pi_target = Issue ''acme'' ''widgets'' 42,
             pi_workspacePath = ''/w'', pi_branch = ''issue-42'', pi_baseSha = replicate 40 (CHR ''a''),
             pi_execution = sample_execution \<rparr>,
           ip_repository = (''acme'', ''widgets''),
           ip_issue = \<lparr> is_id = ''i'', is_number = 42, is_updatedAt = ''t0'', is_title = ''t'', is_body = ''b'' \<rparr>,
           ip_acceptedScope = \<lparr> sc_sourceId = ''i'', sc_sourceScope = Scope_issue, sc_sourceUpdatedAt = ''t0'',
             sc_freshness = Current, sc_text = ''scope'' \<rparr>,
           ip_repair = None \<rparr>,
       oa_taskShape = sample_authority, oa_packetSha256 = digest64 (CHR ''a'') \<rparr>"

definition native_rejected_run :: run where
  "native_rejected_run = sample_run
     \<lparr>run_dispatchClaimId := Some ''claim-1'', run_state := CHANGES_REQUESTED,
      run_headSha := Some (replicate 40 (CHR ''b'')),
      run_pullRequest := Some \<lparr> pr_number = 7, pr_headSha = replicate 40 (CHR ''b'') \<rparr>,
      run_repairTaskShapeAuthority := Some sample_authority,
      run_implementationAuthority := Some sample_original_authority,
      run_reviewResult := Some refused_review,
      run_nativeReview := Some ((sample_ledger [completed_review])
        \<lparr>nr_accepted := Some \<lparr> ra_requestId = ''req-1'', ra_receiptId = ''req-1.terminal'',
            ra_digest = digest64 (CHR ''e''), ra_identity = rr_identity sample_review_request \<rparr>\<rparr>),
      run_nativeLead := Some (empty_lead_ledger
        \<lparr>nl_requests := [completed_lead], nl_acceptances := [sample_lead_acceptance],
         nl_activeRequestId := Some ''lead-1''\<rparr>)\<rparr>"

definition native_snapshot :: repair_admission_snapshot where
  "native_snapshot = sample_snapshot
     \<lparr>ad_leadDisposition := Some sample_reference, ad_packetSha256 := Some (digest64 (CHR ''a'')),
      ad_budgetLimit := Some 2, ad_finding := Review_blocking,
      ad_headSha := replicate 40 (CHR ''b''),
      ad_attemptBinding := Some \<lparr> bi_admissionIndex = 0, bi_startFixHistoryIndex = 0,
        bi_predecessorExecutor = None, bi_predecessorSessionId = None, bi_freshExecutor = False,
        bi_runtimeGeneration = ''repair-u1'' \<rparr>\<rparr>"

definition native_repairs :: transition_input where
  "native_repairs = (bare_input T_start_fix)\<lparr>in_repairAdmission := Some native_snapshot\<rparr>"

lemma native_repair_evaluation:
  "guard_native native_host native_rejected_run native_repairs = None
   \<and> lead_consumption_valid native_host native_rejected_run
       (Option.bind (in_repairAdmission native_repairs) ad_leadDisposition)
   \<and> admission_ok native_host native_rejected_run native_snapshot
   \<and> admission_budget_ok native_rejected_run native_repairs
   \<and> guard_required_payload native_rejected_run native_repairs = None
   \<and> guard_lead_stop native_rejected_run native_repairs = None
   \<and> guard_repair_handoff native_host native_rejected_run native_repairs = None
   \<and> guard_unexpected_results native_rejected_run native_repairs = None
   \<and> guard_validation native_rejected_run native_repairs = None
   \<and> guard_bootstrap native_rejected_run native_repairs = None
   \<and> guard_pull_request native_rejected_run native_repairs = None
   \<and> guard_executor native_rejected_run native_repairs = None
   \<and> guard_head native_rejected_run native_repairs = None
   \<and> guard_agent_outcome native_rejected_run native_repairs = None
   \<and> guard_agent_head native_rejected_run native_repairs = None
   \<and> guard_verdict native_rejected_run native_repairs = None
   \<and> guard_review native_rejected_run native_repairs None = None"
  by code_simp

lemma native_repair_kind:
  "in_type native_repairs = T_start_fix" "in_repairAdmission native_repairs = Some native_snapshot"
  "in_agentResult native_repairs = None" "in_reviewResult native_repairs = None"
  "in_repairAgentResult native_repairs = None" "in_validationResult native_repairs = None"
  "in_pullRequest native_repairs = None" "in_executor native_repairs = None"
  "in_headSha native_repairs = None" "in_bootstrap native_repairs = None"
  by (simp_all add: native_repairs_def bare_input_def)

lemma native_repair_payload: "assert_payload native_host native_rejected_run native_repairs None = None"
proof -
  have "guard_repair_admission native_host native_rejected_run native_repairs = None"
    using native_repair_evaluation
    by (simp add: guard_repair_admission_def first_error_None_iff raise_if_def native_repair_kind)
  then show ?thesis
    using native_repair_evaluation by (simp add: assert_payload_def first_error_None_iff)
qed

lemma native_repair_accepted:
  "\<not> isl (apply_transition native_host native_rejected_run native_repairs ''t1'' None)"
proof -
  have "table_target (run_state native_rejected_run) (in_type native_repairs) = Some (To IMPLEMENTING)"
    by code_simp
  then show ?thesis
    by (simp add: apply_transition_def native_repair_evaluation native_repair_payload resolve_target_def Let_def)
qed

theorem disposition_consumed_once_witness:
  "length (consumed_dispositions
     (projr (apply_transition native_host native_rejected_run native_repairs ''t1'' None))) = 1"
proof -
  have "apply_transition native_host native_rejected_run native_repairs ''t1'' None =
      Inr (projr (apply_transition native_host native_rejected_run native_repairs ''t1'' None))"
    using native_repair_accepted by (simp add: sum.collapse(2))
  note d = disposition_consumed_once[OF this]
  have "in_type native_repairs = T_start_fix" and "run_nativeReview native_rejected_run \<noteq> None"
    and "review_verdict_of native_rejected_run = Some Request_changes"
    and "consumed_dispositions native_rejected_run = []"
    by code_simp+
  with d show ?thesis by auto
qed

section \<open>A gap in the workspace guard\<close>

definition sample_bootstrap :: bootstrap_identity where
  "sample_bootstrap =
     \<lparr> b_bootstrapKind = Standalone_isolated, b_owner = ''acme'', b_repo = ''widgets'',
       b_issueNumber = 42, b_baseBranch = ''main'', b_baseSha = ''base'', b_branch = ''issue-42'',
       b_publicationBranch = Some ''issue-42'', b_workspacePath = ''/w'' \<rparr>"

definition prepares :: "bootstrap_identity \<Rightarrow> transition_input" where
  "prepares b = (bare_input T_bootstrap_prepared)\<lparr>in_bootstrap := Some b\<rparr>"

text \<open>A persisted workspace identity can be replaced after all: \<open>sameBootstrap\<close> compares
  neither the boundary kind nor the publication branch, so an implementing run whose
  workspace is a standalone isolated clone accepts a second \<open>bootstrap_prepared\<close> that turns it
  into a linked worktree and drops its publication branch.\<close>

theorem bootstrap_boundary_replaceable:
  "let r = after implementing_run (prepares sample_bootstrap);
       b = sample_bootstrap\<lparr>b_bootstrapKind := Linked_worktree, b_publicationBranch := None\<rparr>
   in run_bootstrap r = Some sample_bootstrap
      \<and> (\<exists>s. apply_transition sample_host r (prepares b) ''t1'' (Some sample_active_validation) = Inr s
            \<and> run_bootstrap s = Some b)"
proof -
  let ?r = "after implementing_run (prepares sample_bootstrap)"
  let ?b = "sample_bootstrap\<lparr>b_bootstrapKind := Linked_worktree, b_publicationBranch := None\<rparr>"
  have "run_bootstrap ?r = Some sample_bootstrap" and "\<not> isl (step ?r (prepares ?b))"
    and "run_bootstrap (after ?r (prepares ?b)) = Some ?b"
    by code_simp+
  then show ?thesis using accepted by (auto simp: Let_def)
qed

end
