(* ===== verification/Effects.thy ===== *)
theory Effects
  imports Interfaces
begin

text \<open>
  Programs with effects. A program is run on the trace of the calls made so far and returns a
  fault or a value with the longer trace; what a call answers is a function of that trace, so
  the environment is free to answer anything at any time. A \<^emph>\<open>trace discipline\<close> is a property
  of traces that is kept by appending, an \<^emph>\<open>effect cost\<close> counts calls of a kind.
\<close>

type_synonym ('e, 'f, 'a) program = "'e list \<Rightarrow> ('f + 'a) \<times> 'e list"

definition give :: "'a \<Rightarrow> ('e, 'f, 'a) program" where
  "give x t = (Inr x, t)"

definition refuse :: "'f \<Rightarrow> ('e, 'f, 'a) program" where
  "refuse f t = (Inl f, t)"

definition before :: "('e, 'f, 'a) program \<Rightarrow> ('a \<Rightarrow> ('e, 'f, 'b) program) \<Rightarrow> ('e, 'f, 'b) program" where
  "before m k t = (case m t of (Inl f, u) \<Rightarrow> (Inl f, u) | (Inr x, u) \<Rightarrow> k x u)"

text \<open>A call appends what was asked and answered; an answer \<open>None\<close> is a call that throws.\<close>

definition perform :: "('a \<Rightarrow> 'e) \<Rightarrow> 'f \<Rightarrow> ('e list \<Rightarrow> 'a option) \<Rightarrow> ('e, 'f, 'a) program" where
  "perform event fault answer t =
     (case answer t of None \<Rightarrow> (Inl fault, t) | Some x \<Rightarrow> (Inr x, t @ [event x]))"

definition look :: "('e list \<Rightarrow> 'a) \<Rightarrow> ('e, 'f, 'a) program" where
  "look f t = (Inr (f t), t)"

definition caught :: "('e, 'f, 'a) program \<Rightarrow> ('e, 'f, 'f + 'a) program" where
  "caught m t = (case m t of (r, u) \<Rightarrow> (Inr r, u))"

definition note_event :: "'e \<Rightarrow> ('e, 'f, unit) program" where
  "note_event e t = (Inr (), t @ [e])"

text \<open>A handler receives the fault and goes on from the trace the fault left.\<close>

definition recovered :: "('e, 'f, 'a) program \<Rightarrow> ('f \<Rightarrow> ('e, 'f, 'a) program) \<Rightarrow> ('e, 'f, 'a) program" where
  "recovered m h t = (case m t of (Inl f, u) \<Rightarrow> h f u | (Inr x, u) \<Rightarrow> (Inr x, u))"

definition require :: "bool \<Rightarrow> 'f \<Rightarrow> ('e, 'f, unit) program" where
  "require c f = (if c then give () else refuse f)"

definition demand :: "'f \<Rightarrow> 'a option \<Rightarrow> ('e, 'f, 'a) program" where
  "demand f x = (case x of None \<Rightarrow> refuse f | Some y \<Rightarrow> give y)"

text \<open>The first element a program accepts, as a loop that returns from its body.\<close>

fun first_of :: "('b \<Rightarrow> ('e, 'f, 'a option) program) \<Rightarrow> 'b list \<Rightarrow> ('e, 'f, 'a option) program" where
  "first_of m [] = give None"
| "first_of m (x # xs) =
     before (m x) (\<lambda>r. case r of Some y \<Rightarrow> give (Some y) | None \<Rightarrow> first_of m xs)"

section \<open>What a program may have done\<close>

definition ensures :: "('e, 'f, 'a) program \<Rightarrow> ('f + 'a \<Rightarrow> 'e list \<Rightarrow> bool) \<Rightarrow> bool" where
  "ensures m Q \<longleftrightarrow> (\<forall>t. \<exists>es. snd (m t) = t @ es \<and> Q (fst (m t)) es)"

lemma ensuresI: "(\<And>t. \<exists>es. snd (m t) = t @ es \<and> Q (fst (m t)) es) \<Longrightarrow> ensures m Q"
  by (simp add: ensures_def)

lemma ensuresD: "ensures m Q \<Longrightarrow> m t = (r, u) \<Longrightarrow> \<exists>es. u = t @ es \<and> Q r es"
  by (metis ensures_def fst_conv snd_conv)

lemma ensures_weaken: "ensures m P \<Longrightarrow> (\<And>r es. P r es \<Longrightarrow> Q r es) \<Longrightarrow> ensures m Q"
  by (meson ensures_def)

lemma ensures_give [simp]: "ensures (give x) Q \<longleftrightarrow> Q (Inr x) []"
  by (simp add: ensures_def give_def)

lemma ensures_refuse [simp]: "ensures (refuse f) Q \<longleftrightarrow> Q (Inl f) []"
  by (simp add: ensures_def refuse_def)

lemma ensures_look: "(\<And>x. Q (Inr x) []) \<Longrightarrow> ensures (look f) Q"
  by (simp add: ensures_def look_def)

lemma ensures_perform:
  "Q (Inl fault) [] \<Longrightarrow> (\<And>x. Q (Inr x) [event x]) \<Longrightarrow> ensures (perform event fault answer) Q"
  by (rule ensuresI) (simp add: perform_def split: option.split)

lemma ensures_before:
  assumes "ensures m P" and "\<And>f es. P (Inl f) es \<Longrightarrow> Q (Inl f) es"
    and "\<And>x es. P (Inr x) es \<Longrightarrow> ensures (k x) (\<lambda>r fs. Q r (es @ fs))"
  shows "ensures (before m k) Q"
proof (rule ensuresI)
  fix t
  obtain r u where m: "m t = (r, u)" by fastforce
  from ensuresD[OF assms(1) m] obtain es where es: "u = t @ es" "P r es" by blast
  show "\<exists>es. snd (before m k t) = t @ es \<and> Q (fst (before m k t)) es"
  proof (cases r)
    case (Inl f)
    with es m assms(2) show ?thesis by (simp add: before_def)
  next
    case (Inr x)
    obtain s v where k: "k x u = (s, v)" by fastforce
    from ensuresD[OF assms(3)[of x es] k] es Inr obtain fs where "v = u @ fs" "Q s (es @ fs)" by blast
    with m k es Inr show ?thesis by (simp add: before_def)
  qed
qed

lemma ensures_caught: "ensures m (\<lambda>r es. Q (Inr r) es) \<Longrightarrow> ensures (caught m) Q"
  by (simp add: ensures_def caught_def split_def)

lemma ensures_note [simp]: "ensures (note_event e) Q \<longleftrightarrow> Q (Inr ()) [e]"
  by (simp add: ensures_def note_event_def)

lemma ensures_recovered:
  assumes "ensures m P" and "\<And>x es. P (Inr x) es \<Longrightarrow> Q (Inr x) es"
    and "\<And>f es. P (Inl f) es \<Longrightarrow> ensures (h f) (\<lambda>r fs. Q r (es @ fs))"
  shows "ensures (recovered m h) Q"
proof (rule ensuresI)
  fix t
  obtain r u where m: "m t = (r, u)" by fastforce
  from ensuresD[OF assms(1) m] obtain es where es: "u = t @ es" "P r es" by blast
  show "\<exists>es. snd (recovered m h t) = t @ es \<and> Q (fst (recovered m h t)) es"
  proof (cases r)
    case (Inr x)
    with es m assms(2) show ?thesis by (simp add: recovered_def)
  next
    case (Inl f)
    obtain s v where k: "h f u = (s, v)" by fastforce
    from ensuresD[OF assms(3)[of f es] k] es Inl obtain fs where "v = u @ fs" "Q s (es @ fs)" by blast
    with m k es Inl show ?thesis by (simp add: recovered_def)
  qed
qed

section \<open>Silent programs\<close>

definition silent :: "('e, 'f, 'a) program \<Rightarrow> bool" where
  "silent m \<longleftrightarrow> ensures m (\<lambda>r es. es = [])"

lemma silent_simps [simp]:
  "silent (give x)" "silent (refuse f)" "silent (look g)" "silent (require c f)" "silent (demand f y)"
  by (cases y; simp add: silent_def ensures_look require_def demand_def)+

lemma silent_before [simp]: "silent m \<Longrightarrow> (\<And>x. silent (k x)) \<Longrightarrow> silent (before m k)"
  unfolding silent_def by (rule ensures_before[where P = "\<lambda>r es. es = []"]) simp_all

lemma ensures_silent_before:
  assumes "silent m" and "\<And>f. Q (Inl f) []" and "\<And>x. ensures (k x) Q"
  shows "ensures (before m k) Q"
  using assms(1) unfolding silent_def
  by (rule ensures_before) (simp_all add: assms(2,3))

lemma ensures_conj:
  assumes "ensures m P" and "ensures m Q"
  shows "ensures m (\<lambda>r es. P r es \<and> Q r es)"
proof (rule ensuresI)
  fix t
  obtain r u where m: "m t = (r, u)" by fastforce
  from ensuresD[OF assms(1) m] ensuresD[OF assms(2) m] m
  show "\<exists>es. snd (m t) = t @ es \<and> P (fst (m t)) es \<and> Q (fst (m t)) es" by auto
qed

section \<open>Disciplines and costs\<close>

locale trace_discipline =
  fixes proper :: "'e list \<Rightarrow> bool"
  assumes proper_Nil: "proper []"
    and proper_append: "proper es \<Longrightarrow> proper fs \<Longrightarrow> proper (es @ fs)"
begin

definition keeps :: "('e, 'f, 'a) program \<Rightarrow> bool" where
  "keeps m \<longleftrightarrow> ensures m (\<lambda>r es. proper es)"

lemma keeps_give [simp]: "keeps (give x)"
  by (simp add: keeps_def proper_Nil)

lemma keeps_refuse [simp]: "keeps (refuse f)"
  by (simp add: keeps_def proper_Nil)

lemma keeps_look [simp]: "keeps (look f)"
  by (simp add: keeps_def ensures_look proper_Nil)

lemma keeps_require [simp]: "keeps (require c f)"
  by (simp add: require_def)

lemma keeps_demand [simp]: "keeps (demand f x)"
  by (cases x) (simp_all add: demand_def)

lemma keeps_perform: "(\<And>x. proper [event x]) \<Longrightarrow> keeps (perform event fault answer)"
  by (simp add: keeps_def ensures_perform proper_Nil)

lemma keeps_before:
  assumes "keeps m" and k: "\<And>x. keeps (k x)"
  shows "keeps (before m k)"
  unfolding keeps_def
proof (rule ensures_before[where P = "\<lambda>r es. proper es"])
  fix x es assume "proper es"
  then show "ensures (k x) (\<lambda>r fs. proper (es @ fs))"
    using k[of x] unfolding keeps_def by (elim ensures_weaken) (rule proper_append)
qed (use assms(1) in \<open>simp_all add: keeps_def\<close>)

lemma keeps_caught: "keeps m \<Longrightarrow> keeps (caught m)"
  by (simp add: keeps_def ensures_caught)

lemma keeps_note: "proper [e] \<Longrightarrow> keeps (note_event e)"
  by (simp add: keeps_def)

lemma keeps_recovered:
  assumes "keeps m" and h: "\<And>f. keeps (h f)"
  shows "keeps (recovered m h)"
  unfolding keeps_def
proof (rule ensures_recovered[where P = "\<lambda>r es. proper es"])
  fix f es assume "proper es"
  then show "ensures (h f) (\<lambda>r fs. proper (es @ fs))"
    using h[of f] unfolding keeps_def by (elim ensures_weaken) (rule proper_append)
qed (use assms(1) in \<open>simp_all add: keeps_def\<close>)

lemma keeps_first_of: "(\<And>x. keeps (m x)) \<Longrightarrow> keeps (first_of m xs)"
  by (induction xs) (auto intro!: keeps_before split: option.split)

lemma keeps_trace: "keeps m \<Longrightarrow> \<exists>es. snd (m t) = t @ es \<and> proper es"
  by (simp add: keeps_def ensures_def)

end

text \<open>With a discipline of the calls, a contract says which faults are allowed and what is returned.\<close>

locale program_contract = trace_discipline proper for proper :: "'e list \<Rightarrow> bool" +
  fixes allowed :: "'f \<Rightarrow> bool"
begin

definition obeys :: "('a \<Rightarrow> bool) \<Rightarrow> ('e, 'f, 'a) program \<Rightarrow> bool" where
  "obeys P m \<longleftrightarrow> ensures m (\<lambda>r es. proper es \<and> (case r of Inl f \<Rightarrow> allowed f | Inr x \<Rightarrow> P x))"

lemma obeys_basic [simp]:
  "obeys P (give x) \<longleftrightarrow> P x" "obeys P (refuse f) \<longleftrightarrow> allowed f"
  by (simp_all add: obeys_def proper_Nil)

lemma obeys_note [simp]: "obeys P (note_event e) \<longleftrightarrow> proper [e] \<and> P ()"
  by (simp add: obeys_def)

lemma obeys_look: "(\<And>x. P x) \<Longrightarrow> obeys P (look f)"
  by (simp add: obeys_def ensures_look proper_Nil)

lemma obeys_weaken: "obeys P m \<Longrightarrow> (\<And>x. P x \<Longrightarrow> Q x) \<Longrightarrow> obeys Q m"
  unfolding obeys_def by (erule ensures_weaken) (auto split: sum.splits)

lemma obeys_before:
  assumes "obeys P m" and k: "\<And>x. P x \<Longrightarrow> obeys Q (k x)"
  shows "obeys Q (before m k)"
  unfolding obeys_def
proof (rule ensures_before[OF assms(1)[unfolded obeys_def]])
  fix x es assume "proper es \<and> (case Inr x of Inl f \<Rightarrow> allowed f | Inr x \<Rightarrow> P x)"
  then show "ensures (k x) (\<lambda>r fs. proper (es @ fs) \<and> (case r of Inl f \<Rightarrow> allowed f | Inr x \<Rightarrow> Q x))"
    using k[of x] unfolding obeys_def by (auto elim!: ensures_weaken intro: proper_append)
qed simp

lemma obeys_seq: "obeys (\<lambda>_. True) m \<Longrightarrow> (\<And>x. obeys Q (k x)) \<Longrightarrow> obeys Q (before m k)"
  by (rule obeys_before)

lemma obeys_look_seq: "(\<And>x. obeys Q (k x)) \<Longrightarrow> obeys Q (before (look f) k)"
  by (rule obeys_seq) (simp_all add: obeys_look)

lemma obeys_recovered:
  assumes "obeys P m" and h: "\<And>f. allowed f \<Longrightarrow> obeys P (h f)"
  shows "obeys P (recovered m h)"
  unfolding obeys_def
proof (rule ensures_recovered[OF assms(1)[unfolded obeys_def]])
  fix f es assume "proper es \<and> (case Inl f of Inl f \<Rightarrow> allowed f | Inr x \<Rightarrow> P x)"
  then show "ensures (h f) (\<lambda>r fs. proper (es @ fs) \<and> (case r of Inl f \<Rightarrow> allowed f | Inr x \<Rightarrow> P x))"
    using h[of f] unfolding obeys_def by (auto elim!: ensures_weaken intro: proper_append)
qed simp

end

locale effect_cost =
  fixes cost :: "'e \<Rightarrow> nat"
begin

definition total_cost :: "'e list \<Rightarrow> nat" where
  "total_cost es = sum_list (map cost es)"

definition costs :: "nat \<Rightarrow> ('e, 'f, 'a) program \<Rightarrow> bool" where
  "costs n m \<longleftrightarrow> ensures m (\<lambda>r es. total_cost es \<le> n)"

lemma costs_weaken: "costs n m \<Longrightarrow> n \<le> k \<Longrightarrow> costs k m"
  unfolding costs_def by (erule ensures_weaken) simp

lemma costs_simple [simp]:
  "costs n (give x)" "costs n (refuse f)" "costs n (look g)" "costs n (require c f)" "costs n (demand f y)"
  by (cases y; simp add: costs_def total_cost_def ensures_look require_def demand_def)+

lemma costs_perform: "(\<And>x. cost (event x) \<le> n) \<Longrightarrow> costs n (perform event fault answer)"
  by (simp add: costs_def ensures_perform total_cost_def)

lemma costs_before:
  assumes "costs n m" and k: "\<And>x. costs k (j x)" and "n + k \<le> l"
  shows "costs l (before m j)"
  unfolding costs_def
proof (rule ensures_before[where P = "\<lambda>r es. total_cost es \<le> n"])
  fix x es assume "total_cost es \<le> n"
  with assms(3) show "ensures (j x) (\<lambda>r fs. total_cost (es @ fs) \<le> l)"
    using k[of x] unfolding costs_def by (elim ensures_weaken) (simp add: total_cost_def)
qed (use assms in \<open>simp_all add: costs_def\<close>)

lemma costs_before_value:
  assumes "costs n m" and "ensures m (\<lambda>r es. \<forall>x. r = Inr x \<longrightarrow> P x)"
    and k: "\<And>x. P x \<Longrightarrow> costs k (j x)" and "n + k \<le> l"
  shows "costs l (before m j)"
  unfolding costs_def
proof (rule ensures_before[OF ensures_conj[OF assms(1)[unfolded costs_def] assms(2)]])
  fix x es assume "total_cost es \<le> n \<and> (\<forall>y. Inr x = Inr y \<longrightarrow> P y)"
  with assms(4) show "ensures (j x) (\<lambda>r fs. total_cost (es @ fs) \<le> l)"
    using k[of x] unfolding costs_def by (auto elim!: ensures_weaken simp: total_cost_def)
qed (use assms(4) in simp)

lemma costs_free: "costs 0 m \<Longrightarrow> (\<And>x. costs k (j x)) \<Longrightarrow> costs k (before m j)"
  by (rule costs_before) auto

lemma costs_caught: "costs n m \<Longrightarrow> costs n (caught m)"
  by (simp add: costs_def ensures_caught)

lemma costs_note: "cost e \<le> n \<Longrightarrow> costs n (note_event e)"
  by (simp add: costs_def total_cost_def)

lemma costs_recovered:
  assumes "costs n m" and h: "\<And>f. costs k (h f)" and "n + k \<le> l"
  shows "costs l (recovered m h)"
  unfolding costs_def
proof (rule ensures_recovered[where P = "\<lambda>r es. total_cost es \<le> n"])
  fix f es assume "total_cost es \<le> n"
  with assms(3) show "ensures (h f) (\<lambda>r fs. total_cost (es @ fs) \<le> l)"
    using h[of f] unfolding costs_def by (elim ensures_weaken) (simp add: total_cost_def)
qed (use assms in \<open>simp_all add: costs_def\<close>)

lemma costs_first_of: "(\<And>x. costs 0 (m x)) \<Longrightarrow> costs 0 (first_of m xs)"
  by (induction xs) (auto intro!: costs_free split: option.split)

lemma costs_trace: "costs n m \<Longrightarrow> \<exists>es. snd (m t) = t @ es \<and> total_cost es \<le> n"
  by (simp add: costs_def ensures_def)

end

end
