(* ===== verification/Telemetry_Projection.thy ===== *)
theory Telemetry_Projection
  imports Complex_Main Native_Evidence Telemetry
begin

text \<open>
  Reading the efficiency ledger (\<^verbatim>\<open>src/domain/telemetry.ts\<close>): the validator of a stored
  ledger, the metrics, invocations and signals projected from it, and the completion input a
  result gives. Metrics are integers, the cached percentage a rational; the rounding of a
  division to a double and the text of messages and of the summary are not modelled.
\<close>

section \<open>Validating a stored ledger\<close>

fun is_metric_observation :: "('a \<Rightarrow> bool) \<Rightarrow> 'a metric \<Rightarrow> bool" where
  "is_metric_observation item (Observed v) = item v"
| "is_metric_observation item (Partial v n samples reason) =
     (item v \<and> is_safe_integer (int n) \<and> is_safe_integer (int samples) \<and> n \<le> samples \<and> \<not> blank reason)"
| "is_metric_observation item (Unobserved reason) = (\<not> blank reason)"

definition filled :: "string option \<Rightarrow> bool" where
  "filled s = absent_or (\<lambda>v. \<not> blank v) s"

lemma filled_simps [simp]: "filled None" "filled (Some v) \<longleftrightarrow> \<not> blank v"
  by (simp_all add: filled_def)

definition spawn_valid :: "spawn_event \<Rightarrow> bool" where
  "spawn_valid e \<longleftrightarrow>
     \<not> blank (sp_id e) \<and> \<not> blank (sp_at e) \<and> \<not> blank (sp_invocationId e)
     \<and> is_safe_integer (int (sp_attempt e)) \<and> 1 \<le> sp_attempt e
     \<and> filled (sp_headSha e) \<and> filled (sp_provider e) \<and> filled (sp_model e)
     \<and> filled (sp_reasoningEffort e) \<and> filled (sp_profile e)"

definition wait_valid :: "wait_event \<Rightarrow> bool" where
  "wait_valid e \<longleftrightarrow>
     \<not> blank (we_id e) \<and> \<not> blank (we_at e) \<and> \<not> blank (we_state e) \<and> filled (we_headSha e)
     \<and> filled (we_reason e) \<and> filled (we_observationSource e) \<and> filled (we_subjectId e)
     \<and> filled (we_observationStatus e) \<and> filled (we_observationDigest e)"

abbreviation number_metric :: "int metric \<Rightarrow> bool" where
  "number_metric \<equiv> is_metric_observation (\<lambda>n. 0 \<le> n)"

definition completion_valid :: "completion_event \<Rightarrow> bool" where
  "completion_valid e \<longleftrightarrow>
     \<not> blank (co_id e) \<and> \<not> blank (co_at e) \<and> \<not> blank (co_invocationId e)
     \<and> filled (co_provider e) \<and> filled (co_model e) \<and> filled (co_reasoningEffort e)
     \<and> filled (co_failureCode e)
     \<and> list_all number_metric
         [co_turns e, mu_inputTokens (co_usage e), mu_cachedInputTokens (co_usage e),
          mu_outputTokens (co_usage e), mu_reasoningTokens (co_usage e),
          mx_initialTokens (co_context e), mx_peakTokens (co_context e), co_largestToolResultBytes e]
     \<and> absent_or (\<lambda>c. \<not> blank (mc_source c)
          \<and> is_metric_observation (\<lambda>s. \<not> blank s) (mc_revision c)
          \<and> filled (mc_unverifiedReason c)) (co_capability e)"

fun is_run_telemetry_event :: "telemetry_event \<Rightarrow> bool" where
  "is_run_telemetry_event (Spawn e) = spawn_valid e"
| "is_run_telemetry_event (Wait_status_wakeup e) = wait_valid e"
| "is_run_telemetry_event (Completion e) = completion_valid e"

definition is_run_telemetry :: "run_telemetry \<Rightarrow> bool" where
  "is_run_telemetry t \<longleftrightarrow>
     tel_revision t = RUN_TELEMETRY_REVISION \<and> thresholds_valid (tel_thresholds t)
     \<and> list_all is_run_telemetry_event (tel_events t)"

section \<open>Aggregation\<close>

fun metric_value :: "'a metric \<Rightarrow> 'a option" where
  "metric_value (Observed v) = Some v"
| "metric_value (Partial v _ _ _) = Some v"
| "metric_value (Unobserved _) = None"

definition aggregate_numbers :: "int metric list \<Rightarrow> string \<Rightarrow> int metric" where
  "aggregate_numbers os reason =
     (let vs = List.map_filter metric_value os in
      if os = [] \<or> vs = [] then Unobserved reason
      else if length vs = length os then Observed (sum_list vs)
      else Partial (sum_list vs) (length vs) (length os) ''some-provider-usage-is-missing'')"

definition aggregate_max :: "int metric list \<Rightarrow> string \<Rightarrow> string \<Rightarrow> int metric" where
  "aggregate_max os reason partial_reason =
     (let vs = List.map_filter metric_value os in
      if os = [] \<or> vs = [] then Unobserved reason
      else if length vs = length os then Observed (Max (set vs))
      else Partial (Max (set vs)) (length vs) (length os) partial_reason)"

definition first_observed :: "int metric list \<Rightarrow> string \<Rightarrow> int metric" where
  "first_observed os reason =
     (case os of
        [] \<Rightarrow> Unobserved reason
      | Unobserved _ # _ \<Rightarrow> Unobserved reason
      | m # _ \<Rightarrow> m)"

definition percentage :: "int metric \<Rightarrow> int metric \<Rightarrow> rat metric" where
  "percentage input cached =
     (case (input, cached) of
        (Observed i, Observed c) \<Rightarrow>
          if i \<le> 0 then Unobserved ''cached-input-percentage-requires-observed-input-and-cached-totals''
          else if i < c then Unobserved ''cached-input-exceeds-input-total''
          else Observed (of_int c / of_int i * 100)
      | _ \<Rightarrow> Unobserved ''cached-input-percentage-requires-observed-input-and-cached-totals'')"

section \<open>Counting\<close>

fun spawns_of :: "telemetry_event list \<Rightarrow> spawn_event list" where
  "spawns_of [] = []"
| "spawns_of (Spawn e # es) = e # spawns_of es"
| "spawns_of (_ # es) = spawns_of es"

fun completions_of :: "telemetry_event list \<Rightarrow> completion_event list" where
  "completions_of [] = []"
| "completions_of (Completion e # es) = e # completions_of es"
| "completions_of (_ # es) = completions_of es"

fun waits_of :: "telemetry_event list \<Rightarrow> wait_event list" where
  "waits_of [] = []"
| "waits_of (Wait_status_wakeup e # es) = e # waits_of es"
| "waits_of (_ # es) = waits_of es"

definition is_restart :: "spawn_event \<Rightarrow> bool" where
  "is_restart e \<longleftrightarrow> 1 < sp_attempt e \<or> sp_attemptKind e \<in> {K_resume, K_repair, K_review_restart}"

definition count_spawn :: "telemetry_event list \<Rightarrow> telemetry_role \<Rightarrow> bool \<Rightarrow> nat" where
  "count_spawn es role restarts_only =
     length (filter (\<lambda>e. sp_role e = role \<and> (\<not> restarts_only \<or> is_restart e)) (spawns_of es))"

definition head_text :: "string option \<Rightarrow> string" where
  "head_text h = (case h of None \<Rightarrow> ''no-head'' | Some s \<Rightarrow> s)"

definition scope_key :: "telemetry_role \<Rightarrow> string option \<Rightarrow> string" where
  "scope_key role head = role_name role @ '':'' @ head_text head"

text \<open>What the last completion of a scope was: \<open>Some True\<close> when a model ran and failed.\<close>

definition prior_outcome :: "completion_outcome \<Rightarrow> bool option" where
  "prior_outcome o' =
     (case o' of Outcome_failed \<Rightarrow> Some True | Configuration_preflight_failed \<Rightarrow> Some False
      | Completed \<Rightarrow> None)"

fun retries_from ::
  "telemetry_event list \<Rightarrow> (string \<rightharpoonup> bool option) \<Rightarrow> telemetry_event list \<Rightarrow> nat" where
  "retries_from all prior [] = 0"
| "retries_from all prior (Spawn e # es) =
     (if 1 < sp_attempt e \<and> prior (scope_key (sp_role e) (sp_headSha e)) = Some (Some True) then 1 else 0)
     + retries_from all prior es"
| "retries_from all prior (Completion e # es) =
     (case find (\<lambda>s. sp_invocationId s = co_invocationId e) (spawns_of all) of
        None \<Rightarrow> retries_from all prior es
      | Some s \<Rightarrow>
          retries_from all
            (prior(scope_key (sp_role s) (sp_headSha s) \<mapsto> prior_outcome (co_outcome e))) es)"
| "retries_from all prior (Wait_status_wakeup e # es) = retries_from all prior es"

definition count_executed_retries :: "telemetry_event list \<Rightarrow> nat" where
  "count_executed_retries es = retries_from es (\<lambda>_. None) es"

section \<open>Metrics\<close>

record efficiency_metrics =
  em_modelTurns :: "int metric"
  em_inputTokens :: "int metric"
  em_cachedInputTokens :: "int metric"
  em_cachedInputPercent :: "rat metric"
  em_outputTokens :: "int metric"
  em_reasoningTokens :: "int metric"
  em_waitStatusWakeups :: "int metric"
  em_workerStarts :: "int metric"
  em_workerRestarts :: "int metric"
  em_reviewerStarts :: "int metric"
  em_reviewerRestarts :: "int metric"
  em_configurationPreflightFailures :: "int metric"
  em_executedModelFailures :: "int metric"
  em_executedModelRetries :: "int metric"
  em_spawnContextModes :: "(nat \<times> nat \<times> nat) option"
  em_contextInitialTokens :: "int metric"
  em_contextPeakTokens :: "int metric"
  em_largestToolResultBytes :: "int metric"
  em_validationDisposition :: "validation_status option"
  em_reviewDisposition :: "review_verdict option"
  em_runDisposition :: workflow_state

definition unknown_metrics :: "string \<Rightarrow> run \<Rightarrow> efficiency_metrics" where
  "unknown_metrics reason r =
     \<lparr>em_modelTurns = Unobserved reason, em_inputTokens = Unobserved reason,
      em_cachedInputTokens = Unobserved reason, em_cachedInputPercent = Unobserved reason,
      em_outputTokens = Unobserved reason, em_reasoningTokens = Unobserved reason,
      em_waitStatusWakeups = Unobserved reason, em_workerStarts = Unobserved reason,
      em_workerRestarts = Unobserved reason, em_reviewerStarts = Unobserved reason,
      em_reviewerRestarts = Unobserved reason, em_configurationPreflightFailures = Unobserved reason,
      em_executedModelFailures = Unobserved reason, em_executedModelRetries = Unobserved reason,
      em_spawnContextModes = None, em_contextInitialTokens = Unobserved reason,
      em_contextPeakTokens = Unobserved reason, em_largestToolResultBytes = Unobserved reason,
      em_validationDisposition = map_option v_status (run_validationResult r),
      em_reviewDisposition = map_option r_verdict (run_reviewResult r),
      em_runDisposition = run_state r\<rparr>"

definition observed_count :: "nat \<Rightarrow> int metric" where
  "observed_count n = Observed (int n)"

definition context_modes :: "telemetry_event list \<Rightarrow> nat \<times> nat \<times> nat" where
  "context_modes es =
     (let n = \<lambda>m. length (filter (\<lambda>e. sp_contextMode e = m) (spawns_of es)) in
      (n Bounded, n Full, n Context_unknown))"

definition outcome_count :: "completion_event list \<Rightarrow> completion_outcome \<Rightarrow> int metric" where
  "outcome_count cs o' = observed_count (length (filter (\<lambda>e. co_outcome e = o') cs))"

definition recorded_metrics :: "run \<Rightarrow> telemetry_event list \<Rightarrow> efficiency_metrics" where
  "recorded_metrics r es =
     (let cs = completions_of es;
          input = aggregate_numbers (map (\<lambda>e. mu_inputTokens (co_usage e)) cs)
            ''no-provider-input-token-observations'';
          cached = aggregate_numbers (map (\<lambda>e. mu_cachedInputTokens (co_usage e)) cs)
            ''no-provider-cached-input-token-observations'' in
      \<lparr>em_modelTurns = aggregate_numbers (map co_turns cs) ''no-provider-turn-observations'',
       em_inputTokens = input, em_cachedInputTokens = cached,
       em_cachedInputPercent = percentage input cached,
       em_outputTokens = aggregate_numbers (map (\<lambda>e. mu_outputTokens (co_usage e)) cs)
         ''no-provider-output-token-observations'',
       em_reasoningTokens = aggregate_numbers (map (\<lambda>e. mu_reasoningTokens (co_usage e)) cs)
         ''no-provider-reasoning-token-observations'',
       em_waitStatusWakeups = observed_count (length (waits_of es)),
       em_workerStarts = observed_count (count_spawn es Worker False),
       em_workerRestarts = observed_count (count_spawn es Worker True),
       em_reviewerStarts = observed_count (count_spawn es Reviewer False),
       em_reviewerRestarts = observed_count (count_spawn es Reviewer True),
       em_configurationPreflightFailures = outcome_count cs Configuration_preflight_failed,
       em_executedModelFailures = outcome_count cs Outcome_failed,
       em_executedModelRetries = observed_count (count_executed_retries es),
       em_spawnContextModes = Some (context_modes es),
       em_contextInitialTokens = first_observed (map (\<lambda>e. mx_initialTokens (co_context e)) cs)
         ''no-provider-context-observations'',
       em_contextPeakTokens = aggregate_max (map (\<lambda>e. mx_peakTokens (co_context e)) cs)
         ''no-provider-context-observations'' ''some-provider-context-is-missing'',
       em_largestToolResultBytes = aggregate_max (map co_largestToolResultBytes cs)
         ''no-provider-tool-result-observations'' ''some-provider-tool-result-observations-missing'',
       em_validationDisposition = map_option v_status (run_validationResult r),
       em_reviewDisposition = map_option r_verdict (run_reviewResult r),
       em_runDisposition = run_state r\<rparr>)"

section \<open>Invocations\<close>

record efficiency_invocation =
  ei_spawn :: spawn_event
  ei_provider :: "string option"
  ei_model :: "string option"
  ei_reasoningEffort :: "string option"
  ei_completion :: "completion_event option"

text \<open>The map of completions keeps the last one of an invocation.\<close>

definition completion_for :: "telemetry_event list \<Rightarrow> string \<Rightarrow> completion_event option" where
  "completion_for es i = find (\<lambda>e. co_invocationId e = i) (List.rev (completions_of es))"

definition project_invocations :: "telemetry_event list \<Rightarrow> efficiency_invocation list" where
  "project_invocations es =
     map (\<lambda>s. let c = completion_for es (sp_invocationId s) in
        \<lparr>ei_spawn = s,
         ei_provider = or_else (Option.bind c co_provider) (sp_provider s),
         ei_model = or_else (Option.bind c co_model) (sp_model s),
         ei_reasoningEffort = or_else (Option.bind c co_reasoningEffort) (sp_reasoningEffort s),
         ei_completion = c\<rparr>) (spawns_of es)"

section \<open>Signals\<close>

datatype efficiency_signal =
    Repeated_unchanged_state_wakeups string nat int
  | Reviewer_restarted_before_head_convergence string nat int
  | Unjustified_full_context_spawn string telemetry_role "string option"
  | Unusually_large_tool_result string int int
  | Repeated_configuration_preflight_failure int int
  | Abnormal_reviewer_restart_count int int

text \<open>A JavaScript \<open>Map\<close> of counters, in the order of first insertion.\<close>

fun bump :: "string \<Rightarrow> (string \<times> nat) list \<Rightarrow> (string \<times> nat) list" where
  "bump k [] = [(k, 1)]"
| "bump k ((l, n) # m) = (if k = l then (l, Suc n) # m else (l, n) # bump k m)"

definition count_keys :: "string list \<Rightarrow> (string \<times> nat) list" where
  "count_keys ks = foldl (\<lambda>m k. bump k m) [] ks"

definition wait_key :: "wait_event \<Rightarrow> string" where
  "wait_key e = we_state e @ '':'' @ head_text (we_headSha e)"

definition wait_signals :: "run_telemetry \<Rightarrow> efficiency_signal list" where
  "wait_signals t =
     (let limit = th_repeatedUnchangedStateWakeups (tel_thresholds t) in
      map (\<lambda>(k, n). Repeated_unchanged_state_wakeups k n limit)
        (filter (\<lambda>(k, n). limit \<le> int n) (count_keys (map wait_key (waits_of (tel_events t))))))"

definition reviewer_heads :: "run_telemetry \<Rightarrow> string list" where
  "reviewer_heads t =
     map (\<lambda>e. head_text (sp_headSha e)) (filter (\<lambda>e. sp_role e = Reviewer) (spawns_of (tel_events t)))"

definition reviewer_signals :: "run_telemetry \<Rightarrow> efficiency_signal list" where
  "reviewer_signals t =
     (let limit = th_reviewerStartsAtSameHead (tel_thresholds t) in
      map (\<lambda>(k, n). Reviewer_restarted_before_head_convergence k n limit)
        (filter (\<lambda>(k, n). limit \<le> int n) (count_keys (reviewer_heads t))))"

definition context_signals :: "run_telemetry \<Rightarrow> efficiency_signal list" where
  "context_signals t =
     map (\<lambda>e. Unjustified_full_context_spawn (sp_invocationId e) (sp_role e) (sp_headSha e))
       (filter (\<lambda>e. sp_contextMode e = Full \<and> sp_contextJustification e \<noteq> Some Operator_full_override)
         (spawns_of (tel_events t)))"

definition large_result :: "int \<Rightarrow> completion_event \<Rightarrow> efficiency_signal option" where
  "large_result limit e =
     (case co_largestToolResultBytes e of
        Observed n \<Rightarrow> if limit \<le> n then Some (Unusually_large_tool_result (co_invocationId e) n limit) else None
      | _ \<Rightarrow> None)"

definition count_signal :: "int metric \<Rightarrow> int \<Rightarrow> (int \<Rightarrow> int \<Rightarrow> efficiency_signal) \<Rightarrow> efficiency_signal list" where
  "count_signal m limit signal =
     (case m of Observed n \<Rightarrow> if limit \<le> n then [signal n limit] else [] | _ \<Rightarrow> [])"

text \<open>An unobserved number of restarts counts as none.\<close>

definition restart_count :: "int metric \<Rightarrow> int metric" where
  "restart_count m = (case m of Observed n \<Rightarrow> m | _ \<Rightarrow> Observed 0)"

definition evaluate_efficiency_signals ::
  "run_telemetry \<Rightarrow> efficiency_metrics \<Rightarrow> efficiency_signal list" where
  "evaluate_efficiency_signals t m =
     wait_signals t @ reviewer_signals t @ context_signals t
     @ List.map_filter (large_result (th_largeToolResultBytes (tel_thresholds t))) (completions_of (tel_events t))
     @ count_signal (em_configurationPreflightFailures m)
         (th_repeatedConfigurationPreflightFailures (tel_thresholds t)) Repeated_configuration_preflight_failure
     @ count_signal (restart_count (em_reviewerRestarts m)) (th_reviewerRestarts (tel_thresholds t))
         Abnormal_reviewer_restart_count"

record efficiency_projection =
  ep_recorded :: bool
  ep_coverage :: telemetry_coverage
  ep_invocations :: "efficiency_invocation list"
  ep_metrics :: efficiency_metrics
  ep_signals :: "efficiency_signal list"

definition covered_metrics :: "run \<Rightarrow> run_telemetry \<Rightarrow> efficiency_metrics" where
  "covered_metrics r t =
     (if tel_coverage t = Partial_coverage then unknown_metrics ''telemetry-started-mid-run'' r
      else recorded_metrics r (tel_events t))"

definition project_run_efficiency :: "run \<Rightarrow> efficiency_projection" where
  "project_run_efficiency r =
     (case run_telemetry r of
        None \<Rightarrow>
          \<lparr>ep_recorded = False, ep_coverage = Partial_coverage, ep_invocations = [],
           ep_metrics = unknown_metrics ''telemetry-not-recorded'' r, ep_signals = []\<rparr>
      | Some t \<Rightarrow>
          \<lparr>ep_recorded = True, ep_coverage = tel_coverage t,
           ep_invocations = project_invocations (tel_events t), ep_metrics = covered_metrics r t,
           ep_signals = evaluate_efficiency_signals t (covered_metrics r t)\<rparr>)"

section \<open>The completion a result gives\<close>

definition first_diagnostic_code :: "string list option \<Rightarrow> string option" where
  "first_diagnostic_code ds =
     (case ds of
        Some (d # _) \<Rightarrow> Some (trim (takeWhile (\<lambda>c. c \<noteq> CHR '':'') d))
      | _ \<Rightarrow> None)"

definition is_configuration_diagnostic :: "string option \<Rightarrow> bool" where
  "is_configuration_diagnostic s =
     present_and (\<lambda>v. starts_with v ''EXECUTION_CONFIG_INVALID_REASONING_EFFORT''
       \<or> starts_with v ''EXECUTION_CONFIG_UNSUPPORTED_MODEL_EFFORT'') s"

text \<open>\<open>createCompletionInputFromResult\<close>; the fallback is (provider, model, effort).\<close>

definition result_outcome ::
  "agent_exit_status \<Rightarrow> provider_telemetry option \<Rightarrow> string option \<Rightarrow> completion_outcome" where
  "result_outcome exit_status t code =
     (if exit_status = Success then Completed
      else if map_option fail_category (Option.bind t pt_failure) = Some Configuration_preflight
              \<or> is_configuration_diagnostic code
      then Configuration_preflight_failed else Outcome_failed)"

definition create_completion_input_from_result ::
  "agent_exit_status \<Rightarrow> string list option \<Rightarrow> provider_telemetry option \<Rightarrow>
   string option \<times> string option \<times> string option \<Rightarrow> telemetry_role \<Rightarrow> string \<Rightarrow> completion_input" where
  "create_completion_input_from_result exit_status diagnostics t fallback role invocation =
     (let code = or_else (map_option fail_code (Option.bind t pt_failure)) (first_diagnostic_code diagnostics);
          out = result_outcome exit_status t code in
      \<lparr>ci_role = role, ci_invocationId = invocation,
       ci_provider = or_else (map_option pt_provider t) (fst fallback),
       ci_model = or_else (Option.bind t pt_model) (fst (snd fallback)),
       ci_reasoningEffort = or_else (Option.bind t pt_reasoningEffort) (snd (snd fallback)),
       ci_outcome = out, ci_failureCode = code,
       ci_turns = or_else (Option.bind t pt_turns)
         (if out = Configuration_preflight_failed then Some 0 else None),
       ci_usage = Option.bind t pt_usage, ci_capability = Option.bind t pt_capability,
       ci_context = Option.bind t pt_context,
       ci_largestToolResultBytes = Option.bind t pt_largestToolResultBytes\<rparr>)"

section \<open>Counters\<close>

lemma map_of_bump: "map_of (bump k m) = (map_of m)(k \<mapsto> Suc (case map_of m k of None \<Rightarrow> 0 | Some n \<Rightarrow> n))"
  by (induction k m rule: bump.induct) (auto simp: fun_eq_iff)

lemma distinct_bump: "distinct (map fst m) \<Longrightarrow> distinct (map fst (bump k m))"
proof -
  have "set (map fst (bump k m)) = insert k (set (map fst m))" for m
    by (induction k m rule: bump.induct) auto
  then show "distinct (map fst m) \<Longrightarrow> distinct (map fst (bump k m))"
    by (induction k m rule: bump.induct) auto
qed

lemma count_keys_map:
  "distinct (map fst (count_keys ks)) \<and>
   map_of (count_keys ks) = (\<lambda>k. if k \<in> set ks then Some (count_list ks k) else None)"
  unfolding count_keys_def
proof (induction ks rule: rev_induct)
  case (snoc k ks)
  then show ?case
    by (auto simp: distinct_bump map_of_bump fun_eq_iff)
qed simp

lemma set_count_keys: "(k, n) \<in> set (count_keys ks) \<longleftrightarrow> 0 < n \<and> n = count_list ks k"
proof -
  have "(k, n) \<in> set (count_keys ks) \<longleftrightarrow> map_of (count_keys ks) k = Some n"
    using count_keys_map[of ks] map_of_eq_Some_iff by metis
  moreover have "k \<in> set ks \<longleftrightarrow> 0 < count_list ks k"
    by (metis count_list_0_iff gr0I less_irrefl)
  ultimately show ?thesis
    by (auto simp: conjunct2[OF count_keys_map])
qed

text \<open>The repetition signals are exact: a wait signal for a state and HEAD, or a reviewer
  signal for a HEAD, is raised with the number of its events exactly when that number reaches
  the threshold, however the events of different states and HEADs interleave.\<close>

theorem repetition_signals_exact:
  "(Repeated_unchanged_state_wakeups k n limit \<in> set (wait_signals t) \<longleftrightarrow>
      n = count_list (map wait_key (waits_of (tel_events t))) k \<and> 0 < n \<and>
      limit = th_repeatedUnchangedStateWakeups (tel_thresholds t) \<and> limit \<le> int n) \<and>
   (Reviewer_restarted_before_head_convergence k n limit \<in> set (reviewer_signals t) \<longleftrightarrow>
      n = count_list (reviewer_heads t) k \<and> 0 < n \<and>
      limit = th_reviewerStartsAtSameHead (tel_thresholds t) \<and> limit \<le> int n)"
  by (auto simp: wait_signals_def reviewer_signals_def set_count_keys image_iff Let_def)

section \<open>What is written can be read\<close>

text \<open>The writers of the ledger: every other change of a run leaves it alone.\<close>

datatype telemetry_write =
    Write_spawn spawn_input string
  | Write_completion completion_input string
  | Write_wait string
  | Write_wake wait_wake_input
  | Write_thresholds threshold_overrides

fun write_telemetry :: "run \<Rightarrow> telemetry_write \<Rightarrow> telemetry_error + run" where
  "write_telemetry r (Write_spawn i now) = Inr (fst (record_spawn_telemetry r i now))"
| "write_telemetry r (Write_completion i now) = Inr (record_completion_telemetry r i now)"
| "write_telemetry r (Write_wait now) = Inr (record_wait_telemetry r now)"
| "write_telemetry r (Write_wake i) = Inr (record_wait_wake_telemetry r i)"
| "write_telemetry r (Write_thresholds ov) = with_run_telemetry_thresholds r ov"

text \<open>What the callers supply: a time and identities that are not blank.\<close>

fun write_supplied :: "telemetry_write \<Rightarrow> bool" where
  "write_supplied (Write_spawn i now) = (\<not> blank now)"
| "write_supplied (Write_completion i now) =
     (\<not> blank now \<and> \<not> blank (ci_invocationId i) \<and> absent_or (\<lambda>c. \<not> blank (cap_source c)) (ci_capability i))"
| "write_supplied (Write_wait now) = (\<not> blank now)"
| "write_supplied (Write_wake i) =
     (\<not> blank (ww_at i) \<and> \<not> blank (ww_reason i) \<and> \<not> blank (ww_source i) \<and> \<not> blank (ww_subjectId i)
      \<and> \<not> blank (ww_status i) \<and> \<not> blank (ww_observationDigest i))"
| "write_supplied (Write_thresholds ov) = True"

text \<open>The run's telemetry can be read back, and its HEAD is absent or not blank.\<close>

definition telemetry_readable :: "run \<Rightarrow> bool" where
  "telemetry_readable r \<longleftrightarrow> absent_or is_run_telemetry (run_telemetry r) \<and> filled (run_headSha r)"

definition readable_with :: "nat \<Rightarrow> run \<Rightarrow> bool" where
  "readable_with n r \<longleftrightarrow> telemetry_readable r \<and> int (length (run_events r) + n) < 9007199254740991"

lemma filled_clean [simp]: "filled (clean v)"
  by (auto simp: clean_def split: option.splits)

lemma blank_Cons: "blank (c # s) \<longleftrightarrow> js_space c \<and> blank s"
  by (auto simp: blank_iff)

lemma blank_append [simp]: "blank (s @ t) \<longleftrightarrow> blank s \<and> blank t"
  by (auto simp: blank_iff)

lemma number_metric_numeric [simp]: "\<not> blank reason \<Longrightarrow> number_metric (numeric_metric v reason)"
  by (auto simp: numeric_metric_def split: option.splits)

lemma string_metric_ok [simp]: "\<not> blank reason \<Longrightarrow> is_metric_observation (\<lambda>s. \<not> blank s) (string_metric v reason)"
  by (auto simp: string_metric_def clean_def split: option.splits)

lemma fresh_telemetry_ok: "is_run_telemetry fresh_run_telemetry"
  by (simp add: is_run_telemetry_def fresh_run_telemetry_def thresholds_valid_def positive_limit_def
      DEFAULT_EFFICIENCY_THRESHOLDS_def RUN_TELEMETRY_THRESHOLD_REVISION_def is_safe_integer_def
      blank_iff js_space_def)

lemma existing_telemetry_ok: "telemetry_readable r \<Longrightarrow> is_run_telemetry (existing_telemetry r)"
  using fresh_telemetry_ok
  by (auto simp: telemetry_readable_def existing_telemetry_def is_run_telemetry_def split: option.splits)

lemma append_readable:
  assumes "telemetry_readable r" and "list_all is_run_telemetry_event es"
  shows "telemetry_readable (append_run_telemetry_events r es)"
proof -
  have "list_all is_run_telemetry_event (fresh_events event_id seen es)" for seen
    using assms(2) fresh_events_subset[of event_id seen es] by (auto simp: list_all_iff)
  then show ?thesis
    using assms(1) existing_telemetry_ok[OF assms(1)]
    by (auto simp: append_run_telemetry_events_def Let_def telemetry_readable_def is_run_telemetry_def)
qed

lemma spawn_event_ok:
  assumes "\<not> blank now" and "readable_with (Suc n) r"
  shows "spawn_valid (next_spawn_event r i now)"
proof -
  have "length (scope_spawns role head es) \<le> length es" for role head es
    by (induction role head es rule: scope_spawns.induct) auto
  from this[of "si_role i" "clean (si_headSha i)" "run_events r"] assms show ?thesis
    by (simp add: spawn_valid_def next_spawn_event_def Let_def invocation_id_def blank_Cons js_space_def
        is_safe_integer_def readable_with_def)
qed

lemma completion_event_ok:
  "write_supplied (Write_completion i now) \<Longrightarrow> completion_valid (completion_event_of i now)"
  by (cases "ci_capability i")
     (simp_all add: completion_valid_def completion_event_of_def completion_metrics_def blank_Cons js_space_def)

lemma state_name_filled: "\<not> blank (state_name s)"
  by (cases s) (simp_all add: blank_Cons js_space_def)

lemma write_events_grow:
  "write_telemetry r w = Inr s \<Longrightarrow> length (run_events s) \<le> Suc (length (run_events r))"
proof -
  have app: "length (run_events (append_run_telemetry_events r [e])) \<le> Suc (length (run_events r))" for e
    by (simp add: telemetry_ledger.events_append)
  show "write_telemetry r w = Inr s \<Longrightarrow> length (run_events s) \<le> Suc (length (run_events r))"
  proof (cases w)
    case (Write_spawn i now)
    then show "write_telemetry r w = Inr s \<Longrightarrow> ?thesis"
      using app by (auto simp: record_spawn_telemetry_def Let_def split: option.splits)
  next
    case (Write_thresholds ov)
    then show "write_telemetry r w = Inr s \<Longrightarrow> ?thesis"
      by (auto simp: with_run_telemetry_thresholds_def create_run_telemetry_def Let_def run_events_def
          split: option.splits if_splits)
  qed (use app in \<open>auto simp: record_completion_telemetry_def record_wait_telemetry_def record_wait_wake_telemetry_def\<close>)
qed

lemma write_readable:
  assumes "readable_with (Suc n) r" and "write_supplied w" and "write_telemetry r w = Inr s"
  shows "readable_with n s"
proof -
  have r: "telemetry_readable r" and head: "filled (run_headSha r)"
    using assms(1) by (simp_all add: readable_with_def telemetry_readable_def)
  have "telemetry_readable s"
  proof (cases w)
    case (Write_spawn i now)
    with assms spawn_event_ok[OF _ assms(1), of now i] r show ?thesis
      by (auto simp: record_spawn_telemetry_def Let_def append_readable split: option.splits)
  next
    case (Write_completion i now)
    with assms r completion_event_ok[of i now] show ?thesis
      by (simp add: record_completion_telemetry_def) (use append_readable in force)
  next
    case (Write_wait now)
    with assms r head state_name_filled show ?thesis
      by (auto simp: record_wait_telemetry_def wait_valid_def blank_Cons js_space_def intro!: append_readable)
  next
    case (Write_wake i)
    with assms r head state_name_filled show ?thesis
      by (auto simp: record_wait_wake_telemetry_def wait_valid_def blank_Cons js_space_def intro!: append_readable)
  next
    case (Write_thresholds ov)
    with assms r show ?thesis
      by (auto simp: with_run_telemetry_thresholds_def create_run_telemetry_def Let_def telemetry_readable_def
          is_run_telemetry_def split: option.splits if_splits)
  qed
  with assms write_events_grow[OF assms(3)] show ?thesis
    by (simp add: readable_with_def)
qed

text \<open>What the program records it can read: after any sequence of spawns, completions, waits,
  wakes and changes of thresholds, in any order, from a run whose ledger is readable or that
  has none, the ledger passes the validator of the store.\<close>

theorem recorded_telemetry_is_readable:
  assumes "telemetry_readable r" and "list_all write_supplied ws"
    and "int (length (run_events r) + length ws) < 9007199254740991"
  shows "telemetry_readable (foldl (settle write_telemetry) r ws)"
  using assms
proof -
  have "readable_with (length ws) r"
    using assms(1,3) by (simp add: readable_with_def)
  then have "readable_with 0 (foldl (settle write_telemetry) r ws)"
    using assms(2)
  proof (induction ws arbitrary: r)
    case (Cons w ws)
    have "readable_with (length ws) (settle write_telemetry r w)"
      using Cons.prems write_readable[of "length ws" r w]
      by (auto simp: settle_def readable_with_def split: sum.splits)
    with Cons show ?case by simp
  qed simp
  then show ?thesis
    by (simp add: readable_with_def)
qed

theorem recorded_telemetry_is_readable_witness:
  "telemetry_readable (foldl (settle write_telemetry) sample_run
     [Write_wait ''t1'', Write_thresholds no_overrides, Write_wait ''t2''])"
proof (rule recorded_telemetry_is_readable)
  show "telemetry_readable sample_run"
    using fresh_telemetry_ok by (simp add: telemetry_readable_def sample_run_def create_run_def)
qed (simp_all add: sample_run_events blank_Cons js_space_def)

end
