(* ===== verification/Json_Text.thy ===== *)
theory Json_Text
  imports Interfaces
begin

text \<open>
  JSON text, as \<open>JSON.stringify\<close> writes it and \<open>JSON.parse\<close> reads it, for the values the
  program exchanges as text: integers, strings of code units below 256, arrays and objects.
  A number that is not an integer is read as \<open>JFraction\<close> and never written. Keys that look
  like array indexes, which an object would list first, do not occur.
\<close>

section \<open>Writing\<close>

definition hex_digit :: "nat \<Rightarrow> char" where
  "hex_digit d = ''0123456789abcdef'' ! d"

text \<open>The escapes of \<open>JSON.stringify\<close>; every other code unit is written as it is.\<close>

definition escape_char :: "char \<Rightarrow> string" where
  "escape_char c =
     (if c = CHR 0x22 then [CHR 0x5C, CHR 0x22]
      else if c = CHR 0x5C then [CHR 0x5C, CHR 0x5C]
      else if c = CHR 0x08 then [CHR 0x5C, CHR ''b'']
      else if c = CHR 0x0C then [CHR 0x5C, CHR ''f'']
      else if c = CHR 0x0A then [CHR 0x5C, CHR ''n'']
      else if c = CHR 0x0D then [CHR 0x5C, CHR ''r'']
      else if c = CHR 0x09 then [CHR 0x5C, CHR ''t'']
      else if (of_char c :: nat) < 32
      then CHR 0x5C # ''u00'' @ [hex_digit (of_char c div 16), hex_digit (of_char c mod 16)]
      else [c])"

definition quoted :: "string \<Rightarrow> string" where
  "quoted s = CHR 0x22 # concat (map escape_char s) @ [CHR 0x22]"

definition int_text :: "int \<Rightarrow> string" where
  "int_text n = (if n < 0 then CHR ''-'' # nat_str (nat (- n)) else nat_str (nat n))"

fun join :: "string \<Rightarrow> string list \<Rightarrow> string" where
  "join sep [] = []"
| "join sep [x] = x"
| "join sep (x # y # xs) = x @ sep @ join sep (y # xs)"

text \<open>
  \<open>nl n\<close> is the line break and indentation at depth \<open>n\<close>, and \<open>col\<close> follows a key: the
  two layouts of \<open>JSON.stringify\<close>, without and with a gap.
\<close>

fun layout :: "(nat \<Rightarrow> string) \<Rightarrow> string \<Rightarrow> nat \<Rightarrow> json \<Rightarrow> string" where
  "layout nl col n JNull = ''null''"
| "layout nl col n (JBool b) = (if b then ''true'' else ''false'')"
| "layout nl col n (JNumber i) = int_text i"
| "layout nl col n JFraction = []"
| "layout nl col n (JString s) = quoted s"
| "layout nl col n (JArray xs) =
     (if xs = [] then ''[]''
      else ''['' @ nl (Suc n) @ join ('','' @ nl (Suc n)) (map (layout nl col (Suc n)) xs) @
           nl n @ '']'')"
| "layout nl col n (JObject ms) =
     (if ms = [] then ''{}''
      else ''{'' @ nl (Suc n) @
           join ('','' @ nl (Suc n))
             (map (\<lambda>m. quoted (fst m) @ col @ layout nl col (Suc n) (snd m)) ms) @
           nl n @ ''}'')"

definition json_text :: "json \<Rightarrow> string" where
  "json_text v = layout (\<lambda>n. []) '':'' 0 v"

definition json_text_2 :: "json \<Rightarrow> string" where
  "json_text_2 v = layout (\<lambda>n. CHR 0x0A # replicate (2 * n) CHR '' '') '': '' 0 v"

section \<open>Reading\<close>

definition json_space :: "char \<Rightarrow> bool" where
  "json_space c \<longleftrightarrow> c \<in> {CHR 0x20, CHR 0x09, CHR 0x0A, CHR 0x0D}"

definition skip :: "string \<Rightarrow> string" where
  "skip s = dropWhile json_space s"

definition hex_value :: "char \<Rightarrow> nat option" where
  "hex_value c =
     (let n = of_char c :: nat in
      if 48 \<le> n \<and> n \<le> 57 then Some (n - 48)
      else if 97 \<le> n \<and> n \<le> 102 then Some (n - 87)
      else if 65 \<le> n \<and> n \<le> 70 then Some (n - 55) else None)"

definition simple_escape :: "char \<Rightarrow> char option" where
  "simple_escape c =
     map_of [(CHR 0x22, CHR 0x22), (CHR 0x5C, CHR 0x5C), (CHR ''/'', CHR ''/''),
             (CHR ''b'', CHR 0x08), (CHR ''f'', CHR 0x0C), (CHR ''n'', CHR 0x0A),
             (CHR ''r'', CHR 0x0D), (CHR ''t'', CHR 0x09)] c"

text \<open>Only escapes of code units below 256 can be represented.\<close>

definition unicode_escape :: "char \<Rightarrow> char \<Rightarrow> char \<Rightarrow> char \<Rightarrow> char option" where
  "unicode_escape a b c d =
     (if hex_value a = Some 0 \<and> hex_value b = Some 0
      then case (hex_value c, hex_value d) of
             (Some x, Some y) \<Rightarrow> Some (char_of (16 * x + y)) | _ \<Rightarrow> None
      else None)"

fun read_string :: "string \<Rightarrow> (string \<times> string) option" where
  "read_string [] = None"
| "read_string (c # s) =
     (if c = CHR 0x22 then Some ([], s)
      else if c = CHR 0x5C then
        (case s of
           [] \<Rightarrow> None
         | e # t \<Rightarrow>
             if e = CHR ''u'' then
               (case t of
                  a # b # x # y # t' \<Rightarrow>
                    (case (unicode_escape a b x y, read_string t') of
                       (Some k, Some (u, r)) \<Rightarrow> Some (k # u, r) | _ \<Rightarrow> None)
                | _ \<Rightarrow> None)
             else
               (case (simple_escape e, read_string t) of
                  (Some k, Some (u, r)) \<Rightarrow> Some (k # u, r) | _ \<Rightarrow> None))
      else if (of_char c :: nat) < 32 then None
      else map_option (\<lambda>(u, r). (c # u, r)) (read_string s))"

definition is_digit :: "char \<Rightarrow> bool" where
  "is_digit c \<longleftrightarrow> (48::nat) \<le> of_char c \<and> (of_char c :: nat) \<le> 57"

definition digits_value :: "string \<Rightarrow> nat" where
  "digits_value s = foldl (\<lambda>n c. 10 * n + (of_char c - 48)) 0 s"

text \<open>The optional fraction: its digits, or \<open>None\<close> when a point has no digit after it.\<close>

definition read_fraction :: "string \<Rightarrow> (string \<times> string) option" where
  "read_fraction s =
     (case s of
        [] \<Rightarrow> Some ([], s)
      | c # t \<Rightarrow>
          if c \<noteq> CHR ''.'' then Some ([], s)
          else if takeWhile is_digit t = [] then None
          else Some (takeWhile is_digit t, dropWhile is_digit t))"

definition exponent_digits :: "bool \<Rightarrow> string \<Rightarrow> (int \<times> string) option" where
  "exponent_digits negative t =
     (if takeWhile is_digit t = [] then None
      else Some ((if negative then - int (digits_value (takeWhile is_digit t))
                  else int (digits_value (takeWhile is_digit t))), dropWhile is_digit t))"

definition read_exponent :: "string \<Rightarrow> (int \<times> string) option" where
  "read_exponent s =
     (case s of
        c # t \<Rightarrow>
          (if c = CHR ''e'' \<or> c = CHR ''E'' then
             (case t of
                d # u \<Rightarrow>
                  if d = CHR ''-'' then exponent_digits True u
                  else if d = CHR ''+'' then exponent_digits False u
                  else exponent_digits False t
              | [] \<Rightarrow> None)
           else Some (0, s))
      | [] \<Rightarrow> Some (0, s))"

text \<open>The value of \<open>m * 10 ^ e\<close> with sign.\<close>

definition decimal_value :: "bool \<Rightarrow> nat \<Rightarrow> int \<Rightarrow> json" where
  "decimal_value negative m e =
     (let s = (if negative then -1 else 1 :: int) in
      if 0 \<le> e then JNumber (s * int m * 10 ^ nat e)
      else if int m mod 10 ^ nat (- e) = 0 then JNumber (s * (int m div 10 ^ nat (- e)))
      else JFraction)"

definition read_unsigned :: "bool \<Rightarrow> string \<Rightarrow> (json \<times> string) option" where
  "read_unsigned negative s =
     (let whole = takeWhile is_digit s in
      if whole = [] \<or> (length whole > 1 \<and> hd whole = CHR ''0'') then None
      else case read_fraction (dropWhile is_digit s) of
        None \<Rightarrow> None
      | Some (frac, t) \<Rightarrow>
          (case read_exponent t of
             None \<Rightarrow> None
           | Some (e, r) \<Rightarrow>
               Some (decimal_value negative (digits_value (whole @ frac)) (e - int (length frac)), r)))"

definition read_number :: "string \<Rightarrow> (json \<times> string) option" where
  "read_number s =
     (case s of
        c # t \<Rightarrow> if c = CHR ''-'' then read_unsigned True t else read_unsigned False s
      | [] \<Rightarrow> None)"

definition read_literal :: "string \<Rightarrow> json \<Rightarrow> string \<Rightarrow> (json \<times> string) option" where
  "read_literal l v s = (if starts_with s l then Some (v, drop (length l) s) else None)"

text \<open>A later member replaces the value of an earlier one with its key.\<close>

fun put_member :: "string \<Rightarrow> json \<Rightarrow> (string \<times> json) list \<Rightarrow> (string \<times> json) list" where
  "put_member k v [] = [(k, v)]"
| "put_member k v ((l, w) # ms) = (if l = k then (l, v) # ms else (l, w) # put_member k v ms)"

definition object_of :: "(string \<times> json) list \<Rightarrow> json" where
  "object_of ms = JObject (foldl (\<lambda>os m. put_member (fst m) (snd m) os) [] ms)"

text \<open>A quoted key and the colon after it.\<close>

definition read_key :: "string \<Rightarrow> (string \<times> string) option" where
  "read_key s =
     (if \<not> starts_with (skip s) [CHR 0x22] then None
      else case read_string (tl (skip s)) of
        None \<Rightarrow> None
      | Some (k, r) \<Rightarrow> if starts_with (skip r) '':'' then Some (k, tl (skip r)) else None)"

text \<open>
  The recursive descent. The first argument bounds the nesting; the length of the text is
  always enough, since every level consumes a character.
\<close>

fun read_value :: "nat \<Rightarrow> string \<Rightarrow> (json \<times> string) option"
  and read_items :: "nat \<Rightarrow> string \<Rightarrow> (json list \<times> string) option"
  and read_members :: "nat \<Rightarrow> string \<Rightarrow> ((string \<times> json) list \<times> string) option"
where
  "read_value 0 s = None"
| "read_value (Suc f) s =
     (case skip s of
        [] \<Rightarrow> None
      | c # t \<Rightarrow>
          if c = CHR 0x22 then map_option (\<lambda>(u, r). (JString u, r)) (read_string t)
          else if c = CHR ''['' then
            (if starts_with (skip t) '']'' then Some (JArray [], tl (skip t))
             else map_option (\<lambda>(xs, r). (JArray xs, r)) (read_items f t))
          else if c = CHR ''{'' then
            (if starts_with (skip t) ''}'' then Some (JObject [], tl (skip t))
             else map_option (\<lambda>(ms, r). (object_of ms, r)) (read_members f t))
          else if c = CHR ''n'' then read_literal ''null'' JNull (c # t)
          else if c = CHR ''t'' then read_literal ''true'' (JBool True) (c # t)
          else if c = CHR ''f'' then read_literal ''false'' (JBool False) (c # t)
          else read_number (c # t))"
| "read_items 0 s = None"
| "read_items (Suc f) s =
     (case read_value f s of
        None \<Rightarrow> None
      | Some (v, r) \<Rightarrow>
          (case skip r of
             [] \<Rightarrow> None
           | c # t \<Rightarrow>
               if c = CHR '','' then map_option (\<lambda>(vs, u). (v # vs, u)) (read_items f t)
               else if c = CHR '']'' then Some ([v], t) else None))"
| "read_members 0 s = None"
| "read_members (Suc f) s =
     (case read_key s of
        None \<Rightarrow> None
      | Some (k, u) \<Rightarrow>
          (case read_value f u of
             None \<Rightarrow> None
           | Some (v, w) \<Rightarrow>
               (case skip w of
                  [] \<Rightarrow> None
                | c # x \<Rightarrow>
                    if c = CHR '','' then map_option (\<lambda>(ms, y). ((k, v) # ms, y)) (read_members f x)
                    else if c = CHR ''}'' then Some ([(k, v)], x) else None)))"

definition json_parse :: "string \<Rightarrow> json option" where
  "json_parse s =
     (case read_value (Suc (length s)) s of
        None \<Rightarrow> None
      | Some (v, r) \<Rightarrow> if skip r = [] then Some v else None)"

section \<open>Reading what was written\<close>

lemma hex_digits: "\<forall>n \<in> set [0..<16]. hex_value (hex_digit n) = Some n"
  by code_simp

lemma hex_value_digit: "n < 16 \<Longrightarrow> hex_value (hex_digit n) = Some n"
  using hex_digits by simp

lemma read_string_escape:
  "read_string (escape_char c @ t) = map_option (\<lambda>(u, r). (c # u, r)) (read_string t)"
proof -
  let ?n = "of_char c :: nat"
  have u: "unicode_escape CHR ''0'' CHR ''0'' (hex_digit (?n div 16)) (hex_digit (?n mod 16)) = Some c"
    if "?n < 32"
  proof -
    have "char_of (16 * (?n div 16) + ?n mod 16) = c"
      by (simp only: mult_div_mod_eq char_of_char)
    moreover have "hex_value CHR ''0'' = Some 0" by code_simp
    ultimately show ?thesis
      using that by (simp add: unicode_escape_def hex_value_digit)
  qed
  show ?thesis
    using u
    by (cases "read_string t") (auto simp: escape_char_def simple_escape_def)
qed

lemma read_string_quoted:
  "read_string (concat (map escape_char s) @ CHR 0x22 # r) = Some (s, r)"
  by (induction s) (simp_all add: read_string_escape)

lemma digit_chars: "\<forall>d \<in> set [0..<10]. is_digit (digit_char d) \<and> (of_char (digit_char d) :: nat) - 48 = d"
  by code_simp

lemma nat_str_digits: "\<forall>c \<in> set (nat_str n). is_digit c"
proof (induction n rule: nat_str.induct)
  case (1 n)
  show ?case
  proof (cases "n < 10")
    case True
    then show ?thesis using digit_chars by (subst nat_str.simps) simp
  next
    case False
    with 1 digit_chars show ?thesis by (subst nat_str.simps) auto
  qed
qed

lemma digits_value_snoc: "digits_value (s @ [c]) = 10 * digits_value s + (of_char c - 48)"
  by (simp add: digits_value_def)

lemma digits_value_nat_str: "digits_value (nat_str n) = n"
proof (induction n rule: nat_str.induct)
  case (1 n)
  show ?case
  proof (cases "n < 10")
    case True
    then show ?thesis using digit_chars by (subst nat_str.simps) (simp add: digits_value_def)
  next
    case False
    with 1 digit_chars show ?thesis
      by (subst nat_str.simps) (simp add: digits_value_snoc)
  qed
qed

lemma digit_char_zero: "\<forall>d \<in> set [0..<10]. digit_char d = CHR ''0'' \<longrightarrow> d = 0"
  by code_simp

lemma nat_str_hd: "length (nat_str n) > 1 \<Longrightarrow> hd (nat_str n) \<noteq> CHR ''0''"
proof (induction n rule: nat_str.induct)
  case (1 n)
  show ?case
  proof (cases "n < 10")
    case True
    with "1.prems" show ?thesis by (subst (asm) nat_str.simps) simp
  next
    case False
    have eq: "nat_str n = nat_str (n div 10) @ [digit_char (n mod 10)]"
      using False by (subst nat_str.simps) simp
    have "hd (nat_str (n div 10)) \<noteq> CHR ''0''"
    proof (cases "length (nat_str (n div 10)) > 1")
      case True
      with 1 False show ?thesis by blast
    next
      case short: False
      have "n div 10 < 10"
      proof (rule ccontr)
        assume "\<not> n div 10 < 10"
        then have "nat_str (n div 10) = nat_str (n div 10 div 10) @ [digit_char (n div 10 mod 10)]"
          by (subst nat_str.simps) simp
        with short show False by (cases "nat_str (n div 10 div 10)") simp_all
      qed
      moreover from False have "n div 10 \<noteq> 0" by simp
      ultimately show ?thesis using digit_char_zero by (subst nat_str.simps) auto
    qed
    then show ?thesis unfolding eq by simp
  qed
qed

text \<open>What may follow a value: not a character that would continue a number.\<close>

definition ends_number :: "string \<Rightarrow> bool" where
  "ends_number r \<longleftrightarrow>
     (case r of [] \<Rightarrow> True
      | c # _ \<Rightarrow> \<not> is_digit c \<and> c \<noteq> CHR ''.'' \<and> c \<noteq> CHR ''e'' \<and> c \<noteq> CHR ''E'')"

lemma takeWhile_digits:
  assumes "\<forall>c \<in> set s. is_digit c" and "ends_number r"
  shows "takeWhile is_digit (s @ r) = s" and "dropWhile is_digit (s @ r) = r"
  using assms by (cases r; auto simp: ends_number_def)+

lemma fraction_end: "ends_number r \<Longrightarrow> read_fraction r = Some ([], r)"
  by (cases r) (auto simp: read_fraction_def ends_number_def)

lemma exponent_end: "ends_number r \<Longrightarrow> read_exponent r = Some (0, r)"
  by (cases r) (auto simp: read_exponent_def ends_number_def)

lemma read_unsigned_nat:
  assumes "ends_number r"
  shows "read_unsigned neg (nat_str n @ r) = Some (JNumber ((if neg then -1 else 1) * int n), r)"
  using takeWhile_digits[OF nat_str_digits assms] nat_str_hd[of n]
  by (auto simp: read_unsigned_def Let_def fraction_end[OF assms] exponent_end[OF assms]
      decimal_value_def digits_value_nat_str)

lemma minus_not_digit: "\<not> is_digit CHR ''-''"
  by code_simp

lemma read_number_int:
  assumes "ends_number r"
  shows "read_number (int_text i @ r) = Some (JNumber i, r)"
proof (cases "i < 0")
  case True
  then show ?thesis by (simp add: read_number_def int_text_def read_unsigned_nat[OF assms])
next
  case False
  obtain c s where cs: "nat_str (nat i) = c # s" by (cases "nat_str (nat i)") auto
  with nat_str_digits[of "nat i"] have "is_digit c" by simp
  with minus_not_digit have "c \<noteq> CHR ''-''" by auto
  with False cs read_unsigned_nat[OF assms, of False "nat i"] show ?thesis
    by (simp add: read_number_def int_text_def)
qed

text \<open>The values that are written: no fraction, and each key of an object once.\<close>

fun printable :: "json \<Rightarrow> bool" where
  "printable JFraction = False"
| "printable (JArray xs) = list_all printable xs"
| "printable (JObject ms) = (distinct (map fst ms) \<and> list_all (\<lambda>m. printable (snd m)) ms)"
| "printable _ = True"

lemma put_member_fresh: "k \<notin> set (map fst ms) \<Longrightarrow> put_member k v ms = ms @ [(k, v)]"
  by (induction ms) auto

lemma foldl_put:
  "distinct (map fst (os @ ms)) \<Longrightarrow> foldl (\<lambda>os m. put_member (fst m) (snd m) os) os ms = os @ ms"
proof (induction ms arbitrary: os)
  case (Cons m ms)
  then have "put_member (fst m) (snd m) os = os @ [m]" by (simp add: put_member_fresh)
  with Cons show ?case by simp
qed simp

lemma object_of_distinct: "distinct (map fst ms) \<Longrightarrow> object_of ms = JObject ms"
  using foldl_put[of "[]" ms] by (simp add: object_of_def)

text \<open>A layout breaks lines with white space only, and writes a colon after a key.\<close>

definition white :: "string \<Rightarrow> bool" where
  "white s \<longleftrightarrow> (\<forall>c \<in> set s. json_space c)"

lemma skip_white [simp]: "white w \<Longrightarrow> skip (w @ s) = skip s"
  by (induction w) (auto simp: white_def skip_def)

lemma white_Nil [simp]: "white []" by (simp add: white_def)

definition starts_value :: "string \<Rightarrow> bool" where
  "starts_value s \<longleftrightarrow>
     (case s of [] \<Rightarrow> False
      | c # _ \<Rightarrow> \<not> json_space c \<and> c \<noteq> CHR '']'' \<and> c \<noteq> CHR ''}'')"

lemma skip_starts: "starts_value s \<Longrightarrow> skip (s @ r) = s @ r"
  by (cases s) (auto simp: starts_value_def skip_def)

lemma digit_starts: "is_digit c \<Longrightarrow> starts_value (c # s)"
  by (auto simp: starts_value_def is_digit_def json_space_def)

lemma int_text_starts: "starts_value (int_text i)"
proof (cases "i < 0")
  case False
  obtain c s where cs: "nat_str (nat i) = c # s" by (cases "nat_str (nat i)") auto
  with nat_str_digits[of "nat i"] have "is_digit c" by simp
  with False cs show ?thesis by (simp add: int_text_def digit_starts)
qed (simp add: int_text_def starts_value_def json_space_def)

lemma layout_starts: "printable v \<Longrightarrow> starts_value (layout nl col n v)"
  using int_text_starts
  by (cases v) (simp_all add: quoted_def starts_value_def json_space_def)

lemma starts_append: "starts_value s \<Longrightarrow> starts_value (s @ r)"
  by (cases s) (auto simp: starts_value_def)

definition punctuation :: "char \<Rightarrow> bool" where
  "punctuation c \<longleftrightarrow> c \<in> {CHR '','', CHR '']'', CHR ''}''}"

lemma space_ends: "json_space c \<Longrightarrow> ends_number (c # s)"
  by (auto simp: json_space_def ends_number_def is_digit_def)

lemma punctuation_ends: "punctuation c \<Longrightarrow> ends_number (c # s)"
  by (auto simp: punctuation_def ends_number_def is_digit_def)

lemma punctuation_not_space: "punctuation c \<Longrightarrow> \<not> json_space c"
  by (auto simp: punctuation_def json_space_def)

lemma ends_number_white: "white w \<Longrightarrow> punctuation c \<Longrightarrow> ends_number (w @ c # r)"
  by (cases w) (simp_all add: white_def space_ends punctuation_ends)

lemma skip_to: "white w \<Longrightarrow> \<not> json_space c \<Longrightarrow> skip (w @ c # r) = c # r"
  by (simp add: skip_white) (simp add: skip_def)

lemma skip_punctuation: "white w \<Longrightarrow> punctuation c \<Longrightarrow> skip (w @ c # r) = c # r"
  by (intro skip_to punctuation_not_space)

lemma read_items_join:
  assumes "\<And>x w r f. \<lbrakk>x \<in> set xs; white w; ends_number r; length (L x) \<le> f\<rbrakk> \<Longrightarrow>
      read_value f (w @ L x @ r) = Some (x, r)"
    and "xs \<noteq> []" and "white w" and "white sw" and "white ew"
    and "length (join ('','' @ sw) (map L xs)) < g"
  shows "read_items g (w @ join ('','' @ sw) (map L xs) @ ew @ CHR '']'' # r) = Some (xs, r)"
  using assms
proof (induction xs arbitrary: g w)
  case (Cons x xs)
  from Cons.prems(6) obtain f where g: "g = Suc f" by (cases g) auto
  show ?case
  proof (cases xs)
    case Nil
    have "read_value f (w @ L x @ ew @ CHR '']'' # r) = Some (x, ew @ CHR '']'' # r)"
      using Cons.prems(6) g Nil ends_number_white[OF Cons.prems(5), of "CHR '']''"]
      by (intro Cons.prems(1)[OF _ Cons.prems(3)]) (auto simp: punctuation_def)
    then show ?thesis
      using skip_punctuation[OF Cons.prems(5), of "CHR '']''" r] by (simp add: g Nil punctuation_def)
  next
    case (Cons y ys)
    let ?t = "join ('','' @ sw) (map L xs) @ ew @ CHR '']'' # r"
    have ne: "xs \<noteq> []" using Cons by simp
    have j: "join ('','' @ sw) (map L (x # xs)) = L x @ CHR '','' # sw @ join ('','' @ sw) (map L xs)"
      using Cons by simp
    have len: "length (L x) \<le> f" "length (join ('','' @ sw) (map L xs)) < f"
      using Cons.prems(6) g unfolding j by simp_all
    have v: "read_value f (w @ L x @ CHR '','' # sw @ ?t) = Some (x, CHR '','' # sw @ ?t)"
      using len(1) by (intro Cons.prems(1)[OF _ Cons.prems(3)]) (auto simp: ends_number_def is_digit_def)
    have i: "read_items f (sw @ ?t) = Some (xs, r)"
      using Cons.prems(1) by (intro Cons.IH) (use ne len(2) Cons.prems(4,5) in auto)
    show ?thesis
      unfolding j g using v i by (simp add: skip_def json_space_def)
  qed
qed simp

lemma read_key_quoted:
  assumes "white w"
  shows "read_key (w @ quoted k @ CHR '':'' # r) = Some (k, r)"
proof -
  have "skip (w @ quoted k @ CHR '':'' # r) =
      CHR 0x22 # concat (map escape_char k) @ CHR 0x22 # CHR '':'' # r"
    using skip_to[OF assms, of "CHR 0x22"] by (simp add: quoted_def json_space_def)
  moreover have "skip (CHR '':'' # r) = CHR '':'' # r"
    by (simp add: skip_def json_space_def)
  ultimately show ?thesis
    by (simp add: read_key_def read_string_quoted starts_with_def)
qed

lemma read_members_join:
  assumes "\<And>m w r f. \<lbrakk>m \<in> set ms; white w; ends_number r; length (L (snd m)) \<le> f\<rbrakk> \<Longrightarrow>
      read_value f (w @ L (snd m) @ r) = Some (snd m, r)"
    and "ms \<noteq> []" and "white w" and "white sw" and "white ew" and "white cw"
    and "length (join ('','' @ sw) (map (\<lambda>m. quoted (fst m) @ ('':'' @ cw) @ L (snd m)) ms)) < g"
  shows "read_members g (w @ join ('','' @ sw) (map (\<lambda>m. quoted (fst m) @ ('':'' @ cw) @ L (snd m)) ms) @
      ew @ CHR ''}'' # r) = Some (ms, r)"
  using assms
proof (induction ms arbitrary: g w)
  case (Cons m ms)
  let ?M = "\<lambda>m. quoted (fst m) @ ('':'' @ cw) @ L (snd m)"
  from Cons.prems(7) obtain f where g: "g = Suc f" by (cases g) auto
  have key: "read_key (w @ ?M m @ s) = Some (fst m, cw @ L (snd m) @ s)" for s
    using read_key_quoted[OF Cons.prems(3), of "fst m" "cw @ L (snd m) @ s"] by simp
  show ?case
  proof (cases ms)
    case Nil
    have "read_value f (cw @ L (snd m) @ ew @ CHR ''}'' # r) = Some (snd m, ew @ CHR ''}'' # r)"
      using Cons.prems(7) g Nil ends_number_white[OF Cons.prems(5), of "CHR ''}''"]
      by (intro Cons.prems(1)[OF _ Cons.prems(6)]) (auto simp: punctuation_def)
    then show ?thesis
      using skip_punctuation[OF Cons.prems(5), of "CHR ''}''" r] key[of "ew @ CHR ''}'' # r"]
      by (simp add: g Nil punctuation_def)
  next
    case (Cons y ys)
    let ?t = "join ('','' @ sw) (map ?M ms) @ ew @ CHR ''}'' # r"
    have ne: "ms \<noteq> []" using Cons by simp
    have j: "join ('','' @ sw) (map ?M (m # ms)) = ?M m @ CHR '','' # sw @ join ('','' @ sw) (map ?M ms)"
      using Cons by simp
    have len: "length (L (snd m)) \<le> f" "length (join ('','' @ sw) (map ?M ms)) < f"
      using Cons.prems(7) g unfolding j by simp_all
    have v: "read_value f (cw @ L (snd m) @ CHR '','' # sw @ ?t) = Some (snd m, CHR '','' # sw @ ?t)"
      using len(1) by (intro Cons.prems(1)[OF _ Cons.prems(6)]) (auto simp: ends_number_def is_digit_def)
    have i: "read_members f (sw @ ?t) = Some (ms, r)"
      using Cons.prems(1) by (intro Cons.IH) (use ne len(2) Cons.prems(4,5,6) in auto)
    show ?thesis
      unfolding j g using v i key[of "CHR '','' # sw @ ?t"] by (simp add: skip_def json_space_def)
  qed
qed simp

lemma layout_read:
  assumes "\<And>m. white (nl m)" and "col = '':'' @ cw" and "white cw"
    and "printable v" and "white w" and "ends_number r" and "length (layout nl col n v) \<le> f"
  shows "read_value f (w @ layout nl col n v @ r) = Some (v, r)"
  using assms(4-7)
proof (induction v arbitrary: n w r f)
  case (JNumber i)
  obtain c s where cs: "int_text i @ r = c # s"
    using int_text_starts[of i] by (cases "int_text i") (auto simp: starts_value_def)
  have sk: "skip (w @ int_text i @ r) = c # s"
    using skip_white[OF JNumber.prems(2)] skip_starts[OF int_text_starts] cs by metis
  have c: "c = CHR ''-'' \<or> is_digit c"
  proof (cases "i < 0")
    case True
    with cs show ?thesis by (simp add: int_text_def)
  next
    case False
    obtain d t where "nat_str (nat i) = d # t" by (cases "nat_str (nat i)") auto
    with nat_str_digits[of "nat i"] cs False show ?thesis by (simp add: int_text_def)
  qed
  then have "c \<notin> {CHR 0x22, CHR ''['', CHR ''{'', CHR ''n'', CHR ''t'', CHR ''f''}"
    by (auto simp: is_digit_def)
  moreover obtain g where "f = Suc g"
    using JNumber.prems(4) int_text_starts[of i] by (cases f) (auto simp: starts_value_def)
  ultimately show ?case
    using sk read_number_int[OF JNumber.prems(3), of i] cs by simp
next
  case (JString s)
  then obtain g where "f = Suc g" by (cases f) (auto simp: quoted_def)
  moreover have "skip (w @ quoted s @ r) = CHR 0x22 # concat (map escape_char s) @ CHR 0x22 # r"
    using skip_to[OF JString.prems(2), of "CHR 0x22"] by (simp add: quoted_def json_space_def)
  ultimately show ?case by (simp add: read_string_quoted)
next
  case (JArray xs)
  then obtain g where f: "f = Suc g" by (cases f) (auto split: if_splits)
  show ?case
  proof (cases "xs = []")
    case True
    then show ?thesis
      using skip_to[OF JArray.prems(2), of "CHR ''[''"] f
      by (simp add: json_space_def starts_with_def skip_def)
  next
    case False
    let ?L = "layout nl col (Suc n)" and ?sw = "nl (Suc n)"
    let ?t = "?sw @ join ('','' @ ?sw) (map ?L xs) @ nl n @ CHR '']'' # r"
    have items: "read_items g ?t = Some (xs, r)"
    proof (rule read_items_join[where L = ?L])
      show "read_value f' (w' @ ?L x @ r') = Some (x, r')"
        if "x \<in> set xs" "white w'" "ends_number r'" "length (?L x) \<le> f'" for x w' r' f'
        using JArray.IH[OF that(1) _ that(2-4)] JArray.prems(1) that(1) by (simp add: list_all_iff)
      show "length (join ('','' @ ?sw) (map ?L xs)) < g"
        using JArray.prems(4) f False by simp
    qed (use False assms(1) in auto)
    obtain x ys where xs: "xs = x # ys" using False by (cases xs) auto
    have st: "starts_value (join ('','' @ ?sw) (map ?L xs))"
      using layout_starts[of x nl col "Suc n"] JArray.prems(1)
      by (cases ys) (auto simp: xs starts_append)
    then have "\<not> starts_with (skip ?t) '']''"
      using skip_starts[OF st] assms(1) by (cases "join ('','' @ ?sw) (map ?L xs)")
        (auto simp: starts_value_def starts_with_def)
    then show ?thesis
      using skip_to[OF JArray.prems(2), of "CHR ''[''"] f items False
      by (simp add: json_space_def)
  qed
next
  case (JObject ms)
  then obtain g where f: "f = Suc g" by (cases f) (auto split: if_splits)
  show ?case
  proof (cases "ms = []")
    case True
    then show ?thesis
      using skip_to[OF JObject.prems(2), of "CHR ''{''"] f
      by (simp add: json_space_def starts_with_def skip_def)
  next
    case False
    let ?L = "layout nl col (Suc n)" and ?sw = "nl (Suc n)"
    let ?M = "\<lambda>m. quoted (fst m) @ ('':'' @ cw) @ ?L (snd m)"
    let ?t = "?sw @ join ('','' @ ?sw) (map ?M ms) @ nl n @ CHR ''}'' # r"
    have members: "read_members g ?t = Some (ms, r)"
    proof (rule read_members_join[where L = ?L])
      show "read_value f' (w' @ ?L (snd m) @ r') = Some (snd m, r')"
        if "m \<in> set ms" "white w'" "ends_number r'" "length (?L (snd m)) \<le> f'" for m w' r' f'
        using JObject.IH[OF that(1) _ _ that(2-4)] JObject.prems(1) that(1)
        by (cases m) (auto simp: list_all_iff)
      show "length (join ('','' @ ?sw) (map ?M ms)) < g"
        using JObject.prems(4) f False assms(2) by simp
    qed (use False assms(1,3) in auto)
    have "\<not> starts_with (skip ?t) ''}''"
    proof -
      obtain m ys where "ms = m # ys" using False by (cases ms) auto
      then obtain s where "join ('','' @ ?sw) (map ?M ms) = CHR 0x22 # s"
        by (cases ys) (auto simp: quoted_def)
      then show ?thesis
        using skip_to[OF assms(1), of "CHR 0x22" "Suc n"] by (simp add: json_space_def starts_with_def)
    qed
    then show ?thesis
      using skip_to[OF JObject.prems(2), of "CHR ''{''"] f members False JObject.prems(1) assms(2)
      by (simp add: json_space_def object_of_distinct)
  qed
next
  case JNull
  then obtain g where "f = Suc g" by (cases f) auto
  with JNull.prems(2) show ?case
    by (simp add: skip_to json_space_def read_literal_def starts_with_def del: skip_white)
next
  case (JBool b)
  then obtain g where "f = Suc g" by (cases f) (auto split: if_splits)
  with JBool.prems(2) show ?case
    by (simp add: skip_to json_space_def read_literal_def starts_with_def del: skip_white)
qed simp

lemma parse_layout:
  assumes "\<And>m. white (nl m)" and "col = '':'' @ cw" and "white cw" and "printable v"
  shows "json_parse (layout nl col n v) = Some v"
  using layout_read[where w = "[]" and r = "[]" and n = n and nl = nl and col = col and cw = cw
      and v = v and f = "Suc (length (layout nl col n v))"] assms
  by (simp add: json_parse_def ends_number_def skip_def)

text \<open>What \<open>JSON.stringify\<close> writes, in either layout, \<open>JSON.parse\<close> reads back.\<close>

lemma json_parse_text: "printable v \<Longrightarrow> json_parse (json_text v) = Some v"
  unfolding json_text_def by (rule parse_layout[where cw = "[]"]) simp_all

lemma json_parse_text_2: "printable v \<Longrightarrow> json_parse (json_text_2 v) = Some v"
  unfolding json_text_2_def
  by (rule parse_layout[where cw = "'' ''"]) (simp_all add: white_def json_space_def)

interpretation json_line: codec json_text json_parse printable
  by unfold_locales (rule json_parse_text)

interpretation json_page: codec json_text_2 json_parse printable
  by unfold_locales (rule json_parse_text_2)

end
