(* ===== verification/Implementation_Packet.thy ===== *)
theory Implementation_Packet
  imports Repair_Admission Json_Text
begin

text \<open>
  The task packet a worker is given (\<^verbatim>\<open>src/agents/implementation-packet.ts\<close>) and the original
  implementation authority that pins it to a run (\<^verbatim>\<open>src/domain/implementation-authority.ts\<close>).
  A refusal is its code; the prose of its reason is not modelled. What lies outside is
  \<open>packet_host\<close>: SHA-256 of a text and of a packet, what \<open>JSON.parse\<close> and
  \<open>JSON.stringify\<close> do with repair evidence, and the dash of a finding's text, which is not a
  code unit below 256.
\<close>

section \<open>The accepted scope of a hand-off\<close>

datatype github_problem_code =
    Malformed_handoff | Malformed_handoff_newer | Ambiguous_handoff | Duplicate_handoffs
  | Stale_handoff | Stale_review_problem | Checks_unavailable | Unknown_check_state
  | Contradictory_state

record agent_handoff =
  ah_sourceId :: string
  ah_sourceScope :: handoff_scope
  ah_sourceUpdatedAt :: string
  ah_sections :: "(string \<times> string) list"
  ah_claimedHeadSha :: "string option"
  ah_claimedPullRequestNumber :: "int option"
  ah_freshness :: handoff_freshness

definition HANDOFF_REFUSAL_PROBLEMS :: "github_problem_code list" where
  "HANDOFF_REFUSAL_PROBLEMS =
     [Malformed_handoff, Malformed_handoff_newer, Ambiguous_handoff, Duplicate_handoffs, Stale_handoff]"

text \<open>
  \<^verbatim>\<open>/^(?:accepted(?:\s+#48-a)?\s+)?(?:bounded\s+)?scope$/i\<close>: an optional word is dropped from
  the front with the white space that must follow it.
\<close>

definition drop_word :: "string \<Rightarrow> string \<Rightarrow> string option" where
  "drop_word word s =
     (if starts_with s word \<and> present_and js_space (case drop (length word) s of [] \<Rightarrow> None | c # _ \<Rightarrow> Some c)
      then Some (trim_start (drop (length word) s)) else None)"

definition or_same :: "string \<Rightarrow> string option \<Rightarrow> string" where
  "or_same s t = (case t of None \<Rightarrow> s | Some u \<Rightarrow> u)"

definition is_scope_heading :: "string \<Rightarrow> bool" where
  "is_scope_heading heading \<longleftrightarrow>
     (let h = lower (trim heading);
          a = (case drop_word ''accepted'' h of None \<Rightarrow> h | Some t \<Rightarrow> or_same t (drop_word ''#48-a'' t))
      in or_same a (drop_word ''bounded'' a) = ''scope'')"

definition accepted_scope_from_handoff ::
  "agent_handoff option \<Rightarrow> github_problem_code list \<Rightarrow> bool \<Rightarrow> packet_scope option" where
  "accepted_scope_from_handoff handoff problems allow_unclaimed =
     (case handoff of
        None \<Rightarrow> None
      | Some h \<Rightarrow>
          if \<exists>p \<in> set problems. p \<in> set HANDOFF_REFUSAL_PROBLEMS then None
          else if ah_freshness h \<noteq> Current \<and>
                  \<not> (allow_unclaimed \<and> ah_freshness h = Freshness_unknown \<and>
                     ah_sourceScope h = Scope_issue \<and> ah_claimedHeadSha h = None \<and>
                     ah_claimedPullRequestNumber h = None)
          then None
          else (case filter (\<lambda>(heading, body). is_scope_heading heading \<and> \<not> blank body) (ah_sections h) of
                  [(_, body)] \<Rightarrow>
                    Some \<lparr>sc_sourceId = ah_sourceId h, sc_sourceScope = ah_sourceScope h,
                          sc_sourceUpdatedAt = ah_sourceUpdatedAt h, sc_freshness = ah_freshness h,
                          sc_text = body\<rparr>
                | _ \<Rightarrow> None))"

section \<open>Limits, host and refusals\<close>

definition IMPLEMENTATION_PACKET_VERSION :: string where
  "IMPLEMENTATION_PACKET_VERSION = ''tachiko.implementation-packet.v1''"

definition issueBodyBytes :: nat where "issueBodyBytes = 32 * 1024"
definition repairEvidenceBytes :: nat where "repairEvidenceBytes = 24 * 1024"
definition renderedBytes :: nat where "renderedBytes = 60 * 1024"
definition finalCliBytes :: nat where "finalCliBytes = 64 * 1024"
definition titleBytes :: nat where "titleBytes = 1024"
definition workspacePathBytes :: nat where "workspacePathBytes = 4096"
definition branchBytes :: nat where "branchBytes = 1024"
definition blockingFindings :: nat where "blockingFindings = 20"

text \<open>Repair evidence as \<open>JSON.parse\<close> returns it: a validation result or a review verdict.\<close>

datatype packet_evidence =
    Evidence_validation validation_result
  | Evidence_review review_verdict string int

record packet_host =
  ph_sha256 :: "string \<Rightarrow> string"
  ph_evidence :: "string \<Rightarrow> packet_evidence option"
  ph_lead_json :: "lead_repair_reference \<Rightarrow> string"
  ph_dash :: string
  ph_oracle :: oracle_host

datatype packet_refusal =
    Packet_identity_missing | Packet_authority_missing | Packet_issue_body_oversize
  | Packet_title_oversize | Packet_repair_evidence_missing | Packet_repair_evidence_oversize
  | Packet_too_many_blocking_findings | Packet_rendered_oversize | Packet_final_cli_oversize

record packet_provenance =
  pp_issueId :: string
  pp_issueNumber :: int
  pp_repository :: string
  pp_issueUpdatedAt :: string
  pp_issueBodySha256 :: string
  pp_acceptedScopeSourceId :: string
  pp_acceptedScopeSourceScope :: handoff_scope
  pp_acceptedScopeUpdatedAt :: string
  pp_acceptedScopeSha256 :: string
  pp_repairEvidenceRef :: "string option"
  pp_repairEvidenceSha256 :: "string option"

record implementation_packet =
  pk_version :: string
  pk_kind :: packet_kind
  pk_identity :: packet_identity
  pk_provenance :: packet_provenance
  pk_rendered :: string
  pk_finalCliText :: string

definition repair_evidence_material :: "packet_host \<Rightarrow> packet_repair \<Rightarrow> string" where
  "repair_evidence_material h r =
     join [CHR 0x0A]
       (re_evidence r # re_blockingFindings r @
        (case re_leadDisposition r of None \<Rightarrow> [] | Some d \<Rightarrow> [ph_lead_json h d]))"

definition repair_evidence_matches :: "packet_host \<Rightarrow> packet_kind \<Rightarrow> packet_repair \<Rightarrow> bool" where
  "repair_evidence_matches h kind r =
     (case (kind, ph_evidence h (re_evidence r)) of
        (Packet_validation_repair, Some (Evidence_validation v)) \<Rightarrow>
          is_validation_result_coherent v \<and> v_status v = Failed \<and> v_headSha v = re_headSha r
          \<and> h_pullRequestNumber (v_hosted v) = Some (re_pullRequestNumber r)
      | (Packet_review_repair, Some (Evidence_review verdict head number)) \<Rightarrow>
          verdict = Request_changes \<and> head = re_headSha r \<and> number = re_pullRequestNumber r
      | _ \<Rightarrow> False)"

definition target_text :: "target \<Rightarrow> string" where
  "target_text t =
     (case t of
        Issue owner repo n \<Rightarrow> owner @ ''/'' @ repo @ ''#'' @ int_text n
      | Repository owner repo branch _ \<Rightarrow> owner @ ''/'' @ repo @ ''@'' @ branch)"

section \<open>The guards\<close>

definition identity_refusal :: "implementation_packet_input \<Rightarrow> packet_refusal option" where
  "identity_refusal i =
     (let d = ip_identity i; e = pi_execution d in
      first_error
       [fail_if (list_ex blank [pi_runId d, pi_workspacePath d, pi_branch d, pi_baseSha d,
           profile_text (ex_profile e), ex_revision e, ex_executor e]
         \<or> \<not> is_safe_integer (ex_timeoutMs e) \<or> ex_timeoutMs e < 1) Packet_identity_missing,
        fail_if (workspacePathBytes < utf8_length (pi_workspacePath d)
         \<or> branchBytes < utf8_length (pi_branch d)) Packet_identity_missing])"

definition issue_target_matches :: "implementation_packet_input \<Rightarrow> bool" where
  "issue_target_matches i =
     (case pi_target (ip_identity i) of
        Issue owner repo n \<Rightarrow>
          is_number (ip_issue i) = n \<and> lower (fst (ip_repository i)) = lower owner
          \<and> lower (snd (ip_repository i)) = lower repo
      | Repository _ _ _ _ \<Rightarrow> False)"

definition scope_acceptable :: "implementation_packet_input \<Rightarrow> bool" where
  "scope_acceptable i \<longleftrightarrow>
     (let s = ip_acceptedScope i in
      \<not> blank (sc_sourceId s) \<and> \<not> blank (sc_sourceUpdatedAt s)
      \<and> (sc_freshness s = Current
         \<or> ip_kind i = Packet_initial \<and> sc_freshness s = Freshness_unknown \<and> sc_sourceScope s = Scope_issue)
      \<and> \<not> blank (sc_text s))"

definition authority_refusal :: "implementation_packet_input \<Rightarrow> packet_refusal option" where
  "authority_refusal i = first_error
     [fail_if (blank (is_id (ip_issue i)) \<or> blank (is_updatedAt (ip_issue i))
        \<or> \<not> issue_target_matches i \<or> \<not> scope_acceptable i) Packet_authority_missing,
      fail_if (titleBytes < utf8_length (is_title (ip_issue i))) Packet_title_oversize,
      fail_if (issueBodyBytes < utf8_length (is_body (ip_issue i))) Packet_issue_body_oversize]"

text \<open>\<^verbatim>\<open>/^[0-9a-f]{40}$/i\<close>.\<close>

definition is_sha_any_case :: "string \<Rightarrow> bool" where
  "is_sha_any_case s \<longleftrightarrow> length s = 40 \<and> all_in (HEX @ ''ABCDEF'') s"

definition repair_is_exact :: "packet_host \<Rightarrow> implementation_packet_input \<Rightarrow> packet_repair \<Rightarrow> bool" where
  "repair_is_exact h i r \<longleftrightarrow>
     is_sha_any_case (re_headSha r) \<and> re_headSha r = pi_baseSha (ip_identity i)
     \<and> is_safe_integer (re_pullRequestNumber r) \<and> 1 \<le> re_pullRequestNumber r
     \<and> \<not> blank (re_evidenceRef r) \<and> \<not> blank (re_evidence r)
     \<and> re_evidenceHeadSha r = re_headSha r
     \<and> re_evidencePullRequestNumber r = re_pullRequestNumber r
     \<and> repair_evidence_matches h (ip_kind i) r
     \<and> (ip_kind i = Packet_validation_repair \<longrightarrow>
          re_evidenceKind r = ''validation'' \<and> re_evidenceStatus r = ''failed'')
     \<and> (ip_kind i = Packet_review_repair \<longrightarrow>
          re_evidenceKind r = ''review'' \<and> re_evidenceStatus r = ''request_changes'')"

definition finding_text :: "packet_host \<Rightarrow> review_finding \<Rightarrow> string" where
  "finding_text h f =
     ''[blocking] '' @ f_summary f @
     (case f_detail f of None \<Rightarrow> [] | Some d \<Rightarrow> '' '' @ ph_dash h @ '' '' @ d)"

definition lead_binds_packet :: "packet_host \<Rightarrow> packet_repair \<Rightarrow> lead_repair_reference \<Rightarrow> bool" where
  "lead_binds_packet h r d \<longleftrightarrow>
     valid_lead_repair_reference (ph_oracle h) d
     \<and> li_headSha (la_identity d) = re_headSha r
     \<and> li_pullRequestNumber (la_identity d) = re_pullRequestNumber r
     \<and> (case la_disposition d of
          Lead_repair _ _ ids _ \<Rightarrow> length ids = length (re_blockingFindings r)
        | Lead_stop _ _ \<Rightarrow> False)"

definition repair_refusal :: "packet_host \<Rightarrow> implementation_packet_input \<Rightarrow> packet_refusal option" where
  "repair_refusal h i =
     (case ip_repair i of
        None \<Rightarrow> fail_if (ip_kind i \<noteq> Packet_initial) Packet_repair_evidence_missing
      | Some r \<Rightarrow>
          if ip_kind i = Packet_initial then Some Packet_repair_evidence_missing
          else first_error
            [fail_if (\<not> repair_is_exact h i r) Packet_repair_evidence_missing,
             fail_if (\<not> absent_or (lead_binds_packet h r) (re_leadDisposition r))
               Packet_repair_evidence_missing,
             fail_if (\<not> absent_or (\<lambda>d.
                map (finding_text h) (filter (\<lambda>f. f_severity f = Blocking)
                  (r_findings (rt_result (lrr_originEvidence d)))) = re_blockingFindings r)
                (re_leadDisposition r)) Packet_repair_evidence_missing,
             fail_if (repairEvidenceBytes < utf8_length (repair_evidence_material h r))
               Packet_repair_evidence_oversize,
             fail_if (blockingFindings < length (re_blockingFindings r))
               Packet_too_many_blocking_findings,
             fail_if (ip_kind i = Packet_review_repair \<and> re_blockingFindings r = [])
               Packet_repair_evidence_missing])"

section \<open>The text\<close>

definition packet_kind_text :: "packet_kind \<Rightarrow> string" where
  "packet_kind_text k =
     (case k of Packet_initial \<Rightarrow> ''initial'' | Packet_validation_repair \<Rightarrow> ''validation-repair''
      | Packet_review_repair \<Rightarrow> ''review-repair'')"

definition scope_name :: "handoff_scope \<Rightarrow> string" where
  "scope_name s = (case s of Scope_issue \<Rightarrow> ''issue'' | Scope_pull_request \<Rightarrow> ''pull_request'')"

definition or_unspecified :: "string option \<Rightarrow> string" where
  "or_unspecified s = (case s of None \<Rightarrow> ''(unspecified)'' | Some v \<Rightarrow> v)"

text \<open>The inherited property is the function \<open>Object\<close>, which a template literal prints as its source.\<close>

definition effort_name :: "alias_value \<Rightarrow> string" where
  "effort_name e =
     (case e of Canonical x \<Rightarrow> effort_text x
      | Inherited_property \<Rightarrow> ''function Object() { [native code] }'')"

fun sandbox_name :: "sandbox_mode \<Rightarrow> string" where
  "sandbox_name Read_only = ''read-only''"
| "sandbox_name Workspace_write = ''workspace-write''"
| "sandbox_name Danger_full_access = ''danger-full-access''"

fun approval_name :: "approval_policy \<Rightarrow> string" where
  "approval_name Untrusted = ''untrusted''"
| "approval_name On_request = ''on-request''"
| "approval_name Never = ''never''"

definition packet_provenance_of :: "packet_host \<Rightarrow> implementation_packet_input \<Rightarrow> packet_provenance" where
  "packet_provenance_of h i =
     \<lparr>pp_issueId = is_id (ip_issue i), pp_issueNumber = is_number (ip_issue i),
      pp_repository = fst (ip_repository i) @ ''/'' @ snd (ip_repository i),
      pp_issueUpdatedAt = is_updatedAt (ip_issue i),
      pp_issueBodySha256 = ph_sha256 h (is_body (ip_issue i)),
      pp_acceptedScopeSourceId = sc_sourceId (ip_acceptedScope i),
      pp_acceptedScopeSourceScope = sc_sourceScope (ip_acceptedScope i),
      pp_acceptedScopeUpdatedAt = sc_sourceUpdatedAt (ip_acceptedScope i),
      pp_acceptedScopeSha256 = ph_sha256 h (sc_text (ip_acceptedScope i)),
      pp_repairEvidenceRef = map_option re_evidenceRef (ip_repair i),
      pp_repairEvidenceSha256 =
        map_option (\<lambda>r. ph_sha256 h (repair_evidence_material h r)) (ip_repair i)\<rparr>"

definition execution_line :: "resolved_execution \<Rightarrow> string" where
  "execution_line e =
     ''Execution: profile='' @ profile_text (ex_profile e) @ ''; revision='' @ ex_revision e @
     ''; executor='' @ ex_executor e @ ''; model='' @ or_unspecified (ex_model e) @
     ''; reasoning='' @ or_unspecified (map_option effort_name (ex_reasoningEffort e)) @
     ''; timeoutMs='' @ int_text (ex_timeoutMs e) @
     ''; sandbox='' @ or_unspecified (map_option sandbox_name (ex_sandboxMode e)) @
     ''; approval='' @ or_unspecified (map_option approval_name (ex_approvalPolicy e))"

text \<open>The lines around the three the identity fills.\<close>

definition head_lines :: "implementation_packet_input \<Rightarrow> string list" where
  "head_lines i =
     [''Packet: '' @ IMPLEMENTATION_PACKET_VERSION, ''Kind: '' @ packet_kind_text (ip_kind i),
      ''Run: '' @ pi_runId (ip_identity i), ''Target: '' @ target_text (pi_target (ip_identity i))]"

definition identity_lines :: "implementation_packet_input \<Rightarrow> string list" where
  "identity_lines i =
     [''Workspace: '' @ pi_workspacePath (ip_identity i), ''Branch: '' @ pi_branch (ip_identity i),
      ''Base: '' @ pi_baseSha (ip_identity i)]"

definition authority_lines :: "packet_host \<Rightarrow> implementation_packet_input \<Rightarrow> string list" where
  "authority_lines h i =
     (let p = packet_provenance_of h i; n = ip_issue i; s = ip_acceptedScope i in
      [execution_line (pi_execution (ip_identity i)),
       ''Issue authority: '' @ pp_repository p @ ''#'' @ int_text (is_number n) @ '' '' @ is_id n @
         '' updated '' @ is_updatedAt n @ '' sha256='' @ pp_issueBodySha256 p,
       ''Accepted scope: '' @ scope_name (sc_sourceScope s) @ '' '' @ sc_sourceId s @ '' updated '' @
         sc_sourceUpdatedAt s @ '' sha256='' @ pp_acceptedScopeSha256 p,
       ''Task title: '' @ is_title n,
       ''Accepted scope and instructions:'', sc_text s, ''Issue requirements:'', is_body n])"

fun numbered :: "nat \<Rightarrow> string list \<Rightarrow> string list" where
  "numbered k [] = []"
| "numbered k (x # xs) = (nat_str k @ ''. '' @ x) # numbered (Suc k) xs"

definition repair_lines :: "packet_host \<Rightarrow> packet_repair \<Rightarrow> string list" where
  "repair_lines h r =
     [''Repair identity: PR #'' @ int_text (re_pullRequestNumber r) @ '' at exact HEAD '' @ re_headSha r,
      ''Repair evidence source: '' @ re_evidenceRef r @ '' sha256='' @
        ph_sha256 h (repair_evidence_material h r)] @
     (case re_leadDisposition r of
        None \<Rightarrow> []
      | Some d \<Rightarrow>
          [''Qualified bounded lead disposition (read-only; original scope remains authoritative):'',
           ph_lead_json h d]) @
     [''Repair evidence:'', re_evidence r] @
     (if re_blockingFindings r = [] then []
      else ''Blocking findings:'' # numbered 1 (re_blockingFindings r))"

definition contract_line :: string where
  "contract_line =
     ''Worker contract: implement only this bounded packet and required tests; preserve the supplied execution identity; commit one clean exact HEAD. Do not push or create a pull request; the trusted host owns publication.''"

definition packet_lines :: "packet_host \<Rightarrow> implementation_packet_input \<Rightarrow> string list" where
  "packet_lines h i =
     head_lines i @ identity_lines i @ authority_lines h i @
     (case ip_repair i of None \<Rightarrow> [] | Some r \<Rightarrow> repair_lines h r) @ [contract_line]"

definition packet_rendered :: "packet_host \<Rightarrow> implementation_packet_input \<Rightarrow> string" where
  "packet_rendered h i = join [CHR 0x0A] (packet_lines h i)"

definition cli_lines :: "implementation_packet_input \<Rightarrow> string list" where
  "cli_lines i =
     [''Implement '' @ target_text (pi_target (ip_identity i)) @ '' from base '' @
        pi_baseSha (ip_identity i) @ ''.'',
      ''Treat the supplied bounded task packet as the only target authority; do not use network or MCP to rediscover it.'',
      ''Run repository-required validation before reporting success.'']"

definition final_cli_text :: "packet_host \<Rightarrow> implementation_packet_input \<Rightarrow> string" where
  "final_cli_text h i = join [CHR 0x0A] (cli_lines i @ [packet_rendered h i])"

section \<open>Building a packet\<close>

definition packet_guards :: "packet_host \<Rightarrow> implementation_packet_input \<Rightarrow> packet_refusal option" where
  "packet_guards h i = first_error [identity_refusal i, authority_refusal i, repair_refusal h i]"

definition size_refusal :: "packet_host \<Rightarrow> implementation_packet_input \<Rightarrow> packet_refusal option" where
  "size_refusal h i = first_error
     [fail_if (renderedBytes < utf8_length (packet_rendered h i)) Packet_rendered_oversize,
      fail_if (finalCliBytes < utf8_length (final_cli_text h i)) Packet_final_cli_oversize]"

definition packet_of :: "packet_host \<Rightarrow> implementation_packet_input \<Rightarrow> implementation_packet" where
  "packet_of h i =
     \<lparr>pk_version = IMPLEMENTATION_PACKET_VERSION, pk_kind = ip_kind i, pk_identity = ip_identity i,
      pk_provenance = packet_provenance_of h i, pk_rendered = packet_rendered h i,
      pk_finalCliText = final_cli_text h i\<rparr>"

definition build_implementation_packet ::
  "packet_host \<Rightarrow> implementation_packet_input \<Rightarrow> packet_refusal + implementation_packet" where
  "build_implementation_packet h i =
     (case first_error [packet_guards h i, size_refusal h i] of
        Some x \<Rightarrow> Inl x
      | None \<Rightarrow> Inr (packet_of h i))"

definition preflight_identity :: "packet_identity \<Rightarrow> packet_identity" where
  "preflight_identity d =
     d\<lparr>pi_workspacePath := (if pi_workspacePath d = [] then replicate workspacePathBytes (CHR ''w'')
                            else pi_workspacePath d),
       pi_branch := (if pi_branch d = [] then replicate branchBytes (CHR ''b'') else pi_branch d),
       pi_baseSha := (if pi_baseSha d = [] then ''<pending-base>'' else pi_baseSha d)\<rparr>"

definition preflight_implementation_packet ::
  "packet_host \<Rightarrow> implementation_packet_input \<Rightarrow> packet_refusal + implementation_packet" where
  "preflight_implementation_packet h i =
     build_implementation_packet h (i\<lparr>ip_identity := preflight_identity (ip_identity i)\<rparr>)"

definition render_final_cli_packet :: "implementation_packet \<Rightarrow> packet_refusal + string" where
  "render_final_cli_packet p =
     (if finalCliBytes < utf8_length (pk_finalCliText p) then Inl Packet_final_cli_oversize
      else Inr (pk_finalCliText p))"

section \<open>The original authority\<close>

record issue_snapshot =
  iss_repository :: "string \<times> string"
  iss_issue :: packet_issue
  iss_handoff :: "agent_handoff option"
  iss_problems :: "github_problem_code list"
  iss_hasPullRequest :: bool
  iss_headSha :: "string option"

definition packet_identity_matches_run :: "run \<Rightarrow> packet_identity \<Rightarrow> bool" where
  "packet_identity_matches_run r d \<longleftrightarrow>
     Some (pi_workspacePath d) = map_option b_workspacePath (run_bootstrap r)
     \<and> Some (pi_branch d) = map_option b_branch (run_bootstrap r)
     \<and> Some (pi_baseSha d) = map_option b_baseSha (run_bootstrap r)
     \<and> pi_runId d = run_id r \<and> pi_target d = run_target r
     \<and> Some (pi_execution d) = run_execution r"

definition implementation_authority_coherent ::
  "packet_host \<Rightarrow> (implementation_packet \<Rightarrow> string) \<Rightarrow> run \<Rightarrow> bool" where
  "implementation_authority_coherent h packet_digest r =
     absent_or (\<lambda>a.
       (case pi_target (ip_identity (oa_input a)) of Issue _ _ _ \<Rightarrow> True | _ \<Rightarrow> False)
       \<and> packet_identity_matches_run r (ip_identity (oa_input a))
       \<and> ip_kind (oa_input a) = Packet_initial \<and> ip_repair (oa_input a) = None
       \<and> is_repair_task_shape_authority (oa_taskShape a)
       \<and> Some (oa_taskShape a) = run_repairTaskShapeAuthority r
       \<and> (case build_implementation_packet h (oa_input a) of
            Inl _ \<Rightarrow> False
          | Inr p \<Rightarrow> packet_digest p = oa_packetSha256 a)) (run_implementationAuthority r)"

definition implementation_authority_progresses ::
  "packet_host \<Rightarrow> (implementation_packet \<Rightarrow> string) \<Rightarrow> run option \<Rightarrow> run \<Rightarrow> bool" where
  "implementation_authority_progresses h packet_digest previous next \<longleftrightarrow>
     implementation_authority_coherent h packet_digest next
     \<and> kept (Option.bind previous run_implementationAuthority) (run_implementationAuthority next)
     \<and> absent_or (\<lambda>p. run_implementationAuthority p \<noteq> None \<or> run_implementationAuthority next = None
          \<or> run_state p = IMPLEMENTING \<and> run_agentResult p = None \<and> run_executor p = None
            \<and> admissions p = []) previous"

definition same_scope_but_freshness :: "packet_scope \<Rightarrow> packet_scope \<Rightarrow> bool" where
  "same_scope_but_freshness a b \<longleftrightarrow> a\<lparr>sc_freshness := sc_freshness b\<rparr> = b"

definition original_implementation_matches ::
  "packet_host \<Rightarrow> (implementation_packet \<Rightarrow> string) \<Rightarrow> run \<Rightarrow> issue_snapshot \<Rightarrow> bool" where
  "original_implementation_matches h packet_digest r snapshot \<longleftrightarrow>
     present_and (\<lambda>a.
       implementation_authority_coherent h packet_digest r
       \<and> present_and (same_scope_but_freshness (ip_acceptedScope (oa_input a)))
           (accepted_scope_from_handoff (iss_handoff snapshot) (iss_problems snapshot)
              (\<not> iss_hasPullRequest snapshot \<and> iss_headSha snapshot = None))
       \<and> ip_repository (oa_input a) = iss_repository snapshot
       \<and> ip_issue (oa_input a) = iss_issue snapshot) (run_implementationAuthority r)"

section \<open>Lengths\<close>

lemma utf8_length_append [simp]: "utf8_length (s @ t) = utf8_length s + utf8_length t"
  by (simp add: utf8_length_def)

lemma utf8_length_join:
  "utf8_length (join [c] (s # ls)) =
     utf8_length s + sum_list (map (\<lambda>l. utf8_length [c] + utf8_length l) ls)"
proof (induction ls arbitrary: s)
  case (Cons l ls)
  have "utf8_length (join [c] (s # l # ls)) = utf8_length s + utf8_length [c] + utf8_length (join [c] (l # ls))"
    by (simp flip: utf8_length_append)
  with Cons show ?case by simp
qed simp

lemma join_contains:
  assumes "x \<in> set ls"
  shows "\<exists>u v. join sep ls = u @ x @ v"
  using assms
proof (induction sep ls rule: join.induct)
  case (3 sep x' y xs)
  show ?case
  proof (cases "x = x'")
    case True
    then have "join sep (x' # y # xs) = [] @ x @ (sep @ join sep (y # xs))" by simp
    then show ?thesis by blast
  next
    case False
    with 3 obtain u v where "join sep (y # xs) = u @ x @ v" by auto
    then have "join sep (x' # y # xs) = (x' @ sep @ u) @ x @ v" by simp
    then show ?thesis by blast
  qed
next
  case (2 sep y)
  then have "join sep [y] = [] @ x @ []" by simp
  then show ?case by blast
qed simp

lemma join_snoc: "ls \<noteq> [] \<Longrightarrow> join sep (ls @ [x]) = join sep ls @ sep @ x"
  by (induction sep ls rule: join.induct) simp_all

lemma final_cli_text_split:
  "final_cli_text h i = (join [CHR 0x0A] (cli_lines i) @ [CHR 0x0A]) @ packet_rendered h i"
proof -
  have "cli_lines i \<noteq> []"
    by (simp add: cli_lines_def)
  then show ?thesis
    unfolding final_cli_text_def append_assoc by (rule join_snoc)
qed

lemma build_packet_iff:
  "build_implementation_packet h i = Inr p \<longleftrightarrow>
     packet_guards h i = None \<and> size_refusal h i = None \<and> p = packet_of h i"
  by (auto simp: build_implementation_packet_def first_error_None_iff split: option.splits)

section \<open>Packets are complete and bounded\<close>

lemma packet_line_rendered:
  "l \<in> set (packet_lines h i) \<Longrightarrow> \<exists>u v. packet_rendered h i = u @ l @ v"
  unfolding packet_rendered_def by (rule join_contains)

lemma size_refusal_None_iff:
  "size_refusal h i = None \<longleftrightarrow>
     utf8_length (packet_rendered h i) \<le> renderedBytes \<and> utf8_length (final_cli_text h i) \<le> finalCliBytes"
  by (auto simp: size_refusal_def first_error_None_iff)

lemma guarded_limits:
  assumes "packet_guards h i = None"
  shows "utf8_length (pi_workspacePath (ip_identity i)) \<le> workspacePathBytes"
    and "utf8_length (pi_branch (ip_identity i)) \<le> branchBytes"
    and "utf8_length (is_title (ip_issue i)) \<le> titleBytes"
    and "utf8_length (is_body (ip_issue i)) \<le> issueBodyBytes"
    and "absent_or (\<lambda>r. utf8_length (repair_evidence_material h r) \<le> repairEvidenceBytes
           \<and> length (re_blockingFindings r) \<le> blockingFindings) (ip_repair i)"
proof -
  from assms have "identity_refusal i = None" "authority_refusal i = None" "repair_refusal h i = None"
    by (simp_all add: packet_guards_def first_error_None_iff)
  note passed = this
  show "utf8_length (pi_workspacePath (ip_identity i)) \<le> workspacePathBytes"
    "utf8_length (pi_branch (ip_identity i)) \<le> branchBytes"
    using passed(1) by (simp_all add: identity_refusal_def Let_def first_error_None_iff)
  show "utf8_length (is_title (ip_issue i)) \<le> titleBytes" "utf8_length (is_body (ip_issue i)) \<le> issueBodyBytes"
    using passed(2) by (simp_all add: authority_refusal_def first_error_None_iff)
  show "absent_or (\<lambda>r. utf8_length (repair_evidence_material h r) \<le> repairEvidenceBytes
      \<and> length (re_blockingFindings r) \<le> blockingFindings) (ip_repair i)"
    using passed(3) by (cases "ip_repair i") (simp_all add: repair_refusal_def first_error_None_iff split: if_splits)
qed

text \<open>C37. A packet is complete and bounded: it holds the accepted scope, the issue's body and,
  for a repair, the evidence word for word, ends the text of the command line and passes the
  check at the last boundary. It keeps every limit of the version: 61440 bytes of packet,
  65536 of command line, 4096 of workspace path, 1024 of branch, 1024 of title, 32768 of issue
  body and, for a repair, 24576 of evidence and 20 blocking findings. What does not fit is
  refused, never truncated.\<close>

theorem packet_complete_and_bounded:
  assumes "build_implementation_packet h i = Inr p"
  shows "(\<exists>u v. pk_rendered p = u @ sc_text (ip_acceptedScope i) @ v) \<and>
         (\<exists>u v. pk_rendered p = u @ is_body (ip_issue i) @ v) \<and>
         absent_or (\<lambda>r. \<exists>u v. pk_rendered p = u @ re_evidence r @ v) (ip_repair i) \<and>
         (\<exists>u. pk_finalCliText p = u @ pk_rendered p) \<and>
         utf8_length (pk_rendered p) \<le> 61440 \<and> utf8_length (pk_finalCliText p) \<le> 65536 \<and>
         utf8_length (pi_workspacePath (pk_identity p)) \<le> 4096 \<and>
         utf8_length (pi_branch (pk_identity p)) \<le> 1024 \<and>
         utf8_length (is_title (ip_issue i)) \<le> 1024 \<and> utf8_length (is_body (ip_issue i)) \<le> 32768 \<and>
         absent_or (\<lambda>r. utf8_length (repair_evidence_material h r) \<le> 24576 \<and>
           length (re_blockingFindings r) \<le> 20) (ip_repair i) \<and>
         render_final_cli_packet p = Inr (pk_finalCliText p)"
proof -
  from assms have p: "p = packet_of h i" and sizes: "size_refusal h i = None"
    and guards: "packet_guards h i = None" by (simp_all add: build_packet_iff)
  have "sc_text (ip_acceptedScope i) \<in> set (packet_lines h i)" "is_body (ip_issue i) \<in> set (packet_lines h i)"
    "\<And>r. ip_repair i = Some r \<Longrightarrow> re_evidence r \<in> set (packet_lines h i)"
    by (simp_all add: packet_lines_def authority_lines_def repair_lines_def Let_def)
  note lines = this[THEN packet_line_rendered]
  have rendered: "pk_rendered p = packet_rendered h i" "pk_finalCliText p = final_cli_text h i"
    by (simp_all add: p packet_of_def)
  moreover have "\<exists>u. final_cli_text h i = u @ packet_rendered h i"
    unfolding final_cli_text_split by blast
  moreover have "render_final_cli_packet p = Inr (pk_finalCliText p)"
    using sizes by (simp add: render_final_cli_packet_def rendered size_refusal_None_iff)
  moreover have "absent_or (\<lambda>r. \<exists>u v. packet_rendered h i = u @ re_evidence r @ v) (ip_repair i)"
    using lines(3) by (cases "ip_repair i") auto
  moreover have "pk_identity p = ip_identity i"
    by (simp add: p packet_of_def)
  ultimately show ?thesis
    using sizes lines(1,2) guarded_limits[OF guards]
    by (simp add: size_refusal_None_iff renderedBytes_def finalCliBytes_def workspacePathBytes_def branchBytes_def
        titleBytes_def issueBodyBytes_def repairEvidenceBytes_def blockingFindings_def)
qed

text \<open>A repair packet is bound to its evidence: it is built only for the exact HEAD it
  repairs, from evidence that is itself failed validation or rejected review of that HEAD and
  pull request, and with a lead disposition only for that HEAD and pull request.\<close>

theorem repair_packet_is_evidenced:
  assumes "build_implementation_packet h i = Inr p" and "ip_kind i \<noteq> Packet_initial"
  shows "present_and (\<lambda>r. re_headSha r = pi_baseSha (pk_identity p) \<and>
            repair_evidence_matches h (pk_kind p) r \<and>
            re_evidenceHeadSha r = re_headSha r \<and> re_evidencePullRequestNumber r = re_pullRequestNumber r \<and>
            absent_or (\<lambda>d. is_repair (la_disposition d) \<and> li_headSha (la_identity d) = re_headSha r \<and>
              li_pullRequestNumber (la_identity d) = re_pullRequestNumber r) (re_leadDisposition r))
           (ip_repair i)"
proof -
  from assms have p: "p = packet_of h i" and g: "repair_refusal h i = None"
    by (simp_all add: build_packet_iff packet_guards_def first_error_None_iff)
  then obtain r where r: "ip_repair i = Some r" "repair_is_exact h i r"
    "absent_or (lead_binds_packet h r) (re_leadDisposition r)"
    using assms(2) by (auto simp: repair_refusal_def first_error_None_iff split: option.splits)
  then show ?thesis
    by (cases "re_leadDisposition r")
       (auto simp: p packet_of_def repair_is_exact_def lead_binds_packet_def split: lead_disposition.splits)
qed

section \<open>The preflight\<close>

lemma utf8_length_replicate:
  "utf8_length (replicate n (CHR ''w'')) = n" "utf8_length (replicate n (CHR ''b'')) = n"
  by (simp_all add: utf8_length_def sum_list_replicate)

lemma placeholders_not_blank:
  "\<not> blank (replicate workspacePathBytes (CHR ''w''))" "\<not> blank (replicate branchBytes (CHR ''b''))"
  by (simp_all add: blank_iff js_space_def workspacePathBytes_def branchBytes_def)

definition with_place :: "string \<Rightarrow> string \<Rightarrow> implementation_packet_input \<Rightarrow> implementation_packet_input" where
  "with_place w b i =
     i\<lparr>ip_identity := (ip_identity i)\<lparr>pi_workspacePath := w, pi_branch := b\<rparr>\<rparr>"

lemma with_place_lines:
  "head_lines (with_place w b i) = head_lines i"
  "authority_lines h (with_place w b i) = authority_lines h i"
  "identity_lines (with_place w b i) =
     [''Workspace: '' @ w, ''Branch: '' @ b, ''Base: '' @ pi_baseSha (ip_identity i)]"
  "ip_repair (with_place w b i) = ip_repair i" "cli_lines (with_place w b i) = cli_lines i"
  by (simp_all add: with_place_def cli_lines_def head_lines_def authority_lines_def identity_lines_def
      packet_provenance_of_def Let_def)

lemma with_place_rendered:
  "utf8_length (packet_rendered h (with_place w b i)) =
     utf8_length w + utf8_length b + utf8_length (packet_rendered h (with_place [] [] i))"
proof -
  obtain l ls where l: "head_lines i = l # ls"
    by (simp add: head_lines_def)
  show ?thesis
    by (simp add: packet_rendered_def packet_lines_def with_place_lines l utf8_length_join)
      (simp add: utf8_length_def)
qed

lemma with_place_cli:
  "utf8_length (final_cli_text h (with_place w b i)) =
     utf8_length w + utf8_length b + utf8_length (final_cli_text h (with_place [] [] i))"
  by (simp only: final_cli_text_split with_place_lines utf8_length_append
      with_place_rendered[of h w b])

lemma with_place_sizes:
  "size_refusal h (with_place w b i) = None \<longleftrightarrow>
     utf8_length w + utf8_length b + utf8_length (packet_rendered h (with_place [] [] i)) \<le> renderedBytes \<and>
     utf8_length w + utf8_length b + utf8_length (final_cli_text h (with_place [] [] i)) \<le> finalCliBytes"
  unfolding size_refusal_None_iff with_place_rendered[of h w b] with_place_cli[of h w b] ..

lemma with_place_guards:
  assumes "\<not> blank w" and "utf8_length w \<le> workspacePathBytes"
    and "\<not> blank b" and "utf8_length b \<le> branchBytes"
    and "packet_guards h (with_place v c i) = None"
  shows "packet_guards h (with_place w b i) = None"
proof -
  have "authority_refusal (with_place w b i) = authority_refusal (with_place v c i)"
    by (cases "pi_target (ip_identity i)")
       (simp_all add: authority_refusal_def with_place_def issue_target_matches_def scope_acceptable_def)
  moreover have "repair_refusal h (with_place w b i) = repair_refusal h (with_place v c i)"
    by (cases "ip_repair i") (simp_all add: repair_refusal_def with_place_def repair_is_exact_def)
  moreover have "identity_refusal (with_place w b i) = None"
    using assms by (simp add: packet_guards_def first_error_None_iff identity_refusal_def with_place_def Let_def)
  ultimately show ?thesis
    using assms(5) by (simp add: packet_guards_def first_error_None_iff)
qed

text \<open>The preflight is sound: once it accepts an input that names its base but not yet its
  workspace and branch, the packet is built for every workspace and branch within the limits,
  so no bound can fail after an admission was consumed or a workspace was changed.\<close>

theorem preflight_accepts_final:
  assumes "preflight_implementation_packet h i = Inr p"
    and "pi_workspacePath (ip_identity i) = []" and "pi_branch (ip_identity i) = []"
    and "pi_baseSha (ip_identity i) \<noteq> []"
    and "\<not> blank w" and "utf8_length w \<le> 4096" and "\<not> blank b" and "utf8_length b \<le> 1024"
  shows "build_implementation_packet h (with_place w b i) = Inr (packet_of h (with_place w b i))"
proof -
  let ?w = "replicate workspacePathBytes (CHR ''w'')" and ?b = "replicate branchBytes (CHR ''b'')"
  have "i\<lparr>ip_identity := preflight_identity (ip_identity i)\<rparr> = with_place ?w ?b i"
    using assms(2-4) by (simp add: preflight_identity_def with_place_def)
  with assms(1) have pre: "packet_guards h (with_place ?w ?b i) = None" "size_refusal h (with_place ?w ?b i) = None"
    by (simp_all add: preflight_implementation_packet_def build_packet_iff)
  have "packet_guards h (with_place w b i) = None"
    by (rule with_place_guards[OF assms(5) _ assms(7) _ pre(1)])
       (use assms(6,8) in \<open>simp_all add: workspacePathBytes_def branchBytes_def\<close>)
  moreover have "size_refusal h (with_place w b i) = None"
    using pre(2) assms(6,8) unfolding with_place_sizes
    by (simp add: utf8_length_replicate workspacePathBytes_def branchBytes_def)
  ultimately show ?thesis
    by (simp add: build_packet_iff)
qed

section \<open>Instances\<close>

definition failed_at_sha :: validation_result where
  "failed_at_sha = failed_validation\<lparr>v_headSha := replicate 40 (CHR ''a'')\<rparr>"

definition plain_packet_host :: packet_host where
  "plain_packet_host =
     \<lparr>ph_sha256 = (\<lambda>s. take 2 s),
      ph_evidence = (\<lambda>s. if s = ''failed'' then Some (Evidence_validation failed_at_sha)
                      else Some (Evidence_review Request_changes ''h'' 1)),
      ph_lead_json = (\<lambda>d. la_digest d), ph_dash = ''-'', ph_oracle = sample_host\<rparr>"

definition sample_packet_input :: "packet_kind \<Rightarrow> string \<Rightarrow> packet_repair option \<Rightarrow> implementation_packet_input" where
  "sample_packet_input kind base repair =
     \<lparr>ip_kind = kind,
      ip_identity =
        \<lparr>pi_runId = ''run-1'', pi_target = Issue ''o'' ''r'' 7, pi_workspacePath = [], pi_branch = [],
         pi_baseSha = base, pi_execution = sample_execution\<lparr>ex_timeoutMs := 60\<rparr>\<rparr>,
      ip_repository = (''o'', ''r''),
      ip_issue = \<lparr>is_id = ''I7'', is_number = 7, is_updatedAt = ''t'', is_title = ''Fix'', is_body = ''the body''\<rparr>,
      ip_acceptedScope =
        \<lparr>sc_sourceId = ''c1'', sc_sourceScope = Scope_issue, sc_sourceUpdatedAt = ''t'',
         sc_freshness = Current, sc_text = ''the scope''\<rparr>,
      ip_repair = repair\<rparr>"

definition sample_repair :: packet_repair where
  "sample_repair =
     \<lparr>re_headSha = v_headSha failed_at_sha,
      re_pullRequestNumber = the (h_pullRequestNumber (v_hosted failed_at_sha)),
      re_evidenceRef = ''run:1'', re_evidence = ''failed'', re_evidenceKind = ''validation'',
      re_evidenceHeadSha = v_headSha failed_at_sha,
      re_evidencePullRequestNumber = the (h_pullRequestNumber (v_hosted failed_at_sha)),
      re_evidenceStatus = ''failed'', re_blockingFindings = [], re_leadDisposition = None\<rparr>"

definition sample_initial :: implementation_packet_input where
  "sample_initial = sample_packet_input Packet_initial ''base'' None"

definition sample_repair_input :: implementation_packet_input where
  "sample_repair_input =
     sample_packet_input Packet_validation_repair (v_headSha failed_at_sha) (Some sample_repair)"

lemma utf8_length_bound: "utf8_length s \<le> 2 * length s"
  unfolding utf8_length_def by (induction s) auto

lemmas packet_sample_defs =
  sample_initial_def sample_repair_input_def sample_packet_input_def sample_repair_def with_place_def
  sample_execution_def plain_packet_host_def

lemmas packet_limit_defs =
  workspacePathBytes_def branchBytes_def titleBytes_def issueBodyBytes_def repairEvidenceBytes_def
  blockingFindings_def renderedBytes_def finalCliBytes_def

lemmas packet_text_defs =
  packet_rendered_def packet_lines_def head_lines_def identity_lines_def authority_lines_def
  execution_line_def packet_provenance_of_def IMPLEMENTATION_PACKET_VERSION_def
  packet_kind_text_def target_text_def int_text_def scope_name_def or_unspecified_def
  contract_line_def repair_lines_def repair_evidence_material_def

lemma sample_guards:
  "identity_refusal (with_place ''w'' ''b'' sample_initial) = None"
  "authority_refusal (with_place ''w'' ''b'' sample_initial) = None"
  "repair_refusal plain_packet_host (with_place ''w'' ''b'' sample_initial) = None"
  by (simp_all add: packet_sample_defs identity_refusal_def authority_refusal_def repair_refusal_def
      issue_target_matches_def scope_acceptable_def first_error_None_iff packet_limit_defs
      utf8_length_def blank_iff js_space_def is_safe_integer_def)

lemma failed_at_sha_facts:
  "is_validation_result_coherent failed_at_sha" "v_status failed_at_sha = Failed"
  "v_headSha failed_at_sha = replicate 40 (CHR ''a'')"
  "h_pullRequestNumber (v_hosted failed_at_sha) = Some 7"
  by code_simp+

lemma sample_sha: "is_sha_any_case (replicate 40 (CHR ''a''))"
  by (simp add: is_sha_any_case_def all_in_def HEX_def)

lemma sample_repair_guards:
  "identity_refusal (with_place ''/w'' ''b'' sample_repair_input) = None"
  "authority_refusal (with_place ''/w'' ''b'' sample_repair_input) = None"
  by (simp_all add: packet_sample_defs identity_refusal_def authority_refusal_def failed_at_sha_facts
      issue_target_matches_def scope_acceptable_def first_error_None_iff packet_limit_defs
      utf8_length_def blank_iff js_space_def is_safe_integer_def)

lemma sample_repair_exact:
  "repair_refusal plain_packet_host (with_place ''/w'' ''b'' sample_repair_input) = None"
  by (simp add: packet_sample_defs repair_refusal_def first_error_None_iff failed_at_sha_facts sample_sha
      repair_is_exact_def repair_evidence_matches_def repair_evidence_material_def packet_limit_defs
      utf8_length_def blank_iff js_space_def is_safe_integer_def)

lemma sample_lengths:
  "length (packet_rendered plain_packet_host (with_place [] [] sample_initial)) \<le> 2000"
  "length (join [CHR 0x0A] (cli_lines sample_initial)) \<le> 2000"
  "length (packet_rendered plain_packet_host (with_place ''/w'' ''b'' sample_repair_input)) \<le> 2000"
  "length (join [CHR 0x0A] (cli_lines sample_repair_input)) \<le> 2000"
  by (simp_all add: packet_text_defs cli_lines_def packet_sample_defs failed_at_sha_facts Let_def
      nat_str.simps)

lemma sample_packets_built:
  "build_implementation_packet plain_packet_host (with_place ''/w'' ''b'' sample_repair_input) =
     Inr (packet_of plain_packet_host (with_place ''/w'' ''b'' sample_repair_input))"
  "packet_guards plain_packet_host (with_place ''w'' ''b'' sample_initial) = None"
  "utf8_length (packet_rendered plain_packet_host (with_place [] [] sample_initial)) \<le> 4000"
  "utf8_length (final_cli_text plain_packet_host (with_place [] [] sample_initial)) \<le> 8002"
proof -
  have bound: "utf8_length s \<le> 4000" if "length s \<le> 2000" for s
    using utf8_length_bound[of s] that by linarith
  note sizes = sample_lengths[THEN bound]
  have nl: "utf8_length [CHR 0x0A] \<le> 2"
    using utf8_length_bound[of "[CHR 0x0A]"] by simp
  show "utf8_length (packet_rendered plain_packet_host (with_place [] [] sample_initial)) \<le> 4000"
    by (rule sizes(1))
  show "utf8_length (final_cli_text plain_packet_host (with_place [] [] sample_initial)) \<le> 8002"
    using sizes(1,2) nl by (simp only: final_cli_text_split with_place_lines utf8_length_append)
  show "packet_guards plain_packet_host (with_place ''w'' ''b'' sample_initial) = None"
    by (simp add: packet_guards_def first_error_None_iff sample_guards)
  have "packet_guards plain_packet_host (with_place ''/w'' ''b'' sample_repair_input) = None"
    by (simp add: packet_guards_def first_error_None_iff sample_repair_guards sample_repair_exact)
  moreover have "utf8_length (final_cli_text plain_packet_host (with_place ''/w'' ''b'' sample_repair_input)) \<le> 8002"
    using sizes(3,4) nl by (simp only: final_cli_text_split with_place_lines utf8_length_append)
  then have "size_refusal plain_packet_host (with_place ''/w'' ''b'' sample_repair_input) = None"
    using sizes(3) by (simp add: size_refusal_None_iff packet_limit_defs)
  ultimately show "build_implementation_packet plain_packet_host (with_place ''/w'' ''b'' sample_repair_input) =
     Inr (packet_of plain_packet_host (with_place ''/w'' ''b'' sample_repair_input))"
    by (simp add: build_packet_iff)
qed

lemma packet_complete_and_bounded_witness:
  "\<exists>u. pk_finalCliText (packet_of plain_packet_host (with_place ''/w'' ''b'' sample_repair_input)) =
     u @ pk_rendered (packet_of plain_packet_host (with_place ''/w'' ''b'' sample_repair_input))"
  using packet_complete_and_bounded[OF sample_packets_built(1)] by blast

lemma repair_packet_is_evidenced_witness:
  "present_and (\<lambda>r. re_headSha r = replicate 40 (CHR ''a'')) (ip_repair (with_place ''/w'' ''b'' sample_repair_input))"
proof -
  have "ip_kind (with_place ''/w'' ''b'' sample_repair_input) \<noteq> Packet_initial"
    by code_simp
  note repair_packet_is_evidenced[OF sample_packets_built(1) this]
  then show ?thesis
    by (auto simp: present_and_iff packet_of_def with_place_def sample_repair_input_def
        sample_packet_input_def sample_repair_def failed_at_sha_def)
qed

lemma preflight_accepts_final_witness:
  "build_implementation_packet plain_packet_host (with_place ''/w'' ''b'' sample_initial) =
     Inr (packet_of plain_packet_host (with_place ''/w'' ''b'' sample_initial))"
proof -
  let ?h = plain_packet_host and ?w = "replicate workspacePathBytes (CHR ''w'')"
    and ?b = "replicate branchBytes (CHR ''b'')"
  have input: "pi_workspacePath (ip_identity sample_initial) = []" "pi_branch (ip_identity sample_initial) = []"
    "pi_baseSha (ip_identity sample_initial) \<noteq> []"
    by code_simp+
  have fits: "\<not> blank ''/w''" "utf8_length ''/w'' \<le> 4096" "\<not> blank ''b''" "utf8_length ''b'' \<le> 1024"
    by code_simp+
  have "packet_guards ?h (with_place ?w ?b sample_initial) = None"
    by (rule with_place_guards[OF _ _ _ _ sample_packets_built(2)])
       (simp_all only: placeholders_not_blank not_False_eq_True utf8_length_replicate order_refl)
  moreover have "size_refusal ?h (with_place ?w ?b sample_initial) = None"
    unfolding with_place_sizes utf8_length_replicate
    using sample_packets_built(3,4)
    by (simp add: workspacePathBytes_def branchBytes_def renderedBytes_def finalCliBytes_def)
  moreover have "sample_initial\<lparr>ip_identity := preflight_identity (ip_identity sample_initial)\<rparr> =
      with_place ?w ?b sample_initial"
    using input by (simp add: preflight_identity_def with_place_def)
  ultimately have "preflight_implementation_packet ?h sample_initial =
      Inr (packet_of ?h (with_place ?w ?b sample_initial))"
    by (simp add: preflight_implementation_packet_def build_packet_iff)
  from preflight_accepts_final[OF this input fits] show ?thesis .
qed

end
