(* ===== verification/GitHub_Types.thy ===== *)
theory GitHub_Types
  imports Implementation_Packet
begin

text \<open>
  The normalised GitHub state of \<^verbatim>\<open>src/adapters/github.ts\<close>: pull requests, checks, reviews,
  conversations and the live snapshot of an issue. Problem codes and hand-offs are in
  \<^verbatim>\<open>Implementation_Packet\<close>. An optional member that may also be \<open>null\<close> is one option here: the
  readers treat both alike.
\<close>

datatype pull_state = Pull_open | Pull_merged | Pull_closed

type_synonym repository_ref = "string \<times> string"

record live_pull =
  lp_number :: int
  lp_headSha :: string
  lp_baseSha :: string
  lp_state :: pull_state
  lp_id :: string
  lp_title :: string
  lp_url :: string
  lp_isDraft :: bool
  lp_mergeable :: "bool option"
  lp_mergeStateStatus :: "string option"
  lp_updatedAt :: string
  lp_mergeCommitSha :: "string option"
  lp_headRef :: "string option"
  lp_headRepository :: "repository_ref option"
  lp_baseRef :: "string option"
  lp_baseRepository :: "repository_ref option"

datatype check_state = Check_pending | Check_passing | Check_failing | Check_unknown

record check_snapshot =
  ck_id :: string
  ck_name :: string
  ck_state :: check_state
  ck_url :: "string option"
  ck_updatedAt :: "string option"

record check_summary =
  cs_availability :: availability
  cs_overall :: overall_checks
  cs_checks :: "check_snapshot list"

datatype review_state =
  Review_approved | Review_changes_requested | Review_commented | Review_dismissed | Review_unknown

record review_snapshot =
  rs_id :: string
  rs_author :: "string option"
  rs_state :: review_state
  rs_commitSha :: "string option"
  rs_submittedAt :: "string option"
  rs_url :: string
  rs_fresh :: bool

datatype review_decision =
  Decision_approved | Decision_changes_requested | Decision_review_required | Decision_none

record review_summary =
  rv_decision :: review_decision
  rv_latestByAuthor :: "review_snapshot list"
  rv_unresolvedThreads :: "int option"

datatype conversation_kind = Conversation_comment | Conversation_review | Conversation_review_comment

record conversation_entry =
  ce_id :: string
  ce_scope :: handoff_scope
  ce_kind :: conversation_kind
  ce_author :: "string option"
  ce_body :: string
  ce_createdAt :: string
  ce_updatedAt :: string
  ce_url :: string

record github_problem =
  gp_code :: github_problem_code
  gp_sourceId :: "string option"

datatype issue_state = Issue_open | Issue_closed

record live_snapshot =
  lv_repository :: repository_ref
  lv_defaultBranch :: "string option"
  lv_defaultBranchHeadSha :: "string option"
  lv_issue :: packet_issue
  lv_issueState :: issue_state
  lv_issueUrl :: string
  lv_issueCreatedAt :: string
  lv_pullRequest :: "live_pull option"
  lv_headSha :: "string option"
  lv_checks :: check_summary
  lv_reviews :: review_summary
  lv_conversations :: "conversation_entry list"
  lv_handoff :: "agent_handoff option"
  lv_problems :: "github_problem list"
  lv_observedAt :: string

text \<open>What the original implementation authority reads of a snapshot.\<close>

definition snapshot_issue :: "live_snapshot \<Rightarrow> issue_snapshot" where
  "snapshot_issue s =
     \<lparr>iss_repository = lv_repository s, iss_issue = lv_issue s, iss_handoff = lv_handoff s,
      iss_problems = map gp_code (lv_problems s), iss_hasPullRequest = (lv_pullRequest s \<noteq> None),
      iss_headSha = lv_headSha s\<rparr>"

text \<open>\<open>repository_ref\<close> compared the way the code compares owners and repositories.\<close>

definition same_repository_ref :: "repository_ref option \<Rightarrow> string \<Rightarrow> string \<Rightarrow> bool" where
  "same_repository_ref r owner repo =
     present_and (\<lambda>(a, b). lower a = lower owner \<and> lower b = lower repo) r"

end
