(* ===== verification/Dispatch_Queue.thy ===== *)
theory Dispatch_Queue
  imports Json_Text Interfaces Repair_Admission Execution_Profiles
begin

text \<open>
  The dispatch protocol, \<^verbatim>\<open>src/dispatch/queue.ts\<close>: the queue grammar the Steward writes in a
  control comment, the runtime claim a dispatcher keeps in its own comment, and the claim
  protocol (list, create, reread) that makes one dispatcher the owner. The comments of the
  control issue are a list; \<open>Date.parse\<close>, \<open>toISOString\<close> (\<open>None\<close> where it throws) and the
  identifiers are arguments.
\<close>

section \<open>Data\<close>

datatype dispatch_route = Route_codex | Route_chatgpt | Route_work | Route_human

record dispatch_entry =
  de_issue :: int
  de_route :: dispatch_route
  de_profile :: string
  de_authority :: "repair_task_shape_authority option"

datatype claim_state =
  Claim_claimed | Claim_running | Claim_merge_ready | Claim_needs_human | Claim_failed | Claim_retired

record dispatch_claim =
  dc_issue :: int
  dc_claimId :: string
  dc_runId :: "string option"
  dc_profile :: string
  dc_authority :: "repair_task_shape_authority option"
  dc_state :: claim_state
  dc_claimedAt :: string
  dc_heartbeatAt :: string
  dc_leaseUntil :: string

datatype dispatch_error =
    No_queue_marker | Duplicate_queue_marker | No_ready_list | Invalid_queue_syntax
  | Duplicate_queue_key | Incomplete_record | Invalid_issue | Unknown_route | Invalid_profile
  | Unsupported_profile | Duplicate_issue | Invalid_queue_authority
  | Runtime_not_json | Runtime_not_object | Runtime_fields | Runtime_authority
  | Runtime_values | Runtime_timestamps | Multiple_claims | Runtime_format
  | Not_routed_to_codex | Lacks_authority | Invalid_lease | Competing_claim | Invalid_clock
  | Claim_not_canonical

definition DISPATCH_QUEUE_MARKER :: string where
  "DISPATCH_QUEUE_MARKER = ''<!-- issue-dispatch-queue:v1 -->''"

definition DISPATCH_RUNTIME_MARKER :: string where
  "DISPATCH_RUNTIME_MARKER = ''<!-- issue-dispatch-runtime:v1 -->''"

definition same_authority ::
  "repair_task_shape_authority option \<Rightarrow> repair_task_shape_authority option \<Rightarrow> bool" where
  "same_authority a b =
     (case (a, b) of
        (Some x, Some y) \<Rightarrow> au_revision x = au_revision y \<and> au_shape x = au_shape y
      | (None, None) \<Rightarrow> True
      | _ \<Rightarrow> False)"

definition same_dispatch_runtime_claim :: "dispatch_claim \<Rightarrow> dispatch_claim \<Rightarrow> bool" where
  "same_dispatch_runtime_claim a b \<longleftrightarrow>
     dc_issue a = dc_issue b \<and> dc_claimId a = dc_claimId b \<and> dc_runId a = dc_runId b \<and>
     dc_profile a = dc_profile b \<and> same_authority (dc_authority a) (dc_authority b) \<and>
     dc_state a = dc_state b \<and> dc_claimedAt a = dc_claimedAt b \<and>
     dc_heartbeatAt a = dc_heartbeatAt b \<and> dc_leaseUntil a = dc_leaseUntil b"

lemma same_authority_iff [simp]: "same_authority a b \<longleftrightarrow> a = b"
  by (auto simp: same_authority_def split: option.splits)

lemma same_dispatch_runtime_claim_iff [simp]: "same_dispatch_runtime_claim a b \<longleftrightarrow> a = b"
  by (cases a; cases b) (simp add: same_dispatch_runtime_claim_def)

definition has_valid_dispatch_authority :: "dispatch_entry \<Rightarrow> bool" where
  "has_valid_dispatch_authority e = present_and is_repair_task_shape_authority (de_authority e)"

definition supported_profile :: "string \<Rightarrow> bool" where
  "supported_profile s \<longleftrightarrow> s \<in> set (map profile_text EXECUTION_PROFILE_NAMES)"

definition positive_integer :: "string \<Rightarrow> int option" where
  "positive_integer s =
     (if s = [] \<or> \<not> list_all is_digit s then None
      else if is_safe_integer (int (digits_value s)) \<and> digits_value s > 0
      then Some (int (digits_value s)) else None)"

section \<open>The queue grammar\<close>

datatype queue_key = Key_issue | Key_route | Key_profile | Key_revision | Key_shape

fun key_text :: "queue_key \<Rightarrow> string" where
  "key_text Key_issue = ''issue''"
| "key_text Key_route = ''route''"
| "key_text Key_profile = ''profile''"
| "key_text Key_revision = ''task-shape-revision''"
| "key_text Key_shape = ''task-shape''"

definition key_of :: "string \<Rightarrow> queue_key option" where
  "key_of s =
     find (\<lambda>k. key_text k = s) [Key_issue, Key_route, Key_profile, Key_revision, Key_shape]"

text \<open>The record being read: the keys seen so far.\<close>

type_synonym queue_draft = "(queue_key \<times> string) list"

fun route_of :: "string \<Rightarrow> dispatch_route option" where
  "route_of s =
     (if s = ''codex'' then Some Route_codex else if s = ''chatgpt'' then Some Route_chatgpt
      else if s = ''work'' then Some Route_work else if s = ''human'' then Some Route_human
      else None)"

text \<open>\<open>key: token\<close> up to the end of the line.\<close>

definition read_pair :: "string \<Rightarrow> (queue_key \<times> string) option" where
  "read_pair s =
     (let k = takeWhile (\<lambda>c. c \<noteq> CHR '':'') s;
          t = trim_start (tl (dropWhile (\<lambda>c. c \<noteq> CHR '':'') s));
          tok = takeWhile (\<lambda>c. \<not> js_space c) t
      in if dropWhile (\<lambda>c. c \<noteq> CHR '':'') s = [] \<or> tok = [] \<or>
            \<not> list_all js_space (dropWhile (\<lambda>c. \<not> js_space c) t)
         then None else map_option (\<lambda>key. (key, tok)) (key_of k))"

text \<open>The first line of a record: a dash, white space and a pair.\<close>

definition read_item :: "string \<Rightarrow> (queue_key \<times> string) option" where
  "read_item s =
     (case trim_start s of
        c # d # t \<Rightarrow> if c = CHR ''-'' \<and> js_space d then read_pair (trim_start (d # t)) else None
      | _ \<Rightarrow> None)"

definition read_property :: "string \<Rightarrow> (queue_key \<times> string) option" where
  "read_property s =
     (case s of
        c # t \<Rightarrow> if js_space c then read_pair (trim_start s) else None
      | [] \<Rightarrow> None)"

fun split_lf :: "string \<Rightarrow> string list" where
  "split_lf [] = [[]]"
| "split_lf (c # s) =
     (if c = CHR 0x0A then [] # split_lf s
      else case split_lf s of l # ls \<Rightarrow> (c # l) # ls | [] \<Rightarrow> [[c]])"

definition chop_cr :: "string \<Rightarrow> string" where
  "chop_cr l = (if l \<noteq> [] \<and> last l = CHR 0x0D then butlast l else l)"

text \<open>\<open>split(/\<close>CR\<open>?\<close>LF\<open>/)\<close>: the last line keeps a carriage return.\<close>

definition split_lines :: "string \<Rightarrow> string list" where
  "split_lines s =
     (let ls = split_lf s in map chop_cr (butlast ls) @ [last ls])"

definition draft_keys_ok :: "queue_draft \<Rightarrow> bool" where
  "draft_keys_ok d \<longleftrightarrow>
     set (map fst d) = {Key_issue, Key_route, Key_profile} \<or>
     set (map fst d) = {Key_issue, Key_route, Key_profile, Key_revision, Key_shape}"

definition draft_text :: "queue_draft \<Rightarrow> queue_key \<Rightarrow> string" where
  "draft_text d k = (case map_of d k of None \<Rightarrow> [] | Some s \<Rightarrow> s)"

text \<open>The authority of a record: \<open>None\<close> when it is invalid.\<close>

definition draft_authority :: "queue_draft \<Rightarrow> repair_task_shape_authority option option" where
  "draft_authority d =
     (case map_of d Key_shape of
        None \<Rightarrow> Some None
      | Some s \<Rightarrow>
          (case task_shape_of s of
             None \<Rightarrow> None
           | Some t \<Rightarrow>
               if blank (draft_text d Key_revision) then None
               else Some (Some \<lparr>au_revision = draft_text d Key_revision, au_shape = t\<rparr>)))"

definition profile_text_ok :: "string \<Rightarrow> bool" where
  "profile_text_ok s \<longleftrightarrow>
     \<not> blank s \<and> list_all (\<lambda>c. \<not> js_space c \<and> c \<noteq> CHR '':'' \<and> c \<noteq> CHR ''#'') s"

definition finish_record ::
  "queue_draft option \<Rightarrow> dispatch_entry list \<Rightarrow> dispatch_error + dispatch_entry list" where
  "finish_record current es =
     (case current of
        None \<Rightarrow> Inr es
      | Some d \<Rightarrow>
          if \<not> draft_keys_ok d then Inl Incomplete_record
          else (case positive_integer (draft_text d Key_issue) of
            None \<Rightarrow> Inl Invalid_issue
          | Some n \<Rightarrow>
              (case route_of (draft_text d Key_route) of
                 None \<Rightarrow> Inl Unknown_route
               | Some r \<Rightarrow>
                   if \<not> profile_text_ok (draft_text d Key_profile) then Inl Invalid_profile
                   else if \<not> supported_profile (draft_text d Key_profile) then Inl Unsupported_profile
                   else if n \<in> set (map de_issue es) then Inl Duplicate_issue
                   else (case draft_authority d of
                     None \<Rightarrow> Inl Invalid_queue_authority
                   | Some a \<Rightarrow>
                       Inr (es @ [\<lparr>de_issue = n, de_route = r,
                                   de_profile = draft_text d Key_profile, de_authority = a\<rparr>])))))"

record queue_state =
  qs_started :: bool
  qs_current :: "queue_draft option"
  qs_entries :: "dispatch_entry list"

definition queue_pair :: "queue_state \<Rightarrow> string \<Rightarrow> dispatch_error + queue_state" where
  "queue_pair q line =
     (case (read_property line, qs_current q) of
        (Some (k, v), Some d) \<Rightarrow>
          if map_of d k \<noteq> None then Inl Duplicate_queue_key
          else Inr (q\<lparr>qs_current := Some (d @ [(k, v)])\<rparr>)
      | _ \<Rightarrow> Inl Invalid_queue_syntax)"

definition queue_line :: "queue_state \<Rightarrow> string \<Rightarrow> dispatch_error + queue_state" where
  "queue_line q raw =
     (let line = trim_end raw in
      if blank line \<or> starts_with (trim_start line) ''#'' then Inr q
      else if \<not> qs_started q
      then (if line = ''ready:'' then Inr (q\<lparr>qs_started := True\<rparr>) else Inl No_ready_list)
      else case read_item line of
        Some p \<Rightarrow>
          (case finish_record (qs_current q) (qs_entries q) of
             Inl e \<Rightarrow> Inl e
           | Inr es \<Rightarrow> Inr (q\<lparr>qs_entries := es, qs_current := Some [p]\<rparr>))
      | None \<Rightarrow> queue_pair q line)"

fun queue_lines :: "queue_state \<Rightarrow> string list \<Rightarrow> dispatch_error + queue_state" where
  "queue_lines q [] = Inr q"
| "queue_lines q (l # ls) =
     (case queue_line q l of Inl e \<Rightarrow> Inl e | Inr r \<Rightarrow> queue_lines r ls)"

definition empty_queue :: queue_state where
  "empty_queue = \<lparr>qs_started = False, qs_current = None, qs_entries = []\<rparr>"

definition parse_queue_body :: "string \<Rightarrow> dispatch_error + dispatch_entry list" where
  "parse_queue_body text =
     (case queue_lines empty_queue (split_lines text) of
        Inl e \<Rightarrow> Inl e
      | Inr q \<Rightarrow>
          if \<not> qs_started q then Inl No_ready_list
          else finish_record (qs_current q) (qs_entries q))"

definition parse_dispatch_queue :: "string \<Rightarrow> dispatch_error + dispatch_entry list" where
  "parse_dispatch_queue body =
     (case index_of body DISPATCH_QUEUE_MARKER of
        None \<Rightarrow> Inl No_queue_marker
      | Some i \<Rightarrow>
          (let rest = drop (i + length DISPATCH_QUEUE_MARKER) body in
           if contains rest DISPATCH_QUEUE_MARKER then Inl Duplicate_queue_marker
           else parse_queue_body rest))"

section \<open>The runtime claim as text\<close>

fun claim_state_text :: "claim_state \<Rightarrow> string" where
  "claim_state_text Claim_claimed = ''claimed''"
| "claim_state_text Claim_running = ''running''"
| "claim_state_text Claim_merge_ready = ''merge_ready''"
| "claim_state_text Claim_needs_human = ''needs_human''"
| "claim_state_text Claim_failed = ''failed''"
| "claim_state_text Claim_retired = ''retired''"

definition claim_state_of :: "string \<Rightarrow> claim_state option" where
  "claim_state_of s =
     find (\<lambda>k. claim_state_text k = s)
       [Claim_claimed, Claim_running, Claim_merge_ready, Claim_needs_human, Claim_failed,
        Claim_retired]"

definition optional_text :: "string option \<Rightarrow> json" where
  "optional_text s = (case s of None \<Rightarrow> JNull | Some v \<Rightarrow> JString v)"

definition authority_json :: "repair_task_shape_authority \<Rightarrow> json" where
  "authority_json a =
     JObject [(''revision'', JString (au_revision a)), (''shape'', JString (shape_name (au_shape a)))]"

text \<open>The object, its members in the order the code builds them.\<close>

definition claim_json :: "dispatch_claim \<Rightarrow> json" where
  "claim_json c =
     JObject
       ([(''issue'', JNumber (dc_issue c)), (''claimId'', JString (dc_claimId c)),
         (''runId'', optional_text (dc_runId c)), (''profile'', JString (dc_profile c))] @
        (case dc_authority c of
           None \<Rightarrow> [] | Some a \<Rightarrow> [(''repairTaskShapeAuthority'', authority_json a)]) @
        [(''state'', JString (claim_state_text (dc_state c))),
         (''claimedAt'', JString (dc_claimedAt c)), (''heartbeatAt'', JString (dc_heartbeatAt c)),
         (''leaseUntil'', JString (dc_leaseUntil c))])"

definition runtime_prefix :: string where
  "runtime_prefix = DISPATCH_RUNTIME_MARKER @ [CHR 0x0A, CHR 0x0A] @ ''```json'' @ [CHR 0x0A]"

definition runtime_suffix :: string where
  "runtime_suffix = CHR 0x0A # ''```''"

definition render_dispatch_runtime :: "dispatch_claim \<Rightarrow> string" where
  "render_dispatch_runtime c = runtime_prefix @ json_text_2 (claim_json c) @ runtime_suffix"

definition legacy_fields :: "string list" where
  "legacy_fields =
     [''claimId'', ''claimedAt'', ''heartbeatAt'', ''issue'', ''leaseUntil'', ''profile'',
      ''runId'', ''state'']"

definition key_list :: "(string \<times> json) list \<Rightarrow> string" where
  "key_list ms = join '','' (sort (map fst ms))"

definition runtime_fields_ok :: "(string \<times> json) list \<Rightarrow> bool" where
  "runtime_fields_ok ms \<longleftrightarrow>
     key_list ms =
       join '','' (if js_get ms ''repairTaskShapeAuthority'' \<noteq> None
                 then sort (legacy_fields @ [''repairTaskShapeAuthority'']) else legacy_fields)"

text \<open>Exactly the two keys, and both valid.\<close>

definition exact_authority :: "json \<Rightarrow> repair_task_shape_authority option" where
  "exact_authority v =
     (case v of
        JObject ms \<Rightarrow>
          if key_list ms \<noteq> ''revision,shape'' then None
          else (case (js_get ms ''revision'', js_get ms ''shape'') of
            (Some (JString r), Some (JString s)) \<Rightarrow>
              if blank r then None
              else map_option (\<lambda>t. \<lparr>au_revision = r, au_shape = t\<rparr>) (task_shape_of s)
          | _ \<Rightarrow> None)
      | _ \<Rightarrow> None)"

definition filled_text :: "json option \<Rightarrow> string option" where
  "filled_text v = (case v of Some (JString s) \<Rightarrow> if blank s then None else Some s | _ \<Rightarrow> None)"

definition issue_value :: "json option \<Rightarrow> int option" where
  "issue_value v =
     (case v of
        Some (JNumber n) \<Rightarrow> if is_safe_integer n \<and> 1 \<le> n then Some n else None
      | _ \<Rightarrow> None)"

text \<open>\<open>runId\<close> is null or a filled text.\<close>

definition run_id_value :: "json option \<Rightarrow> string option option" where
  "run_id_value v =
     (if v = Some JNull then Some None else map_option Some (filled_text v))"

definition state_value :: "json option \<Rightarrow> claim_state option" where
  "state_value v = (case v of Some (JString s) \<Rightarrow> claim_state_of s | _ \<Rightarrow> None)"

definition profile_value :: "json option \<Rightarrow> string option" where
  "profile_value v =
     Option.bind (filled_text v) (\<lambda>s. if supported_profile s then Some s else None)"

definition claim_values ::
  "(string \<times> json) list \<Rightarrow> repair_task_shape_authority option \<Rightarrow> dispatch_claim option" where
  "claim_values ms a =
     (case (issue_value (js_get ms ''issue''), filled_text (js_get ms ''claimId''),
            profile_value (js_get ms ''profile''), run_id_value (js_get ms ''runId'')) of
        (Some n, Some c, Some p, Some r) \<Rightarrow>
          (case (filled_text (js_get ms ''claimedAt''), filled_text (js_get ms ''heartbeatAt''),
                 filled_text (js_get ms ''leaseUntil''), state_value (js_get ms ''state'')) of
             (Some x, Some y, Some z, Some s) \<Rightarrow>
               Some \<lparr>dc_issue = n, dc_claimId = c, dc_runId = r, dc_profile = p, dc_authority = a,
                     dc_state = s, dc_claimedAt = x, dc_heartbeatAt = y, dc_leaseUntil = z\<rparr>
           | _ \<Rightarrow> None)
      | _ \<Rightarrow> None)"

record dispatch_host =
  dh_date :: "string \<Rightarrow> int option"
  dh_iso :: "int \<Rightarrow> string option"

definition claim_of_members ::
  "dispatch_host \<Rightarrow> (string \<times> json) list \<Rightarrow> dispatch_error + dispatch_claim" where
  "claim_of_members h ms =
     (if \<not> runtime_fields_ok ms then Inl Runtime_fields
      else case map_option exact_authority (js_get ms ''repairTaskShapeAuthority'') of
        Some None \<Rightarrow> Inl Runtime_authority
      | a \<Rightarrow>
          (case claim_values ms (Option.bind a (\<lambda>x. x)) of
             None \<Rightarrow> Inl Runtime_values
           | Some c \<Rightarrow>
               if \<exists>t \<in> set [dc_claimedAt c, dc_heartbeatAt c, dc_leaseUntil c]. dh_date h t = None
               then Inl Runtime_timestamps else Inr c))"

definition ends_with :: "string \<Rightarrow> string \<Rightarrow> bool" where
  "ends_with s p \<longleftrightarrow> length p \<le> length s \<and> drop (length s - length p) s = p"

text \<open>\<open>None\<close> is the code's \<open>null\<close>: a body that is not a runtime comment.\<close>

definition parse_dispatch_runtime ::
  "dispatch_host \<Rightarrow> string \<Rightarrow> dispatch_error + dispatch_claim option" where
  "parse_dispatch_runtime h body =
     (if \<not> starts_with body runtime_prefix \<or> \<not> ends_with body runtime_suffix then Inr None
      else case json_parse (drop (length runtime_prefix) (take (length body - 4) body)) of
        None \<Rightarrow> Inl Runtime_not_json
      | Some (JObject ms) \<Rightarrow> map_sum id Some (claim_of_members h ms)
      | Some _ \<Rightarrow> Inl Runtime_not_object)"

record runtime_comment =
  rc_id :: string
  rc_body :: string

definition is_marked :: "runtime_comment \<Rightarrow> bool" where
  "is_marked c \<longleftrightarrow> contains (rc_body c) DISPATCH_RUNTIME_MARKER"

definition select_dispatch_runtime ::
  "dispatch_host \<Rightarrow> runtime_comment list \<Rightarrow> dispatch_error + (string \<times> dispatch_claim) option" where
  "select_dispatch_runtime h cs =
     (case filter is_marked cs of
        [] \<Rightarrow> Inr None
      | [c] \<Rightarrow>
          (case parse_dispatch_runtime h (rc_body c) of
             Inl e \<Rightarrow> Inl e
           | Inr None \<Rightarrow> Inl Runtime_format
           | Inr (Some claim) \<Rightarrow> Inr (Some (rc_id c, claim)))
      | _ \<Rightarrow> Inl Multiple_claims)"

section \<open>Claiming\<close>

record claim_options =
  co_now :: string
  co_leaseDurationMs :: int
  co_claimId :: string

definition lease_until :: "dispatch_host \<Rightarrow> string \<Rightarrow> int \<Rightarrow> string option" where
  "lease_until h now lease = Option.bind (dh_date h now) (\<lambda>t. dh_iso h (t + lease))"

definition new_claim :: "dispatch_entry \<Rightarrow> claim_options \<Rightarrow> string \<Rightarrow> dispatch_claim" where
  "new_claim e p lease =
     \<lparr>dc_issue = de_issue e, dc_claimId = co_claimId p, dc_runId = None, dc_profile = de_profile e,
      dc_authority = de_authority e, dc_state = Claim_claimed, dc_claimedAt = co_now p,
      dc_heartbeatAt = co_now p, dc_leaseUntil = lease\<rparr>"

text \<open>The checks before the first read, and what that read decides: the claim to write.\<close>

definition claim_precondition :: "dispatch_entry \<Rightarrow> claim_options \<Rightarrow> dispatch_error option" where
  "claim_precondition e p =
     first_error
       [fail_if (de_route e \<noteq> Route_codex) Not_routed_to_codex,
        fail_if (\<not> has_valid_dispatch_authority e) Lacks_authority,
        fail_if (\<not> is_safe_integer (co_leaseDurationMs p) \<or> co_leaseDurationMs p < 1) Invalid_lease]"

definition prepare_claim ::
  "dispatch_host \<Rightarrow> runtime_comment list \<Rightarrow> dispatch_entry \<Rightarrow> claim_options \<Rightarrow>
   dispatch_error + dispatch_claim" where
  "prepare_claim h cs e p =
     (case claim_precondition e p of
        Some x \<Rightarrow> Inl x
      | None \<Rightarrow>
          (case select_dispatch_runtime h cs of
             Inl x \<Rightarrow> Inl x
           | Inr (Some _) \<Rightarrow> Inl Competing_claim
           | Inr None \<Rightarrow>
               (case lease_until h (co_now p) (co_leaseDurationMs p) of
                  None \<Rightarrow> Inl Invalid_clock
                | Some l \<Rightarrow> Inr (new_claim e p l))))"

text \<open>The reread after the write.\<close>

definition confirm_claim ::
  "dispatch_host \<Rightarrow> runtime_comment list \<Rightarrow> string \<Rightarrow> dispatch_claim \<Rightarrow>
   dispatch_error + (string \<times> dispatch_claim)" where
  "confirm_claim h cs created claim =
     (case select_dispatch_runtime h cs of
        Inl x \<Rightarrow> Inl x
      | Inr None \<Rightarrow> Inl Claim_not_canonical
      | Inr (Some (i, c)) \<Rightarrow>
          if i \<noteq> created \<or> \<not> same_dispatch_runtime_claim c claim then Inl Claim_not_canonical
          else Inr (i, c))"

text \<open>
  The whole claim when nobody interferes: \<open>cs\<close> is what the first read returns, \<open>cs'\<close> what
  the reread returns after the comment \<open>created\<close> was written.
\<close>

definition claim_dispatch_entry ::
  "dispatch_host \<Rightarrow> runtime_comment list \<Rightarrow> string \<Rightarrow> (dispatch_claim \<Rightarrow> runtime_comment list) \<Rightarrow>
   dispatch_entry \<Rightarrow> claim_options \<Rightarrow> dispatch_error + (string \<times> dispatch_claim)" where
  "claim_dispatch_entry h cs created reread e p =
     (case prepare_claim h cs e p of
        Inl x \<Rightarrow> Inl x
      | Inr claim \<Rightarrow> confirm_claim h (reread claim) created claim)"

end
