(* ===== verification/Review_Admission.thy ===== *)
theory Review_Admission
  imports State_Machine Telemetry_Projection GitHub_Types Dispatch_Queue
begin

text \<open>
  The pure decisions of the review loop: what a thrown value carries, the conflicts of a live
  pull request with a run (\<^verbatim>\<open>src/workflow/pull-request-identity.ts\<close>), the run a workspace failure
  parks (\<^verbatim>\<open>src/workflow/bootstrap-failure.ts\<close>), the waits of native evidence
  (\<^verbatim>\<open>src/oracle/native-reviewer.ts\<close>), and the admission, budget and packet helpers of
  \<^verbatim>\<open>src/reviewers/loop.ts\<close>. Reasons are named by constructors; their text is \<open>rh_text\<close>.
\<close>

section \<open>Thrown values and reasons\<close>

text \<open>\<open>Admission_refusal runSuperseded authorityUnknown\<close> and \<open>Guard_failure executor\<close> are the two
  error classes of \<^verbatim>\<open>src/adapters/agent.ts\<close> the callers tell apart.\<close>

datatype thrown_kind =
    Plain_error
  | Admission_refusal bool bool
  | Guard_failure "executor_identity option"

record thrown =
  th_kind :: thrown_kind
  th_message :: string
  th_code :: "string option"
  th_retryable :: bool

datatype identity_reason =
    Accepted_pull_differs int | Live_pull_unavailable | Live_pull_not_owned int | Live_pull_moved int
  | Original_scope_changed | Issue_identity_differs | Exact_identity_differs run live_snapshot
  | Validation_not_coherent | Authority_unresolved string | Validation_not_active

datatype fault_reason =
    Transition_refused transition_error | Transition_code transition_error
  | Identity_conflict identity_reason | Snapshot_refused snapshot_error | Clock_unusable | Value_missing
  | Plan_outside_target | Planning_callback_missing | Mutation_check_missing | Publication_missing
  | Persistence_changed | Missing_candidate_head | Missing_workspace_proof | Transport_incompatible
  | Verification_unavailable
  | Luna_transport | No_workspace_authority | No_run_found | Wrong_run_state workflow_state
  | Issue_target_required | Attempts_not_positive

datatype refusal_reason =
    Handoff_unconfirmed | Handoff_changed | Mission_unconfirmed | Publication_unconfirmed
  | Persistence_unconfirmed | Persistence_superseded | Planning_unadmitted | Native_authority_changed
  | Consumption_changed | Publication_authority_changed

datatype repair_reason =
    Native_binding_removed | Lead_unavailable | Shared_budget_changed
  | Failed_authority_unavailable string | Failed_validation_stale | Budget_exhausted int
  | Nothing_actionable | Failure_unbound | Head_changed_before_fix
  | Predecessor_refused repair_identity_error bool | Legacy_app_server bool
  | Repair_parked repair_escalation | Profile_unavailable repair_profile
  | Native_policy_drifted | Native_boundaries_missing | Origin_unqualified | Lead_observed_only
  | Lead_stops lead_acceptance | Lead_awaits_completion | Execution_changed | Origin_changed
  | Lead_reference_missing | Packet_refusal_reason packet_refusal | Admission_unbound | Packet_changed

datatype worker_reason =
    Governed_preflight_failed string | Governed_unavailable | Governed_changed | Governed_reentry_action
  | Worker_refused string | Handoff_not_qualified string | Implementation_failed string
  | No_new_head | No_new_head_evidence | Live_packet_changed
  | Fix_head_differs "string option" string | Pull_disappeared | Fresh_validation_required

datatype loop_reason =
    Budget_reached int | No_live_head target | Live_head_differs string "string option"
  | Native_result_retained | Native_qualification_changed
  | Reviewer_head_differs string "string option" | Cas_unavailable | Stale_snapshot

datatype review_reason =
    Identity identity_reason
  | Fault fault_reason
  | Refusal refusal_reason
  | Repair repair_reason
  | Working worker_reason
  | Reviewing loop_reason

record review_host =
  rh_oracle :: oracle_host
  rh_packet :: packet_host
  rh_packet_digest :: "implementation_packet \<Rightarrow> string"
  rh_execution_digest :: "resolved_execution option \<Rightarrow> string"
  rh_validation_json :: "validation_result \<Rightarrow> string"
  rh_dates :: dispatch_host
  rh_text :: "review_reason \<Rightarrow> string"

definition plain_error :: "review_host \<Rightarrow> fault_reason \<Rightarrow> thrown" where
  "plain_error h r =
     \<lparr>th_kind = Plain_error, th_message = rh_text h (Fault r), th_code = None, th_retryable = False\<rparr>"

definition admission_refusal :: "review_host \<Rightarrow> refusal_reason \<Rightarrow> bool \<Rightarrow> bool \<Rightarrow> thrown" where
  "admission_refusal h r superseded unknown =
     \<lparr>th_kind = Admission_refusal superseded unknown, th_message = rh_text h (Refusal r),
      th_code = Some ''EXECUTION_ADMISSION_REFUSED'', th_retryable = False\<rparr>"

definition transition_fault :: "review_host \<Rightarrow> transition_error \<Rightarrow> thrown" where
  "transition_fault h x =
     (plain_error h (Transition_refused x))\<lparr>th_code := Some (rh_text h (Fault (Transition_code x)))\<rparr>"

fun is_admission_refusal :: "thrown_kind \<Rightarrow> bool" where
  "is_admission_refusal (Admission_refusal _ _) = True"
| "is_admission_refusal _ = False"

fun is_guard_failure :: "thrown_kind \<Rightarrow> bool" where
  "is_guard_failure (Guard_failure _) = True"
| "is_guard_failure _ = False"

definition in_parentheses :: "string option \<Rightarrow> string" where
  "in_parentheses c = (case c of None \<Rightarrow> [] | Some s \<Rightarrow> '' ('' @ s @ '')'')"

definition error_code :: "thrown \<Rightarrow> string option" where
  "error_code x = (case th_code x of Some [] \<Rightarrow> None | c \<Rightarrow> c)"

definition render_failure :: "string \<Rightarrow> thrown \<Rightarrow> string" where
  "render_failure what x = what @ in_parentheses (error_code x) @ '': '' @ th_message x"

section \<open>Transitions with a reason\<close>

definition transition ::
  "review_host \<Rightarrow> run \<Rightarrow> transition_input \<Rightarrow> string \<Rightarrow> active_validation option \<Rightarrow> thrown + run" where
  "transition h r i now active =
     (case apply_transition (rh_oracle h) r i now active of
        Inl x \<Rightarrow> Inl (transition_fault h x)
      | Inr s \<Rightarrow> Inr s)"

definition reasoned :: "transition_type \<Rightarrow> string \<Rightarrow> transition_input" where
  "reasoned t reason = (bare_input t)\<lparr>in_reason := Some reason\<rparr>"

definition escalation :: "string \<Rightarrow> string \<Rightarrow> string list \<Rightarrow> transition_input" where
  "escalation reason evidence choices =
     (reasoned T_escalate reason)\<lparr>in_interruptEvidence := Some evidence, in_interruptChoices := Some choices\<rparr>"

section \<open>Workspace failures\<close>

definition bootstrap_reason :: "thrown \<Rightarrow> string" where
  "bootstrap_reason x = ''Implementation bootstrap failed'' @ in_parentheses (th_code x) @ '': '' @ th_message x"

definition bootstrap_failure_input :: "thrown \<Rightarrow> executor_identity option \<Rightarrow> transition_input" where
  "bootstrap_failure_input x executor =
     (escalation (bootstrap_reason x) (bootstrap_reason x)
        [''Resolve the workspace identity and retry'', CANCEL_RUN_DECISION])\<lparr>in_executor := executor\<rparr>"

definition create_bootstrap_failure_run ::
  "review_host \<Rightarrow> run \<Rightarrow> thrown \<Rightarrow> string \<Rightarrow> executor_identity option \<Rightarrow> thrown + run" where
  "create_bootstrap_failure_run h r x now executor =
     transition h r (bootstrap_failure_input x executor) now None"

text \<open>The executor \<open>parkBootstrap\<close> records.\<close>

definition failing_executor :: "run \<Rightarrow> thrown \<Rightarrow> executor_identity option" where
  "failing_executor r x =
     (case th_kind x of Guard_failure e \<Rightarrow> or_else e (run_executor r) | _ \<Rightarrow> run_executor r)"

section \<open>The live pull request\<close>

definition accepted_pull_conflict :: "run \<Rightarrow> live_snapshot \<Rightarrow> bool \<Rightarrow> identity_reason option" where
  "accepted_pull_conflict r s advance =
     (case run_pullRequest r of
        None \<Rightarrow> None
      | Some accepted \<Rightarrow>
          fail_if (\<not> present_and (\<lambda>a. lp_state a = Pull_open \<and> lv_issueState s = Issue_open
            \<and> lv_headSha s = Some (lp_headSha a) \<and> lp_number a = pr_number accepted
            \<and> (advance \<or> lp_headSha a = pr_headSha accepted)) (lv_pullRequest s))
            (Accepted_pull_differs (pr_number accepted)))"

definition owned_pull_conflict ::
  "run \<Rightarrow> bootstrap_identity \<Rightarrow> live_snapshot \<Rightarrow> bool \<Rightarrow> live_pull \<Rightarrow> identity_reason option" where
  "owned_pull_conflict r b s advance a = first_error
     [fail_if (\<not> same_repository_ref (lp_headRepository a) (b_owner b) (b_repo b)
        \<or> lp_headRef a \<noteq> Some (case b_publicationBranch b of None \<Rightarrow> b_branch b | Some p \<Rightarrow> p)
        \<or> lp_baseRef a \<noteq> Some (b_baseBranch b)
        \<or> \<not> same_repository_ref (Some (lv_repository s)) (b_owner b) (b_repo b)
        \<or> is_number (lv_issue s) \<noteq> b_issueNumber b) (Live_pull_not_owned (lp_number a)),
      fail_if (present_and (\<lambda>p. lp_number a \<noteq> pr_number p
        \<or> \<not> advance \<and> lp_headSha a \<noteq> pr_headSha p) (run_pullRequest r)) (Live_pull_moved (lp_number a))]"

definition pull_request_identity_conflict :: "run \<Rightarrow> live_snapshot \<Rightarrow> bool \<Rightarrow> identity_reason option" where
  "pull_request_identity_conflict r s advance =
     (case run_bootstrap r of
        None \<Rightarrow> accepted_pull_conflict r s advance
      | Some b \<Rightarrow>
          (case lv_pullRequest s of
             None \<Rightarrow> Some Live_pull_unavailable
           | Some a \<Rightarrow>
               if lp_headRepository a = None \<or> lp_headRef a = None \<or> lp_baseRef a = None
                  \<or> lp_state a \<noteq> Pull_open \<or> lv_issueState s \<noteq> Issue_open
                  \<or> lv_headSha s \<noteq> Some (lp_headSha a)
               then Some Live_pull_unavailable
               else owned_pull_conflict r b s advance a))"

section \<open>Waiting for native evidence\<close>

definition NATIVE_REVIEW_BACKOFF_MS :: int where
  "NATIVE_REVIEW_BACKOFF_MS = 30000"

definition later_than :: "review_host \<Rightarrow> string \<Rightarrow> thrown + string" where
  "later_than h now =
     (case lease_until (rh_dates h) now NATIVE_REVIEW_BACKOFF_MS of
        None \<Rightarrow> Inl (plain_error h Clock_unusable)
      | Some t \<Rightarrow> Inr t)"

definition with_review_wait :: "native_review option \<Rightarrow> review_wait_kind \<Rightarrow> string \<Rightarrow> native_review" where
  "with_review_wait l kind moment =
     (case l of
        None \<Rightarrow> \<lparr>nr_recoveryConfiguration = None, nr_repairLimit = None, nr_requests = [],
                 nr_activeRequestId = None, nr_accepted = None,
                 nr_wait = Some \<lparr>rw_kind = kind, rw_nextAttemptAt = moment\<rparr>\<rparr>
      | Some n \<Rightarrow> n\<lparr>nr_wait := Some \<lparr>rw_kind = kind, rw_nextAttemptAt = moment\<rparr>\<rparr>)"

definition park_native_review ::
  "review_host \<Rightarrow> run \<Rightarrow> review_wait_kind \<Rightarrow> string \<Rightarrow> string \<Rightarrow> thrown + run" where
  "park_native_review h r kind reason now =
     (case transition h r (reasoned T_wait_dependency reason) now None of
        Inl x \<Rightarrow> Inl x
      | Inr waiting \<Rightarrow>
          (case later_than h now of
             Inl x \<Rightarrow> Inl x
           | Inr t \<Rightarrow> Inr (waiting\<lparr>run_nativeReview := Some (with_review_wait (run_nativeReview r) kind t)\<rparr>)))"

text \<open>\<open>nativeReviewWaitKind\<close>: attention once nothing more may be read.\<close>

definition unknown_requests :: "oracle_host \<Rightarrow> run \<Rightarrow> review_request list" where
  "unknown_requests host r =
     (case run_nativeReview r of
        None \<Rightarrow> []
      | Some l \<Rightarrow> filter (\<lambda>q. rr_submissionPossible q \<and> \<not> review_authenticated host q) (nr_requests l))"

definition observed_out :: "review_request \<Rightarrow> bool" where
  "observed_out q \<longleftrightarrow> NATIVE_REVIEW_OBSERVATIONS \<le> rr_observations q"

definition replacement_spent :: "oracle_host \<Rightarrow> run \<Rightarrow> review_request \<Rightarrow> bool" where
  "replacement_spent host r active \<longleftrightarrow>
     rr_status active = Incomplete
     \<and> present_and (\<lambda>l. 2 \<le> length (filter (\<lambda>q. same_candidate (rr_identity q) (rr_identity active)) (nr_requests l)))
         (run_nativeReview r)
     \<and> list_all (\<lambda>q. ri_requestId (rr_identity q) = ri_requestId (rr_identity active) \<or> observed_out q)
         (unknown_requests host r)"

definition native_review_wait_kind :: "oracle_host \<Rightarrow> run \<Rightarrow> review_wait_kind" where
  "native_review_wait_kind host r =
     (let active = active_native_review r; unknown = unknown_requests host r in
      if present_and (\<lambda>q. rr_status q = Incomplete \<and> rr_failure q \<noteq> Some Transport_failure) active
      then W_qualification
      else if unknown \<noteq> [] \<and> list_all observed_out unknown then W_qualification
      else if present_and (replacement_spent host r) active then W_qualification
      else W_request)"

section \<open>Recorded completions\<close>

text \<open>An inherited effort is a function, which the ledger drops as it is no text.\<close>

fun effort_string :: "alias_value \<Rightarrow> string option" where
  "effort_string (Canonical x) = Some (effort_text x)"
| "effort_string Inherited_property = None"

text \<open>The provider, model and effort a completion falls back to.\<close>

definition execution_fallback ::
  "resolved_execution option \<Rightarrow> string option \<times> string option \<times> string option" where
  "execution_fallback x =
     (map_option ex_executor x, Option.bind x ex_model,
      Option.bind (Option.bind x ex_reasoningEffort) effort_string)"

section \<open>Human takeover\<close>

definition HUMAN_TAKEOVER_DIAGNOSTIC :: string where
  "HUMAN_TAKEOVER_DIAGNOSTIC = ''TACHIKO_NEEDS_HUMAN:''"

definition human_takeover_reason :: "agent_result \<Rightarrow> string option" where
  "human_takeover_reason a =
     (case Option.bind (a_diagnostics a) (find (\<lambda>d. starts_with d HUMAN_TAKEOVER_DIAGNOSTIC)) of
        None \<Rightarrow> None
      | Some d \<Rightarrow>
          (let reason = trim (drop (length HUMAN_TAKEOVER_DIAGNOSTIC) d)
           in if reason = [] then None else Some reason))"

section \<open>Findings, budget and packet\<close>

definition blocking_texts :: "review_host \<Rightarrow> review_result \<Rightarrow> string list" where
  "blocking_texts h v =
     map (finding_text (rh_packet h)) (filter (\<lambda>f. f_severity f = Blocking) (r_findings v))"

definition render_blocking_findings :: "review_host \<Rightarrow> review_result \<Rightarrow> string" where
  "render_blocking_findings h v = join [CHR 0x0A] (numbered 1 (blocking_texts h v))"

definition opens_window :: "transition_record \<Rightarrow> bool" where
  "opens_window t \<longleftrightarrow> tr_type t = Applied T_human_resolved \<or> tr_type t = Applied T_revalidate"

definition counts_attempt :: "transition_record \<Rightarrow> bool" where
  "counts_attempt t \<longleftrightarrow>
     tr_type t \<in> {Applied T_validation_failed, Applied T_review_approved, Applied T_changes_requested}"

definition durable_repair_attempts :: "run \<Rightarrow> int" where
  "durable_repair_attempts r =
     (let hs = run_history r;
          start = (case find_last_index (\<lambda>_ t. opens_window t) hs of None \<Rightarrow> 0 | Some i \<Rightarrow> Suc i)
      in int (length (filter counts_attempt (drop start hs))))"

definition requests_changes :: "run \<Rightarrow> bool" where
  "requests_changes r \<longleftrightarrow> review_verdict_of r = Some Request_changes"

definition validation_failed_in :: "run \<Rightarrow> bool" where
  "validation_failed_in r \<longleftrightarrow> validation_status_of r = Some Failed"

definition opt_text :: "string option \<Rightarrow> string" where
  "opt_text s = (case s of None \<Rightarrow> [] | Some t \<Rightarrow> t)"

definition optional_json_member :: "string \<Rightarrow> json option \<Rightarrow> (string \<times> json) list" where
  "optional_json_member k v = (case v of None \<Rightarrow> [] | Some x \<Rightarrow> [(k, x)])"

definition review_evidence_json :: "review_result option \<Rightarrow> int \<Rightarrow> string" where
  "review_evidence_json v number = json_text (JObject
     (optional_json_member ''verdict'' (map_option (\<lambda>x. JString
        (case r_verdict x of Approve \<Rightarrow> ''approve'' | Request_changes \<Rightarrow> ''request_changes'')) v) @
      optional_json_member ''headSha'' (map_option (\<lambda>x. JString (r_headSha x)) v) @
      [(''pullRequestNumber'', JNumber number)]))"

definition only_if :: "('a \<Rightarrow> bool) \<Rightarrow> 'a option \<Rightarrow> 'a option" where
  "only_if p x = Option.bind x (\<lambda>v. if p v then Some v else None)"

definition current_failed_validation :: "run \<Rightarrow> live_snapshot \<Rightarrow> validation_result option" where
  "current_failed_validation r s =
     only_if (\<lambda>v. is_validation_result_coherent v \<and> v_status v = Failed
       \<and> Some (v_headSha v) = run_headSha r
       \<and> present_and (\<lambda>p. h_pullRequestNumber (v_hosted v) = Some (lp_number p)) (lv_pullRequest s))
       (run_validationResult r)"

definition current_refusal :: "run \<Rightarrow> review_result option \<Rightarrow> review_result option" where
  "current_refusal r pending =
     only_if (\<lambda>v. r_verdict v = Request_changes \<and> Some (r_headSha v) = run_headSha r) pending"

text \<open>Only an isolated worker is given a packet, so an execution is always resolved here.\<close>

definition missing_scope :: packet_scope where
  "missing_scope =
     \<lparr>sc_sourceId = [], sc_sourceScope = Scope_issue, sc_sourceUpdatedAt = [], sc_freshness = Current,
      sc_text = []\<rparr>"

definition or_zero :: "int option \<Rightarrow> int" where
  "or_zero n = (case n of None \<Rightarrow> 0 | Some k \<Rightarrow> k)"

definition repair_packet_evidence ::
  "review_host \<Rightarrow> run \<Rightarrow> live_snapshot \<Rightarrow> bool \<Rightarrow> review_result option \<Rightarrow> lead_repair_reference option \<Rightarrow> packet_repair" where
  "repair_packet_evidence h r s failed pending lead =
     (let validation = current_failed_validation r s; refusal = current_refusal r pending;
          by_validation = (failed \<and> refusal = None); head = opt_text (run_headSha r);
          number = or_zero (map_option lp_number (lv_pullRequest s)) in
      \<lparr>re_headSha = head, re_pullRequestNumber = number,
       re_evidenceRef = ''run:'' @ run_id r @ (if by_validation then '':validation:'' else '':review:'') @ head,
       re_evidence = (if by_validation then opt_text (map_option (rh_validation_json h) validation)
         else review_evidence_json refusal number),
       re_evidenceKind = (if by_validation then ''validation'' else ''review''),
       re_evidenceHeadSha = opt_text
         (if by_validation then map_option v_headSha validation else map_option r_headSha refusal),
       re_evidencePullRequestNumber =
         (if by_validation then or_zero (Option.bind validation (\<lambda>v. h_pullRequestNumber (v_hosted v)))
          else number),
       re_evidenceStatus =
         (if by_validation then (if validation \<noteq> None then ''failed'' else ''request_changes'')
          else (if refusal \<noteq> None then ''request_changes'' else ''failed'')),
       re_blockingFindings =
         (if by_validation then [] else case refusal of None \<Rightarrow> [] | Some v \<Rightarrow> blocking_texts h v),
       re_leadDisposition = or_else lead
         (Option.bind (active_repair_admission (rh_oracle h) r) (\<lambda>a. ad_leadDisposition (act_snapshot a)))\<rparr>)"

definition repair_packet_input ::
  "review_host \<Rightarrow> run \<Rightarrow> live_snapshot \<Rightarrow> resolved_execution \<Rightarrow> bool \<Rightarrow> review_result option \<Rightarrow>
   lead_repair_reference option \<Rightarrow> implementation_packet_input" where
  "repair_packet_input h r s x failed pending lead =
     \<lparr>ip_kind = (if failed \<and> current_refusal r pending = None then Packet_validation_repair
        else Packet_review_repair),
      ip_identity =
        \<lparr>pi_runId = run_id r, pi_target = run_target r,
         pi_workspacePath = opt_text (map_option b_workspacePath (run_bootstrap r)),
         pi_branch = opt_text (map_option b_branch (run_bootstrap r)),
         pi_baseSha = opt_text (run_headSha r), pi_execution = x\<rparr>,
      ip_repository = lv_repository s, ip_issue = lv_issue s,
      ip_acceptedScope =
        (case accepted_scope_from_handoff (lv_handoff s) (map gp_code (lv_problems s)) False of
           None \<Rightarrow> missing_scope | Some c \<Rightarrow> c),
      ip_repair = Some (repair_packet_evidence h r s failed pending lead)\<rparr>"

section \<open>Review admission\<close>

text \<open>The identity half of \<open>reviewAdmission\<close>: a reason to ask a human.\<close>

definition live_identity_exact :: "run \<Rightarrow> live_snapshot \<Rightarrow> bool" where
  "live_identity_exact r s \<longleftrightarrow>
     usable (run_headSha r)
     \<and> present_and (\<lambda>p. Some (pr_headSha p) = run_headSha r
          \<and> present_and (\<lambda>a. lp_number a = pr_number p \<and> Some (lp_headSha a) = run_headSha r)
              (lv_pullRequest s)) (run_pullRequest r)
     \<and> lv_headSha s = run_headSha r"

definition identity_admission :: "review_host \<Rightarrow> run \<Rightarrow> live_snapshot \<Rightarrow> identity_reason option" where
  "identity_admission h r s = first_error
     [fail_if (run_implementationAuthority r \<noteq> None
        \<and> \<not> original_implementation_matches (rh_packet h) (rh_packet_digest h) r (snapshot_issue s))
        Original_scope_changed,
      fail_if (\<not> (case run_target r of
          Issue owner repo n \<Rightarrow>
            same_repository_ref (Some (lv_repository s)) owner repo \<and> is_number (lv_issue s) = n
        | Repository _ _ _ _ \<Rightarrow> False)) Issue_identity_differs,
      fail_if (\<not> live_identity_exact r s) (Exact_identity_differs r s)]"

text \<open>The evidence half: validation of this pull request and HEAD, or another validation.\<close>

definition validation_bound :: "run \<Rightarrow> bool" where
  "validation_bound r =
     present_and (\<lambda>v. is_validation_result_coherent v \<and> Some (v_headSha v) = run_headSha r
       \<and> present_and (\<lambda>p. h_pullRequestNumber (v_hosted v) = Some (pr_number p)) (run_pullRequest r))
       (run_validationResult r)"

datatype review_admission =
    Admitted active_validation
  | Must_revalidate identity_reason
  | Must_ask identity_reason

definition evidence_admission :: "run \<Rightarrow> thrown + active_validation \<Rightarrow> review_admission" where
  "evidence_admission r active =
     (case active of
        Inl x \<Rightarrow> Must_revalidate (Authority_unresolved (th_message x))
      | Inr a \<Rightarrow> if is_validation_fresh r a then Admitted a else Must_revalidate Validation_not_active)"

definition identity_choices :: "run \<Rightarrow> string \<Rightarrow> string list" where
  "identity_choices r reason =
     (if run_headSha r \<noteq> None \<and> contains reason ''exact HEAD identity''
      then [LIVE_HEAD_SYNC_DECISION, CANCEL_RUN_DECISION]
      else [''Resolve the GitHub identity conflict and retry'', CANCEL_RUN_DECISION])"

end
