(* ===== verification/Review_Effects.thy ===== *)
theory Review_Effects
  imports Effects Review_Admission
begin

text \<open>
  The calls of the review loop (\<^verbatim>\<open>src/reviewers/loop.ts\<close>) as an effect program, and the ways it
  leaves: a thrown value or a result, both faults of the program, so that an early return is a
  refusal and only thrown values are caught. Every call is recorded with its answer, a
  thrown one included; what a call answers is a function of the trace. An adapter may call the
  callbacks it was given any number of times, in any order, and may ignore that one threw.
\<close>

section \<open>Calls and answers\<close>

datatype host_check =
    Claim_check | Mutation_check | Lead_initiation | Normal_initiation | Can_mutate | Can_publish
  | Planning_check | Execution_start

datatype adapter_callback = Before_mutation | Before_execution | Before_publication | Recheck_publication

datatype native_answer =
    Native_waits run string
  | Native_superseded run string
  | Native_complete run review_result

datatype lead_answer =
    Lead_waits run string
  | Lead_superseded run
  | Lead_complete run lead_acceptance

record worker_request =
  wq_target :: target
  wq_baseSha :: string
  wq_isolated :: bool
  wq_instructions :: string
  wq_packet :: "implementation_packet option"
  wq_workspace :: "(string \<times> string) option"
  wq_native :: bool
  wq_sessionId :: "string option"
  wq_executor :: "executor_identity option"
  wq_runId :: string
  wq_generation :: string
  wq_claimId :: "string option"
  wq_governed :: bool
  wq_execution :: "resolved_execution option"

record plan_request =
  pq_baseBranch :: string
  pq_baseSha :: string
  pq_publicationBranch :: string

record lead_request_context =
  lc_run :: run
  lc_snapshot :: live_snapshot
  lc_execution :: resolved_execution
  lc_attempts :: int
  lc_consumed :: "lead_repair_reference option"

datatype review_effect =
    Read_current string "thrown + run option"
  | Swapped run run "thrown + bool"
  | Read_live target "thrown + live_snapshot"
  | Resolved_authority "thrown + active_validation"
  | Resolved_profile repair_profile "thrown + resolved_execution option"
  | Checked host_check run "thrown + unit"
  | Entered_boundary "thrown + unit"
  | Native_advanced run "thrown + native_answer"
  | Native_validated run live_snapshot "thrown + bool"
  | Lead_advanced run "thrown + lead_answer"
  | Lead_validated lead_request_context "thrown + lead_repair_reference option"
  | Review_called run string
  | Review_answered "thrown + review_result"
  | Chosen_bootstrap "thrown + bootstrap_kind option"
  | Planned plan_request "thrown + bootstrap_identity"
  | Prepared_workspace bootstrap_identity "thrown + unit"
  | Verified_durable bootstrap_identity string "thrown + unit"
  | Prepared_governed worker_request "thrown + bool"
  | Resolved_capabilities "thrown + unit"
  | Worker_called run worker_request
  | Worker_answered "thrown + agent_result"
  | Called_back adapter_callback "thrown option"
  | Submitted run "thrown + run"

datatype review_loop_result =
    Loop_approved run
  | Loop_waiting run string
  | Loop_revalidating run string
  | Loop_needs_human run string
  | Loop_unsupported run string
  | Loop_superseded run string
  | Loop_failed run string

datatype review_exit = Raised thrown | Returned review_loop_result

type_synonym review_trace = "review_effect list"

type_synonym 'a reviewing = "(review_effect, review_exit, 'a) program"

record review_environment =
  rn_host :: review_host
  rn_now :: "nat \<Rightarrow> review_trace \<Rightarrow> string"
  rn_uuid :: "review_trace \<Rightarrow> string"
  rn_swaps :: bool
  rn_native :: bool
  rn_governed :: bool
  rn_observationOnly :: bool
  rn_leadBoundary :: bool
  rn_effectBoundary :: bool
  rn_profiles :: bool
  rn_offers :: "host_check \<Rightarrow> bool"
  rn_read :: "string \<Rightarrow> review_trace \<Rightarrow> thrown + run option"
  rn_swap :: "run \<Rightarrow> run \<Rightarrow> review_trace \<Rightarrow> thrown + bool"
  rn_live :: "target \<Rightarrow> review_trace \<Rightarrow> thrown + live_snapshot"
  rn_authority :: "review_trace \<Rightarrow> thrown + active_validation"
  rn_profile :: "repair_profile \<Rightarrow> review_trace \<Rightarrow> thrown + resolved_execution option"
  rn_check :: "host_check \<Rightarrow> run \<Rightarrow> review_trace \<Rightarrow> thrown + unit"
  rn_enter :: "review_trace \<Rightarrow> thrown + unit"
  rn_submissions :: "review_trace \<Rightarrow> run list"
  rn_advance :: "run \<Rightarrow> live_snapshot \<Rightarrow> review_trace \<Rightarrow> thrown + native_answer"
  rn_validate :: "run \<Rightarrow> live_snapshot \<Rightarrow> review_trace \<Rightarrow> thrown + bool"
  rn_leadAvailable :: "review_trace \<Rightarrow> bool"
  rn_leadAdvance :: "lead_request_context \<Rightarrow> review_trace \<Rightarrow> thrown + lead_answer"
  rn_leadValidate :: "lead_request_context \<Rightarrow> review_trace \<Rightarrow> thrown + lead_repair_reference option"
  rn_review :: "run \<Rightarrow> string \<Rightarrow> review_trace \<Rightarrow> thrown + review_result"
  rn_bootstrap :: "resolved_execution option \<Rightarrow> review_trace \<Rightarrow> thrown + bootstrap_kind option"
  rn_callbacks :: "review_trace \<Rightarrow> adapter_callback list"
  rn_plan :: "plan_request \<Rightarrow> review_trace \<Rightarrow> thrown + bootstrap_identity"
  rn_prepare :: "bootstrap_identity \<Rightarrow> string \<Rightarrow> review_trace \<Rightarrow> thrown + unit"
  rn_verify :: "bootstrap_identity \<Rightarrow> string \<Rightarrow> string \<Rightarrow> review_trace \<Rightarrow> thrown + unit"
  rn_prepareGoverned :: "worker_request \<Rightarrow> review_trace \<Rightarrow> thrown + bool"
  rn_confined :: "review_trace \<Rightarrow> bool"
  rn_capabilities :: "review_trace \<Rightarrow> thrown + unit"
  rn_worker :: "worker_request \<Rightarrow> review_trace \<Rightarrow> thrown + agent_result"

record review_options =
  ro_maxAttempts :: int

section \<open>Throwing, catching and returning\<close>

definition raise :: "thrown \<Rightarrow> 'a reviewing" where
  "raise x = refuse (Raised x)"

definition return :: "review_loop_result \<Rightarrow> 'a reviewing" where
  "return r = refuse (Returned r)"

definition answered :: "thrown + 'a \<Rightarrow> 'a reviewing" where
  "answered r = (case r of Inl x \<Rightarrow> raise x | Inr y \<Rightarrow> give y)"

definition ask :: "(thrown + 'a \<Rightarrow> review_effect) \<Rightarrow> (review_trace \<Rightarrow> thrown + 'a) \<Rightarrow> 'a reviewing" where
  "ask event answer = before (look answer) (\<lambda>r. before (note_event (event r)) (\<lambda>_. answered r))"

definition rescue :: "'a reviewing \<Rightarrow> (thrown \<Rightarrow> 'a reviewing) \<Rightarrow> 'a reviewing" where
  "rescue m h = recovered m (\<lambda>f. case f of Raised x \<Rightarrow> h x | Returned r \<Rightarrow> return r)"

definition attempted :: "'a reviewing \<Rightarrow> (thrown + 'a) reviewing" where
  "attempted m = rescue (before m (\<lambda>x. give (Inr x))) (\<lambda>x. give (Inl x))"

definition plain_fault :: "review_environment \<Rightarrow> fault_reason \<Rightarrow> 'a reviewing" where
  "plain_fault e r = raise (plain_error (rn_host e) r)"

definition refusal_fault :: "review_environment \<Rightarrow> refusal_reason \<Rightarrow> bool \<Rightarrow> bool \<Rightarrow> 'a reviewing" where
  "refusal_fault e r superseded unknown = raise (admission_refusal (rn_host e) r superseded unknown)"

section \<open>Calls\<close>

definition clock :: "review_environment \<Rightarrow> nat \<Rightarrow> string reviewing" where
  "clock e k = look (rn_now e k)"

definition read_run :: "review_environment \<Rightarrow> string \<Rightarrow> run option reviewing" where
  "read_run e i = ask (Read_current i) (rn_read e i)"

text \<open>\<open>updateReviewRun\<close>: without compare-and-swap nothing is written.\<close>

definition swap_run :: "review_environment \<Rightarrow> run \<Rightarrow> run \<Rightarrow> bool reviewing" where
  "swap_run e expected new =
     (if rn_swaps e then ask (Swapped expected new) (rn_swap e expected new) else give False)"

definition read_live :: "review_environment \<Rightarrow> target \<Rightarrow> live_snapshot reviewing" where
  "read_live e t = ask (Read_live t) (rn_live e t)"

definition resolve_authority :: "review_environment \<Rightarrow> active_validation reviewing" where
  "resolve_authority e = ask Resolved_authority (rn_authority e)"

definition resolve_profile :: "review_environment \<Rightarrow> repair_profile \<Rightarrow> resolved_execution option reviewing" where
  "resolve_profile e p = (if rn_profiles e then ask (Resolved_profile p) (rn_profile e p) else give None)"

definition assure :: "review_environment \<Rightarrow> host_check \<Rightarrow> run \<Rightarrow> unit reviewing" where
  "assure e c r = (if rn_offers e c then ask (Checked c r) (rn_check e c r) else give ())"

definition native_valid :: "review_environment \<Rightarrow> run \<Rightarrow> live_snapshot \<Rightarrow> bool reviewing" where
  "native_valid e r s =
     (if rn_native e then ask (Native_validated r s) (rn_validate e r s) else give False)"

definition lead_reference :: "review_environment \<Rightarrow> lead_request_context \<Rightarrow> lead_repair_reference option reviewing" where
  "lead_reference e c = ask (Lead_validated c) (rn_leadValidate e c)"

section \<open>Leaving with a written run\<close>

text \<open>\<open>supersededRepairAdmission\<close>: a newer run is observed, never changed.\<close>

definition superseded :: "review_environment \<Rightarrow> run \<Rightarrow> 'a reviewing" where
  "superseded e r = before (read_run e (run_id r))
     (\<lambda>x. let current = (case x of None \<Rightarrow> r | Some c \<Rightarrow> c) in
        return (if rn_swaps e
          then Loop_superseded current (rh_text (rn_host e) (Reviewing Stale_snapshot))
          else Loop_unsupported current (rh_text (rn_host e) (Reviewing Cas_unavailable))))"

definition commit :: "review_environment \<Rightarrow> run \<Rightarrow> run \<Rightarrow> unit reviewing" where
  "commit e expected new =
     before (swap_run e expected new) (\<lambda>ok. if ok then give () else superseded e expected)"

definition transit :: "review_environment \<Rightarrow> run \<Rightarrow> transition_input \<Rightarrow> run reviewing" where
  "transit e r i = before (clock e 0) (\<lambda>now. answered (transition (rn_host e) r i now None))"

definition leave :: "review_environment \<Rightarrow> run \<Rightarrow> transition_input \<Rightarrow> (run \<Rightarrow> review_loop_result) \<Rightarrow> 'a reviewing" where
  "leave e r i result =
     before (transit e r i) (\<lambda>s. before (commit e r s) (\<lambda>_. return (result s)))"

definition ask_human :: "review_environment \<Rightarrow> run \<Rightarrow> string \<Rightarrow> string list \<Rightarrow> 'a reviewing" where
  "ask_human e r reason choices =
     leave e r (escalation reason reason choices) (\<lambda>s. Loop_needs_human s reason)"

definition persist_revalidation :: "review_environment \<Rightarrow> run \<Rightarrow> string \<Rightarrow> 'a reviewing" where
  "persist_revalidation e r reason =
     leave e r (reasoned T_revalidate reason) (\<lambda>s. Loop_revalidating s reason)"

definition park_bootstrap :: "review_environment \<Rightarrow> run \<Rightarrow> thrown \<Rightarrow> 'a reviewing" where
  "park_bootstrap e r x =
     leave e r (bootstrap_failure_input x (failing_executor r x)) (\<lambda>s. Loop_needs_human s (bootstrap_reason x))"

definition park_admission :: "review_environment \<Rightarrow> run \<Rightarrow> string \<Rightarrow> 'a reviewing" where
  "park_admission e r reason = ask_human e r reason (identity_choices r reason)"

definition park_repair :: "review_environment \<Rightarrow> run \<Rightarrow> repair_reason \<Rightarrow> 'a reviewing" where
  "park_repair e r reason = ask_human e r (rh_text (rn_host e) (Repair reason))
     [''Provide explicit repair authority or resolve execution availability'', CANCEL_RUN_DECISION]"

definition close_repair :: "review_environment \<Rightarrow> run \<Rightarrow> repair_reason \<Rightarrow> 'a reviewing" where
  "close_repair e r reason = ask_human e r (rh_text (rn_host e) (Repair reason)) [CANCEL_RUN_DECISION]"

definition wait_native :: "review_environment \<Rightarrow> run \<Rightarrow> review_wait_kind \<Rightarrow> string \<Rightarrow> 'a reviewing" where
  "wait_native e r kind reason =
     before (clock e 0) (\<lambda>now.
     before (answered (park_native_review (rn_host e) r kind reason now)) (\<lambda>s.
     before (commit e r s) (\<lambda>_. return (Loop_waiting s reason))))"

section \<open>Callbacks of adapters\<close>

text \<open>A callback has two parts: what it reads becomes the caller's state even when the checks after
  it throw.\<close>

definition called_back ::
  "adapter_callback \<Rightarrow> 's reviewing \<Rightarrow> ('s \<Rightarrow> unit reviewing) \<Rightarrow> 's \<Rightarrow> 's reviewing" where
  "called_back c reads checks s =
     before (attempted reads) (\<lambda>r. case r of
         Inl x \<Rightarrow> before (note_event (Called_back c (Some x))) (\<lambda>_. give s)
       | Inr new \<Rightarrow> before (attempted (checks new)) (\<lambda>q.
           before (note_event (Called_back c (case q of Inl x \<Rightarrow> Some x | Inr _ \<Rightarrow> None))) (\<lambda>_. give new)))"

fun each_callback :: "(adapter_callback \<Rightarrow> 's \<Rightarrow> 's reviewing) \<Rightarrow> adapter_callback list \<Rightarrow> 's \<Rightarrow> 's reviewing" where
  "each_callback m [] s = give s"
| "each_callback m (c # cs) s = before (m c s) (each_callback m cs)"

definition during ::
  "review_environment \<Rightarrow> (adapter_callback \<Rightarrow> 's \<Rightarrow> 's reviewing) \<Rightarrow> 's \<Rightarrow> 's reviewing" where
  "during e m s = before (look (rn_callbacks e)) (\<lambda>cs. each_callback m cs s)"

text \<open>A callback that only checks.\<close>

definition checks_only :: "adapter_callback \<Rightarrow> unit reviewing \<Rightarrow> 's \<Rightarrow> 's reviewing" where
  "checks_only c m s = called_back c (give s) (\<lambda>_. m) s"

text \<open>\<open>onSubmission\<close>, called by an oracle adapter with runs of its own.\<close>

fun submissions :: "(run \<Rightarrow> run reviewing) \<Rightarrow> run list \<Rightarrow> unit reviewing" where
  "submissions m [] = give ()"
| "submissions m (r # rs) =
     before (attempted (m r)) (\<lambda>a. before (note_event (Submitted r a)) (\<lambda>_. submissions m rs))"

end
