(* ===== verification/Review_Repair.thy ===== *)
theory Review_Repair
  imports Review_Effects
begin

text \<open>
  The repair pass of the review loop (\<^verbatim>\<open>src/reviewers/loop.ts\<close>, the \<open>CHANGES_REQUESTED\<close> branch
  of \<open>runReviewLoop\<close>): what admits a repair, the lead's disposition of a native review, the
  consumption of one admission, the workspace, the worker and the verification of what it
  published. Every path through it leaves the loop.
\<close>

section \<open>Who may repair\<close>

definition native_work :: "review_environment \<Rightarrow> run \<Rightarrow> bool" where
  "native_work e r \<longleftrightarrow> run_nativeReview r \<noteq> None \<or> run_nativeLead r \<noteq> None \<or> rn_native e"

definition native_repair :: "review_environment \<Rightarrow> run \<Rightarrow> bool" where
  "native_repair e r \<longleftrightarrow> native_work e r \<and> requests_changes r"

definition repairs_spent :: "review_environment \<Rightarrow> run \<Rightarrow> int" where
  "repairs_spent e r =
     (if native_work e r then start_fixes (run_history r) else durable_repair_attempts r)"

definition repair_limit :: "run \<Rightarrow> int option" where
  "repair_limit r = Option.bind (run_nativeReview r) nr_repairLimit"

text \<open>By validation alone: a review that requests changes takes precedence.\<close>

definition by_validation :: "run \<Rightarrow> bool" where
  "by_validation r \<longleftrightarrow> validation_failed_in r \<and> \<not> requests_changes r"

definition failed_validation_current :: "run \<Rightarrow> active_validation \<Rightarrow> bool" where
  "failed_validation_current r a =
     (validation_bound r \<and> present_and (\<lambda>v. validation_evidence_matches_active v a) (run_validationResult r))"

definition admit_lead :: "review_environment \<Rightarrow> run \<Rightarrow> unit reviewing" where
  "admit_lead e r =
     (if native_repair e r
      then before (look (rn_leadAvailable e)) (\<lambda>a. if a then give ()
        else wait_native e r W_lead (rh_text (rn_host e) (Repair Lead_unavailable)))
      else give ())"

definition admit_shared_budget :: "review_environment \<Rightarrow> review_options \<Rightarrow> run \<Rightarrow> unit reviewing" where
  "admit_shared_budget e p r =
     (if absent_or (\<lambda>n. n = ro_maxAttempts p) (repair_limit r) then give ()
      else park_repair e r Shared_budget_changed)"

definition admit_failed_validation :: "review_environment \<Rightarrow> run \<Rightarrow> unit reviewing" where
  "admit_failed_validation e r =
     (if validation_failed_in r
      then before (rescue (resolve_authority e) (\<lambda>x. persist_revalidation e r
             (rh_text (rn_host e) (Repair (Failed_authority_unavailable (th_message x)))))) (\<lambda>a.
        if failed_validation_current r a then give ()
        else persist_revalidation e r (rh_text (rn_host e) (Repair Failed_validation_stale)))
      else give ())"

definition admit_budget :: "review_environment \<Rightarrow> review_options \<Rightarrow> int \<Rightarrow> run \<Rightarrow> unit reviewing" where
  "admit_budget e p n r =
     (if n \<le> repairs_spent e r
      then ask_human e r (rh_text (rn_host e) (Repair (Budget_exhausted (ro_maxAttempts p))))
        [''Provide more GitHub context and retry'', CANCEL_RUN_DECISION]
      else give ())"

definition admit_finding :: "review_environment \<Rightarrow> run \<Rightarrow> unit reviewing" where
  "admit_finding e r =
     (if requests_changes r \<or> validation_failed_in r then give ()
      else let reason = rh_text (rn_host e) (Repair Nothing_actionable)
        in leave e r (reasoned T_fail reason) (\<lambda>s. Loop_failed s reason))"

definition admit_identity :: "review_environment \<Rightarrow> run \<Rightarrow> unit reviewing" where
  "admit_identity e r =
     (if present_and (\<lambda>p. Some (pr_headSha p) = run_headSha r) (run_pullRequest r) then give ()
      else ask_human e r (rh_text (rn_host e) (Repair Failure_unbound))
        [RECOVER_LEGACY_PULL_REQUEST_DECISION, CANCEL_RUN_DECISION])"

definition admit_repair :: "review_environment \<Rightarrow> review_options \<Rightarrow> int \<Rightarrow> run \<Rightarrow> unit reviewing" where
  "admit_repair e p n r =
     before (admit_lead e r) (\<lambda>_. before (admit_shared_budget e p r) (\<lambda>_.
     before (admit_failed_validation e r) (\<lambda>_. before (admit_budget e p n r) (\<lambda>_.
     before (admit_finding e r) (\<lambda>_. admit_identity e r)))))"

text \<open>\<open>checkOwnedFix\<close>: the live pull request must still be the run's, at its HEAD.\<close>

definition fix_conflict :: "run \<Rightarrow> live_snapshot \<Rightarrow> (review_reason \<times> string list) option" where
  "fix_conflict r s =
     (case pull_request_identity_conflict r s True of
        Some c \<Rightarrow> Some (Identity c, [''Resolve the pull request identity conflict and retry'', CANCEL_RUN_DECISION])
      | None \<Rightarrow>
          if lv_headSha s = run_headSha r then None
          else Some (Repair Head_changed_before_fix, [LIVE_HEAD_SYNC_DECISION, CANCEL_RUN_DECISION]))"

definition owned_fix :: "review_environment \<Rightarrow> run \<Rightarrow> live_snapshot reviewing" where
  "owned_fix e r = rescue
     (before (read_live e (run_target r)) (\<lambda>s. before (commit e r r) (\<lambda>_.
        case fix_conflict r s of
          None \<Rightarrow> give s
        | Some (reason, choices) \<Rightarrow> ask_human e r (rh_text (rn_host e) reason) choices)))
     (\<lambda>x. park_bootstrap e r x)"

section \<open>Boundaries of the host\<close>

definition current_mutation :: "review_environment \<Rightarrow> run \<Rightarrow> bool \<Rightarrow> unit reviewing" where
  "current_mutation e r required =
     (if required \<and> \<not> rn_offers e Mutation_check then plain_fault e Mutation_check_missing
      else assure e Mutation_check r)"

text \<open>A refusal keeps its kind; anything else thrown becomes a refusal.\<close>

definition as_refusal :: "review_environment \<Rightarrow> refusal_reason \<Rightarrow> unit reviewing \<Rightarrow> unit reviewing" where
  "as_refusal e reason m = rescue m
     (\<lambda>x. if is_admission_refusal (th_kind x) then raise x else refusal_fault e reason False False)"

definition confirm_handoff :: "review_environment \<Rightarrow> run \<Rightarrow> unit reviewing" where
  "confirm_handoff e r =
     before (if rn_swaps e
       then rescue (swap_run e r r) (\<lambda>_. refusal_fault e Handoff_unconfirmed False True)
       else refusal_fault e Handoff_unconfirmed False True)
     (\<lambda>ok. if ok then give () else refusal_fault e Handoff_changed True False)"

definition final_admission :: "review_environment \<Rightarrow> run \<Rightarrow> unit reviewing \<Rightarrow> unit reviewing" where
  "final_admission e r checks =
     before (confirm_handoff e r) (\<lambda>_. as_refusal e Mission_unconfirmed checks)"

definition mutation_admission :: "review_environment \<Rightarrow> run \<Rightarrow> unit reviewing" where
  "mutation_admission e r = final_admission e r (current_mutation e r (rn_governed e))"

definition planning_admission :: "review_environment \<Rightarrow> run \<Rightarrow> unit reviewing" where
  "planning_admission e r = final_admission e r
     (if rn_governed e \<and> (\<not> rn_offers e Can_mutate \<or> \<not> rn_offers e Mutation_check)
      then refusal_fault e Planning_unadmitted False False
      else before (assure e (if rn_offers e Planning_check then Planning_check else Mutation_check) r)
        (\<lambda>_. assure e Normal_initiation r))"

definition publication_admission :: "review_environment \<Rightarrow> run \<Rightarrow> unit reviewing" where
  "publication_admission e r =
     before (mutation_admission e r) (\<lambda>_. as_refusal e Publication_unconfirmed
       (if rn_governed e \<and> \<not> rn_offers e Can_publish then plain_fault e Publication_missing
        else before (assure e Can_publish r) (\<lambda>_. assure e Normal_initiation r)))"

text \<open>The \<open>beforeMutation\<close> of the workspace adapter.\<close>

definition before_mutation :: "review_environment \<Rightarrow> run \<Rightarrow> adapter_callback \<Rightarrow> unit \<Rightarrow> unit reviewing" where
  "before_mutation e r c =
     (if c = Before_mutation
      then checks_only c (before (mutation_admission e r) (\<lambda>_. assure e Normal_initiation r))
      else give)"

text \<open>\<open>assertNativeRepairExecution\<close>.\<close>

definition native_execution_current ::
  "review_environment \<Rightarrow> run \<Rightarrow> live_snapshot \<Rightarrow> repair_admission_snapshot \<Rightarrow> lead_repair_reference \<Rightarrow> bool reviewing" where
  "native_execution_current e r s a d =
     before (resolve_profile e (ad_executionProfile a)) (\<lambda>x.
     if rh_execution_digest (rn_host e) x \<noteq> rh_execution_digest (rn_host e) (Some (ad_execution a)) then give False
     else before (resolve_authority e) (\<lambda>v.
     if \<not> is_validation_fresh r v then give False
     else before (native_valid e r s) (\<lambda>ok.
     if \<not> ok then give False
     else before (lead_reference e \<lparr>lc_run = r, lc_snapshot = s, lc_execution = ad_execution a,
              lc_attempts = li_repairLimit (la_identity d), lc_consumed = Some d\<rparr>)
            (\<lambda>l. give (l \<noteq> None)))))"

definition native_execution :: "review_environment \<Rightarrow> run \<Rightarrow> live_snapshot \<Rightarrow> unit reviewing" where
  "native_execution e r s =
     (case active_repair_admission (rh_oracle (rn_host e)) r of
        None \<Rightarrow> give ()
      | Some a \<Rightarrow>
          (case ad_leadDisposition (act_snapshot a) of
             None \<Rightarrow> give ()
           | Some d \<Rightarrow> before (native_execution_current e r s (act_snapshot a) d)
               (\<lambda>ok. if ok then give () else refusal_fault e Native_authority_changed False False)))"

text \<open>\<open>repairBootstrapAdmissionRefusalOutcome\<close>.\<close>

fun run_superseded :: "thrown_kind \<Rightarrow> bool" where
  "run_superseded (Admission_refusal s _) = s"
| "run_superseded _ = False"

fun authority_unknown :: "thrown_kind \<Rightarrow> bool" where
  "authority_unknown (Admission_refusal _ u) = u"
| "authority_unknown _ = False"

definition reconciled :: "review_environment \<Rightarrow> run \<Rightarrow> thrown \<Rightarrow> 'a reviewing \<Rightarrow> 'a reviewing" where
  "reconciled e r x m =
     (if authority_unknown (th_kind x) \<or> \<not> rn_swaps e then raise x
      else rescue (before (swap_run e r r) (\<lambda>ok.
        if \<not> ok \<or> run_superseded (th_kind x) then superseded e r else m)) (\<lambda>_. raise x))"

definition workspace_failed :: "review_environment \<Rightarrow> run \<Rightarrow> thrown \<Rightarrow> 'a reviewing" where
  "workspace_failed e r x =
     (if is_admission_refusal (th_kind x)
      then reconciled e r x (leave e r (bootstrap_failure_input x (run_executor r))
        (\<lambda>s. Loop_needs_human s (bootstrap_reason x)))
      else park_bootstrap e r x)"

section \<open>The lead's disposition\<close>

definition lead_spawn :: "run \<Rightarrow> lead_identity \<Rightarrow> string \<Rightarrow> spawn_event" where
  "lead_spawn r i now =
     \<lparr>sp_id = ''spawn:lead:'' @ li_requestId i, sp_at = now, sp_role = Lead,
      sp_invocationId = ''spawn:lead:'' @ li_requestId i,
      sp_attempt = length (filter (\<lambda>v. case v of Spawn s \<Rightarrow> sp_role s = Lead | _ \<Rightarrow> False) (run_events r)) + 1,
      sp_attemptKind = K_lead, sp_headSha = Some (li_headSha i), sp_provider = Some ''native-lead'',
      sp_model = Some (li_requestedModel i),
      sp_reasoningEffort = Some (case li_requestedEffort i of
        Oracle_Medium \<Rightarrow> ''Medium'' | Oracle_High \<Rightarrow> ''High'' | Oracle_Extra_High \<Rightarrow> ''Extra High''),
      sp_profile = None, sp_contextMode = Bounded, sp_contextJustification = Some Live_target_bounded\<rparr>"

definition lead_submission :: "review_environment \<Rightarrow> run \<Rightarrow> run reviewing" where
  "lead_submission e r =
     before (assure e Execution_start r) (\<lambda>_.
       case active_native_lead r of
         None \<Rightarrow> plain_fault e Value_missing
       | Some q \<Rightarrow> before (clock e 0) (\<lambda>now.
           give (append_run_telemetry_events r [Spawn (lead_spawn r (lr_identity q) now)])))"

definition lead_advance :: "review_environment \<Rightarrow> lead_request_context \<Rightarrow> lead_answer reviewing" where
  "lead_advance e c =
     before (look (rn_submissions e)) (\<lambda>rs. before (submissions (lead_submission e) rs) (\<lambda>_.
       ask (Lead_advanced (lc_run c)) (rn_leadAdvance e c)))"

definition with_lead_wait :: "native_lead option \<Rightarrow> lead_wait_kind \<Rightarrow> string \<Rightarrow> native_lead" where
  "with_lead_wait l kind moment =
     (case l of None \<Rightarrow> empty_lead_ledger | Some n \<Rightarrow> n)\<lparr>nl_wait := Some \<lparr>lw_kind = kind, lw_nextAttemptAt = moment\<rparr>\<rparr>"

definition wait_lead :: "review_environment \<Rightarrow> run \<Rightarrow> lead_wait_kind \<Rightarrow> string \<Rightarrow> 'a reviewing" where
  "wait_lead e r kind reason =
     before (clock e 0) (\<lambda>now. before (answered (park_native_review (rn_host e) r W_lead reason now)) (\<lambda>parked.
     before (clock e 1) (\<lambda>later. before (answered (later_than (rn_host e) later)) (\<lambda>t.
       let s = parked\<lparr>run_nativeLead := Some (with_lead_wait (run_nativeLead r) kind t)\<rparr> in
       before (commit e r s) (\<lambda>_. return (Loop_waiting s reason))))))"

definition lead_repairs :: "run \<Rightarrow> bool" where
  "lead_repairs r = present_and (\<lambda>a. is_repair (la_disposition a)) (accepted_native_lead r)"

definition lead_attention :: "run \<Rightarrow> string \<Rightarrow> bool" where
  "lead_attention r reason \<longleftrightarrow>
     contains reason ''unsupported'' \<or> contains reason ''observation budget exhausted''
     \<or> accepted_native_lead r \<noteq> None
     \<or> (\<exists>q \<in> set (lead_requests r). lr_status q = Incomplete \<and> lr_failure q \<noteq> Some Transport_failure)"

definition lead_wait_for :: "oracle_host \<Rightarrow> run \<Rightarrow> string \<Rightarrow> bool \<Rightarrow> lead_wait_kind" where
  "lead_wait_for host r reason waits =
     (if \<not> (lead_repairs r \<and> (unresolved_native_repair_history host r \<or> contains reason ''evidence only''))
         \<and> waits \<and> lead_attention r reason
      then LW_qualification else LW_request)"

definition stop_recorded :: "run \<Rightarrow> lead_acceptance \<Rightarrow> bool" where
  "stop_recorded r a \<longleftrightarrow>
     (\<exists>t \<in> set (run_history r). map_option st_requestId (tr_nativeLeadStop t) = Some (la_requestId a))"

definition stop_input :: "run \<Rightarrow> lead_acceptance \<Rightarrow> string \<Rightarrow> transition_input" where
  "stop_input r a reason =
     (escalation reason reason [CANCEL_RUN_DECISION])\<lparr>in_nativeLeadStop :=
        (if stop_recorded r a then None
         else Some \<lparr>st_requestId = la_requestId a, st_receiptId = la_receiptId a, st_digest = la_digest a\<rparr>)\<rparr>"

definition stop_repair :: "review_environment \<Rightarrow> run \<Rightarrow> lead_acceptance \<Rightarrow> 'a reviewing" where
  "stop_repair e r a =
     (let reason = rh_text (rn_host e) (Repair (Lead_stops a)) in
      before (transit e r (stop_input r a reason)) (\<lambda>stopped. before (clock e 1) (\<lambda>now.
      let s = stopped\<lparr>run_nativeLead := Some (with_lead_wait (run_nativeLead r) LW_stop now)\<rparr> in
      before (commit e r s) (\<lambda>_. return (Loop_needs_human s reason)))))"

text \<open>The lead's answer: the run to go on with, once it asks for the repair and all is settled.\<close>

definition lead_decided :: "review_environment \<Rightarrow> lead_answer \<Rightarrow> run reviewing" where
  "lead_decided e d =
     (let host = rh_oracle (rn_host e); text = rh_text (rn_host e) in
      case d of
        Lead_superseded r \<Rightarrow> superseded e r
      | Lead_waits r reason \<Rightarrow> wait_lead e r (lead_wait_for host r reason True) reason
      | Lead_complete r a \<Rightarrow>
          if rn_observationOnly e
          then wait_lead e r (lead_wait_for host r (text (Repair Lead_observed_only)) False)
                 (text (Repair Lead_observed_only))
          else if \<not> is_repair (la_disposition a) then stop_repair e r a
          else if unresolved_native_repair_history host r
          then wait_lead e r LW_request (text (Repair Lead_awaits_completion))
          else give r)"

definition lead_context :: "run \<Rightarrow> live_snapshot \<Rightarrow> resolved_execution \<Rightarrow> int \<Rightarrow> lead_request_context" where
  "lead_context r s x n =
     \<lparr>lc_run = r, lc_snapshot = s, lc_execution = x, lc_attempts = n, lc_consumed = None\<rparr>"

definition lead_boundaries :: "review_environment \<Rightarrow> bool" where
  "lead_boundaries e \<longleftrightarrow> rn_offers e Lead_initiation \<and> rn_leadBoundary e \<and> rn_effectBoundary e"

definition current_routine :: "review_environment \<Rightarrow> resolved_execution \<Rightarrow> bool reviewing" where
  "current_routine e x = before (resolve_profile e Repair_routine) (\<lambda>c.
     give (c \<noteq> None \<and> rh_execution_digest (rn_host e) c = rh_execution_digest (rn_host e) (Some x)))"

text \<open>Everything is checked again between the disposition and its consumption.\<close>

definition lead_consumption ::
  "review_environment \<Rightarrow> int \<Rightarrow> resolved_execution \<Rightarrow> run \<Rightarrow> (run \<times> live_snapshot \<times> lead_repair_reference) reviewing" where
  "lead_consumption e n x r =
     before (assure e Claim_check r) (\<lambda>_. before (assure e Mutation_check r) (\<lambda>_.
     before (assure e Lead_initiation r) (\<lambda>_.
     before (current_routine e x) (\<lambda>same. if \<not> same then park_repair e r Execution_changed
     else before (read_live e (run_target r)) (\<lambda>s. before (commit e r r) (\<lambda>_.
     before (native_valid e r s) (\<lambda>ok. if \<not> ok then park_repair e r Origin_changed
     else before (lead_reference e (lead_context r s x n)) (\<lambda>l.
       case l of None \<Rightarrow> park_repair e r Lead_reference_missing
       | Some d \<Rightarrow> give (r, s, d)))))))))"

definition consult_lead ::
  "review_environment \<Rightarrow> int \<Rightarrow> resolved_execution \<Rightarrow> run \<Rightarrow> live_snapshot \<Rightarrow>
   (run \<times> live_snapshot \<times> lead_repair_reference) reviewing" where
  "consult_lead e n x r s =
     before (resolve_authority e) (\<lambda>v.
     if \<not> is_validation_fresh r v then park_repair e r Native_policy_drifted
     else if \<not> lead_boundaries e then park_repair e r Native_boundaries_missing
     else before (native_valid e r s) (\<lambda>ok. if \<not> ok then park_repair e r Origin_unqualified
     else before (lead_advance e (lead_context r s x n)) (\<lambda>d.
     before (lead_decided e d) (lead_consumption e n x))))"

end
