(* ===== verification/Review_Worker.thy ===== *)
theory Review_Worker
  imports Review_Repair
begin

text \<open>
  The second half of a repair in \<^verbatim>\<open>src/reviewers/loop.ts\<close>: the admission that is consumed by
  \<open>start_fix\<close>, the workspace and the packet, the one worker, its hand-off, and the verification
  of the HEAD it produced.
\<close>

section \<open>Consuming an admission\<close>

record repair_plan =
  fx_run :: run
  fx_snapshot :: live_snapshot
  fx_execution :: "resolved_execution option"
  fx_fresh :: bool
  fx_attempt :: "active_admission option"
  fx_lead :: "lead_repair_reference option"

definition isolated_luna :: "resolved_execution option \<Rightarrow> bool" where
  "isolated_luna x \<longleftrightarrow> map_option ex_executor x = Some ''luna-isolated''"

definition promoted_execution ::
  "review_environment \<Rightarrow> run \<Rightarrow> repair_task_shape_authority \<Rightarrow> resolved_execution reviewing" where
  "promoted_execution e r au =
     (case decide_repair_admission (au_shape au) of
        Park x \<Rightarrow> close_repair e r (Repair_parked x)
      | Admit p \<Rightarrow>
          before (rescue (resolve_profile e p) (\<lambda>_. give None)) (\<lambda>x.
          if map_option ex_profile x = Some (repair_profile_name p) then answered (case x of
             None \<Rightarrow> Inl (plain_error (rn_host e) Value_missing) | Some y \<Rightarrow> Inr y)
          else park_repair e r (Profile_unavailable p)))"

definition attempt_binding ::
  "review_environment \<Rightarrow> run \<Rightarrow> resolved_execution \<Rightarrow> repair_attempt_binding reviewing" where
  "attempt_binding e r x = before (look (rn_uuid e)) (\<lambda>u.
     case create_repair_attempt_binding r x u of
       Inl err \<Rightarrow> park_repair e r (Predecessor_refused err (rn_governed e))
     | Inr b \<Rightarrow> give b)"

text \<open>What is repaired is fixed when the pass starts: \<open>origin\<close> is the run it started with.\<close>

definition packet_input ::
  "review_environment \<Rightarrow> run \<Rightarrow> run \<Rightarrow> live_snapshot \<Rightarrow> resolved_execution \<Rightarrow>
   lead_repair_reference option \<Rightarrow> implementation_packet_input" where
  "packet_input e origin r s x lead =
     repair_packet_input (rn_host e) r s x (validation_failed_in origin) (run_reviewResult origin) lead"

definition luna_preflight ::
  "review_environment \<Rightarrow> run \<Rightarrow> run \<Rightarrow> live_snapshot \<Rightarrow> resolved_execution option \<Rightarrow>
   lead_repair_reference option \<Rightarrow> string option reviewing" where
  "luna_preflight e origin r s x lead =
     (case x of
        None \<Rightarrow> give None
      | Some y \<Rightarrow>
          if \<not> isolated_luna x then give None
          else case preflight_implementation_packet (rh_packet (rn_host e)) (packet_input e origin r s y lead) of
              Inl refusal \<Rightarrow> close_repair e r (Packet_refusal_reason refusal)
            | Inr p \<Rightarrow> give (Some (rh_packet_digest (rn_host e) p)))"

definition finding_of :: "run \<Rightarrow> repair_finding_kind" where
  "finding_of origin = (if by_validation origin then Validation_failed else Review_blocking)"

definition repair_admission_for ::
  "review_environment \<Rightarrow> run \<Rightarrow> run \<Rightarrow> resolved_execution \<Rightarrow> repair_task_shape_authority \<Rightarrow>
   repair_attempt_binding \<Rightarrow> lead_repair_reference option \<Rightarrow> string option \<Rightarrow> repair_admission_snapshot reviewing" where
  "repair_admission_for e origin r x au b lead sha =
     before (clock e 0) (\<lambda>now.
       case (run_headSha r, run_pullRequest r) of
         (Some h, Some q) \<Rightarrow>
           (case create_repair_admission_snapshot au (finding_of origin) h (pr_number q) x now of
              Inl err \<Rightarrow> plain_fault e (Snapshot_refused err)
            | Inr a \<Rightarrow> give (a\<lparr>ad_attemptBinding := Some b, ad_budgetLimit := repair_limit r,
                ad_packetSha256 := (if lead = None then None else sha), ad_leadDisposition := lead\<rparr>))
       | _ \<Rightarrow> plain_fault e Value_missing)"

definition in_lead_boundary :: "review_environment \<Rightarrow> 'a reviewing \<Rightarrow> 'a reviewing" where
  "in_lead_boundary e m =
     (if rn_leadBoundary e then before (ask Entered_boundary (rn_enter e)) (\<lambda>_. m) else m)"

definition consumption_checks :: "review_environment \<Rightarrow> resolved_execution \<Rightarrow> run \<Rightarrow> unit reviewing" where
  "consumption_checks e x r =
     before (current_routine e x) (\<lambda>same.
     if \<not> same then refusal_fault e Consumption_changed False False
     else before (assure e Lead_initiation r) (\<lambda>_. before (assure e Claim_check r) (\<lambda>_.
       before (assure e Mutation_check r) (\<lambda>_. assure e Normal_initiation r))))"

definition start_fix_input :: "repair_admission_snapshot option \<Rightarrow> transition_input" where
  "start_fix_input a = (bare_input T_start_fix)\<lparr>in_repairAdmission := a\<rparr>"

definition consume_admission ::
  "review_environment \<Rightarrow> run \<Rightarrow> run \<Rightarrow> resolved_execution \<Rightarrow> repair_admission_snapshot \<Rightarrow> run reviewing" where
  "consume_admission e origin r x a =
     before (transit e r (start_fix_input (Some a))) (\<lambda>started.
     before (in_lead_boundary e
       (before (if native_repair e origin then consumption_checks e x r else give ())
          (\<lambda>_. swap_run e r started))) (\<lambda>ok.
     if ok then give started else superseded e r))"

definition starts_fresh :: "active_admission option \<Rightarrow> bool" where
  "starts_fresh t =
     present_and (\<lambda>a. act_handoff a = None \<and> present_and bi_freshExecutor (ad_attemptBinding (act_snapshot a))) t"

definition promoted_repair ::
  "review_environment \<Rightarrow> int \<Rightarrow> run \<Rightarrow> live_snapshot \<Rightarrow> repair_task_shape_authority \<Rightarrow> repair_plan reviewing" where
  "promoted_repair e n origin s au =
     before (promoted_execution e origin au) (\<lambda>x.
     before (attempt_binding e origin x) (\<lambda>b.
     before (if native_repair e origin
       then before (consult_lead e n x origin s) (\<lambda>(r, s, d). give (r, s, Some d))
       else give (origin, s, None)) (\<lambda>(r, s, lead).
     before (luna_preflight e origin r s (Some x) lead) (\<lambda>sha.
     before (repair_admission_for e origin r x au b lead sha) (\<lambda>a.
     before (consume_admission e origin r x a) (\<lambda>started.
       case active_repair_admission (rh_oracle (rn_host e)) started of
         None \<Rightarrow> park_repair e started Admission_unbound
       | Some t \<Rightarrow> before (owned_fix e started) (\<lambda>s.
           give \<lparr>fx_run = started, fx_snapshot = s, fx_execution = Some x, fx_fresh = starts_fresh (Some t),
                 fx_attempt = Some t, fx_lead = lead\<rparr>)))))))"

definition plain_repair :: "review_environment \<Rightarrow> run \<Rightarrow> live_snapshot \<Rightarrow> repair_plan reviewing" where
  "plain_repair e origin s =
     (let t = active_repair_admission (rh_oracle (rn_host e)) origin in
      before (luna_preflight e origin origin s (run_execution origin) None) (\<lambda>_.
      before (transit e origin (start_fix_input None)) (\<lambda>started.
      before (commit e origin started) (\<lambda>_.
        give \<lparr>fx_run = started, fx_snapshot = s, fx_execution = run_execution origin,
              fx_fresh = starts_fresh t, fx_attempt = t, fx_lead = None\<rparr>))))"

definition is_legacy_app_server :: "run \<Rightarrow> bool" where
  "is_legacy_app_server r \<longleftrightarrow>
     (case generationless_app_server_predecessor r of Inr (Some _) \<Rightarrow> True | _ \<Rightarrow> False)"

definition begin_repair ::
  "review_environment \<Rightarrow> review_options \<Rightarrow> int \<Rightarrow> run \<Rightarrow> (repair_plan \<times> executor_identity option) reviewing" where
  "begin_repair e p n r =
     before (admit_repair e p n r) (\<lambda>_. before (owned_fix e r) (\<lambda>s.
       case resolve_repair_predecessor r of
         Inl x \<Rightarrow> park_repair e r (Predecessor_refused x (rn_governed e))
       | Inr predecessor \<Rightarrow>
           (case run_repairTaskShapeAuthority r of
              None \<Rightarrow>
                if \<not> isolated_luna (run_execution r) \<and> is_legacy_app_server r
                then park_repair e r (Legacy_app_server (rn_governed e))
                else before (plain_repair e r s) (\<lambda>f. give (f, predecessor))
            | Some au \<Rightarrow> before (promoted_repair e n r s au) (\<lambda>f. give (f, predecessor)))))"

section \<open>The workspace\<close>

text \<open>The base of a new isolated workspace: a same-repository pull request with named branches.\<close>

definition workspace_base :: "bootstrap_kind option \<Rightarrow> run \<Rightarrow> live_snapshot \<Rightarrow> plan_request option" where
  "workspace_base kind r s =
     (case lv_pullRequest s of
        None \<Rightarrow> None
      | Some a \<Rightarrow>
          if kind = Some Standalone_isolated \<and> run_headSha r \<noteq> None
             \<and> same_repository_ref (lp_headRepository a) (t_owner (run_target r)) (t_repo (run_target r))
             \<and> present_and (\<lambda>b. \<not> blank b) (lp_headRef a) \<and> present_and (\<lambda>b. \<not> blank b) (lp_baseRef a)
             \<and> \<not> blank (lp_baseSha a)
          then Some \<lparr>pq_baseBranch = opt_text (lp_baseRef a), pq_baseSha = lp_baseSha a,
                     pq_publicationBranch = opt_text (lp_headRef a)\<rparr>
          else None)"

definition planned_as_asked :: "bootstrap_kind option \<Rightarrow> target \<Rightarrow> plan_request \<Rightarrow> bootstrap_identity \<Rightarrow> bool" where
  "planned_as_asked kind t q b \<longleftrightarrow>
     Some (b_bootstrapKind b) = kind \<and> lower (b_owner b) = lower (t_owner t)
     \<and> lower (b_repo b) = lower (t_repo t)
     \<and> (case t of Issue _ _ n \<Rightarrow> b_issueNumber b = n | Repository _ _ _ _ \<Rightarrow> False)
     \<and> b_baseBranch b = pq_baseBranch q \<and> b_baseSha b = pq_baseSha q
     \<and> b_publicationBranch b = Some (pq_publicationBranch q)
     \<and> \<not> blank (b_branch b) \<and> \<not> blank (b_workspacePath b)"

definition persist_bootstrap :: "review_environment \<Rightarrow> run \<Rightarrow> run \<Rightarrow> unit reviewing" where
  "persist_bootstrap e expected new =
     before (if rn_swaps e
       then rescue (swap_run e expected new) (\<lambda>_. refusal_fault e Persistence_unconfirmed False True)
       else refusal_fault e Persistence_unconfirmed False True)
     (\<lambda>ok. if ok then give () else refusal_fault e Persistence_superseded True False)"

definition bootstrap_input :: "bootstrap_identity \<Rightarrow> transition_input" where
  "bootstrap_input b = (bare_input T_bootstrap_prepared)\<lparr>in_bootstrap := Some b\<rparr>"

definition planned_run ::
  "review_environment \<Rightarrow> bootstrap_kind option \<Rightarrow> plan_request \<Rightarrow> run \<Rightarrow> run reviewing" where
  "planned_run e kind q r =
     before (planning_admission e r) (\<lambda>_. before (during e (before_mutation e r) ()) (\<lambda>_.
     before (ask (Planned q) (rn_plan e q)) (\<lambda>b. before (final_admission e r (give ())) (\<lambda>_.
     if \<not> planned_as_asked kind (run_target r) q b then plain_fault e Plan_outside_target
     else before (transit e r (bootstrap_input b)) (\<lambda>prepared. before (planning_admission e r) (\<lambda>_.
       before (persist_bootstrap e r prepared) (\<lambda>_. give prepared)))))))"

definition plan_workspace ::
  "review_environment \<Rightarrow> bootstrap_kind option \<Rightarrow> plan_request \<Rightarrow> run \<Rightarrow> run reviewing" where
  "plan_workspace e kind q r =
     before (rescue (planned_run e kind q r) (workspace_failed e r)) (\<lambda>prepared.
     before (rescue (assure e Can_mutate prepared) (workspace_failed e prepared)) (\<lambda>_. give prepared))"

definition prepare_workspace ::
  "review_environment \<Rightarrow> run \<Rightarrow> bootstrap_identity \<Rightarrow> string \<Rightarrow> live_snapshot reviewing" where
  "prepare_workspace e r b base =
     before (rescue
       (before (planning_admission e r) (\<lambda>_. before (assure e Can_mutate r) (\<lambda>_.
        before (mutation_admission e r) (\<lambda>_. before (during e (before_mutation e r) ()) (\<lambda>_.
          ask (Prepared_workspace b) (rn_prepare e b base))))))
       (workspace_failed e r)) (\<lambda>_. owned_fix e r)"

definition open_workspace ::
  "review_environment \<Rightarrow> bootstrap_kind option \<Rightarrow> repair_plan \<Rightarrow> repair_plan reviewing" where
  "open_workspace e kind f =
     before (if isolated_luna (fx_execution f) \<and> run_bootstrap (fx_run f) = None
       then (case workspace_base kind (fx_run f) (fx_snapshot f) of
           None \<Rightarrow> park_bootstrap e (fx_run f) (plain_error (rn_host e) No_workspace_authority)
         | Some q \<Rightarrow> plan_workspace e kind q (fx_run f))
       else give (fx_run f)) (\<lambda>r.
     case run_bootstrap r of
       None \<Rightarrow> give (f\<lparr>fx_run := r\<rparr>)
     | Some b \<Rightarrow>
         if kind = None \<or> run_headSha r = None
         then park_bootstrap e r (plain_error (rn_host e) Missing_workspace_proof)
         else if kind \<noteq> Some (b_bootstrapKind b)
         then park_bootstrap e r (plain_error (rn_host e) Transport_incompatible)
         else before (prepare_workspace e r b (opt_text (run_headSha r)))
           (\<lambda>s. give (f\<lparr>fx_run := r, fx_snapshot := s\<rparr>)))"

definition consumes_disposition :: "repair_plan \<Rightarrow> bool" where
  "consumes_disposition f =
     present_and (\<lambda>a. ad_leadDisposition (act_snapshot a) \<noteq> None) (fx_attempt f)"

definition admitted_packet :: "repair_plan \<Rightarrow> string option" where
  "admitted_packet f = Option.bind (fx_attempt f) (\<lambda>a. ad_packetSha256 (act_snapshot a))"

definition worker_packet ::
  "review_environment \<Rightarrow> run \<Rightarrow> repair_plan \<Rightarrow> implementation_packet option reviewing" where
  "worker_packet e origin f =
     (case fx_execution f of
        None \<Rightarrow> give None
      | Some x \<Rightarrow>
          if \<not> isolated_luna (fx_execution f) then give None
          else case build_implementation_packet (rh_packet (rn_host e))
                 (packet_input e origin (fx_run f) (fx_snapshot f) x (fx_lead f)) of
              Inl refusal \<Rightarrow> close_repair e (fx_run f) (Packet_refusal_reason refusal)
            | Inr p \<Rightarrow>
                if consumes_disposition f \<and> Some (rh_packet_digest (rn_host e) p) \<noteq> admitted_packet f
                then park_repair e (fx_run f) Packet_changed
                else give (Some p))"

definition prepare_repair ::
  "review_environment \<Rightarrow> run \<Rightarrow> repair_plan \<Rightarrow>
   (repair_plan \<times> bootstrap_kind option \<times> implementation_packet option) reviewing" where
  "prepare_repair e origin f =
     (if map_option b_bootstrapKind (run_bootstrap (fx_run f)) = Some Standalone_isolated
         \<and> \<not> isolated_luna (fx_execution f)
      then park_bootstrap e (fx_run f) (plain_error (rn_host e) Luna_transport)
      else before (ask Chosen_bootstrap (rn_bootstrap e (fx_execution f))) (\<lambda>kind.
        before (open_workspace e kind f) (\<lambda>f. before (worker_packet e origin f) (\<lambda>p. give (f, kind, p)))))"

section \<open>The worker\<close>

definition continued_session :: "repair_plan \<Rightarrow> string option" where
  "continued_session f =
     (if fx_fresh f \<or> isolated_luna (fx_execution f) then None else result_session (fx_run f))"

definition continued_executor :: "repair_plan \<Rightarrow> executor_identity option \<Rightarrow> executor_identity option" where
  "continued_executor f predecessor =
     (if fx_fresh f \<or> isolated_luna (fx_execution f) then None else predecessor)"

definition runtime_generation :: "repair_plan \<Rightarrow> executor_identity option \<Rightarrow> string" where
  "runtime_generation f predecessor =
     (case Option.bind (fx_attempt f) (\<lambda>a. ad_attemptBinding (act_snapshot a)) of
        Some b \<Rightarrow> bi_runtimeGeneration b
      | None \<Rightarrow>
          (case Option.bind predecessor e_generation of Some g \<Rightarrow> g | None \<Rightarrow> run_id (fx_run f)))"

text \<open>What a governed adapter is asked to qualify; the worker is then called with the rest added.\<close>

definition governed_request ::
  "review_environment \<Rightarrow> repair_plan \<Rightarrow> executor_identity option \<Rightarrow> worker_request" where
  "governed_request e f predecessor =
     (let r = fx_run f in
      \<lparr>wq_target = run_target r, wq_baseSha = opt_text (run_headSha r), wq_isolated = False,
       wq_instructions = [], wq_packet = None,
       wq_workspace = map_option (\<lambda>b. (b_workspacePath b, b_branch b)) (run_bootstrap r),
       wq_native = False, wq_sessionId = continued_session f,
       wq_executor = continued_executor f predecessor, wq_runId = run_id r,
       wq_generation = runtime_generation f predecessor, wq_claimId = run_dispatchClaimId r,
       wq_governed = rn_governed e, wq_execution = fx_execution f\<rparr>)"

definition failed_validation_findings :: string where
  "failed_validation_findings =
     ''Exact-HEAD validation failed. Repair the implementation and its required validation before returning a new exact HEAD.''"

definition findings_text :: "review_environment \<Rightarrow> run \<Rightarrow> string" where
  "findings_text e origin =
     (if by_validation origin then failed_validation_findings
      else opt_text (map_option (render_blocking_findings (rn_host e)) (run_reviewResult origin)))"

definition worker_request_of ::
  "review_environment \<Rightarrow> run \<Rightarrow> repair_plan \<Rightarrow> executor_identity option \<Rightarrow>
   implementation_packet option \<Rightarrow> worker_request" where
  "worker_request_of e origin f predecessor packet =
     (governed_request e f predecessor)
       \<lparr>wq_isolated := isolated_luna (fx_execution f),
        wq_instructions := (case packet of Some p \<Rightarrow> pk_rendered p | None \<Rightarrow> findings_text e origin),
        wq_packet := packet, wq_native := consumes_disposition f\<rparr>"

definition hold_governed :: "review_environment \<Rightarrow> run \<Rightarrow> worker_reason \<Rightarrow> 'a reviewing" where
  "hold_governed e r reason = ask_human e r (rh_text (rn_host e) (Working reason))
     [rh_text (rn_host e) (Working Governed_reentry_action), CANCEL_RUN_DECISION]"

definition qualify_governed ::
  "review_environment \<Rightarrow> repair_plan \<Rightarrow> executor_identity option \<Rightarrow> unit reviewing" where
  "qualify_governed e f predecessor =
     (let q = governed_request e f predecessor in
      if \<not> rn_governed e then give ()
      else before (rescue (ask (Prepared_governed q) (rn_prepareGoverned e q))
             (\<lambda>x. hold_governed e (fx_run f) (Governed_preflight_failed (th_message x)))) (\<lambda>ok.
        if ok then give () else hold_governed e (fx_run f) Governed_unavailable))"

definition worker_spawn :: "repair_plan \<Rightarrow> spawn_input" where
  "worker_spawn f =
     (let x = fx_execution f in
      \<lparr>si_role = Worker, si_attemptKind = K_repair, si_headSha = run_headSha (fx_run f),
       si_provider = map_option ex_executor x, si_model = Option.bind x ex_model,
       si_reasoningEffort = Option.bind (Option.bind x ex_reasoningEffort) effort_string,
       si_profile = map_option (\<lambda>y. profile_text (ex_profile y)) x,
       si_contextMode = Some Bounded, si_contextJustification = Some Live_target_bounded\<rparr>)"

definition handoff_type :: "active_admission \<Rightarrow> transition_type" where
  "handoff_type a =
     (if act_handoff a = None then T_repair_executor_handoff else T_repair_executor_continued)"

definition handoff_input :: "active_admission \<Rightarrow> agent_result \<Rightarrow> transition_input" where
  "handoff_input a result = (bare_input (handoff_type a))\<lparr>in_repairAgentResult := Some result\<rparr>"

definition bound_attempt :: "repair_plan \<Rightarrow> active_admission option" where
  "bound_attempt f = only_if (\<lambda>a. ad_attemptBinding (act_snapshot a) \<noteq> None) (fx_attempt f)"

definition worker_completion ::
  "repair_plan \<Rightarrow> string \<Rightarrow> agent_exit_status \<Rightarrow> string list option \<Rightarrow> provider_telemetry option \<Rightarrow> completion_input" where
  "worker_completion f invocation status ds t =
     create_completion_input_from_result status ds t (execution_fallback (fx_execution f)) Worker invocation"

definition guard_failed_result :: "thrown \<Rightarrow> executor_identity \<Rightarrow> agent_result" where
  "guard_failed_result x i =
     \<lparr>a_exitStatus = Failure, a_summary = th_message x, a_headSha = None, a_changedFiles = None,
      a_diagnostics = None, a_executor = Some i, a_sessionId = Some (e_sessionId i), a_durationMs = None,
      a_telemetry = None\<rparr>"

definition AGENT_INVOCATION_FAILED :: string where
  "AGENT_INVOCATION_FAILED =
     ''AGENT_RUNTIME_INVOCATION_FAILED: provider invocation threw before returning an AgentResult''"

text \<open>\<open>recordWorkerInvocationFailure\<close> for a handed-off run \<open>h\<close>: a workspace failure parks the run,
  with the executor it proved if the attempt can adopt it; anything else is recorded and goes on.\<close>

definition park_guard_failure ::
  "review_environment \<Rightarrow> repair_plan \<Rightarrow> string \<Rightarrow> thrown \<Rightarrow> active_admission \<Rightarrow> executor_identity \<Rightarrow> 'a reviewing" where
  "park_guard_failure e f invocation x a i =
     (let h = fx_run f; result = guard_failed_result x i in
      before (clock e 0) (\<lambda>now.
      let captured = record_completion_telemetry h (worker_completion f invocation Failure None None) now in
      before (rescue (transit e captured (handoff_input a result)) (\<lambda>_. give captured)) (\<lambda>adopted.
      before (transit e adopted (bootstrap_failure_input x None)) (\<lambda>parked.
      before (commit e h parked) (\<lambda>_. return (Loop_needs_human parked (bootstrap_reason x)))))))"

definition record_worker_failure ::
  "review_environment \<Rightarrow> repair_plan \<Rightarrow> string \<Rightarrow> thrown \<Rightarrow> 'a reviewing" where
  "record_worker_failure e f invocation x =
     (let h = fx_run f in
      case th_kind x of
        Guard_failure i \<Rightarrow>
          (case (i, bound_attempt f) of
             (Some j, Some a) \<Rightarrow> park_guard_failure e f invocation x a j
           | _ \<Rightarrow> park_bootstrap e h x)
      | _ \<Rightarrow>
          before (clock e 0) (\<lambda>now.
          before (commit e h (record_completion_telemetry h
            (worker_completion f invocation Failure (Some [AGENT_INVOCATION_FAILED]) None) now)) (\<lambda>_.
          raise x)))"

definition recorded_failures :: "review_environment \<Rightarrow> repair_plan \<Rightarrow> string \<Rightarrow> 'a reviewing \<Rightarrow> 'a reviewing" where
  "recorded_failures e f invocation m = rescue m (record_worker_failure e f invocation)"

text \<open>The callbacks the worker's adapter is given.\<close>

definition worker_callback ::
  "review_environment \<Rightarrow> repair_plan \<Rightarrow> adapter_callback \<Rightarrow> unit \<Rightarrow> unit reviewing" where
  "worker_callback e f c =
     (let h = fx_run f in
      if c = Before_execution
      then checks_only c (before (assure e Normal_initiation h) (\<lambda>_.
        before (native_execution e h (fx_snapshot f)) (\<lambda>_. mutation_admission e h)))
      else if c = Before_publication
      then checks_only c (before (assure e Normal_initiation h) (\<lambda>_. publication_admission e h))
      else give)"

definition call_worker :: "review_environment \<Rightarrow> repair_plan \<Rightarrow> worker_request \<Rightarrow> agent_result reviewing" where
  "call_worker e f q =
     before (assure e Normal_initiation (fx_run f)) (\<lambda>_.
     before (note_event (Worker_called (fx_run f) q)) (\<lambda>_.
     before (during e (worker_callback e f) ()) (\<lambda>_. ask Worker_answered (rn_worker e q))))"

definition worker_refused ::
  "review_environment \<Rightarrow> repair_plan \<Rightarrow> string \<Rightarrow> thrown \<Rightarrow> 'a reviewing" where
  "worker_refused e f invocation x =
     (if is_admission_refusal (th_kind x)
      then reconciled e (fx_run f) x (ask_human e (fx_run f)
        (rh_text (rn_host e) (Working (Worker_refused (th_message x)))) [CANCEL_RUN_DECISION])
      else record_worker_failure e f invocation x)"

text \<open>Everything is confirmed again between the recorded spawn and the worker.\<close>

definition fence_worker :: "review_environment \<Rightarrow> repair_plan \<Rightarrow> string \<Rightarrow> unit reviewing" where
  "fence_worker e f invocation =
     (let h = fx_run f in
      before (recorded_failures e f invocation
        (if isolated_luna (fx_execution f) then give () else ask Resolved_capabilities (rn_capabilities e))) (\<lambda>_.
      before (commit e h h) (\<lambda>_.
      recorded_failures e f invocation
        (before (assure e Can_mutate h) (\<lambda>_. before (assure e Execution_start h) (\<lambda>_.
         before (assure e Mutation_check h) (\<lambda>_. commit e h h)))))))"

definition run_worker ::
  "review_environment \<Rightarrow> run \<Rightarrow> repair_plan \<Rightarrow> executor_identity option \<Rightarrow> implementation_packet option \<Rightarrow>
   (repair_plan \<times> string \<times> agent_result) reviewing" where
  "run_worker e origin f predecessor packet =
     before (qualify_governed e f predecessor) (\<lambda>_. before (clock e 0) (\<lambda>now.
       case record_spawn_telemetry (fx_run f) (worker_spawn f) now of
         (h, invocation, _) \<Rightarrow>
           let g = f\<lparr>fx_run := h\<rparr> in
           before (commit e (fx_run f) h) (\<lambda>_. before (fence_worker e g invocation) (\<lambda>_.
           before (look (rn_confined e)) (\<lambda>confined.
           if rn_governed e \<and> \<not> confined then hold_governed e h Governed_changed
           else before (rescue (call_worker e g (worker_request_of e origin g predecessor packet))
                  (worker_refused e g invocation)) (\<lambda>result. give (g, invocation, result)))))))"

section \<open>What the worker produced\<close>

definition adopt_result ::
  "review_environment \<Rightarrow> repair_plan \<Rightarrow> string \<Rightarrow> agent_result \<Rightarrow> run reviewing" where
  "adopt_result e f invocation result =
     (let h = fx_run f in
      before (clock e 0) (\<lambda>now.
      let completed = record_completion_telemetry h (worker_completion f invocation (a_exitStatus result)
            (a_diagnostics result) (a_telemetry result)) now in
      before (case bound_attempt f of
          None \<Rightarrow> give completed
        | Some a \<Rightarrow> rescue (transit e completed (handoff_input a result)) (\<lambda>x.
            before (commit e h completed) (\<lambda>_. ask_human e completed
              (rh_text (rn_host e) (Working (Handoff_not_qualified (th_message x))))
              [''Provide explicit repair authority or resolve execution availability'', CANCEL_RUN_DECISION])))
      (\<lambda>adopted. before (commit e h adopted) (\<lambda>_. give adopted))))"

definition settle_failure :: "review_environment \<Rightarrow> run \<Rightarrow> agent_result \<Rightarrow> 'a reviewing" where
  "settle_failure e r result =
     (case human_takeover_reason result of
        Some reason \<Rightarrow> leave e r
          ((escalation reason reason [''Complete human bootstrap/takeover and resume'', CANCEL_RUN_DECISION])
             \<lparr>in_executor := a_executor result\<rparr>) (\<lambda>s. Loop_needs_human s reason)
      | None \<Rightarrow> leave e r
          ((bare_input T_agent_failed)\<lparr>in_agentResult := Some result, in_headSha := a_headSha result\<rparr>)
          (\<lambda>s. Loop_failed s (rh_text (rn_host e) (Working (Implementation_failed (a_summary result))))))"

definition no_new_head :: "review_environment \<Rightarrow> run \<Rightarrow> 'a reviewing" where
  "no_new_head e r =
     (let text = rh_text (rn_host e) in
      leave e r (escalation (text (Working No_new_head)) (text (Working No_new_head_evidence))
        [''Retry the fix after updating GitHub context'', CANCEL_RUN_DECISION])
        (\<lambda>s. Loop_needs_human s (text (Working No_new_head))))"

definition new_head :: "review_environment \<Rightarrow> run \<Rightarrow> agent_result \<Rightarrow> string reviewing" where
  "new_head e r result =
     (case a_headSha result of
        Some h \<Rightarrow> if run_headSha r \<noteq> Some h then give h else no_new_head e r
      | None \<Rightarrow> no_new_head e r)"

text \<open>The callbacks of the host's verification and publication; a recheck reads the live state again.\<close>

definition live_packet ::
  "review_environment \<Rightarrow> run \<Rightarrow> repair_plan \<Rightarrow> run \<Rightarrow> live_snapshot \<Rightarrow> bool" where
  "live_packet e origin f r s =
     (case fx_execution f of
        None \<Rightarrow> False
      | Some x \<Rightarrow>
          (case build_implementation_packet (rh_packet (rn_host e)) (packet_input e origin r s x None) of
             Inl _ \<Rightarrow> False
           | Inr p \<Rightarrow> Some (rh_packet_digest (rn_host e) p) = admitted_packet f))"

definition recheck_publication ::
  "review_environment \<Rightarrow> run \<Rightarrow> repair_plan \<Rightarrow> run \<Rightarrow> live_snapshot reviewing" where
  "recheck_publication e origin f r =
     before (read_live e (run_target r)) (\<lambda>s. before (assure e Claim_check r) (\<lambda>_.
     if pull_request_identity_conflict r s True \<noteq> None \<or> lv_headSha s \<noteq> run_headSha r
        \<or> \<not> live_packet e origin f r s
     then refusal_fault e Publication_authority_changed False False
     else give s))"

definition verify_callback ::
  "review_environment \<Rightarrow> run \<Rightarrow> repair_plan \<Rightarrow> run \<Rightarrow> adapter_callback \<Rightarrow> live_snapshot \<Rightarrow> live_snapshot reviewing" where
  "verify_callback e origin f r c =
     (case c of
        Before_mutation \<Rightarrow>
          checks_only c (before (assure e Normal_initiation r) (\<lambda>_. mutation_admission e r))
      | Before_publication \<Rightarrow>
          (\<lambda>s. checks_only c (before (assure e Normal_initiation r) (\<lambda>_.
             before (native_execution e r s) (\<lambda>_. publication_admission e r))) s)
      | Recheck_publication \<Rightarrow>
          (if consumes_disposition f
           then called_back c (recheck_publication e origin f r) (\<lambda>s.
             before (native_execution e r s) (\<lambda>_. assure e Normal_initiation r))
           else give)
      | Before_execution \<Rightarrow> give)"

definition verify_published ::
  "review_environment \<Rightarrow> run \<Rightarrow> repair_plan \<Rightarrow> bootstrap_kind option \<Rightarrow> run \<Rightarrow> string \<Rightarrow> unit reviewing" where
  "verify_published e origin f kind r head =
     (case run_bootstrap r of
        None \<Rightarrow> give ()
      | Some b \<Rightarrow>
          if kind = None \<or> run_headSha (fx_run f) = None
          then park_bootstrap e r (plain_error (rn_host e) Verification_unavailable)
          else before (if consumes_disposition f
            then before (owned_fix e r) (\<lambda>s.
              if live_packet e origin f r s then give s
              else ask_human e r (rh_text (rn_host e) (Working Live_packet_changed))
                [''Provide explicit repair authority or resolve execution availability'', CANCEL_RUN_DECISION])
            else give (fx_snapshot f)) (\<lambda>s.
          rescue (before (during e (verify_callback e origin f r) s) (\<lambda>_.
              ask (Verified_durable b head) (rn_verify e b head (opt_text (run_headSha (fx_run f))))))
            (workspace_failed e r)))"

definition live_after_fix :: "review_environment \<Rightarrow> run \<Rightarrow> live_snapshot reviewing" where
  "live_after_fix e r = rescue (read_live e (run_target r)) (\<lambda>x.
     ask_human e r (render_failure ''GitHub live-state validation failed after the fix'' x)
       [''Retry after restoring GitHub access'', CANCEL_RUN_DECISION])"

definition moved_choices :: "string option \<Rightarrow> string list" where
  "moved_choices head =
     (if head = None then [''Open the implementation pull request and retry'', CANCEL_RUN_DECISION]
      else [LIVE_HEAD_SYNC_DECISION, CANCEL_RUN_DECISION])"

text \<open>The pull request the fix is accepted with, or the reason it cannot be.\<close>

definition fix_pull :: "run \<Rightarrow> live_snapshot \<Rightarrow> review_reason + live_pull" where
  "fix_pull r s =
     (case (pull_request_identity_conflict r s True, lv_pullRequest s) of
        (Some c, _) \<Rightarrow> Inl (Identity c)
      | (None, None) \<Rightarrow> Inl (Working Pull_disappeared)
      | (None, Some a) \<Rightarrow>
          if absent_or (\<lambda>p. lp_number a = pr_number p) (run_pullRequest r) then Inr a
          else Inl (Working Pull_disappeared))"

definition fixed_input :: "agent_result \<Rightarrow> string \<Rightarrow> live_pull \<Rightarrow> transition_input" where
  "fixed_input result head a =
     (bare_input T_agent_succeeded)\<lparr>in_agentResult := Some result, in_headSha := Some head,
        in_pullRequest := Some \<lparr>pr_number = lp_number a, pr_headSha = head\<rparr>\<rparr>"

definition accept_fix :: "review_environment \<Rightarrow> run \<Rightarrow> agent_result \<Rightarrow> string \<Rightarrow> 'a reviewing" where
  "accept_fix e r result head =
     (let text = rh_text (rn_host e) in
      before (live_after_fix e r) (\<lambda>s.
      if lv_headSha s \<noteq> Some head
      then ask_human e r (text (Working (Fix_head_differs (lv_headSha s) head))) (moved_choices (lv_headSha s))
      else case fix_pull r s of
          Inl reason \<Rightarrow> ask_human e r (text reason)
            [''Resolve the pull request identity conflict and retry'', CANCEL_RUN_DECISION]
        | Inr a \<Rightarrow> leave e r (fixed_input result head a)
            (\<lambda>t. Loop_revalidating t (text (Working Fresh_validation_required)))))"

definition repair_pass :: "review_environment \<Rightarrow> review_options \<Rightarrow> int \<Rightarrow> run \<Rightarrow> 'a reviewing" where
  "repair_pass e p n origin =
     before (begin_repair e p n origin) (\<lambda>(f, predecessor).
     before (prepare_repair e origin f) (\<lambda>(f, kind, packet).
     before (run_worker e origin f predecessor packet) (\<lambda>(f, invocation, result).
     before (adopt_result e f invocation result) (\<lambda>r.
     if a_exitStatus result = Failure then settle_failure e r result
     else before (new_head e r result) (\<lambda>head.
       before (verify_published e origin f kind r head) (\<lambda>_. accept_fix e r result head))))))"

end
