(* ===== verification/Review_Loop.thy ===== *)
theory Review_Loop
  imports Review_Worker
begin

text \<open>
  The review pass and the loop of \<^verbatim>\<open>src/reviewers/loop.ts\<close>: the live identity and the validation
  are admitted before the reviewer is asked and again before its verdict is stored; a refusal goes
  on to the repair pass.
\<close>

section \<open>Admission\<close>

definition decide_review_admission :: "review_environment \<Rightarrow> run \<Rightarrow> live_snapshot \<Rightarrow> review_admission reviewing" where
  "decide_review_admission e r s =
     (case identity_admission (rn_host e) r s of
        Some c \<Rightarrow> give (Must_ask c)
      | None \<Rightarrow>
          if \<not> validation_bound r then give (Must_revalidate Validation_not_coherent)
          else before (attempted (resolve_authority e)) (\<lambda>a. give (evidence_admission r a)))"

definition admitted_review :: "review_environment \<Rightarrow> run \<Rightarrow> live_snapshot \<Rightarrow> active_validation reviewing" where
  "admitted_review e r s =
     before (decide_review_admission e r s) (\<lambda>a. case a of
         Admitted v \<Rightarrow> give v
       | Must_revalidate c \<Rightarrow> persist_revalidation e r (rh_text (rn_host e) (Identity c))
       | Must_ask c \<Rightarrow> park_admission e r (rh_text (rn_host e) (Identity c)))"

section \<open>Before the review\<close>

definition review_budget :: "review_environment \<Rightarrow> review_options \<Rightarrow> int \<Rightarrow> run \<Rightarrow> unit reviewing" where
  "review_budget e p n r =
     (if \<not> native_work e r \<and> n \<le> durable_repair_attempts r
      then ask_human e r (rh_text (rn_host e) (Reviewing (Budget_reached (ro_maxAttempts p))))
        [''Provide more GitHub context and retry'', CANCEL_RUN_DECISION]
      else give ())"

text \<open>A failed read parks open native work, asks a human when it may be retried, and fails otherwise.\<close>

definition review_read_failed :: "review_environment \<Rightarrow> run \<Rightarrow> string \<Rightarrow> thrown \<Rightarrow> 'a reviewing" where
  "review_read_failed e r choice x =
     (let reason = render_failure ''GitHub live-state validation failed'' x in
      if unresolved_native_review (rh_oracle (rn_host e)) r then wait_native e r W_request reason
      else if th_retryable x then ask_human e r reason [choice, CANCEL_RUN_DECISION]
      else leave e r (reasoned T_fail reason) (\<lambda>s. Loop_failed s reason))"

definition read_confirmed :: "review_environment \<Rightarrow> run \<Rightarrow> live_snapshot reviewing" where
  "read_confirmed e r =
     before (read_live e (run_target r)) (\<lambda>s. before (commit e r r) (\<lambda>_. give s))"

definition exact_live_head :: "review_environment \<Rightarrow> run \<Rightarrow> live_snapshot \<Rightarrow> unit reviewing" where
  "exact_live_head e r s =
     (case lv_headSha s of
        None \<Rightarrow> ask_human e r (rh_text (rn_host e) (Reviewing (No_live_head (run_target r)))) (moved_choices None)
      | Some h \<Rightarrow>
          if run_headSha r = Some h then give ()
          else ask_human e r (rh_text (rn_host e) (Reviewing (Live_head_differs h (run_headSha r))))
            (moved_choices (Some h)))"

definition open_review :: "review_environment \<Rightarrow> review_options \<Rightarrow> int \<Rightarrow> run \<Rightarrow> live_snapshot reviewing" where
  "open_review e p n r =
     before (review_budget e p n r) (\<lambda>_.
     before (rescue (read_confirmed e r) (review_read_failed e r ''Retry after restoring GitHub access'')) (\<lambda>s.
     before (exact_live_head e r s) (\<lambda>_.
       case pull_request_identity_conflict r s True of
         Some c \<Rightarrow> park_bootstrap e r (plain_error (rn_host e) (Identity_conflict c))
       | None \<Rightarrow> before (admitted_review e r s) (\<lambda>_.
           if run_headSha r = None then park_bootstrap e r (plain_error (rn_host e) Missing_candidate_head)
           else before (commit e r r) (\<lambda>_. give s)))))"

section \<open>The native reviewer\<close>

definition reviewer_spawn :: "run \<Rightarrow> spawn_attempt_kind \<Rightarrow> string option \<Rightarrow> spawn_input" where
  "reviewer_spawn r kind head =
     \<lparr>si_role = Reviewer, si_attemptKind = kind, si_headSha = head, si_provider = None, si_model = None,
      si_reasoningEffort = None, si_profile = None, si_contextMode = Some Bounded,
      si_contextJustification = Some Live_target_bounded\<rparr>"

text \<open>\<open>onSubmission\<close>: \<open>r\<close> is the run the reviewer marked, \<open>origin\<close> the run under review.\<close>

definition review_submission :: "review_environment \<Rightarrow> run \<Rightarrow> run \<Rightarrow> run reviewing" where
  "review_submission e origin r =
     before (assure e Mutation_check origin) (\<lambda>_. before (assure e Execution_start origin) (\<lambda>_.
     before (clock e 0) (\<lambda>now.
       give (fst (record_spawn_telemetry r (reviewer_spawn r K_review (run_headSha origin)) now)))))"

definition native_wait_kind :: "review_environment \<Rightarrow> run \<Rightarrow> string \<Rightarrow> review_wait_kind" where
  "native_wait_kind e r reason =
     (if Option.bind (run_nativeReview r) nr_activeRequestId = None then W_binding
      else if contains reason ''replacement allowance'' then W_qualification
      else native_review_wait_kind (rh_oracle (rn_host e)) r)"

definition native_review_result ::
  "review_environment \<Rightarrow> run \<Rightarrow> live_snapshot \<Rightarrow> (run \<times> review_result) reviewing" where
  "native_review_result e r s =
     before (look (rn_submissions e)) (\<lambda>rs. before (submissions (review_submission e r) rs) (\<lambda>_.
     before (ask (Native_advanced r) (rn_advance e r s)) (\<lambda>a. case a of
         Native_superseded t reason \<Rightarrow> return (Loop_superseded t reason)
       | Native_waits t reason \<Rightarrow> wait_native e t (native_wait_kind e t reason) reason
       | Native_complete t v \<Rightarrow>
           if unresolved_native_review (rh_oracle (rn_host e)) t
           then wait_native e t (native_review_wait_kind (rh_oracle (rn_host e)) t)
             (rh_text (rn_host e) (Reviewing Native_result_retained))
           else give (t, v))))"

section \<open>The independent reviewer\<close>

definition reviewer_spawns_at :: "run \<Rightarrow> string option \<Rightarrow> nat" where
  "reviewer_spawns_at r head =
     length (filter (\<lambda>v. case v of Spawn s \<Rightarrow> sp_role s = Reviewer \<and> sp_headSha s = head | _ \<Rightarrow> False) (run_events r))"

definition review_instructions :: "review_environment \<Rightarrow> run \<Rightarrow> string" where
  "review_instructions e r = opt_text (map_option (render_blocking_findings (rn_host e)) (run_reviewResult r))"

definition REVIEWER_INVOCATION_FAILED :: string where
  "REVIEWER_INVOCATION_FAILED =
     ''REVIEWER_INVOCATION_FAILED: reviewer adapter threw before returning a ReviewResult''"

definition reviewer_completion ::
  "string \<Rightarrow> agent_exit_status \<Rightarrow> string list option \<Rightarrow> provider_telemetry option \<Rightarrow> completion_input" where
  "reviewer_completion invocation status ds t = create_completion_input_from_result status ds t (None, None, None) Reviewer invocation"

definition reviewer_failed :: "review_environment \<Rightarrow> run \<Rightarrow> string \<Rightarrow> thrown \<Rightarrow> 'a reviewing" where
  "reviewer_failed e h invocation x =
     (let reason = render_failure ''Reviewer failed'' x in
      before (clock e 0) (\<lambda>now.
      let failed = record_completion_telemetry h
            (reviewer_completion invocation Failure (Some [REVIEWER_INVOCATION_FAILED]) None) now in
      before (transit e failed
        (if th_retryable x then escalation reason reason [''Retry the independent review'', CANCEL_RUN_DECISION]
         else reasoned T_fail reason)) (\<lambda>s.
      before (commit e h s) (\<lambda>_.
        return (if th_retryable x then Loop_needs_human s reason else Loop_failed s reason)))))"

definition call_reviewer :: "review_environment \<Rightarrow> run \<Rightarrow> review_result reviewing" where
  "call_reviewer e h =
     before (assure e Execution_start h) (\<lambda>_. before (commit e h h) (\<lambda>_.
     before (note_event (Review_called h (review_instructions e h))) (\<lambda>_.
       ask Review_answered (rn_review e h (review_instructions e h)))))"

definition independent_review :: "review_environment \<Rightarrow> run \<Rightarrow> (run \<times> review_result) reviewing" where
  "independent_review e r =
     (let kind = (if reviewer_spawns_at r (run_headSha r) = 0 then K_review else K_review_restart) in
      before (clock e 0) (\<lambda>now.
        case record_spawn_telemetry r (reviewer_spawn r kind (run_headSha r)) now of
          (h, invocation, _) \<Rightarrow>
            before (commit e r h) (\<lambda>_.
            before (rescue (call_reviewer e h) (reviewer_failed e h invocation)) (\<lambda>v.
            before (clock e 0) (\<lambda>later.
            let completed = record_completion_telemetry h
                  (reviewer_completion invocation Success None (r_telemetry v)) later in
            before (commit e h completed) (\<lambda>_. give (completed, v)))))))"

section \<open>Storing the verdict\<close>

definition verdict_input :: "review_result \<Rightarrow> transition_input" where
  "verdict_input v =
     (bare_input (case r_verdict v of Approve \<Rightarrow> T_review_approved | Request_changes \<Rightarrow> T_changes_requested))
       \<lparr>in_reviewResult := Some v\<rparr>"

definition native_requalified :: "review_environment \<Rightarrow> run \<Rightarrow> review_result \<Rightarrow> live_snapshot \<Rightarrow> unit reviewing" where
  "native_requalified e r v s =
     (if \<not> rn_native e then give ()
      else before (assure e Claim_check r) (\<lambda>_.
        before (native_valid e (r\<lparr>run_reviewResult := Some v\<rparr>) s) (\<lambda>ok.
        if ok then give ()
        else wait_native e r W_qualification
          (rh_text (rn_host e) (Reviewing Native_qualification_changed)))))"

text \<open>The verdict the live state still admits: an approval ends the loop, a refusal is the run that
  goes on to be repaired.\<close>

definition store_verdict :: "review_environment \<Rightarrow> run \<Rightarrow> review_result \<Rightarrow> active_validation \<Rightarrow> run reviewing" where
  "store_verdict e r v a =
     before (clock e 0) (\<lambda>now.
     before (answered (transition (rn_host e) r (verdict_input v) now (Some a))) (\<lambda>s.
     before (commit e r s) (\<lambda>_.
       if r_verdict v = Approve then return (Loop_approved s) else give s)))"

definition close_review :: "review_environment \<Rightarrow> run \<Rightarrow> review_result \<Rightarrow> run reviewing" where
  "close_review e r v =
     before (rescue (read_confirmed e r) (\<lambda>x. park_admission e r
       (render_failure ''GitHub live-state validation failed after reviewer completion'' x))) (\<lambda>s.
     before (admitted_review e r s) (\<lambda>a. before (native_requalified e r v s) (\<lambda>_.
     if Some (r_headSha v) \<noteq> run_headSha r
     then ask_human e r (rh_text (rn_host e) (Reviewing (Reviewer_head_differs (r_headSha v) (run_headSha r))))
       [''Retry the independent review'', CANCEL_RUN_DECISION]
     else store_verdict e r v a)))"

definition review_pass :: "review_environment \<Rightarrow> review_options \<Rightarrow> int \<Rightarrow> run \<Rightarrow> run reviewing" where
  "review_pass e p n r =
     before (open_review e p n r) (\<lambda>s.
     before (if rn_native e then native_review_result e r s else independent_review e r) (\<lambda>(t, v).
       close_review e t v))"

section \<open>The loop\<close>

text \<open>\<open>fuel\<close> bounds the passes; with none left the answer is \<open>None\<close>.\<close>

fun review_passes :: "review_environment \<Rightarrow> review_options \<Rightarrow> int \<Rightarrow> nat \<Rightarrow> run \<Rightarrow> unit reviewing" where
  "review_passes e p n 0 r = give ()"
| "review_passes e p n (Suc fuel) r =
     (if run_state r = CHANGES_REQUESTED then repair_pass e p n r
      else before (review_pass e p n r) (review_passes e p n fuel))"

definition attempt_limit :: "review_options \<Rightarrow> run \<Rightarrow> int" where
  "attempt_limit p r = (case repair_limit r of None \<Rightarrow> ro_maxAttempts p | Some n \<Rightarrow> n)"

definition admit_run :: "review_environment \<Rightarrow> review_options \<Rightarrow> string \<Rightarrow> run reviewing" where
  "admit_run e p i =
     (if ro_maxAttempts p < 1 then plain_fault e Attempts_not_positive
      else before (read_run e i) (\<lambda>x. case x of
          None \<Rightarrow> plain_fault e No_run_found
        | Some r \<Rightarrow>
            if run_nativeReview r \<noteq> None \<and> \<not> rn_native e
            then wait_native e r W_binding (rh_text (rn_host e) (Repair Native_binding_removed))
            else if run_state r \<noteq> REVIEWING \<and> run_state r \<noteq> CHANGES_REQUESTED
            then plain_fault e (Wrong_run_state (run_state r))
            else (case run_target r of
                Issue _ _ _ \<Rightarrow> give r
              | Repository _ _ _ _ \<Rightarrow> plain_fault e Issue_target_required)))"

definition reviewed :: "review_environment \<Rightarrow> review_options \<Rightarrow> string \<Rightarrow> nat \<Rightarrow> unit reviewing" where
  "reviewed e p i fuel =
     before (admit_run e p i) (\<lambda>r. review_passes e p (attempt_limit p r) fuel r)"

definition run_review_loop ::
  "review_environment \<Rightarrow> review_options \<Rightarrow> string \<Rightarrow> nat \<Rightarrow>
   (review_effect, thrown, review_loop_result option) program" where
  "run_review_loop e p i fuel t =
     (case reviewed e p i fuel t of
        (Inl (Raised x), u) \<Rightarrow> (Inl x, u)
      | (Inl (Returned r), u) \<Rightarrow> (Inr (Some r), u)
      | (Inr _, u) \<Rightarrow> (Inr None, u))"

end
