(* ===== verification/Review_Guarantees.thy ===== *)
theory Review_Guarantees
  imports Review_Loop Transition_Properties
begin

text \<open>
  Contracts of the review loop's programs. A calm program starts no model and returns no approval;
  nearly every step of the loop is calm, and its contract may say what it returns. The lemmas
  follow the definitions of \<open>Review_Effects\<close> to \<open>Review_Loop\<close>; the collection \<open>calm_intros\<close> holds
  how contracts compose.
\<close>

named_theorems calm_intros \<open>how contracts of calm programs compose\<close>

section \<open>Calm programs\<close>

fun starts_model :: "review_effect \<Rightarrow> bool" where
  "starts_model (Worker_called _ _) = True"
| "starts_model (Review_called _ _) = True"
| "starts_model _ = False"

fun approves :: "review_exit \<Rightarrow> bool" where
  "approves (Returned (Loop_approved _)) = True"
| "approves _ = False"

interpretation calm: program_contract "list_all (\<lambda>x. \<not> starts_model x)" "\<lambda>f. \<not> approves f"
  by unfold_locales auto

lemma calm_exits [simp]:
  "calm.obeys P (raise x)" "calm.obeys P (plain_fault e q)" "calm.obeys P (refusal_fault e s b c)"
  "calm.obeys P (return r) \<longleftrightarrow> \<not> approves (Returned r)"
  by (simp_all add: raise_def return_def plain_fault_def refusal_fault_def)

lemma calm_answered: "(\<And>x. r = Inr x \<Longrightarrow> P x) \<Longrightarrow> calm.obeys P (answered r)"
  by (cases r) (simp_all add: answered_def)

lemma calm_ask: "(\<And>r. \<not> starts_model (event r)) \<Longrightarrow> (\<And>x. P x) \<Longrightarrow> calm.obeys P (ask event answer)"
  unfolding ask_def by (auto intro!: calm.obeys_look_seq calm.obeys_seq calm_answered)

lemma calm_rescue:
  assumes "calm.obeys P m" and "\<And>x. calm.obeys P (h x)"
  shows "calm.obeys P (rescue m h)"
  unfolding rescue_def
  by (rule calm.obeys_recovered) (use assms in \<open>auto split: review_exit.split\<close>)

lemmas calm_compose [calm_intros] = calm.obeys_look_seq calm.obeys_seq calm_rescue

lemma calm_attempted [calm_intros]: "calm.obeys (\<lambda>_. True) m \<Longrightarrow> calm.obeys (\<lambda>_. True) (attempted m)"
  unfolding attempted_def by (auto intro!: calm_intros)

lemma calm_calls [simp]:
  "calm.obeys (\<lambda>_. True) (clock e k)" "calm.obeys (\<lambda>_. True) (read_run e i)"
  "calm.obeys (\<lambda>_. True) (swap_run e r s)" "calm.obeys (\<lambda>_. True) (read_live e t)"
  "calm.obeys (\<lambda>_. True) (resolve_authority e)" "calm.obeys (\<lambda>_. True) (resolve_profile e p)"
  "calm.obeys (\<lambda>_. True) (assure e c r)" "calm.obeys (\<lambda>_. True) (native_valid e r l)"
  "calm.obeys (\<lambda>_. True) (lead_reference e q)" "calm.obeys (\<lambda>_. True) (answered a)"
  by (auto simp: clock_def read_run_def swap_run_def read_live_def resolve_authority_def resolve_profile_def
        assure_def native_valid_def lead_reference_def intro: calm_ask calm.obeys_look calm_answered)

lemma calm_superseded [simp]: "calm.obeys P (superseded e r)"
  by (auto simp: superseded_def Let_def intro!: calm_intros)

lemma calm_commit [simp]: "calm.obeys (\<lambda>_. True) (commit e r s)"
  by (auto simp: commit_def intro!: calm_intros)

lemma calm_transit [simp]: "calm.obeys (\<lambda>_. True) (transit e r i)"
  by (auto simp: transit_def intro!: calm_intros)

lemma calm_leave: "(\<And>s. \<not> approves (Returned (result s))) \<Longrightarrow> calm.obeys P (leave e r i result)"
  by (auto simp: leave_def intro!: calm_intros)

lemma calm_leaving [simp]:
  "calm.obeys P (ask_human e r reason choices)" "calm.obeys P (persist_revalidation e r reason)"
  "calm.obeys P (park_bootstrap e r x)" "calm.obeys P (park_admission e r reason)"
  "calm.obeys P (park_repair e r q)" "calm.obeys P (close_repair e r q)" "calm.obeys P (wait_native e r k reason)"
  by (auto simp: ask_human_def persist_revalidation_def park_bootstrap_def park_admission_def park_repair_def
        close_repair_def wait_native_def intro!: calm_leave calm_intros)

lemma calm_called_back [calm_intros]:
  "calm.obeys (\<lambda>_. True) m \<Longrightarrow> (\<And>s. calm.obeys (\<lambda>_. True) (k s)) \<Longrightarrow> calm.obeys (\<lambda>_. True) (called_back c m k s)"
  unfolding called_back_def by (auto intro!: calm_intros split: sum.split)

lemma calm_checks_only [calm_intros]: "calm.obeys (\<lambda>_. True) m \<Longrightarrow> calm.obeys (\<lambda>_. True) (checks_only c m s)"
  by (auto simp: checks_only_def intro!: calm_intros)

lemma calm_during [calm_intros]:
  assumes "\<And>c s. calm.obeys (\<lambda>_. True) (m c s)"
  shows "calm.obeys (\<lambda>_. True) (during e m s)"
proof -
  have "calm.obeys (\<lambda>_. True) (each_callback m cs s)" for cs s
    by (induction cs arbitrary: s) (auto intro!: calm.obeys_seq assms)
  then show ?thesis by (auto simp: during_def intro!: calm_intros)
qed

lemma calm_submissions [calm_intros]: "(\<And>r. calm.obeys (\<lambda>_. True) (m r)) \<Longrightarrow> calm.obeys (\<lambda>_. True) (submissions m rs)"
  by (induction rs) (auto intro!: calm.obeys_seq calm_attempted)

lemma calm_admit_repair [simp]: "calm.obeys (\<lambda>_. True) (admit_repair e p n r)"
  by (auto simp: admit_repair_def admit_lead_def admit_shared_budget_def admit_failed_validation_def
        admit_budget_def admit_finding_def admit_identity_def Let_def intro!: calm_intros calm_leave)

lemma calm_owned_fix [simp]: "calm.obeys (\<lambda>_. True) (owned_fix e r)"
  by (auto simp: owned_fix_def intro!: calm_intros split: option.split prod.split)

lemma calm_as_refusal [calm_intros]: "calm.obeys (\<lambda>_. True) m \<Longrightarrow> calm.obeys (\<lambda>_. True) (as_refusal e q m)"
  by (auto simp: as_refusal_def intro!: calm_intros)

lemma calm_final_admission [calm_intros]: "calm.obeys (\<lambda>_. True) m \<Longrightarrow> calm.obeys (\<lambda>_. True) (final_admission e r m)"
  by (auto simp: final_admission_def confirm_handoff_def intro!: calm_intros)

lemma calm_admissions [simp]:
  "calm.obeys (\<lambda>_. True) (mutation_admission e r)" "calm.obeys (\<lambda>_. True) (planning_admission e r)"
  "calm.obeys (\<lambda>_. True) (publication_admission e r)"
  by (auto simp: mutation_admission_def planning_admission_def publication_admission_def current_mutation_def
        intro!: calm_intros)

lemma calm_before_mutation [simp]: "calm.obeys (\<lambda>_. True) (before_mutation e r c s)"
  by (auto simp: before_mutation_def intro!: calm_intros)

lemma calm_native_execution [simp]: "calm.obeys (\<lambda>_. True) (native_execution e r s)"
  by (auto simp: native_execution_def native_execution_current_def intro!: calm_intros split: option.split)

lemma calm_reconciled [calm_intros]: "calm.obeys P m \<Longrightarrow> calm.obeys P (reconciled e r x m)"
  by (auto simp: reconciled_def intro!: calm_intros)

lemma calm_workspace_failed [simp]: "calm.obeys P (workspace_failed e r x)"
  by (auto simp: workspace_failed_def intro!: calm_leave calm_intros)

lemma calm_wait_lead [simp]: "calm.obeys P (wait_lead e r k reason)"
  by (auto simp: wait_lead_def Let_def intro!: calm_intros)

lemma calm_lead_decided [simp]: "calm.obeys (\<lambda>_. True) (lead_decided e d)"
  by (auto simp: lead_decided_def stop_repair_def Let_def intro!: calm_intros split: lead_answer.split)

lemma calm_lead_advance [simp]: "calm.obeys (\<lambda>_. True) (lead_advance e q)"
  by (auto simp: lead_advance_def lead_submission_def intro!: calm_intros calm_ask split: option.split)

lemma calm_consult_lead [simp]: "calm.obeys (\<lambda>_. True) (consult_lead e n x r s)"
  by (auto simp: consult_lead_def lead_consumption_def current_routine_def intro!: calm_intros split: option.split)


lemma calm_exiting [simp]:
  "calm.obeys P (hold_governed e r reason)" "calm.obeys P (settle_failure e r result)"
  "calm.obeys P (no_new_head e r)" "calm.obeys P (park_guard_failure e f i x a j)"
  "calm.obeys P (record_worker_failure e f i x)" "calm.obeys P (worker_refused e f i x)"
  "calm.obeys P (accept_fix e r result head)"
  by (auto simp: hold_governed_def settle_failure_def no_new_head_def park_guard_failure_def
        record_worker_failure_def worker_refused_def accept_fix_def live_after_fix_def Let_def
        intro!: calm_leave calm_intros split: option.split sum.split thrown_kind.split)


lemma calm_transit_to:
  assumes "\<And>s now. transition (rn_host e) r i now None = Inr s \<Longrightarrow> P s"
  shows "calm.obeys P (transit e r i)"
  unfolding transit_def by (intro calm_compose) (auto simp: clock_def intro!: calm.obeys_look calm_answered assms)

lemma transition_reaches:
  assumes "transition h r i now a = Inr s"
    and "\<And>q x. table_target q (in_type i) = Some x \<Longrightarrow> x = To u"
  shows "run_state s = u"
  using assms transition_follows_table[of "rh_oracle h" r i now a s]
  by (fastforce simp: transition_def split: sum.splits)

text \<open>Whatever state a fix starts from, it is implementing afterwards; preparing a workspace keeps that.\<close>

lemma table_of_fix:
  "table_target q T_start_fix = Some x \<Longrightarrow> x = To IMPLEMENTING"
  "table_target q T_bootstrap_prepared = Some x \<Longrightarrow> x = To IMPLEMENTING"
  "table_target q T_changes_requested = Some x \<Longrightarrow> x = To CHANGES_REQUESTED"
  "table_target q T_review_approved = Some x \<Longrightarrow> x = To FINAL_GATE"
  "table_target q T_agent_succeeded = Some x \<Longrightarrow> x = To VALIDATING"
  by (cases q; auto simp: table_target_def split: if_splits)+

lemma fix_starts_implementing:
  "transition h r (start_fix_input a) now v = Inr s \<Longrightarrow> run_state s = IMPLEMENTING"
  by (erule transition_reaches) (simp add: start_fix_input_def bare_input_def table_of_fix)

lemma bootstrap_keeps_implementing:
  "transition h r (bootstrap_input b) now v = Inr s \<Longrightarrow> run_state s = IMPLEMENTING"
  by (erule transition_reaches) (simp add: bootstrap_input_def bare_input_def table_of_fix)

lemma verdict_reaches:
  "transition h r (verdict_input x) now v = Inr s \<Longrightarrow>
   run_state s = (if r_verdict x = Approve then FINAL_GATE else CHANGES_REQUESTED)"
  by (erule transition_reaches)
     (auto simp: verdict_input_def bare_input_def split: review_verdict.splits dest: table_of_fix)

lemma fixed_reaches:
  "transition h r (fixed_input x k p) now v = Inr s \<Longrightarrow> run_state s = VALIDATING"
  by (erule transition_reaches) (simp add: fixed_input_def bare_input_def table_of_fix)

section \<open>What a repair prepares\<close>

lemma calm_parking [simp]:
  "calm.obeys (\<lambda>_. True) (promoted_execution e r au)" "calm.obeys (\<lambda>_. True) (attempt_binding e r x)"
  "calm.obeys (\<lambda>_. True) (luna_preflight e o' r s y lead)"
  "calm.obeys (\<lambda>_. True) (repair_admission_for e o' r x au b lead sha)"
  "calm.obeys (\<lambda>_. True) (consumption_checks e x r)"
  by (auto simp: promoted_execution_def attempt_binding_def luna_preflight_def repair_admission_for_def
        consumption_checks_def current_routine_def Let_def
        intro!: calm_intros split: option.split sum.split repair_admission_decision.split)

lemma calm_in_boundary [calm_intros]: "calm.obeys P m \<Longrightarrow> calm.obeys P (in_lead_boundary e m)"
  by (auto simp: in_lead_boundary_def intro!: calm_intros calm_ask)

abbreviation implementing_plan :: "repair_plan \<Rightarrow> bool" where
  "implementing_plan f \<equiv> run_state (fx_run f) = IMPLEMENTING"

lemma calm_consume: "calm.obeys (\<lambda>s. run_state s = IMPLEMENTING) (consume_admission e o' r x a)"
  unfolding consume_admission_def
  by (rule calm.obeys_before[OF calm_transit_to[OF fix_starts_implementing]])
     (assumption | intro calm_intros | simp)+

lemma calm_plain_repair: "calm.obeys implementing_plan (plain_repair e r s)"
  unfolding plain_repair_def Let_def
  by (rule calm.obeys_seq, simp, rule calm.obeys_before[OF calm_transit_to[OF fix_starts_implementing]])
     (assumption | intro calm_intros | simp)+

lemma calm_maybe_lead:
  "calm.obeys (\<lambda>_. True) (if c then before (consult_lead e n x r s) (\<lambda>(r, s, d). give (r, s, Some d))
     else give (r, s, None))"
  by (auto intro!: calm_intros)

lemma calm_promoted_repair: "calm.obeys implementing_plan (promoted_repair e n r s au)"
proof -
  have go_on: "calm.obeys implementing_plan
      (case active_repair_admission (rh_oracle (rn_host e)) started of
         None \<Rightarrow> park_repair e started Admission_unbound
       | Some t \<Rightarrow> before (owned_fix e started) (\<lambda>s. give (f started t s)))"
    if "\<And>t s. implementing_plan (f started t s)" for started f
    by (auto intro!: calm_intros that split: option.split)
  show ?thesis
    unfolding promoted_repair_def split_def
    by (intro calm.obeys_seq[OF calm_parking(1)] calm.obeys_seq[OF calm_parking(2)] calm.obeys_seq[OF calm_parking(3)]
          calm.obeys_seq[OF calm_parking(4)] calm.obeys_seq[OF calm_maybe_lead[unfolded split_def]]
          calm.obeys_before[OF calm_consume] go_on) simp
qed

lemma calm_begin_repair: "calm.obeys (\<lambda>(f, q). implementing_plan f) (begin_repair e p n r)"
  unfolding begin_repair_def
  by (auto intro!: calm_intros calm.obeys_before[OF calm_plain_repair] calm.obeys_before[OF calm_promoted_repair]
        split: sum.split option.split)

lemma calm_persist [simp]: "calm.obeys (\<lambda>_. True) (persist_bootstrap e r s)"
  by (auto simp: persist_bootstrap_def intro!: calm_intros)

lemma calm_planned_run: "calm.obeys (\<lambda>s. run_state s = IMPLEMENTING) (planned_run e kind q r)"
  unfolding planned_run_def
  by (auto intro!: calm_intros calm_ask calm.obeys_before[OF calm_transit_to[OF bootstrap_keeps_implementing]])

lemma calm_plan_workspace: "calm.obeys (\<lambda>s. run_state s = IMPLEMENTING) (plan_workspace e kind q r)"
  unfolding plan_workspace_def
  by (rule calm.obeys_before[OF calm_rescue[OF calm_planned_run]]) (auto intro!: calm_intros)

lemma calm_prepare_workspace [simp]: "calm.obeys (\<lambda>_. True) (prepare_workspace e r b base)"
  by (auto simp: prepare_workspace_def intro!: calm_intros calm_ask)

lemma calm_open_workspace: "implementing_plan f \<Longrightarrow> calm.obeys implementing_plan (open_workspace e kind f)"
  unfolding open_workspace_def
  by (rule calm.obeys_before[where P = "\<lambda>r. run_state r = IMPLEMENTING"])
     (auto intro!: calm_plan_workspace calm_intros split: option.split)

lemma calm_worker_packet [simp]: "calm.obeys (\<lambda>_. True) (worker_packet e r f)"
  by (auto simp: worker_packet_def split: option.split sum.split)

lemma calm_prepare_repair:
  "implementing_plan f \<Longrightarrow> calm.obeys (\<lambda>(g, kind, packet). implementing_plan g) (prepare_repair e r f)"
  unfolding prepare_repair_def
  by (auto intro!: calm_ask calm.obeys_seq[where m = "ask _ _"] calm.obeys_before[OF calm_open_workspace]
      calm.obeys_seq[OF calm_worker_packet])

lemma calm_recorded [calm_intros]: "calm.obeys P m \<Longrightarrow> calm.obeys P (recorded_failures e f i m)"
  by (auto simp: recorded_failures_def intro!: calm_intros)

lemma calm_worker_steps [simp]:
  "calm.obeys (\<lambda>_. True) (qualify_governed e f q)" "calm.obeys (\<lambda>_. True) (fence_worker e f i)"
  "calm.obeys (\<lambda>_. True) (adopt_result e f i x)" "calm.obeys (\<lambda>_. True) (new_head e r x)"
  by (auto simp: qualify_governed_def fence_worker_def adopt_result_def new_head_def Let_def
        intro!: calm_intros calm_ask split: option.split)

lemma calm_worker_callback [simp]: "calm.obeys (\<lambda>_. True) (worker_callback e f c s)"
  by (auto simp: worker_callback_def Let_def intro!: calm_intros)

lemma calm_verify_callback [simp]: "calm.obeys (\<lambda>_. True) (verify_callback e o' f r c s)"
  by (auto simp: verify_callback_def recheck_publication_def intro!: calm_intros split: adapter_callback.split)

lemma calm_verify_published [simp]: "calm.obeys (\<lambda>_. True) (verify_published e o' f kind r head)"
  by (auto simp: verify_published_def intro!: calm_intros calm_ask split: option.split)

section \<open>What a review prepares\<close>

lemma calm_review_read [simp]:
  "calm.obeys P (review_read_failed e r choice x)" "calm.obeys (\<lambda>_. True) (read_confirmed e r)"
  by (auto simp: review_read_failed_def read_confirmed_def Let_def intro!: calm_leave calm_intros)

lemma calm_review_admission [simp]:
  "calm.obeys (\<lambda>_. True) (decide_review_admission e r s)" "calm.obeys (\<lambda>_. True) (admitted_review e r s)"
proof -
  show a: "calm.obeys (\<lambda>_. True) (decide_review_admission e r s)"
    by (auto simp: decide_review_admission_def intro!: calm_intros split: option.split)
  show "calm.obeys (\<lambda>_. True) (admitted_review e r s)"
    unfolding admitted_review_def by (rule calm.obeys_seq[OF a]) (simp split: review_admission.split)
qed

lemma calm_open_review [simp]: "calm.obeys (\<lambda>_. True) (open_review e p n r)"
  by (auto simp: open_review_def review_budget_def exact_live_head_def intro!: calm_intros split: option.split)

lemma calm_native_review [simp]: "calm.obeys (\<lambda>_. True) (native_review_result e r s)"
  by (auto simp: native_review_result_def review_submission_def intro!: calm_intros calm_ask
      split: native_answer.split)

lemma calm_reviewer_failed [simp]: "calm.obeys P (reviewer_failed e h i x)"
  by (auto simp: reviewer_failed_def Let_def intro!: calm_intros)

lemma calm_requalified [simp]: "calm.obeys (\<lambda>_. True) (native_requalified e r v s)"
  by (auto simp: native_requalified_def intro!: calm_intros)

end
