(* ===== verification/Review_Models.thy ===== *)
theory Review_Models
  imports Review_Guarantees
begin

text \<open>
  Where models are started. The contracts of calm programs are carried over to the programs that
  are not: how often a worker or a reviewer is called, that the run is confirmed before, and what
  stands behind a stored verdict.
\<close>

section \<open>From calm programs to the others\<close>

lemma calm_ensures:
  assumes "calm.obeys P m"
    and "\<And>r es. list_all (\<lambda>x. \<not> starts_model x) es \<Longrightarrow> (case r of Inl f \<Rightarrow> \<not> approves f | Inr x \<Rightarrow> P x) \<Longrightarrow> Q r es"
  shows "ensures m Q"
  using assms unfolding calm.obeys_def by (auto elim!: ensures_weaken)

text \<open>What is returned and raised, whatever was called.\<close>

interpretation sober: program_contract "\<lambda>_. True" "\<lambda>f. \<not> approves f"
  by unfold_locales auto

interpretation quiet: program_contract "list_all (\<lambda>x. \<not> starts_model x)" "\<lambda>_. True"
  by unfold_locales auto

interpretation free: program_contract "\<lambda>_. True" "\<lambda>_. True"
  by unfold_locales auto

lemma calm_sober: "calm.obeys P m \<Longrightarrow> sober.obeys P m"
  unfolding sober.obeys_def by (erule calm_ensures) simp

lemma calm_quiet: "calm.obeys P m \<Longrightarrow> quiet.obeys P m"
  unfolding quiet.obeys_def by (erule calm_ensures) (auto split: sum.splits)

lemma sober_free: "sober.obeys P m \<Longrightarrow> free.obeys P m"
  unfolding sober.obeys_def free.obeys_def by (erule ensures_weaken) (auto split: sum.splits)

lemmas calm_free = sober_free[OF calm_sober]

text \<open>How often a model is started.\<close>

fun worker_cost :: "review_effect \<Rightarrow> nat" where
  "worker_cost (Worker_called _ _) = 1"
| "worker_cost _ = 0"

fun reviewer_cost :: "review_effect \<Rightarrow> nat" where
  "reviewer_cost (Review_called _ _) = 1"
| "reviewer_cost _ = 0"

interpretation workers: effect_cost worker_cost .
interpretation reviewers: effect_cost reviewer_cost .

lemma no_model_started:
  "list_all (\<lambda>x. \<not> starts_model x) es \<Longrightarrow> workers.total_cost es = 0 \<and> reviewers.total_cost es = 0"
proof (induction es)
  case (Cons x es)
  then show ?case by (cases x) (simp_all add: workers.total_cost_def reviewers.total_cost_def)
qed (simp add: workers.total_cost_def reviewers.total_cost_def)

lemma quiet_costs:
  assumes "quiet.obeys P m"
  shows "workers.costs n m" and "reviewers.costs n m"
  using assms unfolding quiet.obeys_def workers.costs_def reviewers.costs_def
  by (auto elim!: ensures_weaken dest: no_model_started)

lemmas calm_costs = quiet_costs[OF calm_quiet]

text \<open>A call is one event, and what it throws is thrown.\<close>

lemma asked:
  "ensures (ask event answer) (\<lambda>a es. \<exists>x. es = [event x] \<and> a = (case x of Inl y \<Rightarrow> Inl (Raised y) | Inr y \<Rightarrow> Inr y))"
  by (rule ensuresI)
     (auto simp: ask_def before_def look_def note_event_def answered_def raise_def refuse_def give_def split: sum.split)

section \<open>A model is started on a run just confirmed\<close>

fun sanctioned :: "run option \<Rightarrow> review_trace \<Rightarrow> bool" where
  "sanctioned c [] = True"
| "sanctioned c (x # es) = (case x of
     Swapped r s a \<Rightarrow> sanctioned (if r = s \<and> a = Inr True then Some r else None) es
   | Worker_called h q \<Rightarrow> c = Some h \<and> run_state h = IMPLEMENTING \<and> sanctioned c es
   | Review_called h i \<Rightarrow> c = Some h \<and> run_state h = REVIEWING \<and> sanctioned c es
   | _ \<Rightarrow> sanctioned c es)"

fun confirmed :: "run option \<Rightarrow> review_trace \<Rightarrow> run option" where
  "confirmed c [] = c"
| "confirmed c (x # es) = (case x of
     Swapped r s a \<Rightarrow> confirmed (if r = s \<and> a = Inr True then Some r else None) es
   | _ \<Rightarrow> confirmed c es)"

lemma confirmed_append [simp]: "confirmed c (es @ fs) = confirmed (confirmed c es) fs"
  by (induction es arbitrary: c) (auto split: review_effect.split)

lemma sanctioned_append [simp]: "sanctioned c (es @ fs) \<longleftrightarrow> sanctioned c es \<and> sanctioned (confirmed c es) fs"
  by (induction es arbitrary: c) (auto split: review_effect.split)

lemma sanctioned_weaken: "sanctioned None es \<Longrightarrow> sanctioned c es"
  by (induction es arbitrary: c) (auto split: review_effect.splits if_splits)

lemma calm_permitted: "list_all (\<lambda>x. \<not> starts_model x) es \<Longrightarrow> sanctioned c es"
  by (induction es arbitrary: c) (auto split: review_effect.split)

interpretation licences: program_contract "sanctioned None" "\<lambda>_. True"
  by unfold_locales (auto intro: sanctioned_weaken)

lemma quiet_licences: "quiet.obeys P m \<Longrightarrow> licences.obeys P m"
  unfolding licences.obeys_def quiet.obeys_def by (erule ensures_weaken) (simp add: calm_permitted)

lemmas calm_licences = quiet_licences[OF calm_quiet]

text \<open>A program that confirms a run confirms it whatever was confirmed before.\<close>

definition confirms_run :: "run \<Rightarrow> 'a reviewing \<Rightarrow> bool" where
  "confirms_run h m \<longleftrightarrow> ensures m (\<lambda>r es. \<forall>c x. r = Inr x \<longrightarrow> confirmed c es = Some h)"

definition stays :: "'a reviewing \<Rightarrow> bool" where
  "stays m \<longleftrightarrow> ensures m (\<lambda>r es. \<forall>c x. r = Inr x \<longrightarrow> confirmed c es = c)"

definition armed :: "run \<Rightarrow> 'a reviewing \<Rightarrow> bool" where
  "armed h m \<longleftrightarrow> ensures m (\<lambda>r es. sanctioned (Some h) es)"

lemma confirming_last:
  assumes "free.obeys P m" and "\<And>x. P x \<Longrightarrow> confirms_run h (k x)"
  shows "confirms_run h (before m k)"
  unfolding confirms_run_def
  by (rule ensures_before[OF assms(1)[unfolded free.obeys_def]])
     (simp, rule ensures_weaken[OF assms(2)[unfolded confirms_run_def]], auto)

lemma confirming_rescue:
  assumes "confirms_run h m" and "\<And>x. calm.obeys (\<lambda>_. False) (k x)"
  shows "confirms_run h (rescue m k)"
  unfolding confirms_run_def rescue_def
  by (rule ensures_recovered[OF assms(1)[unfolded confirms_run_def]])
     (auto split: review_exit.split simp: return_def intro!: calm_ensures[OF assms(2)])

lemma swap_ensures: "ensures (swap_run e r s) (\<lambda>a es. a = Inr True \<longrightarrow> es = [Swapped r s (Inr True)])"
  by (cases "rn_swaps e")
     (auto simp: swap_run_def intro: ensures_weaken[OF asked] split: sum.splits)

lemma confirming_commit: "confirms_run h (commit e h h)"
  unfolding confirms_run_def commit_def
  by (rule ensures_before[OF swap_ensures])
     (auto intro!: calm_ensures[OF calm_superseded[where P = "\<lambda>_. False"]])

lemma stays_assure: "stays (assure e c r)"
  by (cases "rn_offers e c") (auto simp: stays_def assure_def intro: ensures_weaken[OF asked])

lemma armed_calm: "calm.obeys P m \<Longrightarrow> armed h m"
  unfolding armed_def by (erule calm_ensures) (rule calm_permitted)

lemma armed_stays:
  assumes "stays m" and "calm.obeys P m" and "\<And>x. armed h (k x)"
  shows "armed h (before m k)"
  unfolding armed_def
  by (rule ensures_before[OF ensures_conj[OF assms(1)[unfolded stays_def] assms(2)[unfolded calm.obeys_def]]])
     (auto simp: calm_permitted intro!: ensures_weaken[OF assms(3)[unfolded armed_def]])

lemma armed_then:
  assumes "armed h m" and "\<And>x. calm.obeys P (k x)"
  shows "armed h (before m k)"
  unfolding armed_def
  by (rule ensures_before[OF assms(1)[unfolded armed_def]])
     (auto intro!: calm_ensures[OF assms(2)] calm_permitted)

lemma armed_rescue:
  assumes "armed h m" and "\<And>x. calm.obeys P (k x)"
  shows "armed h (rescue m k)"
  unfolding armed_def rescue_def
  by (rule ensures_recovered[OF assms(1)[unfolded armed_def]])
     (auto simp: return_def split: review_exit.split intro!: calm_ensures[OF assms(2)] calm_permitted)

lemma licences_armed:
  assumes "confirms_run h m" and "calm.obeys P m" and "\<And>x. armed h (k x)"
  shows "licences.obeys (\<lambda>_. True) (before m k)"
  unfolding licences.obeys_def
  by (rule ensures_before[OF ensures_conj[OF assms(1)[unfolded confirms_run_def] assms(2)[unfolded calm.obeys_def]]])
     (auto simp: calm_permitted split: sum.split intro!: ensures_weaken[OF assms(3)[unfolded armed_def]])

section \<open>The worker\<close>

lemma confirming_fence: "confirms_run (fx_run f) (fence_worker e f i)"
  unfolding fence_worker_def Let_def recorded_failures_def
  by (intro confirming_last[OF calm_free[where P = "\<lambda>_. True"]] confirming_rescue confirming_commit)
     (auto intro!: calm_intros calm_ask)

lemma armed_call_worker:
  "implementing_plan f \<Longrightarrow> armed (fx_run f) (call_worker e f q)"
  unfolding call_worker_def
  by (rule armed_stays[OF stays_assure calm_calls(7)], rule armed_then[where P = "\<lambda>_. True"])
     (auto simp: armed_def intro!: calm_intros calm_ask)

lemma spawn_keeps_state [simp]: "run_state (fst (record_spawn_telemetry r i now)) = run_state r"
  by (auto simp: record_spawn_telemetry_def Let_def split: option.split)

lemma sanctioned_worker:
  assumes "implementing_plan f"
  shows "licences.obeys (\<lambda>_. True) (run_worker e r f q packet)"
proof -
  have "licences.obeys (\<lambda>_. True)
      (before (fence_worker e (f\<lparr>fx_run := h\<rparr>) i) (\<lambda>_. before (look (rn_confined e)) (\<lambda>confined.
         if rn_governed e \<and> \<not> confined then hold_governed e h Governed_changed
         else before (rescue (call_worker e (f\<lparr>fx_run := h\<rparr>) w) (worker_refused e (f\<lparr>fx_run := h\<rparr>) i))
                (\<lambda>result. give (f\<lparr>fx_run := h\<rparr>, i, result)))))"
    if "run_state h = IMPLEMENTING" for h i w
  proof (rule licences_armed[where h = h])
    show "confirms_run h (fence_worker e (f\<lparr>fx_run := h\<rparr>) i)" using confirming_fence[of "f\<lparr>fx_run := h\<rparr>"] by simp
    show "calm.obeys (\<lambda>_. True) (fence_worker e (f\<lparr>fx_run := h\<rparr>) i)" by simp
    have call: "armed h (call_worker e (f\<lparr>fx_run := h\<rparr>) w)"
      using armed_call_worker[of "f\<lparr>fx_run := h\<rparr>" e w] that by simp
    show "armed h (before (look (rn_confined e)) (\<lambda>confined.
         if rn_governed e \<and> \<not> confined then hold_governed e h Governed_changed
         else before (rescue (call_worker e (f\<lparr>fx_run := h\<rparr>) w) (worker_refused e (f\<lparr>fx_run := h\<rparr>) i))
                (\<lambda>result. give (f\<lparr>fx_run := h\<rparr>, i, result))))" for x :: unit
    proof (rule armed_stays[where P = "\<lambda>_. True"])
      have "armed h (before (rescue (call_worker e (f\<lparr>fx_run := h\<rparr>) w) (worker_refused e (f\<lparr>fx_run := h\<rparr>) i))
                (\<lambda>result. give (f\<lparr>fx_run := h\<rparr>, i, result)))"
        by (rule armed_then[OF armed_rescue[OF call], where P1 = "\<lambda>_. True" and P = "\<lambda>_. True"]) simp_all
      then show "armed h (if rn_governed e \<and> \<not> confined then hold_governed e h Governed_changed
         else before (rescue (call_worker e (f\<lparr>fx_run := h\<rparr>) w) (worker_refused e (f\<lparr>fx_run := h\<rparr>) i))
                (\<lambda>result. give (f\<lparr>fx_run := h\<rparr>, i, result)))" for confined
        by (simp add: armed_calm[where P = "\<lambda>_. True"])
    qed (simp_all add: stays_def ensures_look calm.obeys_look)
  qed
  then show ?thesis
    unfolding run_worker_def Let_def split_def
    by (intro licences.obeys_seq[OF calm_licences[OF calm_worker_steps(1)]]
        licences.obeys_seq[OF calm_licences[OF calm_calls(1)]]
        licences.obeys_seq[OF calm_licences[OF calm_commit]]) (simp add: assms)
qed

lemma sanctioned_repair: "licences.obeys (\<lambda>_. True) (repair_pass e p n r)"
  unfolding repair_pass_def split_def
  by (rule licences.obeys_before[OF calm_licences[OF calm_begin_repair]],
      rule licences.obeys_before[OF calm_licences[OF calm_prepare_repair[where e = e]]],
      simp add: split_def, rule licences.obeys_seq[OF sanctioned_worker], simp add: split_def,
      rule licences.obeys_seq[OF calm_licences[OF calm_worker_steps(3)]])
     (auto intro!: calm_licences calm_intros)

section \<open>The reviewer\<close>

lemma sanctioned_reviewer:
  assumes "run_state h = REVIEWING"
  shows "licences.obeys (\<lambda>_. True) (call_reviewer e h)"
  unfolding call_reviewer_def
  by (intro licences.obeys_seq[OF calm_licences[OF calm_calls(7)]] licences_armed[OF confirming_commit calm_commit]
      armed_then[where P = "\<lambda>_. True"])
     (auto simp: armed_def assms intro!: calm_ask)

lemma sanctioned_independent:
  assumes "run_state r = REVIEWING"
  shows "licences.obeys (\<lambda>_. True) (independent_review e r)"
  unfolding independent_review_def Let_def split_def rescue_def
  by (intro licences.obeys_seq[OF calm_licences[OF calm_calls(1)]] licences.obeys_seq[OF calm_licences[OF calm_commit]]
      licences.obeys_seq[OF licences.obeys_recovered[OF sanctioned_reviewer]])
     (auto simp: assms return_def split: review_exit.split intro!: calm_licences)

section \<open>The verdict\<close>

text \<open>What stands behind an approval: live state read and the run confirmed, the identity exact, the
  validation fresh under the authority resolved then, and the verdict swapped into that very run.\<close>

definition approval_of :: "review_environment \<Rightarrow> run \<Rightarrow> run \<Rightarrow> live_snapshot \<Rightarrow> active_validation \<Rightarrow> review_trace \<Rightarrow> bool" where
  "approval_of e r s snap a es \<longleftrightarrow>
     subseq [Read_live (run_target r) (Inr snap), Swapped r r (Inr True),
             Resolved_authority (Inr a), Swapped r s (Inr True)] es
     \<and> identity_admission (rn_host e) r snap = None \<and> validation_bound r \<and> is_validation_fresh r a
     \<and> run_state s = FINAL_GATE"

lemma commit_ensures: "ensures (commit e r s) (\<lambda>a es. a = Inr () \<longrightarrow> es = [Swapped r s (Inr True)])"
  unfolding commit_def
  by (rule ensures_before[OF swap_ensures])
     (auto intro!: calm_ensures[OF calm_superseded[where P = "\<lambda>_. False"]])

lemma answered_call:
  "ensures (ask event answer) (\<lambda>a es. \<forall>v. a = Inr v \<longrightarrow> es = [event (Inr v)])"
  by (rule ensures_weaken[OF asked], elim exE conjE, rename_tac x, case_tac x) simp_all

lemma read_confirmed_ensures:
  "ensures (read_confirmed e r)
     (\<lambda>a es. \<forall>snap. a = Inr snap \<longrightarrow> es = [Read_live (run_target r) (Inr snap), Swapped r r (Inr True)])"
  unfolding read_confirmed_def read_live_def
  by (rule ensures_before[OF answered_call], simp, rule ensures_before[OF commit_ensures]) auto

lemma attempted_ensures:
  assumes "ensures m (\<lambda>a es. \<forall>v. a = Inr v \<longrightarrow> Q v es)"
  shows "ensures (attempted m) (\<lambda>a es. \<forall>v. a = Inr (Inr v) \<longrightarrow> Q v es)"
  unfolding attempted_def rescue_def
  by (rule ensures_recovered[where P = "\<lambda>a es. \<forall>v. a = Inr (Inr v) \<longrightarrow> Q v es"], rule ensures_before[OF assms])
     (auto simp: return_def split: review_exit.split)

lemma review_admission_ensures:
  "ensures (decide_review_admission e r s)
     (\<lambda>a es. \<forall>v. a = Inr (Admitted v) \<longrightarrow> es = [Resolved_authority (Inr v)] \<and>
        identity_admission (rn_host e) r s = None \<and> validation_bound r \<and> is_validation_fresh r v)"
proof (cases "identity_admission (rn_host e) r s = None \<and> validation_bound r")
  case True
  then show ?thesis
    unfolding decide_review_admission_def resolve_authority_def
    by (simp, intro ensures_before[OF attempted_ensures[OF answered_call]])
       (auto simp: evidence_admission_def split: sum.splits if_splits)
qed (auto simp: decide_review_admission_def split: option.split)

lemma admitted_review_ensures:
  "ensures (admitted_review e r s)
     (\<lambda>a es. \<forall>v. a = Inr v \<longrightarrow> es = [Resolved_authority (Inr v)] \<and>
        identity_admission (rn_host e) r s = None \<and> validation_bound r \<and> is_validation_fresh r v)"
  unfolding admitted_review_def
  by (rule ensures_before[OF review_admission_ensures])
     (auto split: review_admission.split
       intro!: calm_ensures[OF calm_leaving(2)[where P = "\<lambda>_. False"]] calm_ensures[OF calm_leaving(4)[where P = "\<lambda>_. False"]])

lemma ensures_look_before: "(\<And>x. ensures (k x) Q) \<Longrightarrow> ensures (before (look f) k) Q"
  by (simp add: ensures_def before_def look_def)

text \<open>Storing a verdict: a refusal goes on to be repaired, an approval leaves with what it was given.\<close>

lemma store_verdict_ensures:
  "ensures (store_verdict e r v a)
     (\<lambda>x es. (\<forall>s. x = Inr s \<longrightarrow> run_state s = CHANGES_REQUESTED) \<and>
        (\<forall>s. x = Inl (Returned (Loop_approved s)) \<longrightarrow> run_state s = FINAL_GATE \<and> es = [Swapped r s (Inr True)]))"
proof -
  have verdict: "ensures (answered (transition (rn_host e) r (verdict_input v) now (Some a)))
     (\<lambda>x es. es = [] \<and> (\<forall>f. x = Inl f \<longrightarrow> \<not> approves f) \<and> (\<forall>s. x = Inr s \<longrightarrow>
        run_state s = (if r_verdict v = Approve then FINAL_GATE else CHANGES_REQUESTED)))" for now
    by (auto simp: answered_def raise_def verdict_reaches split: sum.split)
  have swap: "ensures (commit e r s)
     (\<lambda>x es. (x = Inr () \<longrightarrow> es = [Swapped r s (Inr True)]) \<and> (\<forall>f. x = Inl f \<longrightarrow> \<not> approves f))" for s
    by (rule ensures_weaken[OF ensures_conj[OF commit_ensures calm_commit[unfolded calm.obeys_def]]])
       (auto split: sum.splits)
  show ?thesis
    unfolding store_verdict_def clock_def
    by (rule ensures_look_before, rule ensures_before[OF verdict], fastforce,
        rule ensures_before[OF swap]) (auto simp: return_def)
qed

text \<open>A calm program before another: what it returned, and that it approved nothing.\<close>

lemma ensures_calm_before:
  assumes "calm.obeys P m" and "ensures m (\<lambda>a es. \<forall>v. a = Inr v \<longrightarrow> R v es)"
    and "\<And>f es. \<not> approves f \<Longrightarrow> Q (Inl f) es"
    and "\<And>v es. P v \<Longrightarrow> R v es \<Longrightarrow> ensures (k v) (\<lambda>a fs. Q a (es @ fs))"
  shows "ensures (before m k) Q"
  by (rule ensures_before[OF ensures_conj[OF assms(1)[unfolded calm.obeys_def] assms(2)]])
     (use assms(3,4) in auto)

lemma ensures_any: "calm.obeys P m \<Longrightarrow> ensures m (\<lambda>a es. \<forall>v. a = Inr v \<longrightarrow> True)"
  by (erule calm_ensures) simp

lemma close_review_ensures:
  "ensures (close_review e r v)
     (\<lambda>x es. (\<forall>s. x = Inr s \<longrightarrow> run_state s = CHANGES_REQUESTED) \<and>
        (\<forall>s. x = Inl (Returned (Loop_approved s)) \<longrightarrow> (\<exists>snap a. approval_of e r s snap a es)))"
proof -
  let ?park = "\<lambda>x. park_admission e r
       (render_failure ''GitHub live-state validation failed after reviewer completion'' x)"
  have reading: "ensures (rescue (read_confirmed e r) ?park)
     (\<lambda>a es. \<forall>s. a = Inr s \<longrightarrow> es = [Read_live (run_target r) (Inr s), Swapped r r (Inr True)])"
    unfolding rescue_def
    by (rule ensures_recovered[OF read_confirmed_ensures])
       (auto simp: return_def split: review_exit.split
          intro!: calm_ensures[OF calm_leaving(4)[where P = "\<lambda>_. False"]])
  have storing: "ensures (if Some (r_headSha v) \<noteq> run_headSha r
      then ask_human e r reason choices else store_verdict e r v a)
     (\<lambda>x es. (\<forall>s. x = Inr s \<longrightarrow> run_state s = CHANGES_REQUESTED) \<and>
        (\<forall>s. x = Inl (Returned (Loop_approved s)) \<longrightarrow> run_state s = FINAL_GATE \<and> es = [Swapped r s (Inr True)]))"
    for reason choices a
    using store_verdict_ensures[of e r v a] by (auto intro!: calm_ensures[OF calm_leaving(1)[where P = "\<lambda>_. False"]])
  show ?thesis
    unfolding close_review_def
  proof (rule ensures_calm_before[OF _ reading])
    show "calm.obeys (\<lambda>_. True) (rescue (read_confirmed e r) ?park)" by (intro calm_intros) simp_all
  next
    fix snap es assume es: "es = [Read_live (run_target r) (Inr snap), Swapped r r (Inr True)]"
    show "ensures (before (admitted_review e r snap) (\<lambda>a. before (native_requalified e r v snap) (\<lambda>_.
        if Some (r_headSha v) \<noteq> run_headSha r
        then ask_human e r (rh_text (rn_host e) (Reviewing (Reviewer_head_differs (r_headSha v) (run_headSha r))))
          [''Retry the independent review'', CANCEL_RUN_DECISION]
        else store_verdict e r v a)))
     (\<lambda>x fs. (\<forall>s. x = Inr s \<longrightarrow> run_state s = CHANGES_REQUESTED) \<and>
        (\<forall>s. x = Inl (Returned (Loop_approved s)) \<longrightarrow> (\<exists>snap a. approval_of e r s snap a (es @ fs))))"
      by (rule ensures_calm_before[OF calm_review_admission(2) admitted_review_ensures], fastforce,
          rule ensures_calm_before[OF calm_requalified ensures_any[OF calm_requalified]], fastforce,
          rule ensures_weaken[OF storing]) (auto simp: approval_of_def es intro!: exI)
  qed auto
qed

lemma quiet_store_verdict: "quiet.obeys (\<lambda>_. True) (store_verdict e r v a)"
  unfolding store_verdict_def
  by (intro quiet.obeys_seq[OF calm_quiet[OF calm_calls(1)]] quiet.obeys_seq[OF calm_quiet[OF calm_calls(10)]]
      quiet.obeys_seq[OF calm_quiet[OF calm_commit]]) (simp add: return_def)

lemma quiet_close_review: "quiet.obeys (\<lambda>_. True) (close_review e r v)"
  unfolding close_review_def
  by (rule quiet.obeys_seq[OF calm_quiet], intro calm_intros, simp, simp,
      intro quiet.obeys_seq[OF calm_quiet[OF calm_review_admission(2)]]
        quiet.obeys_seq[OF calm_quiet[OF calm_requalified]])
     (simp add: quiet_store_verdict calm_quiet)

section \<open>Passes\<close>

lemma sober_worker: "sober.obeys (\<lambda>_. True) (call_worker e f q)"
  unfolding call_worker_def
  by (rule sober.obeys_seq[OF calm_sober[OF calm_calls(7)]], rule sober.obeys_seq, simp, rule calm_sober)
     (auto intro!: calm_intros calm_ask)

lemma sober_rescue:
  "sober.obeys P m \<Longrightarrow> (\<And>x. calm.obeys P (h x)) \<Longrightarrow> sober.obeys P (rescue m h)"
  unfolding rescue_def
  by (rule sober.obeys_recovered) (auto split: review_exit.split simp: return_def intro: calm_sober)

lemma sober_run_worker: "sober.obeys (\<lambda>_. True) (run_worker e r f q packet)"
  unfolding run_worker_def Let_def split_def
  by (intro sober.obeys_seq[OF calm_sober[OF calm_worker_steps(1)]] sober.obeys_seq[OF calm_sober[OF calm_calls(1)]]
      sober.obeys_seq[OF calm_sober[OF calm_commit]] sober.obeys_seq[OF calm_sober[OF calm_worker_steps(2)]]
      sober.obeys_look_seq, split if_split, intro conjI impI sober.obeys_seq[OF sober_rescue[OF sober_worker]])
     (simp_all add: calm_sober)

text \<open>A repair always leaves the loop, and never with an approval.\<close>

lemma repair_leaves: "sober.obeys (\<lambda>_. False) (repair_pass e p n r)"
  unfolding repair_pass_def split_def
  by (rule sober.obeys_before[OF calm_sober[OF calm_begin_repair]],
      rule sober.obeys_before[OF calm_sober[OF calm_prepare_repair[where e = e]]],
      simp add: split_def, rule sober.obeys_seq[OF sober_run_worker],
      rule sober.obeys_seq[OF calm_sober[OF calm_worker_steps(3)]])
     (auto intro!: calm_sober calm_intros)

lemma sober_reviewer: "sober.obeys (\<lambda>_. True) (call_reviewer e h)"
  unfolding call_reviewer_def
  by (rule sober.obeys_seq[OF calm_sober[OF calm_calls(7)]], rule sober.obeys_seq[OF calm_sober[OF calm_commit]],
      rule sober.obeys_seq, simp, rule calm_sober) (auto intro!: calm_ask)

lemma sober_independent: "sober.obeys (\<lambda>_. True) (independent_review e r)"
  unfolding independent_review_def Let_def split_def
  by (intro sober.obeys_seq[OF calm_sober[OF calm_calls(1)]] sober.obeys_seq[OF calm_sober[OF calm_commit]]
      sober.obeys_seq[OF sober_rescue[OF sober_reviewer]]) (simp_all add: calm_sober)

lemma sober_reviewing:
  "sober.obeys (\<lambda>_. True) (if rn_native e then native_review_result e r s else independent_review e r)"
  by (simp add: sober_independent calm_sober)

lemma review_pass_ensures:
  "ensures (review_pass e p n r)
     (\<lambda>x es. (\<forall>s. x = Inr s \<longrightarrow> run_state s = CHANGES_REQUESTED) \<and>
        (\<forall>s. x = Inl (Returned (Loop_approved s)) \<longrightarrow> (\<exists>t snap a. approval_of e t s snap a es)))"
proof -
  have later: "approval_of e t s snap a fs \<Longrightarrow> approval_of e t s snap a (es @ fs)" for t s snap a es fs
    by (auto simp: approval_of_def intro: subseq_drop_many)
  show ?thesis
    unfolding review_pass_def split_def
    by (rule ensures_calm_before[OF calm_open_review ensures_any[OF calm_open_review]], fastforce,
        rule ensures_before[OF sober_reviewing[unfolded sober.obeys_def]], fastforce,
        rule ensures_weaken[OF close_review_ensures]) (blast intro: later)
qed

lemma review_requests_changes: "free.obeys (\<lambda>s. run_state s = CHANGES_REQUESTED) (review_pass e p n r)"
  unfolding free.obeys_def
  by (rule ensures_weaken[OF review_pass_ensures]) (auto split: sum.split)

lemma sanctioned_review:
  assumes "run_state r = REVIEWING"
  shows "licences.obeys (\<lambda>_. True) (review_pass e p n r)"
  unfolding review_pass_def split_def
  by (rule licences.obeys_seq[OF calm_licences[OF calm_open_review]], rule licences.obeys_seq)
     (simp_all add: assms sanctioned_independent calm_licences quiet_licences[OF quiet_close_review])

lemma licences_value: "licences.obeys (\<lambda>_. True) m \<Longrightarrow> free.obeys P m \<Longrightarrow> licences.obeys P m"
  unfolding licences.obeys_def free.obeys_def
  by (drule ensures_conj, assumption, erule ensures_weaken) (auto split: sum.splits)

lemma sanctioned_passes:
  "run_state r = REVIEWING \<or> run_state r = CHANGES_REQUESTED \<Longrightarrow>
   licences.obeys (\<lambda>_. True) (review_passes e p n fuel r)"
proof (induction fuel arbitrary: r)
  case (Suc fuel)
  then show ?case
    by (auto simp: sanctioned_repair
        intro!: licences.obeys_before[OF licences_value[OF sanctioned_review review_requests_changes]])
qed simp

text \<open>What may be reviewed.\<close>

lemma calm_admit_run:
  "calm.obeys (\<lambda>r. run_state r = REVIEWING \<or> run_state r = CHANGES_REQUESTED) (admit_run e p i)"
  unfolding admit_run_def by (auto intro!: calm_intros split: option.split target.split)

lemma sanctioned_reviewed: "licences.obeys (\<lambda>_. True) (reviewed e p i fuel)"
  unfolding reviewed_def
  by (rule licences.obeys_before[OF calm_licences[OF calm_admit_run]]) (rule sanctioned_passes)

section \<open>How often models are started\<close>

text \<open>Calm calls around a model's call start nothing more.\<close>

lemma rescue_costs:
  assumes "\<And>x. calm.obeys P (h x)"
  shows "workers.costs n m \<Longrightarrow> workers.costs n (rescue m h)"
    and "reviewers.costs n m \<Longrightarrow> reviewers.costs n (rescue m h)"
proof -
  show "workers.costs n m \<Longrightarrow> workers.costs n (rescue m h)"
    unfolding rescue_def
    by (rule workers.costs_recovered[where n = n and k = 0 and l = n])
       (auto split: review_exit.split simp: return_def intro: calm_costs assms)
  show "reviewers.costs n m \<Longrightarrow> reviewers.costs n (rescue m h)"
    unfolding rescue_def
    by (rule reviewers.costs_recovered[where n = n and k = 0 and l = n])
       (auto split: review_exit.split simp: return_def intro: calm_costs assms)
qed

lemma then_calm_costs:
  assumes "\<And>x. calm.obeys P (k x)"
  shows "workers.costs n m \<Longrightarrow> workers.costs n (before m k)"
    and "reviewers.costs n m \<Longrightarrow> reviewers.costs n (before m k)"
proof -
  show "workers.costs n m \<Longrightarrow> workers.costs n (before m k)"
    by (rule workers.costs_before[where n = n and k = 0 and l = n]) (simp_all add: calm_costs[OF assms])
  show "reviewers.costs n m \<Longrightarrow> reviewers.costs n (before m k)"
    by (rule reviewers.costs_before[where n = n and k = 0 and l = n]) (simp_all add: calm_costs[OF assms])
qed

lemma worker_call_costs: "workers.costs 1 (call_worker e f q)" "reviewers.costs 0 (call_worker e f q)"
proof -
  have rest: "calm.obeys (\<lambda>_. True) (before (during e (worker_callback e f) ()) (\<lambda>_. ask Worker_answered (rn_worker e q)))"
    by (auto intro!: calm_intros calm_ask)
  show "workers.costs 1 (call_worker e f q)"
    unfolding call_worker_def
    by (rule workers.costs_free[OF calm_costs(1)[OF calm_calls(7)]], rule then_calm_costs[OF rest], rule workers.costs_note) simp
  show "reviewers.costs 0 (call_worker e f q)"
    unfolding call_worker_def
    by (rule reviewers.costs_free[OF calm_costs(2)[OF calm_calls(7)]], rule then_calm_costs[OF rest], rule reviewers.costs_note) simp
qed

lemma reviewer_call_costs: "workers.costs 0 (call_reviewer e h)" "reviewers.costs 1 (call_reviewer e h)"
proof -
  have rest: "calm.obeys (\<lambda>_. True) (ask Review_answered (rn_review e h i))" for i
    by (auto intro!: calm_ask)
  show "workers.costs 0 (call_reviewer e h)"
    unfolding call_reviewer_def
    by (rule workers.costs_free[OF calm_costs(1)[OF calm_calls(7)]], rule workers.costs_free[OF calm_costs(1)[OF calm_commit]],
        rule then_calm_costs[OF rest], rule workers.costs_note) simp
  show "reviewers.costs 1 (call_reviewer e h)"
    unfolding call_reviewer_def
    by (rule reviewers.costs_free[OF calm_costs(2)[OF calm_calls(7)]], rule reviewers.costs_free[OF calm_costs(2)[OF calm_commit]],
        rule then_calm_costs[OF rest], rule reviewers.costs_note) simp
qed

lemma run_worker_costs: "workers.costs 1 (run_worker e r f q packet)" "reviewers.costs 0 (run_worker e r f q packet)"
proof -
  have refused: "calm.obeys (\<lambda>_. True) (worker_refused e g i x)" for g i x by simp
  have given: "calm.obeys (\<lambda>_. True) (give (g, i, x))" for g i x by simp
  show "workers.costs 1 (run_worker e r f q packet)"
    unfolding run_worker_def Let_def split_def
    by (intro workers.costs_free[OF calm_costs(1)[OF calm_worker_steps(1)]] workers.costs_free[OF calm_costs(1)[OF calm_calls(1)]]
        workers.costs_free[OF calm_costs(1)[OF calm_commit]] workers.costs_free[OF calm_costs(1)[OF calm_worker_steps(2)]]
        workers.costs_free[OF workers.costs_simple(3)], split if_split,
        intro conjI impI then_calm_costs(1)[OF given] rescue_costs(1)[OF refused] worker_call_costs)
       (simp add: calm_costs[where P = "\<lambda>_. True"])
  show "reviewers.costs 0 (run_worker e r f q packet)"
    unfolding run_worker_def Let_def split_def
    by (intro reviewers.costs_free[OF calm_costs(2)[OF calm_worker_steps(1)]] reviewers.costs_free[OF calm_costs(2)[OF calm_calls(1)]]
        reviewers.costs_free[OF calm_costs(2)[OF calm_commit]] reviewers.costs_free[OF calm_costs(2)[OF calm_worker_steps(2)]]
        reviewers.costs_free[OF reviewers.costs_simple(3)], split if_split,
        intro conjI impI then_calm_costs(2)[OF given] rescue_costs(2)[OF refused] worker_call_costs)
       (simp add: calm_costs[where P = "\<lambda>_. True"])
qed

lemma workers_repair: "workers.costs 1 (repair_pass e p n r)" "reviewers.costs 0 (repair_pass e p n r)"
proof -
  have rest: "calm.obeys (\<lambda>_. True) (before (adopt_result e f i x) (\<lambda>s.
      if a_exitStatus x = Failure then settle_failure e s x
      else before (new_head e s x) (\<lambda>head. before (verify_published e r f' kind s head) (\<lambda>_. accept_fix e s x head))))"
    for f f' i x kind
    by (auto intro!: calm_intros)
  have prepared: "calm.obeys (\<lambda>_. True) (prepare_repair e r f)" if "implementing_plan f" for f
    by (rule calm.obeys_weaken[OF calm_prepare_repair[OF that]]) simp
  have begun: "ensures (begin_repair e p n r) (\<lambda>a es. \<forall>x. a = Inr x \<longrightarrow> implementing_plan (fst x))"
    by (rule calm_ensures[OF calm_begin_repair]) auto
  show "workers.costs 1 (repair_pass e p n r)"
    unfolding repair_pass_def split_def
    by (rule workers.costs_before_value[OF calm_costs(1)[OF calm_begin_repair] begun], rule workers.costs_free[OF calm_costs(1)[OF prepared]],
        assumption, rule then_calm_costs[OF rest], rule run_worker_costs) simp
  show "reviewers.costs 0 (repair_pass e p n r)"
    unfolding repair_pass_def split_def
    by (rule reviewers.costs_before_value[OF calm_costs(2)[OF calm_begin_repair] begun], rule reviewers.costs_free[OF calm_costs(2)[OF prepared]],
        assumption, rule then_calm_costs[OF rest], rule run_worker_costs) simp
qed

lemma reviewers_review: "reviewers.costs 1 (review_pass e p n r)" "workers.costs 0 (review_pass e p n r)"
proof -
  have given: "calm.obeys (\<lambda>_. True) (before (clock e k) (\<lambda>later. before (commit e h (c later)) (\<lambda>_. give (c later, v))))"
    for k h v and c :: "string \<Rightarrow> run" by (auto intro!: calm_intros)
  have failed: "calm.obeys (\<lambda>_. True) (reviewer_failed e h i x)" for h i x by simp
  have independent: "reviewers.costs 1 (independent_review e r)" "workers.costs 0 (independent_review e r)"
    unfolding independent_review_def Let_def split_def
    by (rule reviewers.costs_free[OF calm_costs(2)[OF calm_calls(1)]], rule reviewers.costs_free[OF calm_costs(2)[OF calm_commit]],
        rule then_calm_costs[OF given], rule rescue_costs[OF failed], rule reviewer_call_costs)
       (rule workers.costs_free[OF calm_costs(1)[OF calm_calls(1)]], rule workers.costs_free[OF calm_costs(1)[OF calm_commit]],
        rule then_calm_costs[OF given], rule rescue_costs[OF failed], rule reviewer_call_costs)
  note closing = quiet_costs[OF quiet_close_review]
  show "reviewers.costs 1 (review_pass e p n r)"
    unfolding review_pass_def split_def
    by (rule reviewers.costs_free[OF calm_costs(2)[OF calm_open_review]],
        rule reviewers.costs_before[where n = 1 and k = 0 and l = 1])
       (auto simp: closing intro: calm_costs[where P = "\<lambda>_. True"] independent[unfolded One_nat_def])
  show "workers.costs 0 (review_pass e p n r)"
    unfolding review_pass_def split_def
    by (rule workers.costs_free[OF calm_costs(1)[OF calm_open_review]],
        rule workers.costs_before[where n = 0 and k = 0 and l = 0])
       (auto simp: closing intro: calm_costs[where P = "\<lambda>_. True"] independent)
qed

lemma passes_cost:
  shows "workers.costs 1 (review_passes e p n fuel r)" and "reviewers.costs 1 (review_passes e p n fuel r)"
proof -
  have repairing: "workers.costs 1 (review_passes e p n k s)" "reviewers.costs 0 (review_passes e p n k s)"
    if "run_state s = CHANGES_REQUESTED" for k s
    using that by (cases k; simp add: workers_repair[unfolded One_nat_def])+
  have changes: "ensures (review_pass e p n r) (\<lambda>a es. \<forall>s. a = Inr s \<longrightarrow> run_state s = CHANGES_REQUESTED)"
    by (rule ensures_weaken[OF review_pass_ensures]) simp
  show "workers.costs 1 (review_passes e p n fuel r)"
    by (cases fuel)
       (auto simp: workers_repair[unfolded One_nat_def]
         intro!: workers.costs_before_value[OF reviewers_review(2) changes] repairing[unfolded One_nat_def])
  show "reviewers.costs 1 (review_passes e p n fuel r)"
    by (cases fuel)
       (auto intro!: reviewers.costs_before_value[OF reviewers_review(1) changes] repairing
         reviewers.costs_weaken[OF workers_repair(2)])
qed

end
