(* ===== verification/Review_Properties.thy ===== *)
theory Review_Properties
  imports Review_Models
begin

text \<open>
  What the review loop guarantees: it returns after at most two passes, starts at most one worker
  and one reviewer and each on a run it has just confirmed, approves only on live evidence, and
  repairs only within the budget; and one failure it does not turn into a human interrupt.
\<close>

section \<open>The whole loop\<close>

lemma run_review_loop_from:
  assumes "reviewed e p i fuel t = (x, u)"
  shows "run_review_loop e p i fuel t =
    ((case x of Inl (Raised y) \<Rightarrow> Inl y | Inl (Returned r) \<Rightarrow> Inr (Some r) | Inr _ \<Rightarrow> Inr None), u)"
  using assms by (cases x; cases "projl x"; simp add: run_review_loop_def)

lemma run_review_loop_trace: "snd (run_review_loop e p i fuel t) = snd (reviewed e p i fuel t)"
  by (metis prod.collapse run_review_loop_from snd_conv)

lemma run_review_loop_result:
  "fst (run_review_loop e p i fuel t) = (case fst (reviewed e p i fuel t) of
     Inl (Raised y) \<Rightarrow> Inl y | Inl (Returned r) \<Rightarrow> Inr (Some r) | Inr _ \<Rightarrow> Inr None)"
  by (metis prod.collapse run_review_loop_from fst_conv)

lemma reviewed_costs: "workers.costs 1 (reviewed e p i fuel)" "reviewers.costs 1 (reviewed e p i fuel)"
proof -
  show "workers.costs 1 (reviewed e p i fuel)"
    unfolding reviewed_def by (rule workers.costs_free[OF calm_costs(1)[OF calm_admit_run] passes_cost(1)])
  show "reviewers.costs 1 (reviewed e p i fuel)"
    unfolding reviewed_def by (rule reviewers.costs_free[OF calm_costs(2)[OF calm_admit_run] passes_cost(2)])
qed

lemma two_passes: "free.obeys (\<lambda>_. False) (review_passes e p n (Suc (Suc k)) r)"
proof -
  have repairs: "free.obeys (\<lambda>_. False) (repair_pass e p n s)" for s :: run
    by (rule sober_free[OF repair_leaves])
  then show ?thesis by (auto intro!: free.obeys_before[OF review_requests_changes])
qed

definition evidenced :: "review_environment \<Rightarrow> review_exit + 'a \<Rightarrow> review_trace \<Rightarrow> bool" where
  "evidenced e x es \<longleftrightarrow>
     (\<forall>s. x = Inl (Returned (Loop_approved s)) \<longrightarrow> (\<exists>r snap a. approval_of e r s snap a es))"

lemma approval_later: "approval_of e r s snap a fs \<Longrightarrow> approval_of e r s snap a (es @ fs)"
  by (simp add: approval_of_def subseq_drop_many)

lemma evidenced_later: "evidenced e x fs \<Longrightarrow> evidenced e x (es @ fs)"
  unfolding evidenced_def by (blast intro: approval_later)

lemma sober_evidenced: "\<not> approves f \<Longrightarrow> evidenced e (Inl f) es"
  by (auto simp: evidenced_def)

lemma repair_evidenced: "ensures (repair_pass e p n r) (evidenced e)"
  by (rule ensures_weaken[OF repair_leaves[unfolded sober.obeys_def]]) (auto split: sum.splits intro: sober_evidenced)

lemma review_evidenced: "ensures (review_pass e p n r) (evidenced e)"
  by (rule ensures_weaken[OF review_pass_ensures]) (auto simp: evidenced_def)

lemma passes_evidenced: "ensures (review_passes e p n fuel r) (evidenced e)"
proof (induction fuel arbitrary: r)
  case (Suc fuel)
  have "ensures (before (review_pass e p n r) (review_passes e p n fuel)) (evidenced e)"
    by (rule ensures_before[OF review_evidenced], simp add: evidenced_def, rule ensures_weaken[OF Suc])
       (rule evidenced_later)
  then show ?case by (simp add: repair_evidenced)
qed (simp add: evidenced_def)

lemma reviewed_evidenced: "ensures (reviewed e p i fuel) (evidenced e)"
  unfolding reviewed_def
  by (rule ensures_calm_before[OF calm_admit_run ensures_any[OF calm_admit_run]], erule sober_evidenced,
      rule ensures_weaken[OF passes_evidenced]) (rule evidenced_later)

section \<open>Properties\<close>

text \<open>\<open>runReviewLoop\<close> returns or throws: two passes are always enough, since a review that does
  not end the loop leaves a run whose changes are requested, and a repair always ends it.\<close>

theorem review_loop_returns: "fst (run_review_loop e p i (Suc (Suc k)) t) \<noteq> Inr None"
proof -
  have "free.obeys (\<lambda>_. False) (reviewed e p i (Suc (Suc k)))"
    unfolding reviewed_def
    by (rule free.obeys_seq[OF calm_free[OF calm.obeys_weaken[OF calm_admit_run]]]) (simp, rule two_passes)
  then obtain f where "fst (reviewed e p i (Suc (Suc k)) t) = Inl f"
    unfolding free.obeys_def ensures_def by (metis sum.case_eq_if sum.collapse(1))
  then show ?thesis by (simp add: run_review_loop_result split: review_exit.split)
qed

text \<open>C28. One call of \<open>runReviewLoop\<close> starts at most one repair worker and at most one independent
  reviewer, whatever the store, GitHub and the adapters answer.\<close>

theorem one_worker_one_review:
  "\<exists>es. snd (run_review_loop e p i fuel t) = t @ es
     \<and> sum_list (map worker_cost es) \<le> 1 \<and> sum_list (map reviewer_cost es) \<le> 1"
  using workers.costs_trace[OF reviewed_costs(1), of e p i fuel t]
    reviewers.costs_trace[OF reviewed_costs(2), of e p i fuel t]
  by (auto simp: run_review_loop_trace workers.total_cost_def reviewers.total_cost_def)

text \<open>C27. The worker and the reviewer are started only on a run that the compare-and-swap has just
  confirmed: between that confirmation and the call the stored run is not written, and the worker's
  run is \<open>IMPLEMENTING\<close>, the reviewer's \<open>REVIEWING\<close>.\<close>

theorem models_start_on_confirmed_runs:
  "\<exists>es. snd (run_review_loop e p i fuel t) = t @ es \<and> sanctioned None es"
proof -
  have "ensures (reviewed e p i fuel) (\<lambda>x es. sanctioned None es)"
    by (rule ensures_weaken[OF sanctioned_reviewed[unfolded licences.obeys_def]]) simp
  then show ?thesis by (simp add: ensures_def run_review_loop_trace)
qed

text \<open>C26. An approval rests on live evidence: GitHub was read, the run confirmed unchanged, the
  identity of issue, pull request and HEAD found exact, its validation coherent and fresh under the
  authority resolved after that read, and the approved run, in \<open>FINAL_GATE\<close>, was swapped in for
  exactly the run confirmed.\<close>

theorem approval_needs_live_evidence:
  assumes "fst (run_review_loop e p i fuel t) = Inr (Some (Loop_approved s))"
  shows "\<exists>es r snap a. snd (run_review_loop e p i fuel t) = t @ es \<and> approval_of e r s snap a es"
proof -
  from assms have "fst (reviewed e p i fuel t) = Inl (Returned (Loop_approved s))"
    by (auto simp: run_review_loop_result split: sum.splits review_exit.splits)
  with reviewed_evidenced[of e p i fuel] show ?thesis
    unfolding ensures_def evidenced_def run_review_loop_trace by metis
qed

section \<open>The budget\<close>

definition repairable :: "review_environment \<Rightarrow> int \<Rightarrow> run \<Rightarrow> bool" where
  "repairable e n r \<longleftrightarrow> repairs_spent e r < n \<and> (requests_changes r \<or> validation_failed_in r)
     \<and> present_and (\<lambda>p. Some (pr_headSha p) = run_headSha r) (run_pullRequest r)"

lemma unrepairable_refused:
  assumes "\<not> repairable e n r"
  shows "calm.obeys (\<lambda>_. False) (admit_repair e p n r)"
proof -
  have parked: "calm.obeys (\<lambda>_. False) (admit_budget e p n r)" if "n \<le> repairs_spent e r"
    using that by (simp add: admit_budget_def)
  have failed: "calm.obeys (\<lambda>_. False) (admit_finding e r)" if "\<not> (requests_changes r \<or> validation_failed_in r)"
    using that by (auto simp: admit_finding_def Let_def intro!: calm_leave)
  have asked: "calm.obeys (\<lambda>_. False) (admit_identity e r)"
    if "\<not> present_and (\<lambda>p. Some (pr_headSha p) = run_headSha r) (run_pullRequest r)"
    using that by (simp add: admit_identity_def)
  have steps: "calm.obeys (\<lambda>_. True) (admit_lead e r)" "calm.obeys (\<lambda>_. True) (admit_shared_budget e p r)"
    "calm.obeys (\<lambda>_. True) (admit_failed_validation e r)" "calm.obeys (\<lambda>_. True) (admit_budget e p n r)"
    "calm.obeys (\<lambda>_. True) (admit_finding e r)"
    by (auto simp: admit_lead_def admit_shared_budget_def admit_failed_validation_def admit_budget_def admit_finding_def
        Let_def intro!: calm_intros calm_leave)
  show ?thesis
    using assms unfolding admit_repair_def repairable_def not_less[symmetric] de_Morgan_conj
    by (elim disjE)
       (auto intro!: calm.obeys_seq[OF steps(1)] calm.obeys_seq[OF steps(2)] calm.obeys_seq[OF steps(3)]
          intro: calm.obeys_before[OF parked] calm.obeys_seq[OF steps(4)] calm.obeys_before[OF failed]
            calm.obeys_seq[OF steps(5)] asked)
qed

lemma unrepairable_pass:
  assumes "\<not> repairable e n r"
  shows "calm.obeys (\<lambda>_. False) (repair_pass e p n r)"
proof -
  have "calm.obeys (\<lambda>_. False) (begin_repair e p n r)"
    unfolding begin_repair_def by (rule calm.obeys_before[OF unrepairable_refused[OF assms]]) simp
  then show ?thesis unfolding repair_pass_def by (rule calm.obeys_before) simp
qed

text \<open>C29. A worker is started only by a repair the budget, shared by review and validation findings,
  still allows, for a finding there is, on the HEAD the run's pull request is bound to.\<close>

theorem worker_only_within_budget:
  "\<exists>es. snd (repair_pass e p n r t :: (review_exit + unit) \<times> review_trace) = t @ es
     \<and> (sum_list (map worker_cost es) = 0 \<or> repairable e n r)"
proof (cases "repairable e n r")
  case True
  have "ensures (repair_pass e p n r :: unit reviewing) (\<lambda>x es. True)"
    by (rule ensures_weaken[OF repair_evidenced]) simp
  with True show ?thesis by (simp add: ensures_def)
next
  case False
  have "workers.costs 0 (repair_pass e p n r :: unit reviewing)"
    by (rule calm_costs(1)[OF unrepairable_pass[OF False]])
  then show ?thesis using workers.costs_trace[of 0 "repair_pass e p n r :: unit reviewing" t]
    by (auto simp: workers.total_cost_def)
qed

section \<open>A failure that is thrown\<close>

lemma executor_not_escalated:
  assumes "in_executor i \<noteq> None" and "run_state r \<noteq> IMPLEMENTING"
  shows "\<exists>y. transition h r i now a = Inl y"
proof (cases "apply_transition (rh_oracle h) r i now a")
  case (Inr s)
  then have "assert_payload (rh_oracle h) r i a = None" by (rule apply_transitionD)
  with assms show ?thesis by (auto simp: assert_payload_def guard_executor_def first_error_None_iff)
qed (simp add: transition_def)

lemma refused_park:
  assumes "run_executor r \<noteq> None" and "run_state r \<noteq> IMPLEMENTING"
  shows "\<exists>y. (park_bootstrap e r x t :: (review_exit + 'a) \<times> review_trace) = (Inl (Raised y), t)"
proof -
  have "failing_executor r x \<noteq> None"
    using assms(1) by (cases "th_kind x"; cases "run_executor r") (auto simp: failing_executor_def split: option.split)
  then obtain y where "transition (rn_host e) r (bootstrap_failure_input x (failing_executor r x)) (rn_now e 0 t) None = Inl y"
    using executor_not_escalated[OF _ assms(2)] by (fastforce simp: bootstrap_failure_input_def)
  then show ?thesis
    by (simp add: park_bootstrap_def leave_def transit_def clock_def before_def look_def answered_def raise_def refuse_def)
qed

text \<open>C30. The failures that go through \<open>parkBootstrap\<close> are meant to park the run for a human, but it
  passes the run's executor on, which the state machine takes only in \<open>IMPLEMENTING\<close>: in any other
  state a run that keeps its executor is not parked, and the refusal is thrown, with nothing
  written. So it goes when GitHub cannot be read before a fix. The refusals that escalate on their
  own, without an executor (a conflict found before a fix, a review not admitted, a repair not
  authorized), are not among them and do park.\<close>

theorem bootstrap_park_refused:
  assumes "run_executor r \<noteq> None" and "run_state r \<noteq> IMPLEMENTING"
  shows "(\<exists>y. (park_bootstrap e r x t :: (review_exit + run) \<times> review_trace) = (Inl (Raised y), t))
     \<and> (read_live e (run_target r) t = (Inl (Raised z), u) \<longrightarrow> (\<exists>y. owned_fix e r t = (Inl (Raised y), u)))"
  using refused_park[OF assms, of e x t] refused_park[OF assms, of e z u]
  by (auto simp: owned_fix_def rescue_def recovered_def before_def)

end
