(* ===== verification/Review_Witnesses.thy ===== *)
theory Review_Witnesses
  imports Review_Properties Transition_Witnesses
begin

text \<open>
  A review of the sample pull request, driven through the loop to its approval, and the properties
  with hypotheses at it.
\<close>

definition sample_fault :: thrown where
  "sample_fault = \<lparr>th_kind = Plain_error, th_message = ''unavailable'', th_code = None, th_retryable = False\<rparr>"

definition sample_review_host :: review_host where
  "sample_review_host =
     \<lparr>rh_oracle = sample_host, rh_packet = plain_packet_host, rh_packet_digest = pk_rendered,
      rh_execution_digest = (\<lambda>x. []), rh_validation_json = (\<lambda>v. []), rh_dates = \<lparr>dh_date = (\<lambda>s. Some 0), dh_iso = (\<lambda>n. Some [])\<rparr>,
      rh_text = (\<lambda>r. ''reason'')\<rparr>"

definition sample_live_snapshot :: live_snapshot where
  "sample_live_snapshot =
     \<lparr>lv_repository = (''Acme'', ''Widgets''), lv_defaultBranch = Some ''main'',
      lv_defaultBranchHeadSha = Some ''base'',
      lv_issue = \<lparr>is_id = ''I42'', is_number = 42, is_updatedAt = ''t0'', is_title = ''Fix'', is_body = ''body''\<rparr>,
      lv_issueState = Issue_open, lv_issueUrl = [], lv_issueCreatedAt = ''t0'',
      lv_pullRequest = Some
        \<lparr>lp_number = 7, lp_headSha = ''abc'', lp_baseSha = ''base'', lp_state = Pull_open, lp_id = ''P7'',
         lp_title = ''Fix'', lp_url = [], lp_isDraft = False, lp_mergeable = Some True,
         lp_mergeStateStatus = None, lp_updatedAt = ''t0'', lp_mergeCommitSha = None,
         lp_headRef = Some ''topic'', lp_headRepository = Some (''acme'', ''widgets''),
         lp_baseRef = Some ''main'', lp_baseRepository = Some (''acme'', ''widgets'')\<rparr>,
      lv_headSha = Some ''abc'',
      lv_checks = \<lparr>cs_availability = Available, cs_overall = O_passing, cs_checks = []\<rparr>,
      lv_reviews = \<lparr>rv_decision = Decision_none, rv_latestByAuthor = [], rv_unresolvedThreads = None\<rparr>,
      lv_conversations = [], lv_handoff = None, lv_problems = [], lv_observedAt = ''t1''\<rparr>"

definition sample_environment :: review_environment where
  "sample_environment =
     \<lparr>rn_host = sample_review_host, rn_now = (\<lambda>k t. ''t1''), rn_uuid = (\<lambda>t. ''u''), rn_swaps = True,
      rn_native = False, rn_governed = False, rn_observationOnly = False, rn_leadBoundary = False,
      rn_effectBoundary = False, rn_profiles = False, rn_offers = (\<lambda>c. False),
      rn_read = (\<lambda>i t. Inr (Some reviewing_run)), rn_swap = (\<lambda>r s t. Inr True),
      rn_live = (\<lambda>g t. Inr sample_live_snapshot), rn_authority = (\<lambda>t. Inr sample_active_validation),
      rn_profile = (\<lambda>p t. Inr None), rn_check = (\<lambda>c r t. Inr ()), rn_enter = (\<lambda>t. Inr ()),
      rn_submissions = (\<lambda>t. []), rn_advance = (\<lambda>r s t. Inl sample_fault),
      rn_validate = (\<lambda>r s t. Inr False), rn_leadAvailable = (\<lambda>t. False),
      rn_leadAdvance = (\<lambda>c t. Inl sample_fault), rn_leadValidate = (\<lambda>c t. Inr None),
      rn_review = (\<lambda>r i t. Inr sample_review), rn_bootstrap = (\<lambda>x t. Inr None), rn_callbacks = (\<lambda>t. []),
      rn_plan = (\<lambda>q t. Inl sample_fault), rn_prepare = (\<lambda>b h t. Inl sample_fault),
      rn_verify = (\<lambda>b h k t. Inl sample_fault), rn_prepareGoverned = (\<lambda>q t. Inr False),
      rn_confined = (\<lambda>t. False), rn_capabilities = (\<lambda>t. Inr ()), rn_worker = (\<lambda>q t. Inl sample_fault)\<rparr>"

definition sample_loop :: "(thrown + review_loop_result option) \<times> review_trace" where
  "sample_loop = run_review_loop sample_environment \<lparr>ro_maxAttempts = 3\<rparr> ''run-1'' 2 []"

definition approved_run :: "(thrown + review_loop_result option) \<times> review_trace \<Rightarrow> run option" where
  "approved_run x = (case fst x of Inr (Some (Loop_approved s)) \<Rightarrow> Some s | _ \<Rightarrow> None)"

lemma sample_approved: "map_option run_state (approved_run sample_loop) = Some FINAL_GATE"
  by code_simp

theorem approval_needs_live_evidence_witness:
  "\<exists>es r s snap a. snd sample_loop = es \<and> approval_of sample_environment r s snap a es"
proof -
  from sample_approved obtain s where "fst sample_loop = Inr (Some (Loop_approved s))"
    by (auto simp: approved_run_def split: sum.splits option.splits review_loop_result.splits)
  from approval_needs_live_evidence[OF this[unfolded sample_loop_def]] show ?thesis
    unfolding sample_loop_def by auto
qed

definition unread_environment :: review_environment where
  "unread_environment = sample_environment\<lparr>rn_live := \<lambda>_ _. Inl sample_fault\<rparr>"

theorem bootstrap_park_refused_witness:
  "\<exists>y. owned_fix unread_environment reviewing_run [] =
     (Inl (Raised y), [Read_live (run_target reviewing_run) (Inl sample_fault)])"
proof -
  have "run_executor reviewing_run \<noteq> None" and "run_state reviewing_run \<noteq> IMPLEMENTING"
    by code_simp+
  moreover have "read_live unread_environment (run_target reviewing_run) [] =
      (Inl (Raised sample_fault), [Read_live (run_target reviewing_run) (Inl sample_fault)])"
    by (simp add: unread_environment_def read_live_def ask_def before_def look_def note_event_def answered_def raise_def refuse_def)
  ultimately show ?thesis using bootstrap_park_refused by blast
qed

end
