(* ===== verification/Mission_Types.thy ===== *)
theory Mission_Types
  imports Native_Evidence
begin

text \<open>
  The data of the mission admission registry (\<^verbatim>\<open>src/mission-admission/registry.ts\<close>): evidence
  and its canonical form, lanes, limits and the registry state, with the validator every read
  and every publication passes. SHA-256 and the resolution of a path to its real absolute path
  are parameters; a lane of the file has the fields of its type, what remains to be checked are
  the conditions on their values.
\<close>

section \<open>Data\<close>

datatype admission_role =
    Production_captain | Delegated_mutation_writer | Read_only_review | Read_only_consultation
  | Isolated_experiment

datatype lane_status = Lane_active | Lane_parked | Lane_released

datatype parked_reason =
    Capacity_captains | Capacity_writers | Capacity_high_autonomy | Capacity_repository
  | Workflow_wait | Workflow_settled | Manual_checkpoint

record mission_evidence =
  ev_repository :: string
  ev_issue :: "int option"
  ev_pullRequest :: "int option"
  ev_run :: "string option"
  ev_claim :: "string option"
  ev_workspace :: "string option"
  ev_stateSurface :: "string option"
  ev_repositoryScope :: bool

record admission_limits =
  al_maxCaptains :: int
  al_maxWriters :: int
  al_maxHighAutonomy :: int
  al_maxPerRepository :: "int option"

record admission_config =
  ac_revision :: string
  ac_limits :: admission_limits

record admission_token =
  at_laneId :: string
  at_generation :: int
  at_token :: string

record admission_request =
  aq_laneId :: string
  aq_evidence :: mission_evidence
  aq_role :: admission_role
  aq_highAutonomy :: "bool option"
  aq_delegatedFromLaneId :: "string option"
  aq_delegatedFromToken :: "admission_token option"
  aq_experimentOfMissionId :: "string option"

record lane_record =
  ln_laneId :: string
  ln_missionId :: string
  ln_evidence :: mission_evidence
  ln_role :: admission_role
  ln_status :: lane_status
  ln_generation :: int
  ln_token :: "string option"
  ln_highAutonomy :: bool
  ln_delegatedFromLaneId :: "string option"
  ln_delegatedFromGeneration :: "int option"
  ln_experimentOfMissionId :: "string option"
  ln_parkedReason :: "parked_reason option"
  ln_updatedAt :: string

datatype transition_kind =
    Kind_admitted | Kind_parked parked_reason | Kind_evidence_strengthened | Kind_merged_run_released
  | Kind_manual_retired | Kind_released | Kind_operator_stopped_release

record registry_transition =
  rx_kind :: transition_kind
  rx_laneId :: "string option"
  rx_at :: string

record registry_state =
  rg_revision :: int
  rg_config :: admission_config
  rg_lanes :: "lane_record list"
  rg_lastTransition :: "registry_transition option"

text \<open>The host: SHA-256 in hexadecimal, and \<open>canonicalPath\<close> (\<open>None\<close> for a relative path).\<close>

record mission_host =
  mh_sha256 :: "string \<Rightarrow> string"
  mh_path :: "string \<Rightarrow> string option"

datatype mission_error =
    Bad_config | Bad_repository | Bad_path | Bad_evidence | No_evidence | Ambiguous_mission
  | Corrupt_registry | Invalid_lane | Duplicate_lane_ids | Ambiguous_lanes | Experiment_not_isolated
  | Bad_transition | Duplicate_tokens | Repository_capacity | Capacity_exceeded | Orphaned_delegate
  | Several_delegates
  | Bad_request | Delegation_incomplete | Experiment_incomplete | Read_only_authority | Foreign_capability
  | Already_active | Checkpoint_reserved | Role_changed | Autonomy_downgraded | Parent_capability
  | Delegate_exists | Delegate_autonomy | Surface_shared | Evidence_conflict | Missing_token
  | Stale_token | Not_captain | Active_delegate | Experiment_overlap | Reserved_overlap
  | Delegate_cannot_park | Bad_park_reason | Bad_proof | Proof_mismatch | Stale_settlement
  | Not_stopped | Run_identity_conflict | Run_fenced | Not_settled | Not_mutating | No_workspace
  | Config_differs | Registry_missing | Publication_refused

section \<open>Limits\<close>

definition validate_admission_config :: "admission_config \<Rightarrow> bool" where
  "validate_admission_config c \<longleftrightarrow>
     \<not> blank (ac_revision c)
     \<and> positive (al_maxCaptains (ac_limits c)) \<and> positive (al_maxWriters (ac_limits c))
     \<and> positive (al_maxHighAutonomy (ac_limits c)) \<and> absent_or positive (al_maxPerRepository (ac_limits c))"

section \<open>Evidence\<close>

definition drop_prefix_any_case :: "string \<Rightarrow> string \<Rightarrow> string" where
  "drop_prefix_any_case p s = (if starts_with (lower s) p then drop (length p) s else s)"

definition drop_scheme :: "string \<Rightarrow> string" where
  "drop_scheme s =
     (if starts_with (lower s) ''https://'' then drop 8 s else drop_prefix_any_case ''http://'' s)"

definition drop_git :: "string \<Rightarrow> string" where
  "drop_git s =
     (if starts_with (List.rev (lower s)) (List.rev ''.git'') then take (length s - 4) s else s)"

definition drop_slashes :: "string \<Rightarrow> string" where
  "drop_slashes s = List.rev (dropWhile (\<lambda>c. c = CHR ''/'') (List.rev s))"

definition repository_part :: "string \<Rightarrow> bool" where
  "repository_part s \<longleftrightarrow> s \<noteq> [] \<and> all_in (''abcdefghijklmnopqrstuvwxyz0123456789_.-'') s"

definition owner_and_name :: "string \<Rightarrow> bool" where
  "owner_and_name s \<longleftrightarrow>
     repository_part (takeWhile (\<lambda>c. c \<noteq> CHR ''/'') s)
     \<and> starts_with (dropWhile (\<lambda>c. c \<noteq> CHR ''/'') s) ''/''
     \<and> repository_part (tl (dropWhile (\<lambda>c. c \<noteq> CHR ''/'') s))"

definition canonical_repository :: "string \<Rightarrow> string option" where
  "canonical_repository s =
     (let r = lower (drop_slashes (drop_git (drop_scheme (trim s)))) in
      if owner_and_name r then Some r else None)"

definition canonical_path :: "mission_host \<Rightarrow> string option \<Rightarrow> string option option" where
  "canonical_path h p = (case p of None \<Rightarrow> Some None | Some s \<Rightarrow> map_option Some (mh_path h s))"

definition evidence_named :: "mission_evidence \<Rightarrow> bool" where
  "evidence_named e \<longleftrightarrow>
     ev_issue e \<noteq> None \<or> ev_pullRequest e \<noteq> None \<or> ev_run e \<noteq> None \<or> ev_claim e \<noteq> None
     \<or> ev_workspace e \<noteq> None \<or> ev_stateSurface e \<noteq> None \<or> ev_repositoryScope e"

definition evidence_values_ok :: "mission_evidence \<Rightarrow> bool" where
  "evidence_values_ok e \<longleftrightarrow>
     \<not> blank (ev_repository e) \<and> absent_or positive (ev_issue e) \<and> absent_or positive (ev_pullRequest e)
     \<and> absent_or (\<lambda>s. \<not> blank s) (ev_run e) \<and> absent_or (\<lambda>s. \<not> blank s) (ev_claim e)
     \<and> absent_or (\<lambda>s. \<not> blank s) (ev_workspace e) \<and> absent_or (\<lambda>s. \<not> blank s) (ev_stateSurface e)"

definition canonicalize_mission_evidence ::
  "mission_host \<Rightarrow> mission_evidence \<Rightarrow> mission_error + mission_evidence" where
  "canonicalize_mission_evidence h e =
     (if \<not> evidence_values_ok e then Inl Bad_evidence
      else case canonical_repository (ev_repository e) of
        None \<Rightarrow> Inl Bad_repository
      | Some r \<Rightarrow>
          (case (canonical_path h (ev_workspace e), canonical_path h (ev_stateSurface e)) of
             (Some w, Some s) \<Rightarrow>
               (let c = e\<lparr>ev_repository := r, ev_run := map_option trim (ev_run e),
                          ev_claim := map_option trim (ev_claim e), ev_workspace := w, ev_stateSurface := s\<rparr> in
                if evidence_named c then Inr c else Inl No_evidence)
           | _ \<Rightarrow> Inl Bad_path))"

definition evidence_is_valid :: "mission_host \<Rightarrow> mission_evidence \<Rightarrow> bool" where
  "evidence_is_valid h e \<longleftrightarrow> canonicalize_mission_evidence h e = Inr e"

section \<open>Overlap\<close>

text \<open>Canonical absolute paths as their segments; a path contains those it is a prefix of.\<close>

fun path_segments :: "string \<Rightarrow> string \<Rightarrow> string list" where
  "path_segments acc [] = (if acc = [] then [] else [acc])"
| "path_segments acc (c # cs) =
     (if c = CHR ''/'' then (if acc = [] then path_segments [] cs else acc # path_segments [] cs)
      else path_segments (acc @ [c]) cs)"

definition path_contains :: "string \<Rightarrow> string \<Rightarrow> bool" where
  "path_contains parent child \<longleftrightarrow>
     take (length (path_segments [] parent)) (path_segments [] child) = path_segments [] parent"

definition surfaces :: "mission_evidence \<Rightarrow> string list" where
  "surfaces e = List.map_filter id [ev_workspace e, ev_stateSurface e]"

definition shared_physical_surface :: "mission_evidence \<Rightarrow> mission_evidence \<Rightarrow> bool" where
  "shared_physical_surface a b \<longleftrightarrow>
     list_ex (\<lambda>p. list_ex (\<lambda>q. path_contains p q \<or> path_contains q p) (surfaces b)) (surfaces a)"

definition both_equal :: "'a option \<Rightarrow> 'a option \<Rightarrow> bool" where
  "both_equal a b \<longleftrightarrow> a \<noteq> None \<and> a = b"

definition overlaps :: "mission_evidence \<Rightarrow> mission_evidence \<Rightarrow> bool" where
  "overlaps a b \<longleftrightarrow>
     shared_physical_surface a b
     \<or> ev_repository a = ev_repository b
       \<and> (ev_repositoryScope a \<or> ev_repositoryScope b \<or> both_equal (ev_issue a) (ev_issue b)
          \<or> both_equal (ev_pullRequest a) (ev_pullRequest b) \<or> both_equal (ev_run a) (ev_run b)
          \<or> both_equal (ev_claim a) (ev_claim b))"

section \<open>Mission identities\<close>

definition mission_anchor :: "mission_evidence \<Rightarrow> (string \<times> string) option" where
  "mission_anchor e =
     (if ev_repositoryScope e then Some (''repositoryScope'', ''true'')
      else case ev_issue e of Some n \<Rightarrow> Some (''issue'', nat_str (nat n))
      | None \<Rightarrow> (case ev_pullRequest e of Some n \<Rightarrow> Some (''pullRequest'', nat_str (nat n))
      | None \<Rightarrow> (case ev_run e of Some s \<Rightarrow> Some (''run'', s)
      | None \<Rightarrow> (case ev_claim e of Some s \<Rightarrow> Some (''claim'', s)
      | None \<Rightarrow> (case ev_workspace e of Some s \<Rightarrow> Some (''workspace'', s)
      | None \<Rightarrow> map_option (Pair ''stateSurface'') (ev_stateSurface e))))))"

definition NUL :: string where "NUL = [CHR 0x00]"

definition deterministic_mission_id :: "mission_host \<Rightarrow> mission_evidence \<Rightarrow> string option" where
  "deterministic_mission_id h e =
     map_option (\<lambda>(key, v). ''mission-'' @ take 32 (mh_sha256 h (ev_repository e @ NUL @ key @ NUL @ v)))
       (mission_anchor e)"

definition deterministic_experiment_mission_id :: "mission_host \<Rightarrow> string \<Rightarrow> string \<Rightarrow> string" where
  "deterministic_experiment_mission_id h lane parent =
     ''experiment-'' @ take 32 (mh_sha256 h (''isolated-experiment'' @ NUL @ parent @ NUL @ lane))"

definition capacity_mission_id :: "lane_record \<Rightarrow> string" where
  "capacity_mission_id l =
     (if ln_role l = Isolated_experiment then ''experiment'' else ''production'') @ '':'' @ ln_missionId l"

definition production :: "admission_role \<Rightarrow> bool" where
  "production r \<longleftrightarrow> r = Production_captain \<or> r = Delegated_mutation_writer"

definition mutation :: "admission_role \<Rightarrow> bool" where
  "mutation r \<longleftrightarrow> r = Production_captain \<or> r = Delegated_mutation_writer"

end
