(* ===== verification/Mission_Registry.thy ===== *)
theory Mission_Registry
  imports Mission_Types
begin

text \<open>
  The operations of the mission admission registry (\<^verbatim>\<open>MissionAdmissionRegistry\<close> in
  \<^verbatim>\<open>src/mission-admission/registry.ts\<close>): admission, strengthening, renewal, parking, release,
  settlement and the authority checks, each as a change of the registry state inside the
  transaction that reads, validates and publishes it. The lock makes a transaction atomic; the
  clock, the random token and the outcome of the callbacks that run before publication are
  arguments.
\<close>

section \<open>Evidence of a lane\<close>

definition merge_item :: "'a option \<Rightarrow> 'a option \<Rightarrow> 'a option option" where
  "merge_item old next =
     (case (old, next) of
        (Some a, Some b) \<Rightarrow> if a = b then Some (Some a) else None
      | (Some a, None) \<Rightarrow> Some (Some a)
      | (None, b) \<Rightarrow> Some b)"

definition merge_evidence :: "mission_evidence \<Rightarrow> mission_evidence \<Rightarrow> mission_error + mission_evidence" where
  "merge_evidence a b =
     (if ev_repository a \<noteq> ev_repository b then Inl Evidence_conflict
      else case (merge_item (ev_issue a) (ev_issue b), merge_item (ev_pullRequest a) (ev_pullRequest b),
                 merge_item (ev_run a) (ev_run b), merge_item (ev_claim a) (ev_claim b),
                 merge_item (ev_workspace a) (ev_workspace b), merge_item (ev_stateSurface a) (ev_stateSurface b)) of
        (Some i, Some p, Some r, Some c, Some w, Some s) \<Rightarrow>
          Inr \<lparr>ev_repository = ev_repository a, ev_issue = i, ev_pullRequest = p, ev_run = r, ev_claim = c,
               ev_workspace = w, ev_stateSurface = s,
               ev_repositoryScope = (ev_repositoryScope a \<or> ev_repositoryScope b)\<rparr>
      | _ \<Rightarrow> Inl Evidence_conflict)"

definition evidence_includes :: "mission_evidence \<Rightarrow> mission_evidence \<Rightarrow> bool" where
  "evidence_includes e required \<longleftrightarrow> merge_evidence required e = Inr e"

section \<open>Valid states\<close>

definition validate_lane :: "mission_host \<Rightarrow> lane_record \<Rightarrow> bool" where
  "validate_lane h l \<longleftrightarrow>
     \<not> blank (ln_laneId l) \<and> \<not> blank (ln_missionId l) \<and> evidence_is_valid h (ln_evidence l)
     \<and> is_safe_integer (ln_generation l) \<and> 0 < ln_generation l
     \<and> absent_or (\<lambda>t. \<not> blank t) (ln_token l) \<and> \<not> blank (ln_updatedAt l)
     \<and> (ln_status l = Lane_active \<longleftrightarrow> ln_token l \<noteq> None)
     \<and> (if ln_role l = Delegated_mutation_writer
        then present_and (\<lambda>s. \<not> blank s) (ln_delegatedFromLaneId l)
          \<and> present_and positive (ln_delegatedFromGeneration l) \<and> ln_status l \<noteq> Lane_parked
        else ln_delegatedFromLaneId l = None \<and> ln_delegatedFromGeneration l = None)
     \<and> (if ln_role l = Isolated_experiment
        then present_and (\<lambda>p. \<not> blank p
          \<and> ln_missionId l = deterministic_experiment_mission_id h (ln_laneId l) p) (ln_experimentOfMissionId l)
        else ln_experimentOfMissionId l = None)
     \<and> (ln_status l = Lane_parked \<longleftrightarrow> ln_parkedReason l \<noteq> None)"

definition unreleased :: "lane_record \<Rightarrow> bool" where
  "unreleased l \<longleftrightarrow> ln_status l \<noteq> Lane_released"

definition is_active :: "lane_record \<Rightarrow> bool" where
  "is_active l \<longleftrightarrow> ln_status l = Lane_active"

definition is_captain :: "lane_record \<Rightarrow> bool" where
  "is_captain l \<longleftrightarrow> ln_role l = Production_captain"

definition is_delegate :: "lane_record \<Rightarrow> bool" where
  "is_delegate l \<longleftrightarrow> ln_role l = Delegated_mutation_writer"

definition delegate_of :: "lane_record \<Rightarrow> lane_record \<Rightarrow> bool" where
  "delegate_of d l \<longleftrightarrow> is_delegate d \<and> ln_delegatedFromLaneId d = Some (ln_laneId l)"

definition sibling_delegates :: "lane_record \<Rightarrow> lane_record \<Rightarrow> bool" where
  "sibling_delegates a b \<longleftrightarrow>
     is_delegate a \<and> is_delegate b \<and> ln_delegatedFromLaneId a = ln_delegatedFromLaneId b
     \<and> ln_delegatedFromGeneration a = ln_delegatedFromGeneration b"

definition lanes_conflict :: "lane_record \<Rightarrow> lane_record \<Rightarrow> mission_error option" where
  "lanes_conflict a b = first_error
     [fail_if (unreleased a \<and> unreleased b \<and> production (ln_role a) \<and> production (ln_role b)
         \<and> overlaps (ln_evidence a) (ln_evidence b)
         \<and> \<not> delegate_of a b \<and> \<not> delegate_of b a \<and> \<not> sibling_delegates a b) Ambiguous_lanes,
      fail_if (unreleased a \<and> unreleased b
         \<and> (ln_role a = Isolated_experiment \<or> ln_role b = Isolated_experiment)
         \<and> shared_physical_surface (ln_evidence a) (ln_evidence b)) Experiment_not_isolated]"

fun pairwise :: "('a \<Rightarrow> 'a \<Rightarrow> 'e option) \<Rightarrow> 'a list \<Rightarrow> 'e option" where
  "pairwise f [] = None"
| "pairwise f (x # xs) = first_error [first_error (map (f x) xs), pairwise f xs]"

definition count_of :: "'a list \<Rightarrow> int" where
  "count_of xs = int (length (remdups xs))"

definition active_lanes :: "registry_state \<Rightarrow> lane_record list" where
  "active_lanes s = filter is_active (rg_lanes s)"

definition writer_missions :: "registry_state \<Rightarrow> string list" where
  "writer_missions s = map ln_missionId (filter (\<lambda>l. mutation (ln_role l)) (active_lanes s))"

definition high_autonomy_missions :: "registry_state \<Rightarrow> string list" where
  "high_autonomy_missions s = map capacity_mission_id (filter ln_highAutonomy (active_lanes s))"

definition captains :: "registry_state \<Rightarrow> lane_record list" where
  "captains s = filter is_captain (active_lanes s)"

definition captains_of :: "registry_state \<Rightarrow> string \<Rightarrow> lane_record list" where
  "captains_of s repository = filter (\<lambda>l. ev_repository (ln_evidence l) = repository) (captains s)"

definition limits_of :: "registry_state \<Rightarrow> admission_limits" where
  "limits_of s = ac_limits (rg_config s)"

definition repository_capacity_ok :: "registry_state \<Rightarrow> bool" where
  "repository_capacity_ok s \<longleftrightarrow>
     absent_or (\<lambda>n. list_all (\<lambda>l. int (length (captains_of s (ev_repository (ln_evidence l)))) \<le> n) (captains s))
       (al_maxPerRepository (limits_of s))"

definition capacity_ok :: "registry_state \<Rightarrow> bool" where
  "capacity_ok s \<longleftrightarrow>
     int (length (captains s)) \<le> al_maxCaptains (limits_of s)
     \<and> count_of (writer_missions s) \<le> al_maxWriters (limits_of s)
     \<and> count_of (high_autonomy_missions s) \<le> al_maxHighAutonomy (limits_of s)"

definition lane_named :: "string \<Rightarrow> registry_state \<Rightarrow> lane_record option" where
  "lane_named i s = find (\<lambda>l. ln_laneId l = i) (rg_lanes s)"

definition delegate_ok :: "registry_state \<Rightarrow> lane_record \<Rightarrow> bool" where
  "delegate_ok s d \<longleftrightarrow>
     present_and (\<lambda>o'.
       (is_active d \<longrightarrow> is_active o' \<and> Some (ln_generation o') = ln_delegatedFromGeneration d
          \<and> evidence_includes (ln_evidence d) (ln_evidence o'))
       \<and> present_and (\<lambda>g. g \<le> ln_generation o') (ln_delegatedFromGeneration d)
       \<and> ln_missionId o' = ln_missionId d \<and> \<not> ln_highAutonomy d)
       (find (\<lambda>l. Some (ln_laneId l) = ln_delegatedFromLaneId d \<and> is_captain l) (rg_lanes s))"

definition several_delegates :: "lane_record \<Rightarrow> lane_record \<Rightarrow> mission_error option" where
  "several_delegates a b =
     fail_if (ln_delegatedFromLaneId a = ln_delegatedFromLaneId b
       \<and> ln_delegatedFromGeneration a = ln_delegatedFromGeneration b) Several_delegates"

definition transition_ok :: "registry_transition \<Rightarrow> bool" where
  "transition_ok x \<longleftrightarrow> \<not> blank (rx_at x) \<and> absent_or (\<lambda>i. \<not> blank i) (rx_laneId x)"

definition validate_state :: "mission_host \<Rightarrow> registry_state \<Rightarrow> mission_error option" where
  "validate_state h s = first_error
     [fail_if (\<not> is_safe_integer (rg_revision s) \<or> rg_revision s < 0) Corrupt_registry,
      fail_if (\<not> validate_admission_config (rg_config s)) Bad_config,
      fail_if (\<not> list_all (validate_lane h) (rg_lanes s)) Invalid_lane,
      fail_if (\<not> distinct (map ln_laneId (rg_lanes s))) Duplicate_lane_ids,
      pairwise lanes_conflict (rg_lanes s),
      fail_if (\<not> absent_or transition_ok (rg_lastTransition s)) Bad_transition,
      fail_if (\<not> distinct (map ln_token (active_lanes s))) Duplicate_tokens,
      fail_if (\<not> repository_capacity_ok s) Repository_capacity,
      fail_if (\<not> capacity_ok s) Capacity_exceeded,
      fail_if (\<not> list_all (delegate_ok s) (filter is_delegate (rg_lanes s))) Orphaned_delegate,
      pairwise several_delegates (filter is_delegate (active_lanes s))]"

section \<open>Shared steps\<close>

definition active_delegate :: "registry_state \<Rightarrow> lane_record \<Rightarrow> bool" where
  "active_delegate s captain \<longleftrightarrow> list_ex (\<lambda>l. is_active l \<and> delegate_of l captain) (rg_lanes s)"

definition holds_token :: "admission_token \<Rightarrow> lane_record \<Rightarrow> bool" where
  "holds_token t l \<longleftrightarrow> is_active l \<and> ln_generation l = at_generation t \<and> ln_token l = Some (at_token t)"

definition require_current_token :: "registry_state \<Rightarrow> admission_token \<Rightarrow> mission_error + lane_record" where
  "require_current_token s t =
     (case lane_named (at_laneId t) s of
        None \<Rightarrow> Inl Stale_token
      | Some l \<Rightarrow> if holds_token t l then Inr l else Inl Stale_token)"

definition replace_lane :: "registry_state \<Rightarrow> lane_record \<Rightarrow> registry_state" where
  "replace_lane s l =
     (case find_index (\<lambda>_ x. ln_laneId x = ln_laneId l) (rg_lanes s) of
        None \<Rightarrow> s\<lparr>rg_lanes := rg_lanes s @ [l]\<rparr>
      | Some i \<Rightarrow> s\<lparr>rg_lanes := (rg_lanes s)[i := l]\<rparr>)"

text \<open>A change that is a transition: the lane is replaced, the revision counted and recorded.\<close>

definition record_change ::
  "registry_state \<Rightarrow> lane_record \<Rightarrow> transition_kind \<Rightarrow> string \<Rightarrow> registry_state" where
  "record_change s l kind now =
     (replace_lane s l)\<lparr>rg_revision := rg_revision s + 1,
        rg_lastTransition := Some \<lparr>rx_kind = kind, rx_laneId = Some (ln_laneId l), rx_at = now\<rparr>\<rparr>"

definition parked_lane :: "lane_record \<Rightarrow> parked_reason \<Rightarrow> string \<Rightarrow> lane_record" where
  "parked_lane l reason now =
     l\<lparr>ln_status := Lane_parked, ln_token := None, ln_generation := ln_generation l + 1,
       ln_parkedReason := Some reason, ln_updatedAt := now\<rparr>"

definition released_lane :: "lane_record \<Rightarrow> string \<Rightarrow> lane_record" where
  "released_lane l now =
     l\<lparr>ln_status := Lane_released, ln_token := None, ln_generation := ln_generation l + 1,
       ln_parkedReason := None, ln_updatedAt := now\<rparr>"

definition token_record :: "lane_record \<Rightarrow> mission_error + admission_token" where
  "token_record l =
     (case ln_token l of
        None \<Rightarrow> Inl Missing_token
      | Some t \<Rightarrow> Inr \<lparr>at_laneId = ln_laneId l, at_generation = ln_generation l, at_token = t\<rparr>)"

definition capacity_reason :: "registry_state \<Rightarrow> lane_record \<Rightarrow> parked_reason option" where
  "capacity_reason s c =
     (let limits = limits_of s in
      if is_captain c \<and> al_maxCaptains limits \<le> int (length (captains s)) then Some Capacity_captains
      else if mutation (ln_role c) \<and> ln_missionId c \<notin> set (writer_missions s)
        \<and> al_maxWriters limits \<le> count_of (writer_missions s) then Some Capacity_writers
      else if ln_highAutonomy c \<and> capacity_mission_id c \<notin> set (high_autonomy_missions s)
        \<and> al_maxHighAutonomy limits \<le> count_of (high_autonomy_missions s) then Some Capacity_high_autonomy
      else if is_captain c
        \<and> present_and (\<lambda>n. n \<le> int (length (captains_of s (ev_repository (ln_evidence c)))))
            (al_maxPerRepository limits) then Some Capacity_repository
      else None)"

section \<open>Admission\<close>

datatype admission_outcome =
    Outcome_admitted string admission_token int
  | Outcome_parked string parked_reason int
  | Outcome_duplicate string string int

definition given :: "string option \<Rightarrow> bool" where
  "given s = present_and (\<lambda>t. t \<noteq> []) s"

definition read_only :: "admission_role \<Rightarrow> bool" where
  "read_only r \<longleftrightarrow> r = Read_only_review \<or> r = Read_only_consultation"

definition request_error :: "admission_request \<Rightarrow> mission_evidence \<Rightarrow> mission_error option" where
  "request_error q e = first_error
     [fail_if (aq_role q = Delegated_mutation_writer
         \<and> (\<not> present_and (\<lambda>s. \<not> blank s) (aq_delegatedFromLaneId q) \<or> aq_delegatedFromToken q = None))
        Delegation_incomplete,
      fail_if (aq_role q = Isolated_experiment
         \<and> (\<not> present_and (\<lambda>s. \<not> blank s) (aq_experimentOfMissionId q)
            \<or> ev_workspace e = None \<or> ev_stateSurface e = None)) Experiment_incomplete,
      fail_if (read_only (aq_role q)
         \<and> (given (aq_delegatedFromLaneId q) \<or> aq_delegatedFromToken q \<noteq> None \<or> aq_highAutonomy q = Some True))
        Read_only_authority,
      fail_if (aq_role q \<noteq> Delegated_mutation_writer \<and> aq_delegatedFromToken q \<noteq> None) Foreign_capability]"

definition prior_error :: "lane_record option \<Rightarrow> admission_request \<Rightarrow> mission_error option" where
  "prior_error prior q =
     (case prior of
        None \<Rightarrow> None
      | Some l \<Rightarrow> first_error
          [fail_if (is_active l) Already_active,
           fail_if (ln_status l = Lane_parked \<and> ln_parkedReason l = Some Manual_checkpoint) Checkpoint_reserved,
           fail_if (ln_role l \<noteq> aq_role q) Role_changed,
           fail_if (ln_highAutonomy l \<and> aq_highAutonomy q = Some False) Autonomy_downgraded])"

definition requested_owner :: "registry_state \<Rightarrow> admission_request \<Rightarrow> lane_record option" where
  "requested_owner s q =
     (if aq_role q \<noteq> Delegated_mutation_writer then None
      else find (\<lambda>l. Some (ln_laneId l) = aq_delegatedFromLaneId q \<and> is_active l \<and> is_captain l) (rg_lanes s))"

definition owner_error ::
  "registry_state \<Rightarrow> lane_record option \<Rightarrow> lane_record option \<Rightarrow> admission_request \<Rightarrow> mission_error option" where
  "owner_error s prior owner q = first_error
     [fail_if (aq_role q = Delegated_mutation_writer
         \<and> \<not> present_and (\<lambda>l. present_and (\<lambda>t. at_laneId t = ln_laneId l \<and> at_generation t = ln_generation l
                \<and> Some (at_token t) = ln_token l) (aq_delegatedFromToken q)
              \<and> absent_or (\<lambda>p. ln_missionId p = ln_missionId l) prior) owner) Parent_capability,
      fail_if (present_and (\<lambda>l. list_ex (\<lambda>d. is_active d \<and> delegate_of d l
           \<and> ln_delegatedFromGeneration d = Some (ln_generation l)) (rg_lanes s)) owner) Delegate_exists,
      fail_if (aq_role q = Delegated_mutation_writer \<and> aq_highAutonomy q = Some True) Delegate_autonomy]"

definition candidate_mission ::
  "mission_host \<Rightarrow> lane_record option \<Rightarrow> lane_record option \<Rightarrow> admission_request \<Rightarrow> mission_evidence \<Rightarrow> string option" where
  "candidate_mission h prior owner q e =
     (if aq_role q = Isolated_experiment
      then map_option (deterministic_experiment_mission_id h (aq_laneId q)) (aq_experimentOfMissionId q)
      else case (owner, prior) of
        (Some l, _) \<Rightarrow> Some (ln_missionId l)
      | (None, Some p) \<Rightarrow> Some (ln_missionId p)
      | (None, None) \<Rightarrow> deterministic_mission_id h e)"

definition candidate_evidence ::
  "lane_record option \<Rightarrow> lane_record option \<Rightarrow> mission_evidence \<Rightarrow> mission_error + mission_evidence" where
  "candidate_evidence prior owner e =
     (case owner of
        Some l \<Rightarrow>
          (case merge_evidence (ln_evidence l) (case prior of None \<Rightarrow> ln_evidence l | Some p \<Rightarrow> ln_evidence p) of
             Inl x \<Rightarrow> Inl x
           | Inr m \<Rightarrow> merge_evidence m e)
      | None \<Rightarrow> (case prior of Some p \<Rightarrow> merge_evidence (ln_evidence p) e | None \<Rightarrow> Inr e))"

definition keep_given :: "string option \<Rightarrow> string option" where
  "keep_given s = (if given s then s else None)"

definition candidate_lane ::
  "lane_record option \<Rightarrow> lane_record option \<Rightarrow> admission_request \<Rightarrow> string \<Rightarrow> mission_evidence \<Rightarrow> string \<Rightarrow> string \<Rightarrow>
   lane_record" where
  "candidate_lane prior owner q mission e token now =
     \<lparr>ln_laneId = aq_laneId q, ln_missionId = mission, ln_evidence = e, ln_role = aq_role q,
      ln_status = Lane_active, ln_generation = (case prior of None \<Rightarrow> 0 | Some p \<Rightarrow> ln_generation p) + 1,
      ln_token = Some token,
      ln_highAutonomy = (case aq_highAutonomy q of
         Some b \<Rightarrow> b | None \<Rightarrow> (case prior of None \<Rightarrow> False | Some p \<Rightarrow> ln_highAutonomy p)),
      ln_delegatedFromLaneId = keep_given (aq_delegatedFromLaneId q),
      ln_delegatedFromGeneration = map_option ln_generation owner,
      ln_experimentOfMissionId = keep_given (aq_experimentOfMissionId q),
      ln_parkedReason = None, ln_updatedAt = now\<rparr>"

definition surface_taken :: "registry_state \<Rightarrow> lane_record \<Rightarrow> bool" where
  "surface_taken s c \<longleftrightarrow>
     list_ex (\<lambda>l. unreleased l \<and> ln_laneId l \<noteq> ln_laneId c
       \<and> (ln_role l = Isolated_experiment \<or> ln_role c = Isolated_experiment)
       \<and> shared_physical_surface (ln_evidence l) (ln_evidence c)) (rg_lanes s)"

definition ownership_conflict :: "registry_state \<Rightarrow> admission_request \<Rightarrow> lane_record \<Rightarrow> lane_record option" where
  "ownership_conflict s q c =
     find (\<lambda>l. unreleased l \<and> ln_laneId l \<noteq> ln_laneId c \<and> production (ln_role l) \<and> production (ln_role c)
       \<and> overlaps (ln_evidence l) (ln_evidence c)
       \<and> \<not> (ln_role c = Delegated_mutation_writer \<and> aq_delegatedFromLaneId q = Some (ln_laneId l))) (rg_lanes s)"

text \<open>A parked lane that asks again for the same and is refused for the same reason.\<close>

definition same_parked_request :: "registry_state \<Rightarrow> lane_record \<Rightarrow> lane_record \<Rightarrow> bool" where
  "same_parked_request s p c \<longleftrightarrow>
     ln_status p = Lane_parked \<and> ln_role p = ln_role c \<and> ln_evidence p = ln_evidence c
     \<and> ln_highAutonomy p = ln_highAutonomy c \<and> ln_delegatedFromLaneId p = ln_delegatedFromLaneId c
     \<and> ln_experimentOfMissionId p = ln_experimentOfMissionId c
     \<and> capacity_reason s c = ln_parkedReason p \<and> ln_parkedReason p \<noteq> None"

definition repeated_denial ::
  "registry_state \<Rightarrow> lane_record \<Rightarrow> lane_record option \<Rightarrow> (string \<times> parked_reason) option" where
  "repeated_denial s c prior =
     (case prior of
        None \<Rightarrow> None
      | Some p \<Rightarrow>
          if same_parked_request s p c then map_option (Pair (ln_missionId p)) (ln_parkedReason p) else None)"

definition park_candidate ::
  "registry_state \<Rightarrow> lane_record \<Rightarrow> parked_reason \<Rightarrow> string \<Rightarrow> mission_error + registry_state \<times> admission_outcome" where
  "park_candidate s c reason now =
     (let l = c\<lparr>ln_status := Lane_parked, ln_token := None, ln_parkedReason := Some reason\<rparr>;
          s' = record_change s l (Kind_parked reason) now in
      Inr (s', Outcome_parked (ln_missionId c) reason (rg_revision s')))"

definition place_candidate ::
  "registry_state \<Rightarrow> lane_record option \<Rightarrow> admission_request \<Rightarrow> lane_record \<Rightarrow> string \<Rightarrow>
   mission_error + registry_state \<times> admission_outcome" where
  "place_candidate s prior q c now =
     (if surface_taken s c then Inl Surface_shared
      else case ownership_conflict s q c of
        Some l \<Rightarrow> Inr (s, Outcome_duplicate (ln_missionId l) (ln_laneId l) (rg_revision s))
      | None \<Rightarrow>
          (case (repeated_denial s c prior, capacity_reason s c) of
             (Some (m, reason), _) \<Rightarrow> Inr (s, Outcome_parked m reason (rg_revision s))
           | (None, Some reason) \<Rightarrow>
               (case prior of
                  Some p \<Rightarrow>
                    (if ln_status p = Lane_parked
                     then Inr (s, Outcome_parked (ln_missionId p) reason (rg_revision s))
                     else park_candidate s c reason now)
                | None \<Rightarrow> park_candidate s c reason now)
           | (None, None) \<Rightarrow>
               (let s' = record_change s c Kind_admitted now in
                case token_record c of
                  Inl e \<Rightarrow> Inl e
                | Inr t \<Rightarrow> Inr (s', Outcome_admitted (ln_missionId c) t (rg_revision s')))))"

definition admit_in ::
  "mission_host \<Rightarrow> admission_request \<Rightarrow> mission_evidence \<Rightarrow> string \<Rightarrow> string \<Rightarrow> registry_state \<Rightarrow>
   mission_error + registry_state \<times> admission_outcome" where
  "admit_in h q e token now s =
     (let prior = lane_named (aq_laneId q) s; owner = requested_owner s q in
      case first_error [prior_error prior q, owner_error s prior owner q] of
        Some x \<Rightarrow> Inl x
      | None \<Rightarrow>
          (case candidate_mission h prior owner q e of
             None \<Rightarrow> Inl Ambiguous_mission
           | Some m \<Rightarrow>
               (case candidate_evidence prior owner e of
                  Inl x \<Rightarrow> Inl x
                | Inr v \<Rightarrow> place_candidate s prior q (candidate_lane prior owner q m v token now) now)))"

section \<open>Changes by the owner of a lane\<close>

definition strengthen_in ::
  "mission_evidence \<Rightarrow> admission_token \<Rightarrow> string \<Rightarrow> registry_state \<Rightarrow> mission_error + registry_state \<times> int" where
  "strengthen_in e t now s =
     (case require_current_token s t of
        Inl x \<Rightarrow> Inl x
      | Inr l \<Rightarrow>
          (if \<not> is_captain l then Inl Not_captain
           else if active_delegate s l then Inl Active_delegate
           else case merge_evidence (ln_evidence l) e of
             Inl x \<Rightarrow> Inl x
           | Inr v \<Rightarrow>
               (if list_ex (\<lambda>x. ln_laneId x \<noteq> ln_laneId l \<and> unreleased x \<and> ln_role x = Isolated_experiment
                     \<and> shared_physical_surface (ln_evidence x) v) (rg_lanes s) then Inl Experiment_overlap
                else if list_ex (\<lambda>x. ln_laneId x \<noteq> ln_laneId l \<and> unreleased x \<and> production (ln_role x)
                     \<and> overlaps (ln_evidence x) v \<and> \<not> delegate_of x l) (rg_lanes s) then Inl Reserved_overlap
                else if ln_evidence l = v then Inr (s, rg_revision s)
                else let s' = record_change s (l\<lparr>ln_evidence := v, ln_updatedAt := now\<rparr>) Kind_evidence_strengthened now in
                  Inr (s', rg_revision s'))))"

definition renew_in :: "admission_token \<Rightarrow> string \<Rightarrow> registry_state \<Rightarrow> mission_error + registry_state \<times> admission_token" where
  "renew_in t now s =
     (case require_current_token s t of
        Inl x \<Rightarrow> Inl x
      | Inr l \<Rightarrow>
          (case token_record l of
             Inl x \<Rightarrow> Inl x
           | Inr u \<Rightarrow> Inr (replace_lane s (l\<lparr>ln_updatedAt := now\<rparr>), u)))"

definition park_in ::
  "admission_token \<Rightarrow> parked_reason \<Rightarrow> string \<Rightarrow> registry_state \<Rightarrow> mission_error + registry_state \<times> int" where
  "park_in t reason now s =
     (case require_current_token s t of
        Inl x \<Rightarrow> Inl x
      | Inr l \<Rightarrow>
          (if is_delegate l then Inl Delegate_cannot_park
           else if active_delegate s l then Inl Active_delegate
           else if reason = Manual_checkpoint then Inl Bad_park_reason
           else let s' = record_change s (parked_lane l reason now) (Kind_parked reason) now in Inr (s', rg_revision s')))"

definition release_in :: "admission_token \<Rightarrow> string \<Rightarrow> registry_state \<Rightarrow> mission_error + registry_state \<times> int" where
  "release_in t now s =
     (case require_current_token s t of
        Inl x \<Rightarrow> Inl x
      | Inr l \<Rightarrow>
          (if active_delegate s l then Inl Active_delegate
           else let s' = record_change s (released_lane l now) Kind_released now in Inr (s', rg_revision s')))"

section \<open>Manual lanes and settlement\<close>

record checkpoint_proof =
  pf_worktree :: string
  pf_branch :: string
  pf_checkpointSha :: string
  pf_clean :: bool
  pf_stopped :: bool

definition checkpoint_sha :: "string \<Rightarrow> bool" where
  "checkpoint_sha s \<longleftrightarrow> 7 \<le> length s \<and> length s \<le> 64 \<and> all_in HEX (lower s)"

definition proof_complete :: "checkpoint_proof \<Rightarrow> bool" where
  "proof_complete p \<longleftrightarrow> pf_clean p \<and> pf_stopped p \<and> \<not> blank (pf_branch p) \<and> checkpoint_sha (pf_checkpointSha p)"

definition manual_lane :: "string \<Rightarrow> lane_record \<Rightarrow> bool" where
  "manual_lane worktree l \<longleftrightarrow>
     is_captain l \<and> ev_repositoryScope (ln_evidence l) \<and> ev_workspace (ln_evidence l) = Some worktree"

definition park_manual_in ::
  "admission_token \<Rightarrow> string \<Rightarrow> string \<Rightarrow> registry_state \<Rightarrow> mission_error + registry_state \<times> int" where
  "park_manual_in t worktree now s =
     (case require_current_token s t of
        Inl x \<Rightarrow> Inl x
      | Inr l \<Rightarrow>
          (if active_delegate s l then Inl Active_delegate
           else if \<not> manual_lane worktree l then Inl Proof_mismatch
           else let s' = record_change s (parked_lane l Manual_checkpoint now) (Kind_parked Manual_checkpoint) now in
             Inr (s', rg_revision s')))"

definition already_settled :: "lane_record option \<Rightarrow> int \<Rightarrow> bool" where
  "already_settled l g = present_and (\<lambda>l. ln_status l = Lane_released \<and> ln_generation l = g + 1) l"

definition retire_manual_in ::
  "string \<Rightarrow> int \<Rightarrow> string \<Rightarrow> string \<Rightarrow> registry_state \<Rightarrow> mission_error + registry_state \<times> int" where
  "retire_manual_in i g worktree now s =
     (if already_settled (lane_named i s) g then Inr (s, rg_revision s)
      else case lane_named i s of
        None \<Rightarrow> Inl Stale_settlement
      | Some l \<Rightarrow>
          (if ln_status l \<noteq> Lane_parked \<or> ln_generation l \<noteq> g \<or> ln_parkedReason l \<noteq> Some Manual_checkpoint
              \<or> \<not> manual_lane worktree l then Inl Stale_settlement
           else if active_delegate s l then Inl Active_delegate
           else let s' = record_change s (released_lane l now) Kind_manual_retired now in Inr (s', rg_revision s')))"

definition release_parked_in :: "string \<Rightarrow> int \<Rightarrow> string \<Rightarrow> registry_state \<Rightarrow> mission_error + registry_state \<times> int" where
  "release_parked_in i g now s =
     (if already_settled (lane_named i s) g then Inr (s, rg_revision s)
      else case lane_named i s of
        None \<Rightarrow> Inl Stale_settlement
      | Some l \<Rightarrow>
          (if ln_status l \<noteq> Lane_parked \<or> ln_generation l \<noteq> g \<or> \<not> is_captain l
              \<or> ln_parkedReason l = Some Manual_checkpoint then Inl Stale_settlement
           else let s' = record_change s (released_lane l now) Kind_operator_stopped_release now in
             Inr (s', rg_revision s')))"

text \<open>The lane of a run, by its name.\<close>

definition run_lane :: "string \<Rightarrow> registry_state \<Rightarrow> lane_record option" where
  "run_lane r s = lane_named (''run:'' @ r) s"

definition names_run :: "string \<Rightarrow> lane_record \<Rightarrow> bool" where
  "names_run r l \<longleftrightarrow> is_captain l \<and> ev_run (ln_evidence l) = Some r"

datatype settlement = Settled_unadmitted | Settled_parked lane_record | Settled_released lane_record

definition reconcile_merged_in :: "string \<Rightarrow> string \<Rightarrow> registry_state \<Rightarrow> mission_error + registry_state \<times> settlement" where
  "reconcile_merged_in r now s =
     (case run_lane r s of
        None \<Rightarrow> Inr (s, Settled_unadmitted)
      | Some l \<Rightarrow>
          (if \<not> names_run r l then Inl Run_identity_conflict
           else case ln_status l of
             Lane_active \<Rightarrow> Inl Run_fenced
           | Lane_released \<Rightarrow> Inr (s, Settled_released l)
           | Lane_parked \<Rightarrow>
               (if ln_parkedReason l \<noteq> Some Workflow_settled then Inl Not_settled
                else if active_delegate s l then Inl Active_delegate
                else Inr (record_change s (released_lane l now) Kind_merged_run_released now, Settled_parked l))))"

definition run_transition_fence :: "string \<Rightarrow> registry_state \<Rightarrow> mission_error option" where
  "run_transition_fence r s =
     (case run_lane r s of
        None \<Rightarrow> None
      | Some l \<Rightarrow> first_error
          [fail_if (\<not> names_run r l) Run_identity_conflict, fail_if (unreleased l) Run_fenced])"

definition exact_released_lane :: "string \<Rightarrow> int \<Rightarrow> registry_state \<Rightarrow> mission_error + lane_record" where
  "exact_released_lane i g s =
     (case lane_named i s of
        None \<Rightarrow> Inl Stale_settlement
      | Some l \<Rightarrow> if ln_status l = Lane_released \<and> ln_generation l = g then Inr l else Inl Stale_settlement)"

section \<open>Authority\<close>

definition can_mutate :: "registry_state \<Rightarrow> admission_token \<Rightarrow> mission_error option" where
  "can_mutate s t =
     (case require_current_token s t of
        Inl e \<Rightarrow> Some e
      | Inr l \<Rightarrow> first_error
          [fail_if (\<not> mutation (ln_role l)) Not_mutating,
           fail_if (ev_workspace (ln_evidence l) = None) No_workspace,
           fail_if (is_captain l \<and> active_delegate s l) Active_delegate])"

definition can_publish :: "registry_state \<Rightarrow> admission_token \<Rightarrow> string \<Rightarrow> mission_error option" where
  "can_publish s t mission =
     (case require_current_token s t of
        Inl e \<Rightarrow> Some e
      | Inr l \<Rightarrow> first_error
          [fail_if (\<not> is_captain l \<or> ln_missionId l \<noteq> mission) Not_captain,
           fail_if (ev_workspace (ln_evidence l) = None) No_workspace,
           fail_if (active_delegate s l) Active_delegate])"

section \<open>Transactions\<close>

datatype registry_file = Registry_absent | Registry_unreadable | Registry_state registry_state

definition initial_state :: "admission_config \<Rightarrow> registry_state" where
  "initial_state c = \<lparr>rg_revision = 0, rg_config = c, rg_lanes = [], rg_lastTransition = None\<rparr>"

definition load_registry :: "mission_host \<Rightarrow> admission_config \<Rightarrow> registry_file \<Rightarrow> mission_error + registry_state" where
  "load_registry h c f =
     (case f of
        Registry_absent \<Rightarrow> Inr (initial_state c)
      | Registry_unreadable \<Rightarrow> Inl Corrupt_registry
      | Registry_state s \<Rightarrow>
          (case validate_state h s of
             Some e \<Rightarrow> Inl e
           | None \<Rightarrow> if rg_config s = c then Inr s else Inl Config_differs))"

text \<open>\<open>authority\<close>: the ordinary mutation authority holds, asked unless the change is an owner's own
  cleanup. \<open>publishes\<close>: the callbacks before the publication return.\<close>

definition transact ::
  "mission_host \<Rightarrow> admission_config \<Rightarrow> bool \<Rightarrow> bool \<Rightarrow> registry_file \<Rightarrow>
   (registry_state \<Rightarrow> mission_error + registry_state \<times> 'a) \<Rightarrow> mission_error + registry_file \<times> 'a" where
  "transact h c authority publishes f change =
     (if \<not> authority then Inl Publication_refused
      else case load_registry h c f of
        Inl e \<Rightarrow> Inl e
      | Inr s \<Rightarrow>
          (case change s of
             Inl e \<Rightarrow> Inl e
           | Inr (s', x) \<Rightarrow>
               (if s' = s then Inr (f, x)
                else case validate_state h s' of
                  Some e \<Rightarrow> Inl e
                | None \<Rightarrow> if publishes then Inr (Registry_state s', x) else Inl Publication_refused)))"

datatype mission_operation =
    Admit admission_request string
  | Strengthen admission_token mission_evidence
  | Renew admission_token
  | Park admission_token parked_reason
  | Park_manual admission_token checkpoint_proof
  | Retire_manual string int checkpoint_proof
  | Release admission_token bool
  | Release_parked string int bool
  | Reconcile_merged string

definition with_proof ::
  "mission_host \<Rightarrow> checkpoint_proof \<Rightarrow> (string \<Rightarrow> registry_state \<Rightarrow> mission_error + 'a) \<Rightarrow>
   registry_state \<Rightarrow> mission_error + 'a" where
  "with_proof h p change s =
     (if \<not> proof_complete p then Inl Bad_proof
      else case mh_path h (pf_worktree p) of None \<Rightarrow> Inl Bad_path | Some w \<Rightarrow> change w s)"

definition admit ::
  "mission_host \<Rightarrow> admission_request \<Rightarrow> string \<Rightarrow> string \<Rightarrow> registry_state \<Rightarrow>
   mission_error + registry_state \<times> admission_outcome" where
  "admit h q token now s =
     (if blank (aq_laneId q) then Inl Bad_request
      else case canonicalize_mission_evidence h (aq_evidence q) of
        Inl e \<Rightarrow> Inl e
      | Inr e \<Rightarrow> (case request_error q e of Some x \<Rightarrow> Inl x | None \<Rightarrow> admit_in h q e token now s))"

definition without_result :: "mission_error + registry_state \<times> 'a \<Rightarrow> mission_error + registry_state \<times> unit" where
  "without_result r = (case r of Inl e \<Rightarrow> Inl e | Inr (s, _) \<Rightarrow> Inr (s, ()))"

fun operate :: "mission_host \<Rightarrow> string \<Rightarrow> mission_operation \<Rightarrow> registry_state \<Rightarrow> mission_error + registry_state \<times> unit" where
  "operate h now (Admit q token) s = without_result (admit h q token now s)"
| "operate h now (Strengthen t e) s =
     (case canonicalize_mission_evidence h e of
        Inl x \<Rightarrow> Inl x | Inr v \<Rightarrow> without_result (strengthen_in v t now s))"
| "operate h now (Renew t) s = without_result (renew_in t now s)"
| "operate h now (Park t reason) s = without_result (park_in t reason now s)"
| "operate h now (Park_manual t p) s = without_result (with_proof h p (\<lambda>w. park_manual_in t w now) s)"
| "operate h now (Retire_manual i g p) s =
     (if blank i \<or> \<not> positive g then Inl Bad_proof
      else without_result (with_proof h p (\<lambda>w. retire_manual_in i g w now) s))"
| "operate h now (Release t stopped) s =
     (if \<not> stopped then Inl Not_stopped else without_result (release_in t now s))"
| "operate h now (Release_parked i g stopped) s =
     (if blank i \<or> \<not> positive g \<or> \<not> stopped then Inl Not_stopped
      else without_result (release_parked_in i g now s))"
| "operate h now (Reconcile_merged r) s =
     (if blank r then Inl Bad_request else without_result (reconcile_merged_in r now s))"

definition is_cleanup :: "mission_operation \<Rightarrow> bool" where
  "is_cleanup op = (case op of Park _ _ \<Rightarrow> True | Release _ _ \<Rightarrow> True | _ \<Rightarrow> False)"

record mission_call =
  ml_operation :: mission_operation
  ml_now :: string
  ml_authority :: bool
  ml_publishes :: bool

definition mission_step ::
  "mission_host \<Rightarrow> admission_config \<Rightarrow> registry_file \<Rightarrow> mission_call \<Rightarrow> mission_error + registry_file" where
  "mission_step h c f call =
     (case transact h c (ml_authority call \<or> is_cleanup (ml_operation call)) (ml_publishes call) f
             (operate h (ml_now call) (ml_operation call)) of
        Inl e \<Rightarrow> Inl e
      | Inr (f', _) \<Rightarrow> Inr f')"

end
