(* ===== verification/Native_Merge.thy ===== *)
theory Native_Merge
  imports State_Machine
begin

text \<open>
  When a native review may be observed or reentered (\<^verbatim>\<open>src/oracle/native-reviewer.ts\<close>) and the
  merge attempt a run carries (\<^verbatim>\<open>src/workflow/merge.ts\<close>): its policy, its coherence with the
  run, how it may change from one write to the next, and the guard of every settlement.
\<close>

section \<open>Scheduling of reviews\<close>

definition gate_phase :: "run \<Rightarrow> workflow_state option" where
  "gate_phase r = (if run_state r = WAITING_DEPENDENCY then run_interruptedFrom r else Some (run_state r))"

definition at_gate :: "run \<Rightarrow> bool" where
  "at_gate r \<longleftrightarrow> gate_phase r = Some FINAL_GATE \<or> gate_phase r = Some MERGE_READY"

definition merge_submitted :: "run \<Rightarrow> bool" where
  "merge_submitted r = present_and ma_submissionPossible (run_mergeAttempt r)"

definition historical_review_uncertainty :: "oracle_host \<Rightarrow> run \<Rightarrow> bool" where
  "historical_review_uncertainty host r \<longleftrightarrow>
     at_gate r \<and> \<not> merge_submitted r \<and> \<not> native_lead_stopped r
     \<and> present_and (\<lambda>l. \<exists>q \<in> set (nr_requests l).
          Some (ri_requestId (rr_identity q)) \<noteq> nr_activeRequestId l
          \<and> rr_submissionPossible q \<and> \<not> review_authenticated host q) (run_nativeReview r)"

definition review_wait_of :: "run \<Rightarrow> review_wait option" where
  "review_wait_of r = Option.bind (run_nativeReview r) nr_wait"

definition settled_historical_review_gate :: "oracle_host \<Rightarrow> run \<Rightarrow> bool" where
  "settled_historical_review_gate host r \<longleftrightarrow>
     at_gate r
     \<and> present_and (\<lambda>w. rw_kind w = W_request \<or> rw_kind w = W_qualification) (review_wait_of r)
     \<and> verdict_eligible (active_native_review r) \<and> \<not> unresolved_native_review host r
     \<and> \<not> native_lead_stopped r"

definition native_review_observation_due ::
  "oracle_host \<Rightarrow> run \<Rightarrow> string \<Rightarrow> (string \<times> string) option \<Rightarrow> bool" where
  "native_review_observation_due host r now binding \<longleftrightarrow>
     \<not> present_and (\<lambda>w. rw_kind w = W_qualification) (review_wait_of r) \<and> \<not> native_lead_stopped r
     \<and> \<not> present_and (\<lambda>w. date_gt host (rw_nextAttemptAt w) now) (review_wait_of r)
     \<and> present_and (\<lambda>l. \<exists>q \<in> set (nr_requests l).
          rr_submissionPossible q \<and> \<not> review_authenticated host q
          \<and> absent_or (\<lambda>b. ri_bindingId (rr_identity q) = fst b
               \<and> ri_requestedModel (rr_identity q) = snd b) binding
          \<and> \<not> semantic_native_failure (rr_failure q)
          \<and> (rr_status q \<noteq> Incomplete \<or> rr_failure q = Some Transport_failure)
          \<and> rr_observations q < NATIVE_REVIEW_OBSERVATIONS
          \<and> date_le host (rr_nextObservationAt q) now) (run_nativeReview r)"

definition reentrant_request :: "review_request \<Rightarrow> bool" where
  "reentrant_request q \<longleftrightarrow>
     (rr_status q = Pending \<or> rr_status q = Terminal_unknown)
       \<and> rr_observations q < NATIVE_REVIEW_OBSERVATIONS
     \<or> verdict_eligible (Some q)
     \<or> rr_status q = Incomplete \<and> rr_failure q = Some Transport_failure"

definition native_review_reentry :: "oracle_host \<Rightarrow> run \<Rightarrow> string \<Rightarrow> bool" where
  "native_review_reentry host r now =
     (if run_state r = WAITING_DEPENDENCY \<and> present_and (\<lambda>w. rw_kind w = W_binding) (review_wait_of r)
      then present_and (\<lambda>w. date_le host (rw_nextAttemptAt w) now) (review_wait_of r)
      else if present_and (\<lambda>w. date_gt host (rw_nextAttemptAt w) now) (review_wait_of r) then False
      else if present_and (\<lambda>w. rw_kind w = W_qualification) (review_wait_of r) then False
      else if run_state r = WAITING_DEPENDENCY \<and> settled_historical_review_gate host r then True
      else run_state r = WAITING_DEPENDENCY \<and> run_interruptedFrom r = Some REVIEWING
           \<and> present_and (\<lambda>q. reentrant_request q \<and> date_le host (rr_nextObservationAt q) now)
               (active_native_review r))"

section \<open>The merge policy and the attempt\<close>

definition MERGE_OBSERVATIONS :: int where "MERGE_OBSERVATIONS = 3"
definition MERGE_BACKOFF_MS :: int where "MERGE_BACKOFF_MS = 30000"

definition repository_name :: "string \<Rightarrow> bool" where
  "repository_name s \<longleftrightarrow> s \<noteq> [] \<and> all_in (ALPHANUM @ ''_.-'') s"

definition valid_merge_policy :: "merge_policy \<Rightarrow> bool" where
  "valid_merge_policy p \<longleftrightarrow>
     mp_enabled p \<and> mp_method p = ''squash'' \<and> mp_integrationPolicy p = ''bootstrap-base-tree-v1''
     \<and> list_all (\<lambda>s. \<not> blank s)
         [mp_revision p, mp_releaseId p, mp_campaign p, mp_dispatchRevision p, mp_owner p, mp_repo p,
          mp_baseBranch p, mp_reviewPolicyRevision p, mp_localValidationRevision p,
          mp_hostedValidationRevision p]
     \<and> repository_name (mp_owner p) \<and> repository_name (mp_repo p)
     \<and> positive (mp_controlIssue p) \<and> positive (mp_queueCommentId p)"

definition merge_date :: "oracle_host \<Rightarrow> string \<Rightarrow> bool" where
  "merge_date host s \<longleftrightarrow> \<not> blank s \<and> oh_date host s \<noteq> None"

definition source_branch :: "bootstrap_identity \<Rightarrow> string" where
  "source_branch b = (case b_publicationBranch b of None \<Rightarrow> b_branch b | Some s \<Rightarrow> s)"

definition same_repository :: "string \<Rightarrow> string \<Rightarrow> string \<Rightarrow> string \<Rightarrow> bool" where
  "same_repository owner repo owner' repo' \<longleftrightarrow>
     lower (owner @ ''/'' @ repo) = lower (owner' @ ''/'' @ repo')"

definition merge_identity_coherent :: "oracle_host \<Rightarrow> run \<Rightarrow> merge_identity \<Rightarrow> bool" where
  "merge_identity_coherent host r i \<longleftrightarrow>
     valid_merge_policy (mi_policy i)
     \<and> list_all (\<lambda>s. \<not> blank s) [mi_attemptId i, mi_runId i, mi_claimId i, mi_missionId i, mi_laneId i,
          mi_sourceBranch i, mi_reviewDigest i, mi_validationDigest i]
     \<and> mi_runId i = run_id r \<and> Some (mi_claimId i) = run_dispatchClaimId r
     \<and> mi_laneId i = ''run:'' @ run_id r \<and> positive (mi_generation i)
     \<and> Some (mi_pullRequestNumber i) = map_option pr_number (run_pullRequest r)
     \<and> Some (mi_headSha i) = run_headSha r
     \<and> Some (mi_headSha i) = map_option pr_headSha (run_pullRequest r)
     \<and> present_and (\<lambda>b. b_baseSha b = mi_baseSha i \<and> b_baseBranch b = mp_baseBranch (mi_policy i)
          \<and> source_branch b = mi_sourceBranch i) (run_bootstrap r)
     \<and> same_repository (t_owner (run_target r)) (t_repo (run_target r))
          (mp_owner (mi_policy i)) (mp_repo (mi_policy i))
     \<and> list_all is_digest [mi_reviewDigest i, mi_validationDigest i]
     \<and> list_all is_sha [mi_headSha i, mi_baseSha i, mi_treeSha i]
     \<and> merge_date host (mi_preparedAt i)"

definition issuance_coherent :: "merge_attempt \<Rightarrow> bool" where
  "issuance_coherent a \<longleftrightarrow>
     (if ma_submissionPossible a
      then present_and (\<lambda>g. is_safe_integer g \<and> mi_generation (ma_identity a) \<le> g) (ma_issuanceGeneration a)
      else ma_issuanceGeneration a = None)"

definition qualification_coherent :: "oracle_host \<Rightarrow> merge_attempt \<Rightarrow> merge_qualification \<Rightarrow> bool" where
  "qualification_coherent host a q \<longleftrightarrow>
     present_and (\<lambda>m. mq_mergeCommitSha q = fst m) (ma_observedMerged a)
     \<and> mq_parentSha q = mi_baseSha (ma_identity a) \<and> mq_treeSha q = mi_treeSha (ma_identity a)
     \<and> is_sha (mq_mainSha q) \<and> merge_date host (mq_observedAt q)"

definition native_merge_coherent :: "oracle_host \<Rightarrow> run \<Rightarrow> bool" where
  "native_merge_coherent host r =
     absent_or (\<lambda>a.
       merge_identity_coherent host r (ma_identity a) \<and> issuance_coherent a
       \<and> is_safe_integer (ma_observations a) \<and> 0 \<le> ma_observations a
       \<and> ma_observations a \<le> MERGE_OBSERVATIONS \<and> merge_date host (ma_nextObservationAt a)
       \<and> absent_or (\<lambda>s. \<not> blank s) (ma_reason a)
       \<and> absent_or (\<lambda>m. ma_submissionPossible a \<and> is_sha (fst m) \<and> merge_date host (snd m))
           (ma_observedMerged a)
       \<and> absent_or (qualification_coherent host a) (ma_qualification a)) (run_mergeAttempt r)"

section \<open>Settlement and progress\<close>

definition unresolved_native_merge :: "run \<Rightarrow> bool" where
  "unresolved_native_merge r =
     present_and (\<lambda>a. ma_submissionPossible a \<and> ma_qualification a = None) (run_mergeAttempt r)"

definition native_merge_reentry :: "oracle_host \<Rightarrow> run \<Rightarrow> string \<Rightarrow> bool" where
  "native_merge_reentry host r now =
     present_and (\<lambda>a. ma_submissionPossible a \<and> ma_qualification a = None
       \<and> ma_observations a < MERGE_OBSERVATIONS \<and> date_le host (ma_nextObservationAt a) now)
       (run_mergeAttempt r)"

definition carries_native :: "run \<Rightarrow> bool" where
  "carries_native r \<longleftrightarrow>
     run_nativeReview r \<noteq> None \<or> run_nativeLead r \<noteq> None \<or> run_mergeAttempt r \<noteq> None"

text \<open>\<open>assertNativeMergeSettlement\<close> as the condition under which it does not throw.\<close>

definition native_merge_settled :: "oracle_host \<Rightarrow> run \<Rightarrow> bool" where
  "native_merge_settled host r \<longleftrightarrow>
     native_review_coherent host False r
     \<and> \<not> unresolved_native_review host r \<and> \<not> unresolved_native_lead host r \<and> \<not> native_lead_stopped r
     \<and> (carries_native r \<longrightarrow>
          native_merge_coherent host r
          \<and> present_and (\<lambda>a. ma_qualification a \<noteq> None
               \<and> Some (mi_reviewDigest (ma_identity a))
                   = map_option ra_digest (Option.bind (run_nativeReview r) nr_accepted)
               \<and> mi_validationDigest (ma_identity a) = oh_validation_digest host (run_validationResult r))
             (run_mergeAttempt r))"

definition merge_attempt_progresses :: "oracle_host \<Rightarrow> merge_attempt \<Rightarrow> merge_attempt \<Rightarrow> bool" where
  "merge_attempt_progresses host a b \<longleftrightarrow>
     ma_identity a = ma_identity b
     \<and> (ma_submissionPossible a \<longrightarrow> ma_submissionPossible b)
     \<and> ma_observations a \<le> ma_observations b
     \<and> date_le host (ma_nextObservationAt a) (ma_nextObservationAt b)
     \<and> kept (ma_issuanceGeneration a) (ma_issuanceGeneration b)
     \<and> kept (ma_observedMerged a) (ma_observedMerged b)
     \<and> kept (ma_qualification a) (ma_qualification b)"

definition native_merge_progresses :: "oracle_host \<Rightarrow> run \<Rightarrow> run \<Rightarrow> bool" where
  "native_merge_progresses host previous next \<longleftrightarrow>
     (run_state next = MERGED \<and> run_state previous \<noteq> MERGED \<and> carries_native next
        \<longrightarrow> native_merge_settled host next)
     \<and> absent_or (\<lambda>a. present_and (merge_attempt_progresses host a) (run_mergeAttempt next))
          (run_mergeAttempt previous)"

definition issued_merge_recovery_configuration ::
  "oracle_host \<Rightarrow> run \<Rightarrow> dispatch_configuration option" where
  "issued_merge_recovery_configuration host r =
     (case run_mergeAttempt r of
        None \<Rightarrow> None
      | Some a \<Rightarrow>
          (if \<not> ma_submissionPossible a \<or> \<not> native_merge_coherent host r then None
           else let p = mi_policy (ma_identity a) in
             Some \<lparr>dc_owner = mp_owner p, dc_repo = mp_repo p, dc_controlIssue = mp_controlIssue p,
                   dc_queueCommentId = mp_queueCommentId p, dc_revision = mp_dispatchRevision p,
                   dc_leaseDurationMs = 60000, dc_merge = None\<rparr>))"

section \<open>What a settled merge is\<close>

text \<open>
  A merge attempt once submitted stays submitted, with the identity and the evidence it was
  submitted with.
\<close>

lemma progress_keeps_submission:
  "native_merge_progresses host r s \<Longrightarrow> merge_submitted r \<Longrightarrow>
   merge_submitted s \<and> map_option ma_identity (run_mergeAttempt s) = map_option ma_identity (run_mergeAttempt r)"
  by (auto simp: native_merge_progresses_def merge_submitted_def present_and_iff
      merge_attempt_progresses_def absent_or_def split: option.splits)

end
