(* ===== verification/Workflow_Decisions.thy ===== *)
theory Workflow_Decisions
  imports Review_Admission Mission_Registry Native_Merge
begin

text \<open>
  The pure decisions of the workflow runner \<^verbatim>\<open>src/workflow/run.ts\<close> and the hosted-check policy of
  \<^verbatim>\<open>src/validation/hosted-policy.ts\<close>: what a live check list means, how local and hosted evidence
  combine, when a policy is the same authority, what keeps a pull request from being ready, and the
  marker only the final gate writes. Reasons are constructors; their text is \<open>wh_text\<close>.
\<close>

section \<open>The hosted-check policy\<close>

datatype hosted_check_policy = Checks_not_required | Checks_required "string list option"

record hosted_policy_config =
  hp_revision :: string
  hp_policy :: hosted_check_policy

definition required_names :: "hosted_check_policy \<Rightarrow> string list" where
  "required_names p = (case p of Checks_required (Some names) \<Rightarrow> names | _ \<Rightarrow> [])"

definition evaluate_hosted_check_policy ::
  "overall_checks option \<Rightarrow> string list option \<Rightarrow> hosted_check_policy option \<Rightarrow> hosted_status" where
  "evaluate_hosted_check_policy overall observed policy =
     (let names = (case observed of None \<Rightarrow> [] | Some ns \<Rightarrow> ns) in
      case policy of
        None \<Rightarrow> H_unknown
      | Some Checks_not_required \<Rightarrow> H_not_required
      | Some p \<Rightarrow>
          if \<exists>n \<in> set (required_names p). n \<notin> set names then H_unknown
          else if overall = Some O_failing then H_failed
          else if overall = Some O_pending then H_waiting
          else if overall \<noteq> Some O_passing \<or> names = [] then H_unknown
          else H_passed)"

definition policy_mode_of :: "hosted_check_policy \<Rightarrow> policy_mode" where
  "policy_mode_of p = (case p of Checks_not_required \<Rightarrow> M_not_required | Checks_required _ \<Rightarrow> M_required)"

section \<open>Validation evidence\<close>

definition hosted_validation :: "live_snapshot \<Rightarrow> hosted_policy_config option \<Rightarrow> hosted_evidence" where
  "hosted_validation s configured =
     (let observed = map ck_name (cs_checks (lv_checks s)); overall = cs_overall (lv_checks s);
          policy = map_option hp_policy configured in
      \<lparr>h_status =
         (if policy = Some Checks_not_required then evaluate_hosted_check_policy (Some overall) (Some observed) policy
          else if cs_availability (lv_checks s) \<noteq> Available then H_unknown
          else evaluate_hosted_check_policy (Some overall) (Some observed) policy),
       h_observedAt = lv_observedAt s,
       h_pullRequestNumber = map_option lp_number (lv_pullRequest s),
       h_availability = cs_availability (lv_checks s),
       h_overall = overall,
       h_policyRevision = map_option hp_revision configured,
       h_policyMode = (case policy of None \<Rightarrow> M_unconfigured | Some p \<Rightarrow> policy_mode_of p),
       h_requiredCheckNames = (case policy of None \<Rightarrow> [] | Some p \<Rightarrow> required_names p),
       h_observedCheckNames = observed\<rparr>)"

definition unavailable_local_validation :: local_evidence where
  "unavailable_local_validation = \<lparr>l_status = L_unknown, l_configRevision = None, l_commands = []\<rparr>"

definition combine_validation :: "string \<Rightarrow> local_evidence \<Rightarrow> hosted_evidence \<Rightarrow> validation_result" where
  "combine_validation head local hosted =
     \<lparr>v_headSha = head,
      v_status =
        (if l_status local = L_failed \<or> h_status hosted = H_failed then Failed
         else if l_status local = L_unknown \<or> h_status hosted = H_unknown then Unknown
         else if h_status hosted = H_waiting then Waiting else Passed),
      v_local = local, v_hosted = hosted\<rparr>"

section \<open>The configured authority\<close>

text \<open>The validation adapter's revision, when there is an adapter, and the hosted policy.\<close>

record validation_policy =
  vp_local :: "string option"
  vp_hosted :: "hosted_policy_config option"

definition active_validation_configuration :: "validation_policy \<Rightarrow> active_validation" where
  "active_validation_configuration p =
     \<lparr>av_local = active_local_policy_identity (vp_local p) (vp_local p \<noteq> None),
      av_hosted = active_hosted_policy_identity (map_option hp_revision (vp_hosted p))
        (map_option (\<lambda>c. policy_mode_of (hp_policy c)) (vp_hosted p))\<rparr>"

datatype invalid_authority = Local_authority_invalid | Hosted_authority_invalid

definition invalid_validation_authority :: "active_validation \<Rightarrow> invalid_authority option" where
  "invalid_validation_authority a = first_error
     [fail_if (av_local a = Local_invalid) Local_authority_invalid,
      fail_if (av_hosted a = Hosted_invalid) Hosted_authority_invalid]"

fun same_local_kind :: "local_policy_identity \<Rightarrow> local_policy_identity \<Rightarrow> bool" where
  "same_local_kind Local_absent Local_absent = True"
| "same_local_kind (Local_configured a) (Local_configured b) = (a = b)"
| "same_local_kind Local_invalid Local_invalid = True"
| "same_local_kind _ _ = False"

fun same_hosted_kind :: "hosted_policy_identity \<Rightarrow> hosted_policy_identity \<Rightarrow> bool" where
  "same_hosted_kind Hosted_absent Hosted_absent = True"
| "same_hosted_kind (Hosted_configured m a) (Hosted_configured n b) = (a = b \<and> m = n)"
| "same_hosted_kind Hosted_invalid Hosted_invalid = True"
| "same_hosted_kind _ _ = False"

definition same_validation_authority :: "active_validation \<Rightarrow> active_validation \<Rightarrow> bool" where
  "same_validation_authority a b \<longleftrightarrow>
     same_local_kind (av_local a) (av_local b) \<and> same_hosted_kind (av_hosted a) (av_hosted b)"

text \<open>The local evidence \<open>validateExactHead\<close> does not observe again.\<close>

definition reusable_local :: "run \<Rightarrow> validation_policy \<Rightarrow> local_evidence option" where
  "reusable_local r p =
     (case run_validationResult r of
        Some v \<Rightarrow>
          if Some (v_headSha v) = run_headSha r \<and> l_status (v_local v) = L_passed
             \<and> present_and (\<lambda>c. \<not> blank c \<and> l_configRevision (v_local v) = Some c) (vp_local p)
          then Some (v_local v)
          else if vp_local p = None then Some unavailable_local_validation else None
      | None \<Rightarrow> if vp_local p = None then Some unavailable_local_validation else None)"

section \<open>Readiness\<close>

datatype readiness_problem =
    Issue_not_open | Pull_not_open | Pull_is_draft | Pull_not_mergeable | Merge_state "string option"
  | Hosted_failing | Hosted_unavailable | Threads_unavailable | Threads_unresolved int
  | Change_request_unplaced string | Change_request_current string | Contradiction github_problem

definition upper_char :: "char \<Rightarrow> char" where
  "upper_char c = (let n = of_char c :: nat in if 97 \<le> n \<and> n \<le> 122 then char_of (n - 32) else c)"

text \<open>\<open>toUpperCase\<close> on the letters GitHub's merge states are made of.\<close>

definition upper :: "string \<Rightarrow> string" where
  "upper s = map upper_char s"

definition merge_state_of :: "live_snapshot \<Rightarrow> string option" where
  "merge_state_of s = map_option upper (Option.bind (lv_pullRequest s) lp_mergeStateStatus)"

definition blocking_change_request :: "live_snapshot \<Rightarrow> review_snapshot option" where
  "blocking_change_request s =
     find (\<lambda>v. rs_state v = Review_changes_requested \<and> (rs_fresh v \<or> rs_commitSha v = None))
       (rv_latestByAuthor (lv_reviews s))"

definition optional_problem :: "bool \<Rightarrow> readiness_problem \<Rightarrow> readiness_problem list" where
  "optional_problem c p = (if c then [p] else [])"

definition thread_problems :: "int option \<Rightarrow> readiness_problem list" where
  "thread_problems n =
     (case n of None \<Rightarrow> [Threads_unavailable] | Some k \<Rightarrow> optional_problem (0 < k) (Threads_unresolved k))"

definition change_request_problems :: "review_snapshot option \<Rightarrow> readiness_problem list" where
  "change_request_problems v =
     (case v of None \<Rightarrow> []
      | Some x \<Rightarrow> [if rs_commitSha x = None then Change_request_unplaced (rs_id x) else Change_request_current (rs_id x)])"

definition readiness_problems :: "live_snapshot \<Rightarrow> hosted_evidence \<Rightarrow> readiness_problem list" where
  "readiness_problems s hosted =
     optional_problem (lv_issueState s \<noteq> Issue_open) Issue_not_open
     @ optional_problem (\<not> present_and (\<lambda>p. lp_state p = Pull_open) (lv_pullRequest s)) Pull_not_open
     @ optional_problem (present_and lp_isDraft (lv_pullRequest s)) Pull_is_draft
     @ optional_problem (\<not> present_and (\<lambda>p. lp_mergeable p = Some True) (lv_pullRequest s)) Pull_not_mergeable
     @ optional_problem (merge_state_of s \<notin> {Some ''CLEAN'', Some ''HAS_HOOKS''}) (Merge_state (merge_state_of s))
     @ optional_problem (h_status hosted = H_failed) Hosted_failing
     @ optional_problem (h_status hosted = H_unknown) Hosted_unavailable
     @ thread_problems (rv_unresolvedThreads (lv_reviews s))
     @ change_request_problems (blocking_change_request s)
     @ (case find (\<lambda>p. gp_code p = Contradictory_state) (lv_problems s) of None \<Rightarrow> [] | Some p \<Rightarrow> [Contradiction p])"

text \<open>\<open>completeLiveFinalGate\<close>: the only writer of \<open>MERGE_READY\<close>.\<close>

definition final_gate_entry :: "string \<Rightarrow> transition_record" where
  "final_gate_entry now =
     \<lparr>tr_nativeLeadStop = None, tr_type = Final_gate_verified, tr_from = FINAL_GATE, tr_to = MERGE_READY,
      tr_at = now, tr_reason = None, tr_repairHandoff = None, tr_repairAdmissionIndex = None\<rparr>"

definition review_approves :: "run \<Rightarrow> bool" where
  "review_approves r =
     present_and (\<lambda>v. r_verdict v = Approve \<and> (\<forall>f \<in> set (r_findings v). f_severity f \<noteq> Blocking)) (run_reviewResult r)"

definition complete_live_final_gate :: "run \<Rightarrow> string \<Rightarrow> active_validation \<Rightarrow> run option" where
  "complete_live_final_gate r now a =
     (if run_state r = FINAL_GATE \<and> is_review_fresh r \<and> is_validation_fresh r a \<and> review_approves r
      then Some (r\<lparr>run_state := MERGE_READY, run_updatedAt := now,
                   run_history := run_history r @ [final_gate_entry now]\<rparr>)
      else None)"

definition has_unreestablished_legacy_gate :: "run \<Rightarrow> bool" where
  "has_unreestablished_legacy_gate r \<longleftrightarrow>
     (let legacy = find_last_index (\<lambda>_ t. tr_type t = Gate_passed) (run_history r);
          live = find_last_index (\<lambda>_ t. tr_type t = Final_gate_verified) (run_history r) in
      case (legacy, live) of
        (None, _) \<Rightarrow> False
      | (Some _, None) \<Rightarrow> True
      | (Some i, Some j) \<Rightarrow> j < i)"

section \<open>Workspaces and lanes\<close>

text \<open>The persisted workspace boundary, not the first provider, selects the bootstrap.\<close>

definition bootstrap_execution :: "run \<Rightarrow> resolved_execution option" where
  "bootstrap_execution r =
     (if \<not> present_and (\<lambda>b. b_bootstrapKind b = Standalone_isolated) (run_bootstrap r)
         \<or> present_and (\<lambda>x. ex_executor x = ''luna-isolated'') (run_execution r)
      then run_execution r
      else map_option ad_execution (find (\<lambda>a. ex_executor (ad_execution a) = ''luna-isolated''
          \<and> present_and (\<lambda>p. ad_pullRequestNumber a = pr_number p) (run_pullRequest r))
        (List.rev (case run_repairAdmissions r of None \<Rightarrow> [] | Some as \<Rightarrow> as))))"

definition target_repository :: "target \<Rightarrow> string" where
  "target_repository t = (case t of Issue owner repo _ \<Rightarrow> owner @ ''/'' @ repo
     | Repository owner repo _ _ \<Rightarrow> owner @ ''/'' @ repo)"

definition run_evidence :: "run \<Rightarrow> int option \<Rightarrow> string option \<Rightarrow> mission_evidence" where
  "run_evidence r number workspace =
     (let base = \<lparr>ev_repository = target_repository (run_target r), ev_issue = None,
          ev_pullRequest = or_else number (map_option pr_number (run_pullRequest r)), ev_run = Some (run_id r),
          ev_claim = run_dispatchClaimId r,
          ev_workspace = or_else workspace (map_option b_workspacePath (run_bootstrap r)),
          ev_stateSurface = None, ev_repositoryScope = False\<rparr> in
      case run_target r of
        Issue _ _ n \<Rightarrow> base\<lparr>ev_issue := Some n\<rparr>
      | Repository _ _ branch _ \<Rightarrow> base\<lparr>ev_claim := Some (''branch:'' @ branch)\<rparr>)"

end
