(* ===== verification/Workflow_Effects.thy ===== *)
theory Workflow_Effects
  imports Effects Workflow_Decisions
begin

text \<open>
  The calls of the workflow runner (\<^verbatim>\<open>src/workflow/run.ts\<close>) as an effect program. Every call is
  recorded with its answer, a thrown one included, and what a call answers is a function of the
  trace. A pass leaves by a thrown value or an outcome, both faults of the program; only thrown
  values are caught. The mission registry is reached by its operations, the admission fence is
  present when \<open>we_fenced\<close>.
\<close>

section \<open>Calls and answers\<close>

datatype lane_check = Lane_may_mutate | Lane_may_publish | Lane_is_owner

record local_request =
  lr_target :: target
  lr_headSha :: string
  lr_workspace :: "string option"

datatype workflow_effect =
    Run_read string "thrown + run option"
  | Run_swapped run run "thrown + bool"
  | Live_read target "thrown + live_snapshot"
  | Policy_read validation_policy
  | Lane_strengthened mission_evidence "thrown + unit"
  | Lane_checked lane_check "thrown + unit"
  | Initiation_checked run "thrown + unit"
  | Claim_checked run "thrown + unit"
  | Execution_noted "thrown + unit"
  | Bootstrap_selected "resolved_execution option" "thrown + bootstrap_kind option"
  | Workspace_readied bootstrap_identity string "thrown + bootstrap_identity"
  | Workspace_guarded bootstrap_identity "thrown + unit"
  | Durability_verified bootstrap_identity string "thrown + unit"
  | Validation_called local_request
  | Validation_answered "thrown + local_evidence"
  | Fence_called_back "thrown option"
  | Review_authenticated run live_snapshot "thrown + bool"

datatype workflow_outcome =
    Merge_ready_at run
  | Merged_at run
  | Waits_on run string
  | Asks_human run string
  | Fails_at run string

datatype workflow_exit = Thrown_out thrown | Stopped workflow_outcome

type_synonym workflow_trace = "workflow_effect list"

type_synonym 'a working = "(workflow_effect, workflow_exit, 'a) program"

text \<open>The reasons, by the part that gives them.\<close>

datatype fence_reason =
    Planned_workspace_conflicts | Handoff_not_confirmed | Handoff_superseded | Admission_not_confirmed
  | Swap_unavailable | Workspace_bootstrap_required | Boundary_differs bootstrap_kind bootstrap_kind
  | Workspace_entry_refused string | Validation_entry_refused string | Post_validation_refused string

datatype validation_reason =
    No_associated_pull target | Implementation_head_differs string "string option" | No_exact_head
  | Validation_unobserved string | Authority_changed_during | Authority_changed_after invalid_authority
  | Authority_changed_reread | Authority_invalid_reread invalid_authority
  | Head_moved_during "string option" "string option" | Pull_moved_during | Local_incoherent
  | Evidence_not_active "string option" | Hosted_pending "string option" | Evidence_missing "string option"

datatype gate_reason =
    Gate_needs_validation "string option" | Gate_head_differs "string option" "string option"
  | Native_evidence_required | Gate_policy_changed | Gate_hosted_differs | Gate_waits "string option"
  | Not_ready "readiness_problem list" | Gate_refused | Recheck_native | Legacy_gate

datatype turn_reason =
    Authority_refused invalid_authority string | Live_identity identity_reason | Native_unbound
  | Historical_settled | Lead_recovered | Native_observed

datatype workflow_reason =
    Fenced fence_reason | Validating validation_reason | Gating gate_reason | Turning turn_reason

record workflow_host =
  wh_review :: review_host
  wh_mission :: mission_host
  wh_text :: "workflow_reason \<Rightarrow> string"
  wh_refused :: "mission_error \<Rightarrow> thrown"

record workflow_environment =
  we_host :: workflow_host
  we_now :: "nat \<Rightarrow> workflow_trace \<Rightarrow> string"
  we_swaps :: bool
  we_fenced :: bool
  we_workspace :: "string option"
  we_normal :: bool
  we_claims :: bool
  we_native :: bool
  we_notes :: bool
  we_merges :: bool
  we_ownedValidation :: bool
  we_read :: "string \<Rightarrow> workflow_trace \<Rightarrow> thrown + run option"
  we_swap :: "run \<Rightarrow> run \<Rightarrow> workflow_trace \<Rightarrow> thrown + bool"
  we_live :: "target \<Rightarrow> workflow_trace \<Rightarrow> thrown + live_snapshot"
  we_policy :: "workflow_trace \<Rightarrow> validation_policy"
  we_strengthen :: "mission_evidence \<Rightarrow> workflow_trace \<Rightarrow> thrown + unit"
  we_lane :: "lane_check \<Rightarrow> workflow_trace \<Rightarrow> thrown + unit"
  we_initiation :: "run \<Rightarrow> workflow_trace \<Rightarrow> thrown + unit"
  we_claim :: "run \<Rightarrow> workflow_trace \<Rightarrow> thrown + unit"
  we_note :: "workflow_trace \<Rightarrow> thrown + unit"
  we_available :: "workflow_trace \<Rightarrow> bool"
  we_bootstrap :: "resolved_execution option \<Rightarrow> workflow_trace \<Rightarrow> thrown + bootstrap_kind option"
  we_ready :: "bootstrap_identity \<Rightarrow> string \<Rightarrow> workflow_trace \<Rightarrow> thrown + bootstrap_identity"
  we_guard :: "bootstrap_identity \<Rightarrow> workflow_trace \<Rightarrow> thrown + unit"
  we_verify :: "bootstrap_identity \<Rightarrow> string \<Rightarrow> workflow_trace \<Rightarrow> thrown + unit"
  we_validate :: "local_request \<Rightarrow> workflow_trace \<Rightarrow> thrown + local_evidence"
  we_callbacks :: "workflow_trace \<Rightarrow> nat"
  we_authenticate :: "run \<Rightarrow> live_snapshot \<Rightarrow> workflow_trace \<Rightarrow> thrown + bool"

section \<open>Throwing, catching and stopping\<close>

definition throw_out :: "thrown \<Rightarrow> 'a working" where
  "throw_out x = refuse (Thrown_out x)"

definition stop_with :: "workflow_outcome \<Rightarrow> 'a working" where
  "stop_with w = refuse (Stopped w)"

definition given_answer :: "thrown + 'a \<Rightarrow> 'a working" where
  "given_answer r = (case r of Inl x \<Rightarrow> throw_out x | Inr y \<Rightarrow> give y)"

definition request :: "(thrown + 'a \<Rightarrow> workflow_effect) \<Rightarrow> (workflow_trace \<Rightarrow> thrown + 'a) \<Rightarrow> 'a working" where
  "request event answer = before (look answer) (\<lambda>r. before (note_event (event r)) (\<lambda>_. given_answer r))"

definition catching :: "'a working \<Rightarrow> (thrown \<Rightarrow> 'a working) \<Rightarrow> 'a working" where
  "catching m h = recovered m (\<lambda>f. case f of Thrown_out x \<Rightarrow> h x | Stopped w \<Rightarrow> stop_with w)"

definition reason_text :: "workflow_environment \<Rightarrow> workflow_reason \<Rightarrow> string" where
  "reason_text e = wh_text (we_host e)"

definition plain_value :: "workflow_environment \<Rightarrow> workflow_reason \<Rightarrow> thrown" where
  "plain_value e r =
     \<lparr>th_kind = Plain_error, th_message = reason_text e r, th_code = None, th_retryable = False\<rparr>"

definition plain_throw :: "workflow_environment \<Rightarrow> workflow_reason \<Rightarrow> 'a working" where
  "plain_throw e r = throw_out (plain_value e r)"

definition refuse_admission :: "workflow_environment \<Rightarrow> workflow_reason \<Rightarrow> bool \<Rightarrow> bool \<Rightarrow> 'a working" where
  "refuse_admission e r superseded unknown = throw_out
     \<lparr>th_kind = Admission_refusal superseded unknown, th_message = reason_text e r,
      th_code = Some ''EXECUTION_ADMISSION_REFUSED'', th_retryable = False\<rparr>"

section \<open>Calls\<close>

definition time_now :: "workflow_environment \<Rightarrow> string working" where
  "time_now e = look (we_now e 0)"

definition read_again :: "workflow_environment \<Rightarrow> string \<Rightarrow> run option working" where
  "read_again e i = request (Run_read i) (we_read e i)"

text \<open>\<open>updateIfCurrent\<close>: without compare-and-swap nothing is written.\<close>

definition update_if_current :: "workflow_environment \<Rightarrow> run \<Rightarrow> run \<Rightarrow> bool working" where
  "update_if_current e expected new =
     (if we_swaps e then request (Run_swapped expected new) (we_swap e expected new) else give False)"

definition live_state :: "workflow_environment \<Rightarrow> target \<Rightarrow> live_snapshot working" where
  "live_state e t = request (Live_read t) (we_live e t)"

definition current_policy :: "workflow_environment \<Rightarrow> validation_policy working" where
  "current_policy e = before (look (we_policy e)) (\<lambda>p. before (note_event (Policy_read p)) (\<lambda>_. give p))"

definition lane :: "workflow_environment \<Rightarrow> lane_check \<Rightarrow> unit working" where
  "lane e c = (if we_fenced e then request (Lane_checked c) (we_lane e c) else give ())"

definition normal_initiation :: "workflow_environment \<Rightarrow> run \<Rightarrow> unit working" where
  "normal_initiation e r = (if we_normal e then request (Initiation_checked r) (we_initiation e r) else give ())"

definition note_execution :: "workflow_environment \<Rightarrow> unit working" where
  "note_execution e = (if we_notes e then request Execution_noted (we_note e) else give ())"

section \<open>The admission fence\<close>

definition canonical_evidence :: "workflow_environment \<Rightarrow> mission_evidence \<Rightarrow> mission_evidence working" where
  "canonical_evidence e v =
     (case canonicalize_mission_evidence (wh_mission (we_host e)) v of
        Inl x \<Rightarrow> throw_out (wh_refused (we_host e) x)
      | Inr c \<Rightarrow> give c)"

definition workspace_only :: "run \<Rightarrow> string \<Rightarrow> mission_evidence" where
  "workspace_only r workspace =
     \<lparr>ev_repository = target_repository (run_target r), ev_issue = None, ev_pullRequest = None, ev_run = None,
      ev_claim = None, ev_workspace = Some workspace, ev_stateSurface = None, ev_repositoryScope = False\<rparr>"

definition strengthen_lane :: "workflow_environment \<Rightarrow> run \<Rightarrow> int option \<Rightarrow> string option \<Rightarrow> unit working" where
  "strengthen_lane e r number workspace =
     before (canonical_evidence e (run_evidence r number workspace)) (\<lambda>v.
       request (Lane_strengthened v) (we_strengthen e v))"

text \<open>\<open>strengthenAdmissionEvidence\<close>: a host-selected workspace is bound before a planned one.\<close>

definition strengthen_admission :: "workflow_environment \<Rightarrow> run \<Rightarrow> int option \<Rightarrow> string option \<Rightarrow> unit working" where
  "strengthen_admission e r number workspace =
     (if \<not> we_fenced e then give ()
      else before
        (case we_workspace e of
           None \<Rightarrow> give ()
         | Some chosen \<Rightarrow>
             before (canonical_evidence e (workspace_only r chosen)) (\<lambda>explicit.
             before (strengthen_lane e r number (Some chosen)) (\<lambda>_.
               case workspace of
                 None \<Rightarrow> give ()
               | Some w \<Rightarrow>
                   before (canonical_evidence e (workspace_only r w)) (\<lambda>planned.
                     if ev_workspace planned = ev_workspace explicit then give ()
                     else refuse_admission e (Fenced Planned_workspace_conflicts) False False))))
        (\<lambda>_. strengthen_lane e r number workspace))"

definition mutation_lane :: "workflow_environment \<Rightarrow> run \<Rightarrow> string \<Rightarrow> unit working" where
  "mutation_lane e r workspace =
     (if we_fenced e
      then before (strengthen_admission e r None (Some workspace)) (\<lambda>_. lane e Lane_may_mutate)
      else give ())"

text \<open>\<open>assertCapturedRunAtBoundary\<close> and \<open>assertFinalExecutionAdmission\<close>.\<close>

definition captured_run :: "workflow_environment \<Rightarrow> run \<Rightarrow> unit working" where
  "captured_run e r =
     before (if we_swaps e
       then catching (update_if_current e r r) (\<lambda>_. refuse_admission e (Fenced Handoff_not_confirmed) False True)
       else refuse_admission e (Fenced Handoff_not_confirmed) False True)
     (\<lambda>ok. if ok then give () else refuse_admission e (Fenced Handoff_superseded) True False)"

definition final_execution :: "workflow_environment \<Rightarrow> run \<Rightarrow> bool \<Rightarrow> unit working" where
  "final_execution e r publication =
     before (captured_run e r) (\<lambda>_. catching
       (before (lane e Lane_may_mutate) (\<lambda>_.
        before (if publication then lane e Lane_may_publish else give ()) (\<lambda>_. normal_initiation e r)))
       (\<lambda>x. if is_admission_refusal (th_kind x) then throw_out x
            else refuse_admission e (Fenced Admission_not_confirmed) False False))"

text \<open>An adapter may call the fence it was given any number of times and ignore what it throws.\<close>

fun fence_calls :: "unit working \<Rightarrow> nat \<Rightarrow> unit working" where
  "fence_calls m 0 = give ()"
| "fence_calls m (Suc n) =
     before (catching (before m (\<lambda>_. give None)) (\<lambda>x. give (Some x))) (\<lambda>a.
     before (note_event (Fence_called_back a)) (\<lambda>_. fence_calls m n))"

definition calling_back :: "workflow_environment \<Rightarrow> unit working \<Rightarrow> unit working" where
  "calling_back e m = before (look (we_callbacks e)) (fence_calls m)"

section \<open>Stopping with a written run\<close>

text \<open>\<open>staleWorkflowOutcome\<close>: a newer run is observed, never changed.\<close>

definition interrupt_reason :: "run \<Rightarrow> string \<Rightarrow> string" where
  "interrupt_reason r reason =
     (case Option.bind (run_interrupt r) (\<lambda>i. Some (i_reason i)) of None \<Rightarrow> reason | Some t \<Rightarrow> t)"

definition outcome_of :: "run \<Rightarrow> string \<Rightarrow> workflow_outcome" where
  "outcome_of r reason =
     (if run_state r = MERGE_READY then Merge_ready_at r
      else if run_state r = MERGED then Merged_at r
      else if run_state r = WAITING_DEPENDENCY then Waits_on r (interrupt_reason r reason)
      else if run_state r = FAILED \<or> is_terminal (run_state r) then Fails_at r reason
      else Asks_human r reason)"

definition stale_outcome :: "workflow_environment \<Rightarrow> run \<Rightarrow> string \<Rightarrow> 'a working" where
  "stale_outcome e r reason = before (read_again e (run_id r))
     (\<lambda>x. stop_with (outcome_of (case x of None \<Rightarrow> r | Some c \<Rightarrow> c) reason))"

definition committed :: "workflow_environment \<Rightarrow> run \<Rightarrow> run \<Rightarrow> string \<Rightarrow> unit working" where
  "committed e expected new reason =
     before (update_if_current e expected new) (\<lambda>ok. if ok then give () else stale_outcome e expected reason)"

definition moved :: "workflow_environment \<Rightarrow> run \<Rightarrow> transition_input \<Rightarrow> run working" where
  "moved e r i = before (time_now e) (\<lambda>now. given_answer (transition (wh_review (we_host e)) r i now None))"

definition stopping ::
  "workflow_environment \<Rightarrow> run \<Rightarrow> transition_input \<Rightarrow> string \<Rightarrow> (run \<Rightarrow> workflow_outcome) \<Rightarrow> 'a working" where
  "stopping e r i stale result =
     before (moved e r i) (\<lambda>s. before (committed e r s stale) (\<lambda>_. stop_with (result s)))"

definition STALE_ESCALATION :: string where
  "STALE_ESCALATION = ''Run changed while workflow escalation was being recorded; preserving the newer Run.''"

text \<open>\<open>park\<close>, \<open>githubFailureOutcome\<close> and \<open>bootstrapFailureOutcome\<close>.\<close>

definition park_run :: "workflow_environment \<Rightarrow> run \<Rightarrow> string \<Rightarrow> string list \<Rightarrow> 'a working" where
  "park_run e r reason choices =
     stopping e r (escalation reason reason choices) STALE_ESCALATION (\<lambda>s. Asks_human s reason)"

definition IDENTITY_CHOICES :: "string list" where
  "IDENTITY_CHOICES = [''Resolve the identity conflict and retry'', CANCEL_RUN_DECISION]"

definition github_failure :: "workflow_environment \<Rightarrow> run \<Rightarrow> thrown \<Rightarrow> 'a working" where
  "github_failure e r x =
     (let reason = ''GitHub live state could not be read safely: '' @ th_message x in
      stopping e r (escalation reason reason [''Retry after restoring GitHub access'', CANCEL_RUN_DECISION])
        ''Run changed while GitHub failure was being recorded; preserving the newer Run.''
        (\<lambda>s. Asks_human s reason))"

definition guard_executor_of :: "thrown \<Rightarrow> executor_identity option" where
  "guard_executor_of x = (case th_kind x of Guard_failure k \<Rightarrow> k | _ \<Rightarrow> None)"

definition bootstrap_failure :: "workflow_environment \<Rightarrow> run \<Rightarrow> thrown \<Rightarrow> 'a working" where
  "bootstrap_failure e r x =
     stopping e r (bootstrap_failure_input x (guard_executor_of x))
       ''Run changed while bootstrap failure was being reconciled; preserving the newer Run.''
       (\<lambda>s. Asks_human s (bootstrap_reason x))"

text \<open>A refused admission parks exactly the run it was asked for; when that cannot be confirmed, the
  refusal itself is thrown.\<close>

definition is_superseded :: "thrown \<Rightarrow> bool" where
  "is_superseded x = (case th_kind x of Admission_refusal s u \<Rightarrow> s | _ \<Rightarrow> False)"

definition is_unknown :: "thrown \<Rightarrow> bool" where
  "is_unknown x = (case th_kind x of Admission_refusal s u \<Rightarrow> u | _ \<Rightarrow> False)"

definition reconcile_refusal :: "workflow_environment \<Rightarrow> run \<Rightarrow> thrown \<Rightarrow> string \<Rightarrow> string \<Rightarrow> 'a working" where
  "reconcile_refusal e r x stale reason =
     (if is_unknown x then throw_out x
      else catching
        (if \<not> we_swaps e then plain_throw e (Fenced Swap_unavailable)
         else before (update_if_current e r r) (\<lambda>ok.
           if \<not> ok \<or> is_superseded x then stale_outcome e r stale
           else park_run e r reason [CANCEL_RUN_DECISION]))
        (\<lambda>_. throw_out x))"

end
