(* ===== verification/Workflow_Passes.thy ===== *)
theory Workflow_Passes
  imports Workflow_Effects
begin

text \<open>
  The loop of \<open>runWorkflow\<close> in \<^verbatim>\<open>src/workflow/run.ts\<close>, one definition for each state: the pass that
  validates the exact HEAD, the final gate, and the waiting and terminal states. A turn that needs
  the implementation worker, the review loop or the merge hands the run over; the loop goes on
  otherwise.
\<close>

section \<open>Turns\<close>

text \<open>\<open>Goes_on\<close> carries whether a cached readiness is still to be rechecked.\<close>

datatype turn_end =
    Goes_on run bool
  | Implements run
  | Reviews run
  | Submits_merge run live_snapshot

definition AUTHORITY_CHOICES :: "string list" where
  "AUTHORITY_CHOICES = [''Configure a stable validation-policy identity and retry'', CANCEL_RUN_DECISION]"

definition admitted_authority :: "workflow_environment \<Rightarrow> run \<Rightarrow> string \<Rightarrow> active_validation working" where
  "admitted_authority e r what =
     before (current_policy e) (\<lambda>p. let a = active_validation_configuration p in
       case invalid_validation_authority a of
         Some w \<Rightarrow> park_run e r (reason_text e (Turning (Authority_refused w what))) AUTHORITY_CHOICES
       | None \<Rightarrow> give a)"

definition strengthen_pull :: "workflow_environment \<Rightarrow> run \<Rightarrow> live_snapshot \<Rightarrow> unit working" where
  "strengthen_pull e r s =
     (case lv_pullRequest s of None \<Rightarrow> give () | Some p \<Rightarrow> strengthen_admission e r (Some (lp_number p)) None)"

definition without_conflict :: "workflow_environment \<Rightarrow> run \<Rightarrow> live_snapshot \<Rightarrow> bool \<Rightarrow> unit working" where
  "without_conflict e r s advance =
     (case pull_request_identity_conflict r s advance of
        Some c \<Rightarrow> park_run e r (reason_text e (Turning (Live_identity c))) IDENTITY_CHOICES
      | None \<Rightarrow> give ())"

definition pull_tuple :: "live_pull \<Rightarrow> run \<Rightarrow> pull_request_identity" where
  "pull_tuple p r = \<lparr>pr_number = lp_number p, pr_headSha = opt_text (run_headSha r)\<rparr>"

section \<open>Validation of the exact HEAD\<close>

definition STALE_VALIDATION_READ :: string where
  "STALE_VALIDATION_READ =
     ''Run changed during validation live-state reconciliation; preserving the newer Run.''"

definition STALE_OWNED :: string where
  "STALE_OWNED = ''Run changed while owned-workspace validation was being prepared; preserving the newer Run.''"

definition STALE_OUTCOME :: string where
  "STALE_OUTCOME = ''Run changed while validation outcome was being recorded; preserving the newer Run.''"

definition STALE_EVIDENCE :: string where
  "STALE_EVIDENCE = ''Run changed while validation evidence was being recorded; preserving the newer Run.''"

text \<open>The live pull request whose HEAD is the run's.\<close>

definition exact_pull :: "run \<Rightarrow> live_snapshot \<Rightarrow> live_pull option" where
  "exact_pull r s = (if lv_headSha s \<noteq> None \<and> lv_headSha s = run_headSha r then lv_pullRequest s else None)"

definition head_reason :: "run \<Rightarrow> live_snapshot \<Rightarrow> validation_reason" where
  "head_reason r s =
     (case (lv_pullRequest s, lv_headSha s) of
        (Some _, Some h) \<Rightarrow> Implementation_head_differs h (run_headSha r)
      | _ \<Rightarrow> No_associated_pull (run_target r))"

definition head_choices :: "live_snapshot \<Rightarrow> string list" where
  "head_choices s =
     (if lv_headSha s = None then [''Open the implementation pull request and retry'', CANCEL_RUN_DECISION]
      else [LIVE_HEAD_SYNC_DECISION, CANCEL_RUN_DECISION])"

definition validation_snapshot :: "workflow_environment \<Rightarrow> run \<Rightarrow> (live_snapshot \<times> live_pull) working" where
  "validation_snapshot e r =
     before (catching (live_state e (run_target r)) (github_failure e r)) (\<lambda>s.
     before (committed e r r STALE_VALIDATION_READ) (\<lambda>_.
     before (without_conflict e r s True) (\<lambda>_.
     before (strengthen_pull e r s) (\<lambda>_.
       case exact_pull r s of
         Some p \<Rightarrow> give (s, p)
       | None \<Rightarrow>
           (let reason = reason_text e (Validating (head_reason r s)) in
            stopping e r (escalation reason reason (head_choices s))
              ''Run changed during validation admission; preserving the newer Run.'' (\<lambda>n. Asks_human n reason))))))"

text \<open>The owned checkout is prepared and proved again before a local process runs in it.\<close>

definition readied_workspace ::
  "workflow_environment \<Rightarrow> run \<Rightarrow> bootstrap_kind \<Rightarrow> bootstrap_identity \<Rightarrow> string \<Rightarrow> unit working" where
  "readied_workspace e r kind b head =
     (if b_bootstrapKind b \<noteq> kind then plain_throw e (Fenced (Boundary_differs (b_bootstrapKind b) kind))
      else
       before (captured_run e r) (\<lambda>_.
       before (mutation_lane e r (b_workspacePath b)) (\<lambda>_.
       before (note_execution e) (\<lambda>_.
       before (lane e Lane_may_mutate) (\<lambda>_.
       before (captured_run e r) (\<lambda>_.
       before (calling_back e (final_execution e r False)) (\<lambda>_.
       before (request (Workspace_readied b head) (we_ready e b head)) (\<lambda>i.
       before (request (Workspace_guarded i) (we_guard e i)) (\<lambda>_.
       before (committed e r r STALE_OWNED) (\<lambda>_.
       before (lane e Lane_may_mutate) (\<lambda>_.
       before (lane e Lane_may_publish) (\<lambda>_.
       before (request (Durability_verified i head) (we_verify e i head)) (\<lambda>_.
       before (committed e r r STALE_OWNED) (\<lambda>_.
       before (lane e Lane_may_mutate) (\<lambda>_. lane e Lane_may_publish)))))))))))))))"

definition workspace_refused :: "workflow_environment \<Rightarrow> run \<Rightarrow> thrown \<Rightarrow> 'a working" where
  "workspace_refused e r x =
     (if is_admission_refusal (th_kind x)
      then reconcile_refusal e r x STALE_OWNED (reason_text e (Fenced (Workspace_entry_refused (th_message x))))
      else bootstrap_failure e r x)"

definition owned_workspace :: "workflow_environment \<Rightarrow> run \<Rightarrow> bootstrap_kind option \<Rightarrow> unit working" where
  "owned_workspace e r chosen =
     (case run_bootstrap r of
        None \<Rightarrow> give ()
      | Some b \<Rightarrow>
          if \<not> we_ownedValidation e then give ()
          else (case (chosen, run_headSha r) of
              (Some kind, Some head) \<Rightarrow> catching (readied_workspace e r kind b head) (workspace_refused e r)
            | _ \<Rightarrow> bootstrap_failure e r (plain_value e (Fenced Workspace_bootstrap_required))))"

definition local_request_for :: "run \<Rightarrow> string \<Rightarrow> local_request" where
  "local_request_for r head =
     \<lparr>lr_target = run_target r, lr_headSha = head, lr_workspace = map_option b_workspacePath (run_bootstrap r)\<rparr>"

definition observed_local :: "workflow_environment \<Rightarrow> run \<Rightarrow> string \<Rightarrow> local_evidence working" where
  "observed_local e r head =
     before (note_execution e) (\<lambda>_.
     before (final_execution e r True) (\<lambda>_.
     before (note_event (Validation_called (local_request_for r head))) (\<lambda>_.
     before (calling_back e (final_execution e r True)) (\<lambda>_.
     before (request Validation_answered (we_validate e (local_request_for r head))) (\<lambda>l.
     before (final_execution e r True) (\<lambda>_. give l))))))"

text \<open>\<open>validateExactHead\<close>; its hosted part is observed anew later, only the local part is used.\<close>

definition validate_exact_head :: "workflow_environment \<Rightarrow> run \<Rightarrow> live_snapshot \<Rightarrow> validation_result working" where
  "validate_exact_head e r s =
     (case run_headSha r of
        None \<Rightarrow> plain_throw e (Validating No_exact_head)
      | Some head \<Rightarrow>
          before (current_policy e) (\<lambda>p.
          before (case reusable_local r p of Some l \<Rightarrow> give l | None \<Rightarrow> observed_local e r head) (\<lambda>l.
            give (combine_validation head l (hosted_validation s (vp_hosted p))))))"

definition escalate_validation ::
  "workflow_environment \<Rightarrow> run \<Rightarrow> live_pull \<Rightarrow> validation_result \<Rightarrow> validation_reason \<Rightarrow> string \<Rightarrow> string \<Rightarrow> 'a working" where
  "escalate_validation e r p v reason choice stale =
     (let text = reason_text e (Validating reason) in
      stopping e r ((escalation text text [choice, CANCEL_RUN_DECISION])
          \<lparr>in_validationResult := Some v, in_pullRequest := Some (pull_tuple p r)\<rparr>)
        stale (\<lambda>n. Asks_human n text))"

definition validation_unobserved ::
  "workflow_environment \<Rightarrow> run \<Rightarrow> live_snapshot \<Rightarrow> live_pull \<Rightarrow> thrown \<Rightarrow> 'a working" where
  "validation_unobserved e r s p x =
     (if is_admission_refusal (th_kind x)
      then reconcile_refusal e r x ''Run changed before local validation execution; preserving the newer Run.''
        (reason_text e (Fenced (Validation_entry_refused (th_message x))))
      else before (current_policy e) (\<lambda>q.
        escalate_validation e r p
          (combine_validation (opt_text (run_headSha r)) unavailable_local_validation (hosted_validation s (vp_hosted q)))
          (Validation_unobserved (th_message x)) ''Restore the configured validation runner and retry''
          ''Run changed while validation failure was being recorded; preserving the newer Run.''))"

definition STABLE_CHOICES :: "string list" where
  "STABLE_CHOICES = [''Restore stable validation-policy authority and retry'', CANCEL_RUN_DECISION]"

text \<open>The authority resolved again must be valid and the same.\<close>

definition same_authority_again ::
  "workflow_environment \<Rightarrow> run \<Rightarrow> active_validation \<Rightarrow> validation_reason \<Rightarrow> (invalid_authority \<Rightarrow> validation_reason) \<Rightarrow>
   validation_policy working" where
  "same_authority_again e r a changed invalid =
     before (current_policy e) (\<lambda>p. let b = active_validation_configuration p in
       case invalid_validation_authority b of
         Some w \<Rightarrow> park_run e r (reason_text e (Validating (invalid w))) STABLE_CHOICES
       | None \<Rightarrow>
           if same_validation_authority a b then give p
           else park_run e r (reason_text e (Validating changed)) STABLE_CHOICES)"

definition post_validation_failed :: "workflow_environment \<Rightarrow> run \<Rightarrow> thrown \<Rightarrow> 'a working" where
  "post_validation_failed e r x =
     (if is_admission_refusal (th_kind x)
      then reconcile_refusal e r x
        ''Run changed during the post-validation admission check; preserving the newer Run.''
        (reason_text e (Fenced (Post_validation_refused (th_message x))))
      else github_failure e r x)"

text \<open>GitHub is read again after the validation; the same tuple must still be live.\<close>

definition same_pull :: "live_pull \<Rightarrow> live_snapshot \<Rightarrow> bool" where
  "same_pull p s = present_and (\<lambda>q. lp_number q = lp_number p \<and> lp_headSha q = lp_headSha p) (lv_pullRequest s)"

definition snapshot_after ::
  "workflow_environment \<Rightarrow> run \<Rightarrow> live_pull \<Rightarrow> (live_snapshot \<times> live_pull) working" where
  "snapshot_after e r p =
     before (catching (before (live_state e (run_target r)) (\<lambda>s.
         before (final_execution e r True) (\<lambda>_. give s))) (post_validation_failed e r)) (\<lambda>s.
     before (committed e r r ''Run changed during the post-validation live read; preserving the newer Run.'') (\<lambda>_.
     before (without_conflict e r s False) (\<lambda>_.
     before (strengthen_pull e r s) (\<lambda>_.
       if lv_headSha s = None \<or> lv_headSha s \<noteq> run_headSha r
       then park_run e r (reason_text e (Validating (Head_moved_during (run_headSha r) (lv_headSha s))))
         [LIVE_HEAD_SYNC_DECISION, CANCEL_RUN_DECISION]
       else (case lv_pullRequest s of
           Some q \<Rightarrow>
             if same_pull p s then give (s, q)
             else park_run e r (reason_text e (Validating Pull_moved_during)) IDENTITY_CHOICES
         | None \<Rightarrow> park_run e r (reason_text e (Validating Pull_moved_during)) IDENTITY_CHOICES)))))"

definition validation_input :: "transition_type \<Rightarrow> live_pull \<Rightarrow> run \<Rightarrow> validation_result \<Rightarrow> transition_input" where
  "validation_input t p r v =
     (bare_input t)\<lparr>in_validationResult := Some v, in_pullRequest := Some (pull_tuple p r)\<rparr>"

definition waiting_input :: "live_pull \<Rightarrow> run \<Rightarrow> validation_result \<Rightarrow> string \<Rightarrow> transition_input" where
  "waiting_input p r v reason =
     (validation_input T_wait_dependency p r v)\<lparr>in_reason := Some reason, in_interruptEvidence := Some reason,
        in_interruptChoices := Some [''Retry readiness checks'', CANCEL_RUN_DECISION]\<rparr>"

text \<open>The evidence is recorded with the outcome it implies.\<close>

definition record_validation ::
  "workflow_environment \<Rightarrow> run \<Rightarrow> live_pull \<Rightarrow> validation_result \<Rightarrow> bool \<Rightarrow> turn_end working" where
  "record_validation e r p v cached =
     (case v_status v of
        Failed \<Rightarrow> before (moved e r (validation_input T_validation_failed p r v)) (\<lambda>n.
          before (committed e r n STALE_OUTCOME) (\<lambda>_. give (Goes_on n cached)))
      | Waiting \<Rightarrow>
          (let reason = reason_text e (Validating (Hosted_pending (run_headSha r))) in
           stopping e r (waiting_input p r v reason) STALE_OUTCOME (\<lambda>n. Waits_on n reason))
      | Unknown \<Rightarrow> escalate_validation e r p v (Evidence_missing (run_headSha r))
          ''Restore required validation evidence and retry'' STALE_OUTCOME
      | Passed \<Rightarrow> before (moved e r (validation_input T_validation_passed p r v)) (\<lambda>n.
          before (committed e r n ''Run changed while validation success was being recorded; preserving the newer Run.'')
            (\<lambda>_. give (Goes_on n cached))))"

definition admit_validation ::
  "workflow_environment \<Rightarrow> run \<Rightarrow> live_snapshot \<Rightarrow> live_pull \<Rightarrow> local_evidence \<Rightarrow> validation_policy \<Rightarrow> bool \<Rightarrow>
   turn_end working" where
  "admit_validation e r s p l q cached =
     (let head = opt_text (run_headSha r); hosted = hosted_validation s (vp_hosted q);
          v = combine_validation head l hosted in
      if \<not> is_validation_result_coherent v
      then escalate_validation e r p (combine_validation head unavailable_local_validation hosted) Local_incoherent
        ''Restore the configured validation runner and retry'' STALE_EVIDENCE
      else if \<not> validation_evidence_matches_active v (active_validation_configuration q)
      then escalate_validation e r p v (Evidence_not_active (run_headSha r))
        ''Restore matching validation evidence and retry'' STALE_EVIDENCE
      else record_validation e r p v cached)"

definition validating_pass :: "workflow_environment \<Rightarrow> bool \<Rightarrow> run \<Rightarrow> turn_end working" where
  "validating_pass e cached r =
     before (request (Bootstrap_selected (bootstrap_execution r)) (we_bootstrap e (bootstrap_execution r))) (\<lambda>chosen.
     before (admitted_authority e r ''validation and review admission'') (\<lambda>a.
     before (validation_snapshot e r) (\<lambda>(s, p).
     before (owned_workspace e r chosen) (\<lambda>_.
     before (catching (validate_exact_head e r s) (validation_unobserved e r s p)) (\<lambda>v.
     before (same_authority_again e r a Authority_changed_during Authority_changed_after) (\<lambda>b.
     before (snapshot_after e r p) (\<lambda>(s2, p2).
     before (same_authority_again e r (active_validation_configuration b) Authority_changed_reread
         Authority_invalid_reread) (\<lambda>q.
       admit_validation e r s2 p2 (v_local v) q cached))))))))"

section \<open>The final gate\<close>

definition STALE_GATE :: string where
  "STALE_GATE = ''Run changed during the final-gate live read; preserving the newer Run.''"

definition keep_on :: "workflow_environment \<Rightarrow> run \<Rightarrow> transition_input \<Rightarrow> string \<Rightarrow> bool \<Rightarrow> turn_end working" where
  "keep_on e r i stale cached =
     before (moved e r i) (\<lambda>n. before (committed e r n stale) (\<lambda>_. give (Goes_on n cached)))"

definition native_evidence_used :: "workflow_environment \<Rightarrow> run \<Rightarrow> bool" where
  "native_evidence_used e r \<longleftrightarrow> we_native e \<or> run_nativeReview r \<noteq> None \<or> run_nativeLead r \<noteq> None"

definition park_native :: "workflow_environment \<Rightarrow> run \<Rightarrow> review_wait_kind \<Rightarrow> string \<Rightarrow> string \<Rightarrow> 'a working" where
  "park_native e r kind reason stale =
     before (time_now e) (\<lambda>now.
     before (given_answer (park_native_review (wh_review (we_host e)) r kind reason now)) (\<lambda>n.
     before (committed e r n stale) (\<lambda>_. stop_with (Waits_on n reason))))"

definition authenticated_review :: "workflow_environment \<Rightarrow> run \<Rightarrow> live_snapshot \<Rightarrow> unit working" where
  "authenticated_review e r s =
     before (if we_native e \<and> we_claims e then request (Claim_checked r) (we_claim e r) else give ()) (\<lambda>_.
       if \<not> native_evidence_used e r then give ()
       else before
         (if we_claims e \<and> we_native e
          then request (Review_authenticated r s) (we_authenticate e r s) else give False) (\<lambda>ok.
         if ok then give ()
         else (let reason = reason_text e (Gating Native_evidence_required) in
               park_native e r W_qualification reason reason)))"

definition gate_snapshot :: "workflow_environment \<Rightarrow> run \<Rightarrow> live_snapshot working" where
  "gate_snapshot e r =
     before (catching (live_state e (run_target r)) (github_failure e r)) (\<lambda>s.
     before (committed e r r STALE_GATE) (\<lambda>_.
     before (without_conflict e r s True) (\<lambda>_.
       if lv_headSha s \<noteq> None \<and> lv_headSha s = run_headSha r then give s
       else (let reason = reason_text e (Gating (Gate_head_differs (lv_headSha s) (run_headSha r))) in
             stopping e r (escalation reason reason
                 (if lv_headSha s = None then [CANCEL_RUN_DECISION] else [LIVE_HEAD_SYNC_DECISION, CANCEL_RUN_DECISION]))
               STALE_GATE (\<lambda>n. Asks_human n reason)))))"

definition hosted_differs :: "run \<Rightarrow> live_snapshot \<Rightarrow> validation_policy \<Rightarrow> bool" where
  "hosted_differs r s q \<longleftrightarrow>
     \<not> present_and (\<lambda>v.
         present_and (\<lambda>p. h_pullRequestNumber (v_hosted v) = Some (lp_number p)) (lv_pullRequest s)
         \<and> h_policyRevision (v_hosted v) = map_option hp_revision (vp_hosted q)) (run_validationResult r)"

definition gate_wait_input :: "string \<Rightarrow> transition_input" where
  "gate_wait_input reason =
     (reasoned T_wait_dependency reason)\<lparr>in_interruptEvidence := Some reason,
        in_interruptChoices := Some [''Retry readiness checks'', CANCEL_RUN_DECISION]\<rparr>"

text \<open>Readiness is published only by \<open>completeLiveFinalGate\<close>.\<close>

definition publish_readiness :: "workflow_environment \<Rightarrow> run \<Rightarrow> live_snapshot \<Rightarrow> bool \<Rightarrow> turn_end working" where
  "publish_readiness e r s cached =
     before (lane e Lane_may_publish) (\<lambda>_.
     before (time_now e) (\<lambda>now.
     before (current_policy e) (\<lambda>q.
       case complete_live_final_gate r now (active_validation_configuration q) of
         None \<Rightarrow> plain_throw e (Gating Gate_refused)
       | Some n \<Rightarrow>
           before (committed e r n ''Run changed before final-gate readiness publication; preserving the newer Run.'') (\<lambda>_.
             give (if we_merges e then Submits_merge n s else Goes_on n cached)))))"

definition judge_readiness ::
  "workflow_environment \<Rightarrow> run \<Rightarrow> live_snapshot \<Rightarrow> hosted_evidence \<Rightarrow> bool \<Rightarrow> turn_end working" where
  "judge_readiness e r s hosted cached =
     (if h_status hosted = H_waiting
      then (let reason = reason_text e (Gating (Gate_waits (run_headSha r))) in
            stopping e r (gate_wait_input reason) STALE_GATE (\<lambda>n. Waits_on n reason))
      else if readiness_problems s hosted \<noteq> []
      then (let reason = reason_text e (Gating (Not_ready (readiness_problems s hosted))) in
            stopping e r (escalation reason reason
                [''Resolve the GitHub readiness blockers and retry'', CANCEL_RUN_DECISION])
              STALE_GATE (\<lambda>n. Asks_human n reason))
      else publish_readiness e r s cached)"

definition live_gate :: "workflow_environment \<Rightarrow> bool \<Rightarrow> run \<Rightarrow> turn_end working" where
  "live_gate e cached r =
     before (gate_snapshot e r) (\<lambda>s.
     before (authenticated_review e r s) (\<lambda>_.
     before (strengthen_pull e r s) (\<lambda>_.
     before (current_policy e) (\<lambda>q.
       if \<not> is_validation_fresh r (active_validation_configuration q)
       then keep_on e r (reasoned T_revalidate (reason_text e (Gating Gate_policy_changed))) STALE_GATE cached
       else if hosted_differs r s q
       then keep_on e r (reasoned T_revalidate (reason_text e (Gating Gate_hosted_differs))) STALE_GATE cached
       else judge_readiness e r s (hosted_validation s (vp_hosted q)) cached))))"

definition final_gate_pass :: "workflow_environment \<Rightarrow> bool \<Rightarrow> run \<Rightarrow> turn_end working" where
  "final_gate_pass e cached r =
     before (admitted_authority e r ''final-gate re-entry'') (\<lambda>_.
       if \<not> is_review_fresh r
       then keep_on e r (bare_input T_gate_blocked)
         ''Run changed while final-gate review freshness was being checked; preserving the newer Run.'' cached
       else before (current_policy e) (\<lambda>q.
         if \<not> is_validation_fresh r (active_validation_configuration q)
         then keep_on e r (reasoned T_revalidate (reason_text e (Gating (Gate_needs_validation (run_headSha r)))))
           ''Run changed while final-gate validation freshness was being checked; preserving the newer Run.'' cached
         else live_gate e cached r))"

section \<open>The other states\<close>

definition start_pass :: "workflow_environment \<Rightarrow> bool \<Rightarrow> run \<Rightarrow> turn_end working" where
  "start_pass e cached r = keep_on e r (bare_input T_start)
     ''Run changed while implementation was starting; preserving the newer Run.'' cached"

definition ready_pass :: "workflow_environment \<Rightarrow> bool \<Rightarrow> run \<Rightarrow> turn_end working" where
  "ready_pass e cached r =
     (if cached \<and> native_evidence_used e r
      then keep_on e r (reasoned T_recheck_readiness (reason_text e (Gating Recheck_native)))
        ''Run changed before cached readiness revalidation.'' False
      else if has_unreestablished_legacy_gate r
      then park_run e r (reason_text e (Gating Legacy_gate)) [REESTABLISH_READINESS_DECISION, CANCEL_RUN_DECISION]
      else stop_with (Merge_ready_at r))"

definition without_wait :: "native_review option \<Rightarrow> native_review option" where
  "without_wait l = map_option (\<lambda>n. n\<lparr>nr_wait := None\<rparr>) l"

text \<open>\<open>revalidateHistoricalGate\<close>: a settled historical gate is validated afresh.\<close>

definition revalidate_historical :: "workflow_environment \<Rightarrow> run \<Rightarrow> run working" where
  "revalidate_historical e r =
     before (if run_state r = MERGE_READY then moved e r (bare_input T_recheck_readiness) else give r) (\<lambda>g.
     before (moved e g (reasoned T_revalidate (reason_text e (Turning Historical_settled)))) (\<lambda>n.
       give (n\<lparr>run_validationResult := None, run_nativeReview := without_wait (run_nativeReview r)\<rparr>)))"

definition native_reentry :: "workflow_environment \<Rightarrow> bool \<Rightarrow> run \<Rightarrow> turn_end working" where
  "native_reentry e cached r =
     before (moved e r (reasoned T_dependency_satisfied (reason_text e (Turning Native_observed)))) (\<lambda>n.
       if run_state n = FINAL_GATE \<or> run_state n = MERGE_READY
       then before (revalidate_historical e n) (\<lambda>m.
         before (committed e r m ''Run changed before native review dependency observation.'') (\<lambda>_.
           stop_with (Waits_on m ''Historical gate recovery scheduled fresh validation; no cached gate authority was consumed.'')))
       else (let m = n\<lparr>run_nativeReview := without_wait (run_nativeReview r)\<rparr> in
         before (committed e r m ''Run changed before native review dependency observation.'') (\<lambda>_. give (Goes_on m cached))))"

definition waiting_pass :: "workflow_environment \<Rightarrow> bool \<Rightarrow> run \<Rightarrow> turn_end working" where
  "waiting_pass e cached r =
     before (time_now e) (\<lambda>now.
       if native_lead_reentry (rh_oracle (wh_review (we_host e))) r now
       then keep_on e r (reasoned T_dependency_satisfied (reason_text e (Turning Lead_recovered)))
         ''Run changed before lead recovery.'' cached
       else before (look (we_now e 1)) (\<lambda>later.
         if we_native e \<and> native_review_reentry (rh_oracle (wh_review (we_host e))) r later
         then native_reentry e cached r
         else stop_with (Waits_on r (interrupt_reason r ''Awaiting an external dependency.''))))"

definition last_reason :: "run \<Rightarrow> string" where
  "last_reason r =
     (case (if run_history r = [] then None else tr_reason (last (run_history r))) of
        None \<Rightarrow> ''The run failed.'' | Some t \<Rightarrow> t)"

text \<open>Before implementation or repair a trusted reviewer must be bound.\<close>

definition reviewer_bound :: "workflow_environment \<Rightarrow> run \<Rightarrow> unit working" where
  "reviewer_bound e r =
     (if native_evidence_used e r \<and> run_state r \<in> {READY, IMPLEMENTING, CHANGES_REQUESTED}
      then before (look (we_available e)) (\<lambda>available.
        if we_native e \<and> available \<and> we_claims e then give ()
        else park_native e r W_binding (reason_text e (Turning Native_unbound))
          ''Run changed before native reviewer availability wait.'')
      else give ())"

fun state_pass :: "workflow_environment \<Rightarrow> bool \<Rightarrow> run \<Rightarrow> workflow_state \<Rightarrow> turn_end working" where
  "state_pass e cached r READY = start_pass e cached r"
| "state_pass e cached r IMPLEMENTING = give (Implements r)"
| "state_pass e cached r VALIDATING = validating_pass e cached r"
| "state_pass e cached r REVIEWING = before (admitted_authority e r ''review admission'') (\<lambda>_. give (Reviews r))"
| "state_pass e cached r CHANGES_REQUESTED =
     before (admitted_authority e r ''review admission'') (\<lambda>_. give (Reviews r))"
| "state_pass e cached r FINAL_GATE = final_gate_pass e cached r"
| "state_pass e cached r MERGE_READY = ready_pass e cached r"
| "state_pass e cached r MERGED = stop_with (Merged_at r)"
| "state_pass e cached r NEEDS_HUMAN = stop_with (Asks_human r (interrupt_reason r ''Awaiting a human decision.''))"
| "state_pass e cached r WAITING_DEPENDENCY = waiting_pass e cached r"
| "state_pass e cached r FAILED = stop_with (Fails_at r (last_reason r))"

definition workflow_turn :: "workflow_environment \<Rightarrow> bool \<Rightarrow> run \<Rightarrow> turn_end working" where
  "workflow_turn e cached r = before (reviewer_bound e r) (\<lambda>_. state_pass e cached r (run_state r))"

text \<open>The loop until it stops or hands the run over; \<open>None\<close> is fuel that ran out.\<close>

fun workflow_turns :: "workflow_environment \<Rightarrow> nat \<Rightarrow> bool \<Rightarrow> run \<Rightarrow> turn_end option working" where
  "workflow_turns e 0 cached r = give None"
| "workflow_turns e (Suc n) cached r =
     before (workflow_turn e cached r) (\<lambda>x. case x of
         Goes_on s c \<Rightarrow> workflow_turns e n c s
       | _ \<Rightarrow> give (Some x))"

end
