(* ===== verification/Workflow_Guarantees.thy ===== *)
theory Workflow_Guarantees
  imports Workflow_Passes Transition_Properties
begin

text \<open>
  Contracts of the workflow's programs. A plain program never promotes a run: no swap in it takes a
  run from \<open>VALIDATING\<close> to \<open>REVIEWING\<close> or from \<open>FINAL_GATE\<close> to \<open>MERGE_READY\<close>; its contract may
  say what it returns. Nearly every step is plain; the collection \<open>plain_intros\<close> holds how the
  contracts compose.
\<close>

named_theorems plain_intros \<open>how contracts of plain programs compose\<close>

section \<open>Promotions\<close>

definition promotes :: "run \<Rightarrow> run \<Rightarrow> bool" where
  "promotes a b \<longleftrightarrow> run_state a = FINAL_GATE \<and> run_state b = MERGE_READY
     \<or> run_state a = VALIDATING \<and> run_state b = REVIEWING"

fun promoting :: "workflow_effect \<Rightarrow> bool" where
  "promoting (Run_swapped a b _) = promotes a b"
| "promoting _ = False"

lemma promotes_same [simp]: "\<not> promotes r r"
  by (auto simp: promotes_def)

interpretation plain: program_contract "list_all (\<lambda>x. \<not> promoting x)" "\<lambda>_. True"
  by unfold_locales auto

lemma table_never_promotes:
  "table_target FINAL_GATE t \<noteq> Some (To MERGE_READY)" "table_target FINAL_GATE t \<noteq> Some RESUME"
  "table_target VALIDATING t = Some (To REVIEWING) \<Longrightarrow> t = T_validation_passed" "table_target VALIDATING t \<noteq> Some RESUME"
  by (auto simp: table_target_def split: if_splits)

lemma transition_not_promoting:
  assumes "transition h r i now a = Inr n" and "in_type i \<noteq> T_validation_passed"
  shows "\<not> promotes r n"
  using assms transition_follows_table[of "rh_oracle h" r i now a n]
  by (auto simp: transition_def promotes_def table_never_promotes split: sum.splits dest: table_never_promotes(3))

section \<open>Plain programs\<close>

lemma plain_exits [simp]:
  "plain.obeys P (throw_out x)" "plain.obeys P (plain_throw e q)" "plain.obeys P (refuse_admission e s b c)"
  "plain.obeys P (stop_with w)"
  by (simp_all add: throw_out_def stop_with_def plain_throw_def refuse_admission_def)

lemma plain_given_answer: "(\<And>x. r = Inr x \<Longrightarrow> P x) \<Longrightarrow> plain.obeys P (given_answer r)"
  by (cases r) (simp_all add: given_answer_def)

lemma plain_request: "(\<And>r. \<not> promoting (event r)) \<Longrightarrow> (\<And>x. P x) \<Longrightarrow> plain.obeys P (request event answer)"
  unfolding request_def by (auto intro!: plain.obeys_look_seq plain.obeys_seq plain_given_answer)

lemma plain_catching:
  assumes "plain.obeys P m" and "\<And>x. plain.obeys P (h x)"
  shows "plain.obeys P (catching m h)"
  unfolding catching_def
  by (rule plain.obeys_recovered) (use assms in \<open>auto split: workflow_exit.split\<close>)

lemmas plain_compose [plain_intros] = plain.obeys_look_seq plain.obeys_seq plain_catching

lemma plain_calls [simp]:
  "plain.obeys (\<lambda>_. True) (time_now e)" "plain.obeys (\<lambda>_. True) (read_again e i)"
  "\<not> promotes a b \<Longrightarrow> plain.obeys (\<lambda>_. True) (update_if_current e a b)"
  "plain.obeys (\<lambda>_. True) (live_state e t)" "plain.obeys (\<lambda>_. True) (current_policy e)"
  "plain.obeys (\<lambda>_. True) (lane e c)" "plain.obeys (\<lambda>_. True) (normal_initiation e r)"
  "plain.obeys (\<lambda>_. True) (note_execution e)" "plain.obeys (\<lambda>_. True) (canonical_evidence e v)"
  by (auto simp: time_now_def read_again_def update_if_current_def live_state_def current_policy_def lane_def
        normal_initiation_def note_execution_def canonical_evidence_def
        intro!: plain_request plain.obeys_look plain_intros split: sum.split)

lemma plain_strengthen [simp]:
  "plain.obeys (\<lambda>_. True) (strengthen_lane e r n w)" "plain.obeys (\<lambda>_. True) (strengthen_admission e r n w)"
  "plain.obeys (\<lambda>_. True) (strengthen_pull e r s)" "plain.obeys (\<lambda>_. True) (mutation_lane e r v)"
proof -
  show lane [simp]: "plain.obeys (\<lambda>_. True) (strengthen_lane e r n w)" for n w
    by (auto simp: strengthen_lane_def intro!: plain_request plain_intros)
  show admission [simp]: "plain.obeys (\<lambda>_. True) (strengthen_admission e r n w)" for n w
    by (auto simp: strengthen_admission_def intro!: plain_intros split: option.split)
  show "plain.obeys (\<lambda>_. True) (strengthen_pull e r s)" "plain.obeys (\<lambda>_. True) (mutation_lane e r v)"
    by (auto simp: strengthen_pull_def mutation_lane_def intro!: plain_intros split: option.split)
qed

lemma plain_fences [simp]:
  "plain.obeys (\<lambda>_. True) (captured_run e r)" "plain.obeys (\<lambda>_. True) (final_execution e r b)"
  "plain.obeys (\<lambda>_. True) (calling_back e (final_execution e r b))"
proof -
  show captured [simp]: "plain.obeys (\<lambda>_. True) (captured_run e r)"
    by (auto simp: captured_run_def intro!: plain_intros)
  show final [simp]: "plain.obeys (\<lambda>_. True) (final_execution e r b)"
    by (auto simp: final_execution_def intro!: plain_intros)
  have "plain.obeys (\<lambda>_. True) (fence_calls (final_execution e r b) n)" for n
    by (induction n) (auto intro!: plain_intros)
  then show "plain.obeys (\<lambda>_. True) (calling_back e (final_execution e r b))"
    by (auto simp: calling_back_def intro!: plain_intros)
qed

lemma plain_stale [simp]: "plain.obeys P (stale_outcome e r q)"
  by (auto simp: stale_outcome_def intro!: plain_intros)

lemma plain_committed [simp]: "\<not> promotes a b \<Longrightarrow> plain.obeys (\<lambda>_. True) (committed e a b q)"
  by (auto simp: committed_def intro!: plain_intros)

text \<open>A transition returns a run the state machine accepted.\<close>

definition accepts :: "workflow_environment \<Rightarrow> run \<Rightarrow> transition_input \<Rightarrow> run \<Rightarrow> bool" where
  "accepts e r i n \<longleftrightarrow> (\<exists>now. transition (wh_review (we_host e)) r i now None = Inr n)"

lemma plain_moved [simp]: "plain.obeys (accepts e r i) (moved e r i)"
  unfolding moved_def accepts_def
  by (rule plain.obeys_seq) (auto intro!: plain_given_answer)

lemma plain_moved_any [simp]: "plain.obeys (\<lambda>_. True) (moved e r i)"
  by (rule plain.obeys_weaken[OF plain_moved]) simp

lemma accepts_not_promoting: "accepts e r i n \<Longrightarrow> in_type i \<noteq> T_validation_passed \<Longrightarrow> \<not> promotes r n"
  unfolding accepts_def by (auto dest: transition_not_promoting)

lemma plain_stopping [simp]: "in_type i \<noteq> T_validation_passed \<Longrightarrow> plain.obeys P (stopping e r i q f)"
  unfolding stopping_def
  by (rule plain.obeys_before[OF plain_moved]) (auto intro!: plain_intros simp: accepts_not_promoting)

lemma input_types [simp]:
  "in_type (bare_input t) = t" "in_type (reasoned t q) = t" "in_type (escalation q v cs) = T_escalate"
  "in_type (bootstrap_failure_input x k) = T_escalate" "in_type (gate_wait_input q) = T_wait_dependency"
  "in_type (validation_input t p r w) = t" "in_type (waiting_input p r w q) = T_wait_dependency"
  by (simp_all add: bare_input_def reasoned_def escalation_def bootstrap_failure_input_def gate_wait_input_def
        validation_input_def waiting_input_def)

lemma plain_parking [simp]:
  "plain.obeys P (park_run e r q cs)" "plain.obeys P (github_failure e r x)" "plain.obeys P (bootstrap_failure e r x)"
  "plain.obeys P (escalate_validation e r p v c j k)"
  by (simp_all add: park_run_def github_failure_def bootstrap_failure_def escalate_validation_def Let_def)

lemma plain_reconcile [simp]: "plain.obeys P (reconcile_refusal e r x s q)"
  by (auto simp: reconcile_refusal_def intro!: plain_intros)

lemma plain_park_native [simp]: "plain.obeys P (park_native e r k q s)"
proof -
  have "\<not> promotes r n" if "park_native_review h r k q now = Inr n" for h now n
    using that transition_not_promoting[of h r "reasoned T_wait_dependency q" now None]
    by (fastforce simp: park_native_review_def promotes_def split: sum.splits)
  then show ?thesis unfolding park_native_def
    by (intro plain_compose plain.obeys_before[OF plain_given_answer[where P = "\<lambda>n. \<not> promotes r n"]]) auto
qed

section \<open>Plain steps of the passes\<close>

lemma plain_admission [simp]:
  "plain.obeys (\<lambda>_. True) (admitted_authority e r q)" "plain.obeys (\<lambda>_. True) (without_conflict e r s b)"
  "plain.obeys (\<lambda>_. True) (same_authority_again e r a c f)" "plain.obeys (\<lambda>_. True) (reviewer_bound e r)"
  by (auto simp: admitted_authority_def without_conflict_def same_authority_again_def reviewer_bound_def Let_def
        intro!: plain_intros split: option.split)

lemma plain_failures [simp]:
  "plain.obeys P (workspace_refused e r x)" "plain.obeys P (validation_unobserved e r s p x)"
  "plain.obeys P (post_validation_failed e r x)"
  by (auto simp: workspace_refused_def validation_unobserved_def post_validation_failed_def intro!: plain_intros)

lemma plain_steps [simp]:
  "plain.obeys (\<lambda>_. True) (validation_snapshot e r)" "plain.obeys (\<lambda>_. True) (readied_workspace e r k b h)"
  "plain.obeys (\<lambda>_. True) (owned_workspace e r c)" "plain.obeys (\<lambda>_. True) (observed_local e r h)"
  "plain.obeys (\<lambda>_. True) (validate_exact_head e r s)" "plain.obeys (\<lambda>_. True) (snapshot_after e r p)"
  "plain.obeys (\<lambda>_. True) (authenticated_review e r s)" "plain.obeys (\<lambda>_. True) (gate_snapshot e r)"
proof -
  show [simp]: "plain.obeys (\<lambda>_. True) (readied_workspace e r k b h)" for k b h
    by (auto simp: readied_workspace_def intro!: plain_intros plain_request)
  show [simp]: "plain.obeys (\<lambda>_. True) (observed_local e r h)" for h
    by (auto simp: observed_local_def intro!: plain_intros plain_request)
  show "plain.obeys (\<lambda>_. True) (validation_snapshot e r)" "plain.obeys (\<lambda>_. True) (owned_workspace e r c)"
    "plain.obeys (\<lambda>_. True) (validate_exact_head e r s)" "plain.obeys (\<lambda>_. True) (snapshot_after e r p)"
    "plain.obeys (\<lambda>_. True) (authenticated_review e r s)" "plain.obeys (\<lambda>_. True) (gate_snapshot e r)"
    by (auto simp: validation_snapshot_def owned_workspace_def validate_exact_head_def snapshot_after_def
          authenticated_review_def gate_snapshot_def Let_def intro!: plain_intros plain_request split: option.split)
qed

end
