(* ===== verification/Workflow_Warrants.thy ===== *)
theory Workflow_Warrants
  imports Workflow_Guarantees "HOL-Library.Sublist"
begin

text \<open>
  The evidence behind a promotion: which calls, in which order, were answered before a run was
  swapped from \<open>VALIDATING\<close> to \<open>REVIEWING\<close> or from \<open>FINAL_GATE\<close> to \<open>MERGE_READY\<close>. A program
  attests what its calls answered when it returns; every pass is shown to promote only with its
  warrant.
\<close>

section \<open>Warrants\<close>

definition gate_warrant :: "workflow_environment \<Rightarrow> run \<Rightarrow> run \<Rightarrow> thrown + bool \<Rightarrow> workflow_trace \<Rightarrow> bool" where
  "gate_warrant e r n ok es \<longleftrightarrow> (\<exists>s q p now.
     complete_live_final_gate r now (active_validation_configuration p) = Some n
     \<and> pull_request_identity_conflict r s True = None
     \<and> lv_headSha s \<noteq> None \<and> lv_headSha s = run_headSha r
     \<and> is_validation_fresh r (active_validation_configuration q) \<and> \<not> hosted_differs r s q
     \<and> h_status (hosted_validation s (vp_hosted q)) \<noteq> H_waiting
     \<and> readiness_problems s (hosted_validation s (vp_hosted q)) = []
     \<and> subseq ([Live_read (run_target r) (Inr s), Run_swapped r r (Inr True)]
         @ (if native_evidence_used e r then [Review_authenticated r s (Inr True)] else [])
         @ [Policy_read q]
         @ (if we_fenced e then [Lane_checked Lane_may_publish (Inr ())] else [])
         @ [Policy_read p, Run_swapped r n ok]) es)"

text \<open>Local evidence is reused under the same revision and HEAD, or was observed for the HEAD.\<close>

definition local_source :: "run \<Rightarrow> local_evidence \<Rightarrow> workflow_trace \<Rightarrow> bool" where
  "local_source r l es \<longleftrightarrow>
     (\<exists>p. Policy_read p \<in> set es \<and> reusable_local r p = Some l)
     \<or> (\<exists>head. run_headSha r = Some head
          \<and> subseq [Validation_called (local_request_for r head), Validation_answered (Inr l)] es)"

definition validation_warrant :: "workflow_environment \<Rightarrow> run \<Rightarrow> run \<Rightarrow> thrown + bool \<Rightarrow> workflow_trace \<Rightarrow> bool" where
  "validation_warrant e r n ok es \<longleftrightarrow> (\<exists>p0 p1 p2 s1 s2 q1 q2 l v.
     v = combine_validation (opt_text (run_headSha r)) l (hosted_validation s2 (vp_hosted p2))
     \<and> v_status v = Passed \<and> is_validation_result_coherent v
     \<and> validation_evidence_matches_active v (active_validation_configuration p2)
     \<and> same_validation_authority (active_validation_configuration p0) (active_validation_configuration p1)
     \<and> same_validation_authority (active_validation_configuration p1) (active_validation_configuration p2)
     \<and> exact_pull r s1 = Some q1 \<and> lv_pullRequest s2 = Some q2 \<and> same_pull q1 s2
     \<and> lv_headSha s2 = run_headSha r \<and> local_source r l es
     \<and> accepts e r (validation_input T_validation_passed q2 r v) n
     \<and> subseq [Policy_read p0, Live_read (run_target r) (Inr s1), Policy_read p1,
         Live_read (run_target r) (Inr s2), Run_swapped r r (Inr True), Policy_read p2, Run_swapped r n ok] es)"

definition warranted :: "workflow_environment \<Rightarrow> workflow_trace \<Rightarrow> bool" where
  "warranted e es \<longleftrightarrow> (\<forall>r n ok. Run_swapped r n ok \<in> set es \<longrightarrow>
     (run_state r = FINAL_GATE \<and> run_state n = MERGE_READY \<longrightarrow> gate_warrant e r n ok es)
     \<and> (run_state r = VALIDATING \<and> run_state n = REVIEWING \<longrightarrow> validation_warrant e r n ok es))"

lemma subseq_extend:
  "subseq xs es \<Longrightarrow> subseq xs (es @ fs)" "subseq xs fs \<Longrightarrow> subseq xs (es @ fs)"
  using list_emb_append_mono[of "(=)" xs es "[]" fs] by (simp_all add: subseq_drop_many)

lemma gate_warrant_extend:
  "gate_warrant e r n ok es \<Longrightarrow> gate_warrant e r n ok (es @ fs)"
  "gate_warrant e r n ok fs \<Longrightarrow> gate_warrant e r n ok (es @ fs)"
  unfolding gate_warrant_def by (blast intro: subseq_extend)+

lemma local_source_extend:
  "local_source r l es \<Longrightarrow> local_source r l (es @ fs)" "local_source r l fs \<Longrightarrow> local_source r l (es @ fs)"
  unfolding local_source_def by (auto intro: subseq_extend)

lemma validation_warrant_extend:
  "validation_warrant e r n ok es \<Longrightarrow> validation_warrant e r n ok (es @ fs)"
  "validation_warrant e r n ok fs \<Longrightarrow> validation_warrant e r n ok (es @ fs)"
  unfolding validation_warrant_def by (blast intro: subseq_extend local_source_extend)+

lemma warranted_append: "warranted e es \<Longrightarrow> warranted e fs \<Longrightarrow> warranted e (es @ fs)"
  unfolding warranted_def by (auto intro: gate_warrant_extend validation_warrant_extend)

lemma warranted_plain: "list_all (\<lambda>x. \<not> promoting x) es \<Longrightarrow> warranted e es"
  by (auto simp: warranted_def list_all_iff promotes_def)

lemma warranted_plain_append: "list_all (\<lambda>x. \<not> promoting x) es \<Longrightarrow> warranted e fs \<Longrightarrow> warranted e (es @ fs)"
  by (rule warranted_append[OF warranted_plain])

section \<open>What a returning program attests\<close>

definition attests :: "('a \<Rightarrow> workflow_trace \<Rightarrow> bool) \<Rightarrow> 'a working \<Rightarrow> bool" where
  "attests P m \<longleftrightarrow> ensures m (\<lambda>x es. list_all (\<lambda>y. \<not> promoting y) es \<and> (case x of Inl _ \<Rightarrow> True | Inr v \<Rightarrow> P v es))"

lemma attests_plain: "plain.obeys P m \<Longrightarrow> attests (\<lambda>v es. P v) m"
  unfolding attests_def plain.obeys_def by simp

lemma attests_weaken: "attests P m \<Longrightarrow> (\<And>v es. P v es \<Longrightarrow> Q v es) \<Longrightarrow> attests Q m"
  unfolding attests_def by (erule ensures_weaken) (auto split: sum.splits)

lemma attests_give [simp]: "attests P (give x) \<longleftrightarrow> P x []"
  by (simp add: attests_def)

lemma attests_leaving: "plain.obeys (\<lambda>_. False) m \<Longrightarrow> attests P m"
  using attests_weaken[OF attests_plain] by blast

lemma attests_before:
  assumes "attests P m" and "\<And>v es. P v es \<Longrightarrow> attests (\<lambda>w fs. Q w (es @ fs)) (k v)"
  shows "attests Q (before m k)"
  unfolding attests_def
proof (rule ensures_before[OF assms(1)[unfolded attests_def]])
  fix v es
  assume "list_all (\<lambda>y. \<not> promoting y) es \<and> (case Inr v of Inl _ \<Rightarrow> True | Inr v \<Rightarrow> P v es)"
  then show "ensures (k v) (\<lambda>x fs. list_all (\<lambda>y. \<not> promoting y) (es @ fs)
      \<and> (case x of Inl _ \<Rightarrow> True | Inr w \<Rightarrow> Q w (es @ fs)))"
    using assms(2)[of v es] unfolding attests_def by (auto elim: ensures_weaken)
qed simp

text \<open>A plain step in front keeps what the rest attests, where that is kept by appending.\<close>

lemma attests_skip:
  assumes "plain.obeys (\<lambda>_. True) m" and "\<And>v. attests Q (k v)" and "\<And>w es fs. Q w fs \<Longrightarrow> Q w (es @ fs)"
  shows "attests Q (before m k)"
  by (rule attests_before[OF attests_plain[OF assms(1)]]) (rule attests_weaken[OF assms(2)], rule assms(3))

lemma ensures_request: "ensures (request event answer) (\<lambda>x es. \<exists>r. es = [event r] \<and> (\<forall>v. x = Inr v \<longrightarrow> r = Inr v))"
  by (auto simp: ensures_def request_def before_def look_def note_event_def given_answer_def throw_out_def refuse_def
        give_def split: sum.split)

lemma attests_request: "(\<And>r. \<not> promoting (event r)) \<Longrightarrow> attests (\<lambda>v es. es = [event (Inr v)]) (request event answer)"
  unfolding attests_def by (rule ensures_weaken[OF ensures_request]) (auto split: sum.split)

lemma attests_catching:
  fixes m :: "'a working"
  assumes "attests P m" and "\<And>x. plain.obeys (\<lambda>_. False) (h x)"
  shows "attests P (catching m h)"
  unfolding attests_def catching_def
proof (rule ensures_recovered[OF assms(1)[unfolded attests_def]])
  fix f :: workflow_exit and es
  assume "list_all (\<lambda>y. \<not> promoting y) es \<and> (case Inl f of Inl _ \<Rightarrow> True | Inr v \<Rightarrow> P v es)"
  moreover have "plain.obeys (\<lambda>_. False) (case f of Thrown_out x \<Rightarrow> h x | Stopped w \<Rightarrow> (stop_with w :: 'a working))"
    using assms(2) by (cases f) simp_all
  ultimately show "ensures (case f of Thrown_out x \<Rightarrow> h x | Stopped w \<Rightarrow> stop_with w)
      (\<lambda>r fs. list_all (\<lambda>y. \<not> promoting y) (es @ fs) \<and> (case r of Inl _ \<Rightarrow> True | Inr v \<Rightarrow> P v (es @ fs)))"
    unfolding plain.obeys_def by (auto elim!: ensures_weaken split: sum.splits)
qed simp

lemma attests_live: "attests (\<lambda>s es. es = [Live_read t (Inr s)]) (live_state e t)"
  unfolding live_state_def by (rule attests_request) simp

lemma attests_policy: "attests (\<lambda>p es. es = [Policy_read p]) (current_policy e)"
  unfolding current_policy_def attests_def
  by (rule ensures_before[OF ensures_look[where Q = "\<lambda>x es. es = [] \<and> (\<exists>r. x = Inr r)"]])
     (auto intro!: ensures_before[where P = "\<lambda>x es. es = [Policy_read _]"])

lemma attests_lane: "attests (\<lambda>_ es. we_fenced e \<longrightarrow> es = [Lane_checked c (Inr ())]) (lane e c)"
  unfolding lane_def by (auto intro: attests_weaken[OF attests_request])

lemma attests_committed: "attests (\<lambda>_ es. Run_swapped r r (Inr True) \<in> set es) (committed e r r q)"
proof -
  have "attests (\<lambda>ok es. ok \<longrightarrow> Run_swapped r r (Inr True) \<in> set es) (update_if_current e r r)"
    by (auto simp: update_if_current_def intro!: attests_weaken[OF attests_request])
  then show ?thesis unfolding committed_def
    by (rule attests_before) (auto intro: attests_leaving)
qed

section \<open>The steps of the gate\<close>

lemma attests_no_conflict: "attests (\<lambda>_ es. pull_request_identity_conflict r s b = None) (without_conflict e r s b)"
  unfolding without_conflict_def by (auto intro: attests_leaving split: option.split)

definition gate_read :: "run \<Rightarrow> live_snapshot \<Rightarrow> workflow_trace \<Rightarrow> bool" where
  "gate_read r s es \<longleftrightarrow> pull_request_identity_conflict r s True = None
     \<and> lv_headSha s \<noteq> None \<and> lv_headSha s = run_headSha r
     \<and> subseq [Live_read (run_target r) (Inr s), Run_swapped r r (Inr True)] es"

lemma subseq_pair: "x \<in> set es \<Longrightarrow> y \<in> set fs \<Longrightarrow> subseq [x, y] (es @ fs)"
  using list_emb_append_mono[of "(=)" "[x]" es "[y]" fs] by (simp add: subseq_singleton_left)

lemma attests_gate_snapshot: "attests (gate_read r) (gate_snapshot e r)"
  unfolding gate_snapshot_def Let_def
  by (rule attests_before[OF attests_catching[OF attests_live]], simp,
      rule attests_before[OF attests_committed],
      rule attests_before[OF attests_no_conflict])
     (auto simp: gate_read_def subseq_singleton_left intro: attests_leaving)

lemma attests_authenticated:
  "attests (\<lambda>_ es. native_evidence_used e r \<longrightarrow> Review_authenticated r s (Inr True) \<in> set es) (authenticated_review e r s)"
proof -
  have checked: "attests (\<lambda>ok es. ok \<longrightarrow> Review_authenticated r s (Inr True) \<in> set es)
     (if we_claims e \<and> we_native e then request (Review_authenticated r s) (we_authenticate e r s) else give False)"
    by (auto intro!: attests_weaken[OF attests_request])
  show ?thesis
  proof (cases "native_evidence_used e r")
    case True
    have "attests (\<lambda>_ es. Review_authenticated r s (Inr True) \<in> set es)
      (before (if we_claims e \<and> we_native e then request (Review_authenticated r s) (we_authenticate e r s) else give False)
        (\<lambda>ok. if ok then give () else park_native e r W_qualification q q))" for q
      by (rule attests_before[OF checked]) (auto intro: attests_leaving)
    with True show ?thesis unfolding authenticated_review_def Let_def
      by (simp only: not_True_eq_False if_False simp_thms) (rule attests_skip, auto intro!: plain_request)
  next
    case False
    then show ?thesis using attests_plain[OF plain_steps(7)] by simp
  qed
qed

section \<open>Promotions with their warrant\<close>

definition warrants :: "workflow_environment \<Rightarrow> workflow_trace \<Rightarrow> 'a working \<Rightarrow> bool" where
  "warrants e pre m \<longleftrightarrow> (list_all (\<lambda>y. \<not> promoting y) pre \<longrightarrow> ensures m (\<lambda>x es. warranted e (pre @ es)))"

lemma warrants_plain: "plain.obeys P m \<Longrightarrow> warrants e pre m"
  unfolding warrants_def plain.obeys_def by (auto elim!: ensures_weaken intro: warranted_plain)

lemma warrants_before:
  assumes "attests P m" and "\<And>v es. P v es \<Longrightarrow> warrants e (pre @ es) (k v)"
  shows "warrants e pre (before m k)"
  unfolding warrants_def
proof
  assume pre: "list_all (\<lambda>y. \<not> promoting y) pre"
  show "ensures (before m k) (\<lambda>x es. warranted e (pre @ es))"
  proof (rule ensures_before[OF assms(1)[unfolded attests_def]])
    fix v es
    assume "list_all (\<lambda>y. \<not> promoting y) es \<and> (case Inr v of Inl _ \<Rightarrow> True | Inr v \<Rightarrow> P v es)"
    then show "ensures (k v) (\<lambda>x fs. warranted e (pre @ es @ fs))"
      using assms(2)[of v es] pre unfolding warrants_def by simp
  qed (use pre in \<open>auto intro!: warranted_plain\<close>)
qed

lemma warrants_skip: "plain.obeys (\<lambda>_. True) m \<Longrightarrow> (\<And>v es. warrants e (pre @ es) (k v)) \<Longrightarrow> warrants e pre (before m k)"
  by (rule warrants_before[OF attests_plain])

text \<open>The swap of a promotion is the last thing a commit writes.\<close>

lemma committed_swaps:
  "ensures (committed e r n q) (\<lambda>x es. \<forall>a b ok. Run_swapped a b ok \<in> set es \<longrightarrow> a = r \<and> b = n)"
proof -
  have "ensures (update_if_current e r n) (\<lambda>x es. \<forall>a b ok. Run_swapped a b ok \<in> set es \<longrightarrow> a = r \<and> b = n)"
    by (auto simp: update_if_current_def intro!: ensures_weaken[OF ensures_request])
  moreover have stale: "ensures (stale_outcome e r q) (\<lambda>x es. \<forall>a b ok. Run_swapped a b ok \<notin> set es)"
    unfolding stale_outcome_def read_again_def
    by (rule ensures_before[OF ensures_request]) (auto simp: stop_with_def)
  ultimately show ?thesis unfolding committed_def
    by (elim ensures_before) (auto intro!: ensures_weaken[OF stale])
qed

lemma warrants_commit:
  assumes "\<And>ok es. Run_swapped r n ok \<in> set es \<Longrightarrow> run_state r = FINAL_GATE \<Longrightarrow> gate_warrant e r n ok (pre @ es)"
    and "\<And>ok es. Run_swapped r n ok \<in> set es \<Longrightarrow> run_state r = VALIDATING \<Longrightarrow> validation_warrant e r n ok (pre @ es)"
    and "plain.obeys P m"
  shows "warrants e pre (before (committed e r n q) (\<lambda>_. m))"
  unfolding warrants_def
proof
  assume pre: "list_all (\<lambda>y. \<not> promoting y) pre"
  have written: "warranted e (pre @ es)" if "\<forall>a b ok. Run_swapped a b ok \<in> set es \<longrightarrow> a = r \<and> b = n" for es
    unfolding warranted_def
  proof (intro allI impI)
    fix a b ok
    assume "Run_swapped a b ok \<in> set (pre @ es)"
    then consider "Run_swapped a b ok \<in> set pre" | "Run_swapped a b ok \<in> set es" by auto
    then show "(run_state a = FINAL_GATE \<and> run_state b = MERGE_READY \<longrightarrow> gate_warrant e a b ok (pre @ es))
      \<and> (run_state a = VALIDATING \<and> run_state b = REVIEWING \<longrightarrow> validation_warrant e a b ok (pre @ es))"
    proof cases
      case 1
      with pre show ?thesis by (auto simp: list_all_iff promotes_def)
    next
      case 2
      with that have "a = r" "b = n" by blast+
      with 2 assms(1,2) show ?thesis by blast
    qed
  qed
  show "ensures (before (committed e r n q) (\<lambda>_. m)) (\<lambda>x es. warranted e (pre @ es))"
  proof (rule ensures_before[OF committed_swaps])
    fix x :: unit and es
    assume "\<forall>a b ok. Run_swapped a b ok \<in> set es \<longrightarrow> a = r \<and> b = n"
    from written[OF this] show "ensures m (\<lambda>y fs. warranted e (pre @ es @ fs))"
      using assms(3) warranted_append[OF _ warranted_plain, of e "pre @ es"] unfolding plain.obeys_def
      by (auto elim!: ensures_weaken)
  qed (rule written)
qed

section \<open>The final gate\<close>

lemma plain_keep_on: "in_type i \<noteq> T_validation_passed \<Longrightarrow> plain.obeys (\<lambda>_. True) (keep_on e r i q c)"
  unfolding keep_on_def
  by (rule plain.obeys_before[OF plain_moved]) (auto intro!: plain_intros simp: accepts_not_promoting)

definition gate_ready :: "workflow_environment \<Rightarrow> run \<Rightarrow> live_snapshot \<Rightarrow> validation_policy \<Rightarrow> workflow_trace \<Rightarrow> bool" where
  "gate_ready e r s q pre \<longleftrightarrow>
     pull_request_identity_conflict r s True = None \<and> lv_headSha s \<noteq> None \<and> lv_headSha s = run_headSha r
     \<and> is_validation_fresh r (active_validation_configuration q) \<and> \<not> hosted_differs r s q
     \<and> h_status (hosted_validation s (vp_hosted q)) \<noteq> H_waiting
     \<and> readiness_problems s (hosted_validation s (vp_hosted q)) = []
     \<and> subseq ([Live_read (run_target r) (Inr s), Run_swapped r r (Inr True)]
         @ (if native_evidence_used e r then [Review_authenticated r s (Inr True)] else []) @ [Policy_read q]) pre"

lemma gate_ready_warrant:
  assumes "gate_ready e r s q pre" and "complete_live_final_gate r now (active_validation_configuration p) = Some n"
    and "we_fenced e \<longrightarrow> l = [Lane_checked Lane_may_publish (Inr ())]" and "Run_swapped r n ok \<in> set es"
  shows "gate_warrant e r n ok ((((pre @ l) @ m) @ [Policy_read p]) @ es)"
proof -
  have "subseq ((if we_fenced e then [Lane_checked Lane_may_publish (Inr ())] else [])
      @ [] @ [Policy_read p] @ [Run_swapped r n ok]) (l @ m @ [Policy_read p] @ es)"
    using assms(3,4) by (intro list_emb_append_mono) (auto simp: subseq_singleton_left)
  then have "subseq ((if we_fenced e then [Lane_checked Lane_may_publish (Inr ())] else [])
      @ [Policy_read p, Run_swapped r n ok]) (l @ m @ [Policy_read p] @ es)" by simp
  with assms(1) have "subseq (([Live_read (run_target r) (Inr s), Run_swapped r r (Inr True)]
         @ (if native_evidence_used e r then [Review_authenticated r s (Inr True)] else []) @ [Policy_read q])
       @ (if we_fenced e then [Lane_checked Lane_may_publish (Inr ())] else []) @ [Policy_read p, Run_swapped r n ok])
     (pre @ l @ m @ [Policy_read p] @ es)"
    unfolding gate_ready_def by (blast intro: list_emb_append_mono)
  with assms(1,2) show ?thesis
    unfolding gate_warrant_def gate_ready_def append_assoc by blast
qed

lemma warrants_publish: "gate_ready e r s q pre \<Longrightarrow> warrants e pre (publish_readiness e r s c)"
  unfolding publish_readiness_def
proof (rule warrants_before[OF attests_lane], rule warrants_skip, simp, rule warrants_before[OF attests_policy])
  fix l now m p es
  assume g: "gate_ready e r s q pre" and l: "we_fenced e \<longrightarrow> l = [Lane_checked Lane_may_publish (Inr ())]"
    and es: "es = [Policy_read p]"
  show "warrants e (((pre @ l) @ m) @ es) (case complete_live_final_gate r now (active_validation_configuration p) of
      None \<Rightarrow> plain_throw e (Gating Gate_refused)
    | Some n \<Rightarrow> before (committed e r n ''Run changed before final-gate readiness publication; preserving the newer Run.'')
        (\<lambda>_. give (if we_merges e then Submits_merge n s else Goes_on n c)))"
  proof (cases "complete_live_final_gate r now (active_validation_configuration p)")
    case None
    then show ?thesis by (simp add: warrants_plain[OF plain_exits(2)])
  next
    case (Some n)
    then have "run_state r = FINAL_GATE" by (simp add: complete_live_final_gate_def split: if_splits)
    with gate_ready_warrant[OF g Some l] Some es show ?thesis
      by (auto intro!: warrants_commit[where P = "\<lambda>_. True"])
  qed
qed

lemma warrants_live_gate: "warrants e pre (live_gate e c r)"
  unfolding live_gate_def
proof (rule warrants_before[OF attests_gate_snapshot], rule warrants_before[OF attests_authenticated],
    rule warrants_skip, simp, rule warrants_before[OF attests_policy])
  fix s es u fs v gs q hs
  assume read: "gate_read r s es" and auth: "native_evidence_used e r \<longrightarrow> Review_authenticated r s (Inr True) \<in> set fs"
    and q: "hs = [Policy_read q]"
  let ?pre = "(((pre @ es) @ fs) @ gs) @ hs" and ?hosted = "hosted_validation s (vp_hosted q)"
  have "subseq ([] @ [Live_read (run_target r) (Inr s), Run_swapped r r (Inr True)]
      @ (if native_evidence_used e r then [Review_authenticated r s (Inr True)] else []) @ [] @ [Policy_read q])
    (pre @ es @ fs @ gs @ hs)"
    using read auth q by (intro list_emb_append_mono) (auto simp: gate_read_def subseq_singleton_left)
  then have ready: "gate_ready e r s q ?pre"
    if "is_validation_fresh r (active_validation_configuration q)" "\<not> hosted_differs r s q"
      "h_status ?hosted \<noteq> H_waiting" "readiness_problems s ?hosted = []"
    using that read by (auto simp: gate_ready_def gate_read_def)
  have judged: "warrants e ?pre (judge_readiness e r s ?hosted c)"
    if "is_validation_fresh r (active_validation_configuration q)" "\<not> hosted_differs r s q"
    using ready[OF that] unfolding judge_readiness_def Let_def
    by (auto intro: warrants_publish warrants_plain[where P = "\<lambda>_. True"])
  then show "warrants e ?pre (if \<not> is_validation_fresh r (active_validation_configuration q)
      then keep_on e r (reasoned T_revalidate (reason_text e (Gating Gate_policy_changed))) STALE_GATE c
      else if hosted_differs r s q
      then keep_on e r (reasoned T_revalidate (reason_text e (Gating Gate_hosted_differs))) STALE_GATE c
      else judge_readiness e r s ?hosted c)"
    by (auto intro!: warrants_plain[OF plain_keep_on])
qed

lemma warrants_gate: "warrants e pre (final_gate_pass e c r)"
  unfolding final_gate_pass_def
  by (auto intro!: warrants_skip warrants_live_gate warrants_plain[OF plain_keep_on])

section \<open>The validation\<close>

lemma attests_authority: "attests (\<lambda>a es. \<exists>p. Policy_read p \<in> set es \<and> a = active_validation_configuration p) (admitted_authority e r w)"
  unfolding admitted_authority_def Let_def
  by (rule attests_before[OF attests_policy]) (auto intro: attests_leaving split: option.split)

lemma attests_same_authority:
  "attests (\<lambda>p es. Policy_read p \<in> set es \<and> same_validation_authority a (active_validation_configuration p))
     (same_authority_again e r a k j)"
  unfolding same_authority_again_def Let_def
  by (rule attests_before[OF attests_policy]) (auto intro: attests_leaving split: option.split)

lemma attests_validation_snapshot:
  "attests (\<lambda>x es. Live_read (run_target r) (Inr (fst x)) \<in> set es \<and> exact_pull r (fst x) = Some (snd x)) (validation_snapshot e r)"
  unfolding validation_snapshot_def Let_def
  by (rule attests_before[OF attests_catching[OF attests_live]], simp)
     (auto intro!: attests_skip intro: attests_leaving split: option.split)

lemma attests_observed:
  "attests (\<lambda>l es. subseq [Validation_called (local_request_for r h), Validation_answered (Inr l)] es) (observed_local e r h)"
proof -
  have called: "attests (\<lambda>_ es. es = [Validation_called q]) (note_event (Validation_called q))" for q
    by (simp add: attests_def)
  show ?thesis unfolding observed_local_def
    by (rule attests_skip, simp, rule attests_skip, simp, rule attests_before[OF called],
        rule attests_before[OF attests_plain[OF plain_fences(3)]], rule attests_before[OF attests_request], simp,
        rule attests_before[OF attests_plain[OF plain_fences(2)]])
       (auto simp: subseq_singleton_left intro: subseq_extend)
qed

lemma attests_validated:
  "attests (\<lambda>v es. local_source r (v_local v) es) (validate_exact_head e r s)"
proof (cases "run_headSha r")
  case None
  then show ?thesis by (simp add: validate_exact_head_def attests_leaving)
next
  case (Some h)
  have "attests (\<lambda>l es. local_source r l (Policy_read p # es))
     (case reusable_local r p of Some l \<Rightarrow> give l | None \<Rightarrow> observed_local e r h)" for p
    using Some by (auto simp: local_source_def intro!: attests_weaken[OF attests_observed] subseq_extend split: option.split)
  then have "attests (\<lambda>v es. local_source r (v_local v) (Policy_read p # es))
     (before (case reusable_local r p of Some l \<Rightarrow> give l | None \<Rightarrow> observed_local e r h)
        (\<lambda>l. give (combine_validation h l (hosted_validation s (vp_hosted p)))))" for p
    by (rule attests_before) (simp add: combine_validation_def)
  with Some show ?thesis
    unfolding validate_exact_head_def by (auto intro!: attests_before[OF attests_policy])
qed

lemma attests_snapshot_after:
  "attests (\<lambda>x es. subseq [Live_read (run_target r) (Inr (fst x)), Run_swapped r r (Inr True)] es
      \<and> lv_headSha (fst x) = run_headSha r \<and> lv_pullRequest (fst x) = Some (snd x) \<and> same_pull p (fst x))
     (snapshot_after e r p)"
proof -
  have read: "attests (\<lambda>s es. Live_read (run_target r) (Inr s) \<in> set es)
    (before (live_state e (run_target r)) (\<lambda>s. before (final_execution e r True) (\<lambda>_. give s)))"
    by (rule attests_before[OF attests_live], rule attests_before[OF attests_plain[OF plain_fences(2)]]) simp
  show ?thesis unfolding snapshot_after_def
    by (rule attests_before[OF attests_catching[OF read]], simp, rule attests_before[OF attests_committed],
        rule attests_before[OF attests_plain[OF plain_admission(2)]],
        rule attests_before[OF attests_plain[OF plain_strengthen(3)]])
       (auto intro: attests_leaving subseq_pair subseq_extend split: option.split)
qed

definition validation_ready ::
  "run \<Rightarrow> live_snapshot \<Rightarrow> live_pull \<Rightarrow> local_evidence \<Rightarrow> validation_policy \<Rightarrow> workflow_trace \<Rightarrow> bool" where
  "validation_ready r s2 q2 l p2 pre \<longleftrightarrow> (\<exists>p0 p1 s1 q1.
     same_validation_authority (active_validation_configuration p0) (active_validation_configuration p1)
     \<and> same_validation_authority (active_validation_configuration p1) (active_validation_configuration p2)
     \<and> exact_pull r s1 = Some q1 \<and> lv_pullRequest s2 = Some q2 \<and> same_pull q1 s2
     \<and> lv_headSha s2 = run_headSha r \<and> local_source r l pre
     \<and> subseq [Policy_read p0, Live_read (run_target r) (Inr s1), Policy_read p1,
         Live_read (run_target r) (Inr s2), Run_swapped r r (Inr True), Policy_read p2] pre)"

lemma validation_ready_warrant:
  assumes "validation_ready r s2 q2 l p2 pre"
    and "v = combine_validation (opt_text (run_headSha r)) l (hosted_validation s2 (vp_hosted p2))"
    and "v_status v = Passed" "is_validation_result_coherent v"
    and "validation_evidence_matches_active v (active_validation_configuration p2)"
    and "accepts e r (validation_input T_validation_passed q2 r v) n" and "Run_swapped r n ok \<in> set es"
  shows "validation_warrant e r n ok (pre @ es)"
proof -
  obtain p0 p1 s1 q1 where ready:
    "same_validation_authority (active_validation_configuration p0) (active_validation_configuration p1)"
    "same_validation_authority (active_validation_configuration p1) (active_validation_configuration p2)"
    "exact_pull r s1 = Some q1" "lv_pullRequest s2 = Some q2" "same_pull q1 s2"
    "lv_headSha s2 = run_headSha r" "local_source r l pre"
    and order: "subseq [Policy_read p0, Live_read (run_target r) (Inr s1), Policy_read p1,
         Live_read (run_target r) (Inr s2), Run_swapped r r (Inr True), Policy_read p2] pre"
    using assms(1) unfolding validation_ready_def by blast
  have "subseq [Run_swapped r n ok] es" using assms(7) by (simp add: subseq_singleton_left)
  from list_emb_append_mono[OF order this]
  have "subseq [Policy_read p0, Live_read (run_target r) (Inr s1), Policy_read p1,
         Live_read (run_target r) (Inr s2), Run_swapped r r (Inr True), Policy_read p2, Run_swapped r n ok] (pre @ es)"
    by simp
  with ready local_source_extend(1)[OF ready(7)] assms(2-6) show ?thesis
    unfolding validation_warrant_def by blast
qed

lemma warrants_admit:
  assumes "validation_ready r s q l p pre" and "run_state r = VALIDATING"
  shows "warrants e pre (admit_validation e r s q l p c)"
proof -
  let ?v = "combine_validation (opt_text (run_headSha r)) l (hosted_validation s (vp_hosted p))"
  have "warrants e pre (record_validation e r q ?v c)"
    if ok: "is_validation_result_coherent ?v" "validation_evidence_matches_active ?v (active_validation_configuration p)"
  proof (cases "v_status ?v")
    case Passed
    have "warrants e (pre @ es) (before (committed e r n k) (\<lambda>_. give (Goes_on n c)))"
      if n: "accepts e r (validation_input T_validation_passed q r ?v) n" for n es k
    proof -
      have later: "validation_ready r s q l p (pre @ es)"
        using assms(1) unfolding validation_ready_def by (blast intro: subseq_extend local_source_extend)
      show ?thesis
        using assms(2) validation_ready_warrant[OF later refl Passed ok n]
        by (intro warrants_commit[where P = "\<lambda>_. True"]) simp_all
    qed
    with Passed show ?thesis
      by (auto simp: record_validation_def intro!: warrants_before[OF attests_plain[OF plain_moved]])
  next
    case Failed
    then show ?thesis
      by (auto simp: record_validation_def accepts_not_promoting
            intro!: warrants_plain[where P = "\<lambda>_. True"] plain.obeys_before[OF plain_moved] plain_intros)
  qed (auto simp: record_validation_def Let_def intro!: warrants_plain[where P = "\<lambda>_. True"])
  then show ?thesis unfolding admit_validation_def Let_def
    by (auto intro!: warrants_plain[where P = "\<lambda>_. True"])
qed

lemma warrants_validating:
  assumes "run_state r = VALIDATING"
  shows "warrants e pre (validating_pass e c r)"
  unfolding validating_pass_def
proof (rule warrants_skip, rule plain_request, simp, simp, rule warrants_before[OF attests_authority],
    rule warrants_before[OF attests_validation_snapshot], unfold split_def, rule warrants_skip, simp,
    rule warrants_before[OF attests_catching[OF attests_validated]], simp,
    rule warrants_before[OF attests_same_authority], rule warrants_before[OF attests_snapshot_after],
    rule warrants_before[OF attests_same_authority])
  fix chosen es0 a es1 x es2 u es3 v es4 b es5 y es6 q es7
  assume a: "\<exists>p. Policy_read p \<in> set es1 \<and> a = active_validation_configuration p"
    and x: "Live_read (run_target r) (Inr (fst x)) \<in> set es2 \<and> exact_pull r (fst x) = Some (snd x)"
    and v: "local_source r (v_local v) es4"
    and b: "Policy_read b \<in> set es5 \<and> same_validation_authority a (active_validation_configuration b)"
    and y: "subseq [Live_read (run_target r) (Inr (fst y)), Run_swapped r r (Inr True)] es6
      \<and> lv_headSha (fst y) = run_headSha r \<and> lv_pullRequest (fst y) = Some (snd y) \<and> same_pull (snd x) (fst y)"
    and q: "Policy_read q \<in> set es7
      \<and> same_validation_authority (active_validation_configuration b) (active_validation_configuration q)"
  let ?pre = "(((((((pre @ es0) @ es1) @ es2) @ es3) @ es4) @ es5) @ es6) @ es7"
  from a obtain p where p: "Policy_read p \<in> set es1" "a = active_validation_configuration p" by blast
  have "subseq ([] @ [] @ [Policy_read p] @ [Live_read (run_target r) (Inr (fst x))] @ [] @ [] @ [Policy_read b]
      @ [Live_read (run_target r) (Inr (fst y)), Run_swapped r r (Inr True)] @ [Policy_read q])
    (pre @ es0 @ es1 @ es2 @ es3 @ es4 @ es5 @ es6 @ es7)"
    by (intro list_emb_append_mono) (simp_all add: p x b y q subseq_singleton_left)
  then have order: "subseq [Policy_read p, Live_read (run_target r) (Inr (fst x)), Policy_read b,
      Live_read (run_target r) (Inr (fst y)), Run_swapped r r (Inr True), Policy_read q] ?pre" by simp
  have "local_source r (v_local v) ?pre"
    by (rule local_source_extend(1)[OF local_source_extend(1)[OF local_source_extend(1)[OF local_source_extend(2)[OF v]]]])
  with order p x b y q have "validation_ready r (fst y) (snd y) (v_local v) q ?pre"
    unfolding validation_ready_def by blast
  then show "warrants e ?pre (admit_validation e r (fst y) (snd y) (v_local v) q c)"
    using assms by (rule warrants_admit)
qed

section \<open>The loop\<close>

interpretation promoted: program_contract "warranted e" "\<lambda>_. True" for e
  by unfold_locales (simp_all add: warranted_append warranted_plain)

lemma warrants_obeys: "(\<And>pre. warrants e pre m) \<Longrightarrow> promoted.obeys e (\<lambda>_. True) m"
  using warrants_def[of e "[]" m] unfolding promoted.obeys_def
  by (auto elim: ensures_weaken split: sum.splits)

lemma plain_ready: "plain.obeys (\<lambda>_. True) (ready_pass e c r)"
  by (auto simp: ready_pass_def plain_keep_on)

lemma waiting_not_promoting: "run_state r = WAITING_DEPENDENCY \<Longrightarrow> \<not> promotes r n"
  by (simp add: promotes_def)

lemma plain_waiting: "run_state r = WAITING_DEPENDENCY \<Longrightarrow> plain.obeys (\<lambda>_. True) (waiting_pass e c r)"
  unfolding waiting_pass_def native_reentry_def revalidate_historical_def Let_def
  by (auto intro!: plain_intros simp: waiting_not_promoting plain_keep_on)

lemma warranted_turn: "promoted.obeys e (\<lambda>_. True) (workflow_turn e c r)"
proof -
  have plain: "plain.obeys (\<lambda>_. True) m \<Longrightarrow> promoted.obeys e (\<lambda>_. True) m" for m :: "turn_end working"
    by (rule warrants_obeys) (rule warrants_plain)
  have "promoted.obeys e (\<lambda>_. True) (state_pass e c r (run_state r))"
    by (cases "run_state r")
       (auto intro!: plain warrants_obeys[OF warrants_validating] warrants_obeys[OF warrants_gate] plain_ready plain_waiting
          plain_intros simp: start_pass_def plain_keep_on)
  then show ?thesis unfolding workflow_turn_def
    by (rule promoted.obeys_seq[OF warrants_obeys[OF warrants_plain[OF plain_admission(4)]]])
qed

lemma warranted_turns: "promoted.obeys e (\<lambda>_. True) (workflow_turns e n c r)"
  by (induction n arbitrary: c r)
     (auto intro!: promoted.obeys_seq[OF warranted_turn] split: turn_end.split)

end
