(* ===== verification/Workflow_Properties.thy ===== *)
theory Workflow_Properties
  imports Workflow_Warrants
begin

text \<open>
  What the workflow's loop guarantees: it stops or hands over after at most six turns, and it
  promotes a run only on evidence that was read live and is still the configured authority's.
\<close>

section \<open>Turns come to an end\<close>

text \<open>What programs return, whatever they called.\<close>

interpretation returning: program_contract "\<lambda>_. True" "\<lambda>_. True"
  by unfold_locales auto

lemma plain_returning: "plain.obeys P m \<Longrightarrow> returning.obeys P m"
  unfolding plain.obeys_def returning.obeys_def by (erule ensures_weaken) (auto split: sum.splits)

lemmas returning_plain [simp] =
  plain_exits[THEN plain_returning] plain_calls(1,2,4-9)[THEN plain_returning] plain_strengthen[THEN plain_returning]
  plain_stale[THEN plain_returning] plain_moved_any[THEN plain_returning] plain_parking[THEN plain_returning]
  plain_reconcile[THEN plain_returning] plain_park_native[THEN plain_returning] plain_admission[THEN plain_returning]
  plain_failures[THEN plain_returning] plain_steps[THEN plain_returning]

lemma returning_stopping [simp]: "in_type i \<noteq> T_validation_passed \<Longrightarrow> returning.obeys P (stopping e r i q f)"
  by (simp add: plain_returning)

text \<open>How many turns a run needs before the loop stops or hands it over.\<close>

definition turns_needed :: "bool \<Rightarrow> run \<Rightarrow> nat" where
  "turns_needed cached r =
     (case run_state r of
        READY \<Rightarrow> 2 | VALIDATING \<Rightarrow> 2
      | FINAL_GATE \<Rightarrow> if cached then 5 else 3
      | MERGE_READY \<Rightarrow> if cached then 4 else 1
      | WAITING_DEPENDENCY \<Rightarrow> if run_interruptedFrom r = None then 1 else 6
      | _ \<Rightarrow> 1)"

definition closer :: "bool \<Rightarrow> run \<Rightarrow> turn_end \<Rightarrow> bool" where
  "closer cached r x \<longleftrightarrow>
     (case x of Goes_on n c \<Rightarrow> turns_needed c n < turns_needed cached r | _ \<Rightarrow> True)"

lemma closer_simps [simp]:
  "closer cached r (Goes_on n c) \<longleftrightarrow> turns_needed c n < turns_needed cached r"
  "closer cached r (Implements n)" "closer cached r (Reviews n)" "closer cached r (Submits_merge n s)"
  by (simp_all add: closer_def)

lemma acceptsD:
  assumes "accepts e r i n"
  obtains t now where "table_target (run_state r) (in_type i) = Some t" "resolve_target r i t = Inr (run_state n)"
    "n = finish_transition (rh_oracle (wh_review (we_host e))) r i now (run_state n)"
proof -
  from assms obtain now where "transition (wh_review (we_host e)) r i now None = Inr n"
    unfolding accepts_def by blast
  then have "apply_transition (rh_oracle (wh_review (we_host e))) r i now None = Inr n"
    by (simp add: transition_def split: sum.splits)
  then obtain t u where "table_target (run_state r) (in_type i) = Some t" "resolve_target r i t = Inr u"
    "n = finish_transition (rh_oracle (wh_review (we_host e))) r i now u" by (rule apply_transitionD)
  then show thesis by (auto simp: finish_fields intro!: that)
qed

lemma accepts_to:
  assumes "accepts e r i n" and "table_target (run_state r) (in_type i) = Some (To u)"
  shows "run_state n = u"
  using assms(1) by (rule acceptsD) (use assms(2) in \<open>auto simp: resolve_target_def\<close>)

lemma resumed_run:
  assumes "accepts e r i n" and "run_state r = WAITING_DEPENDENCY" and "in_type i = T_dependency_satisfied"
  shows "run_interruptedFrom r \<noteq> None" "run_interruptedFrom n = None"
proof -
  from assms(1) obtain t now where
    t: "table_target (run_state r) (in_type i) = Some t" "resolve_target r i t = Inr (run_state n)"
       "n = finish_transition (rh_oracle (wh_review (we_host e))) r i now (run_state n)" by (rule acceptsD)
  from t(1,2) assms(2,3) show "run_interruptedFrom r \<noteq> None"
    by (auto simp: table_target_def resolve_target_def split: option.splits)
  from t(3) assms(2) show "run_interruptedFrom n = None"
    by (metis finish_fields(8) is_interrupt_state_def)
qed

lemma returning_committed [simp]: "returning.obeys (\<lambda>_. True) (committed e a b q)"
proof -
  have "returning.obeys (\<lambda>_. True) (update_if_current e a b)"
    by (auto simp: update_if_current_def request_def given_answer_def throw_out_def
          intro!: returning.obeys_look_seq returning.obeys_seq split: sum.split)
  then show ?thesis unfolding committed_def
    by (auto intro!: returning.obeys_seq)
qed

lemma returning_written:
  assumes "\<And>n. accepts e r i n \<Longrightarrow> returning.obeys P (k n)"
  shows "returning.obeys P (before (moved e r i) (\<lambda>n. before (committed e r (f n) q) (\<lambda>_. k n)))"
  by (rule returning.obeys_before[OF plain_returning[OF plain_moved]])
     (auto intro!: returning.obeys_seq[OF returning_committed] assms)

lemma returning_keep_on:
  "(\<And>n. accepts e r i n \<Longrightarrow> P (Goes_on n c)) \<Longrightarrow> returning.obeys P (keep_on e r i q c)"
  unfolding keep_on_def by (rule returning_written[where f = "\<lambda>n. n"]) simp

section \<open>Each turn is one turn less\<close>

lemma closer_start: "run_state r = READY \<Longrightarrow> returning.obeys (closer c r) (start_pass e c r)"
  unfolding start_pass_def
  by (rule returning_keep_on) (auto dest!: accepts_to simp: table_target_def turns_needed_def)

lemma closer_record: "run_state r = VALIDATING \<Longrightarrow> returning.obeys (closer c r) (record_validation e r p v c)"
  by (cases "v_status v")
     (auto simp: record_validation_def Let_def turns_needed_def table_target_def
        intro!: returning_written[where f = "\<lambda>n. n"] dest!: accepts_to)

lemma closer_validating: "run_state r = VALIDATING \<Longrightarrow> returning.obeys (closer c r) (validating_pass e c r)"
  unfolding validating_pass_def admit_validation_def Let_def
  by (auto simp: split_def closer_record plain_returning[OF plain_request] plain_returning[OF plain_catching]
        intro!: returning.obeys_seq)

lemma closer_publish: "run_state r = FINAL_GATE \<Longrightarrow> returning.obeys (closer c r) (publish_readiness e r s c)"
  unfolding publish_readiness_def
  by (auto simp: complete_live_final_gate_def turns_needed_def intro!: returning.obeys_seq split: option.split)

lemma gate_targets:
  "table_target FINAL_GATE T_revalidate = Some (To VALIDATING)" "table_target FINAL_GATE T_gate_blocked = Some (To REVIEWING)"
  by (simp_all add: table_target_def)

lemma closer_keep_gate:
  assumes "run_state r = FINAL_GATE" and "in_type i = T_revalidate \<or> in_type i = T_gate_blocked"
  shows "returning.obeys (closer c r) (keep_on e r i q c)"
proof (rule returning_keep_on)
  fix n assume "accepts e r i n"
  with assms have "run_state n = VALIDATING \<or> run_state n = REVIEWING"
    by (auto dest: accepts_to simp: gate_targets)
  with assms(1) show "closer c r (Goes_on n c)" by (auto simp: turns_needed_def)
qed

lemma closer_gate: "run_state r = FINAL_GATE \<Longrightarrow> returning.obeys (closer c r) (final_gate_pass e c r)"
  unfolding final_gate_pass_def live_gate_def judge_readiness_def Let_def
  by (auto intro!: returning.obeys_seq closer_keep_gate closer_publish)

lemma closer_ready: "run_state r = MERGE_READY \<Longrightarrow> returning.obeys (closer c r) (ready_pass e c r)"
  unfolding ready_pass_def
  by (auto intro!: returning_keep_on dest!: accepts_to simp: table_target_def turns_needed_def)

lemma needed_bound: "run_interruptedFrom n = None \<Longrightarrow> turns_needed c n < 6"
  by (simp add: turns_needed_def split: workflow_state.split)

lemma resumed_closer:
  assumes "accepts e r i n" and "run_state r = WAITING_DEPENDENCY" and "in_type i = T_dependency_satisfied"
  shows "turns_needed c n < turns_needed c r"
    "turns_needed c (n\<lparr>run_nativeReview := l\<rparr>) < turns_needed c r"
proof -
  have "turns_needed c r = 6" using resumed_run(1)[OF assms] assms(2) by (auto simp: turns_needed_def)
  then show "turns_needed c n < turns_needed c r" "turns_needed c (n\<lparr>run_nativeReview := l\<rparr>) < turns_needed c r"
    using resumed_run(2)[OF assms] needed_bound[of n c] needed_bound[of "n\<lparr>run_nativeReview := l\<rparr>" c] by simp_all
qed

lemma closer_waiting: "run_state r = WAITING_DEPENDENCY \<Longrightarrow> returning.obeys (closer c r) (waiting_pass e c r)"
  unfolding waiting_pass_def native_reentry_def revalidate_historical_def Let_def
  by (auto intro!: returning.obeys_look_seq returning_keep_on returning.obeys_seq
        returning.obeys_before[OF plain_returning[OF plain_moved]] resumed_closer[OF _ _ input_types(2)]
        simp: time_now_def)

lemma closer_turn: "returning.obeys (closer c r) (workflow_turn e c r)"
  unfolding workflow_turn_def
  by (rule returning.obeys_seq)
     (cases "run_state r"; auto simp: closer_start closer_validating closer_gate closer_ready closer_waiting
        intro!: returning.obeys_seq)+

lemma turns_return: "turns_needed c r \<le> n \<Longrightarrow> returning.obeys (\<lambda>x. x \<noteq> None) (workflow_turns e n c r)"
proof (induction n arbitrary: c r)
  case 0
  then show ?case by (auto simp: turns_needed_def split: workflow_state.splits if_splits)
next
  case (Suc n)
  then show ?case
    by (auto intro!: returning.obeys_before[OF closer_turn] Suc.IH split: turn_end.split simp: le_Suc_eq less_Suc_eq_le)
qed

text \<open>C24. The loop of \<open>runWorkflow\<close> never spins: whatever its calls answer, within six turns it throws,
  stops with an outcome, or hands the run to the worker, the review loop or the merge.\<close>

theorem workflow_loop_yields: "fst (workflow_turns e (6 + k) c r t) \<noteq> Inr None"
proof -
  have "turns_needed c r \<le> 6 + k"
    by (simp add: turns_needed_def split: workflow_state.split)
  from turns_return[OF this, of e] show ?thesis
    unfolding returning.obeys_def ensures_def by (force split: sum.splits)
qed

section \<open>Promotions are warranted\<close>

lemma turns_warranted: "\<exists>es. snd (workflow_turns e n c r t) = t @ es \<and> warranted e es"
  using warranted_turns[of e n c r] unfolding promoted.obeys_def ensures_def by blast

text \<open>C22. A run becomes \<open>MERGE_READY\<close> from the final gate only on a live read of its own HEAD with no
  readiness problem, confirmed unchanged after that read, with native evidence authenticated where it
  is used and the publication fence asked last; the review approves, and the validation is fresh under
  the authority resolved after the read and again at publication.\<close>

theorem readiness_is_live:
  "\<exists>es. snd (workflow_turns e n c r t) = t @ es
     \<and> (\<forall>a b ok. Run_swapped a b ok \<in> set es \<longrightarrow> run_state a = FINAL_GATE \<longrightarrow> run_state b = MERGE_READY
          \<longrightarrow> gate_warrant e a b ok es)"
  using turns_warranted[of e n c r t] unfolding warranted_def by blast

text \<open>C23. A run goes from \<open>VALIDATING\<close> to \<open>REVIEWING\<close> only with passed, coherent evidence of the
  configured authority: the authority was the same before the first read, after the validation and
  after the second read, both reads show the same pull request and the run's HEAD, the hosted part is
  the second read's, and the local part was observed for that HEAD or reused under its revision.\<close>

theorem validation_is_current:
  "\<exists>es. snd (workflow_turns e n c r t) = t @ es
     \<and> (\<forall>a b ok. Run_swapped a b ok \<in> set es \<longrightarrow> run_state a = VALIDATING \<longrightarrow> run_state b = REVIEWING
          \<longrightarrow> validation_warrant e a b ok es)"
  using turns_warranted[of e n c r t] unfolding warranted_def by blast

section \<open>Hosted evidence\<close>

lemma policy_status:
  "evaluate_hosted_check_policy (Some x) (Some names) (Some (Checks_required r)) =
     (if \<not> set (required_names (Checks_required r)) \<subseteq> set names then H_unknown
      else case x of O_failing \<Rightarrow> H_failed | O_pending \<Rightarrow> H_waiting
         | O_passing \<Rightarrow> if names = [] then H_unknown else H_passed | _ \<Rightarrow> H_unknown)"
  by (cases x) (auto simp: evaluate_hosted_check_policy_def)

text \<open>C25. What the workflow writes about the hosted checks is accepted by the validator of persisted
  evidence exactly when its texts and numbers are filled: the time of the observation, every name
  of a check, the policy's revision and required names are not blank and the pull request, if any,
  has a positive number; whatever the policy, the availability and the checks' state, the status
  itself is then the coherent one. It says passed exactly when a required policy saw available,
  passing checks, at least one, and every required name among them.\<close>

theorem hosted_evidence_coherent:
  "(is_hosted_evidence (hosted_validation s q) \<longleftrightarrow>
       \<not> blank (lv_observedAt s)
       \<and> absent_or (\<lambda>p. is_safe_integer (lp_number p) \<and> 1 \<le> lp_number p) (lv_pullRequest s)
       \<and> list_all (\<lambda>c. \<not> blank (ck_name c)) (cs_checks (lv_checks s))
       \<and> absent_or (\<lambda>c. \<not> blank (hp_revision c) \<and> list_all (\<lambda>n. \<not> blank n) (required_names (hp_policy c))) q)
     \<and> (h_status (hosted_validation s q) = H_passed \<longleftrightarrow>
         (\<exists>c names. q = Some c \<and> hp_policy c = Checks_required names \<and> cs_availability (lv_checks s) = Available
            \<and> cs_overall (lv_checks s) = O_passing \<and> cs_checks (lv_checks s) \<noteq> []
            \<and> set (required_names (hp_policy c)) \<subseteq> set (map ck_name (cs_checks (lv_checks s)))))"
proof -
  let ?e = "hosted_validation s q"
  let ?filled = "\<not> blank (h_observedAt ?e) \<and> absent_or (\<lambda>n. is_safe_integer n \<and> 1 \<le> n) (h_pullRequestNumber ?e)
      \<and> absent_or (\<lambda>r. \<not> blank r) (h_policyRevision ?e)
      \<and> (\<forall>n \<in> set (h_requiredCheckNames ?e). \<not> blank n) \<and> (\<forall>n \<in> set (h_observedCheckNames ?e). \<not> blank n)"
  have filled: "?filled \<longleftrightarrow> \<not> blank (lv_observedAt s)
      \<and> absent_or (\<lambda>p. is_safe_integer (lp_number p) \<and> 1 \<le> lp_number p) (lv_pullRequest s)
      \<and> list_all (\<lambda>c. \<not> blank (ck_name c)) (cs_checks (lv_checks s))
      \<and> absent_or (\<lambda>c. \<not> blank (hp_revision c) \<and> list_all (\<lambda>n. \<not> blank n) (required_names (hp_policy c))) q"
    by (cases q; cases "lv_pullRequest s") (auto simp: hosted_validation_def Let_def list_all_iff absent_or_def)
  have "(is_hosted_evidence ?e \<longleftrightarrow> ?filled) \<and> (h_status ?e = H_passed \<longleftrightarrow>
      (\<exists>c names. q = Some c \<and> hp_policy c = Checks_required names \<and> cs_availability (lv_checks s) = Available
         \<and> cs_overall (lv_checks s) = O_passing \<and> cs_checks (lv_checks s) \<noteq> []
         \<and> set (required_names (hp_policy c)) \<subseteq> set (map ck_name (cs_checks (lv_checks s)))))"
  proof (cases q)
    case None
    then show ?thesis
      by (simp add: is_hosted_evidence_def hosted_validation_def Let_def evaluate_hosted_check_policy_def)
  next
    case (Some c)
    show ?thesis
    proof (cases "hp_policy c")
      case Checks_not_required
      with Some show ?thesis
        by (simp add: is_hosted_evidence_def hosted_validation_def Let_def evaluate_hosted_check_policy_def
              policy_mode_of_def required_names_def)
    next
      case (Checks_required names)
      with Some show ?thesis
        by (cases "cs_overall (lv_checks s)"; cases "cs_availability (lv_checks s)")
           (auto simp: is_hosted_evidence_def hosted_validation_def Let_def policy_status policy_mode_of_def
              expected_hosted_status_def split: if_splits)
    qed
  qed
  then show ?thesis by (simp only: filled)
qed

end
