(* ===== verification/Workflow_Witnesses.thy ===== *)
theory Workflow_Witnesses
  imports Workflow_Properties Transition_Witnesses
begin

text \<open>
  A sample environment in which GitHub, the store and the validation runner answer well: the sample
  run is validated and, once approved, becomes ready; and the properties with hypotheses at it.
\<close>

definition gate_snapshot_sample :: live_snapshot where
  "gate_snapshot_sample =
     \<lparr>lv_repository = (''Acme'', ''Widgets''), lv_defaultBranch = Some ''main'',
      lv_defaultBranchHeadSha = Some ''base'',
      lv_issue = \<lparr>is_id = ''I42'', is_number = 42, is_updatedAt = ''t0'', is_title = ''Fix'', is_body = ''body''\<rparr>,
      lv_issueState = Issue_open, lv_issueUrl = [], lv_issueCreatedAt = ''t0'',
      lv_pullRequest = Some
        \<lparr>lp_number = 7, lp_headSha = ''abc'', lp_baseSha = ''base'', lp_state = Pull_open, lp_id = ''P7'',
         lp_title = ''Fix'', lp_url = [], lp_isDraft = False, lp_mergeable = Some True,
         lp_mergeStateStatus = Some ''clean'', lp_updatedAt = ''t0'', lp_mergeCommitSha = None,
         lp_headRef = Some ''topic'', lp_headRepository = Some (''acme'', ''widgets''),
         lp_baseRef = Some ''main'', lp_baseRepository = Some (''acme'', ''widgets'')\<rparr>,
      lv_headSha = Some ''abc'',
      lv_checks = \<lparr>cs_availability = Available, cs_overall = O_passing,
        cs_checks = [\<lparr>ck_id = ''1'', ck_name = ''build'', ck_state = Check_passing, ck_url = None, ck_updatedAt = None\<rparr>]\<rparr>,
      lv_reviews = \<lparr>rv_decision = Decision_none, rv_latestByAuthor = [], rv_unresolvedThreads = Some 0\<rparr>,
      lv_conversations = [], lv_handoff = None, lv_problems = [], lv_observedAt = ''t1''\<rparr>"

definition sample_policy :: validation_policy where
  "sample_policy =
     \<lparr>vp_local = Some ''local-1'',
      vp_hosted = Some \<lparr>hp_revision = ''hosted-1'', hp_policy = Checks_required (Some [''build''])\<rparr>\<rparr>"

definition sample_workflow_host :: workflow_host where
  "sample_workflow_host =
     \<lparr>wh_review = \<lparr>rh_oracle = sample_host, rh_packet = plain_packet_host, rh_packet_digest = pk_rendered,
        rh_execution_digest = (\<lambda>x. []), rh_validation_json = (\<lambda>v. []),
        rh_dates = \<lparr>dh_date = (\<lambda>s. Some 0), dh_iso = (\<lambda>n. Some [])\<rparr>, rh_text = (\<lambda>r. ''reason'')\<rparr>,
      wh_mission = \<lparr>mh_sha256 = (\<lambda>s. s), mh_path = Some\<rparr>, wh_text = (\<lambda>r. ''reason''),
      wh_refused = (\<lambda>x. \<lparr>th_kind = Plain_error, th_message = [], th_code = None, th_retryable = False\<rparr>)\<rparr>"

definition sample_workflow :: workflow_environment where
  "sample_workflow =
     \<lparr>we_host = sample_workflow_host, we_now = (\<lambda>k t. ''t1''), we_swaps = True, we_fenced = True,
      we_workspace = None, we_normal = True, we_claims = True, we_native = False, we_notes = True, we_merges = False,
      we_ownedValidation = False, we_read = (\<lambda>i t. Inr None), we_swap = (\<lambda>r s t. Inr True),
      we_live = (\<lambda>g t. Inr gate_snapshot_sample), we_policy = (\<lambda>t. sample_policy),
      we_strengthen = (\<lambda>v t. Inr ()), we_lane = (\<lambda>c t. Inr ()), we_initiation = (\<lambda>r t. Inr ()),
      we_claim = (\<lambda>r t. Inr ()), we_note = (\<lambda>t. Inr ()), we_available = (\<lambda>t. False),
      we_bootstrap = (\<lambda>x t. Inr None), we_ready = (\<lambda>b h t. Inr b), we_guard = (\<lambda>b t. Inr ()),
      we_verify = (\<lambda>b h t. Inr ()), we_validate = (\<lambda>q t. Inr (v_local sample_validation)),
      we_callbacks = (\<lambda>t. 1), we_authenticate = (\<lambda>r s t. Inr False)\<rparr>"

definition promotes_in :: "workflow_state \<Rightarrow> workflow_state \<Rightarrow> workflow_effect \<Rightarrow> bool" where
  "promotes_in a b x = (case x of Run_swapped r n ok \<Rightarrow> run_state r = a \<and> run_state n = b | _ \<Rightarrow> False)"

lemma sample_promotions:
  "list_ex (promotes_in FINAL_GATE MERGE_READY) (snd (workflow_turns sample_workflow 1 False gated_run []))
   \<and> list_ex (promotes_in VALIDATING REVIEWING) (snd (workflow_turns sample_workflow 1 False validating_run []))"
  by code_simp

lemma promotes_inD:
  "list_ex (promotes_in a b) es \<Longrightarrow> \<exists>r n ok. Run_swapped r n ok \<in> set es \<and> run_state r = a \<and> run_state n = b"
proof -
  assume "list_ex (promotes_in a b) es"
  then obtain x where x: "x \<in> set es" "promotes_in a b x" unfolding list_ex_iff by blast
  from x(2) obtain r n ok where "x = Run_swapped r n ok" "run_state r = a" "run_state n = b"
    by (cases x) (simp_all add: promotes_in_def)
  with x(1) show ?thesis by blast
qed

theorem readiness_is_live_witness:
  "\<exists>r n ok es. es = snd (workflow_turns sample_workflow 1 False gated_run [])
     \<and> run_state n = MERGE_READY \<and> gate_warrant sample_workflow r n ok es"
proof -
  from promotes_inD[OF sample_promotions[THEN conjunct1]] obtain r n ok where
    promoted: "Run_swapped r n ok \<in> set (snd (workflow_turns sample_workflow 1 False gated_run []))"
    "run_state r = FINAL_GATE" "run_state n = MERGE_READY" by blast
  from readiness_is_live[of sample_workflow 1 False gated_run "[]"] obtain es where
    es: "snd (workflow_turns sample_workflow 1 False gated_run []) = [] @ es"
    and warrant: "\<forall>a b ok. Run_swapped a b ok \<in> set es \<longrightarrow> run_state a = FINAL_GATE \<longrightarrow> run_state b = MERGE_READY
        \<longrightarrow> gate_warrant sample_workflow a b ok es" by blast
  from promoted es have "gate_warrant sample_workflow r n ok es" by (intro warrant[rule_format]) simp_all
  with es promoted(3) show ?thesis by auto
qed

theorem validation_is_current_witness:
  "\<exists>r n ok es. es = snd (workflow_turns sample_workflow 1 False validating_run [])
     \<and> run_state n = REVIEWING \<and> validation_warrant sample_workflow r n ok es"
proof -
  from promotes_inD[OF sample_promotions[THEN conjunct2]] obtain r n ok where
    promoted: "Run_swapped r n ok \<in> set (snd (workflow_turns sample_workflow 1 False validating_run []))"
    "run_state r = VALIDATING" "run_state n = REVIEWING" by blast
  from validation_is_current[of sample_workflow 1 False validating_run "[]"] obtain es where
    es: "snd (workflow_turns sample_workflow 1 False validating_run []) = [] @ es"
    and warrant: "\<forall>a b ok. Run_swapped a b ok \<in> set es \<longrightarrow> run_state a = VALIDATING \<longrightarrow> run_state b = REVIEWING
        \<longrightarrow> validation_warrant sample_workflow a b ok es" by blast
  from promoted es have "validation_warrant sample_workflow r n ok es" by (intro warrant[rule_format]) simp_all
  with es promoted(3) show ?thesis by auto
qed

theorem hosted_evidence_coherent_witness:
  "is_hosted_evidence (hosted_validation gate_snapshot_sample (vp_hosted sample_policy))
     \<and> h_status (hosted_validation gate_snapshot_sample (vp_hosted sample_policy)) = H_passed"
proof -
  have sample: "\<not> blank (lv_observedAt gate_snapshot_sample)"
    "absent_or (\<lambda>p. is_safe_integer (lp_number p) \<and> 1 \<le> lp_number p) (lv_pullRequest gate_snapshot_sample)"
    "list_all (\<lambda>c. \<not> blank (ck_name c)) (cs_checks (lv_checks gate_snapshot_sample))"
    "absent_or (\<lambda>c. \<not> blank (hp_revision c) \<and> list_all (\<lambda>n. \<not> blank n) (required_names (hp_policy c)))
       (vp_hosted sample_policy)" by code_simp+
  show ?thesis
    using sample hosted_evidence_coherent[of gate_snapshot_sample "vp_hosted sample_policy"]
    by (auto simp: sample_policy_def gate_snapshot_sample_def required_names_def)
qed

end
