(* ===== verification/Dispatch_Protocol.thy ===== *)
theory Dispatch_Protocol
  imports Dispatch_Queue
begin

text \<open>
  What the dispatch protocol guarantees: the text of a runtime claim is read back exactly
  when the claim is valid, a parsed queue is well formed, and of any number of dispatchers
  that interleave their reads and writes on one control issue at most one ever owns the
  claim. The interleaving is the step relation \<open>claim_step\<close>.
\<close>

section \<open>The claim as text\<close>

definition valid_claim :: "dispatch_host \<Rightarrow> dispatch_claim \<Rightarrow> bool" where
  "valid_claim h c \<longleftrightarrow>
     is_safe_integer (dc_issue c) \<and> 1 \<le> dc_issue c \<and> \<not> blank (dc_claimId c) \<and>
     supported_profile (dc_profile c) \<and> absent_or (\<lambda>r. \<not> blank r) (dc_runId c) \<and>
     absent_or is_repair_task_shape_authority (dc_authority c) \<and>
     list_all (\<lambda>t. \<not> blank t \<and> dh_date h t \<noteq> None)
       [dc_claimedAt c, dc_heartbeatAt c, dc_leaseUntil c]"

lemma supported_profile_filled: "supported_profile s \<Longrightarrow> \<not> blank s"
proof -
  have "list_all (\<lambda>s. \<not> blank s) (map profile_text EXECUTION_PROFILE_NAMES)"
    by code_simp
  then show "supported_profile s \<Longrightarrow> \<not> blank s"
    unfolding supported_profile_def list_all_iff by blast
qed

lemma claim_json_printable: "printable (claim_json c)"
  by (auto simp: claim_json_def optional_text_def authority_json_def split: option.splits)

lemma marker_text: "starts_with (runtime_prefix @ t) runtime_prefix" "ends_with (t @ runtime_suffix) runtime_suffix"
  by (simp_all add: ends_with_def)

lemma runtime_text_framed:
  "starts_with (render_dispatch_runtime c) runtime_prefix"
  "ends_with (render_dispatch_runtime c) runtime_suffix"
  "drop (length runtime_prefix) (take (length (render_dispatch_runtime c) - 4)
     (render_dispatch_runtime c)) = json_text_2 (claim_json c)"
proof -
  show "starts_with (render_dispatch_runtime c) runtime_prefix"
    unfolding render_dispatch_runtime_def by (rule marker_text)
  show "ends_with (render_dispatch_runtime c) runtime_suffix"
    unfolding render_dispatch_runtime_def append_assoc[symmetric] by (rule marker_text)
  have "length runtime_suffix = 4"
    by (simp add: runtime_suffix_def)
  then show "drop (length runtime_prefix) (take (length (render_dispatch_runtime c) - 4)
     (render_dispatch_runtime c)) = json_text_2 (claim_json c)"
    by (simp add: render_dispatch_runtime_def)
qed

lemma claim_state_of_text [simp]: "claim_state_of (claim_state_text s) = Some s"
  by (cases s) (simp_all add: claim_state_of_def)

definition claim_members :: "dispatch_claim \<Rightarrow> (string \<times> json) list" where
  "claim_members c = (case claim_json c of JObject ms \<Rightarrow> ms | _ \<Rightarrow> [])"

lemma claim_json_members: "claim_json c = JObject (claim_members c)"
  by (simp add: claim_members_def claim_json_def)

lemma claim_member_keys:
  "map fst (claim_members c) =
     [''issue'', ''claimId'', ''runId'', ''profile''] @
     (if dc_authority c = None then [] else [''repairTaskShapeAuthority'']) @
     [''state'', ''claimedAt'', ''heartbeatAt'', ''leaseUntil'']"
  by (simp add: claim_members_def claim_json_def split: option.splits)

lemma claim_member_values:
  "js_get (claim_members c) ''issue'' = Some (JNumber (dc_issue c))"
  "js_get (claim_members c) ''claimId'' = Some (JString (dc_claimId c))"
  "js_get (claim_members c) ''runId'' = Some (optional_text (dc_runId c))"
  "js_get (claim_members c) ''profile'' = Some (JString (dc_profile c))"
  "js_get (claim_members c) ''repairTaskShapeAuthority'' = map_option authority_json (dc_authority c)"
  "js_get (claim_members c) ''state'' = Some (JString (claim_state_text (dc_state c)))"
  "js_get (claim_members c) ''claimedAt'' = Some (JString (dc_claimedAt c))"
  "js_get (claim_members c) ''heartbeatAt'' = Some (JString (dc_heartbeatAt c))"
  "js_get (claim_members c) ''leaseUntil'' = Some (JString (dc_leaseUntil c))"
  by (cases "dc_authority c"; simp add: claim_members_def claim_json_def js_get_def)+

lemma claim_fields_ok: "runtime_fields_ok (claim_members c)"
  by (simp add: runtime_fields_ok_def key_list_def claim_member_keys claim_member_values
      legacy_fields_def)

lemma authority_keys: "key_list [(''revision'', v), (''shape'', w)] = ''revision,shape''"
proof -
  have "sort [''revision'', ''shape''] = [''revision'', ''shape'']"
    by code_simp
  then show ?thesis
    by (simp add: key_list_def)
qed

lemma exact_authority_json:
  "exact_authority (authority_json a) = (if is_repair_task_shape_authority a then Some a else None)"
proof -
  have "task_shape_of (shape_name (au_shape a)) = Some (au_shape a)"
    by (simp only: task_shape_of_iff)
  then show ?thesis
    by (simp del: task_shape_of.simps add: exact_authority_def authority_json_def authority_keys js_get_def
        is_repair_task_shape_authority_def)
qed

lemma run_id_value_text:
  "run_id_value (Some (optional_text r)) = (if absent_or (\<lambda>s. \<not> blank s) r then Some r else None)"
  by (cases r) (simp_all add: run_id_value_def optional_text_def filled_text_def)

lemma claim_of_members_iff:
  "claim_of_members h (claim_members c) = Inr d \<longleftrightarrow> valid_claim h c \<and> d = c"
proof (cases "absent_or is_repair_task_shape_authority (dc_authority c)")
  case True
  then have auth: "map_option exact_authority (map_option authority_json (dc_authority c)) =
      map_option Some (dc_authority c)"
    by (cases "dc_authority c") (simp_all add: exact_authority_json)
  have strip: "Option.bind (map_option Some a) (\<lambda>x. x) = a" for a :: "'z option"
    by (cases a) simp_all
  have cases_auth: "(case map_option Some (dc_authority c) of Some None \<Rightarrow> x | a \<Rightarrow> f a) =
      f (map_option Some (dc_authority c))" for x :: 'y and f
    by (cases "dc_authority c") simp_all
  show ?thesis
    using True supported_profile_filled[of "dc_profile c"]
    by (auto simp: claim_of_members_def claim_fields_ok claim_member_values auth strip claim_values_def
        valid_claim_def issue_value_def filled_text_def profile_value_def state_value_def
        run_id_value_text split: if_splits option.splits)
next
  case False
  then obtain a where a: "dc_authority c = Some a" "\<not> is_repair_task_shape_authority a"
    by (cases "dc_authority c") auto
  then show ?thesis
    by (simp add: claim_of_members_def claim_fields_ok claim_member_values exact_authority_json
        valid_claim_def)
qed

lemma runtime_claim_text:
  "parse_dispatch_runtime h (render_dispatch_runtime c) = Inr (Some d) \<longleftrightarrow> valid_claim h c \<and> d = c"
proof -
  have "parse_dispatch_runtime h (render_dispatch_runtime c) =
      map_sum id Some (claim_of_members h (claim_members c))"
    by (simp add: parse_dispatch_runtime_def runtime_text_framed json_parse_text_2
        claim_json_printable flip: claim_json_members)
      (simp add: claim_json_members)
  then show ?thesis
    using claim_of_members_iff[of h c d]
    by (cases "claim_of_members h (claim_members c)") simp_all
qed

text \<open>The claim a dispatcher writes is the claim every reader reads: the text of a claim is
  read back as that very claim exactly when the claim is valid (a positive safe issue, texts
  that are not blank, a supported profile, a valid authority, and dates), and a text of an
  invalid claim is never read as any claim.\<close>

theorem runtime_claim_read_back:
  "parse_dispatch_runtime h (render_dispatch_runtime c) = Inr (Some d) \<longleftrightarrow> valid_claim h c \<and> d = c"
  by (rule runtime_claim_text)

lemma written_claim_read [simp]:
  "valid_claim h c \<Longrightarrow> parse_dispatch_runtime h (render_dispatch_runtime c) = Inr (Some c)"
  by (simp add: runtime_claim_text)

definition read_runtime_claim :: "dispatch_host \<Rightarrow> string \<Rightarrow> dispatch_claim option" where
  "read_runtime_claim h s = (case parse_dispatch_runtime h s of Inl _ \<Rightarrow> None | Inr c \<Rightarrow> c)"

interpretation claim_text: codec render_dispatch_runtime "read_runtime_claim h" "valid_claim h"
  by unfold_locales (simp add: read_runtime_claim_def)

section \<open>Parsed queues are well formed\<close>

definition entry_ok :: "dispatch_entry \<Rightarrow> bool" where
  "entry_ok e \<longleftrightarrow>
     is_safe_integer (de_issue e) \<and> 1 \<le> de_issue e \<and> supported_profile (de_profile e) \<and>
     absent_or is_repair_task_shape_authority (de_authority e)"

definition entries_ok :: "dispatch_entry list \<Rightarrow> bool" where
  "entries_ok es \<longleftrightarrow> distinct (map de_issue es) \<and> list_all entry_ok es"

lemma positive_integer_ok: "positive_integer s = Some n \<Longrightarrow> is_safe_integer n \<and> 1 \<le> n"
  by (auto simp: positive_integer_def split: if_splits)

lemma draft_authority_ok:
  "draft_authority d = Some a \<Longrightarrow> absent_or is_repair_task_shape_authority a"
  by (auto simp: draft_authority_def is_repair_task_shape_authority_def
      simp del: task_shape_of.simps split: option.splits if_splits)

lemma finish_record_ok: "finish_record d es = Inr fs \<Longrightarrow> entries_ok es \<Longrightarrow> entries_ok fs"
  by (auto simp: finish_record_def entries_ok_def entry_ok_def simp del: route_of.simps
      split: option.splits if_splits dest: positive_integer_ok draft_authority_ok)

lemma queue_pair_entries: "queue_pair q l = Inr r \<Longrightarrow> qs_entries r = qs_entries q"
  by (auto simp: queue_pair_def split: option.splits if_splits)

lemma queue_line_ok:
  "queue_line q l = Inr r \<Longrightarrow> entries_ok (qs_entries q) \<Longrightarrow> entries_ok (qs_entries r)"
  by (auto simp: queue_line_def Let_def split: option.splits if_splits sum.splits
      dest: finish_record_ok queue_pair_entries)

lemma queue_lines_ok:
  "queue_lines q ls = Inr r \<Longrightarrow> entries_ok (qs_entries q) \<Longrightarrow> entries_ok (qs_entries r)"
  by (induction ls arbitrary: q) (auto split: sum.splits dest: queue_line_ok)

text \<open>A queue that parses is well formed: no issue twice, every issue a positive safe
  integer, every profile supported and every authority valid.\<close>

theorem parsed_queue_well_formed:
  assumes "parse_dispatch_queue body = Inr es"
  shows "distinct (map de_issue es) \<and> list_all entry_ok es"
proof -
  have "entries_ok (qs_entries empty_queue)"
    by (simp add: entries_ok_def empty_queue_def)
  with assms show ?thesis
    unfolding entries_ok_def[symmetric]
    by (auto simp: parse_dispatch_queue_def parse_queue_body_def Let_def
        split: option.splits if_splits sum.splits dest: queue_lines_ok finish_record_ok)
qed

section \<open>Claiming without interference\<close>

lemma starts_index: "starts_with s p \<Longrightarrow> p \<noteq> [] \<Longrightarrow> contains s p"
  by (cases s) (auto simp: contains_def starts_with_def)

lemma written_claim_marked: "is_marked \<lparr>rc_id = n, rc_body = render_dispatch_runtime c\<rparr>"
proof -
  have "starts_with (render_dispatch_runtime c) DISPATCH_RUNTIME_MARKER"
    unfolding render_dispatch_runtime_def runtime_prefix_def append_assoc by simp
  then show ?thesis
    unfolding is_marked_def by (simp add: starts_index DISPATCH_RUNTIME_MARKER_def)
qed

lemma select_sole_claim:
  assumes "filter is_marked cs = [\<lparr>rc_id = n, rc_body = render_dispatch_runtime c\<rparr>]"
    and "valid_claim h c"
  shows "select_dispatch_runtime h cs = Inr (Some (n, c))"
  using assms by (simp add: select_dispatch_runtime_def)

text \<open>Without interference claiming succeeds: a Codex entry with a valid authority and a
  positive lease, on an issue with no runtime claim, becomes the sole claim, owned by the
  comment that was written.\<close>

theorem uncontended_claim_succeeds:
  assumes "claim_precondition e p = None" and "filter is_marked cs = []"
    and "lease_until h (co_now p) (co_leaseDurationMs p) = Some l"
    and "valid_claim h (new_claim e p l)"
  shows "claim_dispatch_entry h cs n
           (\<lambda>c. cs @ [\<lparr>rc_id = n, rc_body = render_dispatch_runtime c\<rparr>]) e p =
         Inr (n, new_claim e p l)"
proof -
  let ?c = "new_claim e p l"
  have "filter is_marked (cs @ [\<lparr>rc_id = n, rc_body = render_dispatch_runtime ?c\<rparr>]) =
      [\<lparr>rc_id = n, rc_body = render_dispatch_runtime ?c\<rparr>]"
    by (simp add: assms(2) written_claim_marked)
  from select_sole_claim[OF this assms(4)]
  have "confirm_claim h (cs @ [\<lparr>rc_id = n, rc_body = render_dispatch_runtime ?c\<rparr>]) n ?c = Inr (n, ?c)"
    by (simp add: confirm_claim_def)
  moreover have "prepare_claim h cs e p = Inr ?c"
    by (simp add: prepare_claim_def assms select_dispatch_runtime_def)
  ultimately show ?thesis
    by (simp add: claim_dispatch_entry_def)
qed

section \<open>Claiming under interleaving\<close>

text \<open>
  Any number of dispatchers, each in the phase its \<open>claimDispatchEntry\<close> has reached, on one
  list of comments. A step is one call: the first read with its checks, the write of a
  comment with a new id, the reread. In between anybody may add, edit or delete comments
  as long as no comment that carries the runtime marker disappears or changes.
\<close>

datatype claim_phase =
    Phase_idle
  | Phase_ready dispatch_claim
  | Phase_written string dispatch_claim
  | Phase_owner string dispatch_claim
  | Phase_refused dispatch_error

record claim_world =
  cw_comments :: "runtime_comment list"
  cw_phases :: "claim_phase list"

inductive claim_step :: "dispatch_host \<Rightarrow> claim_world \<Rightarrow> claim_world \<Rightarrow> bool" for h where
  claim_read: "i < length (cw_phases w) \<Longrightarrow> cw_phases w ! i = Phase_idle \<Longrightarrow>
    prepare_claim h (cw_comments w) e p = Inr c \<Longrightarrow>
    claim_step h w (w\<lparr>cw_phases := (cw_phases w)[i := Phase_ready c]\<rparr>)"
| claim_read_refused: "i < length (cw_phases w) \<Longrightarrow> cw_phases w ! i = Phase_idle \<Longrightarrow>
    prepare_claim h (cw_comments w) e p = Inl x \<Longrightarrow>
    claim_step h w (w\<lparr>cw_phases := (cw_phases w)[i := Phase_refused x]\<rparr>)"
| claim_write: "i < length (cw_phases w) \<Longrightarrow> cw_phases w ! i = Phase_ready c \<Longrightarrow>
    n \<notin> rc_id ` set (cw_comments w) \<Longrightarrow>
    claim_step h w
      (w\<lparr>cw_comments := cw_comments w @ [\<lparr>rc_id = n, rc_body = render_dispatch_runtime c\<rparr>],
         cw_phases := (cw_phases w)[i := Phase_written n c]\<rparr>)"
| claim_reread: "i < length (cw_phases w) \<Longrightarrow> cw_phases w ! i = Phase_written n c \<Longrightarrow>
    confirm_claim h (cw_comments w) n c = Inr (m, d) \<Longrightarrow>
    claim_step h w (w\<lparr>cw_phases := (cw_phases w)[i := Phase_owner m d]\<rparr>)"
| claim_reread_refused: "i < length (cw_phases w) \<Longrightarrow> cw_phases w ! i = Phase_written n c \<Longrightarrow>
    confirm_claim h (cw_comments w) n c = Inl x \<Longrightarrow>
    claim_step h w (w\<lparr>cw_phases := (cw_phases w)[i := Phase_refused x]\<rparr>)"
| claim_others: "distinct (map rc_id cs) \<Longrightarrow>
    \<forall>x \<in> set (cw_comments w). is_marked x \<longrightarrow> x \<in> set cs \<Longrightarrow>
    claim_step h w (w\<lparr>cw_comments := cs\<rparr>)"

definition claim_start :: "claim_world \<Rightarrow> bool" where
  "claim_start w \<longleftrightarrow> distinct (map rc_id (cw_comments w)) \<and> list_all (\<lambda>p. p = Phase_idle) (cw_phases w)"

fun phase_claim :: "claim_phase \<Rightarrow> (string \<times> dispatch_claim) option" where
  "phase_claim (Phase_written n c) = Some (n, c)"
| "phase_claim (Phase_owner n c) = Some (n, c)"
| "phase_claim _ = None"

text \<open>
  The invariant: comment ids are distinct, whoever has written still has its comment on
  the issue, no two share a comment, and an owner was alone when it looked.
\<close>

definition written_comment :: "string \<times> dispatch_claim \<Rightarrow> runtime_comment" where
  "written_comment x = \<lparr>rc_id = fst x, rc_body = render_dispatch_runtime (snd x)\<rparr>"

definition authorised_claim :: "dispatch_claim \<Rightarrow> bool" where
  "authorised_claim c \<longleftrightarrow>
     present_and is_repair_task_shape_authority (dc_authority c) \<and> dc_state c = Claim_claimed"

definition claims_exclusive :: "claim_world \<Rightarrow> bool" where
  "claims_exclusive w \<longleftrightarrow>
     distinct (map rc_id (cw_comments w)) \<and>
     (\<forall>i < length (cw_phases w). \<forall>x. phase_claim (cw_phases w ! i) = Some x \<longrightarrow>
        written_comment x \<in> set (cw_comments w) \<and> authorised_claim (snd x)) \<and>
     (\<forall>i < length (cw_phases w). \<forall>c. cw_phases w ! i = Phase_ready c \<longrightarrow> authorised_claim c) \<and>
     (\<forall>i < length (cw_phases w). \<forall>j < length (cw_phases w). \<forall>x y.
        phase_claim (cw_phases w ! i) = Some x \<longrightarrow> phase_claim (cw_phases w ! j) = Some y \<longrightarrow>
        fst x = fst y \<longrightarrow> i = j) \<and>
     (\<forall>i < length (cw_phases w). \<forall>j < length (cw_phases w). \<forall>n c m d.
        cw_phases w ! i = Phase_owner n c \<longrightarrow> cw_phases w ! j = Phase_owner m d \<longrightarrow> i = j)"

lemma written_comment_marked: "is_marked (written_comment x)"
  by (simp add: written_comment_def written_claim_marked)

lemma prepared_claim_authorised: "prepare_claim h cs e p = Inr c \<Longrightarrow> authorised_claim c"
  by (auto simp: prepare_claim_def authorised_claim_def new_claim_def claim_precondition_def
      has_valid_dispatch_authority_def fail_if_def split: option.splits sum.splits if_splits)

lemma confirm_claimD:
  assumes "confirm_claim h cs n c = Inr (m, d)"
  shows "m = n \<and> d = c \<and> (\<exists>x. filter is_marked cs = [x] \<and> rc_id x = n)"
  using assms
  by (auto simp: confirm_claim_def select_dispatch_runtime_def
      split: sum.splits option.splits list.splits if_splits)

lemma start_exclusive: "claim_start w \<Longrightarrow> claims_exclusive w"
  by (auto simp: claim_start_def claims_exclusive_def list_all_length)

lemma exclusive_written:
  "claims_exclusive w \<Longrightarrow> i < length (cw_phases w) \<Longrightarrow> phase_claim (cw_phases w ! i) = Some x \<Longrightarrow>
   written_comment x \<in> set (cw_comments w) \<and> authorised_claim (snd x)"
  unfolding claims_exclusive_def by blast

lemma exclusive_apart:
  "claims_exclusive w \<Longrightarrow> i < length (cw_phases w) \<Longrightarrow> j < length (cw_phases w) \<Longrightarrow>
   phase_claim (cw_phases w ! i) = Some x \<Longrightarrow> phase_claim (cw_phases w ! j) = Some y \<Longrightarrow>
   fst x = fst y \<Longrightarrow> i = j"
  unfolding claims_exclusive_def by blast

lemma sole_writer:
  assumes "claims_exclusive w" and "filter is_marked (cw_comments w) = [x]" and "rc_id x = n"
    and "i < length (cw_phases w)" and "phase_claim (cw_phases w ! i) = Some (n, c)"
    and "j < length (cw_phases w)" and "phase_claim (cw_phases w ! j) = Some y"
  shows "j = i"
proof -
  have "written_comment y \<in> set (filter is_marked (cw_comments w))"
    using exclusive_written[OF assms(1,6,7)] written_comment_marked by simp
  with assms(2,3) have "fst y = n"
    by (auto simp: written_comment_def)
  with assms(1,4-7) show ?thesis
    unfolding claims_exclusive_def by (metis fst_conv)
qed

lemma claim_step_exclusive:
  assumes "claims_exclusive w" and "claim_step h w v"
  shows "claims_exclusive v"
  using assms(2)
proof cases
  case (claim_read i e p c)
  with assms(1) prepared_claim_authorised[OF claim_read(4)] show ?thesis
    by (auto simp: claims_exclusive_def nth_list_update split: if_splits)
next
  case (claim_read_refused i e p x)
  with assms(1) show ?thesis
    by (auto simp: claims_exclusive_def nth_list_update split: if_splits)
next
  case (claim_write i c n)
  have new: "n \<noteq> fst x" if "j < length (cw_phases w)" "phase_claim (cw_phases w ! j) = Some x" for j x
    using exclusive_written[OF assms(1) that] claim_write(4) by (force simp: written_comment_def)
  have at: "cw_phases v ! j = (if j = i then Phase_written n c else cw_phases w ! j)"
    if "j < length (cw_phases w)" for j
    using that by (simp add: claim_write(1) nth_list_update)
  have sizes: "length (cw_phases v) = length (cw_phases w)"
    "cw_comments v = cw_comments w @ [written_comment (n, c)]"
    by (simp_all add: claim_write(1) written_comment_def)
  have c: "authorised_claim c"
    using assms(1) claim_write(2,3) by (auto simp: claims_exclusive_def)
  show ?thesis
    unfolding claims_exclusive_def sizes(1)
  proof (intro conjI allI impI)
    show "distinct (map rc_id (cw_comments v))"
      using assms(1) claim_write(4) by (simp add: sizes claims_exclusive_def written_comment_def)
  next
    fix j y assume j: "j < length (cw_phases w)" "phase_claim (cw_phases v ! j) = Some y"
    then show "written_comment y \<in> set (cw_comments v)" "authorised_claim (snd y)"
      using exclusive_written[OF assms(1), of j y] c by (auto simp: at sizes split: if_splits)
  next
    fix j d assume "j < length (cw_phases w)" "cw_phases v ! j = Phase_ready d"
    then show "authorised_claim d"
      using assms(1) by (auto simp: at claims_exclusive_def split: if_splits)
  next
    fix j k x y assume "j < length (cw_phases w)" "k < length (cw_phases w)"
      "phase_claim (cw_phases v ! j) = Some x" "phase_claim (cw_phases v ! k) = Some y" "fst x = fst y"
    then show "j = k"
      using new[of j x] new[of k y] exclusive_apart[OF assms(1), of j k x y]
      by (auto simp: at split: if_splits)
  next
    fix j k m d e f assume "j < length (cw_phases w)" "k < length (cw_phases w)"
      "cw_phases v ! j = Phase_owner m d" "cw_phases v ! k = Phase_owner e f"
    then show "j = k"
      using assms(1) by (auto simp: at claims_exclusive_def split: if_splits)
  qed
next
  case (claim_reread i n c m d)
  from confirm_claimD[OF claim_reread(4)] obtain x where x: "m = n" "d = c"
    "filter is_marked (cw_comments w) = [x]" "rc_id x = n"
    by blast
  have held: "phase_claim (cw_phases w ! i) = Some (n, c)"
    by (simp add: claim_reread(3))
  have only: "j = i \<and> y = (n, c)" if "j < length (cw_phases w)" "phase_claim (cw_phases v ! j) = Some y" for j y
  proof (cases "j = i")
    case True
    with that claim_reread(1,2) x show ?thesis by simp
  next
    case False
    with that claim_reread(1) have "phase_claim (cw_phases w ! j) = Some y" by simp
    from sole_writer[OF assms(1) x(3,4) claim_reread(2) held that(1) this] False show ?thesis by simp
  qed
  have sizes: "length (cw_phases v) = length (cw_phases w)" "cw_comments v = cw_comments w"
    by (simp_all add: claim_reread(1))
  have owners: "j = i" if "j < length (cw_phases w)" "cw_phases v ! j = Phase_owner k e" for j k e
    using only[OF that(1), of "(k, e)"] that(2) by simp
  have ready: "authorised_claim e" if "j < length (cw_phases w)" "cw_phases v ! j = Phase_ready e" for j e
    using that assms(1) claim_reread(2)
    by (auto simp: claim_reread(1) claims_exclusive_def nth_list_update split: if_splits)
  show ?thesis
    unfolding claims_exclusive_def sizes
  proof (intro conjI allI impI)
    show "distinct (map rc_id (cw_comments w))"
      using assms(1) by (simp add: claims_exclusive_def)
  next
    fix j y assume "j < length (cw_phases w)" "phase_claim (cw_phases v ! j) = Some y"
    from only[OF this] exclusive_written[OF assms(1) claim_reread(2) held]
    show "written_comment y \<in> set (cw_comments w)" "authorised_claim (snd y)" by simp_all
  qed (use only owners ready in blast)+
next
  case (claim_reread_refused i n c x)
  with assms(1) show ?thesis
    by (auto simp: claims_exclusive_def nth_list_update split: if_splits)
next
  case (claim_others cs)
  with assms(1) written_comment_marked show ?thesis
    by (auto simp: claims_exclusive_def)
qed

interpretation claims: interleaved_system "claim_step h" claim_start claims_exclusive
  by unfold_locales (auto intro: start_exclusive claim_step_exclusive)

text \<open>C17. Of any number of dispatchers that race for one control issue at most one ever owns the
  claim, however their reads and writes interleave and whatever else is commented, and the
  owner's authorised claim is on the issue in its own comment.\<close>

theorem claim_has_one_owner:
  assumes "claim_start w" and "(claim_step h)\<^sup>*\<^sup>* w v"
    and "i < length (cw_phases v)" and "cw_phases v ! i = Phase_owner n c"
  shows "(\<forall>j < length (cw_phases v). \<forall>m d. cw_phases v ! j = Phase_owner m d \<longrightarrow> j = i) \<and>
         \<lparr>rc_id = n, rc_body = render_dispatch_runtime c\<rparr> \<in> set (cw_comments v) \<and> authorised_claim c"
proof -
  have inv: "claims_exclusive v"
    by (rule claims.reached_holds[OF assms(1,2)])
  have "phase_claim (cw_phases v ! i) = Some (n, c)"
    by (simp add: assms(4))
  from exclusive_written[OF inv assms(3) this] inv assms(3,4) show ?thesis
    unfolding claims_exclusive_def written_comment_def by auto
qed

section \<open>Instances\<close>

definition plain_dispatch_host :: dispatch_host where
  "plain_dispatch_host =
     \<lparr>dh_date = (\<lambda>s. if s = [] then None else Some (int (digits_value s))),
      dh_iso = (\<lambda>t. if 0 \<le> t then Some (nat_str (nat t)) else None)\<rparr>"

definition sample_entry :: dispatch_entry where
  "sample_entry =
     \<lparr>de_issue = 7, de_route = Route_codex, de_profile = ''routine'',
      de_authority = Some \<lparr>au_revision = ''r1'', au_shape = Shape_bounded\<rparr>\<rparr>"

definition sample_claim_options :: claim_options where
  "sample_claim_options = \<lparr>co_now = ''100'', co_leaseDurationMs = 50, co_claimId = ''claim-1''\<rparr>"

definition sample_claim :: dispatch_claim where
  "sample_claim = new_claim sample_entry sample_claim_options ''150''"

definition sample_queue :: string where
  "sample_queue =
     DISPATCH_QUEUE_MARKER @ [CHR 0x0A] @ ''ready:'' @ [CHR 0x0A] @
     ''  - issue: 7'' @ [CHR 0x0A] @ ''    route: codex'' @ [CHR 0x0A] @
     ''    profile: routine'' @ [CHR 0x0A] @ ''    task-shape-revision: r1'' @ [CHR 0x0A] @
     ''    task-shape: bounded'' @ [CHR 0x0A] @ ''  - issue: 9'' @ [CHR 0x0A] @
     ''    route: human'' @ [CHR 0x0A] @ ''    profile: routine''"

definition sample_world :: "runtime_comment list \<Rightarrow> claim_phase \<Rightarrow> claim_world" where
  "sample_world cs p = \<lparr>cw_comments = cs, cw_phases = [p, Phase_idle]\<rparr>"

definition sample_entries :: "dispatch_entry list" where
  "sample_entries =
     [sample_entry,
      \<lparr>de_issue = 9, de_route = Route_human, de_profile = ''routine'', de_authority = None\<rparr>]"

lemma parsed_queue_well_formed_witness:
  "parse_dispatch_queue sample_queue = Inr sample_entries \<and>
   distinct (map de_issue sample_entries) \<and> list_all entry_ok sample_entries"
proof -
  have "parse_dispatch_queue sample_queue = Inr sample_entries"
    by code_simp
  from this parsed_queue_well_formed[OF this] show ?thesis
    by blast
qed

lemma sample_claim_ok:
  "claim_precondition sample_entry sample_claim_options = None"
  "lease_until plain_dispatch_host (co_now sample_claim_options) (co_leaseDurationMs sample_claim_options) = Some ''150''"
  "valid_claim plain_dispatch_host sample_claim"
  by code_simp+

lemma uncontended_claim_succeeds_witness:
  "claim_dispatch_entry plain_dispatch_host [\<lparr>rc_id = ''1'', rc_body = ''hello''\<rparr>] ''2''
     (\<lambda>c. [\<lparr>rc_id = ''1'', rc_body = ''hello''\<rparr>] @
           [\<lparr>rc_id = ''2'', rc_body = render_dispatch_runtime c\<rparr>]) sample_entry sample_claim_options =
   Inr (''2'', sample_claim)"
proof -
  have "filter is_marked [\<lparr>rc_id = ''1'', rc_body = ''hello''\<rparr>] = []"
    by code_simp
  from uncontended_claim_succeeds[OF sample_claim_ok(1) this sample_claim_ok(2)]
    sample_claim_ok(3) show ?thesis
    unfolding sample_claim_def by blast
qed

abbreviation (input) sample_comment :: runtime_comment where
  "sample_comment \<equiv> \<lparr>rc_id = ''2'', rc_body = render_dispatch_runtime sample_claim\<rparr>"

lemma sample_owner_reached:
  "(claim_step plain_dispatch_host)\<^sup>*\<^sup>* (sample_world [] Phase_idle)
     (sample_world [sample_comment] (Phase_owner ''2'' sample_claim))"
proof -
  let ?step = "claim_step plain_dispatch_host"
  have "prepare_claim plain_dispatch_host [] sample_entry sample_claim_options = Inr sample_claim"
    by (simp add: prepare_claim_def sample_claim_ok(1,2) select_dispatch_runtime_def sample_claim_def)
  then have 1: "?step (sample_world [] Phase_idle) (sample_world [] (Phase_ready sample_claim))"
    using claim_read[of 0 "sample_world [] Phase_idle"] by (simp add: sample_world_def)
  have 2: "?step (sample_world [] (Phase_ready sample_claim))
      (sample_world [sample_comment] (Phase_written ''2'' sample_claim))"
    using claim_write[of 0 "sample_world [] (Phase_ready sample_claim)" sample_claim "''2''"]
    by (simp add: sample_world_def)
  have "filter is_marked [sample_comment] = [sample_comment]"
    by (simp add: written_claim_marked)
  from select_sole_claim[OF this sample_claim_ok(3)]
  have "confirm_claim plain_dispatch_host [sample_comment] ''2'' sample_claim = Inr (''2'', sample_claim)"
    by (simp add: confirm_claim_def)
  then have 3: "?step (sample_world [sample_comment] (Phase_written ''2'' sample_claim))
      (sample_world [sample_comment] (Phase_owner ''2'' sample_claim))"
    using claim_reread[of 0 "sample_world [sample_comment] (Phase_written ''2'' sample_claim)"]
    by (simp add: sample_world_def)
  from 1 2 3 show ?thesis
    by (meson rtranclp.intros converse_rtranclp_into_rtranclp)
qed

lemma claim_has_one_owner_witness:
  "authorised_claim sample_claim \<and>
   cw_phases (sample_world [sample_comment] (Phase_owner ''2'' sample_claim)) ! 0 =
     Phase_owner ''2'' sample_claim"
proof -
  have "claim_start (sample_world [] Phase_idle)"
    by (simp add: claim_start_def sample_world_def)
  from claim_has_one_owner[OF this sample_owner_reached, of 0 "''2''" sample_claim] show ?thesis
    by (simp add: sample_world_def)
qed

end
