(* ===== verification/Owner_Receipts.thy ===== *)
theory Owner_Receipts
  imports Mission_Registry Dispatch_Protocol
begin

text \<open>
  The private owner receipts (\<^verbatim>\<open>src/mission-admission/run-owner-receipt.ts\<close> and
  \<^verbatim>\<open>manual-owner-receipt.ts\<close>): the file beside the registry that says which Run or which
  worktree holds a lane, in which generation, and how far its settlement has got. A receipt is
  read from its JSON text and refused unless the text is a valid receipt; what is written is
  read back. A member is read as a text where the code first calls \<open>String\<close> on it.
\<close>

section \<open>Optional members\<close>

definition opt_member :: "string \<Rightarrow> ('a \<Rightarrow> json) \<Rightarrow> 'a option \<Rightarrow> (string \<times> json) list" where
  "opt_member k f x = (case x of None \<Rightarrow> [] | Some v \<Rightarrow> [(k, f v)])"

lemma js_get_opt_member [simp]: "js_get (opt_member k f x) l = (if k = l then map_option f x else None)"
  by (cases x) (simp_all add: opt_member_def js_get_def)

lemma js_get_cons [simp]: "js_get ((k, v) # ms) l = (if k = l then Some v else js_get ms l)"
  by (simp add: js_get_def)

lemma js_get_append [simp]: "js_get (xs @ ys) l = or_else (js_get xs l) (js_get ys l)"
  by (induction xs) (auto simp: js_get_def)

lemma js_get_nil [simp]: "js_get [] l = None"
  by (simp add: js_get_def)

lemma or_else_None [simp]: "or_else x None = x"
  by (cases x) simp_all

lemma absent_or_True [simp]: "absent_or (\<lambda>v. True) x"
  by (cases x) simp_all

lemma set_keys_opt_member: "set (map fst (opt_member k f x)) = (if x = None then {} else {k})"
  by (cases x) (simp_all add: opt_member_def)

lemma distinct_keys_opt_member: "distinct (map fst (opt_member k f x))"
  by (cases x) (simp_all add: opt_member_def)

lemma printable_opt_member:
  "list_all (\<lambda>m. printable (snd m)) (opt_member k f x) \<longleftrightarrow> absent_or (\<lambda>v. printable (f v)) x"
  by (cases x) (simp_all add: opt_member_def)

text \<open>A member that may be missing, read by \<open>f\<close> where it is there.\<close>

definition read_optional :: "(json option \<Rightarrow> 'a option) \<Rightarrow> json option \<Rightarrow> 'a option option" where
  "read_optional f v = (if v = None then Some None else map_option Some (f v))"

lemma read_optional_encoded:
  assumes "\<And>v. f (Some (g v)) = (if ok v then Some v else None)"
  shows "read_optional f (map_option g x) = (if absent_or ok x then Some x else None)"
  using assms by (cases x) (simp_all add: read_optional_def)

lemma filled_text_JString: "filled_text (Some (JString s)) = (if \<not> blank s then Some s else None)"
  by (simp add: filled_text_def)

lemma issue_value_JNumber:
  "issue_value (Some (JNumber n)) = (if is_safe_integer n \<and> 1 \<le> n then Some n else None)"
  by (simp add: issue_value_def)

section \<open>Run receipts\<close>

datatype receipt_phase =
    Phase_pre_execution | Phase_execution_possible | Phase_park_transition
  | Phase_release_transition | Phase_parked_release_transition | Phase_parked | Phase_released

fun phase_text :: "receipt_phase \<Rightarrow> string" where
  "phase_text Phase_pre_execution = ''pre_execution''"
| "phase_text Phase_execution_possible = ''execution_possible''"
| "phase_text Phase_park_transition = ''park_transition''"
| "phase_text Phase_release_transition = ''release_transition''"
| "phase_text Phase_parked_release_transition = ''parked_release_transition''"
| "phase_text Phase_parked = ''parked''"
| "phase_text Phase_released = ''released''"

definition RECEIPT_PHASES :: "receipt_phase list" where
  "RECEIPT_PHASES =
     [Phase_pre_execution, Phase_execution_possible, Phase_park_transition,
      Phase_release_transition, Phase_parked_release_transition, Phase_parked, Phase_released]"

datatype work_disposition = Work_retired | Work_cancelled

fun disposition_text :: "work_disposition \<Rightarrow> string" where
  "disposition_text Work_retired = ''retired''"
| "disposition_text Work_cancelled = ''cancelled''"

text \<open>\<open>ror_settled\<close>: the settlement reason is present, and then it is \<open>workflow_settled\<close>.\<close>

record run_owner_receipt =
  ror_laneId :: string
  ror_missionId :: string
  ror_repository :: string
  ror_runId :: string
  ror_issue :: "int option"
  ror_claimId :: "string option"
  ror_workspace :: "string option"
  ror_token :: "admission_token option"
  ror_generation :: int
  ror_phase :: receipt_phase
  ror_settled :: bool
  ror_workDisposition :: "work_disposition option"

definition repository_value :: "json option \<Rightarrow> string option" where
  "repository_value v = (case v of Some (JString s) \<Rightarrow> if owner_and_name s then Some s else None | _ \<Rightarrow> None)"

definition is_absolute :: "string \<Rightarrow> bool" where
  "is_absolute s \<longleftrightarrow> starts_with s ''/''"

definition absolute_value :: "json option \<Rightarrow> string option" where
  "absolute_value v =
     Option.bind (filled_text v) (\<lambda>s. if is_absolute s then Some s else None)"

definition phase_value :: "json option \<Rightarrow> receipt_phase option" where
  "phase_value v =
     (case v of Some (JString s) \<Rightarrow> find (\<lambda>p. phase_text p = s) RECEIPT_PHASES | _ \<Rightarrow> None)"

definition disposition_value :: "json option \<Rightarrow> work_disposition option" where
  "disposition_value v =
     (case v of
        Some (JString s) \<Rightarrow> find (\<lambda>d. disposition_text d = s) [Work_retired, Work_cancelled]
      | _ \<Rightarrow> None)"

text \<open>Exactly the three keys, a filled secret; the lane and the generation are compared later.\<close>

definition token_value :: "json option \<Rightarrow> admission_token option" where
  "token_value v =
     (case v of
        Some (JObject ms) \<Rightarrow>
          if key_list ms \<noteq> ''generation,laneId,token'' then None
          else (case (js_get ms ''laneId'', js_get ms ''generation'', filled_text (js_get ms ''token'')) of
            (Some (JString l), Some (JNumber g), Some t) \<Rightarrow>
              Some \<lparr>at_laneId = l, at_generation = g, at_token = t\<rparr>
          | _ \<Rightarrow> None)
      | _ \<Rightarrow> None)"

definition token_matches :: "string \<Rightarrow> int \<Rightarrow> admission_token \<Rightarrow> bool" where
  "token_matches l g t \<longleftrightarrow> at_laneId t = l \<and> at_generation t = g"

text \<open>The phases of a live capability: exactly they carry the token.\<close>

definition holds_capability :: "receipt_phase \<Rightarrow> bool" where
  "holds_capability p \<longleftrightarrow>
     p \<in> {Phase_pre_execution, Phase_execution_possible, Phase_park_transition, Phase_release_transition}"

definition run_receipt_coherent :: "run_owner_receipt \<Rightarrow> bool" where
  "run_receipt_coherent r \<longleftrightarrow>
     (ror_settled r \<longrightarrow> ror_phase r = Phase_parked_release_transition \<or> ror_phase r = Phase_released)
     \<and> (ror_workDisposition r \<noteq> None \<longrightarrow> ror_phase r = Phase_released)
     \<and> (holds_capability (ror_phase r) \<longleftrightarrow> ror_token r \<noteq> None)
     \<and> absent_or (token_matches (ror_laneId r) (ror_generation r)) (ror_token r)"

definition RUN_RECEIPT_REQUIRED :: "string list" where
  "RUN_RECEIPT_REQUIRED =
     [''schemaVersion'', ''laneId'', ''missionId'', ''repository'', ''runId'', ''generation'', ''phase'']"

definition RUN_RECEIPT_KEYS :: "string list" where
  "RUN_RECEIPT_KEYS =
     RUN_RECEIPT_REQUIRED @
     [''issue'', ''claimId'', ''workspace'', ''token'', ''settlementReason'', ''workDisposition'']"

definition settled_value :: "json option \<Rightarrow> unit option" where
  "settled_value v = (if v = Some (JString ''workflow_settled'') then Some () else None)"

definition run_receipt_values :: "(string \<times> json) list \<Rightarrow> run_owner_receipt option" where
  "run_receipt_values ms =
     (case (filled_text (js_get ms ''laneId''), filled_text (js_get ms ''missionId''),
            repository_value (js_get ms ''repository''), filled_text (js_get ms ''runId''),
            issue_value (js_get ms ''generation''), phase_value (js_get ms ''phase'')) of
        (Some l, Some m, Some r, Some i, Some g, Some p) \<Rightarrow>
          (case (read_optional issue_value (js_get ms ''issue''),
                 read_optional filled_text (js_get ms ''claimId''),
                 read_optional absolute_value (js_get ms ''workspace''),
                 read_optional token_value (js_get ms ''token''),
                 read_optional settled_value (js_get ms ''settlementReason''),
                 read_optional disposition_value (js_get ms ''workDisposition'')) of
             (Some n, Some c, Some w, Some t, Some s, Some d) \<Rightarrow>
               Some \<lparr>ror_laneId = l, ror_missionId = m, ror_repository = r, ror_runId = i,
                     ror_issue = n, ror_claimId = c, ror_workspace = w, ror_token = t,
                     ror_generation = g, ror_phase = p, ror_settled = (s \<noteq> None),
                     ror_workDisposition = d\<rparr>
           | _ \<Rightarrow> None)
      | _ \<Rightarrow> None)"

definition run_owner_receipt_of :: "json \<Rightarrow> run_owner_receipt option" where
  "run_owner_receipt_of v =
     (case v of
        JObject ms \<Rightarrow>
          if \<not> list_all (\<lambda>k. k \<in> set RUN_RECEIPT_KEYS) (map fst ms)
             \<or> \<not> list_all (\<lambda>k. js_get ms k \<noteq> None) RUN_RECEIPT_REQUIRED
             \<or> js_get ms ''schemaVersion'' \<noteq> Some (JNumber 1)
          then None
          else (case run_receipt_values ms of
            Some r \<Rightarrow> if run_receipt_coherent r then Some r else None
          | None \<Rightarrow> None)
      | _ \<Rightarrow> None)"

definition token_json :: "admission_token \<Rightarrow> json" where
  "token_json t =
     JObject [(''laneId'', JString (at_laneId t)), (''generation'', JNumber (at_generation t)),
              (''token'', JString (at_token t))]"

definition run_receipt_members :: "run_owner_receipt \<Rightarrow> (string \<times> json) list" where
  "run_receipt_members r =
     [(''schemaVersion'', JNumber 1), (''laneId'', JString (ror_laneId r)),
      (''missionId'', JString (ror_missionId r)), (''repository'', JString (ror_repository r)),
      (''runId'', JString (ror_runId r))] @
     opt_member ''issue'' JNumber (ror_issue r) @ opt_member ''claimId'' JString (ror_claimId r) @
     opt_member ''workspace'' JString (ror_workspace r) @ opt_member ''token'' token_json (ror_token r) @
     [(''generation'', JNumber (ror_generation r)), (''phase'', JString (phase_text (ror_phase r)))] @
     opt_member ''settlementReason'' (\<lambda>_. JString ''workflow_settled'')
       (if ror_settled r then Some () else None) @
     opt_member ''workDisposition'' (\<lambda>d. JString (disposition_text d)) (ror_workDisposition r)"

text \<open>The file the code finds at a receipt's path: none, one that is not private, or its text.\<close>

datatype receipt_file = Receipt_absent | Receipt_unsafe | Receipt_text string

datatype receipt_error = Receipt_not_private | Receipt_corrupt | Receipt_invalid

definition read_receipt_with ::
  "(json \<Rightarrow> 'a option) \<Rightarrow> receipt_file \<Rightarrow> receipt_error + 'a option" where
  "read_receipt_with of_json f =
     (case f of
        Receipt_absent \<Rightarrow> Inr None
      | Receipt_unsafe \<Rightarrow> Inl Receipt_not_private
      | Receipt_text t \<Rightarrow>
          (case json_parse t of
             None \<Rightarrow> Inl Receipt_corrupt
           | Some v \<Rightarrow> (case of_json v of None \<Rightarrow> Inl Receipt_invalid | Some r \<Rightarrow> Inr (Some r))))"

definition read_run_owner_receipt :: "receipt_file \<Rightarrow> receipt_error + run_owner_receipt option" where
  "read_run_owner_receipt f = read_receipt_with run_owner_receipt_of f"

text \<open>The text replaces the old file only when it is absent or private, and the receipt is valid.\<close>

definition write_receipt_with ::
  "(json \<Rightarrow> 'a option) \<Rightarrow> json \<Rightarrow> receipt_file \<Rightarrow> receipt_error + receipt_file" where
  "write_receipt_with of_json v f =
     (if of_json v = None then Inl Receipt_invalid
      else if f = Receipt_unsafe then Inl Receipt_not_private
      else Inr (Receipt_text (json_text_2 v @ [CHR 0x0A])))"

definition write_run_owner_receipt ::
  "run_owner_receipt \<Rightarrow> receipt_file \<Rightarrow> receipt_error + receipt_file" where
  "write_run_owner_receipt r f =
     write_receipt_with run_owner_receipt_of (JObject (run_receipt_members r)) f"

section \<open>Manual receipts\<close>

datatype manual_status = Manual_active | Manual_parking | Manual_parked

fun manual_status_text :: "manual_status \<Rightarrow> string" where
  "manual_status_text Manual_active = ''active''"
| "manual_status_text Manual_parking = ''parking''"
| "manual_status_text Manual_parked = ''parked''"

record manual_owner_receipt =
  mor_laneId :: string
  mor_missionId :: string
  mor_repository :: string
  mor_workspace :: string
  mor_branch :: string
  mor_checkpointSha :: string
  mor_status :: manual_status
  mor_generation :: int
  mor_token :: "admission_token option"

definition checkpoint_value :: "json option \<Rightarrow> string option" where
  "checkpoint_value v =
     (case v of Some (JString s) \<Rightarrow> if checkpoint_sha s then Some s else None | _ \<Rightarrow> None)"

definition manual_status_value :: "json option \<Rightarrow> manual_status option" where
  "manual_status_value v =
     (case v of
        Some (JString s) \<Rightarrow>
          find (\<lambda>x. manual_status_text x = s) [Manual_active, Manual_parking, Manual_parked]
      | _ \<Rightarrow> None)"

definition worktree_value :: "json option \<Rightarrow> string option" where
  "worktree_value v =
     (case v of Some (JString s) \<Rightarrow> if is_absolute s then Some s else None | _ \<Rightarrow> None)"

definition MANUAL_RECEIPT_KEYS :: "string list" where
  "MANUAL_RECEIPT_KEYS =
     [''schemaVersion'', ''laneId'', ''missionId'', ''repository'', ''workspace'', ''branch'',
      ''checkpointSha'', ''status'', ''generation'']"

definition manual_receipt_keys_ok :: "(string \<times> json) list \<Rightarrow> bool" where
  "manual_receipt_keys_ok ms \<longleftrightarrow>
     (let ks = MANUAL_RECEIPT_KEYS @ (if js_get ms ''token'' = None then [] else [''token'']) in
      length (map fst ms) = length ks \<and> list_all (\<lambda>k. k \<in> set ks) (map fst ms))"

definition manual_receipt_values :: "(string \<times> json) list \<Rightarrow> manual_owner_receipt option" where
  "manual_receipt_values ms =
     (case (filled_text (js_get ms ''laneId''), filled_text (js_get ms ''missionId''),
            repository_value (js_get ms ''repository''), worktree_value (js_get ms ''workspace''),
            filled_text (js_get ms ''branch'')) of
        (Some l, Some m, Some r, Some w, Some b) \<Rightarrow>
          (case (checkpoint_value (js_get ms ''checkpointSha''), manual_status_value (js_get ms ''status''),
                 issue_value (js_get ms ''generation''), read_optional token_value (js_get ms ''token'')) of
             (Some c, Some s, Some g, Some t) \<Rightarrow>
               Some \<lparr>mor_laneId = l, mor_missionId = m, mor_repository = r, mor_workspace = w,
                     mor_branch = b, mor_checkpointSha = c, mor_status = s, mor_generation = g,
                     mor_token = t\<rparr>
           | _ \<Rightarrow> None)
      | _ \<Rightarrow> None)"

definition manual_receipt_coherent :: "manual_owner_receipt \<Rightarrow> bool" where
  "manual_receipt_coherent r \<longleftrightarrow>
     (if mor_status r = Manual_parked then mor_token r = None
      else present_and (token_matches (mor_laneId r) (mor_generation r)) (mor_token r))"

definition manual_owner_receipt_of :: "json \<Rightarrow> manual_owner_receipt option" where
  "manual_owner_receipt_of v =
     (case v of
        JObject ms \<Rightarrow>
          if \<not> manual_receipt_keys_ok ms \<or> js_get ms ''schemaVersion'' \<noteq> Some (JNumber 1) then None
          else (case manual_receipt_values ms of
            Some r \<Rightarrow> if manual_receipt_coherent r then Some r else None
          | None \<Rightarrow> None)
      | _ \<Rightarrow> None)"

definition manual_receipt_members :: "manual_owner_receipt \<Rightarrow> (string \<times> json) list" where
  "manual_receipt_members r =
     [(''schemaVersion'', JNumber 1), (''laneId'', JString (mor_laneId r)),
      (''missionId'', JString (mor_missionId r)), (''repository'', JString (mor_repository r)),
      (''workspace'', JString (mor_workspace r)), (''branch'', JString (mor_branch r)),
      (''checkpointSha'', JString (mor_checkpointSha r)),
      (''status'', JString (manual_status_text (mor_status r))),
      (''generation'', JNumber (mor_generation r))] @
     opt_member ''token'' token_json (mor_token r)"

definition read_manual_owner_receipt :: "receipt_file \<Rightarrow> receipt_error + manual_owner_receipt option" where
  "read_manual_owner_receipt f = read_receipt_with manual_owner_receipt_of f"

definition write_manual_owner_receipt ::
  "manual_owner_receipt \<Rightarrow> receipt_file \<Rightarrow> receipt_error + receipt_file" where
  "write_manual_owner_receipt r f =
     write_receipt_with manual_owner_receipt_of (JObject (manual_receipt_members r)) f"

section \<open>What is written is read back\<close>

lemma phase_value_text: "phase_value (Some (JString (phase_text p))) = Some p"
  by (cases p) (simp_all add: phase_value_def RECEIPT_PHASES_def)

lemma disposition_value_text: "disposition_value (Some (JString (disposition_text d))) = Some d"
  by (cases d) (simp_all add: disposition_value_def)

lemma manual_status_value_text: "manual_status_value (Some (JString (manual_status_text s))) = Some s"
  by (cases s) (simp_all add: manual_status_value_def)

lemma token_keys: "key_list [(''laneId'', u), (''generation'', v), (''token'', w)] = ''generation,laneId,token''"
proof -
  have "sort [''laneId'', ''generation'', ''token''] = [''generation'', ''laneId'', ''token'']"
    by code_simp
  then show ?thesis
    by (simp add: key_list_def)
qed

lemma token_value_json:
  "token_value (Some (token_json t)) = (if \<not> blank (at_token t) then Some t else None)"
  by (simp add: token_value_def token_json_def token_keys filled_text_JString)

lemma worktree_value_text: "worktree_value (Some (JString s)) = (if is_absolute s then Some s else None)"
  by (simp add: worktree_value_def)

lemma checkpoint_value_text: "checkpoint_value (Some (JString s)) = (if checkpoint_sha s then Some s else None)"
  by (simp add: checkpoint_value_def)

lemma repository_value_text: "repository_value (Some (JString s)) = (if owner_and_name s then Some s else None)"
  by (simp add: repository_value_def)

lemma absolute_value_text:
  "absolute_value (Some (JString s)) = (if \<not> blank s \<and> is_absolute s then Some s else None)"
  by (simp add: absolute_value_def filled_text_JString)

lemmas member_values =
  filled_text_JString issue_value_JNumber repository_value_text worktree_value_text
  checkpoint_value_text phase_value_text manual_status_value_text

definition valid_run_receipt :: "run_owner_receipt \<Rightarrow> bool" where
  "valid_run_receipt r \<longleftrightarrow>
     \<not> blank (ror_laneId r) \<and> \<not> blank (ror_missionId r) \<and> owner_and_name (ror_repository r)
     \<and> \<not> blank (ror_runId r) \<and> absent_or (\<lambda>n. is_safe_integer n \<and> 1 \<le> n) (ror_issue r)
     \<and> absent_or (\<lambda>s. \<not> blank s) (ror_claimId r)
     \<and> absent_or (\<lambda>s. \<not> blank s \<and> is_absolute s) (ror_workspace r)
     \<and> absent_or (\<lambda>t. \<not> blank (at_token t)) (ror_token r)
     \<and> is_safe_integer (ror_generation r) \<and> 1 \<le> ror_generation r
     \<and> run_receipt_coherent r"

definition valid_manual_receipt :: "manual_owner_receipt \<Rightarrow> bool" where
  "valid_manual_receipt r \<longleftrightarrow>
     \<not> blank (mor_laneId r) \<and> \<not> blank (mor_missionId r) \<and> owner_and_name (mor_repository r)
     \<and> is_absolute (mor_workspace r) \<and> \<not> blank (mor_branch r) \<and> checkpoint_sha (mor_checkpointSha r)
     \<and> is_safe_integer (mor_generation r) \<and> 1 \<le> mor_generation r
     \<and> absent_or (\<lambda>t. \<not> blank (at_token t)) (mor_token r)
     \<and> manual_receipt_coherent r"

lemma run_member_values:
  "js_get (run_receipt_members r) ''schemaVersion'' = Some (JNumber 1)"
  "js_get (run_receipt_members r) ''laneId'' = Some (JString (ror_laneId r))"
  "js_get (run_receipt_members r) ''missionId'' = Some (JString (ror_missionId r))"
  "js_get (run_receipt_members r) ''repository'' = Some (JString (ror_repository r))"
  "js_get (run_receipt_members r) ''runId'' = Some (JString (ror_runId r))"
  "js_get (run_receipt_members r) ''issue'' = map_option JNumber (ror_issue r)"
  "js_get (run_receipt_members r) ''claimId'' = map_option JString (ror_claimId r)"
  "js_get (run_receipt_members r) ''workspace'' = map_option JString (ror_workspace r)"
  "js_get (run_receipt_members r) ''token'' = map_option token_json (ror_token r)"
  "js_get (run_receipt_members r) ''generation'' = Some (JNumber (ror_generation r))"
  "js_get (run_receipt_members r) ''phase'' = Some (JString (phase_text (ror_phase r)))"
  "js_get (run_receipt_members r) ''settlementReason'' =
     (if ror_settled r then Some (JString ''workflow_settled'') else None)"
  "js_get (run_receipt_members r) ''workDisposition'' =
     map_option (\<lambda>d. JString (disposition_text d)) (ror_workDisposition r)"
  by (simp_all add: run_receipt_members_def)

lemma run_member_keys:
  "set (map fst (run_receipt_members r)) \<subseteq> set RUN_RECEIPT_KEYS" (is ?known)
  "distinct (map fst (run_receipt_members r))" (is ?distinct)
proof -
  show ?known
    by (simp add: run_receipt_members_def RUN_RECEIPT_KEYS_def RUN_RECEIPT_REQUIRED_def
        set_keys_opt_member flip: set_map)
  show ?distinct
    by (simp add: run_receipt_members_def distinct_keys_opt_member set_keys_opt_member flip: set_map)
qed

lemma run_receipt_values_members:
  "run_receipt_values (run_receipt_members r) =
     (if valid_run_receipt (r\<lparr>ror_settled := False, ror_workDisposition := None, ror_token := None,
           ror_phase := Phase_parked\<rparr>)
         \<and> absent_or (\<lambda>t. \<not> blank (at_token t)) (ror_token r) then Some r else None)"
proof -
  note optional = read_optional_encoded[where f = issue_value and g = JNumber, OF issue_value_JNumber]
    read_optional_encoded[where f = filled_text and g = JString, OF filled_text_JString]
    read_optional_encoded[where f = absolute_value and g = JString, OF absolute_value_text]
    read_optional_encoded[where f = token_value and g = token_json, OF token_value_json]
  have always: "disposition_value (Some (JString (disposition_text d))) = (if True then Some d else None)" for d
    by (simp add: disposition_value_text)
  have settled: "read_optional settled_value (if b then Some (JString ''workflow_settled'') else None) =
      Some (if b then Some () else None)" for b
    by (simp add: read_optional_def settled_value_def)
  show ?thesis
    by (simp add: run_receipt_values_def run_member_values member_values optional settled
        read_optional_encoded[OF always] valid_run_receipt_def run_receipt_coherent_def
        holds_capability_def)
qed

lemma run_receipt_read_back:
  "run_owner_receipt_of (JObject (run_receipt_members r)) = (if valid_run_receipt r then Some r else None)"
proof -
  have known: "list_all (\<lambda>k. k \<in> set RUN_RECEIPT_KEYS) (map fst (run_receipt_members r))"
    using run_member_keys(1)[of r] by (simp add: list_all_iff subset_iff)
  have required: "list_all (\<lambda>k. js_get (run_receipt_members r) k \<noteq> None) RUN_RECEIPT_REQUIRED"
    by (simp add: RUN_RECEIPT_REQUIRED_def run_member_values)
  have split_valid: "valid_run_receipt (r\<lparr>ror_settled := False, ror_workDisposition := None, ror_token := None,
        ror_phase := Phase_parked\<rparr>) \<and> absent_or (\<lambda>t. \<not> blank (at_token t)) (ror_token r) \<and> run_receipt_coherent r
      \<longleftrightarrow> valid_run_receipt r"
    by (auto simp: valid_run_receipt_def run_receipt_coherent_def holds_capability_def)
  show ?thesis
    unfolding run_owner_receipt_of_def json.case
    using known required split_valid by (auto simp: run_member_values run_receipt_values_members)
qed

lemma manual_member_values:
  "js_get (manual_receipt_members r) ''schemaVersion'' = Some (JNumber 1)"
  "js_get (manual_receipt_members r) ''laneId'' = Some (JString (mor_laneId r))"
  "js_get (manual_receipt_members r) ''missionId'' = Some (JString (mor_missionId r))"
  "js_get (manual_receipt_members r) ''repository'' = Some (JString (mor_repository r))"
  "js_get (manual_receipt_members r) ''workspace'' = Some (JString (mor_workspace r))"
  "js_get (manual_receipt_members r) ''branch'' = Some (JString (mor_branch r))"
  "js_get (manual_receipt_members r) ''checkpointSha'' = Some (JString (mor_checkpointSha r))"
  "js_get (manual_receipt_members r) ''status'' = Some (JString (manual_status_text (mor_status r)))"
  "js_get (manual_receipt_members r) ''generation'' = Some (JNumber (mor_generation r))"
  "js_get (manual_receipt_members r) ''token'' = map_option token_json (mor_token r)"
  by (simp_all add: manual_receipt_members_def)

lemma manual_member_keys: "manual_receipt_keys_ok (manual_receipt_members r)"
  by (cases "mor_token r")
    (simp_all add: manual_receipt_keys_ok_def manual_member_values MANUAL_RECEIPT_KEYS_def
      manual_receipt_members_def opt_member_def)

lemma manual_receipt_values_members:
  "manual_receipt_values (manual_receipt_members r) =
     (if valid_manual_receipt r \<or> valid_manual_receipt (r\<lparr>mor_status := Manual_parked, mor_token := None\<rparr>)
         \<and> absent_or (\<lambda>t. \<not> blank (at_token t)) (mor_token r) then Some r else None)"
  by (simp add: manual_receipt_values_def manual_member_values member_values valid_manual_receipt_def
      manual_receipt_coherent_def
      read_optional_encoded[where f = token_value and g = token_json, OF token_value_json])

lemma manual_receipt_read_back:
  "manual_owner_receipt_of (JObject (manual_receipt_members r)) =
     (if valid_manual_receipt r then Some r else None)"
proof -
  have "valid_manual_receipt (r\<lparr>mor_status := Manual_parked, mor_token := None\<rparr>)
      \<and> absent_or (\<lambda>t. \<not> blank (at_token t)) (mor_token r) \<and> manual_receipt_coherent r
    \<longleftrightarrow> valid_manual_receipt r"
    by (auto simp: valid_manual_receipt_def manual_receipt_coherent_def)
  then show ?thesis
    by (auto simp: manual_owner_receipt_of_def manual_member_keys manual_member_values
        manual_receipt_values_members valid_manual_receipt_def)
qed

lemma printable_token: "printable (token_json t)"
  by (simp add: token_json_def)

lemma run_receipt_printable: "printable (JObject (run_receipt_members r))"
proof -
  have "list_all (\<lambda>m. printable (snd m)) (run_receipt_members r)"
    by (simp add: run_receipt_members_def printable_opt_member printable_token absent_or_def
        split: option.split)
  with run_member_keys(2)[of r] show ?thesis
    by simp
qed

lemma manual_receipt_printable: "printable (JObject (manual_receipt_members r))"
  by (cases "mor_token r") (simp_all add: manual_receipt_members_def opt_member_def printable_token)

text \<open>A written page is followed by a line feed, which the parser skips.\<close>

lemma parse_page:
  assumes "printable v"
  shows "json_parse (json_text_2 v @ [CHR 0x0A]) = Some v"
proof -
  have "read_value (Suc (length (json_text_2 v @ [CHR 0x0A]))) ([] @ json_text_2 v @ [CHR 0x0A]) =
      Some (v, [CHR 0x0A])"
    unfolding json_text_2_def
    by (rule layout_read[where cw = "'' ''"])
      (simp_all add: white_def json_space_def assms ends_number_def is_digit_def)
  then show ?thesis
    by (simp add: json_parse_def skip_def json_space_def)
qed

lemma written_receipt_read:
  assumes "printable v" and "write_receipt_with of_json v f = Inr f'"
  shows "read_receipt_with of_json f' = Inr (of_json v)"
  using assms by (auto simp: write_receipt_with_def read_receipt_with_def parse_page split: if_splits)

lemma run_receipt_written:
  assumes "write_run_owner_receipt r f = Inr f'"
  shows "valid_run_receipt r" and "read_run_owner_receipt f' = Inr (Some r)"
proof -
  from assms show valid: "valid_run_receipt r"
    by (simp add: write_run_owner_receipt_def write_receipt_with_def run_receipt_read_back split: if_splits)
  with written_receipt_read[OF run_receipt_printable, of run_owner_receipt_of r f f'] assms
  show "read_run_owner_receipt f' = Inr (Some r)"
    by (simp add: write_run_owner_receipt_def read_run_owner_receipt_def run_receipt_read_back)
qed

lemma manual_receipt_written:
  assumes "write_manual_owner_receipt r f = Inr f'"
  shows "valid_manual_receipt r" and "read_manual_owner_receipt f' = Inr (Some r)"
proof -
  from assms show valid: "valid_manual_receipt r"
    by (simp add: write_manual_owner_receipt_def write_receipt_with_def manual_receipt_read_back
        split: if_splits)
  with written_receipt_read[OF manual_receipt_printable, of manual_owner_receipt_of r f f'] assms
  show "read_manual_owner_receipt f' = Inr (Some r)"
    by (simp add: write_manual_owner_receipt_def read_manual_owner_receipt_def manual_receipt_read_back)
qed

end
