(* ===== verification/Runtime_Projection.thy ===== *)
theory Runtime_Projection
  imports Owner_Receipts Implementation_Packet
begin

text \<open>
  The operational runtime projection: the bounded view of the admission registry
  (\<^verbatim>\<open>project\<close> in \<^verbatim>\<open>mission-admission/registry.ts\<close>), the versioned file an operator reads before
  a restart (\<^verbatim>\<open>operational/runtime-projection.ts\<close>) with its validator, its composition and its
  restart verdict, and the per-Run sidecar (\<^verbatim>\<open>operational/projection.ts\<close>). Members of the file
  that the type does not name are not kept.
\<close>

section \<open>The registry as a projection\<close>

record lane_view =
  lview_laneId :: string
  lview_missionId :: string
  lview_evidence :: mission_evidence
  lview_role :: admission_role
  lview_status :: lane_status
  lview_generation :: int
  lview_highAutonomy :: bool
  lview_parkedReason :: "parked_reason option"

record admission_counts =
  cnt_captains :: int
  cnt_writers :: int
  cnt_highAutonomy :: int
  cnt_parked :: int

record admission_projection =
  adm_revision :: int
  adm_limits :: admission_limits
  adm_counts :: admission_counts
  adm_lanes :: "lane_view list"
  adm_omittedLaneCount :: int
  adm_lanesTruncated :: bool
  adm_lastTransition :: "registry_transition option"

definition lane_priority :: "lane_record \<Rightarrow> int" where
  "lane_priority l =
     (if is_active l \<and> ln_role l = Production_captain then 0
      else if is_active l \<and> ln_role l = Delegated_mutation_writer then 1
      else if is_active l then 2
      else if ln_status l = Lane_parked then 3 else 4)"

text \<open>The code's chain of \<open>||\<close>: the first comparison that decides.\<close>

fun first_nonzero :: "int list \<Rightarrow> int" where
  "first_nonzero [] = 0"
| "first_nonzero (x # xs) = (if x \<noteq> 0 then x else first_nonzero xs)"

text \<open>\<open>collate\<close> is \<open>localeCompare\<close>.\<close>

definition lane_order :: "(string \<Rightarrow> string \<Rightarrow> int) \<Rightarrow> lane_record \<Rightarrow> lane_record \<Rightarrow> int" where
  "lane_order collate l r =
     first_nonzero
       [lane_priority l - lane_priority r, collate (ln_updatedAt r) (ln_updatedAt l),
        collate (ln_laneId l) (ln_laneId r), ln_generation r - ln_generation l]"

text \<open>A stable sort.\<close>

fun insert_by :: "('a \<Rightarrow> 'a \<Rightarrow> int) \<Rightarrow> 'a \<Rightarrow> 'a list \<Rightarrow> 'a list" where
  "insert_by cmp x [] = [x]"
| "insert_by cmp x (y # ys) = (if cmp x y \<le> 0 then x # y # ys else y # insert_by cmp x ys)"

definition sort_by :: "('a \<Rightarrow> 'a \<Rightarrow> int) \<Rightarrow> 'a list \<Rightarrow> 'a list" where
  "sort_by cmp xs = foldr (insert_by cmp) xs []"

definition view_of :: "lane_record \<Rightarrow> lane_view" where
  "view_of l =
     \<lparr>lview_laneId = ln_laneId l, lview_missionId = ln_missionId l, lview_evidence = ln_evidence l,
      lview_role = ln_role l, lview_status = ln_status l, lview_generation = ln_generation l,
      lview_highAutonomy = ln_highAutonomy l, lview_parkedReason = ln_parkedReason l\<rparr>"

definition project :: "(string \<Rightarrow> string \<Rightarrow> int) \<Rightarrow> registry_state \<Rightarrow> admission_projection" where
  "project collate s =
     (let selected = take 100 (sort_by (lane_order collate) (rg_lanes s));
          omitted = int (length (rg_lanes s)) - int (length selected) in
      \<lparr>adm_revision = rg_revision s, adm_limits = limits_of s,
       adm_counts =
         \<lparr>cnt_captains = int (length (captains s)), cnt_writers = count_of (writer_missions s),
          cnt_highAutonomy = count_of (high_autonomy_missions s),
          cnt_parked = int (length (filter (\<lambda>l. ln_status l = Lane_parked) (rg_lanes s)))\<rparr>,
       adm_lanes = map view_of selected, adm_omittedLaneCount = omitted,
       adm_lanesTruncated = (omitted > 0), adm_lastTransition = rg_lastTransition s\<rparr>)"

definition registry_snapshot ::
  "mission_host \<Rightarrow> admission_config \<Rightarrow> (string \<Rightarrow> string \<Rightarrow> int) \<Rightarrow> bool \<Rightarrow> registry_file \<Rightarrow>
   mission_error + admission_projection" where
  "registry_snapshot h c collate requireExisting f =
     (if f = Registry_absent \<and> requireExisting then Inl Registry_missing
      else map_sum id (project collate) (load_registry h c f))"

section \<open>The projection file\<close>

datatype supervisor_state = Supervisor_running | Supervisor_stopped | Supervisor_parked

datatype writer_ownership = Owned_none | Owned_active | Owned_ambiguous

datatype checkpoint_state = Checkpoint_durable | Checkpoint_in_progress | Checkpoint_unknown

datatype manual_state = Worktree_active | Worktree_parked

record maintenance_hold =
  hold_active :: bool
  hold_reason :: "string option"

record active_writer =
  wtr_issue :: "int option"
  wtr_runId :: string
  wtr_worker :: "string option"
  wtr_worktree :: string

record manual_view =
  man_repository :: string
  man_worktree :: string
  man_branch :: string
  man_checkpointSha :: string
  man_clean :: bool
  man_state :: manual_state
  man_recoverable :: bool
  man_laneId :: "string option"
  man_missionId :: "string option"
  man_admissionRevision :: "int option"

record runtime_projection =
  rtp_updatedAt :: string
  rtp_supervisor :: supervisor_state
  rtp_stage :: string
  rtp_nextPollAt :: "string option"
  rtp_eventWakeEligible :: bool
  rtp_hold :: maintenance_hold
  rtp_ownership :: writer_ownership
  rtp_checkpoint :: checkpoint_state
  rtp_activeWriter :: "active_writer option"
  rtp_manualLane :: "manual_view option"

fun supervisor_text :: "supervisor_state \<Rightarrow> string" where
  "supervisor_text Supervisor_running = ''running''"
| "supervisor_text Supervisor_stopped = ''stopped''"
| "supervisor_text Supervisor_parked = ''parked''"

fun ownership_text :: "writer_ownership \<Rightarrow> string" where
  "ownership_text Owned_none = ''none''"
| "ownership_text Owned_active = ''active''"
| "ownership_text Owned_ambiguous = ''ambiguous''"

fun checkpoint_text :: "checkpoint_state \<Rightarrow> string" where
  "checkpoint_text Checkpoint_durable = ''durable''"
| "checkpoint_text Checkpoint_in_progress = ''in_progress''"
| "checkpoint_text Checkpoint_unknown = ''unknown''"

fun manual_state_text :: "manual_state \<Rightarrow> string" where
  "manual_state_text Worktree_active = ''active''"
| "manual_state_text Worktree_parked = ''parked''"

definition canonical_timestamp :: "dispatch_host \<Rightarrow> string \<Rightarrow> bool" where
  "canonical_timestamp h s \<longleftrightarrow>
     (case dh_date h s of None \<Rightarrow> False | Some t \<Rightarrow> dh_iso h t = Some s)"

text \<open>A text of a fixed vocabulary, as its constructor.\<close>

definition one_of :: "('a \<Rightarrow> string) \<Rightarrow> 'a list \<Rightarrow> json option \<Rightarrow> 'a option" where
  "one_of txt xs v = (case v of Some (JString s) \<Rightarrow> find (\<lambda>x. txt x = s) xs | _ \<Rightarrow> None)"

definition timestamp_value :: "dispatch_host \<Rightarrow> json option \<Rightarrow> string option" where
  "timestamp_value h v =
     (case v of Some (JString s) \<Rightarrow> if canonical_timestamp h s then Some s else None | _ \<Rightarrow> None)"

definition flag_value :: "json option \<Rightarrow> bool option" where
  "flag_value v = (case v of Some (JBool b) \<Rightarrow> Some b | _ \<Rightarrow> None)"

definition revision_value :: "json option \<Rightarrow> int option" where
  "revision_value v =
     (case v of Some (JNumber n) \<Rightarrow> if is_safe_integer n \<and> 0 \<le> n then Some n else None | _ \<Rightarrow> None)"

definition full_sha_value :: "json option \<Rightarrow> string option" where
  "full_sha_value v =
     (case v of Some (JString s) \<Rightarrow> if is_sha_any_case s then Some s else None | _ \<Rightarrow> None)"

definition hold_value :: "json option \<Rightarrow> maintenance_hold option" where
  "hold_value v =
     (case v of
        Some (JObject ms) \<Rightarrow>
          (case (flag_value (js_get ms ''active''), read_optional filled_text (js_get ms ''reason'')) of
             (Some a, Some r) \<Rightarrow> Some \<lparr>hold_active = a, hold_reason = r\<rparr>
           | _ \<Rightarrow> None)
      | _ \<Rightarrow> None)"

definition writer_value :: "json option \<Rightarrow> active_writer option" where
  "writer_value v =
     (case v of
        Some (JObject ms) \<Rightarrow>
          (case (filled_text (js_get ms ''runId''), filled_text (js_get ms ''worktree''),
                 read_optional filled_text (js_get ms ''worker''),
                 read_optional issue_value (js_get ms ''issue'')) of
             (Some r, Some t, Some w, Some n) \<Rightarrow>
               Some \<lparr>wtr_issue = n, wtr_runId = r, wtr_worker = w, wtr_worktree = t\<rparr>
           | _ \<Rightarrow> None)
      | _ \<Rightarrow> None)"

definition manual_value :: "json option \<Rightarrow> manual_view option" where
  "manual_value v =
     (case v of
        Some (JObject ms) \<Rightarrow>
          (case (filled_text (js_get ms ''repository''), filled_text (js_get ms ''worktree''),
                 filled_text (js_get ms ''branch''), full_sha_value (js_get ms ''checkpointSha''),
                 flag_value (js_get ms ''clean'')) of
             (Some r, Some t, Some b, Some c, Some k) \<Rightarrow>
               (case (one_of manual_state_text [Worktree_active, Worktree_parked] (js_get ms ''state''),
                      flag_value (js_get ms ''recoverable''),
                      read_optional filled_text (js_get ms ''laneId''),
                      read_optional filled_text (js_get ms ''missionId''),
                      read_optional revision_value (js_get ms ''admissionRevision'')) of
                  (Some s, Some u, Some l, Some m, Some n) \<Rightarrow>
                    Some \<lparr>man_repository = r, man_worktree = t, man_branch = b, man_checkpointSha = c,
                          man_clean = k, man_state = s, man_recoverable = u, man_laneId = l,
                          man_missionId = m, man_admissionRevision = n\<rparr>
                | _ \<Rightarrow> None)
           | _ \<Rightarrow> None)
      | _ \<Rightarrow> None)"

definition adverse_parked_lane :: "manual_view \<Rightarrow> bool" where
  "adverse_parked_lane m \<longleftrightarrow> man_state m = Worktree_parked \<and> (\<not> man_clean m \<or> \<not> man_recoverable m)"

text \<open>The summary must agree with the owner it names.\<close>

definition summary_consistent :: "runtime_projection \<Rightarrow> bool" where
  "summary_consistent p \<longleftrightarrow>
     (present_and (\<lambda>m. man_state m = Worktree_active) (rtp_manualLane p) \<or> rtp_activeWriter p \<noteq> None
        \<longrightarrow> rtp_ownership p = Owned_active)
     \<and> \<not> (present_and adverse_parked_lane (rtp_manualLane p) \<and> rtp_ownership p = Owned_none
          \<and> rtp_checkpoint p = Checkpoint_durable)"

definition runtime_values :: "dispatch_host \<Rightarrow> (string \<times> json) list \<Rightarrow> runtime_projection option" where
  "runtime_values h ms =
     (case (timestamp_value h (js_get ms ''updatedAt''),
            one_of supervisor_text [Supervisor_running, Supervisor_stopped, Supervisor_parked]
              (js_get ms ''supervisor''),
            filled_text (js_get ms ''stage''),
            read_optional (timestamp_value h) (js_get ms ''nextPollAt''),
            flag_value (js_get ms ''eventWakeEligible'')) of
        (Some u, Some s, Some g, Some n, Some e) \<Rightarrow>
          (case (hold_value (js_get ms ''maintenanceHold''),
                 one_of ownership_text [Owned_none, Owned_active, Owned_ambiguous] (js_get ms ''ownership''),
                 one_of checkpoint_text [Checkpoint_durable, Checkpoint_in_progress, Checkpoint_unknown]
                   (js_get ms ''checkpoint''),
                 read_optional writer_value (js_get ms ''activeWriter''),
                 read_optional manual_value (js_get ms ''manualLane'')) of
             (Some k, Some w, Some c, Some a, Some m) \<Rightarrow>
               Some \<lparr>rtp_updatedAt = u, rtp_supervisor = s, rtp_stage = g, rtp_nextPollAt = n,
                     rtp_eventWakeEligible = e, rtp_hold = k, rtp_ownership = w, rtp_checkpoint = c,
                     rtp_activeWriter = a, rtp_manualLane = m\<rparr>
           | _ \<Rightarrow> None)
      | _ \<Rightarrow> None)"

definition runtime_projection_of :: "dispatch_host \<Rightarrow> json \<Rightarrow> runtime_projection option" where
  "runtime_projection_of h v =
     (case v of
        JObject ms \<Rightarrow>
          if js_get ms ''schemaVersion'' \<noteq> Some (JNumber 1) then None
          else (case runtime_values h ms of
            Some p \<Rightarrow> if summary_consistent p then Some p else None
          | None \<Rightarrow> None)
      | _ \<Rightarrow> None)"

definition hold_json :: "maintenance_hold \<Rightarrow> json" where
  "hold_json k = JObject ((''active'', JBool (hold_active k)) # opt_member ''reason'' JString (hold_reason k))"

definition writer_json :: "active_writer \<Rightarrow> json" where
  "writer_json w =
     JObject (opt_member ''issue'' JNumber (wtr_issue w) @ [(''runId'', JString (wtr_runId w))] @
       opt_member ''worker'' JString (wtr_worker w) @ [(''worktree'', JString (wtr_worktree w))])"

definition manual_json :: "manual_view \<Rightarrow> json" where
  "manual_json m =
     JObject
       ([(''repository'', JString (man_repository m)), (''worktree'', JString (man_worktree m)),
         (''branch'', JString (man_branch m)), (''checkpointSha'', JString (man_checkpointSha m)),
         (''clean'', JBool (man_clean m)), (''state'', JString (manual_state_text (man_state m))),
         (''recoverable'', JBool (man_recoverable m))] @
        opt_member ''laneId'' JString (man_laneId m) @ opt_member ''missionId'' JString (man_missionId m) @
        opt_member ''admissionRevision'' JNumber (man_admissionRevision m))"

definition runtime_members :: "runtime_projection \<Rightarrow> (string \<times> json) list" where
  "runtime_members p =
     [(''schemaVersion'', JNumber 1), (''updatedAt'', JString (rtp_updatedAt p)),
      (''supervisor'', JString (supervisor_text (rtp_supervisor p))), (''stage'', JString (rtp_stage p))] @
     opt_member ''nextPollAt'' JString (rtp_nextPollAt p) @
     [(''eventWakeEligible'', JBool (rtp_eventWakeEligible p)),
      (''maintenanceHold'', hold_json (rtp_hold p)),
      (''ownership'', JString (ownership_text (rtp_ownership p))),
      (''checkpoint'', JString (checkpoint_text (rtp_checkpoint p)))] @
     opt_member ''activeWriter'' writer_json (rtp_activeWriter p) @
     opt_member ''manualLane'' manual_json (rtp_manualLane p)"

text \<open>The file: absent, present but not readable, or a text.\<close>

datatype runtime_file = No_runtime_file | Unreadable_runtime | Runtime_text string

datatype runtime_read = Runtime_missing | Runtime_invalid | Runtime_valid runtime_projection

definition read_runtime_state :: "dispatch_host \<Rightarrow> runtime_file \<Rightarrow> runtime_read" where
  "read_runtime_state h f =
     (case f of
        No_runtime_file \<Rightarrow> Runtime_missing
      | Unreadable_runtime \<Rightarrow> Runtime_invalid
      | Runtime_text t \<Rightarrow>
          (case json_parse t of
             None \<Rightarrow> Runtime_invalid
           | Some v \<Rightarrow>
               (case runtime_projection_of h v of None \<Rightarrow> Runtime_invalid | Some p \<Rightarrow> Runtime_valid p)))"

definition read_runtime_projection :: "dispatch_host \<Rightarrow> runtime_file \<Rightarrow> runtime_projection option" where
  "read_runtime_projection h f =
     (case read_runtime_state h f of Runtime_valid p \<Rightarrow> Some p | _ \<Rightarrow> None)"

definition write_runtime_projection :: "runtime_projection \<Rightarrow> runtime_file" where
  "write_runtime_projection p = Runtime_text (json_text_2 (JObject (runtime_members p)) @ [CHR 0x0A])"

datatype restart_verdict = Safe_to_restart | Safe_now | Wait_for_checkpoint | Cannot_prove_safe

definition verdict_of :: "dispatch_host \<Rightarrow> runtime_projection option \<Rightarrow> restart_verdict" where
  "verdict_of h x =
     (case Option.bind x (\<lambda>p. runtime_projection_of h (JObject (runtime_members p))) of
        None \<Rightarrow> Cannot_prove_safe
      | Some p \<Rightarrow>
          if rtp_ownership p = Owned_active then Wait_for_checkpoint
          else if rtp_ownership p \<noteq> Owned_none \<or> rtp_checkpoint p \<noteq> Checkpoint_durable then Cannot_prove_safe
          else if \<not> hold_active (rtp_hold p) then Safe_now
          else Safe_to_restart)"

section \<open>Composition\<close>

record runtime_input =
  cin_admission :: admission_projection
  cin_runs :: "run list"
  cin_prior :: "runtime_projection option"
  cin_now :: string
  cin_stage :: string
  cin_supervisor :: supervisor_state
  cin_eventWakeEligible :: bool
  cin_nextPollAt :: "string option"
  cin_hold :: "maintenance_hold option"
  cin_manualLane :: "manual_view option"
  cin_durableLaneIds :: "string list"
  cin_reentryEvidenceComplete :: bool

definition checkpointed :: "lane_view \<Rightarrow> bool" where
  "checkpointed l \<longleftrightarrow> lview_status l = Lane_parked \<or> lview_status l = Lane_released"

definition mutation_lanes :: "admission_projection \<Rightarrow> lane_view list" where
  "mutation_lanes a = filter (\<lambda>l. mutation (lview_role l)) (adm_lanes a)"

definition run_at_rest :: "run \<Rightarrow> bool" where
  "run_at_rest r \<longleftrightarrow>
     run_state r \<in> {MERGED, FAILED, MERGE_READY, NEEDS_HUMAN, WAITING_DEPENDENCY}"

definition live_runs :: "run list \<Rightarrow> run list" where
  "live_runs rs =
     filter (\<lambda>r. run_id r \<in> set (map run_id (filter (\<lambda>x. \<not> run_at_rest x) rs))) rs"

definition history_durable :: "runtime_input \<Rightarrow> bool" where
  "history_durable x \<longleftrightarrow>
     (let lanes = filter checkpointed (mutation_lanes (cin_admission x)) in
      list_all (\<lambda>l. lview_laneId l \<in> set (cin_durableLaneIds x)) lanes
      \<and> list_all (\<lambda>r. list_ex (\<lambda>l. ev_run (lview_evidence l) = Some (run_id r)
            \<and> lview_laneId l \<in> set (cin_durableLaneIds x)) lanes) (cin_runs x))"

text \<open>Ownership, checkpoint and the manual lane that agrees with them.\<close>

definition observed_ownership ::
  "runtime_input \<Rightarrow> writer_ownership \<times> checkpoint_state \<times> manual_view option" where
  "observed_ownership x =
     (if cnt_writers (adm_counts (cin_admission x)) > 0
      then (Owned_active, Checkpoint_in_progress,
            if present_and (\<lambda>m. man_state m = Worktree_active) (cin_manualLane x) then cin_manualLane x else None)
      else if adm_lanesTruncated (cin_admission x) then (Owned_ambiguous, Checkpoint_unknown, None)
      else if live_runs (cin_runs x) \<noteq> []
            \<or> list_ex (\<lambda>l. lview_status l = Lane_active) (mutation_lanes (cin_admission x))
            \<or> \<not> history_durable x \<or> \<not> cin_reentryEvidenceComplete x
      then (Owned_ambiguous, Checkpoint_unknown, None)
      else (Owned_none, Checkpoint_durable,
            if present_and (\<lambda>m. man_state m = Worktree_parked) (cin_manualLane x) then cin_manualLane x else None))"

definition adverse_supplied :: "runtime_input \<Rightarrow> bool" where
  "adverse_supplied x \<longleftrightarrow>
     cnt_writers (adm_counts (cin_admission x)) = 0 \<and> present_and adverse_parked_lane (cin_manualLane x)"

definition composed_ownership ::
  "runtime_input \<Rightarrow> writer_ownership \<times> checkpoint_state \<times> manual_view option" where
  "composed_ownership x =
     (case observed_ownership x of
        (w, c, m) \<Rightarrow>
          if \<not> adverse_supplied x then (w, c, m)
          else (let (w', c') = (if w = Owned_none \<and> c = Checkpoint_durable
                                then (Owned_ambiguous, Checkpoint_unknown) else (w, c)) in
                (w', c', if w' \<noteq> Owned_active then cin_manualLane x else m)))"

definition compose_runtime_projection :: "runtime_input \<Rightarrow> runtime_projection" where
  "compose_runtime_projection x =
     (case composed_ownership x of
        (w, c, m) \<Rightarrow>
          \<lparr>rtp_updatedAt = cin_now x, rtp_supervisor = cin_supervisor x, rtp_stage = cin_stage x,
           rtp_nextPollAt = cin_nextPollAt x, rtp_eventWakeEligible = cin_eventWakeEligible x,
           rtp_hold =
             (case or_else (cin_hold x) (map_option rtp_hold (cin_prior x)) of
                Some k \<Rightarrow> k | None \<Rightarrow> \<lparr>hold_active = False, hold_reason = None\<rparr>),
           rtp_ownership = w, rtp_checkpoint = c, rtp_activeWriter = None, rtp_manualLane = m\<rparr>)"

section \<open>Direct changes of the file\<close>

definition prior_or :: "runtime_projection option \<Rightarrow> (runtime_projection \<Rightarrow> 'a) \<Rightarrow> 'a \<Rightarrow> 'a" where
  "prior_or prior g d = (case prior of Some p \<Rightarrow> g p | None \<Rightarrow> d)"

definition no_hold :: maintenance_hold where
  "no_hold = \<lparr>hold_active = False, hold_reason = None\<rparr>"

definition set_maintenance_hold ::
  "dispatch_host \<Rightarrow> bool \<Rightarrow> string \<Rightarrow> string \<Rightarrow> runtime_file \<Rightarrow> runtime_projection" where
  "set_maintenance_hold h active now reason f =
     (let prior = read_runtime_projection h f in
      \<lparr>rtp_updatedAt = now,
       rtp_supervisor = (if active then Supervisor_parked else prior_or prior rtp_supervisor Supervisor_stopped),
       rtp_stage = (if active then ''maintenance_hold'' else prior_or prior rtp_stage ''idle''),
       rtp_nextPollAt = Option.bind prior rtp_nextPollAt, rtp_eventWakeEligible = False,
       rtp_hold = (if active then \<lparr>hold_active = True, hold_reason = Some reason\<rparr> else no_hold),
       rtp_ownership = prior_or prior rtp_ownership Owned_ambiguous,
       rtp_checkpoint = prior_or prior rtp_checkpoint Checkpoint_unknown,
       rtp_activeWriter = Option.bind prior rtp_activeWriter,
       rtp_manualLane = Option.bind prior rtp_manualLane\<rparr>)"

definition register_manual_lane ::
  "dispatch_host \<Rightarrow> manual_view \<Rightarrow> string \<Rightarrow> runtime_file \<Rightarrow> runtime_projection" where
  "register_manual_lane h m now f =
     (let prior = read_runtime_projection h f; active = (man_state m = Worktree_active);
          safe = (man_recoverable m \<and> man_clean m) in
      \<lparr>rtp_updatedAt = now, rtp_supervisor = prior_or prior rtp_supervisor Supervisor_parked,
       rtp_stage = (if active then ''manual_implementation'' else ''manual_parked''),
       rtp_nextPollAt = Option.bind prior rtp_nextPollAt, rtp_eventWakeEligible = False,
       rtp_hold = prior_or prior rtp_hold no_hold,
       rtp_ownership = (if active then Owned_active else if safe then Owned_none else Owned_ambiguous),
       rtp_checkpoint = (if safe then Checkpoint_durable else Checkpoint_unknown),
       rtp_activeWriter = None, rtp_manualLane = Some m\<rparr>)"

text \<open>\<open>None\<close>: the projection does not name the lane. The flag says whether the file is written.\<close>

definition retire_manual_lane ::
  "dispatch_host \<Rightarrow> string \<Rightarrow> string \<Rightarrow> runtime_file \<Rightarrow> (runtime_projection \<times> bool) option" where
  "retire_manual_lane h lane now f =
     (case read_runtime_projection h f of
        None \<Rightarrow> None
      | Some p \<Rightarrow>
          if rtp_manualLane p = None \<and> rtp_ownership p = Owned_none \<and> rtp_checkpoint p = Checkpoint_durable
          then Some (p, False)
          else if Option.bind (rtp_manualLane p) man_laneId \<noteq> Some lane then None
          else Some (p\<lparr>rtp_updatedAt := now, rtp_supervisor := Supervisor_parked, rtp_stage := ''idle'',
                       rtp_eventWakeEligible := False, rtp_ownership := Owned_none,
                       rtp_checkpoint := Checkpoint_durable, rtp_manualLane := None\<rparr>, True))"

section \<open>The sidecar of a Run\<close>

record run_projection =
  rsp_runId :: string
  rsp_sourceUpdatedAt :: string
  rsp_sourceDigest :: string
  rsp_owner :: string
  rsp_repo :: string
  rsp_issueNumber :: "int option"
  rsp_workflowState :: workflow_state
  rsp_reviewFixActive :: bool
  rsp_executor :: "(string \<times> string option) option"
  rsp_bootstrap :: "(string \<times> string \<times> string \<times> string) option"
  rsp_headSha :: "string option"
  rsp_pullRequest :: "pull_request_identity option"
  rsp_durationMs :: "int option"
  rsp_createdAt :: string

text \<open>The issue a target names.\<close>

fun target_issue :: "target \<Rightarrow> int option" where
  "target_issue (Issue owner repo n) = Some n"
| "target_issue (Repository owner repo branch publication) = None"

text \<open>A repair that was interrupted and resumed is still the active one.\<close>

definition review_fix_active :: "run \<Rightarrow> bool" where
  "review_fix_active r \<longleftrightarrow>
     run_state r = IMPLEMENTING \<and> list_ex (\<lambda>t. tr_type t = Applied T_start_fix) (run_history r)"

definition run_provider :: "run \<Rightarrow> string option" where
  "run_provider r =
     or_else (map_option e_provider (run_executor r))
       (or_else (map_option e_provider (Option.bind (run_agentResult r) a_executor))
         (map_option ex_executor (run_execution r)))"

text \<open>\<open>digest\<close> is the SHA-256 of the committed text of the Run.\<close>

definition operational_run_projection :: "run \<Rightarrow> string \<Rightarrow> run_projection" where
  "operational_run_projection r digest =
     \<lparr>rsp_runId = run_id r, rsp_sourceUpdatedAt = run_updatedAt r, rsp_sourceDigest = digest,
      rsp_owner = t_owner (run_target r), rsp_repo = t_repo (run_target r),
      rsp_issueNumber = target_issue (run_target r), rsp_workflowState = run_state r,
      rsp_reviewFixActive = review_fix_active r,
      rsp_executor =
        map_option (\<lambda>v. (v, map_option (\<lambda>x. profile_text (ex_profile x)) (run_execution r)))
          (run_provider r),
      rsp_bootstrap =
        map_option (\<lambda>b. (b_workspacePath b, b_branch b, b_baseBranch b, b_baseSha b)) (run_bootstrap r),
      rsp_headSha = run_headSha r, rsp_pullRequest = run_pullRequest r,
      rsp_durationMs = Option.bind (run_agentResult r) a_durationMs, rsp_createdAt = run_createdAt r\<rparr>"

end
