(* ===== verification/Restart_Readiness.thy ===== *)
theory Restart_Readiness
  imports Runtime_Projection
begin

text \<open>
  The publication of the operational runtime projection (\<^verbatim>\<open>prepareAdmissionRuntimeProjection\<close>
  and \<^verbatim>\<open>publishAdmissionRuntimeProjection\<close> in \<^verbatim>\<open>cli.ts\<close>) with the evidence it re-proves for every
  settled lane (\<^verbatim>\<open>assertRecoveryOwnerEvidence\<close>), and the maintenance hold that the projection
  carries to the admission of new work. What is on disk is a record: the registry, the Runs and
  the two directories of receipts. The physical path of a worktree and the checks that a receipt
  lies in its private directory, outside the worktree and the Run data, are the host's.
\<close>

section \<open>Host and disk\<close>

record owner_host =
  own_mission :: mission_host
  own_config :: admission_config
  own_dates :: dispatch_host
  own_collate :: "string \<Rightarrow> string \<Rightarrow> int"
  own_physical :: "string \<Rightarrow> string option"
  own_run_placed :: "string option \<Rightarrow> string \<Rightarrow> bool"
  own_manual_placed :: "string \<Rightarrow> string \<Rightarrow> bool"

record owner_world =
  wld_registry :: registry_file
  wld_runs :: "run list"
  wld_run_receipts :: "string \<Rightarrow> receipt_file"
  wld_manual_receipts :: "string \<Rightarrow> receipt_file"

section \<open>Finding a receipt\<close>

definition safe_run_id :: "string \<Rightarrow> bool" where
  "safe_run_id s \<longleftrightarrow>
     s \<noteq> [] \<and> all_in ''ABCDEFGHIJKLMNOPQRSTUVWXYZabcdefghijklmnopqrstuvwxyz0123456789._-'' s"

text \<open>The name of the receipt file; \<open>None\<close> where the resolution throws.\<close>

definition resolve_run_owner_receipt :: "owner_host \<Rightarrow> string \<Rightarrow> string \<Rightarrow> mission_evidence \<Rightarrow> string option" where
  "resolve_run_owner_receipt h repository run e =
     (let i = mh_sha256 (own_mission h) (repository @ NUL @ run) in
      if owner_and_name repository \<and> safe_run_id run \<and> own_run_placed h (ev_workspace e) i
      then Some i else None)"

definition resolve_manual_owner_receipt :: "owner_host \<Rightarrow> string \<Rightarrow> string \<Rightarrow> string option" where
  "resolve_manual_owner_receipt h repository workspace =
     (if \<not> is_absolute workspace \<or> \<not> owner_and_name repository then None
      else case own_physical h workspace of
        None \<Rightarrow> None
      | Some p \<Rightarrow>
          (let i = mh_sha256 (own_mission h) (repository @ NUL @ p) in
           if own_manual_placed h p i then Some i else None))"

text \<open>\<open>None\<close>: the resolution or the read throws.\<close>

definition run_receipt_at ::
  "owner_host \<Rightarrow> owner_world \<Rightarrow> string \<Rightarrow> string \<Rightarrow> mission_evidence \<Rightarrow> run_owner_receipt option option" where
  "run_receipt_at h w repository run e =
     (case resolve_run_owner_receipt h repository run e of
        None \<Rightarrow> None
      | Some i \<Rightarrow>
          (case read_run_owner_receipt (wld_run_receipts w i) of Inl _ \<Rightarrow> None | Inr c \<Rightarrow> Some c))"

definition manual_receipt_at ::
  "owner_host \<Rightarrow> owner_world \<Rightarrow> string \<Rightarrow> string \<Rightarrow> manual_owner_receipt option option" where
  "manual_receipt_at h w repository workspace =
     (case resolve_manual_owner_receipt h repository workspace of
        None \<Rightarrow> None
      | Some i \<Rightarrow>
          (case read_manual_owner_receipt (wld_manual_receipts w i) of Inl _ \<Rightarrow> None | Inr c \<Rightarrow> Some c))"

section \<open>The owner of a Run\<close>

definition run_repository :: "run \<Rightarrow> string" where
  "run_repository r = t_owner (run_target r) @ ''/'' @ t_repo (run_target r)"

definition run_claim :: "run \<Rightarrow> string option" where
  "run_claim r =
     (case run_target r of
        Issue _ _ _ \<Rightarrow> run_dispatchClaimId r
      | Repository _ _ branch _ \<Rightarrow> Some (''branch:'' @ branch))"

text \<open>The optional additions replace the pull request and the workspace of the Run.\<close>

definition evidence_for_run ::
  "mission_host \<Rightarrow> run \<Rightarrow> int option \<Rightarrow> string option \<Rightarrow> mission_error + mission_evidence" where
  "evidence_for_run h r pullRequest workspace =
     canonicalize_mission_evidence h
       \<lparr>ev_repository = run_repository r, ev_issue = target_issue (run_target r),
        ev_pullRequest = or_else pullRequest (map_option pr_number (run_pullRequest r)),
        ev_run = Some (run_id r), ev_claim = run_claim r,
        ev_workspace = or_else workspace (map_option b_workspacePath (run_bootstrap r)),
        ev_stateSurface = None, ev_repositoryScope = False\<rparr>"

definition run_lane_id :: "run \<Rightarrow> string" where
  "run_lane_id r = ''run:'' @ run_id r"

definition same_run_receipt_identity :: "run_owner_receipt \<Rightarrow> run \<Rightarrow> string \<Rightarrow> bool" where
  "same_run_receipt_identity c r mission \<longleftrightarrow>
     ror_laneId c = run_lane_id r \<and> ror_runId c = run_id r
     \<and> ror_repository c = lower (run_repository r) \<and> ror_issue c = target_issue (run_target r)
     \<and> ror_claimId c = run_dispatchClaimId r \<and> ror_missionId c = mission"

fun worker_event :: "telemetry_event \<Rightarrow> bool" where
  "worker_event (Spawn e) = (sp_role e = Worker)"
| "worker_event (Completion e) = (co_role e = Worker)"
| "worker_event (Wait_status_wakeup e) = False"

definition bootstrap_matches_run :: "run \<Rightarrow> bool" where
  "bootstrap_matches_run r \<longleftrightarrow>
     (case (run_bootstrap r, target_issue (run_target r)) of
        (Some b, Some n) \<Rightarrow>
          lower (b_owner b) = lower (t_owner (run_target r)) \<and> lower (b_repo b) = lower (t_repo (run_target r))
          \<and> b_issueNumber b = n
      | _ \<Rightarrow> False)"

definition planning_record :: "transition_record \<Rightarrow> bool" where
  "planning_record t \<longleftrightarrow>
     (tr_type t = Applied T_start \<or> tr_type t = Applied T_bootstrap_prepared) \<and> tr_repairHandoff t = None"

definition no_execution_evidence :: "run \<Rightarrow> bool" where
  "no_execution_evidence r \<longleftrightarrow>
     run_state r = IMPLEMENTING \<and> run_interruptedFrom r = None \<and> run_interrupt r = None
     \<and> run_pullRequest r = None \<and> run_headSha r = None \<and> run_executor r = None \<and> run_agentResult r = None
     \<and> run_reviewResult r = None \<and> run_validationResult r = None
     \<and> absent_or (\<lambda>a. a = []) (run_repairAdmissions r)
     \<and> absent_or (\<lambda>t. \<not> list_ex worker_event (tel_events t)) (run_telemetry r)
     \<and> list_ex (\<lambda>t. tr_type t = Applied T_start) (run_history r)
     \<and> list_ex (\<lambda>t. tr_type t = Applied T_bootstrap_prepared) (run_history r)
     \<and> list_all planning_record (run_history r)"

definition is_logical_bootstrap_reservation ::
  "run \<Rightarrow> run_owner_receipt \<Rightarrow> lane_view \<Rightarrow> int \<Rightarrow> bool" where
  "is_logical_bootstrap_reservation r c l g \<longleftrightarrow>
     bootstrap_matches_run r \<and> no_execution_evidence r
     \<and> ev_workspace (lview_evidence l) = None \<and> ror_workspace c = None
     \<and> ev_stateSurface (lview_evidence l) = None \<and> \<not> ev_repositoryScope (lview_evidence l)
     \<and> (case ror_phase c of
          Phase_pre_execution \<Rightarrow>
            lview_status l = Lane_active \<and> lview_generation l = g \<and> ror_generation c = g
            \<and> present_and (token_matches (lview_laneId l) g) (ror_token c)
        | Phase_release_transition \<Rightarrow>
            ror_generation c = g \<and> present_and (token_matches (lview_laneId l) g) (ror_token c)
            \<and> (lview_status l = Lane_active \<and> lview_generation l = g
               \<or> lview_status l = Lane_released \<and> lview_generation l = g + 1)
        | Phase_released \<Rightarrow>
            lview_status l = Lane_released \<and> lview_generation l = g + 1 \<and> ror_generation c = g + 1
            \<and> ror_token c = None
        | _ \<Rightarrow> False)"

definition canonical_workspace :: "mission_host \<Rightarrow> string \<Rightarrow> string \<Rightarrow> mission_error + string option" where
  "canonical_workspace h repository workspace =
     map_sum id ev_workspace
       (canonicalize_mission_evidence h
          \<lparr>ev_repository = repository, ev_issue = None, ev_pullRequest = None, ev_run = None,
           ev_claim = None, ev_workspace = Some workspace, ev_stateSurface = None,
           ev_repositoryScope = False\<rparr>)"

definition can_bind_missing_receipt_workspace ::
  "mission_host \<Rightarrow> run_owner_receipt \<Rightarrow> run \<Rightarrow> string option \<Rightarrow> bool" where
  "can_bind_missing_receipt_workspace h c r registered \<longleftrightarrow>
     ror_workspace c = None \<and> registered \<noteq> None
     \<and> present_and
         (\<lambda>b. canonical_workspace h (lower (run_repository r)) (b_workspacePath b) = Inr registered)
         (run_bootstrap r)"

datatype recovery_error =
    Owner_identity | Evidence_not_canonical mission_error | Evidence_differs | Workspace_conflict
  | Workspace_missing | Receipt_workspace_conflict | Unproven_workspace | Workspace_not_exact

definition receipt_workspace_error ::
  "mission_host \<Rightarrow> run \<Rightarrow> run_owner_receipt \<Rightarrow> bool \<Rightarrow> string option \<Rightarrow> string option \<Rightarrow> string option \<Rightarrow>
   recovery_error option" where
  "receipt_workspace_error h r c gap expected observed receipt =
     (if expected \<noteq> None
      then first_error
        [fail_if (observed \<noteq> None \<and> observed \<noteq> expected) Workspace_conflict,
         fail_if (observed = None \<and> \<not> gap) Workspace_missing,
         fail_if (receipt \<noteq> None \<and> receipt \<noteq> expected) Receipt_workspace_conflict,
         fail_if (receipt = None \<and> \<not> gap \<and> \<not> can_bind_missing_receipt_workspace h c r observed)
           Unproven_workspace]
      else fail_if (receipt \<noteq> observed) Workspace_not_exact)"

definition recovery_owner_evidence ::
  "mission_host \<Rightarrow> run \<Rightarrow> run_owner_receipt \<Rightarrow> lane_view \<Rightarrow> string \<Rightarrow> int \<Rightarrow> recovery_error option" where
  "recovery_owner_evidence h r c l mission g =
     (if \<not> same_run_receipt_identity c r mission \<or> lview_laneId l \<noteq> run_lane_id r
         \<or> lview_missionId l \<noteq> mission \<or> lview_role l \<noteq> Production_captain
         \<or> ev_repositoryScope (lview_evidence l)
      then Some Owner_identity
      else case (evidence_for_run h r None None, canonicalize_mission_evidence h (lview_evidence l)) of
        (Inl e, _) \<Rightarrow> Some (Evidence_not_canonical e)
      | (_, Inl e) \<Rightarrow> Some (Evidence_not_canonical e)
      | (Inr expected, Inr observed) \<Rightarrow>
          (let gap = ev_workspace expected \<noteq> None \<and> ev_workspace observed = None
                     \<and> ror_workspace c = None \<and> is_logical_bootstrap_reservation r c l g in
           case (case ror_workspace c of None \<Rightarrow> Inr None
                 | Some p \<Rightarrow> canonical_workspace h (ev_repository expected) p) of
             Inl e \<Rightarrow> Some (Evidence_not_canonical e)
           | Inr receipt \<Rightarrow>
               if observed\<lparr>ev_workspace := None\<rparr> \<noteq> expected\<lparr>ev_workspace := None\<rparr>
               then Some Evidence_differs
               else receipt_workspace_error h r c gap (ev_workspace expected) (ev_workspace observed) receipt))"

section \<open>Which settled lanes are proved\<close>

definition settled_mutation_lane :: "lane_view \<Rightarrow> bool" where
  "settled_mutation_lane l \<longleftrightarrow> checkpointed l \<and> mutation (lview_role l)"

text \<open>\<open>new Map\<close>: of Runs with one id the last counts.\<close>

definition run_of_lane :: "owner_world \<Rightarrow> lane_view \<Rightarrow> run option" where
  "run_of_lane w l =
     Option.bind (ev_run (lview_evidence l))
       (map_of (rev (map (\<lambda>r. (run_id r, r)) (wld_runs w))))"

definition expected_park_reason :: "run \<Rightarrow> parked_reason" where
  "expected_park_reason r =
     (if run_state r = NEEDS_HUMAN \<or> run_state r = WAITING_DEPENDENCY then Workflow_wait else Workflow_settled)"

definition receipt_settles_lane :: "run \<Rightarrow> run_owner_receipt \<Rightarrow> lane_view \<Rightarrow> bool" where
  "receipt_settles_lane r c l \<longleftrightarrow>
     ror_generation c = lview_generation l \<and> ror_token c = None
     \<and> (lview_status l = Lane_parked \<and> lview_parkedReason l = Some (expected_park_reason r)
          \<and> ror_phase c = Phase_parked
        \<or> lview_status l = Lane_released \<and> ror_phase c = Phase_released)"

definition run_lane_proved :: "owner_host \<Rightarrow> owner_world \<Rightarrow> lane_view \<Rightarrow> bool" where
  "run_lane_proved h w l \<longleftrightarrow>
     (case run_of_lane w l of
        None \<Rightarrow> False
      | Some r \<Rightarrow>
          lower (run_repository r) = ev_repository (lview_evidence l)
          \<and> (case run_receipt_at h w (ev_repository (lview_evidence l)) (run_id r) (lview_evidence l) of
               Some (Some c) \<Rightarrow>
                 recovery_owner_evidence (own_mission h) r c l (lview_missionId l) (lview_generation l - 1) = None
                 \<and> receipt_settles_lane r c l
             | _ \<Rightarrow> False))"

definition manual_candidate :: "lane_view \<Rightarrow> bool" where
  "manual_candidate l \<longleftrightarrow>
     lview_role l = Production_captain \<and> ev_repositoryScope (lview_evidence l)
     \<and> ev_workspace (lview_evidence l) \<noteq> None"

definition manual_receipt_of_lane ::
  "owner_host \<Rightarrow> owner_world \<Rightarrow> lane_view \<Rightarrow> manual_owner_receipt option option" where
  "manual_receipt_of_lane h w l =
     Option.bind (ev_workspace (lview_evidence l))
       (manual_receipt_at h w (ev_repository (lview_evidence l)))"

definition same_manual_owner :: "manual_owner_receipt \<Rightarrow> lane_view \<Rightarrow> bool" where
  "same_manual_owner c l \<longleftrightarrow>
     mor_laneId c = lview_laneId l \<and> mor_missionId c = lview_missionId l
     \<and> mor_repository c = ev_repository (lview_evidence l)
     \<and> Some (mor_workspace c) = ev_workspace (lview_evidence l)"

definition manual_receipt_settles :: "manual_owner_receipt \<Rightarrow> lane_view \<Rightarrow> bool" where
  "manual_receipt_settles c l \<longleftrightarrow>
     same_manual_owner c l \<and> mor_status c = Manual_parked
     \<and> (lview_status l = Lane_parked \<and> lview_parkedReason l = Some Manual_checkpoint
          \<and> mor_generation c = lview_generation l
        \<or> lview_status l = Lane_released \<and> mor_generation c + 1 = lview_generation l)"

definition manual_lane_proved :: "owner_host \<Rightarrow> owner_world \<Rightarrow> lane_view \<Rightarrow> bool" where
  "manual_lane_proved h w l \<longleftrightarrow>
     manual_candidate l
     \<and> (case manual_receipt_of_lane h w l of
          Some None \<Rightarrow> lview_status l = Lane_released
        | Some (Some c) \<Rightarrow> manual_receipt_settles c l
        | None \<Rightarrow> False)"

definition manual_view_of :: "int \<Rightarrow> manual_state \<Rightarrow> manual_owner_receipt \<Rightarrow> manual_view" where
  "manual_view_of revision s c =
     \<lparr>man_repository = mor_repository c, man_worktree = mor_workspace c, man_branch = mor_branch c,
      man_checkpointSha = mor_checkpointSha c, man_clean = (s = Worktree_parked), man_state = s,
      man_recoverable = (s = Worktree_parked), man_laneId = Some (mor_laneId c),
      man_missionId = Some (mor_missionId c), man_admissionRevision = Some revision\<rparr>"

definition settled_lanes :: "admission_projection \<Rightarrow> lane_view list" where
  "settled_lanes a = filter settled_mutation_lane (adm_lanes a)"

definition validated_run_lanes :: "owner_host \<Rightarrow> owner_world \<Rightarrow> admission_projection \<Rightarrow> lane_view list" where
  "validated_run_lanes h w a =
     filter (\<lambda>l. ev_run (lview_evidence l) \<noteq> None \<and> run_lane_proved h w l) (settled_lanes a)"

definition validated_manual_lanes :: "owner_host \<Rightarrow> owner_world \<Rightarrow> admission_projection \<Rightarrow> lane_view list" where
  "validated_manual_lanes h w a =
     filter (\<lambda>l. ev_run (lview_evidence l) = None \<and> manual_lane_proved h w l) (settled_lanes a)"

definition durable_lane_ids :: "owner_host \<Rightarrow> owner_world \<Rightarrow> admission_projection \<Rightarrow> string list" where
  "durable_lane_ids h w a =
     map lview_laneId (validated_run_lanes h w a) @ map lview_laneId (validated_manual_lanes h w a)"

definition parked_manual_views :: "owner_host \<Rightarrow> owner_world \<Rightarrow> admission_projection \<Rightarrow> manual_view list" where
  "parked_manual_views h w a =
     List.map_filter
       (\<lambda>l. if lview_status l \<noteq> Lane_parked then None
            else map_option (manual_view_of (adm_revision a) Worktree_parked)
              (Option.bind (manual_receipt_of_lane h w l) (\<lambda>c. c)))
       (validated_manual_lanes h w a)"

definition active_manual_lanes :: "admission_projection \<Rightarrow> lane_view list" where
  "active_manual_lanes a =
     filter (\<lambda>l. lview_status l = Lane_active \<and> manual_candidate l) (adm_lanes a)"

definition active_manual_views :: "owner_host \<Rightarrow> owner_world \<Rightarrow> admission_projection \<Rightarrow> manual_view list" where
  "active_manual_views h w a =
     (case active_manual_lanes a of
        [l] \<Rightarrow>
          if cnt_writers (adm_counts a) \<le> 0 then []
          else (case manual_receipt_of_lane h w l of
            Some (Some c) \<Rightarrow>
              if mor_status c = Manual_active \<and> same_manual_owner c l \<and> mor_generation c = lview_generation l
              then [manual_view_of (adm_revision a) Worktree_active c] else []
          | _ \<Rightarrow> [])
      | _ \<Rightarrow> [])"

definition manual_views :: "owner_host \<Rightarrow> owner_world \<Rightarrow> admission_projection \<Rightarrow> manual_view list" where
  "manual_views h w a = parked_manual_views h w a @ active_manual_views h w a"

section \<open>Re-entry evidence\<close>

definition pristine :: "admission_projection \<Rightarrow> owner_world \<Rightarrow> runtime_projection option \<Rightarrow> bool" where
  "pristine a w prior \<longleftrightarrow>
     adm_revision a = 0 \<and> adm_lanes a = [] \<and> adm_lastTransition a = None \<and> wld_runs w = []
     \<and> Option.bind prior rtp_activeWriter = None \<and> Option.bind prior rtp_manualLane = None"

definition validated_run_ids :: "owner_host \<Rightarrow> owner_world \<Rightarrow> admission_projection \<Rightarrow> string list" where
  "validated_run_ids h w a =
     List.map_filter (\<lambda>l. ev_run (lview_evidence l)) (validated_run_lanes h w a)"

definition prior_writer_resolved ::
  "owner_host \<Rightarrow> owner_world \<Rightarrow> admission_projection \<Rightarrow> runtime_projection option \<Rightarrow> bool" where
  "prior_writer_resolved h w a prior \<longleftrightarrow>
     absent_or (\<lambda>x. wtr_runId x \<in> set (validated_run_ids h w a)) (Option.bind prior rtp_activeWriter)"

definition prior_manual_resolved ::
  "owner_host \<Rightarrow> owner_world \<Rightarrow> admission_projection \<Rightarrow> runtime_projection option \<Rightarrow> bool" where
  "prior_manual_resolved h w a prior \<longleftrightarrow>
     absent_or
       (\<lambda>m. list_ex
          (\<lambda>l. lview_role l = Production_captain \<and> ev_repositoryScope (lview_evidence l)
             \<and> ev_repository (lview_evidence l) = man_repository m
             \<and> ev_workspace (lview_evidence l) = Some (man_worktree m)
             \<and> lview_laneId l \<in> set (map lview_laneId (validated_manual_lanes h w a)))
          (mutation_lanes a))
       (Option.bind prior rtp_manualLane)"

definition reentry_evidence_complete ::
  "owner_host \<Rightarrow> owner_world \<Rightarrow> admission_projection \<Rightarrow> runtime_projection option \<Rightarrow> bool" where
  "reentry_evidence_complete h w a prior \<longleftrightarrow>
     pristine a w prior
     \<or> durable_lane_ids h w a \<noteq> []
       \<and> list_all checkpointed (mutation_lanes a)
       \<and> list_all (\<lambda>l. lview_laneId l \<in> set (durable_lane_ids h w a)) (mutation_lanes a)
       \<and> list_all (\<lambda>r. run_id r \<in> set (validated_run_ids h w a)) (wld_runs w)
       \<and> prior_writer_resolved h w a prior \<and> prior_manual_resolved h w a prior"

section \<open>Publication\<close>

record runtime_update =
  upd_stage :: string
  upd_supervisor :: supervisor_state
  upd_eventWakeEligible :: "bool option"
  upd_nextPollAt :: "string option"
  upd_hold :: "maintenance_hold option"

datatype publication_error = Prior_unreadable | Registry_refused mission_error | Cleanup_refused

definition cleanup_refused ::
  "owner_host \<Rightarrow> owner_world \<Rightarrow> admission_projection \<Rightarrow> runtime_projection option \<Rightarrow> runtime_update \<Rightarrow> bool" where
  "cleanup_refused h w a prior u \<longleftrightarrow>
     durable_lane_ids h w a = [] \<or> validated_run_ids h w a = [] \<or> \<not> reentry_evidence_complete h w a prior
     \<or> upd_supervisor u \<noteq> Supervisor_stopped
     \<or> upd_stage u \<notin> {''needs_human'', ''failed'', ''pre_execution_released''}
     \<or> upd_eventWakeEligible u = Some True \<or> upd_nextPollAt u \<noteq> None"

definition runtime_input_of ::
  "owner_host \<Rightarrow> owner_world \<Rightarrow> admission_projection \<Rightarrow> runtime_projection option \<Rightarrow> runtime_update \<Rightarrow> string \<Rightarrow>
   runtime_input" where
  "runtime_input_of h w a prior u now =
     \<lparr>cin_admission = a, cin_runs = wld_runs w, cin_prior = prior, cin_now = now,
      cin_stage = upd_stage u, cin_supervisor = upd_supervisor u,
      cin_eventWakeEligible = (upd_eventWakeEligible u = Some True), cin_nextPollAt = upd_nextPollAt u,
      cin_hold = upd_hold u,
      cin_manualLane = (case manual_views h w a of [m] \<Rightarrow> Some m | _ \<Rightarrow> None),
      cin_durableLaneIds = durable_lane_ids h w a,
      cin_reentryEvidenceComplete = reentry_evidence_complete h w a prior\<rparr>"

definition prepare_runtime_projection ::
  "owner_host \<Rightarrow> owner_world \<Rightarrow> runtime_file \<Rightarrow> runtime_update \<Rightarrow> bool \<Rightarrow> string \<Rightarrow>
   publication_error + runtime_projection" where
  "prepare_runtime_projection h w f u ownedCleanup now =
     (if read_runtime_state (own_dates h) f = Runtime_invalid then Inl Prior_unreadable
      else (let prior = read_runtime_projection (own_dates h) f in
        case registry_snapshot (own_mission h) (own_config h) (own_collate h) True (wld_registry w) of
          Inl e \<Rightarrow> Inl (Registry_refused e)
        | Inr a \<Rightarrow>
            if ownedCleanup \<and> cleanup_refused h w a prior u then Inl Cleanup_refused
            else Inr (compose_runtime_projection (runtime_input_of h w a prior u now))))"

definition publish_runtime_projection ::
  "owner_host \<Rightarrow> owner_world \<Rightarrow> runtime_file \<Rightarrow> runtime_update \<Rightarrow> bool \<Rightarrow> string \<Rightarrow>
   publication_error + runtime_file" where
  "publish_runtime_projection h w f u ownedCleanup now =
     map_sum id write_runtime_projection (prepare_runtime_projection h w f u ownedCleanup now)"

text \<open>The update of \<open>dispatch maintenance hold\<close> and of \<open>release\<close>.\<close>

definition maintenance_update :: "bool \<Rightarrow> runtime_update" where
  "maintenance_update hold =
     \<lparr>upd_stage = (if hold then ''maintenance_hold'' else ''idle''),
      upd_supervisor = (if hold then Supervisor_parked else Supervisor_stopped),
      upd_eventWakeEligible = None, upd_nextPollAt = None,
      upd_hold =
        Some (if hold then \<lparr>hold_active = True, hold_reason = Some ''Operator restart hold''\<rparr> else no_hold)\<rparr>"

section \<open>The admission of new work\<close>

datatype execution_refusal = Projection_malformed | Maintenance_held | Boundary_busy

definition assert_operational_execution_admission ::
  "dispatch_host \<Rightarrow> runtime_file \<Rightarrow> execution_refusal option" where
  "assert_operational_execution_admission h f =
     (case read_runtime_state h f of
        Runtime_invalid \<Rightarrow> Some Projection_malformed
      | Runtime_valid p \<Rightarrow> fail_if (hold_active (rtp_hold p)) Maintenance_held
      | Runtime_missing \<Rightarrow> None)"

text \<open>\<open>free\<close>: the lock of the serialized effect boundary could be taken.\<close>

definition native_effect_boundary :: "dispatch_host \<Rightarrow> bool \<Rightarrow> runtime_file \<Rightarrow> execution_refusal option" where
  "native_effect_boundary h free f =
     first_error
       [fail_if (\<not> free) Boundary_busy,
        fail_if (present_and (\<lambda>p. hold_active (rtp_hold p)) (read_runtime_projection h f)) Maintenance_held]"

end
