(* ===== verification/Restart_Properties.thy ===== *)
theory Restart_Properties
  imports Restart_Readiness
begin

text \<open>
  What the runtime projection promises: a restart verdict that calls a restart safe rests on
  the whole registry and on a receipt for every settled lane, a maintenance hold stays in force
  until a release is published, and what is published is read back, except that a manual lane
  whose checkpoint is not a forty digit SHA makes the file unreadable.
\<close>

section \<open>The projection as text\<close>

definition hold_ok :: "maintenance_hold \<Rightarrow> bool" where
  "hold_ok k \<longleftrightarrow> absent_or (\<lambda>s. \<not> blank s) (hold_reason k)"

definition writer_ok :: "active_writer \<Rightarrow> bool" where
  "writer_ok w \<longleftrightarrow>
     \<not> blank (wtr_runId w) \<and> \<not> blank (wtr_worktree w) \<and> absent_or (\<lambda>s. \<not> blank s) (wtr_worker w)
     \<and> absent_or (\<lambda>n. is_safe_integer n \<and> 1 \<le> n) (wtr_issue w)"

definition manual_ok :: "manual_view \<Rightarrow> bool" where
  "manual_ok m \<longleftrightarrow>
     \<not> blank (man_repository m) \<and> \<not> blank (man_worktree m) \<and> \<not> blank (man_branch m)
     \<and> is_sha_any_case (man_checkpointSha m) \<and> absent_or (\<lambda>s. \<not> blank s) (man_laneId m)
     \<and> absent_or (\<lambda>s. \<not> blank s) (man_missionId m)
     \<and> absent_or (\<lambda>n. is_safe_integer n \<and> 0 \<le> n) (man_admissionRevision m)"

definition projection_ok :: "dispatch_host \<Rightarrow> runtime_projection \<Rightarrow> bool" where
  "projection_ok h p \<longleftrightarrow>
     canonical_timestamp h (rtp_updatedAt p) \<and> \<not> blank (rtp_stage p)
     \<and> absent_or (canonical_timestamp h) (rtp_nextPollAt p) \<and> hold_ok (rtp_hold p)
     \<and> absent_or writer_ok (rtp_activeWriter p) \<and> absent_or manual_ok (rtp_manualLane p)
     \<and> summary_consistent p"

lemma value_texts:
  "one_of supervisor_text [Supervisor_running, Supervisor_stopped, Supervisor_parked]
     (Some (JString (supervisor_text s))) = Some s" (is ?supervisor)
  "one_of ownership_text [Owned_none, Owned_active, Owned_ambiguous]
     (Some (JString (ownership_text w))) = Some w" (is ?ownership)
  "one_of checkpoint_text [Checkpoint_durable, Checkpoint_in_progress, Checkpoint_unknown]
     (Some (JString (checkpoint_text c))) = Some c" (is ?checkpoint)
  "one_of manual_state_text [Worktree_active, Worktree_parked]
     (Some (JString (manual_state_text m))) = Some m" (is ?manual)
  "flag_value (Some (JBool b)) = Some b"
proof -
  show ?supervisor by (cases s) (simp_all add: one_of_def)
  show ?ownership by (cases w) (simp_all add: one_of_def)
  show ?checkpoint by (cases c) (simp_all add: one_of_def)
  show ?manual by (cases m) (simp_all add: one_of_def)
qed (simp add: flag_value_def)

lemma timestamp_value_text:
  "timestamp_value h (Some (JString s)) = (if canonical_timestamp h s then Some s else None)"
  by (simp add: timestamp_value_def)

lemma full_sha_value_text:
  "full_sha_value (Some (JString s)) = (if is_sha_any_case s then Some s else None)"
  by (simp add: full_sha_value_def)

lemma revision_value_number:
  "revision_value (Some (JNumber n)) = (if is_safe_integer n \<and> 0 \<le> n then Some n else None)"
  by (simp add: revision_value_def)

lemmas optional_values =
  read_optional_encoded[where f = filled_text and g = JString, OF filled_text_JString]
  read_optional_encoded[where f = issue_value and g = JNumber, OF issue_value_JNumber]
  read_optional_encoded[where f = revision_value and g = JNumber, OF revision_value_number]
  read_optional_encoded[where f = "timestamp_value h" and g = JString, OF timestamp_value_text] for h

lemma hold_value_json: "hold_value (Some (hold_json k)) = (if hold_ok k then Some k else None)"
  by (simp add: hold_value_def hold_json_def value_texts optional_values hold_ok_def)

lemma writer_value_json: "writer_value (Some (writer_json x)) = (if writer_ok x then Some x else None)"
  by (simp add: writer_value_def writer_json_def filled_text_JString optional_values writer_ok_def)

lemma manual_value_json: "manual_value (Some (manual_json m)) = (if manual_ok m then Some m else None)"
  by (simp add: manual_value_def manual_json_def filled_text_JString full_sha_value_text value_texts
      optional_values manual_ok_def)

lemma runtime_member_values:
  "js_get (runtime_members p) ''schemaVersion'' = Some (JNumber 1)"
  "js_get (runtime_members p) ''updatedAt'' = Some (JString (rtp_updatedAt p))"
  "js_get (runtime_members p) ''supervisor'' = Some (JString (supervisor_text (rtp_supervisor p)))"
  "js_get (runtime_members p) ''stage'' = Some (JString (rtp_stage p))"
  "js_get (runtime_members p) ''nextPollAt'' = map_option JString (rtp_nextPollAt p)"
  "js_get (runtime_members p) ''eventWakeEligible'' = Some (JBool (rtp_eventWakeEligible p))"
  "js_get (runtime_members p) ''maintenanceHold'' = Some (hold_json (rtp_hold p))"
  "js_get (runtime_members p) ''ownership'' = Some (JString (ownership_text (rtp_ownership p)))"
  "js_get (runtime_members p) ''checkpoint'' = Some (JString (checkpoint_text (rtp_checkpoint p)))"
  "js_get (runtime_members p) ''activeWriter'' = map_option writer_json (rtp_activeWriter p)"
  "js_get (runtime_members p) ''manualLane'' = map_option manual_json (rtp_manualLane p)"
  by (simp_all add: runtime_members_def)

lemma runtime_read_back:
  "runtime_projection_of h (JObject (runtime_members p)) = (if projection_ok h p then Some p else None)"
proof -
  have "runtime_values h (runtime_members p) =
      (if projection_ok h p \<or> canonical_timestamp h (rtp_updatedAt p) \<and> \<not> blank (rtp_stage p)
          \<and> absent_or (canonical_timestamp h) (rtp_nextPollAt p) \<and> hold_ok (rtp_hold p)
          \<and> absent_or writer_ok (rtp_activeWriter p) \<and> absent_or manual_ok (rtp_manualLane p)
       then Some p else None)"
    by (simp add: runtime_values_def runtime_member_values timestamp_value_text value_texts
        filled_text_JString optional_values hold_value_json
        read_optional_encoded[where f = writer_value and g = writer_json, OF writer_value_json]
        read_optional_encoded[where f = manual_value and g = manual_json, OF manual_value_json]
        projection_ok_def)
  then show ?thesis
    by (simp add: runtime_projection_of_def runtime_member_values projection_ok_def)
qed

lemma printable_members:
  "printable (hold_json k)" (is ?hold) "printable (writer_json x)" (is ?writer)
  "printable (manual_json m)" (is ?manual)
proof -
  show ?hold by (cases "hold_reason k") (simp_all add: hold_json_def opt_member_def)
  show ?writer
    by (cases "wtr_issue x"; cases "wtr_worker x") (simp_all add: writer_json_def opt_member_def)
  show ?manual
    by (cases "man_laneId m"; cases "man_missionId m"; cases "man_admissionRevision m")
      (simp_all add: manual_json_def opt_member_def)
qed

lemma runtime_printable: "printable (JObject (runtime_members p))"
  by (cases "rtp_nextPollAt p"; cases "rtp_activeWriter p"; cases "rtp_manualLane p";
      simp add: runtime_members_def opt_member_def printable_members)

lemma written_runtime_read:
  "read_runtime_state h (write_runtime_projection p) =
     (if projection_ok h p then Runtime_valid p else Runtime_invalid)"
  by (simp add: read_runtime_state_def write_runtime_projection_def parse_page[OF runtime_printable]
      runtime_read_back)

lemma hold_value_ok: "hold_value v = Some k \<Longrightarrow> hold_ok k"
  by (auto simp: hold_value_def hold_ok_def read_optional_def filled_text_def
      split: option.splits json.splits if_splits)

lemma runtime_values_hold: "runtime_values h ms = Some p \<Longrightarrow> hold_value (js_get ms ''maintenanceHold'') = Some (rtp_hold p)"
  unfolding runtime_values_def by (auto split: option.splits)

lemma valid_read_ok:
  assumes "read_runtime_state h f = Runtime_valid p"
  shows "hold_ok (rtp_hold p)"
proof -
  from assms obtain v where v: "runtime_projection_of h v = Some p"
    by (auto simp: read_runtime_state_def split: runtime_file.splits option.splits)
  then obtain ms where "runtime_values h ms = Some p"
    by (auto simp: runtime_projection_of_def split: json.splits option.splits if_splits)
  then show ?thesis
    using runtime_values_hold hold_value_ok by blast
qed

section \<open>The registry behind a projection\<close>

lemma set_insert_by: "set (insert_by cmp x xs) = insert x (set xs)"
  by (induction xs) auto

lemma set_sort_by [simp]: "set (sort_by cmp xs) = set xs"
  unfolding sort_by_def by (induction xs) (simp_all add: set_insert_by)

lemma length_insert_by: "length (insert_by cmp x xs) = Suc (length xs)"
  by (induction xs) simp_all

lemma length_sort_by [simp]: "length (sort_by cmp xs) = length xs"
  unfolding sort_by_def by (induction xs) (simp_all add: length_insert_by)

lemma project_all_lanes:
  "\<not> adm_lanesTruncated (project collate s) \<Longrightarrow> set (adm_lanes (project collate s)) = view_of ` set (rg_lanes s)"
  by (simp add: project_def Let_def)

lemma view_of_fields [simp]:
  "lview_laneId (view_of l) = ln_laneId l" "lview_missionId (view_of l) = ln_missionId l"
  "lview_evidence (view_of l) = ln_evidence l" "lview_role (view_of l) = ln_role l"
  "lview_status (view_of l) = ln_status l" "lview_generation (view_of l) = ln_generation l"
  "lview_parkedReason (view_of l) = ln_parkedReason l"
  by (simp_all add: view_of_def)

lemma prepared_from_registry:
  assumes "prepare_runtime_projection h w f u owned now = Inr p"
  obtains s where "wld_registry w = Registry_state s" "validate_state (own_mission h) s = None"
    "p = compose_runtime_projection
       (runtime_input_of h w (project (own_collate h) s) (read_runtime_projection (own_dates h) f) u now)"
  using assms
  by (auto simp: prepare_runtime_projection_def registry_snapshot_def load_registry_def Let_def
      split: if_splits sum.splits registry_file.splits option.splits)

lemma valid_lane_ids_distinct: "validate_state h s = None \<Longrightarrow> distinct (map ln_laneId (rg_lanes s))"
  by (simp add: validate_state_def first_error_None_iff)

section \<open>A safe restart\<close>

text \<open>The lane is settled, and the receipt of its owner says so in the lane's own generation; a
  released worktree may have no receipt.\<close>

definition run_owner_settled :: "owner_host \<Rightarrow> owner_world \<Rightarrow> lane_record \<Rightarrow> string \<Rightarrow> bool" where
  "run_owner_settled h w l i \<longleftrightarrow>
     (\<exists>r \<in> set (wld_runs w). run_id r = i \<and> ln_laneId l = run_lane_id r)
     \<and> (\<exists>c. run_receipt_at h w (ev_repository (ln_evidence l)) i (ln_evidence l) = Some (Some c)
          \<and> ror_runId c = i \<and> ror_laneId c = ln_laneId l \<and> ror_missionId c = ln_missionId l
          \<and> ror_generation c = ln_generation l \<and> ror_token c = None
          \<and> ror_phase c = (if ln_status l = Lane_parked then Phase_parked else Phase_released))"

definition worktree_owner_settled :: "owner_host \<Rightarrow> owner_world \<Rightarrow> lane_record \<Rightarrow> bool" where
  "worktree_owner_settled h w l \<longleftrightarrow>
     (\<exists>p. ev_workspace (ln_evidence l) = Some p
        \<and> (manual_receipt_at h w (ev_repository (ln_evidence l)) p = Some None \<and> ln_status l = Lane_released
           \<or> (\<exists>c. manual_receipt_at h w (ev_repository (ln_evidence l)) p = Some (Some c)
                \<and> mor_status c = Manual_parked \<and> mor_laneId c = ln_laneId l \<and> mor_workspace c = p
                \<and> mor_missionId c = ln_missionId l
                \<and> mor_generation c = (if ln_status l = Lane_parked then ln_generation l else ln_generation l - 1))))"

definition owner_settled :: "owner_host \<Rightarrow> owner_world \<Rightarrow> lane_record \<Rightarrow> bool" where
  "owner_settled h w l \<longleftrightarrow>
     (ln_status l = Lane_parked \<or> ln_status l = Lane_released)
     \<and> (case ev_run (ln_evidence l) of
          Some i \<Rightarrow> run_owner_settled h w l i | None \<Rightarrow> worktree_owner_settled h w l)"

lemma map_of_rev_SomeD: "map_of (rev (map (\<lambda>r. (run_id r, r)) rs)) i = Some r \<Longrightarrow> r \<in> set rs \<and> run_id r = i"
  using map_of_SomeD[of "rev (map (\<lambda>r. (run_id r, r)) rs)" i r] by auto

lemma recovery_identity:
  assumes "recovery_owner_evidence h r c l m g = None"
  shows "same_run_receipt_identity c r m" "lview_laneId l = run_lane_id r"
  using assms by (auto simp: recovery_owner_evidence_def split: if_splits)

lemma run_lane_owner_settled:
  assumes "run_lane_proved h w (view_of l)" and "ln_status l = Lane_parked \<or> ln_status l = Lane_released"
  shows "owner_settled h w l"
proof -
  from assms(1) obtain r c where r: "run_of_lane w (view_of l) = Some r"
    and c: "run_receipt_at h w (ev_repository (ln_evidence l)) (run_id r) (ln_evidence l) = Some (Some c)"
    and ok: "recovery_owner_evidence (own_mission h) r c (view_of l) (ln_missionId l) (ln_generation l - 1) = None"
    and settles: "receipt_settles_lane r c (view_of l)"
    by (auto simp: run_lane_proved_def split: option.splits)
  from r obtain i where i: "ev_run (ln_evidence l) = Some i" "r \<in> set (wld_runs w)" "run_id r = i"
    by (auto simp: run_of_lane_def bind_eq_Some_conv dest!: map_of_rev_SomeD)
  from recovery_identity[OF ok] settles assms(2) have
    "ror_runId c = i \<and> ror_laneId c = ln_laneId l \<and> ror_missionId c = ln_missionId l
     \<and> ror_generation c = ln_generation l \<and> ror_token c = None
     \<and> ror_phase c = (if ln_status l = Lane_parked then Phase_parked else Phase_released)"
    by (auto simp: same_run_receipt_identity_def receipt_settles_lane_def i(3))
  moreover have "ln_laneId l = run_lane_id r"
    using recovery_identity(2)[OF ok] by simp
  ultimately have "run_owner_settled h w l i"
    unfolding run_owner_settled_def using c i by auto
  with i(1) assms(2) show ?thesis
    by (simp add: owner_settled_def)
qed

lemma manual_lane_owner_settled:
  assumes "manual_lane_proved h w (view_of l)" and "ev_run (ln_evidence l) = None"
    and "ln_status l = Lane_parked \<or> ln_status l = Lane_released"
  shows "owner_settled h w l"
proof -
  from assms(1) obtain p where p: "ev_workspace (ln_evidence l) = Some p"
    by (auto simp: manual_lane_proved_def manual_candidate_def)
  have "worktree_owner_settled h w l"
    using assms(1,3) p
    by (auto simp: manual_lane_proved_def manual_receipt_of_lane_def worktree_owner_settled_def
        manual_receipt_settles_def same_manual_owner_def split: option.splits)
  with assms(2,3) show ?thesis
    by (simp add: owner_settled_def)
qed

lemma durable_lane_settled:
  assumes "validate_state (own_mission h) s = None" and "\<not> adm_lanesTruncated (project collate s)"
    and "l \<in> set (rg_lanes s)" and "ln_laneId l \<in> set (durable_lane_ids h w (project collate s))"
  shows "owner_settled h w l"
proof -
  from assms(4) obtain v where v: "v \<in> set (adm_lanes (project collate s))" "lview_laneId v = ln_laneId l"
      "settled_mutation_lane v"
    and proved: "(if ev_run (lview_evidence v) \<noteq> None then run_lane_proved h w v else manual_lane_proved h w v)"
    by (auto simp: durable_lane_ids_def validated_run_lanes_def validated_manual_lanes_def settled_lanes_def)
  from v(1) obtain l' where l': "l' \<in> set (rg_lanes s)" "v = view_of l'"
    using project_all_lanes[OF assms(2)] by auto
  with v(2) have "l' = l"
    using valid_lane_ids_distinct[OF assms(1)] assms(3)
    by (auto simp: distinct_map inj_on_def)
  with l' v(3) proved show ?thesis
    by (auto simp: settled_mutation_lane_def checkpointed_def split: if_splits
        intro: run_lane_owner_settled manual_lane_owner_settled)
qed

lemma verdict_safe_iff:
  "verdict_of h (Some p) = Safe_to_restart \<or> verdict_of h (Some p) = Safe_now \<longleftrightarrow>
     projection_ok h p \<and> rtp_ownership p = Owned_none \<and> rtp_checkpoint p = Checkpoint_durable"
  "verdict_of h (Some p) = Safe_to_restart \<longleftrightarrow>
     projection_ok h p \<and> rtp_ownership p = Owned_none \<and> rtp_checkpoint p = Checkpoint_durable
     \<and> hold_active (rtp_hold p)"
  by (auto simp: verdict_of_def runtime_read_back)

lemma composed_free:
  assumes "rtp_ownership (compose_runtime_projection x) = Owned_none"
  shows "cnt_writers (adm_counts (cin_admission x)) \<le> 0" "\<not> adm_lanesTruncated (cin_admission x)"
    "live_runs (cin_runs x) = []" "history_durable x" "cin_reentryEvidenceComplete x"
    "\<not> list_ex (\<lambda>l. lview_status l = Lane_active) (mutation_lanes (cin_admission x))"
  using assms
  by (auto simp: compose_runtime_projection_def composed_ownership_def observed_ownership_def Let_def
      split: if_splits)

lemma no_live_runs: "live_runs rs = [] \<Longrightarrow> r \<in> set rs \<Longrightarrow> run_at_rest r"
  by (auto simp: live_runs_def filter_empty_conv)

text \<open>C12. A restart is called safe only on proof: the projection was made from a valid registry all
  of whose mutation lanes are parked or released and settled by their owners, every Run is at
  rest and is the owner of such a lane, and the stronger verdict also needs the maintenance hold.
  A lane of a Run is settled by the Run's private receipt, of the lane's identity and generation,
  in the phase the lane is in and without a token. A lane of a worktree is settled by the
  worktree's parked receipt, of the lane's generation while it is parked and of the generation
  before once it is released, or, once released, by there being no receipt at all.
\<close>

theorem safe_restart_is_proved:
  assumes "prepare_runtime_projection h w f u owned now = Inr p"
    and "verdict_of (own_dates h) (Some p) = Safe_to_restart \<or> verdict_of (own_dates h) (Some p) = Safe_now"
  shows "\<exists>s. wld_registry w = Registry_state s \<and> validate_state (own_mission h) s = None
      \<and> (\<forall>l \<in> set (rg_lanes s). mutation (ln_role l) \<longrightarrow> owner_settled h w l)
      \<and> (\<forall>r \<in> set (wld_runs w). run_at_rest r
           \<and> (\<exists>l \<in> set (rg_lanes s). ev_run (ln_evidence l) = Some (run_id r) \<and> owner_settled h w l))
      \<and> (verdict_of (own_dates h) (Some p) = Safe_to_restart \<longleftrightarrow> hold_active (rtp_hold p))"
proof -
  from prepared_from_registry[OF assms(1)] obtain s where s: "wld_registry w = Registry_state s"
      "validate_state (own_mission h) s = None"
    and p: "p = compose_runtime_projection
       (runtime_input_of h w (project (own_collate h) s) (read_runtime_projection (own_dates h) f) u now)"
    by blast
  let ?a = "project (own_collate h) s"
  let ?x = "runtime_input_of h w ?a (read_runtime_projection (own_dates h) f) u now"
  from assms(2) have safe: "projection_ok (own_dates h) p" "rtp_ownership p = Owned_none" "rtp_checkpoint p = Checkpoint_durable"
    by (simp_all add: verdict_safe_iff(1))
  note free = composed_free[of ?x, folded p, OF safe(2)]
  have full: "\<not> adm_lanesTruncated ?a"
    using free(2) by (simp add: runtime_input_of_def)
  note lanes = project_all_lanes[OF full]
  have durable: "owner_settled h w l"
    if "l \<in> set (rg_lanes s)" "ln_laneId l \<in> set (durable_lane_ids h w ?a)" for l
    using durable_lane_settled[OF s(2) full that] .
  have "owner_settled h w l" if "l \<in> set (rg_lanes s)" "mutation (ln_role l)" for l
  proof (rule durable[OF that(1)])
    have "view_of l \<in> set (mutation_lanes ?a)"
      using that lanes by (simp add: mutation_lanes_def)
    moreover from this free(6) have "ln_status l \<noteq> Lane_active"
      by (auto simp: list_ex_iff runtime_input_of_def)
    then have "checkpointed (view_of l)"
      by (cases "ln_status l") (simp_all add: checkpointed_def)
    ultimately show "ln_laneId l \<in> set (durable_lane_ids h w ?a)"
      using free(4) by (auto simp: history_durable_def runtime_input_of_def list_all_iff)
  qed
  moreover have "\<exists>l \<in> set (rg_lanes s). ev_run (ln_evidence l) = Some (run_id r) \<and> owner_settled h w l"
    if "r \<in> set (wld_runs w)" for r
  proof -
    from free(4) that obtain v where "v \<in> set (mutation_lanes ?a)" "ev_run (lview_evidence v) = Some (run_id r)"
      "lview_laneId v \<in> set (durable_lane_ids h w ?a)"
      by (auto simp: history_durable_def runtime_input_of_def list_all_iff list_ex_iff Let_def)
    moreover from this(1) obtain l where "l \<in> set (rg_lanes s)" "v = view_of l"
      using lanes by (auto simp: mutation_lanes_def)
    ultimately show ?thesis
      using durable by auto
  qed
  moreover have "run_at_rest r" if "r \<in> set (wld_runs w)" for r
    using free(3) that by (auto simp: runtime_input_of_def intro: no_live_runs)
  ultimately show ?thesis
    using s safe by (auto simp: verdict_safe_iff(2))
qed

section \<open>The maintenance hold\<close>

record publication =
  pbl_world :: owner_world
  pbl_update :: runtime_update
  pbl_ownedCleanup :: bool
  pbl_now :: string

definition publication_step :: "owner_host \<Rightarrow> runtime_file \<Rightarrow> publication \<Rightarrow> publication_error + runtime_file" where
  "publication_step h f x =
     publish_runtime_projection h (pbl_world x) f (pbl_update x) (pbl_ownedCleanup x) (pbl_now x)"

definition keeps_hold :: "publication \<Rightarrow> bool" where
  "keeps_hold x \<longleftrightarrow> absent_or hold_active (upd_hold (pbl_update x))"

text \<open>The file holds: it reads as a projection with the hold, or it does not read at all.\<close>

definition hold_in_force :: "dispatch_host \<Rightarrow> runtime_file \<Rightarrow> bool" where
  "hold_in_force h f \<longleftrightarrow> assert_operational_execution_admission h f \<noteq> None"

lemma hold_in_force_cases:
  "hold_in_force h f \<longleftrightarrow>
     read_runtime_state h f = Runtime_invalid
     \<or> (\<exists>p. read_runtime_state h f = Runtime_valid p \<and> hold_active (rtp_hold p))"
  by (auto simp: hold_in_force_def assert_operational_execution_admission_def split: runtime_read.splits)

lemma publication_of_projection:
  assumes "publication_step h f x = Inr g"
  obtains p where "prepare_runtime_projection h (pbl_world x) f (pbl_update x) (pbl_ownedCleanup x) (pbl_now x) = Inr p"
    "g = write_runtime_projection p"
  using assms by (auto simp: publication_step_def publish_runtime_projection_def map_sum_def split: sum.splits)

lemma prepared_prior_readable:
  "prepare_runtime_projection h w f u owned now = Inr p \<Longrightarrow> read_runtime_state (own_dates h) f \<noteq> Runtime_invalid"
  by (auto simp: prepare_runtime_projection_def)

lemma prepared_hold:
  assumes "prepare_runtime_projection h w f u owned now = Inr p"
  shows "rtp_hold p =
    (case or_else (upd_hold u) (map_option rtp_hold (read_runtime_projection (own_dates h) f)) of
       Some k \<Rightarrow> k | None \<Rightarrow> \<lparr>hold_active = False, hold_reason = None\<rparr>)"
  using assms
  by (auto elim!: prepared_from_registry simp: compose_runtime_projection_def runtime_input_of_def
      split: prod.splits)

lemma publication_keeps_hold:
  assumes "hold_in_force (own_dates h) f" and "keeps_hold x" and "publication_step h f x = Inr g"
  shows "hold_in_force (own_dates h) g"
proof -
  from assms(3) obtain p where
    p: "prepare_runtime_projection h (pbl_world x) f (pbl_update x) (pbl_ownedCleanup x) (pbl_now x) = Inr p"
    and g: "g = write_runtime_projection p" by (rule publication_of_projection)
  from prepared_prior_readable[OF p] assms(1) obtain q where
    q: "read_runtime_state (own_dates h) f = Runtime_valid q" "hold_active (rtp_hold q)"
    by (auto simp: hold_in_force_cases)
  then have "hold_active (rtp_hold p)"
    using assms(2) by (cases "upd_hold (pbl_update x)")
      (simp_all add: prepared_hold[OF p] read_runtime_projection_def keeps_hold_def)
  then show ?thesis
    unfolding g hold_in_force_cases written_runtime_read by simp
qed

lemma publications_keep_hold:
  "hold_in_force (own_dates h) f \<Longrightarrow> list_all keeps_hold xs \<Longrightarrow>
   hold_in_force (own_dates h) (foldl (settle (publication_step h)) f xs)"
proof (induction xs arbitrary: f)
  case (Cons x xs)
  from Cons.prems have "hold_in_force (own_dates h) (settle (publication_step h) f x)"
    by (auto simp: settle_def split: sum.splits intro: publication_keeps_hold)
  with Cons show ?case by simp
qed simp

text \<open>C13. Once the file carries the maintenance hold, new execution is refused after any sequence of
  publications, successful or not, none of which explicitly releases the hold.
\<close>

theorem hold_until_released:
  assumes "read_runtime_state (own_dates h) f = Runtime_valid p" and "hold_active (rtp_hold p)"
    and "list_all keeps_hold xs"
  shows "assert_operational_execution_admission (own_dates h)
    (foldl (settle (publication_step h)) f xs) \<noteq> None"
proof -
  have "hold_in_force (own_dates h) f"
    using assms(1,2) by (simp add: hold_in_force_cases)
  then show ?thesis
    using publications_keep_hold assms(3) unfolding hold_in_force_def by blast
qed

text \<open>
  A file that does not read is never replaced by a publication, and refuses new execution; the
  boundary of a native effect does not notice it.
\<close>

lemma unreadable_file_stays:
  assumes "read_runtime_state (own_dates h) f = Runtime_invalid"
  shows "foldl (settle (publication_step h)) f xs = f"
    and "assert_operational_execution_admission (own_dates h) f = Some Projection_malformed"
    and "native_effect_boundary (own_dates h) True f = None"
proof -
  have "settle (publication_step h) f x = f" for x
    using assms by (simp add: settle_def publication_step_def publish_runtime_projection_def
        prepare_runtime_projection_def)
  then show "foldl (settle (publication_step h)) f xs = f"
    by (induction xs) simp_all
  show "assert_operational_execution_admission (own_dates h) f = Some Projection_malformed"
    using assms by (simp add: assert_operational_execution_admission_def)
  show "native_effect_boundary (own_dates h) True f = None"
    using assms by (simp add: native_effect_boundary_def read_runtime_projection_def first_error_None_iff)
qed

section \<open>What is published is read back\<close>

lemma owner_and_name_filled: "owner_and_name s \<Longrightarrow> \<not> blank s"
proof -
  assume "owner_and_name s"
  then obtain t where "dropWhile (\<lambda>c. c \<noteq> CHR ''/'') s = CHR ''/'' # t"
    by (cases "dropWhile (\<lambda>c. c \<noteq> CHR ''/'') s") (auto simp: owner_and_name_def starts_with_def)
  then have "CHR ''/'' \<in> set s"
    by (metis list.set_intros(1) set_dropWhileD)
  moreover have "\<not> js_space CHR ''/''"
    by (simp add: js_space_def)
  ultimately show ?thesis
    by (auto simp: blank_iff)
qed

lemma is_absolute_filled: "is_absolute s \<Longrightarrow> \<not> blank s"
  by (cases s) (auto simp: is_absolute_def starts_with_def blank_iff js_space_def)

lemma manual_receipt_read_fields:
  assumes "read_manual_owner_receipt f = Inr (Some c)"
  shows "\<not> blank (mor_repository c)" "\<not> blank (mor_workspace c)" "\<not> blank (mor_branch c)"
    "\<not> blank (mor_laneId c)" "\<not> blank (mor_missionId c)"
proof -
  from assms obtain v where "manual_owner_receipt_of v = Some c"
    by (auto simp: read_manual_owner_receipt_def read_receipt_with_def split: receipt_file.splits option.splits)
  then obtain ms where "manual_receipt_values ms = Some c"
    by (auto simp: manual_owner_receipt_of_def split: json.splits option.splits if_splits)
  then have decoded: "repository_value (js_get ms ''repository'') = Some (mor_repository c)"
      "worktree_value (js_get ms ''workspace'') = Some (mor_workspace c)"
      "filled_text (js_get ms ''branch'') = Some (mor_branch c)"
      "filled_text (js_get ms ''laneId'') = Some (mor_laneId c)"
      "filled_text (js_get ms ''missionId'') = Some (mor_missionId c)"
    unfolding manual_receipt_values_def by (auto split: option.splits)
  have filled: "\<not> blank s" if "filled_text v = Some s" for v s
    using that by (auto simp: filled_text_def split: option.splits json.splits if_splits)
  show "\<not> blank (mor_branch c)" "\<not> blank (mor_laneId c)" "\<not> blank (mor_missionId c)"
    using filled decoded(3-5) by blast+
  show "\<not> blank (mor_repository c)"
    using decoded(1) owner_and_name_filled
    by (auto simp: repository_value_def split: option.splits json.splits if_splits)
  show "\<not> blank (mor_workspace c)"
    using decoded(2) is_absolute_filled
    by (auto simp: worktree_value_def split: option.splits json.splits if_splits)
qed

lemma manual_receipt_of_lane_read:
  assumes "manual_receipt_of_lane h w l = Some (Some c)"
  shows "\<exists>f. read_manual_owner_receipt f = Inr (Some c)"
proof -
  from assms obtain p where "manual_receipt_at h w (ev_repository (lview_evidence l)) p = Some (Some c)"
    by (auto simp: manual_receipt_of_lane_def bind_eq_Some_conv)
  then show ?thesis
    unfolding manual_receipt_at_def by (force split: option.splits sum.splits)
qed

text \<open>A manual lane that is published comes from a valid receipt.\<close>

definition published_view :: "int \<Rightarrow> manual_view \<Rightarrow> bool" where
  "published_view revision m \<longleftrightarrow>
     (\<exists>c s f. m = manual_view_of revision s c \<and> read_manual_owner_receipt f = Inr (Some c))"

lemma manual_views_published:
  assumes "m \<in> set (manual_views h w a)"
  shows "published_view (adm_revision a) m"
proof -
  have "\<exists>l c s. m = manual_view_of (adm_revision a) s c \<and> manual_receipt_of_lane h w l = Some (Some c)"
    using assms
    by (auto simp: manual_views_def parked_manual_views_def active_manual_views_def List.map_filter_def
        bind_eq_Some_conv split: list.splits if_splits option.splits; metis)
  then show ?thesis
    unfolding published_view_def using manual_receipt_of_lane_read by blast
qed

lemma published_view_ok:
  assumes "published_view revision m" and "is_safe_integer revision" and "0 \<le> revision"
  shows "manual_ok m \<longleftrightarrow> is_sha_any_case (man_checkpointSha m)" and "\<not> adverse_parked_lane m"
proof -
  from assms(1) obtain c s f where m: "m = manual_view_of revision s c"
    and c: "read_manual_owner_receipt f = Inr (Some c)" by (auto simp: published_view_def)
  show "manual_ok m \<longleftrightarrow> is_sha_any_case (man_checkpointSha m)"
    using manual_receipt_read_fields[OF c] assms(2,3) by (simp add: m manual_ok_def manual_view_of_def)
  show "\<not> adverse_parked_lane m"
    by (auto simp: m adverse_parked_lane_def manual_view_of_def)
qed

lemma composed_manual_lane:
  assumes "\<not> present_and adverse_parked_lane (cin_manualLane x)"
  shows "absent_or (\<lambda>m. cin_manualLane x = Some m) (rtp_manualLane (compose_runtime_projection x))"
    and "summary_consistent (compose_runtime_projection x)"
proof -
  have plain: "composed_ownership x = observed_ownership x"
    using assms by (simp add: composed_ownership_def adverse_supplied_def split: prod.splits)
  show "absent_or (\<lambda>m. cin_manualLane x = Some m) (rtp_manualLane (compose_runtime_projection x))"
    by (cases "cin_manualLane x") (simp_all add: compose_runtime_projection_def plain observed_ownership_def)
  show "summary_consistent (compose_runtime_projection x)"
    using assms
    by (cases "cin_manualLane x")
      (auto simp: compose_runtime_projection_def plain observed_ownership_def summary_consistent_def)
qed

text \<open>C39. What a publication writes reads back as the projection it prepared, given canonical
  timestamps and filled texts, exactly when the manual lane it shows, if any, has a checkpoint of
  forty digits; receipts allow seven to sixty-four, and then the file is malformed to every reader.
\<close>

theorem published_projection_reads_back:
  assumes "prepare_runtime_projection h w f u owned now = Inr p"
    and "canonical_timestamp (own_dates h) now" and "\<not> blank (upd_stage u)"
    and "absent_or (canonical_timestamp (own_dates h)) (upd_nextPollAt u)"
    and "absent_or hold_ok (upd_hold u)"
  shows "read_runtime_state (own_dates h) (write_runtime_projection p) =
    (if absent_or (\<lambda>m. is_sha_any_case (man_checkpointSha m)) (rtp_manualLane p)
     then Runtime_valid p else Runtime_invalid)"
proof -
  from assms(1) obtain s where s: "validate_state (own_mission h) s = None"
    and p: "p = compose_runtime_projection
       (runtime_input_of h w (project (own_collate h) s) (read_runtime_projection (own_dates h) f) u now)"
    by (rule prepared_from_registry)
  let ?a = "project (own_collate h) s"
  let ?x = "runtime_input_of h w ?a (read_runtime_projection (own_dates h) f) u now"
  have revision: "is_safe_integer (adm_revision ?a)" "0 \<le> adm_revision ?a"
    using s by (auto simp: project_def Let_def validate_state_def first_error_None_iff)
  have view: "published_view (adm_revision ?a) m" if "cin_manualLane ?x = Some m" for m
  proof (rule manual_views_published[of m h w])
    show "m \<in> set (manual_views h w ?a)"
      using that by (auto simp: runtime_input_of_def split: list.splits)
  qed
  have calm: "\<not> present_and adverse_parked_lane (cin_manualLane ?x)"
    using view published_view_ok(2)[OF _ revision] by (auto simp: present_and_iff)
  note lane = composed_manual_lane[OF calm, folded p]
  have hold: "hold_ok (rtp_hold p)"
  proof (cases "upd_hold u")
    case None
    then show ?thesis
      using valid_read_ok[of "own_dates h" f]
      by (auto simp: prepared_hold[OF assms(1)] read_runtime_projection_def hold_ok_def
          split: runtime_read.splits)
  next
    case (Some k)
    with assms(5) show ?thesis by (simp add: prepared_hold[OF assms(1)])
  qed
  have "absent_or manual_ok (rtp_manualLane p) \<longleftrightarrow>
      absent_or (\<lambda>m. is_sha_any_case (man_checkpointSha m)) (rtp_manualLane p)"
    using lane(1) view published_view_ok(1)[OF _ revision] by (cases "rtp_manualLane p") auto
  moreover have "rtp_updatedAt p = now" "rtp_stage p = upd_stage u" "rtp_nextPollAt p = upd_nextPollAt u"
      "rtp_activeWriter p = None"
    by (simp_all add: p compose_runtime_projection_def runtime_input_of_def split: prod.splits)
  ultimately have "projection_ok (own_dates h) p \<longleftrightarrow>
      absent_or (\<lambda>m. is_sha_any_case (man_checkpointSha m)) (rtp_manualLane p)"
    using assms(2-4) lane(2) hold by (simp add: projection_ok_def)
  then show ?thesis
    by (simp add: written_runtime_read)
qed

end
