(* ===== verification/Ordered_Machines.thy ===== *)
theory Ordered_Machines
  imports Interfaces
begin

text \<open>
  Machines whose accepted steps only move the state up a preorder: what holds of a state in the
  sense of the order is never undone, however many steps are attempted. The mission registry
  interprets it with the order in which lanes advance.
\<close>

locale ordered_machine =
  fixes step :: "'s \<Rightarrow> 'i \<Rightarrow> 'e + 's"
    and below :: "'s \<Rightarrow> 's \<Rightarrow> bool"
  assumes below_refl: "below s s"
    and below_trans: "below s t \<Longrightarrow> below t u \<Longrightarrow> below s u"
    and step_below: "step s i = Inr t \<Longrightarrow> below s t"
begin

lemma settle_below: "below s (settle step s i)"
  by (auto simp: settle_def below_refl split: sum.splits intro: step_below)

lemma settles_below: "below s (foldl (settle step) s is)"
proof (induction "is" arbitrary: s)
  case (Cons i "is")
  show ?case
    using below_trans[OF settle_below Cons.IH[of "settle step s i"]] by simp
qed (simp add: below_refl)

lemma settles_below_later: "below (foldl (settle step) s is) (foldl (settle step) s (is @ js))"
  by (simp add: settles_below)

end

end
