(* ===== verification/Mission_Ownership.thy ===== *)
theory Mission_Ownership
  imports Mission_Registry Ordered_Machines
begin

text \<open>
  What the mission registry promises its callers: the published state never holds two
  unreleased production lanes on overlapping work and stays within its limits; lanes are never
  forgotten and only advance; a capability that was lost is never current again.
\<close>

section \<open>Lanes by their names\<close>

lemma find_index_from_NoneD: "find_index_from i p xs = None \<Longrightarrow> k < length xs \<Longrightarrow> \<not> p (i + k) (xs ! k)"
proof (induction xs arbitrary: i k)
  case (Cons x xs)
  then show ?case
    by (cases k) (auto split: if_splits dest: Cons.IH)
qed simp

lemma find_update_first:
  assumes "find_index_from i (\<lambda>_ x. f x = f l) xs = Some j"
  shows "find (\<lambda>x. f x = k) (xs[j - i := l]) = (if k = f l then Some l else find (\<lambda>x. f x = k) xs)"
  using assms
proof (induction xs arbitrary: i)
  case (Cons x xs)
  show ?case
  proof (cases "f x = f l")
    case True
    with Cons.prems show ?thesis by auto
  next
    case False
    with Cons.prems have r: "find_index_from (Suc i) (\<lambda>_ x. f x = f l) xs = Some j" by simp
    with find_index_from_SomeD[OF r] have "j - i = Suc (j - Suc i)" by auto
    with Cons.IH[OF r] False show ?thesis by auto
  qed
qed simp

lemma find_index_from_absent:
  "find_index_from i (\<lambda>_ x. f x = v) xs = None \<Longrightarrow> find (\<lambda>x. f x = v) xs = None"
  by (induction xs arbitrary: i) (auto split: if_splits)

lemma find_append: "find p (xs @ ys) = (case find p xs of None \<Rightarrow> find p ys | Some x \<Rightarrow> Some x)"
  by (induction xs) auto

lemma lane_named_replace:
  "lane_named i (replace_lane s l) = (if i = ln_laneId l then Some l else lane_named i s)"
proof (cases "find_index (\<lambda>_ x. ln_laneId x = ln_laneId l) (rg_lanes s)")
  case None
  then have "find (\<lambda>x. ln_laneId x = ln_laneId l) (rg_lanes s) = None"
    unfolding find_index_def by (rule find_index_from_absent)
  with None show ?thesis
    by (auto simp: replace_lane_def lane_named_def find_append split: option.splits)
next
  case (Some j)
  from find_update_first[OF this[unfolded find_index_def], of i] Some show ?thesis
    by (simp add: replace_lane_def lane_named_def)
qed

lemma lane_named_record_change [simp]:
  "lane_named i (record_change s l kind now) = (if i = ln_laneId l then Some l else lane_named i s)"
  using lane_named_replace[of i s l] by (simp add: record_change_def lane_named_def)

lemma lane_named_id: "lane_named i s = Some l \<Longrightarrow> ln_laneId l = i"
  by (auto simp: lane_named_def find_Some_iff)

section \<open>How a lane may change\<close>

definition item_kept :: "'a option \<Rightarrow> 'a option \<Rightarrow> bool" where
  "item_kept old next \<longleftrightarrow> old = None \<or> next = old"

text \<open>Evidence is strengthened: nothing it names is changed or dropped.\<close>

definition evidence_grows :: "mission_evidence \<Rightarrow> mission_evidence \<Rightarrow> bool" where
  "evidence_grows a b \<longleftrightarrow>
     ev_repository b = ev_repository a \<and> item_kept (ev_issue a) (ev_issue b)
     \<and> item_kept (ev_pullRequest a) (ev_pullRequest b) \<and> item_kept (ev_run a) (ev_run b)
     \<and> item_kept (ev_claim a) (ev_claim b) \<and> item_kept (ev_workspace a) (ev_workspace b)
     \<and> item_kept (ev_stateSurface a) (ev_stateSurface b) \<and> (ev_repositoryScope a \<longrightarrow> ev_repositoryScope b)"

definition lane_advances :: "lane_record \<Rightarrow> lane_record \<Rightarrow> bool" where
  "lane_advances a b \<longleftrightarrow>
     ln_laneId b = ln_laneId a \<and> ln_role b = ln_role a \<and> (ln_highAutonomy a \<longrightarrow> ln_highAutonomy b)
     \<and> (ln_role a \<noteq> Isolated_experiment \<longrightarrow> ln_missionId b = ln_missionId a)
     \<and> evidence_grows (ln_evidence a) (ln_evidence b)
     \<and> ln_generation a \<le> ln_generation b
     \<and> (ln_generation a = ln_generation b \<longrightarrow> ln_status b = ln_status a \<and> ln_token b = ln_token a)"

lemma item_kept_refl [simp]: "item_kept x x"
  by (simp add: item_kept_def)

lemma item_kept_trans: "item_kept a b \<Longrightarrow> item_kept b c \<Longrightarrow> item_kept a c"
  by (auto simp: item_kept_def)

lemma evidence_grows_refl [simp]: "evidence_grows e e"
  by (simp add: evidence_grows_def)

lemma evidence_grows_trans: "evidence_grows a b \<Longrightarrow> evidence_grows b c \<Longrightarrow> evidence_grows a c"
  unfolding evidence_grows_def by (auto intro: item_kept_trans)

lemma lane_advances_refl [simp]: "lane_advances l l"
  by (simp add: lane_advances_def)

lemma lane_advances_trans: "lane_advances a b \<Longrightarrow> lane_advances b c \<Longrightarrow> lane_advances a c"
  unfolding lane_advances_def using evidence_grows_trans[of "ln_evidence a" "ln_evidence b" "ln_evidence c"]
  by auto

lemma merge_item_kept: "merge_item a b = Some c \<Longrightarrow> item_kept a c \<and> item_kept b c"
  by (auto simp: merge_item_def item_kept_def split: option.splits if_splits)

lemma merge_evidence_items:
  assumes "merge_evidence a b = Inr c"
  shows "ev_repository b = ev_repository a \<and> ev_repository c = ev_repository a"
    and "ev_repositoryScope c = (ev_repositoryScope a \<or> ev_repositoryScope b)"
    and "merge_item (ev_issue a) (ev_issue b) = Some (ev_issue c)"
    and "merge_item (ev_pullRequest a) (ev_pullRequest b) = Some (ev_pullRequest c)"
    and "merge_item (ev_run a) (ev_run b) = Some (ev_run c)"
    and "merge_item (ev_claim a) (ev_claim b) = Some (ev_claim c)"
    and "merge_item (ev_workspace a) (ev_workspace b) = Some (ev_workspace c)"
    and "merge_item (ev_stateSurface a) (ev_stateSurface b) = Some (ev_stateSurface c)"
  using assms unfolding merge_evidence_def
  by (simp_all split: if_split_asm option.split_asm) auto

lemma merge_evidence_grows:
  assumes "merge_evidence a b = Inr c"
  shows "evidence_grows a c" and "evidence_grows b c"
  using merge_evidence_items[OF assms]
  by (auto simp: evidence_grows_def dest: merge_item_kept)

section \<open>How the state may change\<close>

definition registry_advances :: "registry_state \<Rightarrow> registry_state \<Rightarrow> bool" where
  "registry_advances s t \<longleftrightarrow>
     (\<forall>i. absent_or (\<lambda>a. present_and (lane_advances a) (lane_named i t)) (lane_named i s))"

lemma absent_or_iff: "absent_or P x \<longleftrightarrow> (\<forall>v. x = Some v \<longrightarrow> P v)"
  by (cases x) simp_all

lemma registry_advances_refl [simp]: "registry_advances s s"
  by (auto simp: registry_advances_def absent_or_def split: option.splits)

lemma registry_advances_trans:
  "registry_advances s t \<Longrightarrow> registry_advances t u \<Longrightarrow> registry_advances s u"
  unfolding registry_advances_def absent_or_iff present_and_iff
  by (blast intro: lane_advances_trans)

lemma registry_advances_record:
  assumes "absent_or (\<lambda>a. lane_advances a l) (lane_named (ln_laneId l) s)"
  shows "registry_advances s (record_change s l kind now)"
  using assms by (auto simp: registry_advances_def absent_or_def split: option.splits)

lemma registry_advances_replace:
  assumes "absent_or (\<lambda>a. lane_advances a l) (lane_named (ln_laneId l) s)"
  shows "registry_advances s (replace_lane s l)"
  using assms by (auto simp: registry_advances_def absent_or_def lane_named_replace split: option.splits)

lemma registry_advances_known:
  assumes "lane_named i s = Some a" and "lane_advances a l"
  shows "registry_advances s (record_change s l kind now)" and "registry_advances s (replace_lane s l)"
proof -
  from assms have "absent_or (\<lambda>x. lane_advances x l) (lane_named (ln_laneId l) s)"
    using lane_named_id[OF assms(1)] by (simp add: lane_advances_def)
  then show "registry_advances s (record_change s l kind now)" "registry_advances s (replace_lane s l)"
    by (rule registry_advances_record, rule registry_advances_replace)
qed

lemma current_lane:
  "require_current_token s t = Inr l \<Longrightarrow>
     lane_named (at_laneId t) s = Some l \<and> holds_token t l"
  by (auto simp: require_current_token_def split: option.splits if_splits)

lemma parked_lane_advances [simp]: "lane_advances l (parked_lane l reason now)"
  by (simp add: lane_advances_def parked_lane_def)

lemma released_lane_advances [simp]: "lane_advances l (released_lane l now)"
  by (simp add: lane_advances_def released_lane_def)

lemma changed_lane_id [simp]:
  "ln_laneId (parked_lane l reason now) = ln_laneId l" "ln_laneId (released_lane l now) = ln_laneId l"
  by (simp_all add: parked_lane_def released_lane_def)

section \<open>Every operation advances the lanes\<close>

definition advances_result :: "registry_state \<Rightarrow> mission_error + registry_state \<times> 'a \<Rightarrow> bool" where
  "advances_result s r = (case r of Inl _ \<Rightarrow> True | Inr (t, _) \<Rightarrow> registry_advances s t)"

lemma advances_result_simps [simp]:
  "advances_result s (Inl e)"
  "advances_result s (Inr (t, x)) = registry_advances s t"
  by (simp_all add: advances_result_def)

lemma advances_without_result [simp]: "advances_result s (without_result r) = advances_result s r"
  by (auto simp: without_result_def advances_result_def split: sum.splits)

lemma strengthen_advances: "advances_result s (strengthen_in e t now s)"
  by (auto simp: strengthen_in_def Let_def lane_advances_def
        split: sum.splits intro: registry_advances_known
        dest!: current_lane merge_evidence_grows(1))

lemma renew_advances: "advances_result s (renew_in t now s)"
  by (auto simp: renew_in_def lane_advances_def split: sum.splits intro: registry_advances_known
        dest!: current_lane)

lemma park_advances: "advances_result s (park_in t reason now s)"
  by (auto simp: park_in_def Let_def split: sum.splits intro: registry_advances_known dest!: current_lane)

lemma release_advances: "advances_result s (release_in t now s)"
  by (auto simp: release_in_def Let_def split: sum.splits intro: registry_advances_known dest!: current_lane)

lemma park_manual_advances: "advances_result s (park_manual_in t w now s)"
  by (auto simp: park_manual_in_def Let_def split: sum.splits intro: registry_advances_known dest!: current_lane)

lemma retire_manual_advances: "advances_result s (retire_manual_in i g w now s)"
  by (auto simp: retire_manual_in_def Let_def split: option.splits intro: registry_advances_known)

lemma release_parked_advances: "advances_result s (release_parked_in i g now s)"
  by (auto simp: release_parked_in_def Let_def split: option.splits intro: registry_advances_known)

lemma reconcile_merged_advances: "advances_result s (reconcile_merged_in r now s)"
  by (auto simp: reconcile_merged_in_def run_lane_def Let_def split: option.splits lane_status.splits
        intro: registry_advances_known)

lemma with_proof_advances: "(\<And>w. advances_result s (change w s)) \<Longrightarrow> advances_result s (with_proof h p change s)"
  by (auto simp: with_proof_def split: option.splits)

text \<open>An admission continues the lane of its name, one generation later.\<close>

lemma candidate_evidence_grows:
  assumes "candidate_evidence (Some p) owner e = Inr v"
  shows "evidence_grows (ln_evidence p) v"
  using assms
  by (auto simp: candidate_evidence_def split: option.splits sum.splits
        dest: merge_evidence_grows intro: evidence_grows_trans)

lemma candidate_advances:
  assumes prior: "lane_named (aq_laneId q) s = Some p"
    and errors: "prior_error (Some p) q = None" "owner_error s (Some p) owner q = None"
    and owner: "owner = requested_owner s q"
    and mission: "candidate_mission h (Some p) owner q e = Some m"
    and evidence: "candidate_evidence (Some p) owner e = Inr v"
    and l: "l = candidate_lane (Some p) owner q m v token now"
  shows "lane_advances p (l\<lparr>ln_status := st, ln_token := tk, ln_parkedReason := r\<rparr>)"
proof -
  from errors(1) have role: "ln_role p = aq_role q" and
    auto': "ln_highAutonomy p \<Longrightarrow> aq_highAutonomy q \<noteq> Some False"
    by (auto simp: prior_error_def first_error_None_iff)
  have "m = ln_missionId p" if "aq_role q \<noteq> Isolated_experiment"
  proof (cases owner)
    case None
    with mission that show ?thesis by (simp add: candidate_mission_def)
  next
    case (Some o')
    with owner have "aq_role q = Delegated_mutation_writer"
      by (auto simp: requested_owner_def split: if_splits)
    with errors(2) Some have "ln_missionId p = ln_missionId o'"
      by (auto simp: owner_error_def first_error_None_iff)
    with mission that Some show ?thesis by (simp add: candidate_mission_def)
  qed
  with role auto' candidate_evidence_grows[OF evidence] lane_named_id[OF prior] show ?thesis
    by (auto simp: lane_advances_def l candidate_lane_def split: option.splits)
qed

lemma candidate_lane_id: "ln_laneId (candidate_lane prior owner q m v token now) = aq_laneId q"
  by (simp add: candidate_lane_def)

lemma place_candidate_advances:
  assumes "\<And>st tk r. absent_or (\<lambda>p. lane_advances p (c\<lparr>ln_status := st, ln_token := tk, ln_parkedReason := r\<rparr>))
             (lane_named (ln_laneId c) s)"
  shows "advances_result s (place_candidate s prior q c now)"
proof -
  have "absent_or (\<lambda>p. lane_advances p c) (lane_named (ln_laneId c) s)"
    using assms[where st = "ln_status c" and tk = "ln_token c" and r = "ln_parkedReason c"] by simp
  then have "registry_advances s (record_change s c kind now)" for kind
    by (rule registry_advances_record)
  moreover have "registry_advances s
      (record_change s (c\<lparr>ln_status := Lane_parked, ln_token := None, ln_parkedReason := r\<rparr>) kind now)" for r kind
    by (rule registry_advances_record) (simp add: assms)
  ultimately show ?thesis
    by (simp add: place_candidate_def park_candidate_def Let_def split: option.splits sum.splits)
qed

lemma admit_in_advances: "advances_result s (admit_in h q e token now s)"
proof -
  let ?prior = "lane_named (aq_laneId q) s" and ?owner = "requested_owner s q"
  have "advances_result s (place_candidate s ?prior q (candidate_lane ?prior ?owner q m v token now) now)"
    if errors: "first_error [prior_error ?prior q, owner_error s ?prior ?owner q] = None"
      and m: "candidate_mission h ?prior ?owner q e = Some m"
      and v: "candidate_evidence ?prior ?owner e = Inr v" for m v
  proof (rule place_candidate_advances)
    fix st tk r
    let ?c = "candidate_lane ?prior ?owner q m v token now"
    have "lane_advances p (?c\<lparr>ln_status := st, ln_token := tk, ln_parkedReason := r\<rparr>)"
      if p: "?prior = Some p" for p
    proof (rule candidate_advances)
      show "lane_named (aq_laneId q) s = Some p" by (rule p)
      show "prior_error (Some p) q = None" "owner_error s (Some p) ?owner q = None"
        using errors p by (simp_all add: first_error_None_iff)
      show "candidate_mission h (Some p) ?owner q e = Some m" "candidate_evidence (Some p) ?owner e = Inr v"
        using m v p by simp_all
    qed (simp_all add: p)
    then show "absent_or (\<lambda>p. lane_advances p (?c\<lparr>ln_status := st, ln_token := tk, ln_parkedReason := r\<rparr>))
        (lane_named (ln_laneId ?c) s)"
      unfolding absent_or_iff candidate_lane_id by blast
  qed
  then show ?thesis
    by (auto simp: admit_in_def Let_def split: option.splits sum.splits)
qed

lemma operate_advances: "advances_result s (operate h now op s)"
proof (cases op)
  case (Admit q token)
  then show ?thesis by (auto simp: admit_def admit_in_advances split: sum.splits option.splits)
next
  case (Strengthen t e)
  then show ?thesis by (auto simp: strengthen_advances split: sum.splits)
qed (simp_all add: renew_advances park_advances release_advances park_manual_advances retire_manual_advances
       release_parked_advances reconcile_merged_advances with_proof_advances)

section \<open>The published file\<close>

definition filed :: "registry_file \<Rightarrow> registry_state option" where
  "filed f = (case f of Registry_state s \<Rightarrow> Some s | _ \<Rightarrow> None)"

definition filed_lane :: "string \<Rightarrow> registry_file \<Rightarrow> lane_record option" where
  "filed_lane i f = Option.bind (filed f) (lane_named i)"

definition file_advances :: "registry_file \<Rightarrow> registry_file \<Rightarrow> bool" where
  "file_advances f g \<longleftrightarrow> (\<forall>i. absent_or (\<lambda>a. present_and (lane_advances a) (filed_lane i g)) (filed_lane i f))"

lemma filed_lane_simps [simp]:
  "filed_lane i Registry_absent = None"
  "filed_lane i Registry_unreadable = None"
  "filed_lane i (Registry_state s) = lane_named i s"
  by (simp_all add: filed_lane_def filed_def)

lemma file_advances_state:
  "file_advances (Registry_state s) (Registry_state t) = registry_advances s t"
  by (simp add: file_advances_def registry_advances_def)

lemma file_advances_refl: "file_advances f f"
  by (auto simp: file_advances_def absent_or_iff present_and_iff)

lemma file_advances_trans: "file_advances f g \<Longrightarrow> file_advances g k \<Longrightarrow> file_advances f k"
  unfolding file_advances_def absent_or_iff present_and_iff
  by (blast intro: lane_advances_trans)

lemma transact_cases:
  assumes "transact h c authority publishes f change = Inr (g, x)"
  obtains (same) "g = f"
  | (published) s t where "load_registry h c f = Inr s" "change s = Inr (t, x)"
      "validate_state h t = None" "g = Registry_state t"
  using assms by (auto simp: transact_def split: if_splits sum.splits option.splits)

lemma load_registry_state:
  "load_registry h c f = Inr s \<Longrightarrow> f = Registry_state s \<or> f = Registry_absent \<and> s = initial_state c"
  by (auto simp: load_registry_def split: registry_file.splits option.splits if_splits)

lemma mission_step_advances:
  assumes "mission_step h c f call = Inr g"
  shows "file_advances f g"
proof -
  from assms obtain x where t: "transact h c (ml_authority call \<or> is_cleanup (ml_operation call))
      (ml_publishes call) f (operate h (ml_now call) (ml_operation call)) = Inr (g, x)"
    by (auto simp: mission_step_def split: sum.splits)
  from t show ?thesis
  proof (cases rule: transact_cases)
    case same
    then show ?thesis by (simp add: file_advances_refl)
  next
    case (published s t)
    with operate_advances[of s h "ml_now call" "ml_operation call"] have "registry_advances s t" by simp
    with load_registry_state[OF published(1)] published(4) show ?thesis
      by (auto simp: file_advances_state) (simp add: file_advances_def)
  qed
qed

interpretation missions: ordered_machine "mission_step h c" file_advances for h c
  by unfold_locales (rule file_advances_refl, erule (1) file_advances_trans, rule mission_step_advances)

text \<open>Every published file passed the validator.\<close>

definition published :: "mission_host \<Rightarrow> registry_file \<Rightarrow> bool" where
  "published h f \<longleftrightarrow> absent_or (\<lambda>s. validate_state h s = None) (filed f)"

lemma published_step:
  assumes "published h f" and "mission_step h c f call = Inr g"
  shows "published h g"
proof -
  from assms(2) obtain x where t: "transact h c (ml_authority call \<or> is_cleanup (ml_operation call))
      (ml_publishes call) f (operate h (ml_now call) (ml_operation call)) = Inr (g, x)"
    by (auto simp: mission_step_def split: sum.splits)
  from t assms(1) show ?thesis
    by (cases rule: transact_cases) (simp_all add: published_def filed_def)
qed

interpretation registry: guarded_machine "mission_step h c" "published h" for h c
  by unfold_locales (rule published_step)

section \<open>Exclusive ownership\<close>

text \<open>Two lanes may work on the same only as a captain with its delegate, or as successive
  delegates of one captain.\<close>

definition shares_ownership :: "lane_record \<Rightarrow> lane_record \<Rightarrow> bool" where
  "shares_ownership a b \<longleftrightarrow> delegate_of a b \<or> delegate_of b a \<or> sibling_delegates a b"

definition exclusively_owned :: "registry_state \<Rightarrow> bool" where
  "exclusively_owned s \<longleftrightarrow>
     (\<forall>a \<in> set (rg_lanes s). \<forall>b \<in> set (rg_lanes s).
        ln_laneId a \<noteq> ln_laneId b \<and> unreleased a \<and> unreleased b \<longrightarrow>
          (production (ln_role a) \<and> production (ln_role b) \<and> overlaps (ln_evidence a) (ln_evidence b)
             \<longrightarrow> shares_ownership a b)
          \<and> (ln_role a = Isolated_experiment \<longrightarrow> \<not> shared_physical_surface (ln_evidence a) (ln_evidence b)))"

definition within_limits :: "registry_state \<Rightarrow> bool" where
  "within_limits s \<longleftrightarrow>
     int (length (captains s)) \<le> al_maxCaptains (limits_of s)
     \<and> int (card (set (writer_missions s))) \<le> al_maxWriters (limits_of s)
     \<and> int (card (set (high_autonomy_missions s))) \<le> al_maxHighAutonomy (limits_of s)
     \<and> absent_or (\<lambda>n. \<forall>r \<in> set (map (ev_repository \<circ> ln_evidence) (captains s)).
          int (length (captains_of s r)) \<le> n) (al_maxPerRepository (limits_of s))"

lemma shared_physical_surface_sym: "shared_physical_surface a b = shared_physical_surface b a"
  by (auto simp: shared_physical_surface_def list_ex_iff)

lemma both_equal_sym: "both_equal x y = both_equal y x"
  by (auto simp: both_equal_def)

lemma overlaps_sym: "overlaps a b = overlaps b a"
  unfolding overlaps_def shared_physical_surface_sym[of a b]
  by (auto simp: both_equal_sym)

lemma shares_ownership_sym: "shares_ownership a b = shares_ownership b a"
  by (auto simp: shares_ownership_def sibling_delegates_def)

lemma pairwise_None:
  "pairwise f xs = None \<Longrightarrow> i < j \<Longrightarrow> j < length xs \<Longrightarrow> f (xs ! i) (xs ! j) = None"
proof (induction xs arbitrary: i j)
  case (Cons x xs)
  then show ?case
    by (cases i; cases j) (auto simp: first_error_None_iff)
qed simp

lemma pairwise_members:
  assumes "pairwise f xs = None" and "a \<in> set xs" and "b \<in> set xs" and "a \<noteq> b"
  shows "f a b = None \<or> f b a = None"
proof -
  from assms(2,3) obtain i j where "i < length xs" "a = xs ! i" "j < length xs" "b = xs ! j"
    by (auto simp: in_set_conv_nth)
  with assms(1,4) pairwise_None[of f xs i j] pairwise_None[of f xs j i] show ?thesis
    by (cases i j rule: linorder_cases) auto
qed

lemma valid_exclusively_owned:
  assumes "validate_state h s = None"
  shows "exclusively_owned s"
  unfolding exclusively_owned_def
proof (intro ballI impI, elim conjE)
  fix a b
  assume "a \<in> set (rg_lanes s)" "b \<in> set (rg_lanes s)" and ne: "ln_laneId a \<noteq> ln_laneId b"
    and u: "unreleased a" "unreleased b"
  moreover from assms have "pairwise lanes_conflict (rg_lanes s) = None"
    by (auto simp: validate_state_def first_error_None_iff)
  moreover from ne have "a \<noteq> b" by auto
  ultimately have "lanes_conflict a b = None \<or> lanes_conflict b a = None"
    using pairwise_members[of lanes_conflict "rg_lanes s" a b] by auto
  with u show "(production (ln_role a) \<and> production (ln_role b) \<and> overlaps (ln_evidence a) (ln_evidence b)
       \<longrightarrow> shares_ownership a b)
     \<and> (ln_role a = Isolated_experiment \<longrightarrow> \<not> shared_physical_surface (ln_evidence a) (ln_evidence b))"
    using overlaps_sym[of "ln_evidence a" "ln_evidence b"] shares_ownership_sym[of a b]
      shared_physical_surface_sym[of "ln_evidence a" "ln_evidence b"]
    by (auto simp: lanes_conflict_def first_error_None_iff shares_ownership_def)
qed

lemma valid_within_limits:
  assumes "validate_state h s = None"
  shows "within_limits s"
proof -
  from assms have "repository_capacity_ok s" "capacity_ok s"
    by (auto simp: validate_state_def first_error_None_iff)
  then show ?thesis
    by (auto simp: within_limits_def repository_capacity_ok_def capacity_ok_def count_of_def
          length_remdups_card_conv list_all_iff absent_or_iff)
qed

section \<open>Properties\<close>

text \<open>C14. Ownership is exclusive: whatever operations are attempted on the mission registry, from
  an absent file on, the published state never holds two unreleased production lanes on
  overlapping work other than a captain with its delegate or delegates of one captain, no
  experiment shares a workspace or state surface, and the captains, writing missions,
  high-autonomy missions and captains per repository stay within the configured limits.\<close>

theorem ownership_exclusive:
  "absent_or (\<lambda>s. exclusively_owned s \<and> within_limits s)
     (filed (foldl (settle (mission_step h c)) Registry_absent calls))"
proof -
  have "published h Registry_absent" by (simp add: published_def filed_def)
  from registry.settles_ok[OF this, of c calls] show ?thesis
    by (auto simp: published_def absent_or_iff valid_exclusively_owned valid_within_limits)
qed

text \<open>No lane is forgotten: a lane of the file stays in it under its name whatever operations
  are attempted, with its role, its mission (an experiment aside), everything its evidence
  named and a high autonomy once given; its generation never decreases, and a lane of the same
  generation has the same status and capability.\<close>

theorem lanes_never_forgotten:
  "absent_or (\<lambda>a. present_and (lane_advances a) (filed_lane i (foldl (settle (mission_step h c)) f calls)))
     (filed_lane i f)"
  using missions.settles_below[of f h c calls] by (simp add: file_advances_def)

definition capability_current :: "admission_token \<Rightarrow> registry_file \<Rightarrow> bool" where
  "capability_current t f \<longleftrightarrow>
     present_and (\<lambda>s. case require_current_token s t of Inl _ \<Rightarrow> False | Inr _ \<Rightarrow> True) (filed f)"

lemma capability_current_iff:
  "capability_current t f \<longleftrightarrow> present_and (holds_token t) (filed_lane (at_laneId t) f)"
  by (auto simp: capability_current_def filed_lane_def require_current_token_def present_and_iff
        split: option.splits bind_splits)

lemma capability_lost:
  assumes current: "capability_current t f" and adv: "file_advances f g" "file_advances g k"
    and lost: "\<not> capability_current t g"
  shows "\<not> capability_current t k"
proof -
  from current obtain a where a: "filed_lane (at_laneId t) f = Some a" "holds_token t a"
    by (auto simp: capability_current_iff present_and_iff)
  with adv(1) obtain b where b: "filed_lane (at_laneId t) g = Some b" "lane_advances a b"
    by (auto simp: file_advances_def absent_or_iff present_and_iff)
  with adv(2) obtain d where d: "filed_lane (at_laneId t) k = Some d" "lane_advances b d"
    by (auto simp: file_advances_def absent_or_iff present_and_iff)
  from lost b(1) have "\<not> holds_token t b"
    by (simp add: capability_current_iff)
  with a(2) b(2) have "at_generation t < ln_generation b"
    by (auto simp: holds_token_def lane_advances_def is_active_def)
  with d(2) have "at_generation t < ln_generation d" by (simp add: lane_advances_def)
  with d(1) show ?thesis by (auto simp: capability_current_iff holds_token_def)
qed

text \<open>C15. A capability that was current and then lost, by parking, release or settlement, is never
  current again, whatever operations follow and whatever random tokens later admissions draw.\<close>

theorem lost_capability_never_regained:
  assumes "capability_current t f"
    and "\<not> capability_current t (foldl (settle (mission_step h c)) f before)"
  shows "\<not> capability_current t (foldl (settle (mission_step h c)) f (before @ after))"
  using assms(1) missions.settles_below missions.settles_below_later assms(2) by (rule capability_lost)

text \<open>A limit that leaves no room for a candidate, as the reason a lane is parked for.\<close>

definition limit_reached :: "registry_state \<Rightarrow> string \<Rightarrow> parked_reason \<Rightarrow> bool" where
  "limit_reached s repository reason =
     (case reason of
        Capacity_captains \<Rightarrow> al_maxCaptains (limits_of s) \<le> int (length (captains s))
      | Capacity_writers \<Rightarrow> al_maxWriters (limits_of s) \<le> count_of (writer_missions s)
      | Capacity_high_autonomy \<Rightarrow> al_maxHighAutonomy (limits_of s) \<le> count_of (high_autonomy_missions s)
      | Capacity_repository \<Rightarrow>
          present_and (\<lambda>n. n \<le> int (length (captains_of s repository))) (al_maxPerRepository (limits_of s))
      | _ \<Rightarrow> False)"

lemma capacity_reason_limit:
  "capacity_reason s c = Some reason \<Longrightarrow> limit_reached s (ev_repository (ln_evidence c)) reason"
  by (auto simp: capacity_reason_def limit_reached_def Let_def split: if_splits)

lemma holds_token_candidate:
  "token_record (candidate_lane prior owner q m v token now) = Inr t \<Longrightarrow>
     holds_token t (candidate_lane prior owner q m v token now) \<and> at_laneId t = aq_laneId q"
  by (auto simp: token_record_def candidate_lane_def holds_token_def is_active_def)

lemma merge_evidence_repository:
  "merge_evidence a b = Inr c \<Longrightarrow> ev_repository c = ev_repository b"
  using merge_evidence_items(1) by fastforce

lemma candidate_evidence_repository:
  "candidate_evidence prior owner e = Inr v \<Longrightarrow> ev_repository v = ev_repository e"
  by (auto simp: candidate_evidence_def split: option.splits sum.splits dest: merge_evidence_repository)

lemma candidate_evidence_requested:
  "candidate_evidence prior owner e = Inr v \<Longrightarrow> evidence_grows e v"
  by (auto simp: candidate_evidence_def split: option.splits sum.splits dest: merge_evidence_grows)

text \<open>What an outcome means in the state it leaves.\<close>

definition outcome_honest ::
  "admission_request \<Rightarrow> mission_evidence \<Rightarrow> registry_state \<Rightarrow> registry_state \<Rightarrow> admission_outcome \<Rightarrow> bool" where
  "outcome_honest q e s s' out =
     (case out of
        Outcome_admitted m t r \<Rightarrow>
          at_laneId t = aq_laneId q \<and> r = rg_revision s' \<and> rg_revision s' = rg_revision s + 1
          \<and> present_and (\<lambda>l. holds_token t l \<and> ln_role l = aq_role q \<and> ln_missionId l = m
               \<and> evidence_grows e (ln_evidence l)) (lane_named (aq_laneId q) s')
      | Outcome_parked m reason r \<Rightarrow>
          r = rg_revision s' \<and> limit_reached s (ev_repository e) reason
          \<and> present_and (\<lambda>l. ln_status l = Lane_parked) (lane_named (aq_laneId q) s')
      | Outcome_duplicate m i r \<Rightarrow>
          s' = s \<and> r = rg_revision s \<and> i \<noteq> aq_laneId q
          \<and> list_ex (\<lambda>l. ln_laneId l = i \<and> ln_missionId l = m \<and> unreleased l \<and> production (ln_role l)) (rg_lanes s))"

lemma revision_record_change [simp]: "rg_revision (record_change s l kind now) = rg_revision s + 1"
  by (simp add: record_change_def)

lemma place_candidate_honest:
  assumes c: "c = candidate_lane prior owner q m v token now"
    and prior: "prior = lane_named (aq_laneId q) s"
    and v: "candidate_evidence prior owner e = Inr v"
    and placed: "place_candidate s prior q c now = Inr (s', out)"
  shows "outcome_honest q e s s' out"
proof -
  have repo: "ev_repository (ln_evidence c) = ev_repository e"
    and id: "ln_laneId c = aq_laneId q" "ln_evidence c = v" "ln_role c = aq_role q"
    using candidate_evidence_repository[OF v] by (simp_all add: c candidate_lane_def)
  show ?thesis
  proof (cases "ownership_conflict s q c")
    case (Some l)
    with placed have "s' = s" "out = Outcome_duplicate (ln_missionId l) (ln_laneId l) (rg_revision s)"
      by (auto simp: place_candidate_def split: if_splits)
    moreover from Some have "l \<in> set (rg_lanes s)" "unreleased l" "ln_laneId l \<noteq> aq_laneId q" "production (ln_role l)"
      by (auto simp: ownership_conflict_def find_Some_iff id)
    ultimately show ?thesis by (auto simp: outcome_honest_def list_ex_iff)
  next
    case None
    show ?thesis
    proof (cases "repeated_denial s c prior")
      case (Some d)
      with prior obtain p where p: "lane_named (aq_laneId q) s = Some p" "same_parked_request s p c"
        "fst d = ln_missionId p" "ln_parkedReason p = Some (snd d)"
        by (auto simp: repeated_denial_def split: option.splits if_splits)
      then have "capacity_reason s c = Some (snd d)" "ln_status p = Lane_parked"
        by (simp_all add: same_parked_request_def)
      with p placed None Some repo capacity_reason_limit[of s c "snd d"] show ?thesis
        by (cases d) (auto simp: place_candidate_def outcome_honest_def split: if_splits)
    next
      case fresh: None
      show ?thesis
      proof (cases "capacity_reason s c")
        case (Some reason)
        with placed None fresh repo capacity_reason_limit[OF Some] prior show ?thesis
          by (auto simp: place_candidate_def park_candidate_def outcome_honest_def Let_def id
                split: if_splits option.splits)
      next
        case unlimited: None
        with placed None fresh obtain t where
          t: "token_record c = Inr t" "s' = record_change s c Kind_admitted now"
            "out = Outcome_admitted (ln_missionId c) t (rg_revision s + 1)"
          by (auto simp: place_candidate_def Let_def split: if_splits sum.splits)
        with holds_token_candidate[of prior owner q m v token now t] candidate_evidence_requested[OF v] show ?thesis
          by (simp add: outcome_honest_def id c[symmetric])
      qed
    qed
  qed
qed

text \<open>C38. An admission says what it did: an admitted lane holds exactly the returned capability, with
  the requested role and all the requested evidence, one revision later; a parked one is parked
  in the state and its limit really was reached; a duplicate changes nothing and names an
  unreleased production lane of another name.\<close>

theorem admission_outcome_honest:
  "case canonicalize_mission_evidence h (aq_evidence q) of
     Inl _ \<Rightarrow> True
   | Inr e \<Rightarrow>
       (case admit h q token now s of Inl _ \<Rightarrow> True | Inr (s', out) \<Rightarrow> outcome_honest q e s s' out)"
  by (auto simp: admit_def admit_in_def Let_def split: sum.splits option.splits if_splits
        intro: place_candidate_honest[OF refl refl])

section \<open>Witness\<close>

definition sample_mission_host :: mission_host where
  "sample_mission_host = \<lparr>mh_sha256 = (\<lambda>s. s), mh_path = Some\<rparr>"

definition sample_admission_config :: admission_config where
  "sample_admission_config = \<lparr>ac_revision = ''r1'', ac_limits =
     \<lparr>al_maxCaptains = 1, al_maxWriters = 1, al_maxHighAutonomy = 1, al_maxPerRepository = None\<rparr>\<rparr>"

definition sample_lane :: lane_record where
  "sample_lane = \<lparr>ln_laneId = ''lane'', ln_missionId = ''mission'', ln_evidence =
       \<lparr>ev_repository = ''o/r'', ev_issue = Some 7, ev_pullRequest = None, ev_run = None, ev_claim = None,
        ev_workspace = None, ev_stateSurface = None, ev_repositoryScope = False\<rparr>,
     ln_role = Production_captain, ln_status = Lane_active, ln_generation = 1, ln_token = Some ''t'',
     ln_highAutonomy = False, ln_delegatedFromLaneId = None, ln_delegatedFromGeneration = None,
     ln_experimentOfMissionId = None, ln_parkedReason = None, ln_updatedAt = ''now''\<rparr>"

definition sample_registry :: registry_file where
  "sample_registry = Registry_state \<lparr>rg_revision = 1, rg_config = sample_admission_config,
     rg_lanes = [sample_lane], rg_lastTransition = None\<rparr>"

definition sample_capability :: admission_token where
  "sample_capability = \<lparr>at_laneId = ''lane'', at_generation = 1, at_token = ''t''\<rparr>"

definition sample_release :: mission_call where
  "sample_release = \<lparr>ml_operation = Release sample_capability True, ml_now = ''later'',
     ml_authority = False, ml_publishes = True\<rparr>"

theorem lost_capability_never_regained_witness:
  "\<not> capability_current sample_capability
     (foldl (settle (mission_step sample_mission_host sample_admission_config)) sample_registry
        ([sample_release] @ [sample_release]))"
proof (rule lost_capability_never_regained)
  show "capability_current sample_capability sample_registry" by code_simp
  show "\<not> capability_current sample_capability
      (foldl (settle (mission_step sample_mission_host sample_admission_config)) sample_registry [sample_release])"
    by code_simp
qed

end
