(* ===== verification/Restart_Witnesses.thy ===== *)
theory Restart_Witnesses
  imports Restart_Properties Mission_Ownership
begin

text \<open>
  A registry with one released lane of a merged Run and one parked worktree, each with its
  receipt on disk, and the properties of \<open>Restart_Properties\<close> at it.
\<close>

definition quiet_run :: run where
  "quiet_run = sample_run\<lparr>run_state := MERGED\<rparr>"

definition quiet_run_lane :: lane_record where
  "quiet_run_lane =
     \<lparr>ln_laneId = ''run:run-1'', ln_missionId = ''mission'', ln_evidence =
        \<lparr>ev_repository = ''acme/widgets'', ev_issue = Some 42, ev_pullRequest = None, ev_run = Some ''run-1'',
         ev_claim = None, ev_workspace = None, ev_stateSurface = None, ev_repositoryScope = False\<rparr>,
      ln_role = Production_captain, ln_status = Lane_released, ln_generation = 2, ln_token = None,
      ln_highAutonomy = True, ln_delegatedFromLaneId = None, ln_delegatedFromGeneration = None,
      ln_experimentOfMissionId = None, ln_parkedReason = None, ln_updatedAt = ''1''\<rparr>"

definition quiet_worktree_lane :: lane_record where
  "quiet_worktree_lane =
     \<lparr>ln_laneId = ''manual:1'', ln_missionId = ''mission-1'', ln_evidence =
        \<lparr>ev_repository = ''acme/widgets'', ev_issue = None, ev_pullRequest = None, ev_run = None,
         ev_claim = None, ev_workspace = Some ''/w'', ev_stateSurface = None, ev_repositoryScope = True\<rparr>,
      ln_role = Production_captain, ln_status = Lane_parked, ln_generation = 3, ln_token = None,
      ln_highAutonomy = True, ln_delegatedFromLaneId = None, ln_delegatedFromGeneration = None,
      ln_experimentOfMissionId = None, ln_parkedReason = Some Manual_checkpoint, ln_updatedAt = ''2''\<rparr>"

definition quiet_run_receipt :: run_owner_receipt where
  "quiet_run_receipt =
     \<lparr>ror_laneId = ''run:run-1'', ror_missionId = ''mission'', ror_repository = ''acme/widgets'',
      ror_runId = ''run-1'', ror_issue = Some 42, ror_claimId = None, ror_workspace = None,
      ror_token = None, ror_generation = 2, ror_phase = Phase_released, ror_settled = False,
      ror_workDisposition = None\<rparr>"

text \<open>The checkpoint is a parameter: a forty digit one is shown, a longer one is not.\<close>

definition quiet_worktree_receipt :: "nat \<Rightarrow> manual_owner_receipt" where
  "quiet_worktree_receipt n =
     \<lparr>mor_laneId = ''manual:1'', mor_missionId = ''mission-1'', mor_repository = ''acme/widgets'',
      mor_workspace = ''/w'', mor_branch = ''topic'', mor_checkpointSha = replicate n (CHR ''0''),
      mor_status = Manual_parked, mor_generation = 3, mor_token = None\<rparr>"

definition written :: "receipt_error + receipt_file \<Rightarrow> receipt_file" where
  "written x = (case x of Inr f \<Rightarrow> f | Inl _ \<Rightarrow> Receipt_absent)"

definition quiet_host :: owner_host where
  "quiet_host =
     \<lparr>own_mission = sample_mission_host, own_config = sample_admission_config,
      own_dates = plain_dispatch_host, own_collate = (\<lambda>a b. 0), own_physical = Some,
      own_run_placed = (\<lambda>p i. True), own_manual_placed = (\<lambda>p i. True)\<rparr>"

definition quiet_world :: "nat \<Rightarrow> owner_world" where
  "quiet_world n =
     \<lparr>wld_registry = Registry_state
        \<lparr>rg_revision = 5, rg_config = sample_admission_config,
         rg_lanes = [quiet_run_lane, quiet_worktree_lane], rg_lastTransition = None\<rparr>,
      wld_runs = [quiet_run],
      wld_run_receipts = (\<lambda>i. written (write_run_owner_receipt quiet_run_receipt Receipt_absent)),
      wld_manual_receipts =
        (\<lambda>i. written (write_manual_owner_receipt (quiet_worktree_receipt n) Receipt_absent))\<rparr>"

definition quiet_preparation :: "nat \<Rightarrow> publication_error + runtime_projection" where
  "quiet_preparation n =
     prepare_runtime_projection quiet_host (quiet_world n) No_runtime_file (maintenance_update True) False ''7''"

lemma quiet_hosts [simp]: "own_dates quiet_host = plain_dispatch_host"
  by (simp add: quiet_host_def)

text \<open>The receipts as they are read back, so that no text is parsed below.\<close>

lemma quiet_evaluation:
  "valid_run_receipt quiet_run_receipt \<and> valid_manual_receipt (quiet_worktree_receipt 40)
   \<and> valid_manual_receipt (quiet_worktree_receipt 64)
   \<and> owner_and_name ''acme/widgets'' \<and> safe_run_id ''run-1'' \<and> is_absolute ''/w''
   \<and> recovery_owner_evidence sample_mission_host quiet_run quiet_run_receipt (view_of quiet_run_lane) ''mission'' 1
       = None
   \<and> receipt_settles_lane quiet_run quiet_run_receipt (view_of quiet_run_lane)
   \<and> lower (run_repository quiet_run) = ''acme/widgets''"
  by code_simp

definition quiet_admission :: admission_projection where
  "quiet_admission =
     \<lparr>adm_revision = 5, adm_limits = ac_limits sample_admission_config,
      adm_counts = \<lparr>cnt_captains = 0, cnt_writers = 0, cnt_highAutonomy = 0, cnt_parked = 1\<rparr>,
      adm_lanes = [view_of quiet_worktree_lane, view_of quiet_run_lane], adm_omittedLaneCount = 0,
      adm_lanesTruncated = False, adm_lastTransition = None\<rparr>"

lemma quiet_snapshot:
  "registry_snapshot sample_mission_host sample_admission_config (\<lambda>a b. 0) True (wld_registry (quiet_world 40))
     = Inr quiet_admission"
  by code_simp

lemma quiet_registry: "wld_registry (quiet_world n) = wld_registry (quiet_world 40)"
  by (simp add: quiet_world_def)

lemma quiet_run_receipt_at:
  "run_receipt_at quiet_host (quiet_world n) ''acme/widgets'' ''run-1'' e = Some (Some quiet_run_receipt)"
proof -
  obtain f where f: "write_run_owner_receipt quiet_run_receipt Receipt_absent = Inr f"
    using quiet_evaluation
    by (simp add: write_run_owner_receipt_def write_receipt_with_def run_receipt_read_back)
  with quiet_evaluation show ?thesis
    by (simp add: run_receipt_at_def resolve_run_owner_receipt_def quiet_host_def quiet_world_def written_def
        run_receipt_written(2)[OF f])
qed

lemma quiet_worktree_receipt_at:
  assumes "n = 40 \<or> n = 64"
  shows "manual_receipt_at quiet_host (quiet_world n) ''acme/widgets'' ''/w'' = Some (Some (quiet_worktree_receipt n))"
proof -
  obtain f where f: "write_manual_owner_receipt (quiet_worktree_receipt n) Receipt_absent = Inr f"
    using quiet_evaluation assms
    by (auto simp: write_manual_owner_receipt_def write_receipt_with_def manual_receipt_read_back)
  with quiet_evaluation show ?thesis
    by (simp add: manual_receipt_at_def resolve_manual_owner_receipt_def quiet_host_def quiet_world_def
        written_def manual_receipt_written(2)[OF f])
qed

lemma quiet_run_proved: "run_lane_proved quiet_host (quiet_world n) (view_of quiet_run_lane)"
proof -
  have "run_of_lane (quiet_world n) (view_of quiet_run_lane) = Some quiet_run"
    by (simp add: run_of_lane_def quiet_run_lane_def quiet_world_def quiet_run_def sample_run_def create_run_def)
  then show ?thesis
    using quiet_evaluation quiet_run_receipt_at
    by (simp add: run_lane_proved_def)
      (simp add: quiet_run_lane_def quiet_run_def sample_run_def create_run_def quiet_host_def quiet_run_receipt_at)
qed

lemma quiet_worktree_read:
  "n = 40 \<or> n = 64 \<Longrightarrow>
     manual_receipt_of_lane quiet_host (quiet_world n) (view_of quiet_worktree_lane)
       = Some (Some (quiet_worktree_receipt n))"
  by (simp add: manual_receipt_of_lane_def quiet_worktree_lane_def quiet_worktree_receipt_at)

lemma quiet_worktree_proved:
  "n = 40 \<or> n = 64 \<Longrightarrow> manual_lane_proved quiet_host (quiet_world n) (view_of quiet_worktree_lane)"
  by (simp add: manual_lane_proved_def quiet_worktree_read)
    (simp add: manual_candidate_def manual_receipt_settles_def same_manual_owner_def quiet_worktree_lane_def
      quiet_worktree_receipt_def)

lemma quiet_lanes:
  "ev_run (ln_evidence quiet_run_lane) = Some ''run-1''" "ev_run (ln_evidence quiet_worktree_lane) = None"
  "ln_status quiet_run_lane = Lane_released" "ln_status quiet_worktree_lane = Lane_parked"
  "ln_role quiet_run_lane = Production_captain" "ln_role quiet_worktree_lane = Production_captain"
  "ln_laneId quiet_run_lane = ''run:run-1''" "ln_laneId quiet_worktree_lane = ''manual:1''"
  by (simp_all add: quiet_run_lane_def quiet_worktree_lane_def)

lemma quiet_validated:
  assumes "n = 40 \<or> n = 64"
  shows "validated_run_lanes quiet_host (quiet_world n) quiet_admission = [view_of quiet_run_lane]"
    and "validated_manual_lanes quiet_host (quiet_world n) quiet_admission = [view_of quiet_worktree_lane]"
  using quiet_worktree_proved[OF assms] quiet_run_proved[of n]
  by (simp_all add: validated_run_lanes_def validated_manual_lanes_def settled_lanes_def quiet_admission_def
      settled_mutation_lane_def checkpointed_def mutation_def quiet_lanes)

lemma quiet_views:
  assumes "n = 40 \<or> n = 64"
  shows "manual_views quiet_host (quiet_world n) quiet_admission =
    [manual_view_of 5 Worktree_parked (quiet_worktree_receipt n)]"
  using quiet_worktree_read[OF assms]
  by (simp add: manual_views_def parked_manual_views_def quiet_validated[OF assms] active_manual_views_def
      active_manual_lanes_def quiet_lanes List.map_filter_def)
    (simp add: quiet_admission_def quiet_lanes)

lemma quiet_input:
  assumes "n = 40 \<or> n = 64"
  shows "quiet_preparation n = Inr (compose_runtime_projection
    \<lparr>cin_admission = quiet_admission, cin_runs = [quiet_run], cin_prior = None, cin_now = ''7'',
     cin_stage = ''maintenance_hold'', cin_supervisor = Supervisor_parked, cin_eventWakeEligible = False,
     cin_nextPollAt = None,
     cin_hold = Some \<lparr>hold_active = True, hold_reason = Some ''Operator restart hold''\<rparr>,
     cin_manualLane = Some (manual_view_of 5 Worktree_parked (quiet_worktree_receipt n)),
     cin_durableLaneIds = [''run:run-1'', ''manual:1''], cin_reentryEvidenceComplete = True\<rparr>)"
proof -
  have ids: "durable_lane_ids quiet_host (quiet_world n) quiet_admission = [''run:run-1'', ''manual:1'']"
    by (simp add: durable_lane_ids_def quiet_validated[OF assms] quiet_lanes)
  have runs: "wld_runs (quiet_world n) = [quiet_run]" "run_id quiet_run = ''run-1''"
    by (simp_all add: quiet_world_def quiet_run_def sample_run_def create_run_def)
  have "reentry_evidence_complete quiet_host (quiet_world n) quiet_admission None"
    by (simp add: reentry_evidence_complete_def ids validated_run_ids_def quiet_validated[OF assms] runs
        prior_writer_resolved_def prior_manual_resolved_def mutation_lanes_def quiet_lanes List.map_filter_def)
      (simp add: quiet_admission_def quiet_lanes checkpointed_def)
  moreover have "registry_snapshot (own_mission quiet_host) (own_config quiet_host) (own_collate quiet_host) True
      (wld_registry (quiet_world n)) = Inr quiet_admission"
    using quiet_snapshot quiet_registry[of n] by (simp add: quiet_host_def)
  ultimately show ?thesis
    by (simp add: quiet_preparation_def prepare_runtime_projection_def read_runtime_state_def
        read_runtime_projection_def runtime_input_of_def maintenance_update_def ids runs quiet_views[OF assms])
qed

lemma quiet_verdicts:
  "case quiet_preparation 40 of
     Inr p \<Rightarrow> verdict_of plain_dispatch_host (Some p) = Safe_to_restart | Inl _ \<Rightarrow> False"
  "case quiet_preparation 64 of
     Inr p \<Rightarrow> \<not> absent_or (\<lambda>m. is_sha_any_case (man_checkpointSha m)) (rtp_manualLane p) | Inl _ \<Rightarrow> False"
  unfolding quiet_input[OF disjI1, OF refl] quiet_input[OF disjI2, OF refl] sum.case
  by code_simp+

theorem safe_restart_is_proved_witness:
  "owner_settled quiet_host (quiet_world 40) quiet_run_lane
   \<and> owner_settled quiet_host (quiet_world 40) quiet_worktree_lane \<and> run_at_rest quiet_run"
proof -
  from quiet_verdicts(1) obtain p where p: "quiet_preparation 40 = Inr p"
    and verdict: "verdict_of plain_dispatch_host (Some p) = Safe_to_restart"
    by (auto split: sum.splits)
  from verdict have safe: "verdict_of (own_dates quiet_host) (Some p) = Safe_to_restart
      \<or> verdict_of (own_dates quiet_host) (Some p) = Safe_now" by simp
  have lanes: "wld_registry (quiet_world 40) = Registry_state s \<Longrightarrow> rg_lanes s = [quiet_run_lane, quiet_worktree_lane]"
    "wld_runs (quiet_world 40) = [quiet_run]" for s
    by (auto simp: quiet_world_def)
  have roles: "mutation (ln_role quiet_run_lane)" "mutation (ln_role quiet_worktree_lane)"
    by (simp_all add: quiet_run_lane_def quiet_worktree_lane_def mutation_def)
  from safe_restart_is_proved[OF p[unfolded quiet_preparation_def] safe] lanes roles
  show ?thesis by fastforce
qed

definition held_projection :: runtime_projection where
  "held_projection =
     \<lparr>rtp_updatedAt = ''7'', rtp_supervisor = Supervisor_parked, rtp_stage = ''maintenance_hold'',
      rtp_nextPollAt = None, rtp_eventWakeEligible = False,
      rtp_hold = \<lparr>hold_active = True, hold_reason = Some ''Operator restart hold''\<rparr>,
      rtp_ownership = Owned_ambiguous, rtp_checkpoint = Checkpoint_unknown, rtp_activeWriter = None,
      rtp_manualLane = None\<rparr>"

definition quiet_publication :: publication where
  "quiet_publication =
     \<lparr>pbl_world = quiet_world 40,
      pbl_update = \<lparr>upd_stage = ''idle'', upd_supervisor = Supervisor_running, upd_eventWakeEligible = Some True,
        upd_nextPollAt = None, upd_hold = None\<rparr>,
      pbl_ownedCleanup = False, pbl_now = ''8''\<rparr>"

theorem hold_until_released_witness:
  "assert_operational_execution_admission plain_dispatch_host
     (foldl (settle (publication_step quiet_host)) (write_runtime_projection held_projection)
        [quiet_publication, quiet_publication]) \<noteq> None"
proof -
  have "projection_ok plain_dispatch_host held_projection" and "hold_active (rtp_hold held_projection)"
    and kept: "list_all keeps_hold [quiet_publication, quiet_publication]"
    by code_simp+
  then have "read_runtime_state (own_dates quiet_host) (write_runtime_projection held_projection) =
      Runtime_valid held_projection" and "hold_active (rtp_hold held_projection)"
    by (simp_all add: written_runtime_read)
  from hold_until_released[OF this kept] show ?thesis by simp
qed

theorem published_projection_reads_back_witness:
  "\<exists>p. quiet_preparation 64 = Inr p
     \<and> read_runtime_state plain_dispatch_host (write_runtime_projection p) = Runtime_invalid"
proof -
  from quiet_verdicts(2) obtain p where p: "quiet_preparation 64 = Inr p"
    and sha: "\<not> absent_or (\<lambda>m. is_sha_any_case (man_checkpointSha m)) (rtp_manualLane p)"
    by (auto split: sum.splits)
  have now: "canonical_timestamp (own_dates quiet_host) ''7''"
    and stage: "\<not> blank (upd_stage (maintenance_update True))"
    and poll: "absent_or (canonical_timestamp (own_dates quiet_host)) (upd_nextPollAt (maintenance_update True))"
    and reason: "absent_or hold_ok (upd_hold (maintenance_update True))"
    by code_simp+
  from published_projection_reads_back[OF p[unfolded quiet_preparation_def] now stage poll reason] sha p
  show ?thesis by simp
qed

end
