(* ===== verification/Wait_Observation.thy ===== *)
theory Wait_Observation
  imports Interfaces
begin

text \<open>
  Observing a worker without waking a model, \<^verbatim>\<open>src/domain/wait.ts\<close>: the normalized
  observation and the state compared between two of them, the classification of a
  change, and the decision whether that change is a reason to wake.

  The program hashes the JSON text of a normalized state and of sorted evidence with
  SHA-256. Both digests are functions of a \<open>wait_host\<close>; that distinct states have distinct
  digests is a hypothesis of the theorems that need it.
\<close>

section \<open>Vocabulary\<close>

datatype wait_source = Src_native | Src_runtime | Src_subprocess | Src_github

datatype wait_status =
    Subject_idle | Subject_active | Subject_completed | Subject_failed | Subject_blocked
  | Subject_unknown | Subject_unavailable

text \<open>
  The last constructor is a text outside the union: a persisted wake is only checked to
  carry some string there.
\<close>

datatype wait_evidence_kind =
    Ev_turn_started | Ev_turn_completed | Ev_item_completed | Ev_head_changed
  | Ev_status_changed | Ev_progress | Ev_failure | Ev_blocked | Ev_unavailable
  | Ev_unlisted string

record wait_evidence =
  we_kind :: wait_evidence_kind
  we_detail :: string

record wait_observation =
  wo_source :: wait_source
  wo_subjectId :: string
  wo_status :: wait_status
  wo_activeItemId :: "string option"
  wo_items :: nat
  wo_turns :: nat
  wo_lastCompletedTurnId :: "string option"
  wo_headSha :: "string option"
  wo_evidence :: "wait_evidence list"
  wo_observedAt :: string

record wait_state =
  ws_source :: wait_source
  ws_subjectId :: string
  ws_status :: wait_status
  ws_activeItemId :: "string option"
  ws_items :: nat
  ws_turns :: nat
  ws_lastCompletedTurnId :: "string option"
  ws_headSha :: "string option"

datatype wait_change_kind =
    Change_none | Change_progress | Change_completion | Change_failure | Change_blocked

record wait_change =
  wc_kind :: wait_change_kind
  wc_meaningful :: bool
  wc_evidence :: "wait_evidence list"

datatype wait_wake_reason =
    Wake_completion | Wake_failure | Wake_blocked | Wake_terminal | Wake_timeout_policy

record wait_wake_decision =
  wd_shouldWake :: bool
  wd_reason :: "wait_wake_reason option"
  wd_evidence :: "wait_evidence list"

datatype on_timeout = Continue_waiting | Policy_action

record wait_wake_policy =
  wp_timeoutMs :: int
  wp_onTimeout :: on_timeout

definition DEFAULT_WAIT_WAKE_POLICY :: wait_wake_policy where
  "DEFAULT_WAIT_WAKE_POLICY = \<lparr>wp_timeoutMs = 15 * 60000, wp_onTimeout = Continue_waiting\<rparr>"

record wait_subject_snapshot =
  sn_status :: wait_status
  sn_activeItemId :: "string option"
  sn_items :: "nat option"
  sn_turns :: "nat option"
  sn_lastCompletedTurnId :: "string option"
  sn_headSha :: "string option"
  sn_evidence :: "wait_evidence list option"

record wait_observation_input =
  wi_source :: wait_source
  wi_subjectId :: string
  wi_snapshot :: wait_subject_snapshot
  wi_observedAt :: string

record wait_native_boundary =
  nb_lastNativeIdentity :: "string option"
  nb_lastNativeStatus :: "wait_status option"
  nb_nativeBaselineSeen :: bool
  nb_previousWasNative :: bool

text \<open>Digests: of a normalized state, and of the sorted texts of the evidence.\<close>

record wait_host =
  wh_state_digest :: "wait_state \<Rightarrow> string"
  wh_evidence_digest :: "string list \<Rightarrow> string"

section \<open>Texts\<close>

fun source_text :: "wait_source \<Rightarrow> string" where
  "source_text Src_native = ''native''"
| "source_text Src_runtime = ''runtime''"
| "source_text Src_subprocess = ''subprocess''"
| "source_text Src_github = ''github''"

fun status_text :: "wait_status \<Rightarrow> string" where
  "status_text Subject_idle = ''idle''"
| "status_text Subject_active = ''active''"
| "status_text Subject_completed = ''completed''"
| "status_text Subject_failed = ''failed''"
| "status_text Subject_blocked = ''blocked''"
| "status_text Subject_unknown = ''unknown''"
| "status_text Subject_unavailable = ''unavailable''"

fun evidence_kind_text :: "wait_evidence_kind \<Rightarrow> string" where
  "evidence_kind_text Ev_turn_started = ''turn-started''"
| "evidence_kind_text Ev_turn_completed = ''turn-completed''"
| "evidence_kind_text Ev_item_completed = ''item-completed''"
| "evidence_kind_text Ev_head_changed = ''head-changed''"
| "evidence_kind_text Ev_status_changed = ''status-changed''"
| "evidence_kind_text Ev_progress = ''progress''"
| "evidence_kind_text Ev_failure = ''failure''"
| "evidence_kind_text Ev_blocked = ''blocked''"
| "evidence_kind_text Ev_unavailable = ''unavailable''"
| "evidence_kind_text (Ev_unlisted s) = s"

fun change_kind_text :: "wait_change_kind \<Rightarrow> string" where
  "change_kind_text Change_none = ''none''"
| "change_kind_text Change_progress = ''progress''"
| "change_kind_text Change_completion = ''completion''"
| "change_kind_text Change_failure = ''failure''"
| "change_kind_text Change_blocked = ''blocked''"

fun wake_reason_text :: "wait_wake_reason \<Rightarrow> string" where
  "wake_reason_text Wake_completion = ''completion''"
| "wake_reason_text Wake_failure = ''failure''"
| "wake_reason_text Wake_blocked = ''blocked''"
| "wake_reason_text Wake_terminal = ''terminal''"
| "wake_reason_text Wake_timeout_policy = ''timeout-policy''"

lemma source_text_inj [simp]: "source_text a = source_text b \<longleftrightarrow> a = b"
  by (cases a; cases b) simp_all

lemma status_text_inj [simp]: "status_text a = status_text b \<longleftrightarrow> a = b"
  by (cases a; cases b) simp_all

definition int_str :: "int \<Rightarrow> string" where
  "int_str n = (if n < 0 then ''-'' @ nat_str (nat (- n)) else nat_str (nat n))"

definition or_none :: "string option \<Rightarrow> string" where
  "or_none s = (case s of None \<Rightarrow> ''none'' | Some v \<Rightarrow> v)"

definition evidence :: "wait_evidence_kind \<Rightarrow> string \<Rightarrow> wait_evidence" where
  "evidence k d = \<lparr>we_kind = k, we_detail = d\<rparr>"

section \<open>Normalization\<close>

definition count_or_zero :: "nat option \<Rightarrow> nat" where
  "count_or_zero n = (case n of None \<Rightarrow> 0 | Some k \<Rightarrow> k)"

definition normalize_wait_observation :: "wait_observation_input \<Rightarrow> wait_observation" where
  "normalize_wait_observation i =
     (let s = wi_snapshot i in
      \<lparr>wo_source = wi_source i, wo_subjectId = wi_subjectId i, wo_status = sn_status s,
       wo_activeItemId = sn_activeItemId s,
       wo_items = count_or_zero (sn_items s), wo_turns = count_or_zero (sn_turns s),
       wo_lastCompletedTurnId = sn_lastCompletedTurnId s, wo_headSha = sn_headSha s,
       wo_evidence = (case sn_evidence s of None \<Rightarrow> [] | Some e \<Rightarrow> e),
       wo_observedAt = wi_observedAt i\<rparr>)"

definition wait_observation_state :: "wait_observation \<Rightarrow> wait_state" where
  "wait_observation_state x =
     \<lparr>ws_source = wo_source x, ws_subjectId = wo_subjectId x, ws_status = wo_status x,
      ws_activeItemId = wo_activeItemId x, ws_items = wo_items x, ws_turns = wo_turns x,
      ws_lastCompletedTurnId = wo_lastCompletedTurnId x, ws_headSha = wo_headSha x\<rparr>"

lemma wait_observation_state_sel [simp]:
  "ws_source (wait_observation_state x) = wo_source x"
  "ws_subjectId (wait_observation_state x) = wo_subjectId x"
  "ws_status (wait_observation_state x) = wo_status x"
  by (simp_all add: wait_observation_state_def)

definition wait_observation_digest :: "wait_host \<Rightarrow> wait_observation \<Rightarrow> string" where
  "wait_observation_digest h x = wh_state_digest h (wait_observation_state x)"

definition wait_evidence_digest :: "wait_host \<Rightarrow> wait_evidence list \<Rightarrow> string" where
  "wait_evidence_digest h es =
     wh_evidence_digest h
       (sort (map (\<lambda>e. evidence_kind_text (we_kind e) @ [CHR 0x00] @ we_detail e) es))"

section \<open>Evidence\<close>

fun status_evidence :: "wait_status \<Rightarrow> wait_evidence list" where
  "status_evidence Subject_completed = [evidence Ev_turn_completed ''subject reached completed'']"
| "status_evidence Subject_failed = [evidence Ev_failure ''subject reached failed'']"
| "status_evidence Subject_blocked = [evidence Ev_blocked ''subject reached blocked'']"
| "status_evidence Subject_unavailable = [evidence Ev_unavailable ''subject is unavailable'']"
| "status_evidence Subject_active = [evidence Ev_progress ''subject is active'']"
| "status_evidence _ = []"

definition reported_evidence :: "wait_observation \<Rightarrow> wait_evidence list" where
  "reported_evidence x =
     (if wo_evidence x = [] then status_evidence (wo_status x) else wo_evidence x)"

text \<open>One entry of each kind, the first wins: the loop over \<open>seen\<close>.\<close>

fun dedupe_from :: "wait_evidence_kind list \<Rightarrow> wait_evidence list \<Rightarrow> wait_evidence list" where
  "dedupe_from seen [] = []"
| "dedupe_from seen (e # es) =
     (if we_kind e \<in> set seen then dedupe_from seen es
      else e # dedupe_from (we_kind e # seen) es)"

definition dedupe_evidence :: "wait_evidence list \<Rightarrow> wait_evidence list" where
  "dedupe_evidence es = dedupe_from [] es"

definition transition_evidence ::
  "wait_observation \<Rightarrow> wait_observation \<Rightarrow> wait_evidence_kind \<Rightarrow> string \<Rightarrow> wait_evidence list" where
  "transition_evidence p n k d =
     dedupe_evidence
       (evidence k (d @ '' ('' @ status_text (wo_status p) @ '' -> '' @
                    status_text (wo_status n) @ '')'') # reported_evidence n)"

definition terminal_evidence :: "wait_observation \<Rightarrow> wait_change_kind \<Rightarrow> wait_evidence list" where
  "terminal_evidence x k =
     dedupe_evidence
       (evidence (if k = Change_completion then Ev_turn_completed
                  else if k = Change_failure then Ev_failure else Ev_blocked)
          (''subject '' @ wo_subjectId x @ '' reported '' @ status_text (wo_status x))
        # reported_evidence x)"

definition short_sha :: "string option \<Rightarrow> string" where
  "short_sha s =
     (case s of None \<Rightarrow> ''none''
      | Some v \<Rightarrow> if v = [] then ''none'' else if length v \<le> 12 then v else take 12 v)"

text \<open>The loop is the generic filter of identified events, identified by their kind.\<close>

lemma dedupe_from_fresh: "dedupe_from seen es = fresh_events we_kind seen es"
  by (induction seen es rule: dedupe_from.induct) simp_all

lemma dedupe_evidence_kinds:
  "we_kind ` set (dedupe_evidence es) = we_kind ` set es"
  "distinct (map we_kind (dedupe_evidence es))"
  by (simp_all add: dedupe_evidence_def dedupe_from_fresh fresh_events_set fresh_events_distinct)

section \<open>Classifying a change\<close>

definition no_change :: wait_change where
  "no_change = \<lparr>wc_kind = Change_none, wc_meaningful = False, wc_evidence = []\<rparr>"

definition change :: "wait_change_kind \<Rightarrow> wait_evidence list \<Rightarrow> wait_change" where
  "change k es = \<lparr>wc_kind = k, wc_meaningful = True, wc_evidence = es\<rparr>"

lemma change_sel [simp]:
  "wc_kind (change k es) = k" "wc_meaningful (change k es)" "wc_evidence (change k es) = es"
  "wc_kind no_change = Change_none" "\<not> wc_meaningful no_change" "wc_evidence no_change = []"
  by (simp_all add: change_def no_change_def)

text \<open>The terminal status of a report that differs from the last one, or is the first.\<close>

fun terminal_change :: "wait_observation \<Rightarrow> wait_change option" where
  "terminal_change n =
     (case wo_status n of
        Subject_completed \<Rightarrow> Some (change Change_completion (terminal_evidence n Change_completion))
      | Subject_failed \<Rightarrow> Some (change Change_failure (terminal_evidence n Change_failure))
      | Subject_blocked \<Rightarrow> Some (change Change_blocked (terminal_evidence n Change_blocked))
      | _ \<Rightarrow> None)"

declare terminal_change.simps [simp del]

definition first_change :: "wait_observation \<Rightarrow> wait_change" where
  "first_change n = (case terminal_change n of None \<Rightarrow> no_change | Some c \<Rightarrow> c)"

definition turn_identity_advanced :: "wait_native_boundary \<Rightarrow> wait_observation \<Rightarrow> bool" where
  "turn_identity_advanced b n \<longleftrightarrow>
     wo_lastCompletedTurnId n \<noteq> None \<and> wo_lastCompletedTurnId n \<noteq> nb_lastNativeIdentity b"

definition last_native_status ::
  "wait_native_boundary \<Rightarrow> wait_observation option \<Rightarrow> wait_status option" where
  "last_native_status b native_before =
     or_else (nb_lastNativeStatus b) (map_option wo_status native_before)"

definition native_idle :: "wait_observation \<Rightarrow> bool" where
  "native_idle n \<longleftrightarrow> wo_source n = Src_native \<and> wo_status n = Subject_idle"

definition boundary_change :: "wait_observation \<Rightarrow> wait_change" where
  "boundary_change n =
     change Change_completion
       (transition_evidence (n\<lparr>wo_status := Subject_active\<rparr>) n Ev_turn_completed
          (''subject '' @ wo_subjectId n @ '' native turn completed'' @
           (case wo_lastCompletedTurnId n of None \<Rightarrow> [] | Some t \<Rightarrow> '' ('' @ t @ '')'')))"

definition turn_move :: "wait_observation \<Rightarrow> wait_observation \<Rightarrow> string" where
  "turn_move p n =
     ''completed turn '' @ or_none (wo_lastCompletedTurnId p) @ '' -> '' @
     or_none (wo_lastCompletedTurnId n)"

definition unobserved_change :: "wait_observation \<Rightarrow> wait_observation \<Rightarrow> wait_change" where
  "unobserved_change p n =
     change Change_completion
       [evidence Ev_turn_completed (turn_move p n @ '' (active phase unobserved)'')]"

definition status_change :: "wait_observation \<Rightarrow> wait_observation \<Rightarrow> wait_change" where
  "status_change p n =
     (case terminal_change n of
        Some c \<Rightarrow> c
      | None \<Rightarrow>
          change Change_progress
            (if wo_status n = Subject_unavailable
             then transition_evidence p n Ev_unavailable
                    (''subject '' @ wo_subjectId n @ '' became unavailable'')
             else transition_evidence p n Ev_status_changed
                    (''subject '' @ wo_subjectId n @ '' changed status'')))"

definition head_change :: "wait_observation \<Rightarrow> wait_observation \<Rightarrow> wait_change" where
  "head_change p n =
     change Change_progress
       (evidence Ev_head_changed
          (''head '' @ short_sha (wo_headSha p) @ '' -> '' @ short_sha (wo_headSha n))
        # wo_evidence n)"

definition counters_change :: "wait_observation \<Rightarrow> wait_observation \<Rightarrow> wait_change" where
  "counters_change p n =
     change Change_progress
       [evidence Ev_progress
          (''progress items '' @ nat_str (wo_items p) @ ''->'' @ nat_str (wo_items n) @
           '' turns '' @ nat_str (wo_turns p) @ ''->'' @ nat_str (wo_turns n))]"

definition item_change :: "wait_observation \<Rightarrow> wait_observation \<Rightarrow> wait_change" where
  "item_change p n =
     change Change_progress
       [evidence Ev_item_completed
          (''active item '' @ or_none (wo_activeItemId p) @ '' -> '' @
           or_none (wo_activeItemId n))]"

text \<open>Same subject, same status, same head: anything left is progress or nothing.\<close>

definition progress_change ::
  "wait_host \<Rightarrow> wait_native_boundary \<Rightarrow> wait_observation \<Rightarrow> wait_observation \<Rightarrow> wait_change" where
  "progress_change h b p n =
     (if turn_identity_advanced b n
      then change Change_progress [evidence Ev_turn_completed (turn_move p n)]
      else if wo_items n > wo_items p \<or> wo_turns n > wo_turns p then counters_change p n
      else if wo_activeItemId p \<noteq> wo_activeItemId n then item_change p n
      else if wait_evidence_digest h (wo_evidence p) \<noteq> wait_evidence_digest h (wo_evidence n)
      then change Change_progress (reported_evidence n)
      else no_change)"

definition later_change ::
  "wait_host \<Rightarrow> wait_native_boundary \<Rightarrow> wait_observation option \<Rightarrow>
   wait_observation \<Rightarrow> wait_observation \<Rightarrow> wait_change" where
  "later_change h b native_before p n =
     (if wo_subjectId p \<noteq> wo_subjectId n then no_change
      else if wait_observation_digest h p = wait_observation_digest h n then no_change
      else if last_native_status b native_before = Some Subject_active \<and> native_idle n
      then boundary_change n
      else if native_idle n \<and> turn_identity_advanced b n \<and> nb_nativeBaselineSeen b
      then unobserved_change p n
      else if wo_status n \<noteq> wo_status p then status_change p n
      else if wo_headSha n \<noteq> wo_headSha p then head_change p n
      else progress_change h b p n)"

text \<open>
  \<open>previous_native\<close> is the optional argument: \<open>None\<close> is an absent argument, \<open>Some None\<close> an
  explicit \<open>null\<close>. The boundary has a default computed from the other arguments; note that
  it counts an absent \<open>previous_native\<close> as a baseline, since \<open>undefined !== null\<close>.
\<close>

definition native_before ::
  "wait_observation \<Rightarrow> wait_observation option option \<Rightarrow> wait_observation option" where
  "native_before p previous_native =
     (case previous_native of
        None \<Rightarrow> if wo_source p = Src_native then Some p else None
      | Some x \<Rightarrow> x)"

definition default_boundary ::
  "wait_observation option option \<Rightarrow> bool \<Rightarrow> wait_native_boundary" where
  "default_boundary previous_native previous_is_native =
     (let known = Option.bind previous_native (\<lambda>x. x) in
      \<lparr>nb_lastNativeIdentity = Option.bind known wo_lastCompletedTurnId,
       nb_lastNativeStatus = map_option wo_status known,
       nb_nativeBaselineSeen = (previous_native \<noteq> Some None),
       nb_previousWasNative = previous_is_native\<rparr>)"

definition classify_wait_change ::
  "wait_host \<Rightarrow> wait_observation option \<Rightarrow> wait_observation \<Rightarrow>
   wait_observation option option \<Rightarrow> wait_native_boundary \<Rightarrow> wait_change" where
  "classify_wait_change h previous n previous_native b =
     (case previous of
        None \<Rightarrow> first_change n
      | Some p \<Rightarrow> later_change h b (native_before p previous_native) p n)"

fun wake_reason_for_change :: "wait_change \<Rightarrow> wait_wake_reason option" where
  "wake_reason_for_change c =
     (case wc_kind c of
        Change_completion \<Rightarrow> Some Wake_completion
      | Change_failure \<Rightarrow> Some Wake_failure
      | Change_blocked \<Rightarrow> Some Wake_blocked
      | _ \<Rightarrow> None)"

declare wake_reason_for_change.simps [simp del]

section \<open>Deciding a wake\<close>

definition is_terminal_wait_observation :: "wait_observation \<Rightarrow> bool" where
  "is_terminal_wait_observation x \<longleftrightarrow>
     wo_status x = Subject_completed \<or> wo_status x = Subject_failed \<or> wo_status x = Subject_blocked"

definition is_absorbing_wait_status :: "wait_status \<Rightarrow> bool" where
  "is_absorbing_wait_status s \<longleftrightarrow> s = Subject_completed \<or> s = Subject_failed"

record wake_decision_input =
  wk_change :: wait_change
  wk_observation :: wait_observation
  wk_timedOut :: "bool option"
  wk_policy :: "wait_wake_policy option"
  wk_terminalReached :: "bool option"

definition no_wake :: wait_wake_decision where
  "no_wake = \<lparr>wd_shouldWake = False, wd_reason = None, wd_evidence = []\<rparr>"

definition wake_for :: "wait_wake_reason \<Rightarrow> wait_evidence list \<Rightarrow> wait_wake_decision" where
  "wake_for r es = \<lparr>wd_shouldWake = True, wd_reason = Some r, wd_evidence = es\<rparr>"

lemma wake_sel [simp]:
  "\<not> wd_shouldWake no_wake" "wd_reason no_wake = None" "wd_evidence no_wake = []"
  "wd_shouldWake (wake_for r es)" "wd_reason (wake_for r es) = Some r"
  "wd_evidence (wake_for r es) = es"
  by (simp_all add: no_wake_def wake_for_def)

definition timeout_evidence :: "wait_wake_policy \<Rightarrow> wait_observation \<Rightarrow> wait_evidence list" where
  "timeout_evidence p x =
     [evidence Ev_progress
        (''bounded wait of '' @ int_str (wp_timeoutMs p) @ ''ms ended in status '' @
         status_text (wo_status x))]"

definition timeout_wakes :: "wake_decision_input \<Rightarrow> wait_wake_policy \<Rightarrow> bool" where
  "timeout_wakes i p \<longleftrightarrow>
     wk_timedOut i = Some True \<and> wp_onTimeout p = Policy_action \<and>
     wk_terminalReached i \<noteq> Some True"

definition change_wake :: "wait_change \<Rightarrow> wait_wake_decision option" where
  "change_wake c =
     (if wc_meaningful c
      then map_option (\<lambda>r. wake_for r (wc_evidence c)) (wake_reason_for_change c)
      else None)"

definition decide_wait_wake :: "wake_decision_input \<Rightarrow> wait_wake_decision" where
  "decide_wait_wake i =
     (let p = (case wk_policy i of None \<Rightarrow> DEFAULT_WAIT_WAKE_POLICY | Some p \<Rightarrow> p) in
      case change_wake (wk_change i) of
        Some d \<Rightarrow> d
      | None \<Rightarrow>
          if timeout_wakes i p
          then wake_for Wake_timeout_policy (timeout_evidence p (wk_observation i))
          else no_wake)"

end
