(* ===== verification/Wait_Ledger.thy ===== *)
theory Wait_Ledger
  imports Wait_Observation
begin

text \<open>
  The durable wait ledger, \<^verbatim>\<open>src/domain/wait.ts\<close>: one observation advances it, a wake
  is recorded at most once for a normalized state, it is bounded before it is stored, its
  wakes are delivered, and a ledger read back after a restart is migrated.
\<close>

section \<open>The ledger\<close>

record wait_recorded_observation =
  ro_id :: string
  ro_at :: string
  ro_source :: wait_source
  ro_subjectId :: string
  ro_status :: wait_status
  ro_observationDigest :: string
  ro_change :: wait_change_kind
  ro_state :: wait_state

record wait_recorded_wake =
  rw_id :: string
  rw_at :: string
  rw_reason :: wait_wake_reason
  rw_source :: wait_source
  rw_subjectId :: string
  rw_status :: wait_status
  rw_observationDigest :: string
  rw_evidence :: "wait_evidence list"

text \<open>
  A ledger of the current revision. Only \<open>terminalDigests\<close> is optional in the type; the
  nullish defaults the operations repeat for the other fields never apply to it, and
  \<open>stored_wait_ledger\<close> below is the form in which those fields may be missing.
\<close>

record wait_ledger =
  wl_subjectId :: string
  wl_ownerRunId :: string
  wl_generation :: string
  wl_observations :: "wait_recorded_observation list"
  wl_wakes :: "wait_recorded_wake list"
  wl_terminalDigests :: "string list option"
  wl_lastDigest :: "string option"
  wl_lastObservedAt :: "string option"
  wl_waitStartedAt :: "string option"
  wl_terminalReached :: bool
  wl_lastNativeIdentity :: "string option"
  wl_lastNativeStatus :: "wait_status option"
  wl_nativeBaselineSeen :: bool
  wl_previousWasNative :: bool
  wl_surfacedDigests :: "string list"
  wl_deliveredWakeIds :: "string list"
  wl_observationSequence :: nat

definition create_wait_ledger :: "string \<Rightarrow> string \<Rightarrow> string \<Rightarrow> wait_ledger" where
  "create_wait_ledger subject owner generation =
     \<lparr>wl_subjectId = subject, wl_ownerRunId = owner, wl_generation = generation,
      wl_observations = [], wl_wakes = [], wl_terminalDigests = Some [],
      wl_lastDigest = None, wl_lastObservedAt = None, wl_waitStartedAt = None,
      wl_terminalReached = False, wl_lastNativeIdentity = None, wl_lastNativeStatus = None,
      wl_nativeBaselineSeen = False, wl_previousWasNative = False,
      wl_surfacedDigests = [], wl_deliveredWakeIds = [], wl_observationSequence = 0\<rparr>"

definition terminal_digests :: "wait_ledger \<Rightarrow> string list" where
  "terminal_digests l = (case wl_terminalDigests l of None \<Rightarrow> [] | Some ds \<Rightarrow> ds)"

text \<open>The observation a record stands for: its state, without evidence.\<close>

definition recorded_observation :: "wait_recorded_observation \<Rightarrow> wait_observation" where
  "recorded_observation r =
     \<lparr>wo_source = ro_source r, wo_subjectId = ro_subjectId r, wo_status = ro_status r,
      wo_activeItemId = ws_activeItemId (ro_state r), wo_items = ws_items (ro_state r),
      wo_turns = ws_turns (ro_state r),
      wo_lastCompletedTurnId = ws_lastCompletedTurnId (ro_state r),
      wo_headSha = ws_headSha (ro_state r), wo_evidence = [], wo_observedAt = ro_at r\<rparr>"

text \<open>The loop from the last record backwards.\<close>

definition last_native_observation :: "wait_ledger \<Rightarrow> string \<Rightarrow> wait_observation option" where
  "last_native_observation l subject =
     map_option recorded_observation
       (find (\<lambda>r. ro_subjectId r = subject \<and> ro_source r = Src_native)
          (rev (wl_observations l)))"

definition last_recorded :: "wait_ledger \<Rightarrow> wait_recorded_observation option" where
  "last_recorded l =
     (if wl_observations l = [] then None else Some (last (wl_observations l)))"

definition previous_observation :: "wait_ledger \<Rightarrow> string \<Rightarrow> wait_observation option" where
  "previous_observation l subject =
     (case last_recorded l of
        None \<Rightarrow> None
      | Some r \<Rightarrow> if ro_subjectId r \<noteq> subject then None else Some (recorded_observation r))"

section \<open>Advancing\<close>

datatype wait_error = Owner_mismatch | Generation_mismatch | Subject_mismatch

record wait_advance_input =
  wa_observation :: wait_observation
  wa_at :: string
  wa_policy :: "wait_wake_policy option"
  wa_timedOut :: "bool option"
  wa_expectedOwnerRunId :: "string option"
  wa_expectedGeneration :: "string option"

record wait_advance =
  av_ledger :: wait_ledger
  av_change :: wait_change
  av_wake :: wait_wake_decision
  av_duplicate :: bool
  av_wokeNow :: bool
  av_previousNative :: "wait_observation option"
  av_observationEventId :: string

definition wait_fence :: "wait_ledger \<Rightarrow> wait_advance_input \<Rightarrow> wait_error option" where
  "wait_fence l i =
     first_error
       [fail_if (present_and (\<lambda>o'. o' \<noteq> wl_ownerRunId l) (wa_expectedOwnerRunId i)) Owner_mismatch,
        fail_if (present_and (\<lambda>g. g \<noteq> wl_generation l) (wa_expectedGeneration i)) Generation_mismatch,
        fail_if (wl_subjectId l \<noteq> wo_subjectId (wa_observation i)) Subject_mismatch]"

definition is_duplicate :: "wait_host \<Rightarrow> wait_ledger \<Rightarrow> wait_observation \<Rightarrow> bool" where
  "is_duplicate h l x \<longleftrightarrow> wl_lastDigest l = Some (wait_observation_digest h x)"

definition ledger_boundary :: "wait_ledger \<Rightarrow> wait_native_boundary" where
  "ledger_boundary l =
     \<lparr>nb_lastNativeIdentity = wl_lastNativeIdentity l, nb_lastNativeStatus = wl_lastNativeStatus l,
      nb_nativeBaselineSeen = wl_nativeBaselineSeen l,
      nb_previousWasNative = wl_previousWasNative l\<rparr>"

definition ledger_change :: "wait_host \<Rightarrow> wait_ledger \<Rightarrow> wait_observation \<Rightarrow> wait_change" where
  "ledger_change h l x =
     (if is_duplicate h l x then no_change
      else classify_wait_change h (previous_observation l (wo_subjectId x)) x
             (Some (last_native_observation l (wo_subjectId x))) (ledger_boundary l))"

definition observation_event_id :: "wait_host \<Rightarrow> wait_ledger \<Rightarrow> wait_observation \<Rightarrow> string" where
  "observation_event_id h l x =
     ''wait-observation:'' @ wl_ownerRunId l @ '':'' @ wo_subjectId x @ '':'' @
     nat_str (Suc (wl_observationSequence l)) @ '':'' @ wait_observation_digest h x"

definition observation_record ::
  "wait_host \<Rightarrow> wait_ledger \<Rightarrow> wait_observation \<Rightarrow> string \<Rightarrow> wait_recorded_observation" where
  "observation_record h l x at =
     \<lparr>ro_id = observation_event_id h l x, ro_at = at, ro_source = wo_source x,
      ro_subjectId = wo_subjectId x, ro_status = wo_status x,
      ro_observationDigest = wait_observation_digest h x,
      ro_change = wc_kind (ledger_change h l x), ro_state = wait_observation_state x\<rparr>"

text \<open>A state that has already surfaced a decision, by any of the four traces it leaves.\<close>

definition already_surfaced :: "wait_ledger \<Rightarrow> string \<Rightarrow> bool" where
  "already_surfaced l d \<longleftrightarrow>
     wl_terminalReached l \<or> d \<in> set (terminal_digests l) \<or> d \<in> set (wl_surfacedDigests l) \<or>
     (\<exists>w \<in> set (wl_wakes l). rw_observationDigest w = d)"

definition is_terminal_reason :: "wait_wake_reason \<Rightarrow> bool" where
  "is_terminal_reason r \<longleftrightarrow> r \<noteq> Wake_timeout_policy"

definition wake_id :: "wait_ledger \<Rightarrow> string \<Rightarrow> string \<Rightarrow> wait_wake_decision \<Rightarrow> string" where
  "wake_id l subject d w =
     ''wait-wake:'' @ wl_ownerRunId l @ '':'' @ subject @ '':'' @ d @ '':'' @
     or_none (map_option wake_reason_text (wd_reason w)) @ '':'' @ nat_str (length (wl_wakes l))"

definition wake_record ::
  "wait_host \<Rightarrow> wait_ledger \<Rightarrow> wait_observation \<Rightarrow> string \<Rightarrow> wait_wake_decision \<Rightarrow> wait_recorded_wake" where
  "wake_record h l x at w =
     (let d = wait_observation_digest h x in
      \<lparr>rw_id = wake_id l (wo_subjectId x) d w, rw_at = at,
       rw_reason = (case wd_reason w of None \<Rightarrow> Wake_terminal | Some r \<Rightarrow> r),
       rw_source = wo_source x, rw_subjectId = wo_subjectId x, rw_status = wo_status x,
       rw_observationDigest = d, rw_evidence = wd_evidence w\<rparr>)"

definition MAX_WAIT_OBSERVATIONS :: nat where "MAX_WAIT_OBSERVATIONS = 200"
definition MAX_WAIT_WAKES :: nat where "MAX_WAIT_WAKES = 200"
definition MAX_TERMINAL_DIGESTS :: nat where "MAX_TERMINAL_DIGESTS = 50"
definition MAX_SURFACED_DIGESTS :: nat where "MAX_SURFACED_DIGESTS = 500"
definition MAX_DELIVERED_WAKE_IDS :: nat where "MAX_DELIVERED_WAKE_IDS = 500"

definition surface_digest :: "wait_ledger \<Rightarrow> string \<Rightarrow> string list" where
  "surface_digest l d =
     (if d \<in> set (wl_surfacedDigests l) then wl_surfacedDigests l
      else slice_last MAX_SURFACED_DIGESTS (wl_surfacedDigests l @ [d]))"

definition ledger_decision ::
  "wait_host \<Rightarrow> wait_ledger \<Rightarrow> wait_advance_input \<Rightarrow> wait_wake_decision" where
  "ledger_decision h l i =
     decide_wait_wake
       \<lparr>wk_change = ledger_change h l (wa_observation i), wk_observation = wa_observation i,
        wk_timedOut = wa_timedOut i,
        wk_policy = Some (case wa_policy i of None \<Rightarrow> DEFAULT_WAIT_WAKE_POLICY | Some p \<Rightarrow> p),
        wk_terminalReached = Some (wl_terminalReached l)\<rparr>"

definition wakes_now :: "wait_host \<Rightarrow> wait_ledger \<Rightarrow> wait_advance_input \<Rightarrow> bool" where
  "wakes_now h l i \<longleftrightarrow>
     wd_shouldWake (ledger_decision h l i) \<and>
     \<not> already_surfaced l (wait_observation_digest h (wa_observation i))"

definition terminal_decision :: "wait_wake_decision \<Rightarrow> bool" where
  "terminal_decision w \<longleftrightarrow> wd_shouldWake w \<and> present_and is_terminal_reason (wd_reason w)"

text \<open>The native part of the ledger, which only a read of native provenance moves.\<close>

definition advance_native :: "bool \<Rightarrow> wait_observation \<Rightarrow> wait_ledger \<Rightarrow> wait_ledger" where
  "advance_native dup x l =
     l\<lparr>wl_lastNativeIdentity :=
         (if wo_source x = Src_native
          then or_else (wo_lastCompletedTurnId x) (wl_lastNativeIdentity l)
          else wl_lastNativeIdentity l),
       wl_lastNativeStatus :=
         (if wo_source x = Src_native then Some (wo_status x) else wl_lastNativeStatus l),
       wl_nativeBaselineSeen :=
         (wl_nativeBaselineSeen l \<or> (\<not> dup \<and> wo_source x = Src_native)),
       wl_previousWasNative :=
         (if dup then wl_previousWasNative l else wo_source x = Src_native)\<rparr>"

text \<open>The decision part: the wake, the digests that now count as surfaced, the sticky flag.\<close>

definition advance_wakes ::
  "wait_host \<Rightarrow> bool \<Rightarrow> wait_advance_input \<Rightarrow> wait_ledger \<Rightarrow> wait_ledger" where
  "advance_wakes h dup i l =
     (let x = wa_observation i; d = wait_observation_digest h x; w = ledger_decision h l i in
      l\<lparr>wl_wakes :=
          (if wakes_now h l i then wl_wakes l @ [wake_record h l x (wa_at i) w] else wl_wakes l),
        wl_terminalDigests :=
          Some (if terminal_decision w \<and> d \<notin> set (terminal_digests l)
                then terminal_digests l @ [d] else terminal_digests l),
        wl_surfacedDigests :=
          (if wakes_now h l i then surface_digest l d else wl_surfacedDigests l),
        wl_terminalReached :=
          (wl_terminalReached l \<or> (\<not> dup \<and> is_absorbing_wait_status (wo_status x)))\<rparr>)"

text \<open>The history part: the record, the clock of the wait and the sequence number.\<close>

definition advance_history ::
  "wait_host \<Rightarrow> bool \<Rightarrow> wait_ledger \<Rightarrow> wait_advance_input \<Rightarrow> wait_ledger \<Rightarrow> wait_ledger" where
  "advance_history h dup old i l =
     (let x = wa_observation i in
      l\<lparr>wl_observations :=
          (if dup then wl_observations l
           else wl_observations l @ [observation_record h old x (wa_at i)]),
        wl_observationSequence := Suc (wl_observationSequence l),
        wl_lastDigest := Some (wait_observation_digest h x),
        wl_lastObservedAt := Some (wa_at i),
        wl_waitStartedAt :=
          (if \<not> is_terminal_wait_observation x \<and> wc_kind (ledger_change h old x) = Change_none
           then or_else (wl_waitStartedAt l) (Some (wa_at i)) else None)\<rparr>)"

definition next_ledger :: "wait_host \<Rightarrow> wait_ledger \<Rightarrow> wait_advance_input \<Rightarrow> wait_ledger" where
  "next_ledger h l i =
     (let x = wa_observation i; dup = is_duplicate h l x in
      advance_history h dup l i (advance_native dup x (advance_wakes h dup i l)))"

definition advance_previous_native ::
  "wait_host \<Rightarrow> wait_ledger \<Rightarrow> wait_observation \<Rightarrow> wait_observation option" where
  "advance_previous_native h l x =
     or_else (if is_duplicate h l x then None
              else last_native_observation l (wo_subjectId x))
       (if wo_source x = Src_native then Some x else None)"

definition advance_wait_ledger ::
  "wait_host \<Rightarrow> wait_ledger \<Rightarrow> wait_advance_input \<Rightarrow> wait_error + wait_advance" where
  "advance_wait_ledger h l i =
     (case wait_fence l i of
        Some e \<Rightarrow> Inl e
      | None \<Rightarrow>
          (let x = wa_observation i in
           Inr \<lparr>av_ledger = next_ledger h l i, av_change = ledger_change h l x,
                av_wake = (if wakes_now h l i then ledger_decision h l i else no_wake),
                av_duplicate = is_duplicate h l x, av_wokeNow = wakes_now h l i,
                av_previousNative = advance_previous_native h l x,
                av_observationEventId = observation_event_id h l x\<rparr>))"

section \<open>Bounding and delivery\<close>

definition bound_wait_ledger :: "wait_ledger \<Rightarrow> wait_ledger" where
  "bound_wait_ledger l =
     l\<lparr>wl_observations := slice_last MAX_WAIT_OBSERVATIONS (wl_observations l),
       wl_wakes := slice_last MAX_WAIT_WAKES (wl_wakes l),
       wl_terminalDigests := Some (slice_last MAX_TERMINAL_DIGESTS (terminal_digests l)),
       wl_surfacedDigests := slice_last MAX_SURFACED_DIGESTS (wl_surfacedDigests l),
       wl_deliveredWakeIds := slice_last MAX_DELIVERED_WAKE_IDS (wl_deliveredWakeIds l)\<rparr>"

definition pending_wait_wakes :: "wait_ledger \<Rightarrow> wait_recorded_wake list" where
  "pending_wait_wakes l = filter (\<lambda>w. rw_id w \<notin> set (wl_deliveredWakeIds l)) (wl_wakes l)"

definition mark_wait_wakes_delivered :: "wait_ledger \<Rightarrow> string list \<Rightarrow> wait_ledger" where
  "mark_wait_wakes_delivered l ids =
     l\<lparr>wl_deliveredWakeIds :=
         slice_last MAX_DELIVERED_WAKE_IDS (js_set (wl_deliveredWakeIds l @ ids))\<rparr>"

section \<open>Reading a stored ledger\<close>

text \<open>A ledger as \<open>isWaitLedger\<close> accepts it: fields of later revisions may be missing.\<close>

record stored_wait_ledger =
  sl_subjectId :: string
  sl_ownerRunId :: string
  sl_generation :: string
  sl_observations :: "wait_recorded_observation list"
  sl_wakes :: "wait_recorded_wake list"
  sl_terminalDigests :: "string list option"
  sl_lastDigest :: "string option"
  sl_lastObservedAt :: "string option"
  sl_waitStartedAt :: "string option"
  sl_terminalReached :: "bool option"
  sl_lastNativeIdentity :: "string option"
  sl_lastNativeStatus :: "wait_status option"
  sl_nativeBaselineSeen :: "bool option"
  sl_previousWasNative :: "bool option"
  sl_surfacedDigests :: "string list option"
  sl_deliveredWakeIds :: "string list option"
  sl_observationSequence :: "nat option"

definition is_terminal_wake :: "wait_recorded_wake \<Rightarrow> bool" where
  "is_terminal_wake w \<longleftrightarrow>
     is_terminal_reason (rw_reason w) \<and>
     (is_absorbing_wait_status (rw_status w) \<or> rw_status w = Subject_blocked)"

definition is_absorbing_wake :: "wait_recorded_wake \<Rightarrow> bool" where
  "is_absorbing_wake w \<longleftrightarrow> is_terminal_wake w \<and> is_absorbing_wait_status (rw_status w)"

text \<open>
  \<open>id.split(':').at(-2)\<close> as a number. Of the texts JavaScript reads as a number only a
  plain decimal can come from an id this program wrote, so other texts count as \<open>NaN\<close>.
\<close>

fun split_colon :: "string \<Rightarrow> string list" where
  "split_colon [] = [[]]"
| "split_colon (c # s) =
     (if c = CHR '':'' then [] # split_colon s
      else (case split_colon s of [] \<Rightarrow> [[c]] | p # ps \<Rightarrow> (c # p) # ps))"

definition digit_value :: "char \<Rightarrow> nat option" where
  "digit_value c =
     (let n = of_char c :: nat in if 48 \<le> n \<and> n \<le> 57 then Some (n - 48) else None)"

fun read_digits :: "nat \<Rightarrow> string \<Rightarrow> nat option" where
  "read_digits a [] = Some a"
| "read_digits a (c # s) =
     (case digit_value c of None \<Rightarrow> None | Some d \<Rightarrow> read_digits (10 * a + d) s)"

definition recorded_sequence :: "wait_recorded_observation \<Rightarrow> nat option" where
  "recorded_sequence r =
     (case rev (split_colon (ro_id r)) of
        _ # t # _ \<Rightarrow>
          (case read_digits 0 t of
             None \<Rightarrow> None
           | Some n \<Rightarrow> if is_safe_integer (int n) then Some n else None)
      | _ \<Rightarrow> None)"

definition highest_sequence :: "wait_recorded_observation list \<Rightarrow> nat" where
  "highest_sequence rs =
     foldl (\<lambda>highest r. case recorded_sequence r of
               None \<Rightarrow> highest | Some n \<Rightarrow> if n > highest then n else highest) 0 rs"

definition list_or_empty :: "'a list option \<Rightarrow> 'a list" where
  "list_or_empty xs = (case xs of None \<Rightarrow> [] | Some ys \<Rightarrow> ys)"

definition stored_last_native :: "stored_wait_ledger \<Rightarrow> wait_recorded_observation option" where
  "stored_last_native s = find (\<lambda>r. ro_source r = Src_native) (rev (sl_observations s))"

definition migrated_terminal_digests :: "stored_wait_ledger \<Rightarrow> string list" where
  "migrated_terminal_digests s =
     js_set (list_or_empty (sl_terminalDigests s) @
             map rw_observationDigest (filter is_terminal_wake (sl_wakes s)))"

definition last_is_native :: "wait_recorded_observation list \<Rightarrow> bool" where
  "last_is_native rs \<longleftrightarrow> rs \<noteq> [] \<and> ro_source (last rs) = Src_native"

definition some_native :: "wait_recorded_observation list \<Rightarrow> bool" where
  "some_native rs \<longleftrightarrow> (\<exists>r \<in> set rs. ro_source r = Src_native)"

definition migrate_wait_ledger :: "stored_wait_ledger \<Rightarrow> wait_ledger" where
  "migrate_wait_ledger s =
     \<lparr>wl_subjectId = sl_subjectId s, wl_ownerRunId = sl_ownerRunId s,
      wl_generation = sl_generation s,
      wl_observations = sl_observations s, wl_wakes = sl_wakes s,
      wl_terminalDigests = Some (migrated_terminal_digests s),
      wl_lastDigest = sl_lastDigest s, wl_lastObservedAt = sl_lastObservedAt s,
      wl_waitStartedAt = sl_waitStartedAt s,
      wl_terminalReached = (\<exists>w \<in> set (sl_wakes s). is_absorbing_wake w),
      wl_lastNativeIdentity =
        or_else (sl_lastNativeIdentity s)
          (Option.bind (stored_last_native s) (\<lambda>r. ws_lastCompletedTurnId (ro_state r))),
      wl_lastNativeStatus =
        or_else (sl_lastNativeStatus s) (map_option ro_status (stored_last_native s)),
      wl_nativeBaselineSeen =
        (case sl_nativeBaselineSeen s of None \<Rightarrow> some_native (sl_observations s) | Some b \<Rightarrow> b),
      wl_previousWasNative =
        (case sl_previousWasNative s of None \<Rightarrow> last_is_native (sl_observations s) | Some b \<Rightarrow> b),
      wl_surfacedDigests =
        (case sl_surfacedDigests s of
           None \<Rightarrow> slice_last MAX_SURFACED_DIGESTS (js_set (map rw_observationDigest (sl_wakes s)))
         | Some ds \<Rightarrow> ds),
      wl_deliveredWakeIds =
        (case sl_deliveredWakeIds s of None \<Rightarrow> map rw_id (sl_wakes s) | Some ids \<Rightarrow> ids),
      wl_observationSequence =
        (case sl_observationSequence s of
           None \<Rightarrow> highest_sequence (sl_observations s) | Some n \<Rightarrow> n)\<rparr>"

text \<open>What a ledger of the current revision is stored as: every field present.\<close>

definition stored :: "wait_ledger \<Rightarrow> stored_wait_ledger" where
  "stored l =
     \<lparr>sl_subjectId = wl_subjectId l, sl_ownerRunId = wl_ownerRunId l,
      sl_generation = wl_generation l,
      sl_observations = wl_observations l, sl_wakes = wl_wakes l,
      sl_terminalDigests = wl_terminalDigests l,
      sl_lastDigest = wl_lastDigest l, sl_lastObservedAt = wl_lastObservedAt l,
      sl_waitStartedAt = wl_waitStartedAt l,
      sl_terminalReached = Some (wl_terminalReached l),
      sl_lastNativeIdentity = wl_lastNativeIdentity l,
      sl_lastNativeStatus = wl_lastNativeStatus l,
      sl_nativeBaselineSeen = Some (wl_nativeBaselineSeen l),
      sl_previousWasNative = Some (wl_previousWasNative l),
      sl_surfacedDigests = Some (wl_surfacedDigests l),
      sl_deliveredWakeIds = Some (wl_deliveredWakeIds l),
      sl_observationSequence = Some (wl_observationSequence l)\<rparr>"

end
