(* ===== verification/Wait_Runtime.thy ===== *)
theory Wait_Runtime
  imports Wait_Ledger Run_Types
begin

text \<open>
  The bounded wait, \<^verbatim>\<open>src/workflow/wait-observation.ts\<close>: what a run, and the native thread
  behind it, are observed as; the wake a timeout may record; and the loop that observes
  until a change that is a decision boundary, an abort, or the deadline.

  The provider reads, the clock and the abort signal are the environment of the loop: one
  \<open>wait_round\<close> for each turn of it. A read that rejects is a round without an observation.
\<close>

section \<open>What is observed\<close>

record native_wait_snapshot =
  ns_status :: wait_status
  ns_activeItemId :: "string option"
  ns_items :: "nat option"
  ns_turns :: "nat option"
  ns_lastCompletedTurnId :: "string option"
  ns_evidence :: "wait_evidence list option"

fun run_wait_status :: "workflow_state \<Rightarrow> wait_status" where
  "run_wait_status MERGED = Subject_completed"
| "run_wait_status FAILED = Subject_failed"
| "run_wait_status MERGE_READY = Subject_blocked"
| "run_wait_status NEEDS_HUMAN = Subject_blocked"
| "run_wait_status WAITING_DEPENDENCY = Subject_blocked"
| "run_wait_status _ = Subject_active"

definition determines_status :: "wait_status \<Rightarrow> bool" where
  "determines_status s \<longleftrightarrow>
     s \<in> {Subject_completed, Subject_failed, Subject_blocked, Subject_active, Subject_idle}"

text \<open>A durable terminal or blocked run wins; an undetermined native read is no provenance.\<close>

definition resolve_runtime_status ::
  "wait_status \<Rightarrow> native_wait_snapshot option \<Rightarrow> wait_status \<times> wait_source" where
  "resolve_runtime_status durable native =
     (if durable \<in> {Subject_completed, Subject_failed, Subject_blocked}
      then (durable, Src_runtime)
      else case native of
        None \<Rightarrow> (durable, Src_runtime)
      | Some n \<Rightarrow>
          if determines_status (ns_status n) then (ns_status n, Src_native)
          else (durable, Src_runtime))"

definition merge_runtime_status :: "wait_status \<Rightarrow> native_wait_snapshot option \<Rightarrow> wait_status" where
  "merge_runtime_status durable native = fst (resolve_runtime_status durable native)"

definition CODEX_APP_SERVER_PROVIDER :: string where
  "CODEX_APP_SERVER_PROVIDER = ''codex-app-server''"

text \<open>
  The dependencies of one read: the current durable run, the head probe (absent, or its
  answer; a failed probe answers \<open>None\<close>), the native reader (absent, or its answer; a
  reader that rejects answers \<open>None\<close>) and the clock.
\<close>

record observer_read =
  or_run :: "run option"
  or_readHead :: "string option option"
  or_native :: "native_wait_snapshot option option"
  or_now :: string

text \<open>The native reader is asked only for a run whose executor is the App Server.\<close>

definition observe_native :: "run \<Rightarrow> observer_read \<Rightarrow> native_wait_snapshot option" where
  "observe_native r d =
     (case or_native d of
        None \<Rightarrow> None
      | Some answer \<Rightarrow>
          if present_and (\<lambda>e. e_provider e = CODEX_APP_SERVER_PROVIDER) (run_executor r)
          then answer else None)"

definition observed_head :: "run \<Rightarrow> observer_read \<Rightarrow> string option" where
  "observed_head current d =
     or_else (case or_readHead d of None \<Rightarrow> run_headSha current | Some probe \<Rightarrow> probe)
       (run_headSha current)"

definition head_evidence :: "run \<Rightarrow> observer_read \<Rightarrow> wait_evidence list" where
  "head_evidence current d =
     (case observed_head current d of
        None \<Rightarrow> []
      | Some s \<Rightarrow>
          if run_headSha current \<noteq> Some s
          then [evidence Ev_head_changed
                  (''workspace head '' @ (if length s \<le> 12 then s else take 12 s))]
          else [])"

text \<open>\<open>r\<close> is the run the observer was made for; its executor decides the native read.\<close>

definition observe_run :: "run \<Rightarrow> observer_read \<Rightarrow> wait_observation" where
  "observe_run r d =
     (let current = (case or_run d of None \<Rightarrow> r | Some c \<Rightarrow> c);
          native = observe_native r d;
          merged = resolve_runtime_status (run_wait_status (run_state current)) native;
          used = (if snd merged = Src_native then native else None)
      in normalize_wait_observation
           \<lparr>wi_source = (if snd merged = Src_native then Src_native else Src_runtime),
            wi_subjectId = run_id r,
            wi_snapshot =
              \<lparr>sn_status = fst merged,
               sn_activeItemId = Option.bind used ns_activeItemId,
               sn_items = or_else (Option.bind used ns_items) (Some (length (run_history current))),
               sn_turns = Option.bind used ns_turns,
               sn_lastCompletedTurnId = Option.bind used ns_lastCompletedTurnId,
               sn_headSha = observed_head current d,
               sn_evidence =
                 Some (list_or_empty (Option.bind used ns_evidence) @ head_evidence current d)\<rparr>,
            wi_observedAt = or_now d\<rparr>)"

section \<open>The native thread\<close>

datatype thread_status = Thread_active | Thread_idle | Thread_not_loaded | Thread_system_error

record native_thread_observation =
  nt_status :: thread_status
  nt_activeTurnId :: "string option"
  nt_turnCount :: "nat option"
  nt_lastCompletedTurnId :: "string option"
  nt_history :: "(string \<times> string) list"

definition native_status :: "thread_status \<Rightarrow> string option \<Rightarrow> wait_status" where
  "native_status s active_turn =
     (if s = Thread_active \<or> active_turn \<noteq> None then Subject_active
      else if s = Thread_idle then Subject_idle
      else if s = Thread_not_loaded then Subject_unknown
      else Subject_unavailable)"

definition thread_evidence :: "native_thread_observation \<Rightarrow> wait_evidence list" where
  "thread_evidence t =
     map (\<lambda>(i, ty). evidence Ev_item_completed (take 120 (ty @ '':'' @ i))) (nt_history t) @
     (case nt_activeTurnId t of None \<Rightarrow> [] | Some a \<Rightarrow> [evidence Ev_turn_started (take 120 a)]) @
     (case nt_lastCompletedTurnId t of
        None \<Rightarrow> [] | Some a \<Rightarrow> [evidence Ev_turn_completed (take 120 (''completed turn '' @ a))])"

definition thread_snapshot :: "native_thread_observation \<Rightarrow> native_wait_snapshot" where
  "thread_snapshot t =
     \<lparr>ns_status = native_status (nt_status t) (nt_activeTurnId t),
      ns_activeItemId = nt_activeTurnId t, ns_items = None,
      ns_turns = or_else (nt_turnCount t) (Some (length (nt_history t))),
      ns_lastCompletedTurnId = nt_lastCompletedTurnId t,
      ns_evidence = Some (thread_evidence t)\<rparr>"

section \<open>The wake of a timeout\<close>

definition record_wake ::
  "wait_host \<Rightarrow> wait_ledger \<Rightarrow> wait_observation \<Rightarrow> string \<Rightarrow> wait_wake_decision \<Rightarrow> wait_advance" where
  "record_wake h l x at decision =
     (let d = wait_observation_digest h x;
          wakes = wd_shouldWake decision \<and> \<not> already_surfaced l d
      in \<lparr>av_ledger =
            l\<lparr>wl_wakes :=
                (if wakes then wl_wakes l @ [wake_record h l x at decision] else wl_wakes l),
              wl_surfacedDigests :=
                (if wakes then surface_digest l d else wl_surfacedDigests l)\<rparr>,
          av_change = no_change,
          av_wake = (if wakes then decision else no_wake),
          av_duplicate = False, av_wokeNow = wakes, av_previousNative = None,
          av_observationEventId = wake_id l (wo_subjectId x) d decision\<rparr>)"

definition deadline_decision ::
  "wait_wake_policy \<Rightarrow> wait_ledger \<Rightarrow> wait_observation \<Rightarrow> wait_wake_decision" where
  "deadline_decision p l x =
     decide_wait_wake
       \<lparr>wk_change = no_change, wk_observation = x, wk_timedOut = Some True, wk_policy = Some p,
        wk_terminalReached = Some (wl_terminalReached l)\<rparr>"

section \<open>The loop\<close>

record wait_options =
  wt_policy :: wait_wake_policy
  wt_expectedOwnerRunId :: "string option"
  wt_expectedGeneration :: "string option"

record wait_round =
  rd_observation :: "wait_observation option"
  rd_aborted :: bool
  rd_now :: int

record await_outcome =
  ao_observation :: wait_observation
  ao_change :: wait_change
  ao_wake :: wait_wake_decision
  ao_ledger :: wait_ledger
  ao_observationCount :: nat
  ao_duplicateObservations :: nat
  ao_timedOut :: bool
  ao_idle :: bool

record await_state =
  as_ledger :: wait_ledger
  as_count :: nat
  as_duplicates :: nat
  as_persisted :: "wait_ledger list"

datatype await_error = Observer_failed | Ledger_refused wait_error

datatype await_result =
    Await_failed await_error await_state
  | Await_returned await_outcome await_state
  | Await_waiting await_state

definition round_input :: "wait_options \<Rightarrow> wait_observation \<Rightarrow> wait_advance_input" where
  "round_input p x =
     \<lparr>wa_observation = x, wa_at = wo_observedAt x, wa_policy = Some (wt_policy p),
      wa_timedOut = None, wa_expectedOwnerRunId = wt_expectedOwnerRunId p,
      wa_expectedGeneration = wt_expectedGeneration p\<rparr>"

definition after_advance :: "await_state \<Rightarrow> wait_advance \<Rightarrow> await_state" where
  "after_advance s v =
     (let l = bound_wait_ledger (av_ledger v) in
      \<lparr>as_ledger = l, as_count = as_count s + 1,
       as_duplicates = (if av_duplicate v then as_duplicates s + 1 else as_duplicates s),
       as_persisted = (if av_duplicate v then as_persisted s else as_persisted s @ [l])\<rparr>)"

definition is_boundary_kind :: "wait_change_kind \<Rightarrow> bool" where
  "is_boundary_kind k \<longleftrightarrow> k \<noteq> Change_none \<and> k \<noteq> Change_progress"

definition outcome ::
  "wait_observation \<Rightarrow> wait_change \<Rightarrow> wait_wake_decision \<Rightarrow> wait_ledger \<Rightarrow> await_state \<Rightarrow>
   bool \<Rightarrow> bool \<Rightarrow> await_outcome" where
  "outcome x c w l s timed_out idle =
     \<lparr>ao_observation = x, ao_change = c, ao_wake = w, ao_ledger = l,
      ao_observationCount = as_count s, ao_duplicateObservations = as_duplicates s,
      ao_timedOut = timed_out, ao_idle = idle\<rparr>"

text \<open>What the body of the loop does once the ledger has advanced to \<open>s\<close>.\<close>

definition settle_round ::
  "wait_host \<Rightarrow> wait_options \<Rightarrow> int \<Rightarrow> wait_round \<Rightarrow> wait_observation \<Rightarrow> wait_advance \<Rightarrow>
   await_state \<Rightarrow> await_result" where
  "settle_round h p deadline r x v s =
     (let l = as_ledger s in
      if is_boundary_kind (wc_kind (av_change v))
      then Await_returned (outcome x (av_change v) (av_wake v) l s False False) s
      else if rd_aborted r
      then Await_returned (outcome x (av_change v) no_wake l s False True) s
      else if deadline - rd_now r \<le> 0
      then (let w = record_wake h l x (wo_observedAt x) (deadline_decision (wt_policy p) l x) in
            Await_returned
              (outcome x (av_change v) (av_wake w) (av_ledger w) s True
                 (\<not> wd_shouldWake (av_wake w))) s)
      else Await_waiting s)"

definition await_round ::
  "wait_host \<Rightarrow> wait_options \<Rightarrow> int \<Rightarrow> await_state \<Rightarrow> wait_round \<Rightarrow> await_result" where
  "await_round h p deadline s r =
     (case rd_observation r of
        None \<Rightarrow> Await_failed Observer_failed s
      | Some x \<Rightarrow>
          (case advance_wait_ledger h (as_ledger s) (round_input p x) of
             Inl e \<Rightarrow> Await_failed (Ledger_refused e) s
           | Inr v \<Rightarrow> settle_round h p deadline r x v (after_advance s v)))"

fun await_loop ::
  "wait_host \<Rightarrow> wait_options \<Rightarrow> int \<Rightarrow> await_state \<Rightarrow> wait_round list \<Rightarrow> await_result" where
  "await_loop h p deadline s [] = Await_waiting s"
| "await_loop h p deadline s (r # rs) =
     (case await_round h p deadline s r of
        Await_waiting t \<Rightarrow> await_loop h p deadline t rs
      | result \<Rightarrow> result)"

definition deadline_at :: "wait_options \<Rightarrow> int \<Rightarrow> int" where
  "deadline_at p now = now + max 0 (wp_timeoutMs (wt_policy p))"

text \<open>\<open>now\<close> is the clock when the wait starts; the rounds are what it then meets.\<close>

definition await_meaningful_change ::
  "wait_host \<Rightarrow> wait_options \<Rightarrow> wait_ledger \<Rightarrow> int \<Rightarrow> wait_round list \<Rightarrow> await_result" where
  "await_meaningful_change h p l now rs =
     await_loop h p (deadline_at p now)
       \<lparr>as_ledger = l, as_count = 0, as_duplicates = 0, as_persisted = []\<rparr> rs"

section \<open>One observation\<close>

definition observe_wait_state ::
  "wait_host \<Rightarrow> wait_ledger option \<Rightarrow> wait_advance_input \<Rightarrow> wait_error + wait_advance" where
  "observe_wait_state h l i =
     advance_wait_ledger h
       (case l of
          Some k \<Rightarrow> k
        | None \<Rightarrow>
            create_wait_ledger (wo_subjectId (wa_observation i))
              (case wa_expectedOwnerRunId i of
                 None \<Rightarrow> wo_subjectId (wa_observation i) | Some o' \<Rightarrow> o')
              (case wa_expectedGeneration i of None \<Rightarrow> ''unspecified'' | Some g \<Rightarrow> g)) i"

section \<open>The ledger as a machine\<close>

text \<open>
  Everything that happens to one ledger: an observation, the same at the deadline of a
  bounded wait, the delivery of wakes, and a restart, which reads back what was written.
\<close>

datatype ledger_event =
    Observe wait_advance_input
  | Expire wait_options wait_observation
  | Deliver "string list"
  | Restart

definition expire_ledger ::
  "wait_host \<Rightarrow> wait_ledger \<Rightarrow> wait_options \<Rightarrow> wait_observation \<Rightarrow> wait_error + wait_advance" where
  "expire_ledger h l p x =
     (case advance_wait_ledger h l (round_input p x) of
        Inl e \<Rightarrow> Inl e
      | Inr v \<Rightarrow>
          (let k = bound_wait_ledger (av_ledger v) in
           if is_boundary_kind (wc_kind (av_change v)) then Inr (v\<lparr>av_ledger := k\<rparr>)
           else Inr (record_wake h k x (wo_observedAt x) (deadline_decision (wt_policy p) k x))))"

definition read_back :: "wait_ledger \<Rightarrow> wait_ledger" where
  "read_back l = migrate_wait_ledger (stored (bound_wait_ledger l))"

fun wait_step :: "wait_host \<Rightarrow> wait_ledger \<Rightarrow> ledger_event \<Rightarrow> wait_error + wait_ledger" where
  "wait_step h l (Observe i) = map_sum id av_ledger (advance_wait_ledger h l i)"
| "wait_step h l (Expire p x) = map_sum id av_ledger (expire_ledger h l p x)"
| "wait_step h l (Deliver ids) = Inr (mark_wait_wakes_delivered l ids)"
| "wait_step h l Restart = Inr (read_back l)"

end
