(* ===== verification/Wait_Properties.thy ===== *)
theory Wait_Properties
  imports Wait_Runtime
begin

text \<open>
  What holds of every wait ledger the program can reach: the invariant of the ledger, its
  preservation by every operation, and the properties of the wait that rest on it.
\<close>

section \<open>The invariant\<close>

definition recorded_ok :: "wait_host \<Rightarrow> wait_ledger \<Rightarrow> wait_recorded_observation \<Rightarrow> bool" where
  "recorded_ok h l r \<longleftrightarrow>
     ro_observationDigest r = wh_state_digest h (ro_state r) \<and>
     ro_subjectId r = wl_subjectId l \<and>
     ws_source (ro_state r) = ro_source r \<and> ws_subjectId (ro_state r) = ro_subjectId r \<and>
     ws_status (ro_state r) = ro_status r"

definition surfaced :: "wait_ledger \<Rightarrow> string set" where
  "surfaced l =
     set (terminal_digests l) \<union> set (wl_surfacedDigests l) \<union>
     rw_observationDigest ` set (wl_wakes l)"

definition records_ok :: "wait_host \<Rightarrow> wait_ledger \<Rightarrow> bool" where
  "records_ok h l \<longleftrightarrow>
     (\<forall>r \<in> set (wl_observations l). recorded_ok h l r) \<and>
     wl_lastDigest l = map_option ro_observationDigest (last_recorded l)"

text \<open>A native record on file is remembered in the fields that outlive the bounded history.\<close>

definition native_remembered :: "wait_ledger \<Rightarrow> wait_recorded_observation \<Rightarrow> bool" where
  "native_remembered l r \<longleftrightarrow>
     (ro_source r = Src_native \<longrightarrow> wl_lastNativeStatus l \<noteq> None) \<and>
     (ro_source r = Src_native \<and> ws_lastCompletedTurnId (ro_state r) \<noteq> None \<longrightarrow>
        wl_lastNativeIdentity l \<noteq> None)"

definition native_ok :: "wait_ledger \<Rightarrow> bool" where
  "native_ok l \<longleftrightarrow>
     (\<forall>r. last_recorded l = Some r \<and> ro_source r = Src_native \<longrightarrow>
        wl_lastNativeStatus l = Some (ro_status r)) \<and>
     (wl_lastNativeStatus l \<noteq> None \<longrightarrow> wl_observations l \<noteq> []) \<and>
     (\<forall>r \<in> set (wl_observations l). native_remembered l r)"

definition wakes_ok :: "wait_ledger \<Rightarrow> bool" where
  "wakes_ok l \<longleftrightarrow>
     distinct (map rw_observationDigest (wl_wakes l)) \<and>
     (\<forall>w \<in> set (wl_wakes l). is_absorbing_wait_status (rw_status w) \<longrightarrow> wl_terminalReached l) \<and>
     (wl_terminalReached l \<longrightarrow> wl_wakes l \<noteq> [] \<and> is_absorbing_wake (last (wl_wakes l)))"

definition terminal_ok :: "wait_host \<Rightarrow> wait_ledger \<Rightarrow> bool" where
  "terminal_ok h l \<longleftrightarrow>
     (\<forall>s. wh_state_digest h s \<in> surfaced l \<and> is_absorbing_wait_status (ws_status s) \<longrightarrow>
        wl_terminalReached l) \<and>
     (\<forall>r \<in> set (wl_observations l). is_absorbing_wait_status (ro_status r) \<longrightarrow>
        wl_terminalReached l)"

definition wait_ledger_ok :: "wait_host \<Rightarrow> wait_ledger \<Rightarrow> bool" where
  "wait_ledger_ok h l \<longleftrightarrow> records_ok h l \<and> native_ok l \<and> wakes_ok l \<and> terminal_ok h l"

lemmas ledger_ok_defs =
  wait_ledger_ok_def records_ok_def native_ok_def wakes_ok_def terminal_ok_def

lemma already_surfaced_iff:
  "already_surfaced l d \<longleftrightarrow> wl_terminalReached l \<or> d \<in> surfaced l"
  by (auto simp: already_surfaced_def surfaced_def)

lemma create_ok: "wait_ledger_ok h (create_wait_ledger s ow g)"
  by (simp add: ledger_ok_defs create_wait_ledger_def last_recorded_def surfaced_def
      terminal_digests_def)

section \<open>Frames\<close>

lemma advance_okD:
  assumes "advance_wait_ledger h l i = Inr v"
  shows "wait_fence l i = None" "av_ledger v = next_ledger h l i"
    "av_change v = ledger_change h l (wa_observation i)"
    "av_wake v = (if wakes_now h l i then ledger_decision h l i else no_wake)"
    "av_duplicate v = is_duplicate h l (wa_observation i)"
    "av_wokeNow v = wakes_now h l i"
  using assms by (auto simp: advance_wait_ledger_def Let_def split: option.splits)

lemma next_ledger_sel [simp]:
  "wl_subjectId (next_ledger h l i) = wl_subjectId l"
  "wl_ownerRunId (next_ledger h l i) = wl_ownerRunId l"
  "wl_generation (next_ledger h l i) = wl_generation l"
  "wl_deliveredWakeIds (next_ledger h l i) = wl_deliveredWakeIds l"
  "wl_lastDigest (next_ledger h l i) = Some (wait_observation_digest h (wa_observation i))"
  "wl_lastObservedAt (next_ledger h l i) = Some (wa_at i)"
  "wl_observationSequence (next_ledger h l i) = Suc (wl_observationSequence l)"
  by (simp_all add: next_ledger_def advance_history_def advance_native_def advance_wakes_def Let_def)

lemma next_observations:
  "wl_observations (next_ledger h l i) =
     (if is_duplicate h l (wa_observation i) then wl_observations l
      else wl_observations l @ [observation_record h l (wa_observation i) (wa_at i)])"
  by (simp add: next_ledger_def advance_history_def advance_native_def advance_wakes_def Let_def)

lemma next_native:
  "wl_lastNativeStatus (next_ledger h l i) =
     (if wo_source (wa_observation i) = Src_native then Some (wo_status (wa_observation i))
      else wl_lastNativeStatus l)"
  by (simp add: next_ledger_def advance_history_def advance_native_def advance_wakes_def Let_def)

lemma next_nativeIdentity:
  "wl_lastNativeIdentity (next_ledger h l i) =
     (if wo_source (wa_observation i) = Src_native
      then or_else (wo_lastCompletedTurnId (wa_observation i)) (wl_lastNativeIdentity l)
      else wl_lastNativeIdentity l)"
  by (simp add: next_ledger_def advance_history_def advance_native_def advance_wakes_def Let_def)

lemma next_wakes:
  "wl_wakes (next_ledger h l i) =
     (if wakes_now h l i
      then wl_wakes l @ [wake_record h l (wa_observation i) (wa_at i) (ledger_decision h l i)]
      else wl_wakes l)"
  by (simp add: next_ledger_def advance_history_def advance_native_def advance_wakes_def Let_def)

lemma next_terminalReached:
  "wl_terminalReached (next_ledger h l i) \<longleftrightarrow>
     wl_terminalReached l \<or>
     (\<not> is_duplicate h l (wa_observation i) \<and>
      is_absorbing_wait_status (wo_status (wa_observation i)))"
  by (simp add: next_ledger_def advance_history_def advance_native_def advance_wakes_def Let_def)

lemma next_surfacedDigests:
  "wl_surfacedDigests (next_ledger h l i) =
     (if wakes_now h l i then surface_digest l (wait_observation_digest h (wa_observation i))
      else wl_surfacedDigests l)"
  by (simp add: next_ledger_def advance_history_def advance_native_def advance_wakes_def Let_def)

lemma next_terminal_digests:
  "set (terminal_digests (next_ledger h l i)) \<subseteq>
     insert (wait_observation_digest h (wa_observation i)) (set (terminal_digests l))"
  by (auto simp: next_ledger_def advance_history_def advance_native_def advance_wakes_def Let_def
      terminal_digests_def)

lemma set_surface_digest: "set (surface_digest l d) \<subseteq> insert d (set (wl_surfacedDigests l))"
  using set_slice_last[of MAX_SURFACED_DIGESTS "wl_surfacedDigests l @ [d]"]
  by (auto simp: surface_digest_def)

lemma wake_record_sel [simp]:
  "rw_observationDigest (wake_record h l x at w) = wait_observation_digest h x"
  "rw_status (wake_record h l x at w) = wo_status x"
  "rw_reason (wake_record h l x at w) =
     (case wd_reason w of None \<Rightarrow> Wake_terminal | Some r \<Rightarrow> r)"
  by (simp_all add: wake_record_def Let_def)

lemma next_surfaced:
  "surfaced (next_ledger h l i) \<subseteq>
     insert (wait_observation_digest h (wa_observation i)) (surfaced l)"
  using next_terminal_digests[of h l i]
    set_surface_digest[of l "wait_observation_digest h (wa_observation i)"]
  by (auto simp: surfaced_def next_wakes next_surfacedDigests)

lemma recorded_state:
  "recorded_ok h l r \<Longrightarrow> wait_observation_state (recorded_observation r) = ro_state r"
  by (auto simp: recorded_ok_def recorded_observation_def wait_observation_state_def)

lemma recorded_observation_sel [simp]:
  "wo_status (recorded_observation r) = ro_status r"
  "wo_source (recorded_observation r) = ro_source r"
  "wo_subjectId (recorded_observation r) = ro_subjectId r"
  by (simp_all add: recorded_observation_def)

lemma observation_record_ok:
  assumes "wo_subjectId x = wl_subjectId l"
  shows "recorded_ok h l (observation_record h l x at)"
  using assms
  by (simp add: recorded_ok_def observation_record_def wait_observation_digest_def)

lemma fence_subject: "wait_fence l i = None \<Longrightarrow> wo_subjectId (wa_observation i) = wl_subjectId l"
  by (simp add: wait_fence_def first_error_None_iff)

section \<open>Classification\<close>

lemma terminal_change_absorbing:
  "is_absorbing_wait_status (wo_status n) \<Longrightarrow>
     \<exists>c. terminal_change n = Some c \<and> wc_meaningful c \<and> wake_reason_for_change c \<noteq> None"
  by (auto simp: is_absorbing_wait_status_def terminal_change.simps wake_reason_for_change.simps)

lemma wake_reason_kind:
  "wake_reason_for_change c \<noteq> None \<longleftrightarrow>
     wc_kind c \<in> {Change_completion, Change_failure, Change_blocked}"
  by (simp add: wake_reason_for_change.simps split: wait_change_kind.splits)

lemma change_wake_None:
  "change_wake c = None \<longleftrightarrow> \<not> wc_meaningful c \<or> wake_reason_for_change c = None"
  by (auto simp: change_wake_def)

lemma change_wake_SomeD:
  assumes "change_wake c = Some w"
  shows "wd_shouldWake w" "wd_reason w = wake_reason_for_change c" "wd_evidence w = wc_evidence c"
    "wc_meaningful c"
  using assms by (auto simp: change_wake_def split: if_splits)

lemma wake_reason_terminal:
  "wake_reason_for_change c = Some r \<Longrightarrow> is_terminal_reason r"
  by (auto simp: wake_reason_for_change.simps is_terminal_reason_def
      split: wait_change_kind.splits)

lemma decide_change:
  "change_wake (wk_change i) = Some w \<Longrightarrow> decide_wait_wake i = w"
  by (simp add: decide_wait_wake_def Let_def)

lemma decide_terminal_reached:
  assumes "change_wake (wk_change i) = None" and "wk_terminalReached i = Some True"
  shows "decide_wait_wake i = no_wake"
  using assms by (simp add: decide_wait_wake_def timeout_wakes_def Let_def)

text \<open>A change of normalized state into an absorbing status is always a decision.\<close>

lemma later_change_absorbing:
  assumes "wo_subjectId p = wo_subjectId n"
    and "wait_observation_digest h p \<noteq> wait_observation_digest h n"
    and "is_absorbing_wait_status (wo_status n)" and "wo_status n \<noteq> wo_status p"
  shows "\<exists>w. change_wake (later_change h b nb p n) = Some w"
proof -
  obtain c where c: "terminal_change n = Some c" "wc_meaningful c" "wake_reason_for_change c \<noteq> None"
    using terminal_change_absorbing[OF assms(3)] by blast
  have "\<not> native_idle n"
    using assms(3) by (auto simp: native_idle_def is_absorbing_wait_status_def)
  with assms c(1) have "later_change h b nb p n = c"
    by (simp add: later_change_def status_change_def)
  with c show ?thesis by (simp add: change_wake_def)
qed

lemma first_change_absorbing:
  assumes "is_absorbing_wait_status (wo_status n)"
  shows "\<exists>w. change_wake (first_change n) = Some w"
  using terminal_change_absorbing[OF assms] by (auto simp: first_change_def change_wake_def)

lemma not_duplicate_digest:
  assumes "records_ok h l" and "\<not> is_duplicate h l x" and "last_recorded l = Some r"
  shows "wait_observation_digest h (recorded_observation r) \<noteq> wait_observation_digest h x"
proof -
  from assms(1,3) have "recorded_ok h l r"
    by (auto simp: records_ok_def last_recorded_def split: if_splits)
  with assms show ?thesis
    by (auto simp: records_ok_def is_duplicate_def wait_observation_digest_def recorded_state
        recorded_ok_def)
qed

lemma last_recorded_in: "last_recorded l = Some r \<Longrightarrow> r \<in> set (wl_observations l)"
  by (auto simp: last_recorded_def split: if_splits)

lemma change_into_absorbing:
  assumes ok: "wait_ledger_ok h l" and fresh: "\<not> wl_terminalReached l"
    and dup: "\<not> is_duplicate h l x" and abs: "is_absorbing_wait_status (wo_status x)"
    and subj: "wo_subjectId x = wl_subjectId l"
  shows "\<exists>w. change_wake (ledger_change h l x) = Some w"
proof (cases "last_recorded l")
  case None
  with dup first_change_absorbing[OF abs] show ?thesis
    by (simp add: ledger_change_def previous_observation_def classify_wait_change_def)
next
  case (Some r)
  from ok have rec: "records_ok h l" and tok: "terminal_ok h l"
    by (simp_all add: wait_ledger_ok_def)
  from rec last_recorded_in[OF Some] have rs: "ro_subjectId r = wl_subjectId l"
    by (auto simp: records_ok_def recorded_ok_def)
  from tok fresh last_recorded_in[OF Some] have "\<not> is_absorbing_wait_status (ro_status r)"
    by (auto simp: terminal_ok_def)
  with abs have ne: "wo_status x \<noteq> wo_status (recorded_observation r)" by auto
  from later_change_absorbing[OF _ not_duplicate_digest[OF rec dup Some] abs ne] rs subj dup Some
  show ?thesis
    by (simp add: ledger_change_def previous_observation_def classify_wait_change_def)
qed

section \<open>The invariant is kept\<close>

lemma next_records_ok:
  assumes ok: "records_ok h l" and subj: "wo_subjectId (wa_observation i) = wl_subjectId l"
  shows "records_ok h (next_ledger h l i)"
proof -
  let ?n = "next_ledger h l i"
  have fr: "recorded_ok h ?n = recorded_ok h l"
    by (simp add: recorded_ok_def fun_eq_iff)
  have "\<forall>r \<in> set (wl_observations ?n). recorded_ok h ?n r"
    using ok observation_record_ok[OF subj]
    unfolding fr by (simp add: records_ok_def next_observations)
  moreover have "wl_lastDigest ?n = map_option ro_observationDigest (last_recorded ?n)"
    using ok
    by (auto simp: records_ok_def last_recorded_def next_observations observation_record_def
        is_duplicate_def split: if_splits)
  ultimately show ?thesis by (simp add: records_ok_def)
qed

text \<open>A duplicate has, by injectivity, the state of the last record.\<close>

lemma duplicate_state:
  assumes "inj (wh_state_digest h)" and "records_ok h l" and "is_duplicate h l x"
  obtains r where "last_recorded l = Some r" "ro_state r = wait_observation_state x"
    "ro_status r = wo_status x" "ro_source r = wo_source x"
proof -
  from assms(2,3) obtain r where r: "last_recorded l = Some r"
    and d: "ro_observationDigest r = wait_observation_digest h x"
    by (auto simp: records_ok_def is_duplicate_def)
  from assms(2) last_recorded_in[OF r] have ok: "recorded_ok h l r" by (simp add: records_ok_def)
  with d have "wh_state_digest h (ro_state r) = wh_state_digest h (wait_observation_state x)"
    by (simp add: recorded_ok_def wait_observation_digest_def)
  with assms(1) have st: "ro_state r = wait_observation_state x" by (simp add: inj_eq)
  with ok have "ro_status r = wo_status x" "ro_source r = wo_source x"
    by (auto simp: recorded_ok_def)
  with r st show ?thesis by (rule that)
qed

lemma next_native_remembered:
  assumes "native_ok l" and "r \<in> set (wl_observations (next_ledger h l i))"
  shows "native_remembered (next_ledger h l i) r"
proof (cases "r \<in> set (wl_observations l)")
  case True
  with assms(1) have "native_remembered l r" by (simp add: native_ok_def)
  then show ?thesis
    by (simp add: native_remembered_def next_native next_nativeIdentity del: not_None_eq)
next
  case False
  with assms(2) have "r = observation_record h l (wa_observation i) (wa_at i)"
    by (simp add: next_observations split: if_splits)
  then show ?thesis
    by (simp add: native_remembered_def next_native next_nativeIdentity observation_record_def
        wait_observation_state_def)
qed

lemma next_native_ok:
  assumes inj: "inj (wh_state_digest h)" and rec: "records_ok h l" and ok: "native_ok l"
  shows "native_ok (next_ledger h l i)"
proof (cases "is_duplicate h l (wa_observation i)")
  case True
  from inj rec True obtain r where r: "last_recorded l = Some r"
    "ro_status r = wo_status (wa_observation i)" "ro_source r = wo_source (wa_observation i)"
    by (rule duplicate_state)
  from True have obs: "wl_observations (next_ledger h l i) = wl_observations l"
    by (simp add: next_observations)
  have ne: "wl_observations l \<noteq> []" using r(1) by (auto simp: last_recorded_def)
  have rem: "\<forall>r \<in> set (wl_observations (next_ledger h l i)). native_remembered (next_ledger h l i) r"
    using next_native_remembered[OF ok] by blast
  have last: "last_recorded (next_ledger h l i) = Some r"
    using r(1) by (simp add: last_recorded_def obs split: if_splits)
  show ?thesis
    unfolding native_ok_def last using rem ok r ne
    by (simp add: obs next_native native_ok_def)
next
  case False
  then have last: "last_recorded (next_ledger h l i) =
      Some (observation_record h l (wa_observation i) (wa_at i))"
    and ne: "wl_observations (next_ledger h l i) \<noteq> []"
    by (simp_all add: last_recorded_def next_observations)
  show ?thesis
    unfolding native_ok_def last next_native
    using ne next_native_remembered[OF ok] by (simp add: observation_record_def)
qed

lemma terminal_duplicate:
  assumes inj: "inj (wh_state_digest h)" and ok: "wait_ledger_ok h l"
    and "is_duplicate h l x" and "is_absorbing_wait_status (wo_status x)"
  shows "wl_terminalReached l"
proof -
  from ok have rec: "records_ok h l" and tok: "terminal_ok h l"
    by (simp_all add: wait_ledger_ok_def)
  from inj rec assms(3) obtain r where "last_recorded l = Some r" "ro_status r = wo_status x"
    by (rule duplicate_state)
  with assms(4) have "r \<in> set (wl_observations l)" "is_absorbing_wait_status (ro_status r)"
    by (simp_all add: last_recorded_in)
  with tok show ?thesis by (auto simp: terminal_ok_def)
qed

lemma next_terminal_ok:
  assumes inj: "inj (wh_state_digest h)" and ok: "wait_ledger_ok h l"
  shows "terminal_ok h (next_ledger h l i)"
proof -
  let ?x = "wa_observation i" and ?n = "next_ledger h l i"
  from ok have tok: "terminal_ok h l" by (simp add: wait_ledger_ok_def)
  have mono: "wl_terminalReached l \<Longrightarrow> wl_terminalReached ?n" by (simp add: next_terminalReached)
  have new: "is_absorbing_wait_status (wo_status ?x) \<Longrightarrow> wl_terminalReached ?n"
    using terminal_duplicate[OF inj ok] by (auto simp: next_terminalReached)
  have "wl_terminalReached ?n"
    if "wh_state_digest h s \<in> surfaced ?n" and s: "is_absorbing_wait_status (ws_status s)" for s
  proof (cases "wh_state_digest h s \<in> surfaced l")
    case True
    with tok s mono show ?thesis by (auto simp: terminal_ok_def)
  next
    case False
    with that(1) next_surfaced[of h l i] have "wh_state_digest h s = wait_observation_digest h ?x"
      by auto
    with inj have "s = wait_observation_state ?x"
      by (auto simp: wait_observation_digest_def dest: injD)
    with s new show ?thesis by simp
  qed
  moreover have "wl_terminalReached ?n"
    if "r \<in> set (wl_observations ?n)" and r: "is_absorbing_wait_status (ro_status r)" for r
    using that new mono tok
    by (auto simp: next_observations terminal_ok_def observation_record_def split: if_splits)
  ultimately show ?thesis by (auto simp: terminal_ok_def)
qed

lemma ledger_decision_change:
  "change_wake (ledger_change h l (wa_observation i)) = Some w \<Longrightarrow> ledger_decision h l i = w"
  by (simp add: ledger_decision_def decide_change)

lemma next_wakes_ok:
  assumes inj: "inj (wh_state_digest h)" and ok: "wait_ledger_ok h l"
    and subj: "wo_subjectId (wa_observation i) = wl_subjectId l"
  shows "wakes_ok (next_ledger h l i)"
proof -
  let ?x = "wa_observation i" and ?d = "wait_observation_digest h (wa_observation i)"
  from ok have wok: "wakes_ok l" and tok: "terminal_ok h l" by (simp_all add: wait_ledger_ok_def)
  show ?thesis
  proof (cases "wl_terminalReached l")
    case True
    then have "\<not> wakes_now h l i" by (simp add: wakes_now_def already_surfaced_def)
    with True wok show ?thesis by (simp add: wakes_ok_def next_wakes next_terminalReached)
  next
    case False
    show ?thesis
    proof (cases "is_absorbing_wait_status (wo_status ?x)")
      case True
      with terminal_duplicate[OF inj ok] False have dup: "\<not> is_duplicate h l ?x" by blast
      from change_into_absorbing[OF ok False dup True subj] obtain w
        where w: "change_wake (ledger_change h l ?x) = Some w" by blast
      note dec = ledger_decision_change[OF w] and W = change_wake_SomeD[OF w]
      obtain r where r: "wake_reason_for_change (ledger_change h l ?x) = Some r"
        using w by (auto simp: change_wake_def split: if_splits)
      from tok False True have "?d \<notin> surfaced l"
        by (auto simp: terminal_ok_def wait_observation_digest_def)
      with False dec W have now: "wakes_now h l i"
        by (simp add: wakes_now_def already_surfaced_iff)
      have "is_absorbing_wake (wake_record h l ?x (wa_at i) w)"
        using W r wake_reason_terminal[OF r] True
        by (simp add: is_absorbing_wake_def is_terminal_wake_def)
      with now dec wok dup True \<open>?d \<notin> surfaced l\<close> show ?thesis
        by (auto simp: wakes_ok_def next_wakes next_terminalReached surfaced_def)
    next
      case na: False
      with False have nt: "\<not> wl_terminalReached (next_ledger h l i)"
        by (simp add: next_terminalReached)
      show ?thesis
        using wok nt na False
        by (auto simp: wakes_ok_def next_wakes wakes_now_def already_surfaced_iff surfaced_def)
    qed
  qed
qed

lemma next_ledger_ok:
  assumes inj: "inj (wh_state_digest h)" and ok: "wait_ledger_ok h l"
    and subj: "wo_subjectId (wa_observation i) = wl_subjectId l"
  shows "wait_ledger_ok h (next_ledger h l i)"
  using ok next_records_ok[OF _ subj] next_native_ok[OF inj] next_wakes_ok[OF inj ok subj]
    next_terminal_ok[OF inj ok]
  by (simp add: wait_ledger_ok_def)

section \<open>Bounding, delivery and restart\<close>

lemma bound_sel [simp]:
  "wl_subjectId (bound_wait_ledger l) = wl_subjectId l"
  "wl_ownerRunId (bound_wait_ledger l) = wl_ownerRunId l"
  "wl_generation (bound_wait_ledger l) = wl_generation l"
  "wl_observations (bound_wait_ledger l) = slice_last MAX_WAIT_OBSERVATIONS (wl_observations l)"
  "wl_wakes (bound_wait_ledger l) = slice_last MAX_WAIT_WAKES (wl_wakes l)"
  "terminal_digests (bound_wait_ledger l) = slice_last MAX_TERMINAL_DIGESTS (terminal_digests l)"
  "wl_surfacedDigests (bound_wait_ledger l) =
     slice_last MAX_SURFACED_DIGESTS (wl_surfacedDigests l)"
  "wl_lastDigest (bound_wait_ledger l) = wl_lastDigest l"
  "wl_terminalReached (bound_wait_ledger l) = wl_terminalReached l"
  "wl_lastNativeIdentity (bound_wait_ledger l) = wl_lastNativeIdentity l"
  "wl_lastNativeStatus (bound_wait_ledger l) = wl_lastNativeStatus l"
  by (simp_all add: bound_wait_ledger_def terminal_digests_def)

lemmas max_defs = MAX_WAIT_OBSERVATIONS_def MAX_WAIT_WAKES_def MAX_TERMINAL_DIGESTS_def
  MAX_SURFACED_DIGESTS_def MAX_DELIVERED_WAKE_IDS_def

lemma last_recorded_bound [simp]: "last_recorded (bound_wait_ledger l) = last_recorded l"
  by (simp add: last_recorded_def last_slice_last max_defs)

lemma surfaced_bound: "surfaced (bound_wait_ledger l) \<subseteq> surfaced l"
  using set_slice_last[of MAX_TERMINAL_DIGESTS "terminal_digests l"]
    set_slice_last[of MAX_SURFACED_DIGESTS "wl_surfacedDigests l"]
    set_slice_last[of MAX_WAIT_WAKES "wl_wakes l"]
  by (auto simp: surfaced_def)

lemma bound_ok:
  assumes ok: "wait_ledger_ok h l"
  shows "wait_ledger_ok h (bound_wait_ledger l)"
proof -
  let ?b = "bound_wait_ledger l"
  have obs: "set (wl_observations ?b) \<subseteq> set (wl_observations l)"
    and wk: "set (wl_wakes ?b) \<subseteq> set (wl_wakes l)"
    by (simp_all add: set_slice_last)
  have "recorded_ok h ?b = recorded_ok h l" by (simp add: recorded_ok_def fun_eq_iff)
  with ok obs have "records_ok h ?b" by (auto simp: wait_ledger_ok_def records_ok_def)
  moreover have "native_remembered ?b = native_remembered l"
    by (simp add: native_remembered_def fun_eq_iff)
  with ok obs have "native_ok ?b"
    by (auto simp: wait_ledger_ok_def native_ok_def max_defs)
  moreover from ok wk have "wakes_ok ?b"
    unfolding wait_ledger_ok_def wakes_ok_def
    by (auto simp: distinct_slice_last slice_last_map[symmetric] last_slice_last max_defs)
  moreover from ok obs surfaced_bound[of l] have "terminal_ok h ?b"
    unfolding wait_ledger_ok_def terminal_ok_def by (simp add: subset_iff) blast
  ultimately show ?thesis by (simp add: wait_ledger_ok_def)
qed

text \<open>
  A restart of a reachable ledger is the bounded ledger with a larger set of terminal
  digests: nothing else migration computes differs from what the ledger already holds.
\<close>

lemma read_back_eq:
  assumes ok: "wait_ledger_ok h l"
  shows "read_back l =
    (bound_wait_ledger l)\<lparr>wl_terminalDigests :=
       Some (migrated_terminal_digests (stored (bound_wait_ledger l)))\<rparr>"
proof -
  let ?b = "bound_wait_ledger l"
  from bound_ok[OF ok] have nat: "native_ok ?b" and wok: "wakes_ok ?b"
    by (simp_all add: wait_ledger_ok_def)
  have rem: "native_remembered ?b r \<and> ro_source r = Src_native"
    if "stored_last_native (stored ?b) = Some r" for r
  proof -
    from that have "r \<in> set (wl_observations ?b) \<and> ro_source r = Src_native"
      using find_SomeD[of "\<lambda>r. ro_source r = Src_native" "rev (wl_observations ?b)" r]
      by (simp add: stored_last_native_def stored_def del: bound_sel)
    with nat show ?thesis by (simp add: native_ok_def del: bound_sel)
  qed
  have id: "or_else (wl_lastNativeIdentity ?b)
      (Option.bind (stored_last_native (stored ?b)) (\<lambda>r. ws_lastCompletedTurnId (ro_state r)))
      = wl_lastNativeIdentity ?b"
    using rem
    by (cases "wl_lastNativeIdentity ?b"; cases "stored_last_native (stored ?b)")
      (auto simp: native_remembered_def simp del: bound_sel)
  have st: "or_else (wl_lastNativeStatus ?b) (map_option ro_status (stored_last_native (stored ?b)))
      = wl_lastNativeStatus ?b"
    using rem
    by (cases "wl_lastNativeStatus ?b"; cases "stored_last_native (stored ?b)")
      (auto simp: native_remembered_def simp del: bound_sel)
  have "(\<exists>w \<in> set (wl_wakes ?b). is_absorbing_wake w) \<longleftrightarrow> wl_terminalReached ?b"
    using wok unfolding wakes_ok_def is_absorbing_wake_def by (meson last_in_set)
  with id st show ?thesis
    unfolding read_back_def migrate_wait_ledger_def
    by (simp add: stored_def del: bound_sel)
qed

lemma surfaced_read_back:
  assumes ok: "wait_ledger_ok h l"
  shows "surfaced (read_back l) = surfaced (bound_wait_ledger l)"
proof -
  have "set (migrated_terminal_digests (stored (bound_wait_ledger l))) \<subseteq> surfaced (bound_wait_ledger l)"
    and "set (terminal_digests (bound_wait_ledger l))
           \<subseteq> set (migrated_terminal_digests (stored (bound_wait_ledger l)))"
    by (auto simp: migrated_terminal_digests_def stored_def surfaced_def list_or_empty_def
        terminal_digests_def split: option.splits)
  then show ?thesis
    unfolding read_back_eq[OF ok]
    by (auto simp: surfaced_def terminal_digests_def)
qed

text \<open>The invariant does not depend on which trace of a surfaced state the ledger keeps.\<close>

lemma ok_terminal_digests:
  assumes "wait_ledger_ok h l" and "surfaced (l\<lparr>wl_terminalDigests := ds\<rparr>) = surfaced l"
  shows "wait_ledger_ok h (l\<lparr>wl_terminalDigests := ds\<rparr>)"
proof -
  have fr: "recorded_ok h (l\<lparr>wl_terminalDigests := ds\<rparr>) = recorded_ok h l"
    "native_remembered (l\<lparr>wl_terminalDigests := ds\<rparr>) = native_remembered l"
    "last_recorded (l\<lparr>wl_terminalDigests := ds\<rparr>) = last_recorded l"
    by (simp_all add: recorded_ok_def native_remembered_def last_recorded_def fun_eq_iff)
  from assms show ?thesis by (simp add: ledger_ok_defs fr)
qed

lemma read_back_ok: "wait_ledger_ok h l \<Longrightarrow> wait_ledger_ok h (read_back l)"
  using bound_ok surfaced_read_back read_back_eq ok_terminal_digests by metis

lemma deliver_sel [simp]:
  "wl_subjectId (mark_wait_wakes_delivered l ids) = wl_subjectId l"
  "wl_observations (mark_wait_wakes_delivered l ids) = wl_observations l"
  "wl_wakes (mark_wait_wakes_delivered l ids) = wl_wakes l"
  "terminal_digests (mark_wait_wakes_delivered l ids) = terminal_digests l"
  "wl_surfacedDigests (mark_wait_wakes_delivered l ids) = wl_surfacedDigests l"
  "wl_terminalReached (mark_wait_wakes_delivered l ids) = wl_terminalReached l"
  "wl_lastDigest (mark_wait_wakes_delivered l ids) = wl_lastDigest l"
  "wl_lastNativeStatus (mark_wait_wakes_delivered l ids) = wl_lastNativeStatus l"
  "wl_lastNativeIdentity (mark_wait_wakes_delivered l ids) = wl_lastNativeIdentity l"
  by (simp_all add: mark_wait_wakes_delivered_def terminal_digests_def)

lemma deliver_frame:
  "recorded_ok h (mark_wait_wakes_delivered l ids) = recorded_ok h l"
  "native_remembered (mark_wait_wakes_delivered l ids) = native_remembered l"
  "last_recorded (mark_wait_wakes_delivered l ids) = last_recorded l"
  "surfaced (mark_wait_wakes_delivered l ids) = surfaced l"
  by (simp_all add: recorded_ok_def native_remembered_def last_recorded_def surfaced_def fun_eq_iff)

lemma deliver_ok: "wait_ledger_ok h l \<Longrightarrow> wait_ledger_ok h (mark_wait_wakes_delivered l ids)"
  unfolding ledger_ok_defs deliver_frame deliver_sel .

lemma record_wake_sel:
  "av_ledger (record_wake h l x at d) =
     (if av_wokeNow (record_wake h l x at d)
      then l\<lparr>wl_wakes := wl_wakes l @ [wake_record h l x at d],
             wl_surfacedDigests := surface_digest l (wait_observation_digest h x)\<rparr>
      else l)"
  "av_wokeNow (record_wake h l x at d) \<longleftrightarrow>
     wd_shouldWake d \<and> \<not> already_surfaced l (wait_observation_digest h x)"
  "av_wake (record_wake h l x at d) =
     (if av_wokeNow (record_wake h l x at d) then d else no_wake)"
  by (simp_all add: record_wake_def Let_def)

lemma record_wake_ok:
  assumes ok: "wait_ledger_ok h l"
    and st: "is_absorbing_wait_status (wo_status x) \<Longrightarrow> wl_terminalReached l"
    and inj: "inj (wh_state_digest h)"
  shows "wait_ledger_ok h (av_ledger (record_wake h l x at d))"
proof (cases "av_wokeNow (record_wake h l x at d)")
  case True
  let ?r = "av_ledger (record_wake h l x at d)" and ?d = "wait_observation_digest h x"
  from True have nt: "\<not> wl_terminalReached l" and ns: "?d \<notin> surfaced l"
    by (simp_all add: record_wake_sel already_surfaced_iff)
  with st have na: "\<not> is_absorbing_wait_status (wo_status x)" by blast
  from True have r: "?r = l\<lparr>wl_wakes := wl_wakes l @ [wake_record h l x at d],
      wl_surfacedDigests := surface_digest l ?d\<rparr>"
    by (simp add: record_wake_sel(1))
  have fr: "recorded_ok h ?r = recorded_ok h l" "native_remembered ?r = native_remembered l"
    "last_recorded ?r = last_recorded l"
    by (simp_all add: r recorded_ok_def native_remembered_def last_recorded_def fun_eq_iff)
  have sur: "surfaced ?r \<subseteq> insert ?d (surfaced l)"
    using set_surface_digest[of l ?d] by (auto simp: r surfaced_def terminal_digests_def)
  have rec: "records_ok h ?r"
    unfolding records_ok_def fr using ok by (simp add: r wait_ledger_ok_def records_ok_def)
  have nat: "native_ok ?r"
    unfolding native_ok_def fr using ok by (simp add: r wait_ledger_ok_def native_ok_def)
  have wok: "wakes_ok ?r"
    using ok nt ns na unfolding wait_ledger_ok_def
    by (auto simp: r wakes_ok_def surfaced_def)
  have "\<not> is_absorbing_wait_status (ws_status s)" if "wh_state_digest h s \<in> surfaced ?r" for s
  proof (cases "wh_state_digest h s \<in> surfaced l")
    case False
    with that sur have "wh_state_digest h s = ?d" by auto
    with inj have "s = wait_observation_state x"
      by (auto simp: wait_observation_digest_def dest: injD)
    with na show ?thesis by simp
  qed (use ok nt in \<open>auto simp: wait_ledger_ok_def terminal_ok_def\<close>)
  with ok nt have "terminal_ok h ?r" by (auto simp: r wait_ledger_ok_def terminal_ok_def)
  with rec nat wok show ?thesis by (simp add: wait_ledger_ok_def)
next
  case False
  with ok show ?thesis by (subst record_wake_sel(1)) simp
qed

lemma advance_ok:
  assumes "inj (wh_state_digest h)" and "wait_ledger_ok h l" and "advance_wait_ledger h l i = Inr v"
  shows "wait_ledger_ok h (av_ledger v)"
    and "is_absorbing_wait_status (wo_status (wa_observation i)) \<Longrightarrow> wl_terminalReached (av_ledger v)"
  using next_ledger_ok[OF assms(1,2) fence_subject] advance_okD(1,2)[OF assms(3)]
    terminal_duplicate[OF assms(1,2)]
  by (auto simp: next_terminalReached)

lemma expire_ok:
  assumes "inj (wh_state_digest h)" and "wait_ledger_ok h l" and "expire_ledger h l p x = Inr v"
  shows "wait_ledger_ok h (av_ledger v)"
proof -
  from assms(3) obtain u where u: "advance_wait_ledger h l (round_input p x) = Inr u"
    by (auto simp: expire_ledger_def split: sum.splits)
  let ?k = "bound_wait_ledger (av_ledger u)"
  from advance_ok[OF assms(1,2) u] have k: "wait_ledger_ok h ?k"
    and t: "is_absorbing_wait_status (wo_status x) \<Longrightarrow> wl_terminalReached ?k"
    by (simp_all add: bound_ok round_input_def)
  show ?thesis
  proof (cases "is_boundary_kind (wc_kind (av_change u))")
    case True
    with assms(3) u have "av_ledger v = ?k" by (auto simp: expire_ledger_def Let_def)
    with k show ?thesis by simp
  next
    case False
    with assms(3) u have
      "v = record_wake h ?k x (wo_observedAt x) (deadline_decision (wt_policy p) ?k x)"
      by (auto simp: expire_ledger_def Let_def)
    with record_wake_ok[OF k t assms(1)] show ?thesis by simp
  qed
qed

text \<open>The ledger is a guarded machine: refused observations leave it, accepted ones keep it well formed.\<close>

lemma wait_step_ok:
  assumes "inj (wh_state_digest h)" and "wait_ledger_ok h l" and "wait_step h l e = Inr k"
  shows "wait_ledger_ok h k"
proof (cases e)
  case (Observe i)
  with assms(3) obtain v where "advance_wait_ledger h l i = Inr v" "k = av_ledger v"
    by (cases "advance_wait_ledger h l i") auto
  with advance_ok[OF assms(1,2)] show ?thesis by simp
next
  case (Expire p x)
  with assms(3) obtain v where "expire_ledger h l p x = Inr v" "k = av_ledger v"
    by (cases "expire_ledger h l p x") auto
  with expire_ok[OF assms(1,2)] show ?thesis by simp
qed (use assms(2,3) in \<open>auto simp: deliver_ok read_back_ok\<close>)

interpretation wait: guarded_machine "wait_step h"
  "\<lambda>l. inj (wh_state_digest h) \<and> wait_ledger_ok h l" for h
  by unfold_locales (blast intro: wait_step_ok)

lemma reachable_ok:
  assumes "inj (wh_state_digest h)" and "run_steps (wait_step h) (create_wait_ledger s ow g) es = Inr l"
  shows "wait_ledger_ok h l"
  using wait.run_ok[of h "create_wait_ledger s ow g" es l] assms create_ok by blast

end
