(* ===== verification/Wait_Guarantees.thy ===== *)
theory Wait_Guarantees
  imports Wait_Properties
begin

text \<open>
  What the wait promises: a decision wakes once, a progress report never does, a finished
  subject is not woken for again, a native completion is never lost, a restart changes no
  decision, and a bounded wait returns.
\<close>

section \<open>When an observation wakes\<close>

lemma terminal_change_meaningful: "terminal_change n = Some c \<Longrightarrow> wc_meaningful c"
  by (auto simp: terminal_change.simps split: wait_status.splits)

lemma first_change_meaningful: "first_change n = no_change \<or> wc_meaningful (first_change n)"
  by (cases "terminal_change n") (simp_all add: first_change_def terminal_change_meaningful)

lemma status_change_meaningful: "wc_meaningful (status_change p n)"
  by (cases "terminal_change n") (simp_all add: status_change_def terminal_change_meaningful)

lemma progress_change_meaningful:
  "progress_change h b p n = no_change \<or> wc_meaningful (progress_change h b p n)"
  by (simp add: progress_change_def counters_change_def item_change_def)

lemma later_change_meaningful:
  "later_change h b nb p n = no_change \<or> wc_meaningful (later_change h b nb p n)"
  using status_change_meaningful[of p n] progress_change_meaningful[of h b p n]
  by (simp add: later_change_def boundary_change_def unobserved_change_def head_change_def)

lemma ledger_change_meaningful:
  "ledger_change h l x = no_change \<or> wc_meaningful (ledger_change h l x)"
  using first_change_meaningful later_change_meaningful
  by (cases "previous_observation l (wo_subjectId x)")
    (simp_all add: ledger_change_def classify_wait_change_def)

lemma change_wake_boundary:
  "change_wake (ledger_change h l x) \<noteq> None \<longleftrightarrow> is_boundary_kind (wc_kind (ledger_change h l x))"
proof -
  let ?c = "ledger_change h l x"
  have "wake_reason_for_change ?c \<noteq> None \<longleftrightarrow> is_boundary_kind (wc_kind ?c)"
    by (cases "wc_kind ?c") (simp_all add: wake_reason_for_change.simps is_boundary_kind_def)
  moreover have "\<not> is_boundary_kind (wc_kind ?c)" if "\<not> wc_meaningful ?c"
    using ledger_change_meaningful[of h l x] that by (auto simp: is_boundary_kind_def)
  ultimately show ?thesis by (auto simp: change_wake_None)
qed

definition effective_policy :: "wait_advance_input \<Rightarrow> wait_wake_policy" where
  "effective_policy i = (case wa_policy i of None \<Rightarrow> DEFAULT_WAIT_WAKE_POLICY | Some p \<Rightarrow> p)"

lemma ledger_decision_cases:
  "ledger_decision h l i =
     (case change_wake (ledger_change h l (wa_observation i)) of
        Some w \<Rightarrow> w
      | None \<Rightarrow>
          if wa_timedOut i = Some True \<and> wp_onTimeout (effective_policy i) = Policy_action \<and>
             \<not> wl_terminalReached l
          then wake_for Wake_timeout_policy
                 (timeout_evidence (effective_policy i) (wa_observation i))
          else no_wake)"
  by (simp add: ledger_decision_def decide_wait_wake_def timeout_wakes_def effective_policy_def
      Let_def split: option.splits)

lemma decision_wakes_iff:
  "wd_shouldWake (ledger_decision h l i) \<longleftrightarrow>
     is_boundary_kind (wc_kind (ledger_change h l (wa_observation i))) \<or>
     (wa_timedOut i = Some True \<and> wp_onTimeout (effective_policy i) = Policy_action \<and>
      \<not> wl_terminalReached l)"
  using change_wake_boundary[of h l "wa_observation i"] change_wake_SomeD(1)
  by (auto simp: ledger_decision_cases split: option.splits)

text \<open>C36. When an observation wakes the model. An accepted observation records a wake exactly
  when it is a decision (a completion, failure or block, or a timeout that the policy
  turns into an action), the ledger has reached no terminal decision, after which nothing
  wakes, and this normalized state has not surfaced a decision before. Progress alone, and
  an unchanged state, never wake; the wake of a change carries its evidence.
\<close>

theorem wake_iff_fresh_decision:
  assumes "advance_wait_ledger h l i = Inr v"
  shows "(av_wokeNow v \<longleftrightarrow>
      (wc_kind (av_change v) \<in> {Change_completion, Change_failure, Change_blocked} \<or>
       (wa_timedOut i = Some True \<and> wp_onTimeout (effective_policy i) = Policy_action)) \<and>
      \<not> wl_terminalReached l \<and> wait_observation_digest h (wa_observation i) \<notin> surfaced l) \<and>
    (wd_shouldWake (av_wake v) \<longleftrightarrow> av_wokeNow v) \<and>
    (av_wokeNow v \<and> wc_kind (av_change v) \<notin> {Change_none, Change_progress} \<longrightarrow>
      wd_reason (av_wake v) = wake_reason_for_change (av_change v) \<and>
      wd_evidence (av_wake v) = wc_evidence (av_change v))"
proof (intro conjI impI)
  note D = advance_okD[OF assms]
  show "av_wokeNow v \<longleftrightarrow>
      (wc_kind (av_change v) \<in> {Change_completion, Change_failure, Change_blocked} \<or>
       (wa_timedOut i = Some True \<and> wp_onTimeout (effective_policy i) = Policy_action)) \<and>
      \<not> wl_terminalReached l \<and> wait_observation_digest h (wa_observation i) \<notin> surfaced l"
    unfolding D(6) wakes_now_def decision_wakes_iff D(3)
    by (cases "wc_kind (ledger_change h l (wa_observation i))")
      (auto simp: already_surfaced_iff is_boundary_kind_def)
  show "wd_shouldWake (av_wake v) \<longleftrightarrow> av_wokeNow v"
    by (simp add: D wakes_now_def)
  assume woke: "av_wokeNow v \<and> wc_kind (av_change v) \<notin> {Change_none, Change_progress}"
  then obtain w where w: "change_wake (ledger_change h l (wa_observation i)) = Some w"
    using change_wake_boundary[of h l "wa_observation i"] by (auto simp: D is_boundary_kind_def)
  with woke show "wd_reason (av_wake v) = wake_reason_for_change (av_change v)"
    "wd_evidence (av_wake v) = wc_evidence (av_change v)"
    using change_wake_SomeD[OF w] by (simp_all add: D ledger_decision_change)
qed

section \<open>The wakes of a history\<close>

definition woken :: "wait_host \<Rightarrow> wait_observation \<Rightarrow> wait_error + wait_advance \<Rightarrow> string list" where
  "woken h x a =
     (case a of Inl _ \<Rightarrow> []
      | Inr v \<Rightarrow> if av_wokeNow v then [wait_observation_digest h x] else [])"

fun event_wakes :: "wait_host \<Rightarrow> wait_ledger \<Rightarrow> ledger_event \<Rightarrow> string list" where
  "event_wakes h l (Observe i) = woken h (wa_observation i) (advance_wait_ledger h l i)"
| "event_wakes h l (Expire p x) = woken h x (expire_ledger h l p x)"
| "event_wakes h l (Deliver ids) = []"
| "event_wakes h l Restart = []"

text \<open>The states a history of events wakes for, up to the first refused event.\<close>

fun wake_trace :: "wait_host \<Rightarrow> wait_ledger \<Rightarrow> ledger_event list \<Rightarrow> string list" where
  "wake_trace h l [] = []"
| "wake_trace h l (e # es) =
     (case wait_step h l e of
        Inl _ \<Rightarrow> []
      | Inr k \<Rightarrow> event_wakes h l e @ wake_trace h k es)"

lemma expire_refused: "advance_wait_ledger h l (round_input p x) = Inl e \<Longrightarrow> expire_ledger h l p x = Inl e"
  by (simp add: expire_ledger_def)

lemma expire_boundary:
  assumes "advance_wait_ledger h l (round_input p x) = Inr u"
    and "is_boundary_kind (wc_kind (av_change u))"
  shows "expire_ledger h l p x = Inr (u\<lparr>av_ledger := bound_wait_ledger (av_ledger u)\<rparr>)"
  using assms by (simp add: expire_ledger_def Let_def)

lemma expire_quiet:
  assumes "advance_wait_ledger h l (round_input p x) = Inr u"
    and "\<not> is_boundary_kind (wc_kind (av_change u))"
  shows "expire_ledger h l p x =
      Inr (record_wake h (bound_wait_ledger (av_ledger u)) x (wo_observedAt x)
             (deadline_decision (wt_policy p) (bound_wait_ledger (av_ledger u)) x))"
    and "\<not> av_wokeNow u"
  using assms decision_wakes_iff[of h l "round_input p x"]
  by (simp_all add: expire_ledger_def Let_def advance_okD[OF assms(1)] wakes_now_def)
    (simp add: round_input_def)

lemma surfaced_after_wakes:
  assumes "wait_step h l e = Inr k"
    and "length (wl_surfacedDigests l) + length (event_wakes h l e) \<le> MAX_SURFACED_DIGESTS"
  shows "wl_surfacedDigests k = wl_surfacedDigests l @ event_wakes h l e"
    and "set (event_wakes h l e) \<inter> set (wl_surfacedDigests l) = {}"
    and "distinct (event_wakes h l e)"
proof -
  have adv: "wl_surfacedDigests (av_ledger v) =
      wl_surfacedDigests l @ woken h (wa_observation i) (Inr v) \<and>
      set (woken h (wa_observation i) (Inr v)) \<inter> set (wl_surfacedDigests l) = {}"
    if "advance_wait_ledger h l i = Inr v"
      and "length (wl_surfacedDigests l) + length (woken h (wa_observation i) (Inr v))
             \<le> MAX_SURFACED_DIGESTS" for i v
    using that(2)
    by (auto simp: advance_okD[OF that(1)] woken_def next_surfacedDigests surface_digest_def
        slice_last_id wakes_now_def already_surfaced_def)
  have rec: "wl_surfacedDigests (av_ledger (record_wake h b x at d)) =
      wl_surfacedDigests b @ woken h x (Inr (record_wake h b x at d)) \<and>
      set (woken h x (Inr (record_wake h b x at d))) \<inter> set (wl_surfacedDigests b) = {}"
    if "length (wl_surfacedDigests b) + length (woken h x (Inr (record_wake h b x at d)))
             \<le> MAX_SURFACED_DIGESTS" for b x "at" d
    using that
    by (auto simp: record_wake_sel woken_def surface_digest_def slice_last_id already_surfaced_def)
  have "wl_surfacedDigests k = wl_surfacedDigests l @ event_wakes h l e \<and>
     set (event_wakes h l e) \<inter> set (wl_surfacedDigests l) = {}"
  proof (cases e)
    case (Observe i)
    with assms(1) obtain v where "advance_wait_ledger h l i = Inr v" "k = av_ledger v"
      by (cases "advance_wait_ledger h l i") auto
    with adv assms(2) Observe show ?thesis by simp
  next
    case (Expire p x)
    with assms(1) obtain v where v: "expire_ledger h l p x = Inr v" "k = av_ledger v"
      by (cases "expire_ledger h l p x") auto
    then obtain u where u: "advance_wait_ledger h l (round_input p x) = Inr u"
      using expire_refused[of h l p x] by (cases "advance_wait_ledger h l (round_input p x)") auto
    have x: "wa_observation (round_input p x) = x" by (simp add: round_input_def)
    let ?b = "bound_wait_ledger (av_ledger u)"
    show ?thesis
    proof (cases "is_boundary_kind (wc_kind (av_change u))")
      case True
      note vv = expire_boundary[OF u True]
      then have w: "woken h x (Inr v) = woken h x (Inr u)" using v(1) by (simp add: woken_def)
      have "wl_surfacedDigests k = slice_last MAX_SURFACED_DIGESTS (wl_surfacedDigests (av_ledger u))"
        using v vv by (auto simp: wait_advance.splits)
      with assms(2) v(1) Expire adv[OF u] x w show ?thesis
        by (simp add: slice_last_id)
    next
      case False
      note vv = expire_quiet[OF u False]
      then have nw: "woken h x (Inr u) = []" by (simp add: woken_def)
      with adv[OF u] x assms(2)
      have sl: "wl_surfacedDigests (av_ledger u) = wl_surfacedDigests l" by simp
      with assms(2) have "wl_surfacedDigests ?b = wl_surfacedDigests l"
        by (simp add: slice_last_id)
      moreover have veq: "v = record_wake h ?b x (wo_observedAt x) (deadline_decision (wt_policy p) ?b x)"
        using vv(1) v(1) by simp
      ultimately show ?thesis
        using rec[of ?b x "wo_observedAt x" "deadline_decision (wt_policy p) ?b x", folded veq]
          assms(2) v Expire by (simp del: bound_sel)
    qed
  next
    case Restart
    with assms show ?thesis
      by (auto simp: read_back_def migrate_wait_ledger_def stored_def slice_last_id)
  qed (use assms in auto)
  then show "wl_surfacedDigests k = wl_surfacedDigests l @ event_wakes h l e"
    "set (event_wakes h l e) \<inter> set (wl_surfacedDigests l) = {}" by auto
  show "distinct (event_wakes h l e)"
    by (cases e) (auto simp: woken_def split: sum.splits)
qed

lemma wake_trace_distinct:
  assumes "distinct (wl_surfacedDigests l)"
    and "length (wl_surfacedDigests l) + length (wake_trace h l es) \<le> MAX_SURFACED_DIGESTS"
  shows "distinct (wl_surfacedDigests l @ wake_trace h l es)"
  using assms
proof (induction es arbitrary: l)
  case (Cons e es)
  show ?case
  proof (cases "wait_step h l e")
    case (Inr k)
    from Cons.prems(2) Inr
    have len: "length (wl_surfacedDigests l) + length (event_wakes h l e) \<le> MAX_SURFACED_DIGESTS"
      by simp
    note S = surfaced_after_wakes[OF Inr len]
    from Cons.IH[of k] Cons.prems S Inr show ?thesis by (simp add: Int_commute)
  qed (use Cons.prems in simp)
qed simp

text \<open>C33. One wake for one state. In any history of observations, deadlines, deliveries and
  restarts of a fresh ledger that wakes at most as often as the ledger remembers, no
  normalized state is woken for twice: a repeated read, a repeated timeout and a restart
  never repeat a decision.
\<close>

theorem one_wake_per_state:
  assumes "length (wake_trace h (create_wait_ledger subject owner generation) es) \<le> 500"
  shows "distinct (wake_trace h (create_wait_ledger subject owner generation) es)"
  using wake_trace_distinct[of "create_wait_ledger subject owner generation" h es] assms
  by (simp add: create_wait_ledger_def MAX_SURFACED_DIGESTS_def)

section \<open>A finished subject\<close>

lemma step_terminal:
  assumes ok: "wait_ledger_ok h l" and "wl_terminalReached l" and "wait_step h l e = Inr k"
  shows "wl_terminalReached k" and "event_wakes h l e = []"
proof -
  have adv: "wl_terminalReached (av_ledger v) \<and> \<not> av_wokeNow v"
    if "advance_wait_ledger h l i = Inr v" for i v
    using assms(2)
    by (simp add: advance_okD[OF that] next_terminalReached wakes_now_def already_surfaced_def)
  have ex: "wl_terminalReached (av_ledger v) \<and> \<not> av_wokeNow v"
    if v: "expire_ledger h l p x = Inr v" for p x v
  proof -
    obtain u where u: "advance_wait_ledger h l (round_input p x) = Inr u"
      using v expire_refused[of h l p x]
      by (cases "advance_wait_ledger h l (round_input p x)") auto
    show ?thesis
    proof (cases "is_boundary_kind (wc_kind (av_change u))")
      case True
      from expire_boundary[OF u True] v have "v = u\<lparr>av_ledger := bound_wait_ledger (av_ledger u)\<rparr>"
        by simp
      with adv[OF u] show ?thesis by simp
    next
      case False
      from adv[OF u] have "wl_terminalReached (bound_wait_ledger (av_ledger u))" by simp
      with expire_quiet(1)[OF u False] v show ?thesis
        by (auto simp: record_wake_sel already_surfaced_def)
    qed
  qed
  from assms(3) show "event_wakes h l e = []"
    using adv ex by (cases e) (auto simp: woken_def split: sum.splits)
  show "wl_terminalReached k"
  proof (cases e)
    case (Observe i)
    with assms(3) adv show ?thesis by (cases "advance_wait_ledger h l i") auto
  next
    case (Expire p x)
    with assms(3) ex show ?thesis by (cases "expire_ledger h l p x") auto
  qed (use assms read_back_eq[OF ok] in auto)
qed

lemma trace_terminal:
  assumes "inj (wh_state_digest h)" and "wait_ledger_ok h l" and "wl_terminalReached l"
  shows "wake_trace h l es = []"
  using assms(2,3)
proof (induction es arbitrary: l)
  case (Cons e es)
  show ?case
  proof (cases "wait_step h l e")
    case (Inr k)
    with Cons.IH[of k] wait_step_ok[OF assms(1) Cons.prems(1) Inr] step_terminal[OF Cons.prems Inr]
    show ?thesis by simp
  qed simp
qed simp

text \<open>A terminal transition wakes exactly once. Whatever happened to a ledger before, the
  first accepted observation of a completed or failed subject records a wake, a later one
  does not, and after it no observation, deadline, delivery or restart ever wakes for this
  subject again.
\<close>

theorem terminal_transition_wakes_once:
  assumes "inj (wh_state_digest h)"
    and "run_steps (wait_step h) (create_wait_ledger subject owner generation) es = Inr l"
    and "advance_wait_ledger h l i = Inr v"
    and "wo_status (wa_observation i) \<in> {Subject_completed, Subject_failed}"
  shows "(av_wokeNow v \<longleftrightarrow> \<not> wl_terminalReached l) \<and> wl_terminalReached (av_ledger v) \<and>
    wake_trace h (av_ledger v) fs = []"
proof (intro conjI)
  let ?x = "wa_observation i"
  note D = advance_okD[OF assms(3)]
  from assms(1,2) have ok: "wait_ledger_ok h l" by (rule reachable_ok)
  from assms(4) have abs: "is_absorbing_wait_status (wo_status ?x)"
    by (simp add: is_absorbing_wait_status_def)
  show t: "wl_terminalReached (av_ledger v)" by (rule advance_ok(2)[OF assms(1) ok assms(3) abs])
  show "wake_trace h (av_ledger v) fs = []"
    by (rule trace_terminal[OF assms(1) advance_ok(1)[OF assms(1) ok assms(3)] t])
  show "av_wokeNow v \<longleftrightarrow> \<not> wl_terminalReached l"
  proof (cases "wl_terminalReached l")
    case False
    with terminal_duplicate[OF assms(1) ok _ abs] have dup: "\<not> is_duplicate h l ?x" by blast
    obtain w where w: "change_wake (ledger_change h l ?x) = Some w"
      using change_into_absorbing[OF ok False dup abs fence_subject[OF D(1)]] by blast
    from ok False abs have "wait_observation_digest h ?x \<notin> surfaced l"
      by (auto simp: wait_ledger_ok_def terminal_ok_def wait_observation_digest_def)
    with False ledger_decision_change[OF w] change_wake_SomeD(1)[OF w] show ?thesis
      by (simp add: D wakes_now_def already_surfaced_iff)
  qed (simp add: D wakes_now_def already_surfaced_def)
qed

section \<open>Native completions\<close>

fun event_observation :: "ledger_event \<Rightarrow> wait_observation option" where
  "event_observation (Observe i) = Some (wa_observation i)"
| "event_observation (Expire p x) = Some x"
| "event_observation (Deliver ids) = None"
| "event_observation Restart = None"

text \<open>An event that is not a read of native provenance.\<close>

definition not_native :: "ledger_event \<Rightarrow> bool" where
  "not_native e \<longleftrightarrow> absent_or (\<lambda>x. wo_source x \<noteq> Src_native) (event_observation e)"

lemma step_native_status:
  assumes "wait_ledger_ok h l" and "wait_step h l e = Inr k" and "not_native e"
  shows "wl_lastNativeStatus k = wl_lastNativeStatus l"
proof (cases e)
  case (Observe i)
  with assms(2) obtain v where "advance_wait_ledger h l i = Inr v" "k = av_ledger v"
    by (cases "advance_wait_ledger h l i") auto
  with Observe assms(3) show ?thesis
    using advance_okD(2)[of h l i v] by (simp add: next_native not_native_def)
next
  case (Expire p x)
  with assms(2) obtain v where v: "expire_ledger h l p x = Inr v" "k = av_ledger v"
    by (cases "expire_ledger h l p x") auto
  then obtain u where u: "advance_wait_ledger h l (round_input p x) = Inr u"
    using expire_refused[of h l p x] by (cases "advance_wait_ledger h l (round_input p x)") auto
  from advance_okD(2)[OF u] Expire assms(3)
  have "wl_lastNativeStatus (av_ledger u) = wl_lastNativeStatus l"
    by (simp add: next_native not_native_def round_input_def)
  with v expire_boundary[OF u] expire_quiet(1)[OF u] show ?thesis
    by (cases "is_boundary_kind (wc_kind (av_change u))") (auto simp: record_wake_sel(1))
qed (use assms in \<open>auto simp: read_back_eq\<close>)

lemma run_native_status:
  assumes "inj (wh_state_digest h)" and "wait_ledger_ok h l"
    and "run_steps (wait_step h) l es = Inr k" and "list_all not_native es"
  shows "wl_lastNativeStatus k = wl_lastNativeStatus l \<and> wait_ledger_ok h k"
  using assms(2-4)
proof (induction es arbitrary: l)
  case (Cons e es)
  then obtain m where m: "wait_step h l e = Inr m" by (cases "wait_step h l e") auto
  with Cons.prems Cons.IH[of m] wait_step_ok[OF assms(1) Cons.prems(1) m]
    step_native_status[OF Cons.prems(1) m]
  show ?case by simp
qed simp

lemma idle_after_active:
  assumes inj: "inj (wh_state_digest h)" and ok: "wait_ledger_ok h l"
    and active: "wl_lastNativeStatus l = Some Subject_active" and idle: "native_idle x"
    and subj: "wo_subjectId x = wl_subjectId l"
  shows "\<not> is_duplicate h l x" and "ledger_change h l x = boundary_change x"
proof -
  from ok have rec: "records_ok h l" and nat: "native_ok l" by (simp_all add: wait_ledger_ok_def)
  show dup: "\<not> is_duplicate h l x"
  proof
    assume "is_duplicate h l x"
    with inj rec obtain r where "last_recorded l = Some r" "ro_status r = wo_status x"
      "ro_source r = wo_source x" by (rule duplicate_state)
    with nat active idle show False by (auto simp: native_ok_def native_idle_def)
  qed
  from nat active obtain r where r: "last_recorded l = Some r"
    by (auto simp: native_ok_def last_recorded_def)
  with rec last_recorded_in[OF r] have rs: "ro_subjectId r = wl_subjectId l"
    by (auto simp: records_ok_def recorded_ok_def)
  show "ledger_change h l x = boundary_change x"
    using dup r rs subj active idle not_duplicate_digest[OF rec dup r]
    by (simp add: ledger_change_def previous_observation_def classify_wait_change_def
        later_change_def last_native_status_def ledger_boundary_def)
qed

text \<open>C16. A native completion is never lost. Once a genuine native read has seen the subject
  active, the next genuine native idle read is a completion, however many reads of other
  provenance (ambiguous, unavailable or terminal ones), deadlines, deliveries and restarts
  lie in between. It wakes exactly when the ledger has reached no terminal decision, as one of
  those reads may have done, and this very state has not surfaced a decision already.
\<close>

theorem native_completion_survives:
  assumes "inj (wh_state_digest h)"
    and "run_steps (wait_step h) (create_wait_ledger subject owner generation) es = Inr l"
    and "wl_lastNativeStatus l = Some Subject_active"
    and "run_steps (wait_step h) l fs = Inr k" and "list_all not_native fs"
    and "wo_source (wa_observation i) = Src_native" and "wo_status (wa_observation i) = Subject_idle"
    and "advance_wait_ledger h k i = Inr v"
  shows "wc_kind (av_change v) = Change_completion \<and> \<not> av_duplicate v \<and>
    (av_wokeNow v \<longleftrightarrow>
      \<not> wl_terminalReached k \<and> wait_observation_digest h (wa_observation i) \<notin> surfaced k)"
proof -
  let ?x = "wa_observation i"
  note D = advance_okD[OF assms(8)]
  have ok: "wait_ledger_ok h k" and act: "wl_lastNativeStatus k = Some Subject_active"
    using run_native_status[OF assms(1) reachable_ok[OF assms(1,2)] assms(4,5)] assms(3) by simp_all
  have idle: "native_idle ?x" using assms(6,7) by (simp add: native_idle_def)
  note I = idle_after_active[OF assms(1) ok act idle fence_subject[OF D(1)]]
  have kind: "wc_kind (ledger_change h k ?x) = Change_completion"
    by (simp add: I(2) boundary_change_def)
  with I(1) show ?thesis
    by (simp add: D wakes_now_def decision_wakes_iff is_boundary_kind_def already_surfaced_iff)
qed

section \<open>Restarts\<close>

text \<open>Two ledgers that differ only in where they remember a surfaced state.\<close>

lemma ledger_change_digests [simp]:
  "is_duplicate h (l\<lparr>wl_terminalDigests := ds\<rparr>) x = is_duplicate h l x"
  "ledger_change h (l\<lparr>wl_terminalDigests := ds\<rparr>) x = ledger_change h l x"
  by (simp_all add: ledger_change_def is_duplicate_def previous_observation_def last_recorded_def
      last_native_observation_def ledger_boundary_def)

lemma advance_digests:
  assumes "surfaced (l\<lparr>wl_terminalDigests := ds\<rparr>) = surfaced l"
    and "advance_wait_ledger h l i = Inr v"
  shows "\<exists>u. advance_wait_ledger h (l\<lparr>wl_terminalDigests := ds\<rparr>) i = Inr u \<and>
      av_change u = av_change v \<and> av_wake u = av_wake v \<and> av_wokeNow u = av_wokeNow v \<and>
      av_duplicate u = av_duplicate v \<and> av_observationEventId u = av_observationEventId v"
proof -
  let ?l = "l\<lparr>wl_terminalDigests := ds\<rparr>"
  have "already_surfaced ?l = already_surfaced l"
    using assms(1) by (simp add: fun_eq_iff already_surfaced_iff)
  moreover have dec: "ledger_decision h ?l i = ledger_decision h l i"
    by (simp add: ledger_decision_def)
  ultimately have now: "wakes_now h ?l i = wakes_now h l i" by (simp add: wakes_now_def)
  have "observation_event_id h ?l x = observation_event_id h l x" for x
    by (simp add: observation_event_id_def)
  moreover have "wait_fence ?l i = wait_fence l i" by (simp add: wait_fence_def)
  ultimately show ?thesis
    using assms(2) now dec by (auto simp: advance_wait_ledger_def Let_def split: option.splits)
qed

text \<open>C34. A restart changes no decision. The ledger a process reads back after a restart is the
  bounded ledger it would have continued with, up to the list of terminal digests, and the
  next observation is accepted, classified, coalesced and woken for exactly as it would
  have been without the restart.
\<close>

theorem restart_preserves_decisions:
  assumes "inj (wh_state_digest h)"
    and "run_steps (wait_step h) (create_wait_ledger subject owner generation) es = Inr l"
    and "advance_wait_ledger h (bound_wait_ledger l) i = Inr v"
  shows "(\<exists>ds. read_back l = (bound_wait_ledger l)\<lparr>wl_terminalDigests := Some ds\<rparr>) \<and>
    (\<exists>u. advance_wait_ledger h (read_back l) i = Inr u \<and>
      av_change u = av_change v \<and> av_wake u = av_wake v \<and> av_wokeNow u = av_wokeNow v \<and>
      av_duplicate u = av_duplicate v \<and> av_observationEventId u = av_observationEventId v)"
proof -
  have ok: "wait_ledger_ok h l" by (rule reachable_ok[OF assms(1,2)])
  note eq = read_back_eq[OF ok]
  from surfaced_read_back[OF ok] have "surfaced ((bound_wait_ledger l)\<lparr>wl_terminalDigests :=
      Some (migrated_terminal_digests (stored (bound_wait_ledger l)))\<rparr>) =
      surfaced (bound_wait_ledger l)"
    unfolding eq .
  from advance_digests[OF this assms(3)] show ?thesis unfolding eq by blast
qed

section \<open>The bounded wait\<close>

text \<open>A round the ledger accepts: the provider answered, for the subject of the ledger.\<close>

definition round_accepted :: "wait_ledger \<Rightarrow> wait_round \<Rightarrow> bool" where
  "round_accepted l r \<longleftrightarrow> present_and (\<lambda>x. wo_subjectId x = wl_subjectId l) (rd_observation r)"

definition options_match :: "wait_options \<Rightarrow> wait_ledger \<Rightarrow> bool" where
  "options_match p l \<longleftrightarrow>
     absent_or (\<lambda>o'. o' = wl_ownerRunId l) (wt_expectedOwnerRunId p) \<and>
     absent_or (\<lambda>g. g = wl_generation l) (wt_expectedGeneration p)"

definition round_ends :: "int \<Rightarrow> wait_round \<Rightarrow> bool" where
  "round_ends deadline r \<longleftrightarrow> rd_aborted r \<or> deadline \<le> rd_now r"

lemma fence_passes:
  assumes "options_match p l" and "wo_subjectId x = wl_subjectId l"
  shows "wait_fence l (round_input p x) = None"
proof -
  have "\<not> present_and (\<lambda>o'. o' \<noteq> wl_ownerRunId l) (wt_expectedOwnerRunId p)"
    "\<not> present_and (\<lambda>g. g \<noteq> wl_generation l) (wt_expectedGeneration p)"
    using assms(1) by (auto simp: options_match_def present_and_iff)
  with assms(2) show ?thesis
    by (simp add: wait_fence_def first_error_None_iff round_input_def)
qed

lemma round_accepted_result:
  assumes "options_match p (as_ledger s)" and "round_accepted (as_ledger s) r"
  obtains x v where "rd_observation r = Some x"
    "advance_wait_ledger h (as_ledger s) (round_input p x) = Inr v"
    "await_round h p d s r = settle_round h p d r x v (after_advance s v)"
    "wl_subjectId (as_ledger (after_advance s v)) = wl_subjectId (as_ledger s)"
    "options_match p (as_ledger (after_advance s v))"
proof -
  from assms(2) obtain x where x: "rd_observation r = Some x"
    "wo_subjectId x = wl_subjectId (as_ledger s)"
    by (auto simp: round_accepted_def present_and_iff)
  obtain v where v: "advance_wait_ledger h (as_ledger s) (round_input p x) = Inr v"
    using fence_passes[OF assms(1) x(2)] by (simp add: advance_wait_ledger_def Let_def)
  have "wl_subjectId (as_ledger (after_advance s v)) = wl_subjectId (as_ledger s)"
    "options_match p (as_ledger (after_advance s v))"
    using advance_okD(2)[OF v] assms(1) by (simp_all add: after_advance_def Let_def options_match_def)
  with x v that show ?thesis by (simp add: await_round_def)
qed

lemma settle_cases:
  obtains (returned) u where "settle_round h p d r x v s = Await_returned u s"
      "ao_observationCount u = as_count s" "ao_timedOut u \<Longrightarrow> d \<le> rd_now r"
      "ao_idle u \<Longrightarrow> \<not> wd_shouldWake (ao_wake u)"
  | (waits) "settle_round h p d r x v s = Await_waiting s" "\<not> round_ends d r"
proof (cases "settle_round h p d r x v s")
  case (Await_returned u t)
  then have "t = s" "ao_observationCount u = as_count s" "ao_timedOut u \<Longrightarrow> d \<le> rd_now r"
    "ao_idle u \<Longrightarrow> \<not> wd_shouldWake (ao_wake u)"
    by (auto simp: settle_round_def outcome_def Let_def split: if_splits)
  with Await_returned returned show ?thesis by blast
next
  case (Await_waiting t)
  then have "t = s" "\<not> round_ends d r"
    by (auto simp: settle_round_def round_ends_def Let_def split: if_splits)
  with Await_waiting waits show ?thesis by blast
next
  case (Await_failed e t)
  then show ?thesis by (simp add: settle_round_def Let_def split: if_splits)
qed

lemma await_loop_returns:
  assumes "options_match p (as_ledger s)" and "\<forall>r \<in> set rs. round_accepted (as_ledger s) r"
    and "\<exists>r \<in> set rs. round_ends d r"
  shows "\<exists>u t. await_loop h p d s rs = Await_returned u t \<and>
      ao_observationCount u \<le> as_count s + length rs \<and> as_count s < ao_observationCount u \<and>
      (ao_timedOut u \<longrightarrow> (\<exists>r \<in> set rs. d \<le> rd_now r)) \<and>
      (ao_idle u \<longrightarrow> \<not> wd_shouldWake (ao_wake u))"
  using assms
proof (induction rs arbitrary: s)
  case (Cons r rs)
  from Cons.prems(2) have r: "round_accepted (as_ledger s) r" by simp
  obtain x v where rv: "await_round h p d s r = settle_round h p d r x v (after_advance s v)"
    "wl_subjectId (as_ledger (after_advance s v)) = wl_subjectId (as_ledger s)"
    "options_match p (as_ledger (after_advance s v))"
    using round_accepted_result[OF Cons.prems(1) r] by metis
  let ?t = "after_advance s v"
  have cnt: "as_count ?t = Suc (as_count s)" by (simp add: after_advance_def Let_def)
  show ?case
  proof (cases rule: settle_cases[of h p d r x v ?t])
    case (returned u)
    then show ?thesis using rv(1) cnt by auto
  next
    case waits
    with Cons.prems(3) have ends: "\<exists>r \<in> set rs. round_ends d r" by auto
    have acc: "\<forall>r \<in> set rs. round_accepted (as_ledger ?t) r"
      using Cons.prems(2) rv(2) by (simp add: round_accepted_def)
    from Cons.IH[OF rv(3) acc ends] rv(1) waits(1) cnt show ?thesis by auto
  qed
qed simp

text \<open>A bounded wait returns. If the provider keeps answering for the subject of the ledger
  and the clock reaches the deadline (or the wait is aborted) in some round, the wait
  returns in or before that round, never by an error; it reports a timeout only when the
  deadline has passed, and a wait reported as idle asks for no model turn.
\<close>

theorem bounded_wait_returns:
  assumes "options_match p l" and "\<forall>r \<in> set rs. round_accepted l r"
    and "\<exists>r \<in> set rs. rd_aborted r \<or> deadline_at p now \<le> rd_now r"
  shows "\<exists>u s. await_meaningful_change h p l now rs = Await_returned u s \<and>
      1 \<le> ao_observationCount u \<and> ao_observationCount u \<le> length rs \<and>
      (ao_timedOut u \<longrightarrow> (\<exists>r \<in> set rs. deadline_at p now \<le> rd_now r)) \<and>
      (ao_idle u \<longrightarrow> \<not> wd_shouldWake (ao_wake u))"
  using await_loop_returns[of p "\<lparr>as_ledger = l, as_count = 0, as_duplicates = 0, as_persisted = []\<rparr>"
      rs "deadline_at p now" h] assms
  by (auto simp: await_meaningful_change_def round_ends_def)

section \<open>Bounds\<close>

definition ledger_bounded :: "wait_ledger \<Rightarrow> bool" where
  "ledger_bounded l \<longleftrightarrow>
     length (wl_observations l) \<le> 200 \<and> length (wl_wakes l) \<le> 200 \<and>
     length (terminal_digests l) \<le> 50 \<and> length (wl_surfacedDigests l) \<le> 500 \<and>
     length (wl_deliveredWakeIds l) \<le> 500"

lemma bound_bounded: "ledger_bounded (bound_wait_ledger l)"
  by (simp add: ledger_bounded_def max_defs bound_wait_ledger_def terminal_digests_def)

lemma bound_idem: "bound_wait_ledger (bound_wait_ledger l) = bound_wait_ledger l"
  by (simp add: bound_wait_ledger_def terminal_digests_def)

fun result_state :: "await_result \<Rightarrow> await_state" where
  "result_state (Await_failed e s) = s"
| "result_state (Await_returned u s) = s"
| "result_state (Await_waiting s) = s"

definition state_bounded :: "await_state \<Rightarrow> bool" where
  "state_bounded s \<longleftrightarrow>
     list_all ledger_bounded (as_persisted s) \<and>
     length (as_persisted s) + as_duplicates s = as_count s \<and>
     (as_count s > 0 \<longrightarrow> ledger_bounded (as_ledger s))"

lemma after_advance_bounded: "state_bounded s \<Longrightarrow> state_bounded (after_advance s v)"
  by (simp add: state_bounded_def after_advance_def bound_bounded Let_def)

lemma settle_state: "result_state (settle_round h p d r x v s) = s"
  by (simp add: settle_round_def Let_def)

lemma await_round_bounded: "state_bounded s \<Longrightarrow> state_bounded (result_state (await_round h p d s r))"
  by (auto simp: await_round_def settle_state after_advance_bounded split: option.splits sum.splits)

lemma await_loop_bounded: "state_bounded s \<Longrightarrow> state_bounded (result_state (await_loop h p d s rs))"
proof (induction rs arbitrary: s)
  case (Cons r rs)
  from await_round_bounded[OF Cons.prems, of h p d r] Cons.IH show ?case
    by (cases "await_round h p d s r") auto
qed simp

text \<open>The wait never grows its ledger. Whatever the provider reports and however long the
  wait runs, every ledger it has persisted, and the one it holds after a round, keeps at
  most 200 observations, 200 wakes, 50 terminal digests, 500 surfaced digests and 500
  delivered identifiers; and it persists once for every observation that is not a duplicate.
\<close>

theorem wait_ledgers_bounded:
  assumes "result_state (await_meaningful_change h p l now rs) = s"
  shows "list_all ledger_bounded (as_persisted s) \<and>
    length (as_persisted s) + as_duplicates s = as_count s \<and>
    (as_count s = 0 \<or> ledger_bounded (as_ledger s))"
proof -
  have "state_bounded \<lparr>as_ledger = l, as_count = 0, as_duplicates = 0, as_persisted = []\<rparr>"
    by (simp add: state_bounded_def)
  from await_loop_bounded[OF this] assms show ?thesis
    by (auto simp: await_meaningful_change_def state_bounded_def)
qed

end
