(* ===== verification/Wait_Command.thy ===== *)
theory Wait_Command
  imports Wait_Guarantees Telemetry
begin

text \<open>
  The wait commands, \<^verbatim>\<open>src/workflow/wait-command.ts\<close>, over the durable ledger file of
  \<^verbatim>\<open>src/workflow/wait-ledger-store.ts\<close>: the ledger is adopted only for the run it belongs
  to, a command writes the advanced ledger before it answers, and a wake stays pending until
  the answer that carries it has been delivered.

  The file is its parsed content: missing, unreadable or not a ledger, or a ledger of some
  revision. The run store is the run it returns for the identifier asked for.
\<close>

section \<open>The ledger file\<close>

datatype ledger_file = No_file | Corrupt_file | Ledger_file stored_wait_ledger

datatype wait_command_error =
    Run_not_found
  | Ledger_corrupt
  | Ledger_foreign
  | Wait_refused wait_error
  | Observer_rejected

fun read_ledger :: "ledger_file \<Rightarrow> wait_command_error + wait_ledger option" where
  "read_ledger No_file = Inr None"
| "read_ledger Corrupt_file = Inl Ledger_corrupt"
| "read_ledger (Ledger_file s) = Inr (Some (migrate_wait_ledger s))"

definition write_ledger :: "wait_ledger \<Rightarrow> ledger_file" where
  "write_ledger l = Ledger_file (stored (bound_wait_ledger l))"

record ledger_identity =
  id_subjectId :: string
  id_ownerRunId :: string
  id_generation :: string

definition wait_ledger_belongs_to :: "wait_ledger \<Rightarrow> ledger_identity \<Rightarrow> bool" where
  "wait_ledger_belongs_to l i \<longleftrightarrow>
     wl_subjectId l = id_subjectId i \<and> wl_ownerRunId l = id_ownerRunId i \<and>
     wl_generation l = id_generation i"

definition run_generation :: "run \<Rightarrow> string" where
  "run_generation r = (case run_dispatchClaimId r of None \<Rightarrow> run_id r | Some c \<Rightarrow> c)"

definition empty_wait_ledger :: "run \<Rightarrow> wait_ledger" where
  "empty_wait_ledger r = create_wait_ledger (run_id r) (run_id r) (run_generation r)"

definition load_wait_ledger :: "run \<Rightarrow> ledger_file \<Rightarrow> wait_command_error + wait_ledger" where
  "load_wait_ledger r f =
     (case read_ledger f of
        Inl e \<Rightarrow> Inl e
      | Inr None \<Rightarrow> Inr (empty_wait_ledger r)
      | Inr (Some l) \<Rightarrow>
          if wait_ledger_belongs_to l
               \<lparr>id_subjectId = run_id r, id_ownerRunId = run_id r,
                id_generation = run_generation r\<rparr>
          then Inr l else Inl Ledger_foreign)"

section \<open>The answer\<close>

fun replay_priority :: "wait_wake_reason \<Rightarrow> nat" where
  "replay_priority Wake_failure = 0"
| "replay_priority Wake_blocked = 1"
| "replay_priority Wake_completion = 2"
| "replay_priority Wake_terminal = 3"
| "replay_priority Wake_timeout_policy = 4"

text \<open>The array sort is stable.\<close>

definition by_replay_priority :: "wait_recorded_wake list \<Rightarrow> wait_recorded_wake list" where
  "by_replay_priority ws = sort_key (\<lambda>w. replay_priority (rw_reason w)) ws"

definition observed_run_state :: "run \<Rightarrow> wait_observation \<Rightarrow> workflow_state" where
  "observed_run_state r x =
     (if wo_status x = Subject_completed then MERGED
      else if wo_status x = Subject_failed then FAILED else run_state r)"

datatype wait_command_mode = Observe_mode | Wait_mode

record pending_view =
  pv_id :: string
  pv_reason :: wait_wake_reason
  pv_subjectId :: string
  pv_status :: wait_status
  pv_evidence :: "wait_evidence list"

record wait_command_result =
  cr_mode :: wait_command_mode
  cr_runId :: string
  cr_state :: workflow_state
  cr_source :: wait_source
  cr_subjectId :: string
  cr_status :: wait_status
  cr_headSha :: "string option"
  cr_observationDigest :: string
  cr_change :: wait_change_kind
  cr_wake :: wait_wake_decision
  cr_pendingWakes :: "pending_view list"
  cr_carriedWakeIds :: "string list"
  cr_modelTurns :: nat
  cr_timedOut :: bool
  cr_idle :: bool
  cr_observations :: nat
  cr_duplicateObservations :: nat
  cr_wakeCount :: nat
  cr_waitStartedAt :: "string option"
  cr_observedDigest :: string

definition pending_view_of :: "wait_recorded_wake \<Rightarrow> pending_view" where
  "pending_view_of w =
     \<lparr>pv_id = rw_id w, pv_reason = rw_reason w, pv_subjectId = rw_subjectId w,
      pv_status = rw_status w, pv_evidence = rw_evidence w\<rparr>"

text \<open>The pending decision presented instead of a wake this call did not make.\<close>

definition replay_wake :: "await_outcome \<Rightarrow> wait_recorded_wake option" where
  "replay_wake u =
     (let pending = pending_wait_wakes (ao_ledger u) in
      if \<not> wd_shouldWake (ao_wake u) \<and> pending \<noteq> []
      then Some (hd (by_replay_priority pending)) else None)"

definition presented_wake_id :: "await_outcome \<Rightarrow> string option" where
  "presented_wake_id u =
     or_else (map_option rw_id (replay_wake u))
       (map_option rw_id
          (find (\<lambda>w. Some (rw_observationDigest w) = wl_lastDigest (ao_ledger u))
             (pending_wait_wakes (ao_ledger u))))"

definition digest_text :: "string option \<Rightarrow> string" where
  "digest_text d = (case d of None \<Rightarrow> [] | Some s \<Rightarrow> s)"

definition to_result :: "wait_command_mode \<Rightarrow> run \<Rightarrow> await_outcome \<Rightarrow> wait_command_result" where
  "to_result m r u =
     (let x = ao_observation u; l = ao_ledger u; pending = pending_wait_wakes l in
      \<lparr>cr_mode = m, cr_runId = run_id r, cr_state = observed_run_state r x,
       cr_source = wo_source x, cr_subjectId = wo_subjectId x, cr_status = wo_status x,
       cr_headSha = wo_headSha x, cr_observationDigest = digest_text (wl_lastDigest l),
       cr_change = wc_kind (ao_change u),
       cr_wake =
         (case replay_wake u of
            None \<Rightarrow> ao_wake u
          | Some w \<Rightarrow> wake_for (rw_reason w) (rw_evidence w)),
       cr_pendingWakes =
         map pending_view_of (filter (\<lambda>w. Some (rw_id w) \<noteq> presented_wake_id u) pending),
       cr_carriedWakeIds = map rw_id pending, cr_modelTurns = 0,
       cr_timedOut = ao_timedOut u, cr_idle = ao_idle u,
       cr_observations = ao_observationCount u,
       cr_duplicateObservations = ao_duplicateObservations u,
       cr_wakeCount = length (wl_wakes l), cr_waitStartedAt = wl_waitStartedAt l,
       cr_observedDigest = digest_text (wl_lastDigest l)\<rparr>)"

section \<open>Recording a wake on the run\<close>

text \<open>
  The update a wake proposes to the run store: the current run and its successor, for the
  compare-and-swap, or nothing when the run is gone or the event is already recorded.
\<close>

definition wake_update ::
  "wait_host \<Rightarrow> run option \<Rightarrow> wait_observation \<Rightarrow> string \<Rightarrow> string \<Rightarrow> (run \<times> run) option" where
  "wake_update h current x at reason =
     (case current of
        None \<Rightarrow> None
      | Some r \<Rightarrow>
          (let next = record_wait_wake_telemetry r
                 \<lparr>ww_at = at, ww_reason = reason, ww_source = source_text (wo_source x),
                  ww_subjectId = wo_subjectId x, ww_status = status_text (wo_status x),
                  ww_observationDigest = wait_observation_digest h x\<rparr>
           in if next = r then None else Some (r, next)))"

definition observe_wake_reason :: "wait_advance \<Rightarrow> string" where
  "observe_wake_reason v =
     (case wake_reason_for_change (av_change v) of
        Some r \<Rightarrow> wake_reason_text r
      | None \<Rightarrow>
          if wd_reason (av_wake v) = Some Wake_timeout_policy then ''timeout-policy''
          else ''terminal'')"

section \<open>The commands\<close>

text \<open>
  What a command leaves behind: the ledger file, the update it proposed, and its answer.
  \<open>current\<close> is the run as the store holds it when the wake is recorded.
\<close>

record command_effect =
  ce_file :: ledger_file
  ce_update :: "(run \<times> run) option"
  ce_result :: wait_command_result

definition command_policy :: "wait_wake_policy option \<Rightarrow> wait_wake_policy" where
  "command_policy p = (case p of None \<Rightarrow> DEFAULT_WAIT_WAKE_POLICY | Some q \<Rightarrow> q)"

definition run_options :: "run \<Rightarrow> wait_wake_policy option \<Rightarrow> wait_options" where
  "run_options r p =
     \<lparr>wt_policy = command_policy p, wt_expectedOwnerRunId = Some (run_id r),
      wt_expectedGeneration = Some (run_generation r)\<rparr>"

definition observe_input ::
  "run \<Rightarrow> wait_wake_policy option \<Rightarrow> wait_observation \<Rightarrow> string \<Rightarrow> wait_advance_input" where
  "observe_input r p x at =
     \<lparr>wa_observation = x, wa_at = at, wa_policy = Some (command_policy p), wa_timedOut = None,
      wa_expectedOwnerRunId = Some (run_id r), wa_expectedGeneration = Some (run_generation r)\<rparr>"

definition observed_outcome :: "wait_observation \<Rightarrow> wait_advance \<Rightarrow> await_outcome" where
  "observed_outcome x v =
     \<lparr>ao_observation = x, ao_change = av_change v, ao_wake = av_wake v,
      ao_ledger = av_ledger v, ao_observationCount = 1,
      ao_duplicateObservations = (if av_duplicate v then 1 else 0),
      ao_timedOut = False, ao_idle = (\<not> av_wokeNow v)\<rparr>"

definition wait_observe_command ::
  "wait_host \<Rightarrow> run option \<Rightarrow> ledger_file \<Rightarrow> wait_wake_policy option \<Rightarrow> observer_read \<Rightarrow>
   string \<Rightarrow> run option \<Rightarrow> string \<Rightarrow> wait_command_error + command_effect" where
  "wait_observe_command h found f p d at current wake_at =
     (case found of
        None \<Rightarrow> Inl Run_not_found
      | Some r \<Rightarrow>
          (case load_wait_ledger r f of
             Inl e \<Rightarrow> Inl e
           | Inr l \<Rightarrow>
               (let x = observe_run r d in
                case observe_wait_state h (Some l) (observe_input r p x at) of
                  Inl e \<Rightarrow> Inl (Wait_refused e)
                | Inr v \<Rightarrow>
                    Inr \<lparr>ce_file = write_ledger (av_ledger v),
                         ce_update =
                           (if av_wokeNow v
                            then wake_update h current x wake_at (observe_wake_reason v)
                            else None),
                         ce_result = to_result Observe_mode r (observed_outcome x v)\<rparr>)))"

definition await_effect ::
  "wait_host \<Rightarrow> run \<Rightarrow> run option \<Rightarrow> string \<Rightarrow> await_outcome \<Rightarrow> command_effect" where
  "await_effect h r current wake_at u =
     \<lparr>ce_file = write_ledger (ao_ledger u),
      ce_update =
        (if wd_shouldWake (ao_wake u)
         then wake_update h current (ao_observation u) wake_at
                (case wd_reason (ao_wake u) of
                   None \<Rightarrow> ''terminal'' | Some q \<Rightarrow> wake_reason_text q)
         else None),
      ce_result = to_result Wait_mode r u\<rparr>"

text \<open>
  A turn of the loop as the command sees it: the reads of its observer (absent when reading
  the run store throws), the abort signal and the clock. \<open>None\<close> as the answer of the
  command is a wait that is still going on after the rounds given.
\<close>

record command_round =
  cm_read :: "observer_read option"
  cm_aborted :: bool
  cm_now :: int

definition wait_round_of :: "run \<Rightarrow> command_round \<Rightarrow> wait_round" where
  "wait_round_of r c =
     \<lparr>rd_observation = map_option (observe_run r) (cm_read c), rd_aborted = cm_aborted c,
      rd_now = cm_now c\<rparr>"

definition wait_await_command ::
  "wait_host \<Rightarrow> run option \<Rightarrow> ledger_file \<Rightarrow> wait_wake_policy option \<Rightarrow> int \<Rightarrow> command_round list \<Rightarrow>
   run option \<Rightarrow> string \<Rightarrow> (wait_command_error + command_effect) option" where
  "wait_await_command h found f p now rs current wake_at =
     (case found of
        None \<Rightarrow> Some (Inl Run_not_found)
      | Some r \<Rightarrow>
          (case load_wait_ledger r f of
             Inl e \<Rightarrow> Some (Inl e)
           | Inr l \<Rightarrow>
               (case await_meaningful_change h (run_options r p) l now (map (wait_round_of r) rs) of
                  Await_waiting s \<Rightarrow> None
                | Await_failed Observer_failed s \<Rightarrow> Some (Inl Observer_rejected)
                | Await_failed (Ledger_refused e) s \<Rightarrow> Some (Inl (Wait_refused e))
                | Await_returned u s \<Rightarrow> Some (Inr (await_effect h r current wake_at u)))))"

text \<open>Delivery is acknowledged on the ledger as it is then, for the wakes carried.\<close>

definition acknowledge_wait_delivery ::
  "wait_command_result \<Rightarrow> ledger_file \<Rightarrow> wait_command_error + ledger_file" where
  "acknowledge_wait_delivery res f =
     (if cr_carriedWakeIds res = [] then Inr f
      else case read_ledger f of
        Inl e \<Rightarrow> Inl e
      | Inr None \<Rightarrow> Inr f
      | Inr (Some l) \<Rightarrow>
          Inr (write_ledger
            (mark_wait_wakes_delivered l
               (filter (\<lambda>i. i \<in> set (map rw_id (wl_wakes l))) (cr_carriedWakeIds res)))))"

section \<open>Delivery\<close>

lemma next_ledger_delivered_wakes:
  "wl_deliveredWakeIds (next_ledger h l i) = wl_deliveredWakeIds l"
  "set (wl_wakes l) \<subseteq> set (wl_wakes (next_ledger h l i))"
  "length (wl_wakes (next_ledger h l i)) \<le> Suc (length (wl_wakes l))"
  by (auto simp: next_wakes)

lemma read_write_ledger: "read_ledger (write_ledger l) = Inr (Some (read_back l))"
  by (simp add: write_ledger_def read_back_def)

lemma read_back_delivered:
  "wl_deliveredWakeIds (read_back l) = slice_last MAX_DELIVERED_WAKE_IDS (wl_deliveredWakeIds l)"
  "wl_wakes (read_back l) = slice_last MAX_WAIT_WAKES (wl_wakes l)"
  by (simp_all add: read_back_def migrate_wait_ledger_def stored_def bound_wait_ledger_def)

lemma pending_read_back:
  assumes "w \<in> set (pending_wait_wakes l)" and "length (wl_wakes l) \<le> MAX_WAIT_WAKES"
  shows "w \<in> set (pending_wait_wakes (read_back l))"
  using assms set_slice_last[of MAX_DELIVERED_WAKE_IDS "wl_deliveredWakeIds l"]
  by (auto simp: pending_wait_wakes_def read_back_delivered slice_last_id)

lemma observe_commandD:
  assumes "wait_observe_command h (Some r) f p d at current wake_at = Inr e"
  obtains l v where "load_wait_ledger r f = Inr l"
    "advance_wait_ledger h l (observe_input r p (observe_run r d) at) = Inr v"
    "ce_file e = write_ledger (av_ledger v)"
    "ce_result e = to_result Observe_mode r (observed_outcome (observe_run r d) v)"
proof -
  from assms obtain l where l: "load_wait_ledger r f = Inr l"
    by (auto simp: wait_observe_command_def split: sum.splits)
  with assms obtain v where
    v: "advance_wait_ledger h l (observe_input r p (observe_run r d) at) = Inr v"
    by (auto simp: wait_observe_command_def observe_wait_state_def Let_def split: sum.splits)
  with assms l that show ?thesis
    by (auto simp: wait_observe_command_def observe_wait_state_def Let_def)
qed

lemma carried_ids: "cr_carriedWakeIds (to_result m r u) = map rw_id (pending_wait_wakes (ao_ledger u))"
  by (simp add: to_result_def Let_def)

lemma slice_last_append:
  assumes "length ys \<le> n"
  shows "set ys \<subseteq> set (slice_last n (xs @ ys))"
proof -
  have "drop (length xs + length ys - n) (xs @ ys) =
      drop (length xs + length ys - n) xs @ ys"
    using assms by simp
  then show ?thesis by (simp add: slice_last_def)
qed

lemma js_set_append:
  assumes "set xs \<inter> set ys = {}"
  shows "js_set (xs @ ys) = js_set xs @ js_set ys"
  using assms
proof (induction xs)
  case (Cons x xs)
  then have "x \<notin> set (js_set ys)" by simp
  then have "filter (\<lambda>y. y \<noteq> x) (js_set ys) = js_set ys" by (auto intro: filter_True)
  with Cons show ?case by simp
qed simp

lemma length_js_set: "length (js_set xs) \<le> length xs"
  by (induction xs) (auto intro: order_trans[OF length_filter_le])

lemma delivered_now:
  assumes "set ids \<inter> set (wl_deliveredWakeIds l) = {}" and "length ids \<le> MAX_DELIVERED_WAKE_IDS"
  shows "set ids \<subseteq> set (wl_deliveredWakeIds (mark_wait_wakes_delivered l ids))"
proof -
  have "js_set (wl_deliveredWakeIds l @ ids) = js_set (wl_deliveredWakeIds l) @ js_set ids"
    using assms(1) by (intro js_set_append) auto
  moreover have "length (js_set ids) \<le> MAX_DELIVERED_WAKE_IDS"
    using assms(2) length_js_set[of ids] by simp
  ultimately show ?thesis
    using slice_last_append[of "js_set ids" MAX_DELIVERED_WAKE_IDS "js_set (wl_deliveredWakeIds l)"]
    by (simp add: mark_wait_wakes_delivered_def)
qed

lemma carried_disjoint:
  "set (map rw_id (pending_wait_wakes l)) \<inter> set (wl_deliveredWakeIds l) = {}"
  by (auto simp: pending_wait_wakes_def)

lemma pending_delivered:
  assumes "length (wl_wakes l) \<le> MAX_WAIT_WAKES"
  defines "ids \<equiv> map rw_id (pending_wait_wakes l)"
  shows "set (map rw_id (pending_wait_wakes
           (read_back (mark_wait_wakes_delivered (read_back l) ids)))) \<inter> set ids = {}"
proof -
  let ?k = "read_back l"
  have "length ids \<le> length (wl_wakes l)"
    by (simp add: ids_def pending_wait_wakes_def)
  with assms(1) have "length ids \<le> MAX_DELIVERED_WAKE_IDS" by (simp add: max_defs)
  moreover have "set ids \<inter> set (wl_deliveredWakeIds ?k) = {}"
    using carried_disjoint[of l] set_slice_last[of MAX_DELIVERED_WAKE_IDS "wl_deliveredWakeIds l"]
    by (auto simp: ids_def read_back_delivered)
  ultimately have "set ids \<subseteq> set (wl_deliveredWakeIds (mark_wait_wakes_delivered ?k ids))"
    by (rule delivered_now[rotated])
  moreover have "wl_deliveredWakeIds (read_back (mark_wait_wakes_delivered ?k ids)) =
      wl_deliveredWakeIds (mark_wait_wakes_delivered ?k ids)"
    by (simp add: read_back_delivered mark_wait_wakes_delivered_def)
  ultimately show ?thesis
    using carried_disjoint[of "read_back (mark_wait_wakes_delivered ?k ids)"] by auto
qed

lemma known_carried:
  assumes "length (wl_wakes l) \<le> MAX_WAIT_WAKES"
  shows "filter (\<lambda>i. i \<in> set (map rw_id (wl_wakes (read_back l)))) (map rw_id (pending_wait_wakes l))
     = map rw_id (pending_wait_wakes l)"
  using assms by (auto simp: read_back_delivered slice_last_id pending_wait_wakes_def intro!: filter_True)

lemma loaded_ledger:
  "read_ledger f = Inr (Some l) \<Longrightarrow> load_wait_ledger r f = Inr k \<Longrightarrow> k = l"
  by (simp add: load_wait_ledger_def split: if_splits)

text \<open>C35. A wake is carried until it has been delivered. While fewer than the 200 wakes a ledger
  keeps are stored (a new wake would evict the oldest of 200), a wake recorded by an earlier
  process and not yet delivered is among the wakes the next observe command carries, and it is still
  pending in the ledger that command wrote, so a crash before the answer is printed loses
  nothing; once the answer is acknowledged, none of the wakes it carried is pending again.
\<close>

theorem wakes_carried_until_delivered:
  assumes "read_ledger f = Inr (Some l)" and "length (wl_wakes l) < 200"
    and "w \<in> set (pending_wait_wakes l)"
    and "wait_observe_command h (Some r) f p d at current wake_at = Inr e"
  shows "rw_id w \<in> set (cr_carriedWakeIds (ce_result e)) \<and>
    (\<exists>k. read_ledger (ce_file e) = Inr (Some k) \<and> w \<in> set (pending_wait_wakes k)) \<and>
    (\<exists>g k. acknowledge_wait_delivery (ce_result e) (ce_file e) = Inr g \<and>
       read_ledger g = Inr (Some k) \<and>
       set (map rw_id (pending_wait_wakes k)) \<inter> set (cr_carriedWakeIds (ce_result e)) = {})"
proof -
  obtain v where v: "advance_wait_ledger h l (observe_input r p (observe_run r d) at) = Inr v"
    and written: "ce_file e = write_ledger (av_ledger v)"
    and res: "ce_result e = to_result Observe_mode r (observed_outcome (observe_run r d) v)"
    using observe_commandD[OF assms(4)] loaded_ledger[OF assms(1)] by metis
  let ?n = "av_ledger v"
  have N: "wl_deliveredWakeIds ?n = wl_deliveredWakeIds l" "set (wl_wakes l) \<subseteq> set (wl_wakes ?n)"
    "length (wl_wakes ?n) \<le> Suc (length (wl_wakes l))"
    unfolding advance_okD(2)[OF v] by (rule next_ledger_delivered_wakes)+
  have len: "length (wl_wakes ?n) \<le> MAX_WAIT_WAKES"
    using N(3) assms(2) by (simp add: max_defs)
  have carried: "cr_carriedWakeIds (ce_result e) = map rw_id (pending_wait_wakes ?n)"
    by (simp add: res carried_ids observed_outcome_def)
  from assms(3) N(1,2) have pend: "w \<in> set (pending_wait_wakes ?n)"
    by (auto simp: pending_wait_wakes_def)
  then have ne: "pending_wait_wakes ?n \<noteq> []" by auto
  have rd: "read_ledger (ce_file e) = Inr (Some (read_back ?n))"
    by (simp add: written read_write_ledger)
  have ack: "acknowledge_wait_delivery (ce_result e) (ce_file e) =
      Inr (write_ledger (mark_wait_wakes_delivered (read_back ?n)
        (map rw_id (pending_wait_wakes ?n))))"
    using ne
    by (simp only: acknowledge_wait_delivery_def carried rd known_carried[OF len]
        list.map_disc_iff if_False sum.case option.case)
  from pend pending_read_back[OF pend len] pending_delivered[OF len] show ?thesis
    unfolding carried rd ack by (auto simp: read_write_ledger)
qed

end
