(* ===== verification/Wait_Witnesses.thy ===== *)
theory Wait_Witnesses
  imports Wait_Command
begin

text \<open>
  Concrete waits: an injective digest, observations of one run, and the histories at which
  the theorems about the wait apply.
\<close>

section \<open>An injective digest\<close>

fun escape :: "string \<Rightarrow> string" where
  "escape [] = ''.''"
| "escape (c # s) = CHR ''+'' # c # escape s"

lemma escape_append [simp]: "escape s @ r = escape s' @ r' \<longleftrightarrow> s = s' \<and> r = r'"
proof (induction s arbitrary: s')
  case Nil
  then show ?case by (cases s') auto
next
  case (Cons c s)
  then show ?case by (cases s') auto
qed

fun escape_option :: "string option \<Rightarrow> string" where
  "escape_option None = ''-''"
| "escape_option (Some s) = CHR ''?'' # escape s"

lemma escape_option_append [simp]:
  "escape_option a @ r = escape_option b @ r' \<longleftrightarrow> a = b \<and> r = r'"
  by (cases a; cases b) simp_all

definition state_text :: "wait_state \<Rightarrow> string" where
  "state_text s =
     escape (source_text (ws_source s)) @ escape (ws_subjectId s) @
     escape (status_text (ws_status s)) @ escape_option (ws_activeItemId s) @
     escape (nat_str (ws_items s)) @ escape (nat_str (ws_turns s)) @
     escape_option (ws_lastCompletedTurnId s) @ escape_option (ws_headSha s) @ []"

lemma state_text_inj: "inj state_text"
proof (rule injI)
  fix s t assume eq: "state_text s = state_text t"
  show "s = t"
    by (rule wait_state.equality)
      (insert eq, simp_all only: state_text_def escape_append escape_option_append source_text_inj
        status_text_inj nat_str_eq_iff unit_eq, simp_all)
qed

definition sample_wait_host :: wait_host where
  "sample_wait_host = \<lparr>wh_state_digest = state_text, wh_evidence_digest = concat\<rparr>"

lemma sample_host_inj: "inj (wh_state_digest sample_wait_host)"
  by (simp add: sample_wait_host_def state_text_inj)

section \<open>Observations\<close>

definition reading :: "wait_source \<Rightarrow> wait_status \<Rightarrow> nat \<Rightarrow> wait_observation" where
  "reading src st n =
     \<lparr>wo_source = src, wo_subjectId = ''r'', wo_status = st, wo_activeItemId = None,
      wo_items = n, wo_turns = 0, wo_lastCompletedTurnId = None, wo_headSha = None,
      wo_evidence = [], wo_observedAt = ''t''\<rparr>"

definition observe :: "wait_observation \<Rightarrow> wait_advance_input" where
  "observe x =
     \<lparr>wa_observation = x, wa_at = ''t'', wa_policy = None, wa_timedOut = None,
      wa_expectedOwnerRunId = Some ''r'', wa_expectedGeneration = Some ''g''\<rparr>"

definition sample_options :: wait_options where
  "sample_options =
     \<lparr>wt_policy = \<lparr>wp_timeoutMs = 10, wp_onTimeout = Policy_action\<rparr>,
      wt_expectedOwnerRunId = Some ''r'', wt_expectedGeneration = Some ''g''\<rparr>"

definition fresh_ledger :: wait_ledger where
  "fresh_ledger = create_wait_ledger ''r'' ''r'' ''g''"

definition history_of :: "ledger_event list \<Rightarrow> wait_ledger" where
  "history_of es =
     (case run_steps (wait_step sample_wait_host) fresh_ledger es of Inr l \<Rightarrow> l | Inl _ \<Rightarrow> fresh_ledger)"

definition active_history :: "ledger_event list" where
  "active_history =
     [Observe (observe (reading Src_native Subject_active 1)),
      Observe (observe (reading Src_runtime Subject_active 1))]"

definition advanced :: "wait_ledger \<Rightarrow> wait_advance_input \<Rightarrow> wait_advance" where
  "advanced l i =
     (case advance_wait_ledger sample_wait_host l i of Inr v \<Rightarrow> v | Inl _ \<Rightarrow> undefined)"

lemma history_run:
  "\<not> isl (run_steps (wait_step sample_wait_host) (create_wait_ledger ''r'' ''r'' ''g'') es) \<Longrightarrow>
     run_steps (wait_step sample_wait_host) (create_wait_ledger ''r'' ''r'' ''g'') es =
     Inr (history_of es)"
  by (cases "run_steps (wait_step sample_wait_host) (create_wait_ledger ''r'' ''r'' ''g'') es")
    (simp_all add: history_of_def fresh_ledger_def)

lemma advanced_eq:
  "\<not> isl (advance_wait_ledger sample_wait_host l i) \<Longrightarrow>
     advance_wait_ledger sample_wait_host l i = Inr (advanced l i)"
  by (cases "advance_wait_ledger sample_wait_host l i") (simp_all add: advanced_def)

lemma active_history_run:
  "run_steps (wait_step sample_wait_host) (create_wait_ledger ''r'' ''r'' ''g'') active_history =
     Inr (history_of active_history)"
  by (rule history_run) code_simp

section \<open>Witnesses\<close>

theorem wake_iff_fresh_decision_witness:
  "av_wokeNow (advanced (history_of active_history) (observe (reading Src_runtime Subject_blocked 1)))
   \<and> wd_reason (av_wake (advanced (history_of active_history)
        (observe (reading Src_runtime Subject_blocked 1)))) = Some Wake_blocked"
proof -
  let ?l = "history_of active_history" and ?i = "observe (reading Src_runtime Subject_blocked 1)"
  have "advance_wait_ledger sample_wait_host ?l ?i = Inr (advanced ?l ?i)"
    by (rule advanced_eq) code_simp
  note w = wake_iff_fresh_decision[OF this]
  have k: "wc_kind (av_change (advanced ?l ?i)) = Change_blocked" by code_simp
  have "\<not> already_surfaced ?l (wait_observation_digest sample_wait_host (wa_observation ?i))"
    by code_simp
  note this[unfolded already_surfaced_iff]
  with w k have "av_wokeNow (advanced ?l ?i)" by simp
  with w k show ?thesis by (simp add: wake_reason_for_change.simps)
qed

definition busy_history :: "ledger_event list" where
  "busy_history =
     active_history @
     [Expire sample_options (reading Src_runtime Subject_active 1), Restart,
      Expire sample_options (reading Src_runtime Subject_active 1),
      Observe (observe (reading Src_native Subject_idle 2)), Restart,
      Observe (observe (reading Src_native Subject_idle 2)),
      Observe (observe (reading Src_runtime Subject_failed 2))]"

theorem one_wake_per_state_witness:
  "length (wake_trace sample_wait_host (create_wait_ledger ''r'' ''r'' ''g'') busy_history) = 3
   \<and> distinct (wake_trace sample_wait_host (create_wait_ledger ''r'' ''r'' ''g'') busy_history)"
proof
  show len: "length (wake_trace sample_wait_host (create_wait_ledger ''r'' ''r'' ''g'') busy_history) = 3"
    by code_simp
  show "distinct (wake_trace sample_wait_host (create_wait_ledger ''r'' ''r'' ''g'') busy_history)"
    by (rule one_wake_per_state) (simp add: len)
qed

theorem terminal_transition_wakes_once_witness:
  "av_wokeNow (advanced (history_of active_history) (observe (reading Src_runtime Subject_failed 1)))
   \<and> wake_trace sample_wait_host
        (av_ledger (advanced (history_of active_history)
           (observe (reading Src_runtime Subject_failed 1)))) busy_history = []"
proof -
  let ?l = "history_of active_history" and ?i = "observe (reading Src_runtime Subject_failed 1)"
  have v: "advance_wait_ledger sample_wait_host ?l ?i = Inr (advanced ?l ?i)"
    by (rule advanced_eq) code_simp
  have st: "wo_status (wa_observation ?i) \<in> {Subject_completed, Subject_failed}"
    by (simp add: observe_def reading_def)
  have "\<not> wl_terminalReached ?l" by code_simp
  with terminal_transition_wakes_once[OF sample_host_inj active_history_run v st] show ?thesis
    by blast
qed

definition interleaved :: "ledger_event list" where
  "interleaved =
     [Observe (observe (reading Src_runtime Subject_unavailable 1)), Restart,
      Expire sample_options (reading Src_runtime Subject_active 3)]"

definition interleaved_ledger :: wait_ledger where
  "interleaved_ledger =
     (case run_steps (wait_step sample_wait_host) (history_of active_history) interleaved of
        Inr l \<Rightarrow> l | Inl _ \<Rightarrow> fresh_ledger)"

lemma interleaved_run:
  "run_steps (wait_step sample_wait_host) (history_of active_history) interleaved =
     Inr interleaved_ledger"
proof -
  have "\<not> isl (run_steps (wait_step sample_wait_host) (history_of active_history) interleaved)"
    by code_simp
  then show ?thesis
    by (cases "run_steps (wait_step sample_wait_host) (history_of active_history) interleaved")
      (simp_all add: interleaved_ledger_def)
qed

theorem native_completion_survives_witness:
  "wc_kind (av_change (advanced interleaved_ledger (observe (reading Src_native Subject_idle 4)))) =
     Change_completion
   \<and> av_wokeNow (advanced interleaved_ledger (observe (reading Src_native Subject_idle 4)))"
proof -
  let ?i = "observe (reading Src_native Subject_idle 4)"
  have v: "advance_wait_ledger sample_wait_host interleaved_ledger ?i =
      Inr (advanced interleaved_ledger ?i)"
    by (rule advanced_eq) code_simp
  have act: "wl_lastNativeStatus (history_of active_history) = Some Subject_active" by code_simp
  have nn: "list_all not_native interleaved" by code_simp
  have src: "wo_source (wa_observation ?i) = Src_native" "wo_status (wa_observation ?i) = Subject_idle"
    by (simp_all add: observe_def reading_def)
  have "\<not> already_surfaced interleaved_ledger
      (wait_observation_digest sample_wait_host (wa_observation ?i))"
    by code_simp
  note this[unfolded already_surfaced_iff]
  with native_completion_survives[OF sample_host_inj active_history_run act interleaved_run nn src v]
  show ?thesis by blast
qed

theorem restart_preserves_decisions_witness:
  "\<exists>u. advance_wait_ledger sample_wait_host (read_back (history_of active_history))
         (observe (reading Src_runtime Subject_blocked 1)) = Inr u \<and> av_wokeNow u"
proof -
  let ?l = "bound_wait_ledger (history_of active_history)"
    and ?i = "observe (reading Src_runtime Subject_blocked 1)"
  have v: "advance_wait_ledger sample_wait_host ?l ?i = Inr (advanced ?l ?i)"
    by (rule advanced_eq) code_simp
  have "av_wokeNow (advanced ?l ?i)" by code_simp
  with restart_preserves_decisions[OF sample_host_inj active_history_run v] show ?thesis by auto
qed

definition sample_rounds :: "wait_round list" where
  "sample_rounds =
     [\<lparr>rd_observation = Some (reading Src_runtime Subject_active 1), rd_aborted = False, rd_now = 1\<rparr>,
      \<lparr>rd_observation = Some (reading Src_runtime Subject_active 1), rd_aborted = False, rd_now = 12\<rparr>]"

theorem bounded_wait_returns_witness:
  "\<exists>u s. await_meaningful_change sample_wait_host sample_options fresh_ledger 1 sample_rounds =
       Await_returned u s \<and> ao_observationCount u \<le> 2"
proof -
  have m: "options_match sample_options fresh_ledger" by code_simp
  have acc: "\<forall>r \<in> set sample_rounds. round_accepted fresh_ledger r" by code_simp
  have en: "\<exists>r \<in> set sample_rounds. rd_aborted r \<or> deadline_at sample_options 1 \<le> rd_now r"
    by code_simp
  from bounded_wait_returns[OF m acc en, of sample_wait_host] show ?thesis
    by (auto simp: sample_rounds_def)
qed

definition sample_await_state :: await_state where
  "sample_await_state =
     result_state (await_meaningful_change sample_wait_host sample_options fresh_ledger 1 sample_rounds)"

theorem wait_ledgers_bounded_witness:
  "as_count sample_await_state = 2 \<and> length (as_persisted sample_await_state) = 1
   \<and> ledger_bounded (as_ledger sample_await_state)"
proof -
  have "result_state (await_meaningful_change sample_wait_host sample_options fresh_ledger 1
      sample_rounds) = sample_await_state"
    by (simp add: sample_await_state_def)
  note b = wait_ledgers_bounded[OF this]
  have "as_count sample_await_state = 2" "as_duplicates sample_await_state = 1" by code_simp+
  with b show ?thesis by simp
qed

definition quiet_read :: observer_read where
  "quiet_read = \<lparr>or_run = None, or_readHead = None, or_native = None, or_now = ''t1''\<rparr>"

text \<open>A process that observed the failed run and died before it could answer.\<close>

definition crashed_file :: ledger_file where
  "crashed_file =
     (case wait_observe_command sample_wait_host (Some (sample_run\<lparr>run_state := FAILED\<rparr>)) No_file
             None quiet_read ''t1'' None ''t1'' of
        Inr e \<Rightarrow> ce_file e | Inl _ \<Rightarrow> No_file)"

definition crashed_ledger :: wait_ledger where
  "crashed_ledger = (case read_ledger crashed_file of Inr (Some l) \<Rightarrow> l | _ \<Rightarrow> fresh_ledger)"

definition resumed_effect :: command_effect where
  "resumed_effect =
     (case wait_observe_command sample_wait_host (Some (sample_run\<lparr>run_state := FAILED\<rparr>)) crashed_file
             None quiet_read ''t2'' None ''t2'' of
        Inr e \<Rightarrow> e | Inl _ \<Rightarrow> undefined)"

theorem wakes_carried_until_delivered_witness:
  "cr_carriedWakeIds (ce_result resumed_effect) = map rw_id (wl_wakes crashed_ledger)
   \<and> (\<exists>g k. acknowledge_wait_delivery (ce_result resumed_effect) (ce_file resumed_effect) = Inr g \<and>
         read_ledger g = Inr (Some k) \<and>
         set (map rw_id (pending_wait_wakes k)) \<inter>
           set (cr_carriedWakeIds (ce_result resumed_effect)) = {})"
proof -
  have f: "read_ledger crashed_file = Inr (Some crashed_ledger)" by code_simp
  have len: "length (wl_wakes crashed_ledger) < 200" by code_simp
  have w: "hd (wl_wakes crashed_ledger) \<in> set (pending_wait_wakes crashed_ledger)" by code_simp
  have e: "wait_observe_command sample_wait_host (Some (sample_run\<lparr>run_state := FAILED\<rparr>)) crashed_file
             None quiet_read ''t2'' None ''t2'' = Inr resumed_effect"
    by code_simp
  have "cr_carriedWakeIds (ce_result resumed_effect) = map rw_id (wl_wakes crashed_ledger)"
    by code_simp
  with wakes_carried_until_delivered[OF f len w e] show ?thesis by blast
qed

end
