(* ===== verification/Run_Store.thy ===== *)
theory Run_Store
  imports Native_Merge Implementation_Packet Telemetry_Projection
begin

text \<open>
  The durable run store (\<^verbatim>\<open>src/store/json-file-store.ts\<close>): which runs it reads, the guards of
  every write, compare-and-swap, and its directory as a list of named files. The type of a
  run already says what the validator asks of its shape; what remains are the conditions on
  values. Locks, paths and fsync are not modelled: an operation is atomic. A file is a run
  or corrupt, and the canonical JSON the code compares is equality of runs.
\<close>

section \<open>Indexing\<close>

definition at_index :: "'a list \<Rightarrow> int \<Rightarrow> 'a option" where
  "at_index xs i = (if 0 \<le> i \<and> nat i < length xs then Some (xs ! nat i) else None)"

lemma at_index_Some [simp]: "at_index xs (int n) = (if n < length xs then Some (xs ! n) else None)"
  by (simp add: at_index_def)

lemma at_index_SomeD: "at_index xs i = Some x \<Longrightarrow> \<exists>n < length xs. i = int n \<and> xs ! n = x"
  by (auto simp: at_index_def split: if_splits intro!: exI[of _ "nat i"])

section \<open>Values\<close>

record store_host =
  sh_oracle :: oracle_host
  sh_packet :: packet_host
  sh_packet_digest :: "implementation_packet \<Rightarrow> string"
  sh_configured :: "completion_namespace \<Rightarrow> bool"

definition execution_storable :: "resolved_execution \<Rightarrow> bool" where
  "execution_storable e \<longleftrightarrow>
     \<not> blank (ex_revision e) \<and> \<not> blank (ex_executor e) \<and> is_safe_integer (ex_timeoutMs e)
     \<and> 0 < ex_timeoutMs e \<and> ex_timeoutMs e \<le> MAX_EXECUTION_TIMEOUT_MS
     \<and> absent_or (\<lambda>m. m \<noteq> []) (ex_model e)
     \<and> absent_or (\<lambda>x. x \<noteq> Inherited_property) (ex_reasoningEffort e)"

definition bootstrap_storable :: "target \<Rightarrow> bootstrap_identity \<Rightarrow> bool" where
  "bootstrap_storable t b \<longleftrightarrow>
     bootstrap_matches_target b t
     \<and> list_all (\<lambda>s. \<not> blank s)
         [b_owner b, b_repo b, b_baseBranch b, b_baseSha b, b_branch b, b_workspacePath b]
     \<and> positive (b_issueNumber b)"

definition pull_request_storable :: "pull_request_identity \<Rightarrow> bool" where
  "pull_request_storable p \<longleftrightarrow> positive (pr_number p) \<and> \<not> blank (pr_headSha p)"

definition agent_result_storable :: "agent_result \<Rightarrow> bool" where
  "agent_result_storable a \<longleftrightarrow>
     absent_or is_repair_executor_identity (a_executor a) \<and> absent_or (\<lambda>s. s \<noteq> []) (a_sessionId a)
     \<and> absent_or (\<lambda>d. 0 \<le> d) (a_durationMs a)
     \<and> absent_or is_provider_execution_telemetry (a_telemetry a)"

definition is_handoff_type :: "history_type \<Rightarrow> bool" where
  "is_handoff_type t \<longleftrightarrow> t = Applied T_repair_executor_handoff \<or> t = Applied T_repair_executor_continued"

definition record_storable :: "transition_record \<Rightarrow> bool" where
  "record_storable e \<longleftrightarrow>
     absent_or (\<lambda>k. tr_type e = Applied T_start_fix \<and> is_safe_integer k \<and> 0 \<le> k)
       (tr_repairAdmissionIndex e)
     \<and> (case tr_repairHandoff e of
          None \<Rightarrow> \<not> is_handoff_type (tr_type e)
        | Some h \<Rightarrow>
            is_handoff_type (tr_type e) \<and> is_repair_handoff_record h
            \<and> tr_from e = IMPLEMENTING \<and> tr_to e = IMPLEMENTING)"

definition is_valid_interrupt_context :: "workflow_state \<Rightarrow> workflow_state option \<Rightarrow> bool" where
  "is_valid_interrupt_context s from =
     (if is_interrupt_state s then present_and (\<lambda>f. \<not> is_interrupt_state f) from else from = None)"

section \<open>The coherence of the repair history\<close>

text \<open>A \<open>start_fix\<close> with a marker and the admission it names point at each other.\<close>

definition marker_ok :: "repair_admission_snapshot list \<Rightarrow> nat \<Rightarrow> transition_record \<Rightarrow> bool" where
  "marker_ok as n e =
     absent_or (\<lambda>k. is_start_fix e \<and> is_safe_integer k \<and> 0 \<le> k
       \<and> present_and (\<lambda>a. present_and (\<lambda>b. bi_admissionIndex b = k \<and> bi_startFixHistoryIndex b = int n)
            (ad_attemptBinding a)) (at_index as k)) (tr_repairAdmissionIndex e)"

definition binding_ok :: "transition_record list \<Rightarrow> nat \<Rightarrow> repair_admission_snapshot \<Rightarrow> bool" where
  "binding_ok hs k a =
     absent_or (\<lambda>b. bi_admissionIndex b = int k \<and> is_safe_integer (bi_startFixHistoryIndex b)
       \<and> present_and (\<lambda>e. is_start_fix e \<and> tr_repairAdmissionIndex e = Some (int k))
            (at_index hs (bi_startFixHistoryIndex b))) (ad_attemptBinding a)"

definition markers_distinct :: "transition_record list \<Rightarrow> bool" where
  "markers_distinct hs = distinct (List.map_filter tr_repairAdmissionIndex hs)"

text \<open>The first event after \<open>i\<close> that ends the attempt started there.\<close>

definition ends_attempt :: "transition_record \<Rightarrow> bool" where
  "ends_attempt e \<longleftrightarrow>
     tr_type e \<in> {Applied T_start_fix, Applied T_agent_succeeded, Applied T_agent_failed}"

definition next_boundary :: "transition_record list \<Rightarrow> int \<Rightarrow> nat option" where
  "next_boundary hs i = find_index (\<lambda>n e. i < int n \<and> ends_attempt e) hs"

type_synonym consumed_handoffs = "((int \<times> int) \<times> repair_executor_handoff) list"

definition handoff_key :: "repair_handoff_record \<Rightarrow> int \<times> int" where
  "handoff_key h = (hr_admissionHistoryIndex h, hr_startFixHistoryIndex h)"

definition handoff_step_ok ::
  "oracle_host \<Rightarrow> repair_admission_snapshot list \<Rightarrow> transition_record list \<Rightarrow> nat \<Rightarrow> transition_record \<Rightarrow>
   repair_handoff_record \<Rightarrow> repair_executor_handoff option \<Rightarrow> bool" where
  "handoff_step_ok host as hs n e h prior \<longleftrightarrow>
     is_repair_handoff_record h
     \<and> (if tr_type e = Applied T_repair_executor_handoff then prior = None else prior \<noteq> None)
     \<and> present_and (\<lambda>a. is_repair_admission_snapshot host a
          \<and> present_and (\<lambda>b.
               bi_admissionIndex b = hr_admissionHistoryIndex h
               \<and> bi_startFixHistoryIndex b = hr_startFixHistoryIndex h
               \<and> tr_from e = IMPLEMENTING \<and> tr_to e = IMPLEMENTING
               \<and> bi_startFixHistoryIndex b < int n
               \<and> absent_or (\<lambda>m. n < m) (next_boundary hs (bi_startFixHistoryIndex b))
               \<and> is_repair_handoff_compatible (ex_executor (ad_execution a)) b (hr_outcome h) prior)
             (ad_attemptBinding a)) (at_index as (hr_admissionHistoryIndex h))"

fun handoff_events_ok ::
  "oracle_host \<Rightarrow> repair_admission_snapshot list \<Rightarrow> transition_record list \<Rightarrow> consumed_handoffs \<Rightarrow> nat \<Rightarrow>
   transition_record list \<Rightarrow> bool" where
  "handoff_events_ok host as hs seen n [] = True"
| "handoff_events_ok host as hs seen n (e # es) =
     (case tr_repairHandoff e of
        None \<Rightarrow> handoff_events_ok host as hs seen (Suc n) es
      | Some h \<Rightarrow>
          handoff_step_ok host as hs n e h (map_of seen (handoff_key h))
          \<and> handoff_events_ok host as hs ((handoff_key h, hr_outcome h) # seen) (Suc n) es)"

text \<open>The last hand-off of the attempt the last \<open>start_fix\<close> began.\<close>

definition active_handoff :: "transition_record list \<Rightarrow> nat \<Rightarrow> repair_handoff_record option" where
  "active_handoff hs i =
     (case tr_repairAdmissionIndex (hs ! i) of
        None \<Rightarrow> None
      | Some k \<Rightarrow>
          find (\<lambda>h. hr_startFixHistoryIndex h = int i \<and> hr_admissionHistoryIndex h = k)
            (List.rev (List.map_filter tr_repairHandoff hs)))"

definition identity_matches_handoff :: "run \<Rightarrow> repair_handoff_record \<Rightarrow> bool" where
  "identity_matches_handoff r h \<longleftrightarrow>
     is_repair_handoff_record h
     \<and> (case hr_outcome h of
          Handoff_sessionless _ \<Rightarrow>
            run_executor r = None \<and> result_executor r = None \<and> result_session r = None
        | Handoff_executor e \<Rightarrow>
            present_and (\<lambda>x. is_repair_executor_identity x) (run_executor r)
            \<and> same_repair_executor_identity (run_executor r) (Some e)
            \<and> absent_or (\<lambda>x. is_repair_executor_identity x
                 \<and> same_repair_executor_identity (Some x) (Some e)) (result_executor r)
            \<and> absent_or (\<lambda>s. s = e_sessionId e) (result_session r))"

definition implementing_ok :: "oracle_host \<Rightarrow> run \<Rightarrow> bool" where
  "implementing_ok host r \<longleftrightarrow>
     run_state r \<noteq> IMPLEMENTING
     \<or> absent_or (\<lambda>i. absent_or (identity_matches_handoff r) (active_handoff (run_history r) i))
         (last_start_fix (run_history r))
       \<and> (unfinished_bound_repair_attempt r \<noteq> None \<longrightarrow> active_repair_admission host r \<noteq> None)"

definition is_repair_history_coherent :: "oracle_host \<Rightarrow> run \<Rightarrow> bool" where
  "is_repair_history_coherent host r \<longleftrightarrow>
     markers_distinct (run_history r)
     \<and> list_all (\<lambda>(n, e). marker_ok (admissions r) n e) (enumerate 0 (run_history r))
     \<and> list_all (\<lambda>(k, a). binding_ok (run_history r) k a) (enumerate 0 (admissions r))
     \<and> handoff_events_ok host (admissions r) (run_history r) [] 0 (run_history r)
     \<and> implementing_ok host r"

section \<open>A run that can be read\<close>

definition results_storable :: "run \<Rightarrow> bool" where
  "results_storable r \<longleftrightarrow>
     absent_or agent_result_storable (run_agentResult r)
     \<and> absent_or is_repair_executor_identity (run_executor r)
     \<and> absent_or (bootstrap_storable (run_target r)) (run_bootstrap r)
     \<and> absent_or pull_request_storable (run_pullRequest r)
     \<and> absent_or (\<lambda>p. absent_or (\<lambda>h. pr_headSha p = h) (run_headSha r)) (run_pullRequest r)
     \<and> absent_or (\<lambda>v. absent_or is_provider_execution_telemetry (r_telemetry v)) (run_reviewResult r)
     \<and> absent_or is_validation_result_coherent (run_validationResult r)
     \<and> absent_or (\<lambda>v. absent_or (\<lambda>h. v_headSha v = h) (run_headSha r)) (run_validationResult r)"

definition is_run :: "store_host \<Rightarrow> run \<Rightarrow> bool" where
  "is_run h r \<longleftrightarrow>
     absent_or (\<lambda>s. \<not> blank s) (run_dispatchClaimId r)
     \<and> list_all record_storable (run_history r)
     \<and> absent_or execution_storable (run_execution r)
     \<and> absent_or is_repair_task_shape_authority (run_repairTaskShapeAuthority r)
     \<and> list_all (is_repair_admission_snapshot (sh_oracle h)) (admissions r)
     \<and> results_storable r
     \<and> absent_or is_run_telemetry (run_telemetry r)
     \<and> native_merge_coherent (sh_oracle h) r
     \<and> implementation_authority_coherent (sh_packet h) (sh_packet_digest h) r
     \<and> native_review_coherent (sh_oracle h) True r \<and> native_lead_coherent (sh_oracle h) True r
     \<and> is_repair_history_coherent (sh_oracle h) r
     \<and> is_valid_interrupt_context (run_state r) (run_interruptedFrom r)"

section \<open>Authentication\<close>

definition proof_accepted :: "store_host \<Rightarrow> bool \<Rightarrow> completion_namespace \<Rightarrow> completion_proof option \<Rightarrow> bool" where
  "proof_accepted h writing ns p =
     absent_or (\<lambda>p. valid_completion_proof p
       \<and> (if sh_configured h ns then oh_bound (sh_oracle h) p else \<not> writing)) p"

text \<open>An acceptance whose request has a bound proof repeats the authenticated disposition.\<close>

definition acceptance_authentic :: "store_host \<Rightarrow> native_lead \<Rightarrow> lead_acceptance \<Rightarrow> bool" where
  "acceptance_authentic h l a =
     (case find (\<lambda>q. li_requestId (lr_identity q) = la_requestId a) (nl_requests l) of
        None \<Rightarrow> True
      | Some q \<Rightarrow>
          absent_or (\<lambda>p. sh_configured h Ns_lead \<longrightarrow>
            (case authenticated_completion_evidence (sh_oracle h) (Lead_requested (lr_identity q))
                    (lr_terminalDigest q) (lr_completionProof q) Ns_lead of
               Some (Lead_terminal e) \<Rightarrow> lt_id e = la_receiptId a \<and> lt_disposition e = la_disposition a
             | _ \<Rightarrow> False)) (lr_completionProof q))"

definition authenticate_native_run :: "store_host \<Rightarrow> bool \<Rightarrow> run \<Rightarrow> bool" where
  "authenticate_native_run h writing r \<longleftrightarrow>
     absent_or (\<lambda>l. list_all (\<lambda>q. proof_accepted h writing Ns_review (rr_completionProof q)) (nr_requests l))
       (run_nativeReview r)
     \<and> absent_or (\<lambda>l. list_all (\<lambda>q. proof_accepted h writing Ns_lead (lr_completionProof q)) (nl_requests l)
          \<and> list_all (acceptance_authentic h l) (nl_acceptances l)) (run_nativeLead r)"

end
