(* ===== verification/Store_Operations.thy ===== *)
theory Store_Operations
  imports Run_Store "HOL-Library.AList" "HOL-Library.List_Lexorder"
begin

text \<open>
  The operations of the JSON file store (\<^verbatim>\<open>JsonFileStore\<close> in
  \<^verbatim>\<open>src/store/json-file-store.ts\<close>, with \<^verbatim>\<open>assertNativeLeadTransition\<close> of
  \<^verbatim>\<open>src/oracle/native-lead.ts\<close>): create, read, update, compare-and-swap, list and delete over
  a directory of named files, each guard in the code's order. The per-run lock makes every
  operation atomic; the lock itself, paths and fsync are not modelled. The main facts are that
  the history and the admissions of a stored run only grow, whoever writes, and that a
  compare-and-swap from a stale snapshot never succeeds.
\<close>

section \<open>Guards of a write\<close>

definition added_admissions :: "run \<Rightarrow> run \<Rightarrow> repair_admission_snapshot list" where
  "added_admissions previous next = drop (length (admissions previous)) (admissions next)"

definition added_history :: "run \<Rightarrow> run \<Rightarrow> transition_record list" where
  "added_history previous next = drop (length (run_history previous)) (run_history next)"

definition is_fix_record :: "transition_record \<Rightarrow> bool" where
  "is_fix_record e \<longleftrightarrow> tr_type e = Applied T_start_fix"

text \<open>What one added admission must be: inside the shared budget, consuming the disposition of
  the previous run, and written together with the \<open>start_fix\<close> it admits.\<close>

definition added_admission_ok ::
  "oracle_host \<Rightarrow> run \<Rightarrow> run \<Rightarrow> repair_admission_snapshot \<Rightarrow> bool" where
  "added_admission_ok host previous next a \<longleftrightarrow>
     absent_or (\<lambda>limit. ad_budgetLimit a = Some limit \<and> start_fixes (run_history previous) < limit)
       (Option.bind (run_nativeReview previous) nr_repairLimit)
     \<and> ((run_nativeReview previous \<noteq> None \<or> run_nativeLead previous \<noteq> None)
          \<and> present_and (\<lambda>v. r_verdict v = Request_changes) (run_reviewResult previous)
        \<longrightarrow> lead_consumption_valid host previous (ad_leadDisposition a))
     \<and> (ad_leadDisposition a \<noteq> None \<longrightarrow>
          (case added_history previous next of
             [] \<Rightarrow> False
           | e # _ \<Rightarrow> is_fix_record e
               \<and> tr_repairAdmissionIndex e = Some (int (length (admissions previous))))
          \<and> present_and (\<lambda>b. bi_startFixHistoryIndex b = int (length (run_history previous)))
               (ad_attemptBinding a)
          \<and> length (added_admissions previous next) = 1)"

definition native_lead_transition_ok :: "oracle_host \<Rightarrow> run \<Rightarrow> run \<Rightarrow> bool" where
  "native_lead_transition_ok host previous next \<longleftrightarrow>
     (added_admissions previous next \<noteq> [] \<or> list_ex is_fix_record (added_history previous next)
        \<longrightarrow> \<not> unresolved_native_repair_history host previous
          \<and> \<not> unresolved_native_repair_history host next)
     \<and> list_all (added_admission_ok host previous next) (added_admissions previous next)
     \<and> (run_nativeReview previous \<noteq> None \<and> list_ex is_fix_record (added_history previous next)
        \<longrightarrow> length (added_admissions previous next) = 1)"

datatype store_error =
    Unsafe_run_id
  | Run_exists
  | Run_missing
  | Run_unreadable
  | Different_run_ids
  | Proof_unauthenticated
  | Authority_rewritten
  | Merge_rewritten
  | Lead_rewritten
  | Review_rewritten
  | Lead_transition_refused
  | Admissions_rewritten
  | History_rewritten

definition merge_write_ok :: "oracle_host \<Rightarrow> run option \<Rightarrow> run \<Rightarrow> bool" where
  "merge_write_ok host current r \<longleftrightarrow>
     native_merge_coherent host r \<and> absent_or (\<lambda>c. native_merge_progresses host c r) current"

definition lead_write_ok :: "oracle_host \<Rightarrow> run option \<Rightarrow> run \<Rightarrow> bool" where
  "lead_write_ok host current r \<longleftrightarrow>
     native_lead_coherent host False r
     \<and> absent_or (\<lambda>c. native_lead_progresses host (run_nativeLead c) (run_nativeLead r)) current"

definition review_write_ok :: "oracle_host \<Rightarrow> run option \<Rightarrow> run \<Rightarrow> bool" where
  "review_write_ok host current r \<longleftrightarrow>
     native_review_coherent host False r
     \<and> absent_or (\<lambda>c. native_review_progresses host (run_nativeReview c) (run_nativeReview r)) current"

definition stored_admissions :: "run option \<Rightarrow> repair_admission_snapshot list" where
  "stored_admissions r = (case r of None \<Rightarrow> [] | Some c \<Rightarrow> admissions c)"

definition stored_history :: "run option \<Rightarrow> transition_record list" where
  "stored_history r = (case r of None \<Rightarrow> [] | Some c \<Rightarrow> run_history c)"

text \<open>The guards \<open>update\<close> and \<open>updateIfUnchanged\<close> share, over the run read from the file.\<close>

definition write_guards :: "store_host \<Rightarrow> run option \<Rightarrow> run \<Rightarrow> store_error option" where
  "write_guards h current r = first_error
     [fail_if (\<not> authenticate_native_run h True r) Proof_unauthenticated,
      fail_if (\<not> merge_write_ok (sh_oracle h) current r) Merge_rewritten,
      fail_if (\<not> lead_write_ok (sh_oracle h) current r) Lead_rewritten,
      fail_if (\<not> review_write_ok (sh_oracle h) current r) Review_rewritten,
      fail_if (\<not> implementation_authority_progresses (sh_packet h) (sh_packet_digest h) current r)
        Authority_rewritten,
      fail_if (\<not> absent_or (\<lambda>c. native_lead_transition_ok (sh_oracle h) c r) current)
        Lead_transition_refused,
      fail_if (\<not> is_prefix_of (stored_admissions current) (admissions r)) Admissions_rewritten,
      fail_if (\<not> is_prefix_of (stored_history current) (run_history r)) History_rewritten]"

lemma write_guards_keep:
  "write_guards h current r = None \<Longrightarrow>
   is_prefix_of (stored_history current) (run_history r)
   \<and> is_prefix_of (stored_admissions current) (admissions r)"
  by (simp add: write_guards_def first_error_None_iff)

section \<open>The directory\<close>

datatype stored_file = File_run run | File_corrupt

type_synonym run_directory = "(string \<times> stored_file) list"

definition safe_id :: "string \<Rightarrow> bool" where
  "safe_id s \<longleftrightarrow> s \<noteq> [] \<and> all_in (ALPHANUM @ ''._-'') s"

definition read_file :: "store_host \<Rightarrow> string \<Rightarrow> stored_file \<Rightarrow> store_error + run" where
  "read_file h i f =
     (case f of
        File_corrupt \<Rightarrow> Inl Run_unreadable
      | File_run r \<Rightarrow>
          (if is_run h r \<and> run_id r = i \<and> authenticate_native_run h False r then Inr r
           else Inl Run_unreadable))"

definition read_current :: "store_host \<Rightarrow> run_directory \<Rightarrow> string \<Rightarrow> store_error + run option" where
  "read_current h d i =
     (case map_of d i of
        None \<Rightarrow> Inr None
      | Some f \<Rightarrow> (case read_file h i f of Inl e \<Rightarrow> Inl e | Inr r \<Rightarrow> Inr (Some r)))"

definition store_read :: "store_host \<Rightarrow> run_directory \<Rightarrow> string \<Rightarrow> store_error + run option" where
  "store_read h d i = (if \<not> safe_id i then Inl Unsafe_run_id else read_current h d i)"

definition put_file :: "run \<Rightarrow> run_directory \<Rightarrow> run_directory" where
  "put_file r d = AList.update (run_id r) (File_run r) d"

definition create_guards :: "store_host \<Rightarrow> run \<Rightarrow> store_error option" where
  "create_guards h r = first_error
     [fail_if (\<not> authenticate_native_run h True r) Proof_unauthenticated,
      fail_if (\<not> implementation_authority_progresses (sh_packet h) (sh_packet_digest h) None r)
        Authority_rewritten,
      fail_if (\<not> native_merge_coherent (sh_oracle h) r) Merge_rewritten,
      fail_if (\<not> native_lead_coherent (sh_oracle h) False r) Lead_rewritten,
      fail_if (\<not> native_review_coherent (sh_oracle h) False r) Review_rewritten]"

definition store_create :: "store_host \<Rightarrow> run_directory \<Rightarrow> run \<Rightarrow> store_error + run_directory" where
  "store_create h d r =
     (case first_error [create_guards h r, fail_if (\<not> safe_id (run_id r)) Unsafe_run_id,
             fail_if (map_of d (run_id r) \<noteq> None) Run_exists] of
        Some e \<Rightarrow> Inl e
      | None \<Rightarrow> Inr (put_file r d))"

definition store_update :: "store_host \<Rightarrow> run_directory \<Rightarrow> run \<Rightarrow> store_error + run_directory" where
  "store_update h d r =
     (case store_read h d (run_id r) of
        Inl e \<Rightarrow> Inl e
      | Inr current \<Rightarrow>
          (case write_guards h current r of Some e \<Rightarrow> Inl e | None \<Rightarrow> Inr (put_file r d)))"

text \<open>\<open>updateIfUnchanged\<close>: the file must exist; a run that differs from the expected one is
  not an error.\<close>

definition store_swap ::
  "store_host \<Rightarrow> run_directory \<Rightarrow> run \<Rightarrow> run \<Rightarrow> store_error + run_directory \<times> bool" where
  "store_swap h d expected r =
     (if run_id expected \<noteq> run_id r then Inl Different_run_ids
      else case store_read h d (run_id r) of
        Inl e \<Rightarrow> Inl e
      | Inr None \<Rightarrow> Inl Run_unreadable
      | Inr (Some c) \<Rightarrow>
          (if c \<noteq> expected then Inr (d, False)
           else case write_guards h (Some c) r of
             Some e \<Rightarrow> Inl e
           | None \<Rightarrow> Inr (put_file r d, True)))"

definition store_delete :: "run_directory \<Rightarrow> string \<Rightarrow> store_error + run_directory" where
  "store_delete d i =
     (if \<not> safe_id i then Inl Unsafe_run_id
      else if map_of d i = None then Inl Run_missing
      else Inr (AList.delete i d))"

definition file_name_order :: "string \<times> stored_file \<Rightarrow> nat list" where
  "file_name_order e = map of_char (fst e @ ''.json'')"

fun read_all :: "store_host \<Rightarrow> run_directory \<Rightarrow> store_error + run list" where
  "read_all h [] = Inr []"
| "read_all h ((i, f) # rest) =
     (case read_file h i f of
        Inl e \<Rightarrow> Inl e
      | Inr r \<Rightarrow> (case read_all h rest of Inl e \<Rightarrow> Inl e | Inr rs \<Rightarrow> Inr (r # rs)))"

definition store_list :: "store_host \<Rightarrow> run_directory \<Rightarrow> store_error + run list" where
  "store_list h d = read_all h (sort_key file_name_order d)"

section \<open>The store as a machine\<close>

datatype store_write = Create run | Update run | Swap run run

fun store_step :: "store_host \<Rightarrow> run_directory \<Rightarrow> store_write \<Rightarrow> store_error + run_directory" where
  "store_step h d (Create r) = store_create h d r"
| "store_step h d (Update r) = store_update h d r"
| "store_step h d (Swap expected r) =
     (case store_swap h d expected r of Inl e \<Rightarrow> Inl e | Inr (d', _) \<Rightarrow> Inr d')"

definition stored_run :: "string \<Rightarrow> run_directory \<Rightarrow> run option" where
  "stored_run i d = (case map_of d i of Some (File_run r) \<Rightarrow> Some r | _ \<Rightarrow> None)"

lemma stored_run_put: "stored_run i (put_file r d) = (if i = run_id r then Some r else stored_run i d)"
  by (simp add: stored_run_def put_file_def update_conv')

lemma read_current_stored: "read_current h d i = Inr c \<Longrightarrow> stored_run i d = c"
  by (auto simp: read_current_def stored_run_def read_file_def split: option.splits stored_file.splits if_splits sum.splits)

lemma store_read_stored: "store_read h d i = Inr c \<Longrightarrow> stored_run i d = c"
  by (auto simp: store_read_def read_current_stored split: if_splits)

text \<open>What every accepted write does to the run stored under a name.\<close>

lemma store_step_stored:
  assumes "store_step h d w = Inr d'"
  shows "stored_run i d' = stored_run i d
    \<or> (\<exists>r. stored_run i d' = Some r \<and> is_prefix_of (stored_history (stored_run i d)) (run_history r)
         \<and> is_prefix_of (stored_admissions (stored_run i d)) (admissions r))"
proof (cases w)
  case (Create r)
  with assms have "map_of d (run_id r) = None" and "d' = put_file r d"
    by (auto simp: store_create_def first_error_None_iff split: option.splits)
  moreover from this have "stored_run (run_id r) d = None"
    by (simp add: stored_run_def)
  ultimately show ?thesis
    by (cases "i = run_id r") (auto simp: stored_run_put stored_history_def stored_admissions_def is_prefix_of_def)
next
  case (Update r)
  with assms store_read_stored[of h d "run_id r"] write_guards_keep[of h _ r] show ?thesis
    by (auto simp: store_update_def stored_run_put split: sum.splits option.splits)
next
  case (Swap expected r)
  with assms store_read_stored[of h d "run_id r"] write_guards_keep[of h _ r] show ?thesis
    by (fastforce simp: store_swap_def stored_run_put split: sum.splits option.splits if_splits)
qed

lemma store_step_history:
  "store_step h d w = Inr d' \<Longrightarrow> \<exists>es. stored_history (stored_run i d') = stored_history (stored_run i d) @ es"
  using store_step_stored[of h d w d' i] by (auto simp: stored_history_def is_prefix_of_iff)

lemma store_step_admissions:
  "store_step h d w = Inr d' \<Longrightarrow> \<exists>as. stored_admissions (stored_run i d') = stored_admissions (stored_run i d) @ as"
  using store_step_stored[of h d w d' i] by (auto simp: stored_admissions_def is_prefix_of_iff)

interpretation histories: logged_machine "store_step h" "\<lambda>_. True" "\<lambda>d. stored_history (stored_run i d)"
  for h i
  by unfold_locales (auto dest: store_step_history)

interpretation audit: logged_machine "store_step h" "\<lambda>_. True" "\<lambda>d. stored_admissions (stored_run i d)"
  for h i
  by unfold_locales (auto dest: store_step_admissions)

section \<open>Guarantees\<close>

lemma histories_grow:
  "\<exists>es. stored_history (stored_run i (foldl (settle (store_step h)) d ws)) = stored_history (stored_run i d) @ es"
  by (rule histories.settles_log) simp

lemma audits_grow:
  "\<exists>as. stored_admissions (stored_run i (foldl (settle (store_step h)) d ws)) = stored_admissions (stored_run i d) @ as"
  by (rule audit.settles_log) simp

text \<open>The audit of a run is append-only: whatever sequence of creations, updates and
  compare-and-swaps any number of writers attempt, the history and the admissions stored for a
  run keep everything they held and only grow at the end.\<close>

theorem stored_audit_append_only:
  "(\<exists>es. stored_history (stored_run i (foldl (settle (store_step h)) d ws))
          = stored_history (stored_run i d) @ es)
   \<and> (\<exists>as. stored_admissions (stored_run i (foldl (settle (store_step h)) d ws))
          = stored_admissions (stored_run i d) @ as)"
  using histories_grow audits_grow by blast

text \<open>A swap that succeeds wrote, and found the run it expected.\<close>

lemma store_swap_written:
  assumes "store_swap h d expected r = Inr (d', True)"
  shows "run_id expected = run_id r" and "stored_run (run_id r) d = Some expected"
    and "stored_run (run_id r) d' = Some r"
proof -
  from assms show ids: "run_id expected = run_id r"
    by (auto simp: store_swap_def split: if_splits)
  with assms obtain c where "store_read h d (run_id r) = Inr (Some c)" and "c = expected"
      and "d' = put_file r d"
    by (auto simp: store_swap_def split: sum.splits option.splits if_splits)
  then show "stored_run (run_id r) d = Some expected" and "stored_run (run_id r) d' = Some r"
    using store_read_stored by (auto simp: stored_run_put)
qed

lemma store_swap_unchanged: "store_swap h d expected r = Inr (d', False) \<Longrightarrow> d' = d"
  by (auto simp: store_swap_def split: sum.splits option.splits if_splits)

text \<open>C18. No lost update: once a compare-and-swap has appended to the history of a run, no
  compare-and-swap that still expects the snapshot from before succeeds again, whatever creates,
  updates and swaps other writers do in between; it leaves the directory as it is. Deleting a
  run and creating the identical one again, which nothing in the program does, is outside.\<close>

theorem stale_snapshot_never_wins:
  assumes "store_swap h d expected r = Inr (d', True)"
    and "length (run_history expected) < length (run_history r)"
  shows "store_swap h (foldl (settle (store_step h)) d' ws) expected s \<noteq> Inr (d'', True)"
proof
  let ?d = "foldl (settle (store_step h)) d' ws"
  assume stale: "store_swap h ?d expected s = Inr (d'', True)"
  have id: "run_id s = run_id r"
    using store_swap_written(1)[OF assms(1)] store_swap_written(1)[OF stale] by simp
  obtain es where "stored_history (stored_run (run_id r) ?d)
      = stored_history (stored_run (run_id r) d') @ es"
    using histories_grow by blast
  then have "run_history expected = run_history r @ es"
    using store_swap_written(2)[OF stale] store_swap_written(3)[OF assms(1)]
    by (simp add: id stored_history_def)
  with assms(2) show False by simp
qed

section \<open>A stored run\<close>

definition plain_store_host :: store_host where
  "plain_store_host = \<lparr>sh_oracle = sample_host, sh_packet = plain_packet_host,
     sh_packet_digest = (\<lambda>_. ''digest''), sh_configured = (\<lambda>_. False)\<rparr>"

definition started_run :: run where
  "started_run = next_run sample_host sample_run (bare_input T_start) ''t1'' IMPLEMENTING"

definition sample_directory :: run_directory where
  "sample_directory = [(''run-1'', File_run sample_run)]"

text \<open>A run without native ledgers and original authority asks nothing of the native guards.\<close>

definition plain_run :: "run \<Rightarrow> bool" where
  "plain_run r \<longleftrightarrow>
     run_nativeReview r = None \<and> run_nativeLead r = None \<and> run_mergeAttempt r = None
     \<and> run_implementationAuthority r = None
     \<and> list_all (\<lambda>a. ad_leadDisposition a = None) (admissions r)
     \<and> list_all (\<lambda>e. tr_nativeLeadStop e = None) (run_history r)"

lemma no_dispositions:
  "list_all (\<lambda>a. ad_leadDisposition a = None) (admissions r) \<Longrightarrow> consumed_dispositions r = []"
  by (simp add: consumed_dispositions_def List.map_filter_def list_all_iff filter_empty_conv)

lemma plain_run_guards:
  assumes "plain_run r"
  shows "authenticate_native_run h b r" and "native_merge_coherent host r"
    and "native_lead_coherent host b r" and "native_review_coherent host b r"
    and "implementation_authority_coherent ph dg r"
    and "\<not> unresolved_native_repair_history host r"
  using assms
  by (simp_all add: plain_run_def authenticate_native_run_def native_merge_coherent_def
      native_lead_coherent_def native_review_coherent_def implementation_authority_coherent_def
      unresolved_native_repair_history_def unresolved_native_review_def unresolved_native_lead_def
      lead_requests_def no_dispositions list_all_iff)

lemma plain_write_guards:
  assumes "plain_run c" and "plain_run r"
    and "is_prefix_of (admissions c) (admissions r)" and "is_prefix_of (run_history c) (run_history r)"
  shows "write_guards h (Some c) r = None"
proof -
  have "ad_leadDisposition a = None" if "a \<in> set (added_admissions c r)" for a
    using that assms(2) by (auto simp: added_admissions_def plain_run_def list_all_iff dest: in_set_dropD)
  then have "native_lead_transition_ok host c r" for host
    using assms(1,2) plain_run_guards(6)[OF assms(1)] plain_run_guards(6)[OF assms(2)]
    by (auto simp: native_lead_transition_ok_def added_admission_ok_def plain_run_def list_all_iff)
  moreover have "merge_write_ok host (Some c) r \<and> lead_write_ok host (Some c) r \<and> review_write_ok host (Some c) r" for host
    using assms(1,2) plain_run_guards(2-4)[OF assms(2)]
    by (simp add: merge_write_ok_def lead_write_ok_def review_write_ok_def native_merge_progresses_def
        carries_native_def native_lead_progresses_def native_review_progresses_def plain_run_def)
  moreover have "implementation_authority_progresses ph dg (Some c) r" for ph dg
    using assms(1,2) plain_run_guards(5)[OF assms(2)]
    by (simp add: implementation_authority_progresses_def plain_run_def)
  ultimately show ?thesis
    using assms(3,4) plain_run_guards(1)[OF assms(2)]
    by (simp add: write_guards_def first_error_None_iff stored_admissions_def stored_history_def)
qed

lemma sample_run_plain: "plain_run sample_run" "plain_run started_run"
  by (simp_all add: plain_run_def sample_run_def create_run_def started_run_def next_run_def Let_def
      admissions_def transition_entry_def bare_input_def)

lemma sample_run_readable: "is_run plain_store_host sample_run"
proof -
  have "is_repair_history_coherent sample_host sample_run"
    by (simp add: is_repair_history_coherent_def sample_run_def create_run_def admissions_def
        markers_distinct_def implementing_ok_def)
  moreover have "results_storable sample_run" "is_valid_interrupt_context (run_state sample_run) (run_interruptedFrom sample_run)"
    by (simp_all add: results_storable_def sample_run_def create_run_def is_valid_interrupt_context_def is_interrupt_state_def)
  ultimately show ?thesis
    using fresh_telemetry_ok plain_run_guards[OF sample_run_plain(1)]
    by (simp add: is_run_def plain_store_host_def) (simp add: sample_run_def create_run_def admissions_def)
qed

lemma sample_swap:
  "store_swap plain_store_host sample_directory sample_run started_run
     = Inr (put_file started_run sample_directory, True)"
proof -
  have ids: "run_id sample_run = ''run-1''" "run_id started_run = ''run-1''"
    by (simp_all add: sample_run_def create_run_def started_run_def next_run_def Let_def)
  have "store_read plain_store_host sample_directory ''run-1'' = Inr (Some sample_run)"
    using sample_run_readable plain_run_guards(1)[OF sample_run_plain(1)]
    by (simp add: store_read_def read_current_def read_file_def sample_directory_def ids) code_simp
  moreover have "write_guards plain_store_host (Some sample_run) started_run = None"
    using sample_run_plain by (rule plain_write_guards)
      (simp_all add: sample_run_def create_run_def started_run_def next_run_def Let_def admissions_def is_prefix_of_def)
  ultimately show ?thesis
    by (simp add: store_swap_def ids)
qed

theorem stale_snapshot_never_wins_witness:
  "store_swap plain_store_host
     (foldl (settle (store_step plain_store_host)) (put_file started_run sample_directory)
        [Create sample_run, Update started_run]) sample_run sample_run \<noteq> Inr (sample_directory, True)"
  by (rule stale_snapshot_never_wins[OF sample_swap])
    (simp add: sample_run_def create_run_def started_run_def next_run_def Let_def)

end
