(* ===== verification/Merge_Protocol.thy ===== *)
theory Merge_Protocol
  imports Store_Operations GitHub_Types Dispatch_Queue
begin

text \<open>
  The native merge (\<^verbatim>\<open>src/workflow/merge.ts\<close>: \<^verbatim>\<open>initiateNativeMerge\<close>,
  \<^verbatim>\<open>observeNativeMerge\<close>, \<^verbatim>\<open>qualifiedMergeIntegration\<close>) as steps of any number of
  processes over the run store. A step is the code between two awaits, so whatever other
  processes write in between is another step; a process may stop at every await, as a fence
  that throws, a lost claim or a crash makes it. What GitHub and the repository answer is an
  argument of the step that reads it. Squash requests are recorded in a log.

  The result: over all processes and restarts at most one squash is ever submitted for a run,
  and only for the pull request and HEAD of an attempt the store already holds as possibly
  submitted.
\<close>

section \<open>Preparing\<close>

record merge_environment =
  me_store :: store_host
  me_clock :: dispatch_host

record merge_context =
  mx_policy :: merge_policy
  mx_missionId :: string
  mx_laneId :: string
  mx_generation :: int

text \<open>The run, its accepted review and validation, and the live pull request agree with the policy.\<close>

definition snapshot_pull_matches :: "merge_policy \<Rightarrow> run \<Rightarrow> live_pull \<Rightarrow> bool" where
  "snapshot_pull_matches p r s \<longleftrightarrow>
     lp_state s = Pull_open
     \<and> Some (lp_number s) = map_option pr_number (run_pullRequest r)
     \<and> lp_baseRef s = Some (mp_baseBranch p)
     \<and> same_repository_ref (lp_baseRepository s) (mp_owner p) (mp_repo p)
     \<and> same_repository_ref (lp_headRepository s) (mp_owner p) (mp_repo p)
     \<and> lp_headRef s = map_option source_branch (run_bootstrap r)"

definition merge_candidate_ready ::
  "oracle_host \<Rightarrow> merge_policy \<Rightarrow> run \<Rightarrow> string option \<Rightarrow> live_pull option \<Rightarrow> bool" where
  "merge_candidate_ready host p r head snapshot \<longleftrightarrow>
     run_state r = MERGE_READY \<and> native_review_coherent host False r
     \<and> present_and (\<lambda>a. ri_policyRevision (ra_identity a) = mp_reviewPolicyRevision p)
         (Option.bind (run_nativeReview r) nr_accepted)
     \<and> run_bootstrap r \<noteq> None
     \<and> present_and (\<lambda>h. h \<noteq> [] \<and> head = Some h) (run_headSha r)
     \<and> present_and (snapshot_pull_matches p r) snapshot
     \<and> present_and (\<lambda>v. l_configRevision (v_local v) = Some (mp_localValidationRevision p)
          \<and> h_policyRevision (v_hosted v) = Some (mp_hostedValidationRevision p)) (run_validationResult r)"

definition native_work_open :: "oracle_host \<Rightarrow> run \<Rightarrow> bool" where
  "native_work_open host r \<longleftrightarrow>
     unresolved_native_review host r \<or> unresolved_native_lead host r \<or> native_lead_stopped r"

text \<open>What the default branch and the candidate tree show: drift and a base that is no ancestor
  park the run.\<close>

record integration_base =
  ib_branch :: string
  ib_headSha :: string

record merge_candidate =
  mc_baseIsAncestor :: bool
  mc_treeSha :: string

definition base_drifted :: "merge_policy \<Rightarrow> run \<Rightarrow> live_pull \<Rightarrow> integration_base \<Rightarrow> bool" where
  "base_drifted p r s m \<longleftrightarrow>
     ib_branch m \<noteq> mp_baseBranch p \<or> Some (ib_headSha m) \<noteq> map_option b_baseSha (run_bootstrap r)
     \<or> lp_baseSha s \<noteq> ib_headSha m"

definition must_park ::
  "merge_policy \<Rightarrow> run \<Rightarrow> live_pull \<Rightarrow> integration_base \<Rightarrow> merge_candidate \<Rightarrow> bool" where
  "must_park p r s m c \<longleftrightarrow>
     base_drifted p r s m \<or> \<not> mc_baseIsAncestor c \<or> \<not> is_sha (mc_treeSha c)"

definition park_reason :: "merge_policy \<Rightarrow> run \<Rightarrow> live_pull \<Rightarrow> integration_base \<Rightarrow> string" where
  "park_reason p r s m =
     (if base_drifted p r s m
      then ''Merge preparation observed default/PR/bootstrap base drift; explicit integration disposition and fresh validation/review are required.''
      else ''Merge preparation cannot prove the bootstrap base is an ancestor of the validated source tree.'')"

definition parked_run :: "oracle_host \<Rightarrow> run \<Rightarrow> string \<Rightarrow> string \<Rightarrow> run option" where
  "parked_run host r reason now =
     (case apply_transition host r ((bare_input T_wait_dependency)\<lparr>in_reason := Some reason\<rparr>) now None of
        Inl _ \<Rightarrow> None | Inr s \<Rightarrow> Some s)"

definition or_empty :: "string option \<Rightarrow> string" where
  "or_empty s = (case s of None \<Rightarrow> [] | Some t \<Rightarrow> t)"

definition new_merge_identity ::
  "oracle_host \<Rightarrow> merge_context \<Rightarrow> run \<Rightarrow> live_pull \<Rightarrow> integration_base \<Rightarrow> merge_candidate \<Rightarrow> string \<Rightarrow>
   string \<Rightarrow> merge_identity" where
  "new_merge_identity host x r s m c attempt now =
     \<lparr>mi_attemptId = attempt, mi_runId = run_id r, mi_claimId = or_empty (run_dispatchClaimId r),
      mi_missionId = mx_missionId x, mi_laneId = mx_laneId x, mi_generation = mx_generation x,
      mi_pullRequestNumber = lp_number s, mi_sourceBranch = or_empty (lp_headRef s),
      mi_headSha = or_empty (run_headSha r), mi_baseSha = ib_headSha m, mi_treeSha = mc_treeSha c,
      mi_reviewDigest = or_empty (map_option ra_digest (Option.bind (run_nativeReview r) nr_accepted)),
      mi_validationDigest = oh_validation_digest host (run_validationResult r),
      mi_policy = mx_policy x, mi_preparedAt = now\<rparr>"

definition with_attempt :: "run \<Rightarrow> merge_attempt \<Rightarrow> run" where
  "with_attempt r a = r\<lparr>run_mergeAttempt := Some a\<rparr>"

definition new_attempt :: "merge_identity \<Rightarrow> string \<Rightarrow> merge_attempt" where
  "new_attempt i now =
     \<lparr>ma_identity = i, ma_submissionPossible = False, ma_issuanceGeneration = None, ma_observations = 0,
      ma_nextObservationAt = now, ma_observedMerged = None, ma_qualification = None, ma_reason = None\<rparr>"

text \<open>The retained attempt is still the one this owner may issue.\<close>

definition attempt_issuable :: "oracle_host \<Rightarrow> merge_context \<Rightarrow> run \<Rightarrow> string \<Rightarrow> merge_attempt \<Rightarrow> bool" where
  "attempt_issuable host x r tree a \<longleftrightarrow>
     \<not> ma_submissionPossible a
     \<and> mi_generation (ma_identity a) \<le> mx_generation x
     \<and> mi_missionId (ma_identity a) = mx_missionId x
     \<and> mi_policy (ma_identity a) = mx_policy x
     \<and> mi_treeSha (ma_identity a) = tree
     \<and> mi_validationDigest (ma_identity a) = oh_validation_digest host (run_validationResult r)
     \<and> Some (mi_reviewDigest (ma_identity a))
         = map_option ra_digest (Option.bind (run_nativeReview r) nr_accepted)"

definition issued_attempt :: "merge_context \<Rightarrow> merge_attempt \<Rightarrow> merge_attempt" where
  "issued_attempt x a = a\<lparr>ma_submissionPossible := True, ma_issuanceGeneration := Some (mx_generation x)\<rparr>"

section \<open>Observing\<close>

record merge_commit =
  gc_sha :: string
  gc_treeSha :: string
  gc_parents :: "string list"

text \<open>What the reads of \<open>qualifiedMergeIntegration\<close> answer, in the order they are asked.\<close>

record integration_reads =
  ir_pull :: live_pull
  ir_commit :: merge_commit
  ir_main :: integration_base
  ir_ancestor :: bool

definition merged_pull_matches :: "merge_attempt \<Rightarrow> live_pull \<Rightarrow> bool" where
  "merged_pull_matches a p \<longleftrightarrow>
     (let i = ma_identity a; q = mi_policy i in
        lp_state p = Pull_merged \<and> lp_number p = mi_pullRequestNumber i \<and> lp_headSha p = mi_headSha i
        \<and> lp_headRef p = Some (mi_sourceBranch i) \<and> lp_baseRef p = Some (mp_baseBranch q)
        \<and> same_repository_ref (lp_headRepository p) (mp_owner q) (mp_repo q)
        \<and> same_repository_ref (lp_baseRepository p) (mp_owner q) (mp_repo q)
        \<and> present_and is_sha (lp_mergeCommitSha p)
        \<and> absent_or (\<lambda>m. lp_mergeCommitSha p = Some (fst m)) (ma_observedMerged a))"

definition qualified_merge_integration ::
  "oracle_host \<Rightarrow> run \<Rightarrow> integration_reads \<Rightarrow> string \<Rightarrow> merge_qualification option" where
  "qualified_merge_integration host r e now =
     (case run_mergeAttempt r of
        None \<Rightarrow> None
      | Some a \<Rightarrow>
          (let i = ma_identity a; commit = ir_commit e; main = ir_main e in
           if ma_submissionPossible a \<and> native_merge_coherent host r
              \<and> merged_pull_matches a (ir_pull e)
              \<and> Some (gc_sha commit) = lp_mergeCommitSha (ir_pull e)
              \<and> gc_parents commit = [mi_baseSha i] \<and> gc_treeSha commit = mi_treeSha i
              \<and> ib_branch main = mp_baseBranch (mi_policy i) \<and> is_sha (ib_headSha main)
              \<and> ir_ancestor e
           then Some \<lparr>mq_mergeCommitSha = gc_sha commit, mq_parentSha = mi_baseSha i,
                      mq_treeSha = gc_treeSha commit, mq_mainSha = ib_headSha main, mq_observedAt = now\<rparr>
           else None))"

definition may_observe :: "oracle_host \<Rightarrow> run \<Rightarrow> string \<Rightarrow> merge_context \<Rightarrow> bool" where
  "may_observe host r now x \<longleftrightarrow>
     native_merge_reentry host r now
     \<and> present_and (\<lambda>a. mx_missionId x = mi_missionId (ma_identity a)
          \<and> mx_laneId x = mi_laneId (ma_identity a)
          \<and> present_and (\<lambda>g. g \<le> mx_generation x) (ma_issuanceGeneration a)) (run_mergeAttempt r)"

definition observing_attempt :: "dispatch_host \<Rightarrow> string \<Rightarrow> merge_attempt \<Rightarrow> merge_attempt option" where
  "observing_attempt clock now a =
     map_option (\<lambda>t. a\<lparr>ma_observations := ma_observations a + 1, ma_nextObservationAt := t\<rparr>)
       (lease_until clock now MERGE_BACKOFF_MS)"

definition recorded_merge :: "live_pull \<Rightarrow> string \<Rightarrow> merge_attempt \<Rightarrow> merge_attempt" where
  "recorded_merge p now a =
     a\<lparr>ma_observedMerged := map_option (\<lambda>s. (s, now)) (lp_mergeCommitSha p)\<rparr>"

definition settled_attempt :: "merge_qualification option \<Rightarrow> string \<Rightarrow> merge_attempt \<Rightarrow> merge_attempt" where
  "settled_attempt q reason a =
     (case q of
        Some v \<Rightarrow> a\<lparr>ma_qualification := Some v,
                    ma_reason := Some ''Actual squash and fresh default-branch ancestry qualified.''\<rparr>
      | None \<Rightarrow> a\<lparr>ma_reason := Some reason\<rparr>)"

definition observation_reason :: "merge_attempt \<Rightarrow> string" where
  "observation_reason a =
     (case ma_reason a of
        Some s \<Rightarrow> s
      | None \<Rightarrow> ''Merge outcome unknown; original attempt retained without resubmission.'')"

section \<open>Processes\<close>

datatype merge_phase =
    Merge_idle
  | Merge_prepared merge_context run string
  | Merge_issued merge_context run
  | Merge_fenced merge_context run
  | Merge_sent merge_context run
  | Merge_observing merge_context run
  | Merge_settling run "merge_qualification option" string
  | Merge_finished

record squash_request =
  sq_run :: string
  sq_repository :: repository_ref
  sq_number :: int
  sq_expectedHead :: string

record merge_world =
  mw_directory :: run_directory
  mw_squashes :: "squash_request list"
  mw_phases :: "nat \<Rightarrow> merge_phase"

definition enter_phase :: "nat \<Rightarrow> merge_phase \<Rightarrow> merge_world \<Rightarrow> merge_world" where
  "enter_phase p f w = w\<lparr>mw_phases := (mw_phases w)(p := f)\<rparr>"

text \<open>A save is a compare-and-swap from the run in hand; one that fails throws and ends the process.\<close>

definition save_then :: "merge_environment \<Rightarrow> nat \<Rightarrow> run \<Rightarrow> run \<Rightarrow> merge_phase \<Rightarrow> merge_world \<Rightarrow> merge_world" where
  "save_then e p r s f w =
     (case store_swap (me_store e) (mw_directory w) r s of
        Inr (d, True) \<Rightarrow> enter_phase p f (w\<lparr>mw_directory := d\<rparr>)
      | _ \<Rightarrow> enter_phase p Merge_finished w)"

text \<open>The reads a process makes before it writes: the live snapshot, the default branch and the
  candidate tree.\<close>

record merge_reads =
  mr_headSha :: "string option"
  mr_pull :: "live_pull option"
  mr_main :: integration_base
  mr_candidate :: merge_candidate
  mr_attemptId :: string
  mr_now :: string

definition begin_merge ::
  "merge_environment \<Rightarrow> nat \<Rightarrow> merge_context \<Rightarrow> run \<Rightarrow> merge_reads \<Rightarrow> merge_world \<Rightarrow> merge_world" where
  "begin_merge e p x r v w =
     (let host = sh_oracle (me_store e); tree = mc_treeSha (mr_candidate v) in
      case mr_pull v of
        None \<Rightarrow> enter_phase p Merge_finished w
      | Some s \<Rightarrow>
          (if native_work_open host r
              \<or> \<not> merge_candidate_ready host (mx_policy x) r (mr_headSha v) (mr_pull v)
           then enter_phase p Merge_finished w
           else if must_park (mx_policy x) r s (mr_main v) (mr_candidate v)
           then (case parked_run host r (park_reason (mx_policy x) r s (mr_main v)) (mr_now v) of
                   None \<Rightarrow> enter_phase p Merge_finished w
                 | Some q \<Rightarrow> save_then e p r q Merge_finished w)
           else case run_mergeAttempt r of
             Some _ \<Rightarrow> enter_phase p (Merge_prepared x r tree) w
           | None \<Rightarrow>
               (let i = new_merge_identity host x r s (mr_main v) (mr_candidate v) (mr_attemptId v) (mr_now v);
                    q = with_attempt r (new_attempt i (mr_now v)) in
                save_then e p r q (Merge_prepared x q tree) w)))"

definition issue_merge ::
  "merge_environment \<Rightarrow> nat \<Rightarrow> merge_context \<Rightarrow> run \<Rightarrow> string \<Rightarrow> merge_world \<Rightarrow> merge_world" where
  "issue_merge e p x r tree w =
     (case run_mergeAttempt r of
        None \<Rightarrow> enter_phase p Merge_finished w
      | Some a \<Rightarrow>
          (if attempt_issuable (sh_oracle (me_store e)) x r tree a
           then (let q = with_attempt r (issued_attempt x a) in save_then e p r q (Merge_issued x q) w)
           else enter_phase p Merge_finished w))"

definition squash_of :: "merge_context \<Rightarrow> run \<Rightarrow> merge_attempt \<Rightarrow> squash_request" where
  "squash_of x r a =
     \<lparr>sq_run = run_id r, sq_repository = (mp_owner (mx_policy x), mp_repo (mx_policy x)),
      sq_number = mi_pullRequestNumber (ma_identity a), sq_expectedHead = mi_headSha (ma_identity a)\<rparr>"

definition submit_squash :: "nat \<Rightarrow> merge_context \<Rightarrow> run \<Rightarrow> merge_world \<Rightarrow> merge_world" where
  "submit_squash p x r w =
     (case run_mergeAttempt r of
        None \<Rightarrow> enter_phase p Merge_finished w
      | Some a \<Rightarrow>
          enter_phase p (Merge_sent x r) (w\<lparr>mw_squashes := mw_squashes w @ [squash_of x r a]\<rparr>))"

definition begin_observation ::
  "merge_environment \<Rightarrow> nat \<Rightarrow> merge_context \<Rightarrow> run \<Rightarrow> string \<Rightarrow> merge_world \<Rightarrow> merge_world" where
  "begin_observation e p x r now w =
     (if \<not> may_observe (sh_oracle (me_store e)) r now x then enter_phase p Merge_finished w
      else case Option.bind (run_mergeAttempt r) (observing_attempt (me_clock e) now) of
        None \<Rightarrow> enter_phase p Merge_finished w
      | Some b \<Rightarrow> save_then e p r (with_attempt r b) (Merge_observing x (with_attempt r b)) w)"

definition rejected_merge :: string where
  "rejected_merge = ''Merge outcome remains unqualified''"

text \<open>One read of the pull request: a merged one is recorded first, then qualified. A failure of
  either is a reason, never an error.\<close>

definition read_observation ::
  "merge_environment \<Rightarrow> nat \<Rightarrow> merge_context \<Rightarrow> run \<Rightarrow> live_pull option \<Rightarrow> integration_reads option \<Rightarrow> string \<Rightarrow>
   merge_world \<Rightarrow> merge_world" where
  "read_observation e p x r pull reads now w =
     (case run_mergeAttempt r of
        None \<Rightarrow> enter_phase p Merge_finished w
      | Some a \<Rightarrow>
          (let host = sh_oracle (me_store e); retained = observation_reason a;
               qualify = (\<lambda>s v. case Option.bind reads (\<lambda>g. qualified_merge_integration host s g now) of
                  None \<Rightarrow> enter_phase p (Merge_settling s None rejected_merge) v
                | Some q \<Rightarrow> enter_phase p (Merge_settling s (Some q) retained) v) in
           case pull of
             None \<Rightarrow> enter_phase p (Merge_settling r None retained) w
           | Some s \<Rightarrow>
               (if lp_state s = Pull_merged \<and> present_and is_sha (lp_mergeCommitSha s)
                then if ma_observedMerged a \<noteq> None then qualify r w
                     else let q = with_attempt r (recorded_merge s now a) in
                       (case store_swap (me_store e) (mw_directory w) r q of
                          Inr (d, True) \<Rightarrow> qualify q (w\<lparr>mw_directory := d\<rparr>)
                        | _ \<Rightarrow> enter_phase p (Merge_settling r None rejected_merge) w)
                else if lp_state s = Pull_closed
                then enter_phase p (Merge_settling r None
                       ''PR is closed unmerged; retained attempt requires explicit disposition.'') w
                else enter_phase p (Merge_settling r None retained) w)))"

definition settle_merge ::
  "merge_environment \<Rightarrow> nat \<Rightarrow> run \<Rightarrow> merge_qualification option \<Rightarrow> string \<Rightarrow> merge_world \<Rightarrow> merge_world" where
  "settle_merge e p r q reason w =
     (case run_mergeAttempt r of
        None \<Rightarrow> enter_phase p Merge_finished w
      | Some a \<Rightarrow> save_then e p r (with_attempt r (settled_attempt q reason a)) Merge_finished w)"

datatype merge_move =
    Begin_merge merge_context run merge_reads
  | Recover_merge merge_context run string
  | Issue_merge
  | Fence_merge
  | Submit_squash
  | Binding_refused string
  | Await_merge string
  | Read_merge "live_pull option" "integration_reads option" string
  | Settle_merge
  | Abandon_merge

datatype merge_fault = Out_of_order | Store_refused store_error

definition process_step ::
  "merge_environment \<Rightarrow> nat \<Rightarrow> merge_phase \<Rightarrow> merge_move \<Rightarrow> merge_world \<Rightarrow> merge_fault + merge_world" where
  "process_step e p phase move w =
    (case move of
       Begin_merge x r v \<Rightarrow>
         (case phase of Merge_idle \<Rightarrow> Inr (begin_merge e p x r v w) | _ \<Rightarrow> Inl Out_of_order)
     | Recover_merge x r now \<Rightarrow>
         (case phase of Merge_idle \<Rightarrow> Inr (begin_observation e p x r now w) | _ \<Rightarrow> Inl Out_of_order)
     | Issue_merge \<Rightarrow>
         (case phase of Merge_prepared x r tree \<Rightarrow> Inr (issue_merge e p x r tree w) | _ \<Rightarrow> Inl Out_of_order)
     | Fence_merge \<Rightarrow>
         (case phase of Merge_issued x r \<Rightarrow> Inr (save_then e p r r (Merge_fenced x r) w) | _ \<Rightarrow> Inl Out_of_order)
     | Submit_squash \<Rightarrow>
         (case phase of Merge_fenced x r \<Rightarrow> Inr (submit_squash p x r w) | _ \<Rightarrow> Inl Out_of_order)
     | Binding_refused reason \<Rightarrow>
         (case phase of Merge_sent x r \<Rightarrow> Inr (settle_merge e p r None reason w) | _ \<Rightarrow> Inl Out_of_order)
     | Await_merge now \<Rightarrow>
         (case phase of Merge_sent x r \<Rightarrow> Inr (begin_observation e p x r now w) | _ \<Rightarrow> Inl Out_of_order)
     | Read_merge pull reads now \<Rightarrow>
         (case phase of
            Merge_observing x r \<Rightarrow> Inr (read_observation e p x r pull reads now w)
          | _ \<Rightarrow> Inl Out_of_order)
     | Settle_merge \<Rightarrow>
         (case phase of
            Merge_settling r q reason \<Rightarrow> Inr (settle_merge e p r q reason w)
          | _ \<Rightarrow> Inl Out_of_order)
     | Abandon_merge \<Rightarrow> Inr (enter_phase p Merge_finished w))"

text \<open>One step of the system: a move of some process, or any write of anyone else.\<close>

datatype merge_event = Move nat merge_move | Foreign_write store_write

fun merge_step :: "merge_environment \<Rightarrow> merge_world \<Rightarrow> merge_event \<Rightarrow> merge_fault + merge_world" where
  "merge_step e w (Move p m) = process_step e p (mw_phases w p) m w"
| "merge_step e w (Foreign_write u) =
     (case store_step (me_store e) (mw_directory w) u of
        Inl x \<Rightarrow> Inl (Store_refused x)
      | Inr d \<Rightarrow> Inr (w\<lparr>mw_directory := d\<rparr>))"

definition merge_start :: "run_directory \<Rightarrow> merge_world" where
  "merge_start d = \<lparr>mw_directory = d, mw_squashes = [], mw_phases = (\<lambda>_. Merge_idle)\<rparr>"

section \<open>What the store keeps of an attempt\<close>

definition submitted_attempt :: "oracle_host \<Rightarrow> run \<Rightarrow> merge_attempt \<Rightarrow> bool" where
  "submitted_attempt host r a \<longleftrightarrow>
     run_mergeAttempt r = Some a \<and> ma_submissionPossible a \<and> native_merge_coherent host r"

definition backed :: "oracle_host \<Rightarrow> run_directory \<Rightarrow> string \<Rightarrow> merge_identity \<Rightarrow> bool" where
  "backed host d i m \<longleftrightarrow>
     (\<exists>r a. stored_run i d = Some r \<and> submitted_attempt host r a \<and> ma_identity a = m)"

lemma write_guards_merge: "write_guards h c r = None \<Longrightarrow> merge_write_ok (sh_oracle h) c r"
  by (simp add: write_guards_def first_error_None_iff)

text \<open>What an accepted write leaves: the stored run unchanged, or one the merge guard accepted.\<close>

lemma store_step_merge:
  assumes "store_step h d w = Inr d'" and "stored_run i d = Some c"
  shows "stored_run i d' = Some c \<or> (\<exists>r. stored_run i d' = Some r \<and> merge_write_ok (sh_oracle h) (Some c) r)"
proof (cases w)
  case (Create r)
  with assms have "map_of d (run_id r) = None" and "d' = put_file r d"
    by (auto simp: store_create_def first_error_None_iff split: option.splits)
  moreover from this assms(2) have "i \<noteq> run_id r"
    by (auto simp: stored_run_def)
  ultimately show ?thesis
    using assms(2) by (simp add: stored_run_put)
next
  case (Update r)
  with assms store_read_stored[of h d "run_id r"] write_guards_merge[of h _ r] show ?thesis
    by (auto simp: store_update_def stored_run_put split: sum.splits option.splits)
next
  case (Swap expected r)
  with assms store_read_stored[of h d "run_id r"] write_guards_merge[of h _ r] show ?thesis
    by (fastforce simp: store_swap_def stored_run_put split: sum.splits option.splits if_splits)
qed

lemma store_swap_step: "store_swap h d r s = Inr (d', b) \<Longrightarrow> store_step h d (Swap r s) = Inr d'"
  by simp

lemma backed_step:
  assumes "store_step h d w = Inr d'" and "backed (sh_oracle h) d i m"
  shows "backed (sh_oracle h) d' i m"
proof -
  from assms(2) obtain r a where r: "stored_run i d = Some r" "submitted_attempt (sh_oracle h) r a" "ma_identity a = m"
    by (auto simp: backed_def)
  from store_step_merge[OF assms(1) r(1)] show ?thesis
  proof
    assume "\<exists>s. stored_run i d' = Some s \<and> merge_write_ok (sh_oracle h) (Some r) s"
    with r show ?thesis
      by (fastforce simp: backed_def submitted_attempt_def merge_write_ok_def native_merge_progresses_def
          merge_attempt_progresses_def present_and_iff)
  qed (use r in \<open>auto simp: backed_def\<close>)
qed

lemma backed_swap: "store_swap h d r s = Inr (d', b) \<Longrightarrow> backed (sh_oracle h) d i m \<Longrightarrow> backed (sh_oracle h) d' i m"
  by (rule backed_step[OF store_swap_step])

text \<open>A swap that makes an attempt submitted found it not submitted, and leaves it backed.\<close>

lemma swap_submits:
  assumes "store_swap h d r s = Inr (d', True)" and "run_mergeAttempt s = Some a" and "ma_submissionPossible a"
  shows "backed (sh_oracle h) d' (run_id s) (ma_identity a)"
    and "run_mergeAttempt r = Some b \<Longrightarrow> \<not> ma_submissionPossible b \<Longrightarrow> \<not> backed (sh_oracle h) d (run_id s) m"
proof -
  note written = store_swap_written[OF assms(1)]
  from assms(1) have "native_merge_coherent (sh_oracle h) s"
    using write_guards_merge[of h _ s]
    by (auto simp: store_swap_def merge_write_ok_def split: sum.splits option.splits if_splits)
  with assms(2,3) written(3) show "backed (sh_oracle h) d' (run_id s) (ma_identity a)"
    by (auto simp: backed_def submitted_attempt_def)
  show "run_mergeAttempt r = Some b \<Longrightarrow> \<not> ma_submissionPossible b \<Longrightarrow> \<not> backed (sh_oracle h) d (run_id s) m"
    using written(2) by (auto simp: backed_def submitted_attempt_def)
qed

section \<open>At most one squash\<close>

text \<open>A process between the durable submission and the request holds the right to squash.\<close>

fun right_of :: "merge_phase \<Rightarrow> (merge_context \<times> run) option" where
  "right_of (Merge_issued x r) = Some (x, r)"
| "right_of (Merge_fenced x r) = Some (x, r)"
| "right_of _ = None"

definition right_backed :: "oracle_host \<Rightarrow> run_directory \<Rightarrow> merge_context \<times> run \<Rightarrow> bool" where
  "right_backed host d t \<longleftrightarrow>
     (\<exists>a. run_mergeAttempt (snd t) = Some a \<and> mi_policy (ma_identity a) = mx_policy (fst t)
        \<and> backed host d (run_id (snd t)) (ma_identity a))"

definition squash_backed :: "oracle_host \<Rightarrow> run_directory \<Rightarrow> squash_request \<Rightarrow> bool" where
  "squash_backed host d q \<longleftrightarrow>
     (\<exists>m. backed host d (sq_run q) m
        \<and> sq_repository q = (mp_owner (mi_policy m), mp_repo (mi_policy m))
        \<and> sq_number q = mi_pullRequestNumber m \<and> sq_expectedHead q = mi_headSha m)"

definition merge_safe :: "oracle_host \<Rightarrow> merge_world \<Rightarrow> bool" where
  "merge_safe host w \<longleftrightarrow>
     distinct (map sq_run (mw_squashes w))
     \<and> (\<forall>q \<in> set (mw_squashes w). squash_backed host (mw_directory w) q)
     \<and> (\<forall>p t. right_of (mw_phases w p) = Some t \<longrightarrow>
          right_backed host (mw_directory w) t \<and> run_id (snd t) \<notin> sq_run ` set (mw_squashes w)
          \<and> (\<forall>p' t'. right_of (mw_phases w p') = Some t' \<and> run_id (snd t') = run_id (snd t) \<longrightarrow> p' = p))"

lemma merge_safe_phase:
  assumes "merge_safe host w" and "right_of f = None"
  shows "merge_safe host (enter_phase p f w)"
  using assms by (simp add: merge_safe_def enter_phase_def)

lemma merge_safe_write:
  assumes "merge_safe (sh_oracle h) w" and "store_step h (mw_directory w) u = Inr d"
  shows "merge_safe (sh_oracle h) (w\<lparr>mw_directory := d\<rparr>)"
  using assms(1) backed_step[OF assms(2)]
  unfolding merge_safe_def squash_backed_def right_backed_def by simp blast

lemma merge_safe_save:
  assumes "merge_safe (sh_oracle (me_store e)) w" and "right_of f = None"
  shows "merge_safe (sh_oracle (me_store e)) (save_then e p r s f w)"
  using assms merge_safe_write[OF assms(1) store_swap_step]
  by (auto simp: save_then_def merge_safe_phase split: sum.splits bool.splits)

lemma merge_safeD:
  assumes "merge_safe host w"
  shows "distinct (map sq_run (mw_squashes w))"
    and "q \<in> set (mw_squashes w) \<Longrightarrow> squash_backed host (mw_directory w) q"
    and "right_of (mw_phases w p) = Some t \<Longrightarrow> right_backed host (mw_directory w) t"
    and "right_of (mw_phases w p) = Some t \<Longrightarrow> run_id (snd t) \<notin> sq_run ` set (mw_squashes w)"
    and "right_of (mw_phases w p) = Some t \<Longrightarrow> right_of (mw_phases w p') = Some t' \<Longrightarrow>
      run_id (snd t') = run_id (snd t) \<Longrightarrow> p' = p"
  using assms unfolding merge_safe_def by blast+

text \<open>A process may gain the right for a run that was not squashed and nobody else holds it for.\<close>

lemma merge_safe_gain:
  assumes safe: "merge_safe host w" and right: "right_of f = Some t"
    and backed: "right_backed host (mw_directory w) t" and fresh: "run_id (snd t) \<notin> sq_run ` set (mw_squashes w)"
    and sole: "\<And>p' t'. right_of (mw_phases w p') = Some t' \<Longrightarrow> run_id (snd t') = run_id (snd t) \<Longrightarrow> p' = p"
  shows "merge_safe host (enter_phase p f w)"
proof -
  have right_cases: "q = p \<and> s = t \<or> q \<noteq> p \<and> right_of (mw_phases w q) = Some s"
    if "right_of (mw_phases (enter_phase p f w) q) = Some s" for q s
    using that right by (auto simp: enter_phase_def split: if_splits)
  have same: "mw_directory (enter_phase p f w) = mw_directory w" "mw_squashes (enter_phase p f w) = mw_squashes w"
    by (simp_all add: enter_phase_def)
  show ?thesis
    unfolding merge_safe_def same
  proof (intro conjI allI impI ballI)
    fix q s q' s'
    assume "right_of (mw_phases (enter_phase p f w) q) = Some s"
    note q = right_cases[OF this]
    show "right_backed host (mw_directory w) s" "run_id (snd s) \<notin> sq_run ` set (mw_squashes w)"
      using q merge_safeD(3,4)[OF safe] backed fresh by blast+
    assume "right_of (mw_phases (enter_phase p f w) q') = Some s' \<and> run_id (snd s') = run_id (snd s)"
    with right_cases[of q' s'] q sole merge_safeD(5)[OF safe] show "q' = q" by metis
  qed (use merge_safeD(1,2)[OF safe] in auto)
qed

text \<open>Issuing gives the right to squash to a process of a run nobody has it for.\<close>

lemma merge_safe_issue:
  assumes safe: "merge_safe (sh_oracle (me_store e)) w"
  shows "merge_safe (sh_oracle (me_store e)) (issue_merge e p x r tree w)"
proof -
  let ?host = "sh_oracle (me_store e)"
  show ?thesis
  proof (cases "run_mergeAttempt r")
    case None
    then show ?thesis using safe by (simp add: issue_merge_def merge_safe_phase)
  next
    case (Some a)
    let ?q = "with_attempt r (issued_attempt x a)"
    show ?thesis
    proof (cases "attempt_issuable ?host x r tree a
        \<and> (\<exists>d. store_swap (me_store e) (mw_directory w) r ?q = Inr (d, True))")
      case False
      then show ?thesis
        using safe Some by (auto simp: issue_merge_def Let_def save_then_def merge_safe_phase split: sum.splits bool.splits)
    next
      case True
      then obtain d where issuable: "attempt_issuable ?host x r tree a"
          and swap: "store_swap (me_store e) (mw_directory w) r ?q = Inr (d, True)" by blast
      have q: "run_mergeAttempt ?q = Some (issued_attempt x a)" "run_id ?q = run_id r"
          "ma_submissionPossible (issued_attempt x a)" "ma_identity (issued_attempt x a) = ma_identity a"
        by (simp_all add: with_attempt_def issued_attempt_def)
      have new: "backed ?host d (run_id r) (ma_identity a)"
        using swap_submits(1)[OF swap q(1,3)] q by simp
      have old: "\<not> backed ?host (mw_directory w) (run_id r) m" for m
        using swap_submits(2)[OF swap q(1,3) Some, of m] issuable q by (simp add: attempt_issuable_def)
      have fresh: "run_id r \<notin> sq_run ` set (mw_squashes w)"
        using old merge_safeD(2)[OF safe] unfolding squash_backed_def by (metis imageE)
      have sole: "run_id (snd t) \<noteq> run_id r" if "right_of (mw_phases w p') = Some t" for p' t
        using old merge_safeD(3)[OF safe that] unfolding right_backed_def by metis
      have written: "merge_safe ?host (w\<lparr>mw_directory := d\<rparr>)"
        by (rule merge_safe_write[OF safe store_swap_step[OF swap]])
      have "right_backed ?host d (x, ?q)"
        using new issuable q by (auto simp: right_backed_def attempt_issuable_def)
      then have "merge_safe ?host (enter_phase p (Merge_issued x ?q) (w\<lparr>mw_directory := d\<rparr>))"
        by (intro merge_safe_gain[OF written]) (use fresh sole q(2) in force)+
      then show ?thesis
        using Some issuable swap by (simp add: issue_merge_def save_then_def)
    qed
  qed
qed

lemma merge_safe_fence:
  assumes safe: "merge_safe (sh_oracle (me_store e)) w" and phase: "mw_phases w p = Merge_issued x r"
  shows "merge_safe (sh_oracle (me_store e)) (save_then e p r r (Merge_fenced x r) w)"
proof (cases "\<exists>d. store_swap (me_store e) (mw_directory w) r r = Inr (d, True)")
  case False
  then show ?thesis
    using safe by (auto simp: save_then_def merge_safe_phase split: sum.splits bool.splits)
next
  case True
  then obtain d where swap: "store_swap (me_store e) (mw_directory w) r r = Inr (d, True)" by blast
  have written: "merge_safe (sh_oracle (me_store e)) (w\<lparr>mw_directory := d\<rparr>)" (is "merge_safe ?host ?w")
    by (rule merge_safe_write[OF safe store_swap_step[OF swap]])
  have token: "right_of (mw_phases ?w p) = Some (x, r)"
    by (simp add: phase)
  have "merge_safe ?host (enter_phase p (Merge_fenced x r) ?w)"
    by (rule merge_safe_gain[OF written _ merge_safeD(3,4)[OF written token]])
      (use merge_safeD(5)[OF written token] in auto)
  with swap show ?thesis by (simp add: save_then_def)
qed

lemma merge_safe_submit:
  assumes safe: "merge_safe host w" and phase: "mw_phases w p = Merge_fenced x r"
  shows "merge_safe host (submit_squash p x r w)"
proof -
  from phase have token: "right_of (mw_phases w p) = Some (x, r)" by simp
  from merge_safeD(3)[OF safe token] obtain a where a: "run_mergeAttempt r = Some a"
      "mi_policy (ma_identity a) = mx_policy x" "backed host (mw_directory w) (run_id r) (ma_identity a)"
    by (auto simp: right_backed_def)
  have fresh: "run_id r \<notin> sq_run ` set (mw_squashes w)"
    using merge_safeD(4)[OF safe token] by simp
  have new: "squash_backed host (mw_directory w) (squash_of x r a)"
    using a by (auto simp: squash_backed_def squash_of_def)
  let ?v = "enter_phase p (Merge_sent x r) (w\<lparr>mw_squashes := mw_squashes w @ [squash_of x r a]\<rparr>)"
  have others: "right_of (mw_phases w q) = Some s \<and> run_id (snd s) \<noteq> run_id r"
    if "right_of (mw_phases ?v q) = Some s" for q s
    using that merge_safeD(5)[OF safe token, of q s] by (auto simp: enter_phase_def split: if_splits)
  have "merge_safe host ?v"
    unfolding merge_safe_def
  proof (intro conjI allI impI ballI)
    fix q s q' s'
    assume "right_of (mw_phases ?v q) = Some s"
    note q = others[OF this]
    show "right_backed host (mw_directory ?v) s"
      using merge_safeD(3)[OF safe conjunct1[OF q]] by (simp add: enter_phase_def)
    show "run_id (snd s) \<notin> sq_run ` set (mw_squashes ?v)"
      using q merge_safeD(4)[OF safe, of q s] by (simp add: enter_phase_def squash_of_def)
    assume "right_of (mw_phases ?v q') = Some s' \<and> run_id (snd s') = run_id (snd s)"
    with others[of q' s'] q merge_safeD(5)[OF safe] show "q' = q" by blast
  qed (use merge_safeD(1,2)[OF safe] fresh new in \<open>auto simp: enter_phase_def squash_of_def\<close>)
  with a(1) show ?thesis by (simp add: submit_squash_def)
qed

lemma merge_safe_process:
  assumes safe: "merge_safe (sh_oracle (me_store e)) w"
    and step: "process_step e p (mw_phases w p) m w = Inr v"
  shows "merge_safe (sh_oracle (me_store e)) v"
proof -
  note plain = merge_safe_phase[OF safe] merge_safe_save[OF safe]
  have observe: "merge_safe (sh_oracle (me_store e)) (begin_observation e p x r now w)" for x r now
    by (simp add: begin_observation_def plain split: option.splits)
  have settle: "merge_safe (sh_oracle (me_store e)) (settle_merge e p r q reason w)" for r q reason
    by (simp add: settle_merge_def plain split: option.splits)
  have start: "merge_safe (sh_oracle (me_store e)) (begin_merge e p x r y w)" for x r y
    by (simp add: begin_merge_def Let_def plain split: option.splits)
  have read: "merge_safe (sh_oracle (me_store e)) (read_observation e p x r pull reads now w)" for x r pull reads now
    using merge_safe_write[OF safe store_swap_step]
    by (auto simp: read_observation_def Let_def plain merge_safe_phase split: option.splits sum.splits bool.splits)
  show ?thesis
    using step observe settle start read plain merge_safe_issue[OF safe] merge_safe_fence[OF safe] merge_safe_submit[OF safe]
    by (auto simp: process_step_def split: merge_move.splits merge_phase.splits)
qed

lemma merge_safe_step:
  "merge_safe (sh_oracle (me_store e)) w \<Longrightarrow> merge_step e w i = Inr v \<Longrightarrow> merge_safe (sh_oracle (me_store e)) v"
  using merge_safe_process merge_safe_write by (cases i) (auto split: sum.splits)

interpretation merges: guarded_machine "merge_step e" "merge_safe (sh_oracle (me_store e))" for e
  by unfold_locales (rule merge_safe_step)

lemma merge_start_safe: "merge_safe host (merge_start d)"
  by (simp add: merge_safe_def merge_start_def)

text \<open>C11. At most one squash per run: whatever any number of processes do, in any order, with
  any answers of GitHub, lost answers, crashes and recoveries, and whatever else is written to
  the store, at most one squash is submitted for a run. Each is for the repository, pull request
  and HEAD of an attempt the store still holds as possibly submitted, coherent with the stored run.\<close>

theorem squash_submitted_once:
  "let w = foldl (settle (merge_step e)) (merge_start d) events in
     distinct (map sq_run (mw_squashes w))
     \<and> list_all (squash_backed (sh_oracle (me_store e)) (mw_directory w)) (mw_squashes w)"
  using merges.settles_ok[OF merge_start_safe, of e d events]
  by (simp add: merge_safe_def list_all_iff Let_def)

end
