(* ===== verification/Dispatch_Runner.thy ===== *)
theory Dispatch_Runner
  imports Effects Dispatch_Queue GitHub_Types Native_Merge Mission_Types
begin

text \<open>
  One serial dispatch attempt, \<open>dispatchOnce\<close> of \<^verbatim>\<open>src/dispatch/runner.ts\<close>, as an effect program
  over the runtime comments, the run store, GitHub and the mission lanes. What each call answers
  is a function of the trace so far: comments may change between any two reads, and any call may
  throw. Heartbeats that fire while the work executes are calls of this trace too; their number
  is the environment's. Messages are named by constructors.
\<close>

section \<open>Calls and answers\<close>

datatype wait_kind = Wait_capacity | Wait_owner

datatype execution_answer =
    Execution_done string workflow_state bool
  | Execution_waits string wait_kind
  | Execution_throws

datatype dispatch_effect =
    Listed_comments "runtime_comment list"
  | Created_comment string string
  | Updated_comment string string
  | Listed_runs "run list"
  | Read_run string "run option"
  | Qualified_run run bool
  | Reconciled_run run "run option"
  | Read_issue target bool
  | Listed_pulls target "pull_state list"
  | Read_lane string "lane_status option"
  | Slept int
  | Executed dispatch_entry "run option" dispatch_claim execution_answer

datatype dispatch_refusal =
    Api_fault | Protocol_fault dispatch_error | Claim_without_run | Several_linked_runs | Unrelated_active_run
  | Later_unbound_run | Retirement_conflict | Unrelated_active_work | Delivery_not_settled | Lane_not_released
  | Authority_differs | Claim_changed | Claim_not_retained | Wait_run_differs | Heartbeat_failed | Execution_failed
  | Clock_invalid | No_retained_run | Invalid_idle_poll | Invalid_max_cycles

type_synonym 'a dispatching = "(dispatch_effect, dispatch_refusal, 'a) program"

type_synonym dispatch_trace = "dispatch_effect list"

record dispatch_environment =
  en_oracle :: oracle_host
  en_dates :: dispatch_host
  en_now :: "nat \<Rightarrow> dispatch_trace \<Rightarrow> string"
  en_claimId :: "dispatch_trace \<Rightarrow> string"
  en_comments :: "dispatch_trace \<Rightarrow> runtime_comment list option"
  en_create :: "string \<Rightarrow> dispatch_trace \<Rightarrow> string option"
  en_update :: "string \<Rightarrow> string \<Rightarrow> dispatch_trace \<Rightarrow> bool"
  en_runs :: "dispatch_trace \<Rightarrow> run list option"
  en_read :: "string \<Rightarrow> dispatch_trace \<Rightarrow> run option option"
  en_retired :: "run \<Rightarrow> dispatch_trace \<Rightarrow> bool"
  en_qualify :: "(run \<Rightarrow> dispatch_trace \<Rightarrow> bool option) option"
  en_reconcile :: "(run \<Rightarrow> dispatch_trace \<Rightarrow> run option option) option"
  en_issue_open :: "target \<Rightarrow> dispatch_trace \<Rightarrow> bool option"
  en_pulls :: "target \<Rightarrow> dispatch_trace \<Rightarrow> pull_state list option"
  en_lane :: "(string \<Rightarrow> dispatch_trace \<Rightarrow> lane_status option option) option"
  en_observable :: "run \<Rightarrow> string \<Rightarrow> dispatch_trace \<Rightarrow> bool"
  en_recoverable :: "run \<Rightarrow> string \<Rightarrow> dispatch_trace \<Rightarrow> bool"
  en_heartbeats :: "dispatch_trace \<Rightarrow> nat"
  en_sleep :: "int \<Rightarrow> dispatch_trace \<Rightarrow> bool"
  en_execute :: "dispatch_entry \<Rightarrow> run option \<Rightarrow> dispatch_claim \<Rightarrow> dispatch_trace \<Rightarrow> execution_answer"

record dispatch_options =
  dn_queueBody :: string
  dn_maintenanceHold :: bool
  dn_mergeRecoveryOnly :: bool
  dn_leadRecoveryOnly :: bool
  dn_owner :: string
  dn_repo :: string
  dn_leaseDurationMs :: int

datatype skip_reason =
    Active_run string workflow_state | Revised_reissue | Unproven_delivery | Previous_unsettled
  | Delivery_complete | Owner_retired | History_without_authority | Issue_not_open | Pull_already_open
  | Route_not_executable dispatch_route | Authority_unavailable | Prior_unresolved string workflow_state
  | No_retained_claim

datatype dispatch_outcome =
    Maintenance_hold
  | No_eligible_work "(int option \<times> skip_reason) list"
  | Existing_claim dispatch_claim
  | Owner_hold dispatch_entry dispatch_claim "skip_reason option"
  | Admission_wait wait_kind dispatch_entry string dispatch_claim
  | Dispatched dispatch_entry dispatch_claim string workflow_state bool

section \<open>Calls\<close>

definition current_time :: "dispatch_environment \<Rightarrow> nat \<Rightarrow> string dispatching" where
  "current_time e n = look (en_now e n)"

definition list_comments :: "dispatch_environment \<Rightarrow> runtime_comment list dispatching" where
  "list_comments e = perform Listed_comments Api_fault (en_comments e)"

definition update_comment :: "dispatch_environment \<Rightarrow> string \<Rightarrow> string \<Rightarrow> unit dispatching" where
  "update_comment e i body =
     perform (\<lambda>_. Updated_comment i body) Api_fault (\<lambda>t. if en_update e i body t then Some () else None)"

definition create_comment :: "dispatch_environment \<Rightarrow> string \<Rightarrow> string dispatching" where
  "create_comment e body = perform (\<lambda>i. Created_comment i body) Api_fault (en_create e body)"

definition list_runs :: "dispatch_environment \<Rightarrow> run list dispatching" where
  "list_runs e = perform Listed_runs Api_fault (en_runs e)"

definition read_stored_run :: "dispatch_environment \<Rightarrow> string \<Rightarrow> run option dispatching" where
  "read_stored_run e i = perform (Read_run i) Api_fault (en_read e i)"

text \<open>An absent admission registry reads as no lane.\<close>

definition read_lane_status :: "dispatch_environment \<Rightarrow> string \<Rightarrow> lane_status option dispatching" where
  "read_lane_status e i =
     (case en_lane e of None \<Rightarrow> give None | Some f \<Rightarrow> perform (Read_lane i) Api_fault (f i))"

definition answer_of :: "('a + 'b) \<Rightarrow> ('a \<Rightarrow> dispatch_refusal) \<Rightarrow> 'b dispatching" where
  "answer_of r fault = (case r of Inl x \<Rightarrow> refuse (fault x) | Inr y \<Rightarrow> give y)"

definition selected_claim :: "dispatch_environment \<Rightarrow> (string \<times> dispatch_claim) option dispatching" where
  "selected_claim e = before (list_comments e)
     (\<lambda>cs. answer_of (select_dispatch_runtime (en_dates e) cs) Protocol_fault)"

definition selects :: "(string \<times> dispatch_claim) option \<Rightarrow> string \<Rightarrow> dispatch_claim \<Rightarrow> bool" where
  "selects x i c \<longleftrightarrow> present_and (\<lambda>(j, d). j = i \<and> same_dispatch_runtime_claim d c) x"

section \<open>Writing the claim\<close>

text \<open>The claim is read, and must still be the expected one; the next one is written; the claim is
  read again, and must be the written one.\<close>

definition exact_claim ::
  "dispatch_environment \<Rightarrow> string \<Rightarrow> dispatch_claim \<Rightarrow> dispatch_refusal \<Rightarrow> dispatch_claim dispatching" where
  "exact_claim e i c fault = before (selected_claim e)
     (\<lambda>x. if selects x i c then demand fault (map_option snd x) else refuse fault)"

definition write_claim :: "dispatch_environment \<Rightarrow> string \<Rightarrow> dispatch_claim \<Rightarrow> dispatch_claim dispatching" where
  "write_claim e i c = before (update_comment e i (render_dispatch_runtime c))
     (\<lambda>_. exact_claim e i c Claim_not_retained)"

definition leased_until :: "dispatch_environment \<Rightarrow> dispatch_options \<Rightarrow> string \<Rightarrow> string dispatching" where
  "leased_until e p now = demand Clock_invalid (lease_until (en_dates e) now (dn_leaseDurationMs p))"

text \<open>The shape every change of the claim has: \<open>next\<close> builds the new claim once the old one is read.\<close>

definition replace_claim ::
  "dispatch_environment \<Rightarrow> string \<Rightarrow> dispatch_claim \<Rightarrow> dispatch_claim dispatching \<Rightarrow> dispatch_claim dispatching" where
  "replace_claim e i c next = before (exact_claim e i c Claim_changed) (\<lambda>_. before next (write_claim e i))"

definition leased_claim ::
  "dispatch_environment \<Rightarrow> dispatch_options \<Rightarrow> string \<Rightarrow> (string \<Rightarrow> dispatch_claim) \<Rightarrow> dispatch_claim dispatching" where
  "leased_claim e p now f = before (leased_until e p now) (\<lambda>lease. give (f lease))"

definition kept_alive :: "dispatch_claim \<Rightarrow> string \<Rightarrow> string \<Rightarrow> dispatch_claim" where
  "kept_alive c now lease = c\<lparr>dc_state := Claim_running, dc_heartbeatAt := now, dc_leaseUntil := lease\<rparr>"

definition refresh_claim ::
  "dispatch_environment \<Rightarrow> dispatch_options \<Rightarrow> string \<Rightarrow> dispatch_claim \<Rightarrow> dispatch_claim dispatching" where
  "refresh_claim e p i c =
     before (current_time e 0) (\<lambda>now. replace_claim e i c (leased_claim e p now (kept_alive c now)))"

fun state_for_execution :: "workflow_state \<Rightarrow> claim_state" where
  "state_for_execution MERGE_READY = Claim_merge_ready"
| "state_for_execution MERGED = Claim_merge_ready"
| "state_for_execution NEEDS_HUMAN = Claim_needs_human"
| "state_for_execution WAITING_DEPENDENCY = Claim_needs_human"
| "state_for_execution FAILED = Claim_failed"
| "state_for_execution _ = Claim_running"

definition executed_claim :: "dispatch_claim \<Rightarrow> string \<Rightarrow> workflow_state \<Rightarrow> string \<Rightarrow> string \<Rightarrow> dispatch_claim" where
  "executed_claim c r s now lease =
     c\<lparr>dc_runId := Some r, dc_state := state_for_execution s, dc_heartbeatAt := now, dc_leaseUntil := lease\<rparr>"

definition update_claim ::
  "dispatch_environment \<Rightarrow> dispatch_options \<Rightarrow> string \<Rightarrow> dispatch_claim \<Rightarrow> string \<Rightarrow> workflow_state \<Rightarrow>
   dispatch_claim dispatching" where
  "update_claim e p i c r s =
     before (current_time e 0) (\<lambda>now. replace_claim e i c (leased_claim e p now (executed_claim c r s now)))"

definition claim_options_at :: "dispatch_options \<Rightarrow> string \<Rightarrow> string \<Rightarrow> claim_options" where
  "claim_options_at p now claim =
     \<lparr>co_now = now, co_leaseDurationMs = dn_leaseDurationMs p, co_claimId = claim\<rparr>"

definition supersede_terminal_claim ::
  "dispatch_environment \<Rightarrow> dispatch_options \<Rightarrow> string \<Rightarrow> dispatch_claim \<Rightarrow> dispatch_entry \<Rightarrow> dispatch_claim dispatching" where
  "supersede_terminal_claim e p i c q =
     before (require (has_valid_dispatch_authority q) (Protocol_fault Lacks_authority)) (\<lambda>_.
       replace_claim e i c
         (before (current_time e 0) (\<lambda>now. before (look (en_claimId e)) (\<lambda>claim.
           leased_claim e p now (new_claim q (claim_options_at p now claim))))))"

definition retire_terminal_claim ::
  "dispatch_environment \<Rightarrow> string \<Rightarrow> dispatch_claim \<Rightarrow> dispatch_claim dispatching" where
  "retire_terminal_claim e i c =
     before (current_time e 0) (\<lambda>now. replace_claim e i c
       (give (c\<lparr>dc_state := Claim_retired, dc_heartbeatAt := now, dc_leaseUntil := now\<rparr>)))"

text \<open>\<open>claimDispatchEntry\<close> over the live comments.\<close>

definition claim_entry ::
  "dispatch_environment \<Rightarrow> dispatch_options \<Rightarrow> dispatch_entry \<Rightarrow> (string \<times> dispatch_claim) dispatching" where
  "claim_entry e p q =
     before (case claim_precondition q (claim_options_at p [] []) of
               None \<Rightarrow> give () | Some x \<Rightarrow> refuse (Protocol_fault x)) (\<lambda>_.
     before (selected_claim e) (\<lambda>x.
     before (require (x = None) (Protocol_fault Competing_claim)) (\<lambda>_.
     before (current_time e 0) (\<lambda>now. before (look (en_claimId e)) (\<lambda>claim.
     before (leased_claim e p now (new_claim q (claim_options_at p now claim))) (\<lambda>c.
       before (create_comment e (render_dispatch_runtime c)) (\<lambda>created.
       before (exact_claim e created c (Protocol_fault Claim_not_canonical)) (\<lambda>d. give (created, d)))))))))"

section \<open>Execution\<close>

text \<open>The admission lock that serialises a check with its write is the environment's.\<close>

definition with_exact_claim_lock ::
  "dispatch_environment \<Rightarrow> string \<Rightarrow> dispatch_claim \<Rightarrow> 'a dispatching \<Rightarrow> 'a dispatching" where
  "with_exact_claim_lock e i c m = before (exact_claim e i c Claim_changed) (\<lambda>_. m)"

text \<open>Heartbeats run one after the other; the first failure stops them.\<close>

fun beat :: "dispatch_environment \<Rightarrow> dispatch_options \<Rightarrow> string \<Rightarrow> nat \<Rightarrow> dispatch_claim \<Rightarrow> dispatch_claim dispatching" where
  "beat e p i 0 c = give c"
| "beat e p i (Suc n) c = before (with_exact_claim_lock e i c (refresh_claim e p i c)) (beat e p i n)"

definition waiting_claim :: "dispatch_claim \<Rightarrow> string \<Rightarrow> string \<Rightarrow> string \<Rightarrow> dispatch_claim" where
  "waiting_claim c r now lease =
     c\<lparr>dc_runId := Some r, dc_state := Claim_claimed, dc_heartbeatAt := now, dc_leaseUntil := lease\<rparr>"

definition retain_waiting ::
  "dispatch_environment \<Rightarrow> dispatch_options \<Rightarrow> string \<Rightarrow> dispatch_claim \<Rightarrow> string \<Rightarrow> dispatch_claim dispatching" where
  "retain_waiting e p i c r =
     before (current_time e 0) (\<lambda>heartbeat. before (current_time e 1) (\<lambda>now.
     before (leased_claim e p now (waiting_claim c r heartbeat)) (\<lambda>w.
       with_exact_claim_lock e i c (write_claim e i w))))"

definition settle_execution ::
  "dispatch_environment \<Rightarrow> dispatch_options \<Rightarrow> string \<Rightarrow> dispatch_entry \<Rightarrow> dispatch_claim \<Rightarrow> execution_answer \<Rightarrow>
   dispatch_refusal + dispatch_claim \<Rightarrow> dispatch_outcome dispatching" where
  "settle_execution e p i q c x beaten =
     (case x of
        Execution_throws \<Rightarrow> refuse Execution_failed
      | Execution_waits r kind \<Rightarrow>
          (case beaten of
             Inl _ \<Rightarrow> refuse Heartbeat_failed
           | Inr d \<Rightarrow>
               (if dc_runId d \<noteq> None \<and> dc_runId d \<noteq> Some r then refuse Wait_run_differs
                else before (retain_waiting e p i d r) (\<lambda>w. give (Admission_wait kind q r w))))
      | Execution_done r s poll \<Rightarrow>
          (case beaten of
             Inl _ \<Rightarrow> refuse Heartbeat_failed
           | Inr d \<Rightarrow> before (with_exact_claim_lock e i d (update_claim e p i d r s))
               (\<lambda>u. give (Dispatched q u r s poll))))"

definition execute_with_heartbeat ::
  "dispatch_environment \<Rightarrow> dispatch_options \<Rightarrow> string \<Rightarrow> dispatch_entry \<Rightarrow> run option \<Rightarrow> dispatch_claim \<Rightarrow>
   dispatch_outcome dispatching" where
  "execute_with_heartbeat e p i q existing c =
     before (refresh_claim e p i c) (\<lambda>active.
     before (perform (Executed q existing active) Api_fault (\<lambda>t. Some (en_execute e q existing active t))) (\<lambda>x.
     before (look (en_heartbeats e)) (\<lambda>n.
     before (caught (beat e p i n active)) (\<lambda>beaten.
       settle_execution e p i q active x beaten))))"

section \<open>Runs of an entry\<close>

definition entry_target :: "dispatch_options \<Rightarrow> dispatch_entry \<Rightarrow> target" where
  "entry_target p q = Issue (lower (dn_owner p)) (lower (dn_repo p)) (de_issue q)"

definition is_target :: "dispatch_options \<Rightarrow> dispatch_entry \<Rightarrow> run \<Rightarrow> bool" where
  "is_target p q r \<longleftrightarrow>
     (case run_target r of
        Issue owner repo n \<Rightarrow> Issue (lower owner) (lower repo) n = entry_target p q
      | Repository _ _ _ _ \<Rightarrow> False)"

definition is_active_run :: "run \<Rightarrow> bool" where
  "is_active_run r \<longleftrightarrow> run_state r \<noteq> MERGED \<and> run_state r \<noteq> FAILED"

definition is_settled_run :: "run \<Rightarrow> bool" where
  "is_settled_run r \<longleftrightarrow>
     run_state r \<in> {MERGED, MERGE_READY, NEEDS_HUMAN, WAITING_DEPENDENCY, FAILED}"

definition possibly_merged :: "run \<Rightarrow> bool" where
  "possibly_merged r \<longleftrightarrow> present_and ma_submissionPossible (run_mergeAttempt r)"

definition native_unresolved :: "dispatch_environment \<Rightarrow> run \<Rightarrow> bool" where
  "native_unresolved e r \<longleftrightarrow>
     unresolved_native_lead (en_oracle e) r \<or> unresolved_native_review (en_oracle e) r"

definition retired_for_progression :: "dispatch_environment \<Rightarrow> run \<Rightarrow> bool dispatching" where
  "retired_for_progression e r =
     before (look (en_retired e r)) (\<lambda>retired.
       if \<not> retired then give False
       else if run_state r \<noteq> MERGED
       then if native_unresolved e r \<or> possibly_merged r then refuse Retirement_conflict else give True
       else if run_nativeReview r = None \<and> run_nativeLead r = None \<and> run_mergeAttempt r = None then give True
       else case en_qualify e of
         None \<Rightarrow> give False
       | Some f \<Rightarrow> perform (Qualified_run r) Api_fault (f r))"

definition unless_retired :: "dispatch_environment \<Rightarrow> bool \<Rightarrow> run \<Rightarrow> run option dispatching" where
  "unless_retired e c r =
     (if \<not> c then give None
      else before (retired_for_progression e r) (\<lambda>b. give (if b then None else Some r)))"

definition active_run :: "dispatch_environment \<Rightarrow> dispatch_options \<Rightarrow> dispatch_entry \<Rightarrow> run option dispatching" where
  "active_run e p q =
     before (list_runs e) (first_of (\<lambda>r. unless_retired e (is_target p q r \<and> is_active_run r) r))"

definition claimed_of_runs ::
  "dispatch_options \<Rightarrow> dispatch_claim \<Rightarrow> dispatch_entry \<Rightarrow> run list \<Rightarrow> dispatch_refusal + run option" where
  "claimed_of_runs p c q rs =
     (let matching = filter (is_target p q) rs;
          mine = (\<lambda>r. run_dispatchClaimId r = Some (dc_claimId c));
          linked = filter mine matching in
      if 1 < length linked then Inl Several_linked_runs
      else if list_ex (\<lambda>r. is_active_run r \<and> \<not> mine r) matching then Inl Unrelated_active_run
      else if list_ex (\<lambda>r. dc_claimedAt c \<le> run_createdAt r \<and> \<not> mine r) matching then Inl Later_unbound_run
      else case linked of r # _ \<Rightarrow> Inr (Some r) | [] \<Rightarrow> Inr None)"

definition claimed_run ::
  "dispatch_environment \<Rightarrow> dispatch_options \<Rightarrow> dispatch_claim \<Rightarrow> dispatch_entry \<Rightarrow> run option dispatching" where
  "claimed_run e p c q =
     (case dc_runId c of
        Some i \<Rightarrow> before (read_stored_run e i) (\<lambda>r.
          if present_and (\<lambda>s. is_target p q s \<and> run_dispatchClaimId s = Some (dc_claimId c)) r
          then give r else refuse Claim_without_run)
      | None \<Rightarrow> before (list_runs e) (\<lambda>rs. answer_of (claimed_of_runs p c q rs) id))"

definition authority_revision :: "repair_task_shape_authority option \<Rightarrow> string option" where
  "authority_revision a = map_option au_revision a"

definition same_authority_revision :: "run \<Rightarrow> dispatch_entry \<Rightarrow> bool" where
  "same_authority_revision r q \<longleftrightarrow>
     authority_revision (run_repairTaskShapeAuthority r) = authority_revision (de_authority q)"

definition run_profile :: "run \<Rightarrow> string option" where
  "run_profile r = map_option (profile_text \<circ> ex_profile) (run_execution r)"

definition deliverable :: "run \<Rightarrow> dispatch_entry \<Rightarrow> bool" where
  "deliverable r q \<longleftrightarrow>
     run_dispatchClaimId r \<noteq> None \<and> run_profile r = Some (de_profile q)
     \<and> run_repairTaskShapeAuthority r \<noteq> None \<and> de_authority q \<noteq> None
     \<and> same_authority (run_repairTaskShapeAuthority r) (de_authority q)"

definition delivery_settled :: "dispatch_options \<Rightarrow> dispatch_entry \<Rightarrow> run \<Rightarrow> run \<Rightarrow> run option \<Rightarrow> bool" where
  "delivery_settled p q r settled durable \<longleftrightarrow>
     run_state settled = MERGED \<and> durable = Some settled
     \<and> run_dispatchClaimId settled = run_dispatchClaimId r \<and> run_profile settled = Some (de_profile q)
     \<and> same_authority (run_repairTaskShapeAuthority settled) (de_authority q) \<and> is_target p q settled
     \<and> run_execution settled = run_execution r \<and> run_bootstrap settled = run_bootstrap r
     \<and> run_pullRequest settled = run_pullRequest r \<and> run_headSha settled = run_headSha r"

definition unrelated_active ::
  "dispatch_environment \<Rightarrow> dispatch_options \<Rightarrow> dispatch_entry \<Rightarrow> run \<Rightarrow> run list \<Rightarrow> run option dispatching" where
  "unrelated_active e p q r =
     first_of (\<lambda>s. unless_retired e (run_id s \<noteq> run_id r \<and> is_target p q s \<and> is_active_run s) s)"

definition delivered ::
  "dispatch_environment \<Rightarrow> dispatch_options \<Rightarrow> run \<Rightarrow> dispatch_entry \<Rightarrow> bool \<Rightarrow> bool dispatching" where
  "delivered e p r q reissued =
     (case en_reconcile e of
        None \<Rightarrow> give False
      | Some f \<Rightarrow>
          (if \<not> deliverable r q then give False
           else before (list_runs e) (\<lambda>rs.
                before (unrelated_active e p q r rs) (\<lambda>other.
                before (require (other = None) Unrelated_active_work) (\<lambda>_.
                before (perform (Reconciled_run r) Api_fault (f r)) (\<lambda>settled.
                  case settled of
                    None \<Rightarrow> give False
                  | Some s \<Rightarrow>
                      before (read_stored_run e (run_id r)) (\<lambda>durable.
                      before (require (delivery_settled p q r s durable) Delivery_not_settled) (\<lambda>_.
                      before (read_lane_status e (''run:'' @ run_id r)) (\<lambda>lane.
                      before (require (en_lane e = None \<or> lane = Some Lane_released) Lane_not_released) (\<lambda>_.
                      before (perform (Read_issue (entry_target p q)) Api_fault (en_issue_open e (entry_target p q)))
                        (\<lambda>open. give (\<not> open \<or> reissued))))))))))))"

section \<open>Eligibility\<close>

text \<open>Why an entry is not offered, and whether that blocks the queue; \<open>None\<close> offers it.\<close>

type_synonym verdict = "(skip_reason \<times> bool) option"

definition entry_of_prior :: "dispatch_entry \<Rightarrow> run \<Rightarrow> dispatch_entry" where
  "entry_of_prior q r =
     \<lparr>de_issue = de_issue q, de_route = Route_codex,
      de_profile = (case run_profile r of None \<Rightarrow> [] | Some s \<Rightarrow> s),
      de_authority = run_repairTaskShapeAuthority r\<rparr>"

definition dispatch_history :: "dispatch_options \<Rightarrow> dispatch_entry \<Rightarrow> run list \<Rightarrow> run list" where
  "dispatch_history p q rs = filter (\<lambda>r. is_target p q r \<and> run_dispatchClaimId r \<noteq> None) rs"

definition unfinished_revision :: "dispatch_entry \<Rightarrow> run list \<Rightarrow> bool" where
  "unfinished_revision q history =
     list_ex (\<lambda>r. is_active_run r \<and> \<not> same_authority_revision r q) history"

definition unproven_prior :: "dispatch_environment \<Rightarrow> run list \<Rightarrow> run option dispatching" where
  "unproven_prior e = first_of (\<lambda>r. unless_retired e (run_state r \<noteq> MERGED) r)"

definition unsettled_previous ::
  "dispatch_environment \<Rightarrow> dispatch_options \<Rightarrow> dispatch_entry \<Rightarrow> run list \<Rightarrow> run option dispatching" where
  "unsettled_previous e p q =
     first_of (\<lambda>r.
       if same_authority_revision r q \<or> run_repairTaskShapeAuthority r = None then give None
       else before (retired_for_progression e r) (\<lambda>b.
         if b then give None
         else before (delivered e p r (entry_of_prior q r) True) (\<lambda>d. give (if d then None else Some r))))"

definition matching_history :: "dispatch_entry \<Rightarrow> run list \<Rightarrow> run list" where
  "matching_history q history =
     filter (\<lambda>r. same_authority_revision r q \<or> run_repairTaskShapeAuthority r = None) history"

definition same_shape :: "run \<Rightarrow> dispatch_entry \<Rightarrow> bool" where
  "same_shape r q \<longleftrightarrow>
     run_profile r = Some (de_profile q)
     \<and> map_option au_shape (run_repairTaskShapeAuthority r) = map_option au_shape (de_authority q)"

definition matching_verdict ::
  "dispatch_environment \<Rightarrow> dispatch_options \<Rightarrow> dispatch_entry \<Rightarrow> run list \<Rightarrow> verdict dispatching" where
  "matching_verdict e p q matching =
     (case matching of
        [r] \<Rightarrow>
          (if run_state r = MERGED
           then before (delivered e p r q False) (\<lambda>d.
             give (Some (if d then (Delivery_complete, False) else (History_without_authority, True))))
           else before (retired_for_progression e r) (\<lambda>b.
             give (Some (if b \<and> same_shape r q then (Owner_retired, False) else (History_without_authority, True)))))
      | _ \<Rightarrow> give (Some (History_without_authority, True)))"

definition github_verdict :: "dispatch_environment \<Rightarrow> dispatch_options \<Rightarrow> dispatch_entry \<Rightarrow> verdict dispatching" where
  "github_verdict e p q =
     (let t = entry_target p q in
      before (perform (Read_issue t) Api_fault (en_issue_open e t)) (\<lambda>open.
        if \<not> open then give (Some (Issue_not_open, False))
        else before (perform (Listed_pulls t) Api_fault (en_pulls e t)) (\<lambda>pulls.
          give (if Pull_open \<in> set pulls then Some (Pull_already_open, False) else None))))"

definition eligibility :: "dispatch_environment \<Rightarrow> dispatch_options \<Rightarrow> dispatch_entry \<Rightarrow> verdict dispatching" where
  "eligibility e p q =
     before (active_run e p q) (\<lambda>active.
       case active of
         Some r \<Rightarrow> give (Some (Active_run (run_id r) (run_state r), True))
       | None \<Rightarrow>
           before (list_runs e) (\<lambda>rs.
             let history = dispatch_history p q rs; matching = matching_history q history in
             if unfinished_revision q history then give (Some (Revised_reissue, True))
             else before (unproven_prior e history) (\<lambda>unproven.
               if unproven \<noteq> None then give (Some (Unproven_delivery, True))
               else before (unsettled_previous e p q history) (\<lambda>unsettled.
                 if unsettled \<noteq> None then give (Some (Previous_unsettled, True))
                 else if matching \<noteq> [] then matching_verdict e p q matching
                 else github_verdict e p q))))"

section \<open>The attempt\<close>

text \<open>The entries in order: the first one offered is claimed and executed.\<close>

fun try_entries ::
  "dispatch_environment \<Rightarrow> dispatch_options \<Rightarrow> (dispatch_entry \<Rightarrow> (string \<times> dispatch_claim) dispatching) \<Rightarrow>
   ((int option \<times> skip_reason) list \<Rightarrow> dispatch_outcome dispatching) \<Rightarrow> (int option \<times> skip_reason) list \<Rightarrow>
   dispatch_entry list \<Rightarrow> dispatch_outcome dispatching" where
  "try_entries e p claim finish reasons [] = finish reasons"
| "try_entries e p claim finish reasons (q # qs) =
     (if de_route q \<noteq> Route_codex
      then try_entries e p claim finish (reasons @ [(Some (de_issue q), Route_not_executable (de_route q))]) qs
      else if \<not> has_valid_dispatch_authority q
      then try_entries e p claim finish (reasons @ [(Some (de_issue q), Authority_unavailable)]) qs
      else before (eligibility e p q) (\<lambda>v.
        case v of
          Some (reason, blocked) \<Rightarrow>
            (let rs = reasons @ [(Some (de_issue q), reason)] in
             if blocked then give (No_eligible_work rs) else try_entries e p claim finish rs qs)
        | None \<Rightarrow> before (claim q) (\<lambda>(i, c). execute_with_heartbeat e p i q None c)))"

definition historical_owner_hold ::
  "dispatch_environment \<Rightarrow> dispatch_options \<Rightarrow> string option \<Rightarrow> skip_reason option dispatching" where
  "historical_owner_hold e p current =
     before (list_runs e) (\<lambda>rs.
     before (first_of (\<lambda>r. unless_retired e
         (Some (run_id r) \<noteq> current \<and> run_dispatchClaimId r \<noteq> None
          \<and> lower (t_owner (run_target r)) = lower (dn_owner p)
          \<and> lower (t_repo (run_target r)) = lower (dn_repo p)) r) rs) (\<lambda>x.
       give (map_option (\<lambda>r. Prior_unresolved (run_id r) (run_state r)) x)))"

definition entry_of_claim :: "dispatch_claim \<Rightarrow> dispatch_entry" where
  "entry_of_claim c =
     \<lparr>de_issue = dc_issue c, de_route = Route_codex, de_profile = dc_profile c, de_authority = dc_authority c\<rparr>"

definition claim_authority_matches :: "dispatch_claim \<Rightarrow> run \<Rightarrow> bool" where
  "claim_authority_matches c r \<longleftrightarrow>
     dc_authority c = None \<or> same_authority (run_repairTaskShapeAuthority r) (dc_authority c)"

text \<open>Work already issued outside: a possible merge, or an unresolved native request.\<close>

definition holds_issued_work :: "dispatch_environment \<Rightarrow> run \<Rightarrow> bool" where
  "holds_issued_work e r \<longleftrightarrow> possibly_merged r \<or> native_unresolved e r"

text \<open>The fences of a retained claim before anything runs, in the code's order.\<close>

definition retained_fence ::
  "dispatch_environment \<Rightarrow> dispatch_options \<Rightarrow> dispatch_claim \<Rightarrow> run option \<Rightarrow> (nat \<Rightarrow> string) \<Rightarrow> dispatch_trace \<Rightarrow>
   dispatch_outcome option" where
  "retained_fence e p c r now t = first_error
     [fail_if (present_and (\<lambda>s. \<not> possibly_merged s \<and> native_unresolved e s \<and> \<not> en_observable e s (now 0) t
         \<and> (dn_maintenanceHold p \<or> \<not> en_recoverable e s (now 1) t)) r) (Existing_claim c),
      fail_if (dn_mergeRecoveryOnly p \<and> \<not> present_and possibly_merged r) (Existing_claim c),
      fail_if (dn_leadRecoveryOnly p \<and> \<not> present_and (native_unresolved e) r) (Existing_claim c),
      fail_if (dn_maintenanceHold p \<and> \<not> present_and (holds_issued_work e) r) Maintenance_hold]"

definition must_execute ::
  "dispatch_environment \<Rightarrow> dispatch_options \<Rightarrow> run option \<Rightarrow> (nat \<Rightarrow> string) \<Rightarrow> bool" where
  "must_execute e p r now \<longleftrightarrow>
     (case r of
        None \<Rightarrow> True
      | Some s \<Rightarrow>
          \<not> is_settled_run s \<or> dn_leadRecoveryOnly p \<or> native_review_reentry (en_oracle e) s (now 0)
          \<or> native_lead_reentry (en_oracle e) s (now 1)
          \<or> run_state s = MERGE_READY \<and> (run_nativeReview s \<noteq> None \<or> run_nativeLead s \<noteq> None)
             \<and> \<not> possibly_merged s
          \<or> native_merge_reentry (en_oracle e) s (now 2))"

definition needs_terminal_reconciliation :: "dispatch_claim \<Rightarrow> run \<Rightarrow> bool" where
  "needs_terminal_reconciliation c r \<longleftrightarrow>
     dc_runId c \<noteq> Some (run_id r) \<or> dc_state c \<noteq> state_for_execution (run_state r)"

definition is_reissued :: "dispatch_entry \<Rightarrow> dispatch_entry list \<Rightarrow> bool" where
  "is_reissued q queue \<longleftrightarrow>
     list_ex (\<lambda>x. de_issue x = de_issue q \<and> de_route x = Route_codex \<and> has_valid_dispatch_authority x
       \<and> de_authority q \<noteq> None \<and> authority_revision (de_authority x) \<noteq> authority_revision (de_authority q)) queue"

definition may_be_delivered :: "run \<Rightarrow> bool" where
  "may_be_delivered r \<longleftrightarrow>
     (run_state r = MERGE_READY \<or> run_state r = MERGED)
     \<and> absent_or (\<lambda>a. ma_qualification a \<noteq> None) (run_mergeAttempt r)"

definition finish_with_retirement ::
  "dispatch_environment \<Rightarrow> string \<Rightarrow> dispatch_claim \<Rightarrow> (int option \<times> skip_reason) list \<Rightarrow> dispatch_outcome dispatching" where
  "finish_with_retirement e i c reasons =
     (if dc_state c = Claim_retired then give (No_eligible_work reasons)
      else before (retire_terminal_claim e i c) (\<lambda>_. give (No_eligible_work reasons)))"

text \<open>A settled run under the retained claim: its delivery or retirement frees the row for the next
  entry.\<close>

definition settled_claim ::
  "dispatch_environment \<Rightarrow> dispatch_options \<Rightarrow> string \<Rightarrow> dispatch_claim \<Rightarrow> run \<Rightarrow> bool \<Rightarrow> dispatch_entry list \<Rightarrow>
   dispatch_outcome dispatching" where
  "settled_claim e p i c r retired queue =
     (let q = entry_of_claim c in
      before (if may_be_delivered r then delivered e p r q (is_reissued q queue) else give False) (\<lambda>complete.
      before (read_stored_run e (run_id r)) (\<lambda>stored.
        let r = (case stored of None \<Rightarrow> r | Some s \<Rightarrow> s) in
        before (if dc_state c = Claim_retired \<and> (run_state r = MERGED \<or> retired) then give c
                else if needs_terminal_reconciliation c r then update_claim e p i c (run_id r) (run_state r)
                else give c) (\<lambda>reconciled.
          if \<not> complete \<and> \<not> retired then give (Existing_claim reconciled)
          else if dn_maintenanceHold p then give Maintenance_hold
          else if dn_mergeRecoveryOnly p then give (Existing_claim reconciled)
          else try_entries e p
            (\<lambda>x. before (supersede_terminal_claim e p i reconciled x) (\<lambda>d. give (i, d)))
            (finish_with_retirement e i reconciled) [] queue))))"

definition retained_claim ::
  "dispatch_environment \<Rightarrow> dispatch_options \<Rightarrow> string \<Rightarrow> dispatch_claim \<Rightarrow> dispatch_entry list \<Rightarrow> run option \<Rightarrow>
   dispatch_outcome dispatching" where
  "retained_claim e p i c queue r =
     (let q = entry_of_claim c in
      before (historical_owner_hold e p (map_option run_id r)) (\<lambda>hold.
        if hold \<noteq> None then give (Owner_hold q c hold)
        else before (case r of
            Some s \<Rightarrow> if run_state s \<noteq> MERGED then retired_for_progression e s else give False
          | None \<Rightarrow> give False) (\<lambda>retired.
        before (look (\<lambda>t n. en_now e n t)) (\<lambda>now.
          if \<not> retired \<and> must_execute e p r now
          then before (case r of None \<Rightarrow> give None | Some s \<Rightarrow> read_lane_status e (''run:'' @ run_id s)) (\<lambda>lane.
            case r of
              Some s \<Rightarrow>
                if lane = Some Lane_active then give (Admission_wait Wait_owner q (run_id s) c)
                else execute_with_heartbeat e p i q (Some s) c
            | None \<Rightarrow> execute_with_heartbeat e p i q None c)
          else case r of
            None \<Rightarrow> refuse No_retained_run
          | Some s \<Rightarrow> settled_claim e p i c s retired queue))))"

definition queue_entries :: "dispatch_options \<Rightarrow> dispatch_entry list dispatching" where
  "queue_entries p =
     (if dn_maintenanceHold p \<or> dn_mergeRecoveryOnly p \<or> dn_leadRecoveryOnly p then give []
      else answer_of (parse_dispatch_queue (dn_queueBody p)) Protocol_fault)"

definition with_claim ::
  "dispatch_environment \<Rightarrow> dispatch_options \<Rightarrow> string \<Rightarrow> dispatch_claim \<Rightarrow> dispatch_outcome dispatching" where
  "with_claim e p i c =
     (let q = entry_of_claim c in
      before (queue_entries p) (\<lambda>queue.
      before (claimed_run e p c q) (\<lambda>r.
        if r = None \<and> (dc_state c = Claim_retired \<or> \<not> has_valid_dispatch_authority q)
        then give (Owner_hold q c None)
        else before (require (absent_or (claim_authority_matches c) r) Authority_differs) (\<lambda>_.
             before (look (\<lambda>t. retained_fence e p c r (\<lambda>n. en_now e n t) t)) (\<lambda>fence.
               case fence of Some x \<Rightarrow> give x | None \<Rightarrow> retained_claim e p i c queue r)))))"

definition without_claim :: "dispatch_environment \<Rightarrow> dispatch_options \<Rightarrow> dispatch_outcome dispatching" where
  "without_claim e p =
     (if dn_mergeRecoveryOnly p then give (No_eligible_work [(None, No_retained_claim)])
      else before (historical_owner_hold e p None) (\<lambda>hold.
        case hold of
          Some x \<Rightarrow> give (No_eligible_work [(None, x)])
        | None \<Rightarrow>
            before (queue_entries p) (\<lambda>queue.
              if dn_maintenanceHold p then give Maintenance_hold
              else try_entries e p (claim_entry e p) (\<lambda>reasons. give (No_eligible_work reasons)) [] queue)))"

definition dispatch_once :: "dispatch_environment \<Rightarrow> dispatch_options \<Rightarrow> dispatch_outcome dispatching" where
  "dispatch_once e p =
     before (selected_claim e) (\<lambda>existing.
       case existing of Some (i, c) \<Rightarrow> with_claim e p i c | None \<Rightarrow> without_claim e p)"

end
