(* ===== verification/Dispatch_Guarantees.thy ===== *)
theory Dispatch_Guarantees
  imports Dispatch_Runner
begin

text \<open>
  What one dispatch attempt guarantees, whatever its calls answer: it executes at most once, it
  never overwrites a claim it has not just read, it executes only under its own running claim,
  under a maintenance hold only for work already issued, and a dispatched result is recorded in
  the claim read back. Reading programs are treated once, by the discipline of traces that only
  read.
\<close>

section \<open>Programs that only read\<close>

fun is_read :: "dispatch_effect \<Rightarrow> bool" where
  "is_read (Created_comment _ _) = False"
| "is_read (Updated_comment _ _) = False"
| "is_read (Executed _ _ _ _) = False"
| "is_read _ = True"

interpretation reads: trace_discipline "list_all is_read"
  by unfold_locales auto

lemma leased_claim_silent [simp]: "silent (leased_claim e p now f)"
  by (simp add: leased_claim_def leased_until_def silent_before)

lemma current_time_silent [simp]: "silent (current_time e n)"
  by (simp add: current_time_def)

lemma answer_of_silent [simp]: "silent (answer_of r f)"
  by (cases r) (simp_all add: answer_of_def)

lemmas read_intros = reads.keeps_before reads.keeps_perform reads.keeps_first_of

lemma reads_silent [simp]: "silent m \<Longrightarrow> reads.keeps m"
  unfolding silent_def reads.keeps_def by (erule ensures_weaken) simp

lemma reads_calls [simp]:
  "reads.keeps (list_comments e)" "reads.keeps (list_runs e)" "reads.keeps (read_stored_run e i)"
  "reads.keeps (read_lane_status e i)" "reads.keeps (selected_claim e)" "reads.keeps (answer_of r f)"
  by (auto simp: list_comments_def list_runs_def read_stored_run_def read_lane_status_def selected_claim_def
        answer_of_def intro!: read_intros split: option.split sum.split)

lemma reads_exact_claim [simp]: "reads.keeps (exact_claim e i c f)"
  by (auto simp: exact_claim_def intro!: read_intros)

lemma reads_retired [simp]: "reads.keeps (retired_for_progression e r)"
  by (auto simp: retired_for_progression_def intro!: read_intros split: option.split)

lemma reads_unless_retired [simp]: "reads.keeps (unless_retired e c r)"
  by (auto simp: unless_retired_def intro!: read_intros)

lemma reads_active_run [simp]: "reads.keeps (active_run e p q)"
  by (auto simp: active_run_def intro!: read_intros)

lemma reads_claimed_run [simp]: "reads.keeps (claimed_run e p c q)"
  by (auto simp: claimed_run_def intro!: read_intros split: option.split)

lemma reads_delivered [simp]: "reads.keeps (delivered e p r q b)"
  by (auto simp: delivered_def unrelated_active_def intro!: read_intros split: option.split)

lemma reads_verdicts [simp]:
  "reads.keeps (matching_verdict e p q rs)" "reads.keeps (github_verdict e p q)"
  "reads.keeps (unproven_prior e rs)" "reads.keeps (unsettled_previous e p q rs)"
  by (auto simp: matching_verdict_def github_verdict_def unproven_prior_def unsettled_previous_def Let_def
        intro!: read_intros split: option.split list.split)

lemma reads_eligibility [simp]: "reads.keeps (eligibility e p q)"
  by (auto simp: eligibility_def Let_def intro!: read_intros split: option.split)

lemma reads_historical [simp]: "reads.keeps (historical_owner_hold e p x)"
  by (auto simp: historical_owner_hold_def intro!: read_intros)

lemma reads_queue_entries [simp]: "reads.keeps (queue_entries p)"
  by (simp add: queue_entries_def)

section \<open>At most one execution\<close>

fun execution_cost :: "dispatch_effect \<Rightarrow> nat" where
  "execution_cost (Executed _ _ _ _) = 1"
| "execution_cost _ = 0"

interpretation executions: effect_cost execution_cost .

lemma executions_reads: "reads.keeps m \<Longrightarrow> executions.costs 0 m"
  unfolding reads.keeps_def executions.costs_def
proof (erule ensures_weaken)
  fix r :: "'a + 'b" and es
  assume "list_all is_read es"
  then have "sum_list (map execution_cost es) = 0"
  proof (induction es)
    case (Cons x es)
    then show ?case by (cases x) simp_all
  qed simp
  then show "executions.total_cost es \<le> 0"
    by (simp add: executions.total_cost_def)
qed

lemma executed_count:
  assumes "executions.costs n m"
  shows "length (filter (\<lambda>x. execution_cost x = 1) (snd (m []))) \<le> n"
proof -
  have "executions.total_cost (snd (m [])) \<le> n"
    using executions.costs_trace[OF assms, of "[]"] by auto
  moreover have "length (filter (\<lambda>x. execution_cost x = 1) es) \<le> executions.total_cost es" for es
    by (induction es) (auto simp: executions.total_cost_def)
  ultimately show ?thesis by (rule order_trans[rotated])
qed

lemma costs_reads [simp]: "reads.keeps m \<Longrightarrow> executions.costs n m"
  by (rule executions.costs_weaken[OF executions_reads]) simp_all

lemmas cost_intros = executions.costs_free executions.costs_perform

lemma costs_write_claim [simp]: "executions.costs n (write_claim e i c)"
  by (auto simp: write_claim_def update_comment_def intro!: cost_intros)

lemma costs_replace_claim [simp]: "silent next \<Longrightarrow> executions.costs n (replace_claim e i c next)"
  by (auto simp: replace_claim_def intro!: cost_intros)

lemma costs_claim_changes [simp]:
  "executions.costs n (refresh_claim e p i c)" "executions.costs n (update_claim e p i c r s)"
  "executions.costs n (supersede_terminal_claim e p i c q)" "executions.costs n (retire_terminal_claim e i c)"
  by (auto simp: refresh_claim_def update_claim_def supersede_terminal_claim_def retire_terminal_claim_def
        intro!: cost_intros silent_before)

lemma costs_locked: "executions.costs n m \<Longrightarrow> executions.costs n (with_exact_claim_lock e i c m)"
  by (auto simp: with_exact_claim_lock_def intro!: cost_intros)

lemma costs_claim_entry [simp]: "executions.costs n (claim_entry e p q)"
  by (auto simp: claim_entry_def create_comment_def intro!: cost_intros split: option.split)

lemma costs_beat [simp]: "executions.costs 0 (beat e p i n c)"
  by (induction n arbitrary: c) (auto intro!: cost_intros costs_locked)

lemma costs_settle [simp]: "executions.costs 0 (settle_execution e p i q c x b)"
  by (auto simp: settle_execution_def retain_waiting_def
        intro!: cost_intros costs_locked split: execution_answer.split sum.split)

lemma costs_execute: "executions.costs (Suc 0) (execute_with_heartbeat e p i q r c)"
  unfolding execute_with_heartbeat_def
  by (intro executions.costs_free executions.costs_before[of "Suc 0" _ 0 _ "Suc 0"] executions.costs_perform
        executions.costs_caught) simp_all

lemma costs_try_entries:
  assumes "\<And>q. executions.costs 0 (claim q)" and "\<And>rs. executions.costs (Suc 0) (finish rs)"
  shows "executions.costs (Suc 0) (try_entries e p claim finish rs qs)"
proof (induction qs arbitrary: rs)
  case (Cons q qs)
  have "executions.costs (Suc 0) (before (claim q) (\<lambda>(i, c). execute_with_heartbeat e p i q None c))"
    by (auto intro!: executions.costs_free[OF assms(1)] costs_execute)
  with Cons show ?case
    by (auto simp: Let_def intro!: executions.costs_free split: option.split)
qed (simp add: assms(2))

lemma costs_settled: "executions.costs (Suc 0) (settled_claim e p i c r b queue)"
  by (auto simp: settled_claim_def finish_with_retirement_def Let_def
        intro!: cost_intros costs_try_entries split: option.split)

lemma costs_retained: "executions.costs (Suc 0) (retained_claim e p i c queue r)"
  by (auto simp: retained_claim_def Let_def intro!: cost_intros costs_execute costs_settled split: option.split)

lemma costs_dispatch_once: "executions.costs (Suc 0) (dispatch_once e p)"
  by (auto simp: dispatch_once_def with_claim_def without_claim_def Let_def
        intro!: cost_intros costs_retained costs_try_entries split: option.split)

section \<open>Fences\<close>

text \<open>What the last call showed of the claim: the comment and claim a listing selects.\<close>

fun claim_shown :: "dispatch_host \<Rightarrow> dispatch_effect option \<Rightarrow> (string \<times> dispatch_claim) option" where
  "claim_shown h (Some (Listed_comments cs)) = (case select_dispatch_runtime h cs of Inl _ \<Rightarrow> None | Inr x \<Rightarrow> x)"
| "claim_shown h _ = None"

fun shows_no_claim :: "dispatch_host \<Rightarrow> dispatch_effect option \<Rightarrow> bool" where
  "shows_no_claim h (Some (Listed_comments cs)) \<longleftrightarrow> select_dispatch_runtime h cs = Inr None"
| "shows_no_claim h _ \<longleftrightarrow> False"

fun fence_ok :: "dispatch_host \<Rightarrow> dispatch_effect option \<Rightarrow> dispatch_effect \<Rightarrow> bool" where
  "fence_ok h prev (Created_comment i body) = shows_no_claim h prev"
| "fence_ok h prev (Updated_comment i body) = present_and (\<lambda>(j, c). j = i) (claim_shown h prev)"
| "fence_ok h prev (Executed q r c a) = present_and
     (\<lambda>(j, d). d = c \<and> dc_state c = Claim_running \<and> entry_of_claim c = q) (claim_shown h prev)"
| "fence_ok h prev _ = True"

fun fenced :: "dispatch_host \<Rightarrow> dispatch_effect option \<Rightarrow> dispatch_effect list \<Rightarrow> bool" where
  "fenced h prev [] = True"
| "fenced h prev (x # xs) \<longleftrightarrow> fence_ok h prev x \<and> fenced h (Some x) xs"

lemma fenced_append:
  "fenced h prev (xs @ ys) \<longleftrightarrow>
     fenced h prev xs \<and> fenced h (if xs = [] then prev else Some (last xs)) ys"
  by (induction h prev xs rule: fenced.induct) auto

lemma fence_ok_None: "fence_ok h None x \<Longrightarrow> fence_ok h prev x"
  by (cases x) auto

lemma fenced_None: "fenced h None xs \<Longrightarrow> fenced h prev xs"
  by (cases xs) (auto dest: fence_ok_None)

interpretation fences: trace_discipline "fenced h None" for h
  by unfold_locales (auto simp: fenced_append dest: fenced_None)

lemma is_read_fence_ok: "is_read x \<Longrightarrow> fence_ok h prev x"
  by (cases x) auto

lemma reads_fenced: "list_all is_read es \<Longrightarrow> fenced h prev es"
  by (induction es arbitrary: prev) (auto simp: is_read_fence_ok)

lemma fences_reads [simp]: "reads.keeps m \<Longrightarrow> fences.keeps h m"
  unfolding reads.keeps_def fences.keeps_def by (erule ensures_weaken) (rule reads_fenced)

text \<open>A program that ends by showing the claim it returns, the comment being \<open>i\<close>.\<close>

definition confirms ::
  "dispatch_environment \<Rightarrow> string \<Rightarrow> (dispatch_claim \<Rightarrow> bool) \<Rightarrow> dispatch_refusal + dispatch_claim \<Rightarrow>
   dispatch_effect list \<Rightarrow> bool" where
  "confirms e i P r es \<longleftrightarrow>
     fenced (en_dates e) None es
     \<and> (case r of Inl _ \<Rightarrow> True
        | Inr d \<Rightarrow> P d \<and> es \<noteq> [] \<and> claim_shown (en_dates e) (Some (last es)) = Some (i, d))"

lemma exact_claim_shows:
  "ensures (exact_claim e i c f) (\<lambda>r es. es = [] \<and> (\<exists>x. r = Inl x) \<or>
     (\<exists>cs. es = [Listed_comments cs] \<and> ((\<exists>x. r = Inl x) \<or>
        r = Inr c \<and> select_dispatch_runtime (en_dates e) cs = Inr (Some (i, c)))))"
  by (rule ensuresI)
    (auto simp: exact_claim_def selected_claim_def list_comments_def before_def perform_def answer_of_def
       give_def refuse_def demand_def selects_def present_and_iff
       split: option.split sum.split)

lemma exact_claim_confirms: "ensures (exact_claim e i c f) (confirms e i (\<lambda>d. d = c))"
  using exact_claim_shows by (rule ensures_weaken) (auto simp: confirms_def)

definition overwrites ::
  "dispatch_environment \<Rightarrow> string \<Rightarrow> dispatch_claim \<Rightarrow> dispatch_refusal + dispatch_claim \<Rightarrow>
   dispatch_effect list \<Rightarrow> bool" where
  "overwrites e i c r es \<longleftrightarrow>
     (\<forall>prev y. claim_shown (en_dates e) prev = Some (i, y) \<longrightarrow> fenced (en_dates e) prev es)
     \<and> (case r of Inl _ \<Rightarrow> True
        | Inr d \<Rightarrow> d = c \<and> es \<noteq> [] \<and> claim_shown (en_dates e) (Some (last es)) = Some (i, d))"

lemma write_claim_overwrites: "ensures (write_claim e i c) (overwrites e i c)"
  unfolding write_claim_def update_comment_def
proof (rule ensures_before[where P = "\<lambda>r es. es = (case r of Inl _ \<Rightarrow> [] | Inr _ \<Rightarrow>
    [Updated_comment i (render_dispatch_runtime c)])"])
  fix x es
  assume "es = (case Inr x of Inl _ \<Rightarrow> [] | Inr _ \<Rightarrow> [Updated_comment i (render_dispatch_runtime c)])"
  then have es: "es = [Updated_comment i (render_dispatch_runtime c)]" by simp
  show "ensures (exact_claim e i c Claim_not_retained) (\<lambda>r fs. overwrites e i c r (es @ fs))"
    using exact_claim_confirms
    by (rule ensures_weaken)
      (auto simp: es overwrites_def confirms_def split: sum.splits dest: fenced_None)
qed (auto simp: overwrites_def intro!: ensures_perform)

lemma replace_claim_confirms:
  assumes built: "ensures next (\<lambda>r es. es = [] \<and> (\<forall>d. r = Inr d \<longrightarrow> P d))"
  shows "ensures (replace_claim e i c next) (confirms e i P)"
  unfolding replace_claim_def
proof (rule ensures_before[OF exact_claim_confirms])
  fix x es
  assume x: "confirms e i (\<lambda>d. d = c) (Inr x) es"
  show "ensures (before next (write_claim e i)) (\<lambda>r fs. confirms e i P r (es @ fs))"
  proof (rule ensures_before[OF built])
    fix d and fs :: "dispatch_effect list"
    assume d: "fs = [] \<and> (\<forall>d'. Inr d = Inr d' \<longrightarrow> P d')"
    show "ensures (write_claim e i d) (\<lambda>r gs. confirms e i P r (es @ fs @ gs))"
      using write_claim_overwrites
      by (rule ensures_weaken)
        (use x d in \<open>auto simp: confirms_def overwrites_def fenced_append split: sum.splits\<close>)
  qed (use x in \<open>auto simp: confirms_def\<close>)
qed (simp add: confirms_def)

section \<open>The claim through an execution\<close>

definition same_identity :: "dispatch_claim \<Rightarrow> dispatch_claim \<Rightarrow> bool" where
  "same_identity c d \<longleftrightarrow>
     dc_claimId d = dc_claimId c \<and> dc_claimedAt d = dc_claimedAt c \<and> entry_of_claim d = entry_of_claim c"

lemma same_identity_trans: "same_identity c d \<Longrightarrow> same_identity d f \<Longrightarrow> same_identity c f"
  by (simp add: same_identity_def)

lemma same_identity_refl [simp]: "same_identity c c"
  by (simp add: same_identity_def)

lemma same_identity_changes [simp]:
  "same_identity c (kept_alive c now lease)" "same_identity c (executed_claim c r s now lease)"
  "same_identity c (waiting_claim c r now lease)"
  by (simp_all add: same_identity_def entry_of_claim_def kept_alive_def executed_claim_def waiting_claim_def)

lemma leased_claim_builds:
  "(\<And>l. P (f l)) \<Longrightarrow> ensures (leased_claim e p now f) (\<lambda>r es. es = [] \<and> (\<forall>d. r = Inr d \<longrightarrow> P d))"
  by (auto simp: leased_claim_def leased_until_def demand_def ensures_def before_def refuse_def give_def
        split: option.split)

lemma changed_claim_fields [simp]:
  "dc_state (kept_alive c now lease) = Claim_running"
  "dc_runId (executed_claim c r s now lease) = Some r"
  "dc_state (executed_claim c r s now lease) = state_for_execution s"
  by (simp_all add: kept_alive_def executed_claim_def)

lemma confirms_fault: "confirms e i P (Inl x) []"
  by (simp add: confirms_def)

lemma refresh_claim_confirms:
  "ensures (refresh_claim e p i c) (confirms e i (\<lambda>d. dc_state d = Claim_running \<and> same_identity c d))"
  unfolding refresh_claim_def
  by (intro ensures_silent_before replace_claim_confirms leased_claim_builds confirms_fault) simp_all

lemma update_claim_confirms:
  "ensures (update_claim e p i c r s)
     (confirms e i (\<lambda>d. dc_runId d = Some r \<and> dc_state d = state_for_execution s \<and> same_identity c d))"
  unfolding update_claim_def
  by (intro ensures_silent_before replace_claim_confirms leased_claim_builds confirms_fault) simp_all

lemma supersede_confirms:
  assumes "de_route q = Route_codex"
  shows "ensures (supersede_terminal_claim e p i c q) (confirms e i (\<lambda>d. entry_of_claim d = q))"
  unfolding supersede_terminal_claim_def
  by (intro ensures_silent_before replace_claim_confirms confirms_fault)
    (auto simp: ensures_def before_def look_def give_def refuse_def leased_claim_def leased_until_def demand_def
       current_time_def new_claim_def claim_options_at_def entry_of_claim_def assms split: option.split)

lemma retire_confirms: "ensures (retire_terminal_claim e i c) (confirms e i (\<lambda>d. dc_state d = Claim_retired))"
  unfolding retire_terminal_claim_def
  by (intro ensures_silent_before replace_claim_confirms confirms_fault) simp_all

lemma confirms_keeps: "ensures m (confirms e i P) \<Longrightarrow> fences.keeps (en_dates e) m"
  unfolding fences.keeps_def by (erule ensures_weaken) (simp add: confirms_def)

text \<open>A confirming program after one that keeps the fences and shows the same.\<close>

lemma confirms_append:
  "fenced (en_dates e) None es \<Longrightarrow> confirms e i P r fs \<Longrightarrow> confirms e i P r (es @ fs)"
  by (auto simp: confirms_def fenced_append split: sum.splits dest: fenced_None)

lemma ensures_confirms_before:
  assumes "fences.keeps (en_dates e) m" and "\<And>x. ensures (k x) (confirms e i P)"
  shows "ensures (before m k) (confirms e i P)"
  using assms(1) unfolding fences.keeps_def
proof (rule ensures_before)
  fix x es
  assume "fenced (en_dates e) None es"
  then show "ensures (k x) (\<lambda>r fs. confirms e i P r (es @ fs))"
    using assms(2)[of x] by (elim ensures_weaken) (rule confirms_append)
qed (simp add: confirms_def)

lemma locked_confirms: "ensures m (confirms e i P) \<Longrightarrow> ensures (with_exact_claim_lock e i c m) (confirms e i P)"
  unfolding with_exact_claim_lock_def by (rule ensures_confirms_before) simp_all

lemma beat_keeps:
  "ensures (beat e p i n c) (\<lambda>r es. fenced (en_dates e) None es \<and> (\<forall>d. r = Inr d \<longrightarrow> same_identity c d))"
proof (induction n arbitrary: c)
  case (Suc n)
  show ?case
    unfolding beat.simps
  proof (rule ensures_before[OF locked_confirms[OF refresh_claim_confirms]])
    fix d es
    assume "confirms e i (\<lambda>d. dc_state d = Claim_running \<and> same_identity c d) (Inr d) es"
    then have "same_identity c d" "fenced (en_dates e) None es" by (simp_all add: confirms_def)
    then show "ensures (beat e p i n d)
        (\<lambda>r fs. fenced (en_dates e) None (es @ fs) \<and> (\<forall>d. r = Inr d \<longrightarrow> same_identity c d))"
      using Suc[of d] by (elim ensures_weaken) (auto simp: fenced_append dest: fenced_None same_identity_trans)
  qed (simp add: confirms_def)
qed simp

lemma before_give: "before (give x) k = k x"
  by (rule ext) (simp add: before_def give_def)

lemma locked_write: "with_exact_claim_lock e i c (write_claim e i w) = replace_claim e i c (give w)"
  by (simp add: with_exact_claim_lock_def replace_claim_def before_give)

lemma retain_waiting_confirms: "ensures (retain_waiting e p i c r) (confirms e i (\<lambda>d. True))"
  unfolding retain_waiting_def locked_write
  by (intro ensures_silent_before replace_claim_confirms confirms_fault) simp_all

section \<open>What an attempt leaves\<close>

text \<open>A dispatched result is recorded in the claim the last call showed.\<close>

definition well_dispatched ::
  "dispatch_environment \<Rightarrow> dispatch_refusal + dispatch_outcome \<Rightarrow> dispatch_effect list \<Rightarrow> bool" where
  "well_dispatched e r es \<longleftrightarrow>
     fenced (en_dates e) None es
     \<and> (case r of
          Inr (Dispatched q c i s poll) \<Rightarrow>
            es \<noteq> [] \<and> present_and (\<lambda>(j, d). d = c) (claim_shown (en_dates e) (Some (last es)))
            \<and> entry_of_claim c = q \<and> dc_runId c = Some i \<and> dc_state c = state_for_execution s
        | _ \<Rightarrow> True)"

lemma well_dispatched_append:
  "fenced (en_dates e) None es \<Longrightarrow> well_dispatched e r fs \<Longrightarrow> well_dispatched e r (es @ fs)"
  by (auto simp: well_dispatched_def fenced_append split: sum.splits dispatch_outcome.splits dest: fenced_None)

definition settles :: "dispatch_environment \<Rightarrow> dispatch_outcome dispatching \<Rightarrow> bool" where
  "settles e m \<longleftrightarrow> ensures m (well_dispatched e)"

lemma settles_simps [simp]:
  "settles e (refuse f)" "settles e (give Maintenance_hold)" "settles e (give (No_eligible_work rs))"
  "settles e (give (Existing_claim c))" "settles e (give (Owner_hold q c x))"
  "settles e (give (Admission_wait k q i c))"
  by (simp_all add: settles_def well_dispatched_def)

lemma settles_after:
  assumes "ensures m (\<lambda>r es. fenced (en_dates e) None es \<and> (\<forall>x. r = Inr x \<longrightarrow> P x))"
    and "\<And>x. P x \<Longrightarrow> settles e (k x)"
  shows "settles e (before m k)"
  unfolding settles_def
proof (rule ensures_before[OF assms(1)])
  fix x es
  assume es: "fenced (en_dates e) None es \<and> (\<forall>y. Inr x = Inr y \<longrightarrow> P y)"
  then have "ensures (k x) (well_dispatched e)"
    using assms(2)[of x] by (simp add: settles_def)
  then show "ensures (k x) (\<lambda>r fs. well_dispatched e r (es @ fs))"
    using es by (elim ensures_weaken) (simp add: well_dispatched_append)
qed (simp add: well_dispatched_def)

lemma settles_before: "fences.keeps (en_dates e) m \<Longrightarrow> (\<And>x. settles e (k x)) \<Longrightarrow> settles e (before m k)"
  unfolding fences.keeps_def
  by (rule settles_after[where P = "\<lambda>_. True"]) (auto elim: ensures_weaken)

lemma settles_confirmed:
  assumes "ensures m (confirms e i P)" and "\<And>d. P d \<Longrightarrow> settles e (k d)"
  shows "settles e (before m k)"
  using assms(1)
  by (intro settles_after[where P = P] assms(2)) (auto simp: confirms_def elim: ensures_weaken)

lemma settles_recorded:
  assumes "ensures m (confirms e i
      (\<lambda>d. dc_runId d = Some r \<and> dc_state d = state_for_execution s \<and> entry_of_claim d = q))"
  shows "settles e (before m (\<lambda>u. give (Dispatched q u r s poll)))"
  unfolding settles_def using assms
  by (rule ensures_before)
    (auto simp: confirms_def well_dispatched_def present_and_iff)

lemma settles_settle_execution:
  assumes "\<forall>d. beaten = Inr d \<longrightarrow> same_identity c d" and "entry_of_claim c = q"
  shows "settles e (settle_execution e p i q c x beaten)"
proof (cases x)
  case (Execution_done r s poll)
  have "ensures (with_exact_claim_lock e i d (update_claim e p i d r s)) (confirms e i
      (\<lambda>d. dc_runId d = Some r \<and> dc_state d = state_for_execution s \<and> entry_of_claim d = q))"
    if "same_identity c d" for d
    using locked_confirms[OF update_claim_confirms]
    by (rule ensures_weaken) (use that assms(2) in \<open>auto simp: confirms_def same_identity_def split: sum.splits\<close>)
  with Execution_done assms(1) show ?thesis
    by (auto simp: settle_execution_def split: sum.split intro!: settles_recorded)
next
  case (Execution_waits r kind)
  then show ?thesis
    by (auto simp: settle_execution_def split: sum.split
          intro!: settles_confirmed[OF retain_waiting_confirms])
qed (simp add: settle_execution_def)

lemma ensures_prefixed:
  assumes "settles e m" and "fenced (en_dates e) None es"
  shows "ensures m (\<lambda>r fs. well_dispatched e r (es @ fs))"
  using assms(1) unfolding settles_def
  by (rule ensures_weaken) (rule well_dispatched_append[OF assms(2)])

lemma settles_execute:
  assumes "entry_of_claim c = q"
  shows "settles e (execute_with_heartbeat e p i q existing c)"
  unfolding settles_def execute_with_heartbeat_def
proof (rule ensures_before[OF refresh_claim_confirms])
  fix active es
  assume "confirms e i (\<lambda>d. dc_state d = Claim_running \<and> same_identity c d) (Inr active) es"
  then have es: "fenced (en_dates e) None es" "es \<noteq> []" "claim_shown (en_dates e) (Some (last es)) = Some (i, active)"
      and active: "dc_state active = Claim_running" "entry_of_claim active = q"
    using assms by (auto simp: confirms_def same_identity_def)
  let ?x = "Executed q existing active"
  have fenced: "fenced (en_dates e) None (es @ [?x a])" for a
    using es active by (simp add: fenced_append)
  have rest: "settles e (before (look (en_heartbeats e)) (\<lambda>n. before (caught (beat e p i n active))
      (settle_execution e p i q active a)))" for a
    by (intro settles_before settles_after[where P = "\<lambda>b. \<forall>d. b = Inr d \<longrightarrow> same_identity active d"]
          settles_settle_execution ensures_caught)
      (use active beat_keeps in \<open>auto elim: ensures_weaken\<close>)
  show "ensures (before (perform ?x Api_fault (\<lambda>t. Some (en_execute e q existing active t)))
      (\<lambda>x. before (look (en_heartbeats e)) (\<lambda>n. before (caught (beat e p i n active))
        (settle_execution e p i q active x)))) (\<lambda>r fs. well_dispatched e r (es @ fs))"
  proof (rule ensures_before[where P = "\<lambda>r fs. r = Inl Api_fault \<and> fs = [] \<or> (\<exists>a. r = Inr a \<and> fs = [?x a])"])
    fix a fs
    assume "Inr a = Inl Api_fault \<and> fs = [] \<or> (\<exists>b. Inr a = (Inr b :: dispatch_refusal + execution_answer) \<and> fs = [?x b])"
    then have "fs = [?x a]" by simp
    then show "ensures (before (look (en_heartbeats e)) (\<lambda>n. before (caught (beat e p i n active))
        (settle_execution e p i q active a))) (\<lambda>r gs. well_dispatched e r (es @ fs @ gs))"
      using ensures_prefixed[OF rest fenced] by simp
  qed (use es in \<open>auto simp: well_dispatched_def intro!: ensures_perform\<close>)
qed (simp add: well_dispatched_def confirms_def)

section \<open>The whole attempt\<close>

lemma ensures_silent_value:
  assumes "ensures m (\<lambda>r es. es = [] \<and> (\<forall>x. r = Inr x \<longrightarrow> P x))"
    and "\<And>f. Q (Inl f) []" and "\<And>x. P x \<Longrightarrow> ensures (k x) Q"
  shows "ensures (before m k) Q"
  using assms(1) by (rule ensures_before) (simp_all add: assms(2,3))

lemma selected_none:
  "ensures (selected_claim e) (\<lambda>r es. fenced (en_dates e) None es \<and>
     (r = Inr None \<longrightarrow> es \<noteq> [] \<and> shows_no_claim (en_dates e) (Some (last es))))"
  by (rule ensuresI)
    (auto simp: selected_claim_def list_comments_def before_def perform_def answer_of_def give_def refuse_def
       split: option.split sum.split)

lemma new_claim_entry: "de_route q = Route_codex \<Longrightarrow> entry_of_claim (new_claim q x l) = q"
  by (simp add: entry_of_claim_def new_claim_def)

lemma created_claim_keeps:
  assumes "shows_no_claim (en_dates e) (Some (last es))" "es \<noteq> []" "fenced (en_dates e) None es"
    and "entry_of_claim c = q"
  shows "ensures (before (create_comment e (render_dispatch_runtime c)) (\<lambda>created.
       before (exact_claim e created c f) (\<lambda>d. give (created, d))))
     (\<lambda>r fs. fenced (en_dates e) None (es @ fs) \<and> (\<forall>x. r = Inr x \<longrightarrow> entry_of_claim (snd x) = q))"
  unfolding create_comment_def
proof (rule ensures_before[where P = "\<lambda>r fs. (\<exists>x. r = Inl x) \<and> fs = []
    \<or> (\<exists>i. r = Inr i \<and> fs = [Created_comment i (render_dispatch_runtime c)])"])
  fix i fs
  assume "(\<exists>x. Inr i = (Inl x :: dispatch_refusal + string)) \<and> fs = []
    \<or> (\<exists>j. Inr i = (Inr j :: dispatch_refusal + string) \<and> fs = [Created_comment j (render_dispatch_runtime c)])"
  then have fs: "fs = [Created_comment i (render_dispatch_runtime c)]" by simp
  show "ensures (before (exact_claim e i c f) (\<lambda>d. give (i, d)))
      (\<lambda>r gs. fenced (en_dates e) None (es @ fs @ gs) \<and> (\<forall>x. r = Inr x \<longrightarrow> entry_of_claim (snd x) = q))"
    using exact_claim_confirms
    by (rule ensures_before)
      (use assms fs in \<open>auto simp: confirms_def fenced_append dest: fenced_None\<close>)
qed (use assms in \<open>auto intro!: ensures_perform\<close>)

lemma claim_entry_keeps:
  assumes "de_route q = Route_codex"
  shows "ensures (claim_entry e p q)
     (\<lambda>r es. fenced (en_dates e) None es \<and> (\<forall>x. r = Inr x \<longrightarrow> entry_of_claim (snd x) = q))"
  unfolding claim_entry_def
proof (rule ensures_silent_before)
  fix u :: unit
  show "ensures (before (selected_claim e) (\<lambda>x.
     before (require (x = None) (Protocol_fault Competing_claim)) (\<lambda>_.
     before (current_time e 0) (\<lambda>now. before (look (en_claimId e)) (\<lambda>claim.
     before (leased_claim e p now (new_claim q (claim_options_at p now claim))) (\<lambda>c.
       before (create_comment e (render_dispatch_runtime c)) (\<lambda>created.
       before (exact_claim e created c (Protocol_fault Claim_not_canonical)) (\<lambda>d. give (created, d)))))))))
     (\<lambda>r es. fenced (en_dates e) None es \<and> (\<forall>x. r = Inr x \<longrightarrow> entry_of_claim (snd x) = q))"
  proof (rule ensures_before[OF selected_none])
    fix x es
    assume es: "fenced (en_dates e) None es \<and>
      (Inr x = Inr None \<longrightarrow> es \<noteq> [] \<and> shows_no_claim (en_dates e) (Some (last es)))"
    show "ensures (before (require (x = None) (Protocol_fault Competing_claim)) (\<lambda>_.
       before (current_time e 0) (\<lambda>now. before (look (en_claimId e)) (\<lambda>claim.
       before (leased_claim e p now (new_claim q (claim_options_at p now claim))) (\<lambda>c.
         before (create_comment e (render_dispatch_runtime c)) (\<lambda>created.
         before (exact_claim e created c (Protocol_fault Claim_not_canonical)) (\<lambda>d. give (created, d))))))))
       (\<lambda>r fs. fenced (en_dates e) None (es @ fs) \<and> (\<forall>x. r = Inr x \<longrightarrow> entry_of_claim (snd x) = q))"
    proof (cases x)
      case None
      then show ?thesis
        using es assms
        by (intro ensures_silent_before ensures_silent_value[where P = "\<lambda>c. entry_of_claim c = q"]
              leased_claim_builds created_claim_keeps) (simp_all add: new_claim_entry)
    qed (use es in \<open>simp add: require_def before_def refuse_def ensures_def\<close>)
  qed simp
qed (auto split: option.split)

lemma settles_try_entries:
  assumes "\<And>q. de_route q = Route_codex \<Longrightarrow> ensures (claim q)
      (\<lambda>r es. fenced (en_dates e) None es \<and> (\<forall>x. r = Inr x \<longrightarrow> entry_of_claim (snd x) = q))"
    and "\<And>rs. settles e (finish rs)"
  shows "settles e (try_entries e p claim finish rs qs)"
proof (induction qs arbitrary: rs)
  case (Cons q qs)
  have "settles e (before (claim q) (\<lambda>(i, c). execute_with_heartbeat e p i q None c))"
    if "de_route q = Route_codex"
    using assms(1)[OF that]
    by (rule settles_after) (auto intro!: settles_execute split: prod.split)
  with Cons show ?case
    by (auto simp: Let_def intro!: settles_before split: option.split)
qed (simp add: assms(2))

lemma superseded_keeps:
  assumes "de_route q = Route_codex"
  shows "ensures (before (supersede_terminal_claim e p i c q) (\<lambda>d. give (i, d)))
     (\<lambda>r es. fenced (en_dates e) None es \<and> (\<forall>x. r = Inr x \<longrightarrow> entry_of_claim (snd x) = q))"
  using supersede_confirms[OF assms] by (rule ensures_before) (auto simp: confirms_def)

lemma settles_finish: "settles e (finish_with_retirement e i c rs)"
  by (auto simp: finish_with_retirement_def intro!: settles_confirmed[OF retire_confirms])

lemma reconciled_keeps:
  "fences.keeps (en_dates e) (if b then give c
     else if needs_terminal_reconciliation c r then update_claim e p i c x s else give c)"
  by (simp add: confirms_keeps[OF update_claim_confirms])

lemma settles_settled: "settles e (settled_claim e p i c r retired queue)"
  unfolding settled_claim_def Let_def
  by (intro settles_before reconciled_keeps)
    (auto intro!: settles_try_entries superseded_keeps settles_finish)

lemma settles_retained: "settles e (retained_claim e p i c queue r)"
  unfolding retained_claim_def Let_def
  by (auto intro!: settles_before settles_execute settles_settled split: option.split)

lemma settles_fence: "retained_fence e p c r now t = Some x \<Longrightarrow> settles e (give x)"
  unfolding retained_fence_def by (drule first_error_SomeD) (auto simp: fail_if_def split: if_splits)

lemma settles_with_claim: "settles e (with_claim e p i c)"
proof -
  have inner: "settles e (before (look (\<lambda>t. retained_fence e p c r (\<lambda>n. en_now e n t) t))
      (\<lambda>fence. case fence of Some x \<Rightarrow> give x | None \<Rightarrow> retained_claim e p i c queue r))" for r queue
    by (rule settles_after[where P = "absent_or (\<lambda>x. settles e (give x))"])
      (auto simp: absent_or_def ensures_def look_def settles_fence settles_retained split: option.split)
  have fenced: "settles e (before (require b f) (\<lambda>_.
      before (look (\<lambda>t. retained_fence e p c r (\<lambda>n. en_now e n t) t))
        (\<lambda>fence. case fence of Some x \<Rightarrow> give x | None \<Rightarrow> retained_claim e p i c queue r)))" for b f r queue
    by (rule settles_before) (simp, rule inner)
  show ?thesis
    unfolding with_claim_def Let_def
    by (rule settles_before, simp, rule settles_before, simp, simp add: fenced)
qed

lemma settles_dispatch_once: "settles e (dispatch_once e p)"
  unfolding dispatch_once_def without_claim_def Let_def
  by (auto intro!: settles_before settles_with_claim settles_try_entries claim_entry_keeps split: option.split)

section \<open>What may be executed\<close>

text \<open>The restricted modes execute only work already issued outside.\<close>

fun permitted :: "dispatch_environment \<Rightarrow> dispatch_options \<Rightarrow> dispatch_effect \<Rightarrow> bool" where
  "permitted e p (Executed q r c a) \<longleftrightarrow>
     (dn_maintenanceHold p \<longrightarrow> present_and (holds_issued_work e) r)
     \<and> (dn_mergeRecoveryOnly p \<longrightarrow> present_and possibly_merged r)
     \<and> (dn_leadRecoveryOnly p \<longrightarrow> present_and (native_unresolved e) r)"
| "permitted e p _ = True"

interpretation holds: trace_discipline "list_all (permitted e p)" for e p
  by unfold_locales auto

definition executes_nothing :: "dispatch_effect list \<Rightarrow> bool" where
  "executes_nothing es \<longleftrightarrow> list_all (\<lambda>x. execution_cost x = 0) es"

lemma costs_nothing: "executions.costs 0 m \<Longrightarrow> ensures m (\<lambda>r es. executes_nothing es)"
  unfolding executions.costs_def
  by (erule ensures_weaken) (auto simp: executions.total_cost_def executes_nothing_def list_all_iff)

lemma nothing_permitted: "executes_nothing es \<Longrightarrow> list_all (permitted e p) es"
  unfolding executes_nothing_def
proof (induction es)
  case (Cons x es)
  then show ?case by (cases x) simp_all
qed simp

lemma holds_free [simp]: "executions.costs 0 m \<Longrightarrow> holds.keeps e p m"
  unfolding holds.keeps_def by (drule costs_nothing) (erule ensures_weaken, rule nothing_permitted)

lemma holds_execute:
  assumes "\<And>a c. permitted e p (Executed q r c a)"
  shows "holds.keeps e p (execute_with_heartbeat e p i q r c)"
  unfolding execute_with_heartbeat_def
  by (intro holds.keeps_before holds.keeps_perform holds.keeps_caught) (use assms in simp_all)

definition restricted :: "dispatch_options \<Rightarrow> bool" where
  "restricted p \<longleftrightarrow> dn_maintenanceHold p \<or> dn_mergeRecoveryOnly p \<or> dn_leadRecoveryOnly p"

lemma settled_free: "executions.costs 0 (settled_claim e p i c r b [])"
  by (auto simp: settled_claim_def finish_with_retirement_def Let_def intro!: cost_intros split: option.split)

lemma fence_permits:
  "retained_fence e p c r now t = None \<Longrightarrow> permitted e p (Executed q r d a)"
  by (auto simp: retained_fence_def first_error_None_iff holds_issued_work_def present_and_iff)

lemma holds_retained:
  assumes "\<And>q d a. permitted e p (Executed q r d a)"
  shows "holds.keeps e p (retained_claim e p i c [] r)"
  using assms unfolding retained_claim_def Let_def
  by (cases r) (auto intro!: holds.keeps_before holds_execute simp del: permitted.simps
        simp: holds_free[OF settled_free])

lemma holds_fenced:
  "holds.keeps e p (before (look (\<lambda>t. retained_fence e p c r (\<lambda>n. en_now e n t) t))
     (\<lambda>fence. case fence of Some x \<Rightarrow> give x | None \<Rightarrow> retained_claim e p i c [] r))"
  unfolding holds.keeps_def
proof (rule ensures_before[where P = "\<lambda>x es. es = [] \<and>
    (x = Inr None \<longrightarrow> (\<forall>q d a. permitted e p (Executed q r d a)))"])
  show "ensures (look (\<lambda>t. retained_fence e p c r (\<lambda>n. en_now e n t) t))
      (\<lambda>x es. es = [] \<and> (x = Inr None \<longrightarrow> (\<forall>q d a. permitted e p (Executed q r d a))))"
    by (auto simp: ensures_def look_def simp del: permitted.simps dest: fence_permits)
  fix x and es :: "dispatch_effect list"
  assume "es = [] \<and> (Inr x = (Inr None :: dispatch_refusal + dispatch_outcome option)
      \<longrightarrow> (\<forall>q d a. permitted e p (Executed q r d a)))"
  then show "ensures (case x of Some y \<Rightarrow> give y | None \<Rightarrow> retained_claim e p i c [] r)
      (\<lambda>y fs. list_all (permitted e p) (es @ fs))"
    using holds_retained[unfolded holds.keeps_def] by (auto split: option.split)
qed simp

lemma holds_restricted:
  assumes "restricted p"
  shows "holds.keeps e p (dispatch_once e p)"
proof -
  have queue: "queue_entries p = give []"
    using assms by (simp add: queue_entries_def restricted_def)
  have "holds.keeps e p (before (require b f) (\<lambda>_.
      before (look (\<lambda>t. retained_fence e p c r (\<lambda>n. en_now e n t) t))
        (\<lambda>fence. case fence of Some x \<Rightarrow> give x | None \<Rightarrow> retained_claim e p i c [] r)))" for b f c r i
    by (rule holds.keeps_before) (simp, rule holds_fenced)
  then have "holds.keeps e p (with_claim e p i c)" for i c
    unfolding with_claim_def queue before_give Let_def by (auto intro!: holds.keeps_before)
  moreover have "holds.keeps e p (without_claim e p)"
    unfolding without_claim_def queue before_give by (auto intro!: holds.keeps_before split: option.split)
  ultimately show ?thesis
    unfolding dispatch_once_def by (auto intro!: holds.keeps_before split: option.split)
qed

lemma holds_dispatch_once: "holds.keeps e p (dispatch_once e p)"
proof (cases "restricted p")
  case False
  then have "permitted e p x" for x
    by (cases x) (simp_all add: restricted_def)
  then have "list_all (permitted e p) es" for es
    by (simp add: list_all_iff)
  with costs_dispatch_once[of e p] show ?thesis
    unfolding executions.costs_def holds.keeps_def by (elim ensures_weaken) simp
qed (rule holds_restricted)

section \<open>What licenses new work\<close>

text \<open>The entry was offered: its issue was read open without an open pull request, and the listed
  runs hold no dispatch of the issue under the same authority revision.\<close>

definition offered :: "dispatch_options \<Rightarrow> dispatch_entry \<Rightarrow> dispatch_effect list \<Rightarrow> bool" where
  "offered p q es \<longleftrightarrow>
     Read_issue (entry_target p q) True \<in> set es
     \<and> (\<exists>pulls. Listed_pulls (entry_target p q) pulls \<in> set es \<and> Pull_open \<notin> set pulls)
     \<and> (\<exists>rs. Listed_runs rs \<in> set es \<and> matching_history q (dispatch_history p q rs) = [])"

text \<open>The claim was found on the control issue, and the listed runs hold none of its claim and none
  it could have produced.\<close>

definition recovers :: "dispatch_environment \<Rightarrow> dispatch_options \<Rightarrow> dispatch_claim \<Rightarrow> dispatch_effect list \<Rightarrow> bool" where
  "recovers e p d es \<longleftrightarrow>
     (\<exists>c cs i. same_identity c d \<and> dc_state c \<noteq> Claim_retired \<and> Listed_comments cs \<in> set es
        \<and> select_dispatch_runtime (en_dates e) cs = Inr (Some (i, c))
        \<and> (\<exists>rs. Listed_runs rs \<in> set es \<and> claimed_of_runs p c (entry_of_claim c) rs = Inr None))"

definition licensed :: "dispatch_environment \<Rightarrow> dispatch_options \<Rightarrow> dispatch_effect list \<Rightarrow> bool" where
  "licensed e p es \<longleftrightarrow>
     (\<forall>q d a. Executed q None d a \<in> set es \<longrightarrow>
        has_valid_dispatch_authority q \<and> de_route q = Route_codex \<and> (offered p q es \<or> recovers e p d es))"

lemma offered_mono: "offered p q es \<Longrightarrow> set es \<subseteq> set fs \<Longrightarrow> offered p q fs"
  unfolding offered_def by blast

lemma recovers_mono: "recovers e p c es \<Longrightarrow> set es \<subseteq> set fs \<Longrightarrow> recovers e p c fs"
  unfolding recovers_def by (elim exE conjE) (intro exI conjI; (assumption | blast))

interpretation licenses: trace_discipline "licensed e p" for e p
proof
  show "licensed e p []" by (simp add: licensed_def)
next
  fix es fs
  assume l: "licensed e p es" "licensed e p fs"
  have "offered p q (es @ fs)" if "offered p q es \<or> offered p q fs" for q
    using that offered_mono[of p q es "es @ fs"] offered_mono[of p q fs "es @ fs"] by auto
  moreover have "recovers e p d (es @ fs)" if "recovers e p d es \<or> recovers e p d fs" for d
    using that recovers_mono[of e p d es "es @ fs"] recovers_mono[of e p d fs "es @ fs"] by auto
  ultimately show "licensed e p (es @ fs)"
    using l unfolding licensed_def by (metis (no_types, lifting) Un_iff set_append)
qed

lemma nothing_not_executed: "executes_nothing es \<Longrightarrow> Executed q r d a \<notin> set es"
  by (auto simp: executes_nothing_def list_all_iff)

lemma licenses_free [simp]: "executions.costs 0 m \<Longrightarrow> licenses.keeps e p m"
  unfolding licenses.keeps_def
  by (drule costs_nothing) (erule ensures_weaken, simp add: licensed_def nothing_not_executed)

definition executes_only ::
  "dispatch_entry \<Rightarrow> run option \<Rightarrow> dispatch_claim \<Rightarrow> dispatch_effect list \<Rightarrow> bool" where
  "executes_only q r c es \<longleftrightarrow>
     (\<forall>x y d a. Executed x y d a \<in> set es \<longrightarrow> x = q \<and> y = r \<and> same_identity c d)"

lemma executes_only_append [simp]:
  "executes_only q r c (xs @ ys) \<longleftrightarrow> executes_only q r c xs \<and> executes_only q r c ys"
  unfolding executes_only_def set_append Un_iff by blast

lemma executes_only_simps [simp]:
  "executes_only q r c []"
  "executes_nothing es \<Longrightarrow> executes_only q r c es"
  "executes_only q r c [Executed x y d a] \<longleftrightarrow> x = q \<and> y = r \<and> same_identity c d"
  by (auto simp: executes_only_def dest: nothing_not_executed)

lemma executed_only: "ensures (execute_with_heartbeat e p i q r c) (\<lambda>_ es. executes_only q r c es)"
proof -
  have rest: "ensures (before (look (en_heartbeats e)) (\<lambda>n. before (caught (beat e p i n active))
      (settle_execution e p i q active x))) (\<lambda>_ es. executes_nothing es)" for active x
    by (rule costs_nothing) (auto intro!: cost_intros executions.costs_caught)
  show ?thesis
    unfolding execute_with_heartbeat_def
  proof (rule ensures_before[OF ensures_conj[OF refresh_claim_confirms costs_nothing[OF costs_claim_changes(1)]]])
    fix active es
    assume "confirms e i (\<lambda>d. dc_state d = Claim_running \<and> same_identity c d) (Inr active) es \<and> executes_nothing es"
    then have es: "executes_nothing es" and active: "same_identity c active"
      by (auto simp: confirms_def)
    show "ensures (before (perform (Executed q r active) Api_fault (\<lambda>t. Some (en_execute e q r active t)))
        (\<lambda>x. before (look (en_heartbeats e)) (\<lambda>n. before (caught (beat e p i n active))
          (settle_execution e p i q active x)))) (\<lambda>_ fs. executes_only q r c (es @ fs))"
    proof (rule ensures_before[where P = "\<lambda>_ fs. fs = [] \<or> (\<exists>a. fs = [Executed q r active a])"])
      fix x fs
      assume fs: "fs = [] \<or> (\<exists>a. fs = [Executed q r active a])"
      show "ensures (before (look (en_heartbeats e)) (\<lambda>n. before (caught (beat e p i n active))
          (settle_execution e p i q active x))) (\<lambda>_ gs. executes_only q r c (es @ fs @ gs))"
        using rest by (rule ensures_weaken) (use es active fs in auto)
    qed (use es active in \<open>auto intro!: ensures_perform\<close>)
  qed simp
qed

lemma reads_any: "reads.keeps m \<Longrightarrow> ensures m (\<lambda>_ _. True)"
  unfolding reads.keeps_def by (erule ensures_weaken) simp

lemma ensures_any_before:
  assumes "reads.keeps m" and "\<And>f es. Q (Inl f) es" and "\<And>x es. ensures (k x) (\<lambda>r fs. Q r (es @ fs))"
  shows "ensures (before m k) Q"
  using reads_any[OF assms(1)] by (rule ensures_before) (simp_all add: assms(2,3))

lemma matching_verdict_refuses: "ensures (matching_verdict e p q rs) (\<lambda>r _. r \<noteq> Inr None)"
  by (auto simp: matching_verdict_def intro!: ensures_any_before split: list.split)

lemma github_verdict_offers:
  "ensures (github_verdict e p q) (\<lambda>r es. r = Inr None \<longrightarrow>
     Read_issue (entry_target p q) True \<in> set es
     \<and> (\<exists>pulls. Listed_pulls (entry_target p q) pulls \<in> set es \<and> Pull_open \<notin> set pulls))"
  by (rule ensuresI)
    (auto simp: github_verdict_def Let_def before_def perform_def give_def split: option.splits sum.splits if_splits)

lemma eligibility_offers: "ensures (eligibility e p q) (\<lambda>r es. r = Inr None \<longrightarrow> offered p q es)"
  unfolding eligibility_def Let_def
proof (rule ensures_any_before)
  fix active es
  have runs: "ensures (list_runs e) (\<lambda>r fs. \<forall>rs. r = Inr rs \<longrightarrow> fs = [Listed_runs rs])"
    by (simp add: list_runs_def ensures_perform)
  let ?Q = "\<lambda>r fs. r = Inr None \<longrightarrow> offered p q (es @ fs)"
  have "ensures (before (list_runs e) (\<lambda>rs.
       if unfinished_revision q (dispatch_history p q rs) then give (Some (Revised_reissue, True))
       else before (unproven_prior e (dispatch_history p q rs)) (\<lambda>unproven.
         if unproven \<noteq> None then give (Some (Unproven_delivery, True))
         else before (unsettled_previous e p q (dispatch_history p q rs)) (\<lambda>unsettled.
           if unsettled \<noteq> None then give (Some (Previous_unsettled, True))
           else if matching_history q (dispatch_history p q rs) \<noteq> []
           then matching_verdict e p q (matching_history q (dispatch_history p q rs))
           else github_verdict e p q)))) ?Q"
  proof (rule ensures_before[OF runs])
    fix rs fs
    assume "\<forall>rs'. Inr rs = Inr rs' \<longrightarrow> fs = [Listed_runs rs']"
    then have fs: "fs = [Listed_runs rs]" by simp
    have github: "ensures (github_verdict e p q) (\<lambda>r gs. r = Inr None \<longrightarrow> offered p q (es @ fs @ xs @ ys @ gs))"
      if "matching_history q (dispatch_history p q rs) = []" for xs ys
      using github_verdict_offers
      by (rule ensures_weaken) (use that fs in \<open>auto simp: offered_def\<close>)
    show "ensures (if unfinished_revision q (dispatch_history p q rs) then give (Some (Revised_reissue, True))
       else before (unproven_prior e (dispatch_history p q rs)) (\<lambda>unproven.
         if unproven \<noteq> None then give (Some (Unproven_delivery, True))
         else before (unsettled_previous e p q (dispatch_history p q rs)) (\<lambda>unsettled.
           if unsettled \<noteq> None then give (Some (Previous_unsettled, True))
           else if matching_history q (dispatch_history p q rs) \<noteq> []
           then matching_verdict e p q (matching_history q (dispatch_history p q rs))
           else github_verdict e p q))) (\<lambda>r gs. r = Inr None \<longrightarrow> offered p q (es @ fs @ gs))"
      using github
      by (auto intro!: ensures_any_before ensures_weaken[OF matching_verdict_refuses])
  qed simp
  then show "ensures (case active of Some r \<Rightarrow> give (Some (Active_run (run_id r) (run_state r), True))
     | None \<Rightarrow> before (list_runs e) (\<lambda>rs.
       if unfinished_revision q (dispatch_history p q rs) then give (Some (Revised_reissue, True))
       else before (unproven_prior e (dispatch_history p q rs)) (\<lambda>unproven.
         if unproven \<noteq> None then give (Some (Unproven_delivery, True))
         else before (unsettled_previous e p q (dispatch_history p q rs)) (\<lambda>unsettled.
           if unsettled \<noteq> None then give (Some (Previous_unsettled, True))
           else if matching_history q (dispatch_history p q rs) \<noteq> []
           then matching_verdict e p q (matching_history q (dispatch_history p q rs))
           else github_verdict e p q)))) ?Q"
    by (simp split: option.split)
qed simp_all

lemma executes_onlyD:
  "executes_only q r c es \<Longrightarrow> Executed x y d a \<in> set es \<Longrightarrow> x = q \<and> y = r \<and> same_identity c d"
  unfolding executes_only_def by blast

lemma licensed_context:
  assumes "executes_nothing es" and "executes_only q r c fs"
    and "r = None \<Longrightarrow> has_valid_dispatch_authority q \<and> de_route q = Route_codex \<and>
           (offered p q es \<or> (\<forall>d. same_identity c d \<longrightarrow> recovers e p d es))"
  shows "licensed e p (es @ fs)"
  unfolding licensed_def
proof (intro allI impI)
  fix x d a
  assume "Executed x None d a \<in> set (es @ fs)"
  with nothing_not_executed[OF assms(1)] have "Executed x None d a \<in> set fs" by simp
  from executes_onlyD[OF assms(2) this] have "x = q" "r = None" "same_identity c d" by simp_all
  moreover from this assms(3) have "offered p q es \<or> recovers e p d es" by blast
  ultimately show "has_valid_dispatch_authority x \<and> de_route x = Route_codex
      \<and> (offered p x (es @ fs) \<or> recovers e p d (es @ fs))"
    using assms(3) offered_mono[of p q es "es @ fs"] recovers_mono[of e p d es "es @ fs"] by auto
qed

lemma licensed_try_entries:
  assumes "\<And>q. executions.costs 0 (claim q)" and "\<And>rs. executions.costs 0 (finish rs)"
  shows "licenses.keeps e p (try_entries e p claim finish rs qs)"
proof (induction qs arbitrary: rs)
  case (Cons q qs)
  show ?case
  proof (cases "de_route q = Route_codex \<and> has_valid_dispatch_authority q")
    case ok: True
    have claimed: "ensures (before (claim q) (\<lambda>(i, c). execute_with_heartbeat e p i q None c))
        (\<lambda>r fs. licensed e p (es @ fs))" if es: "executes_nothing es" "offered p q es" for es
    proof (rule ensures_before[OF costs_nothing[OF assms(1)]])
      fix x fs
      assume fs: "executes_nothing fs"
      have "ensures (execute_with_heartbeat e p (fst x) q None (snd x)) (\<lambda>r gs. licensed e p ((es @ fs) @ gs))"
        using executed_only
        by (rule ensures_weaken)
          (rule licensed_context, use es fs ok in \<open>auto simp: executes_nothing_def intro: offered_mono\<close>)
      then show "ensures (case x of (i, c) \<Rightarrow> execute_with_heartbeat e p i q None c)
          (\<lambda>r gs. licensed e p (es @ fs @ gs))"
        by (simp add: split_def)
    qed (use es in \<open>auto simp: licensed_def dest: nothing_not_executed\<close>)
    have "ensures (before (eligibility e p q) (\<lambda>v.
        case v of
          Some (reason, blocked) \<Rightarrow>
            (let rs = rs @ [(Some (de_issue q), reason)] in
             if blocked then give (No_eligible_work rs) else try_entries e p claim finish rs qs)
        | None \<Rightarrow> before (claim q) (\<lambda>(i, c). execute_with_heartbeat e p i q None c)))
        (\<lambda>r es. licensed e p es)"
    proof (rule ensures_before[OF ensures_conj[OF costs_nothing[OF costs_reads[OF reads_eligibility]] eligibility_offers]])
      fix v es
      assume es: "executes_nothing es \<and> (Inr v = (Inr None :: dispatch_refusal + verdict) \<longrightarrow> offered p q es)"
      then have "licensed e p es" by (auto simp: licensed_def dest: nothing_not_executed)
      then have "ensures (try_entries e p claim finish rs qs) (\<lambda>r fs. licensed e p (es @ fs))" for rs
        using Cons[of rs] licenses.proper_append[of e p es]
        unfolding licenses.keeps_def by (elim ensures_weaken) blast
      with es claimed[of es] \<open>licensed e p es\<close> show "ensures (case v of
          Some (reason, blocked) \<Rightarrow>
            (let rs = rs @ [(Some (de_issue q), reason)] in
             if blocked then give (No_eligible_work rs) else try_entries e p claim finish rs qs)
        | None \<Rightarrow> before (claim q) (\<lambda>(i, c). execute_with_heartbeat e p i q None c))
          (\<lambda>r fs. licensed e p (es @ fs))"
        by (auto simp: Let_def split: option.split)
    qed (auto simp: licensed_def dest: nothing_not_executed)
    with ok show ?thesis by (simp add: licenses.keeps_def)
  qed (use Cons in auto)
qed (simp add: assms(2))

text \<open>A retained claim and what was found of its run, after a trace without executions.\<close>

definition ready ::
  "dispatch_environment \<Rightarrow> dispatch_options \<Rightarrow> dispatch_claim \<Rightarrow> run option \<Rightarrow> dispatch_effect list \<Rightarrow> bool" where
  "ready e p c r es \<longleftrightarrow>
     executes_nothing es
     \<and> (r = None \<longrightarrow> has_valid_dispatch_authority (entry_of_claim c)
          \<and> (\<forall>d. same_identity c d \<longrightarrow> recovers e p d es))"

lemma ready_append: "ready e p c r es \<Longrightarrow> executes_nothing fs \<Longrightarrow> ready e p c r (es @ fs)"
  using recovers_mono[of e p _ es "es @ fs"] by (auto simp: ready_def executes_nothing_def)

lemma nothing_licensed: "executes_nothing es \<Longrightarrow> licensed e p es"
  by (auto simp: licensed_def dest: nothing_not_executed)

lemma ready_licensed: "ready e p c r es \<Longrightarrow> licensed e p es"
  by (simp add: ready_def nothing_licensed)

definition licensed_from ::
  "dispatch_environment \<Rightarrow> dispatch_options \<Rightarrow> dispatch_claim \<Rightarrow> run option \<Rightarrow> 'a dispatching \<Rightarrow> bool" where
  "licensed_from e p c r m \<longleftrightarrow> (\<forall>es. ready e p c r es \<longrightarrow> ensures m (\<lambda>_ fs. licensed e p (es @ fs)))"

lemma licensed_from_before:
  assumes "executions.costs 0 m" and "\<And>x. licensed_from e p c r (k x)"
  shows "licensed_from e p c r (before m k)"
  unfolding licensed_from_def
proof (intro allI impI)
  fix es
  assume es: "ready e p c r es"
  show "ensures (before m k) (\<lambda>_ fs. licensed e p (es @ fs))"
    using costs_nothing[OF assms(1)]
  proof (rule ensures_before)
    fix f :: dispatch_refusal and fs
    assume "executes_nothing fs"
    then show "licensed e p (es @ fs)" using es by (intro ready_licensed ready_append)
  next
    fix x fs
    assume "executes_nothing fs"
    with es have "ready e p c r (es @ fs)" by (rule ready_append)
    then have "ensures (k x) (\<lambda>_ gs. licensed e p ((es @ fs) @ gs))"
      using assms(2)[of x] unfolding licensed_from_def by blast
    then show "ensures (k x) (\<lambda>_ gs. licensed e p (es @ fs @ gs))" by simp
  qed
qed

lemma licensed_from_keeps: "licenses.keeps e p m \<Longrightarrow> licensed_from e p c r m"
  unfolding licensed_from_def licenses.keeps_def
  by (auto elim!: ensures_weaken dest: ready_licensed intro: licenses.proper_append)

lemma licensed_from_execute: "licensed_from e p c r (execute_with_heartbeat e p i (entry_of_claim c) r c)"
  unfolding licensed_from_def
proof (intro allI impI)
  fix es
  assume es: "ready e p c r es"
  show "ensures (execute_with_heartbeat e p i (entry_of_claim c) r c) (\<lambda>_ fs. licensed e p (es @ fs))"
    using executed_only
    by (rule ensures_weaken)
      (rule licensed_context, use es in \<open>auto simp: ready_def entry_of_claim_def\<close>)
qed

lemma licenses_settled: "licenses.keeps e p (settled_claim e p i c r b queue)"
  unfolding settled_claim_def Let_def
  by (intro licenses.keeps_before)
    (auto intro!: licensed_try_entries cost_intros simp: finish_with_retirement_def)

lemma licensed_from_retained: "licensed_from e p c r (retained_claim e p i c queue r)"
  unfolding retained_claim_def Let_def
  by (cases r)
    (auto intro!: licensed_from_before licensed_from_execute simp: licensed_from_keeps[OF licenses_settled]
       licensed_from_keeps cost_intros)

lemma claimed_run_found:
  "ensures (claimed_run e p c q) (\<lambda>r es. r = Inr None \<longrightarrow>
     (\<exists>rs. Listed_runs rs \<in> set es \<and> claimed_of_runs p c q rs = Inr None))"
  by (rule ensuresI)
    (auto simp: claimed_run_def before_def perform_def give_def refuse_def read_stored_run_def list_runs_def answer_of_def
       present_and_iff split: option.splits sum.splits)

lemma licensed_with_claim:
  assumes cs: "select_dispatch_runtime (en_dates e) cs = Inr (Some (i, c))"
  shows "ensures (with_claim e p i c) (\<lambda>_ fs. licensed e p (Listed_comments cs # fs))"
proof -
  let ?k = "\<lambda>queue r. if r = None \<and> (dc_state c = Claim_retired \<or> \<not> has_valid_dispatch_authority (entry_of_claim c))
        then give (Owner_hold (entry_of_claim c) c None)
        else before (require (absent_or (claim_authority_matches c) r) Authority_differs) (\<lambda>_.
             before (look (\<lambda>t. retained_fence e p c r (\<lambda>n. en_now e n t) t)) (\<lambda>fence.
               case fence of Some x \<Rightarrow> give x | None \<Rightarrow> retained_claim e p i c queue r))"
  have later: "licensed_from e p c r (?k queue r)" for queue r
    by (auto intro!: licensed_from_before licensed_from_retained simp: licensed_from_keeps split: option.split)
  have "ensures (?k queue r) (\<lambda>_ fs. licensed e p (es @ fs))"
    if es: "executes_nothing es" "Listed_comments cs \<in> set es"
      and r: "r = None \<longrightarrow> (\<exists>rs. Listed_runs rs \<in> set es \<and> claimed_of_runs p c (entry_of_claim c) rs = Inr None)"
    for queue r es
  proof (cases "r = None \<and> (dc_state c = Claim_retired \<or> \<not> has_valid_dispatch_authority (entry_of_claim c))")
    case True
    with es show ?thesis by (simp add: nothing_licensed)
  next
    case False
    with es r cs have "ready e p c r es"
      by (auto simp: ready_def recovers_def)
    with later[of r queue] show ?thesis by (simp add: licensed_from_def)
  qed
  note last = this
  have queue: "ensures (queue_entries p) (\<lambda>_ es. executes_nothing es)"
    by (rule costs_nothing) simp
  show ?thesis
    unfolding with_claim_def Let_def
  proof (rule ensures_before[OF queue])
    fix queue es
    assume es: "executes_nothing es"
    show "ensures (before (claimed_run e p c (entry_of_claim c)) (?k queue))
        (\<lambda>_ fs. licensed e p (Listed_comments cs # es @ fs))"
    proof (rule ensures_before[OF ensures_conj[OF costs_nothing[OF costs_reads[OF reads_claimed_run]] claimed_run_found]])
      fix r fs
      assume fs: "executes_nothing fs \<and> (Inr r = (Inr None :: dispatch_refusal + run option) \<longrightarrow>
        (\<exists>rs. Listed_runs rs \<in> set fs \<and> claimed_of_runs p c (entry_of_claim c) rs = Inr None))"
      have "ensures (?k queue r) (\<lambda>_ gs. licensed e p ((Listed_comments cs # es @ fs) @ gs))"
      proof (rule last)
        show "executes_nothing (Listed_comments cs # es @ fs)"
          using es fs by (simp add: executes_nothing_def)
        show "r = None \<longrightarrow> (\<exists>rs. Listed_runs rs \<in> set (Listed_comments cs # es @ fs)
            \<and> claimed_of_runs p c (entry_of_claim c) rs = Inr None)"
          using fs by auto
      qed simp
      then show "ensures (?k queue r) (\<lambda>_ gs. licensed e p (Listed_comments cs # es @ fs @ gs))"
        by (simp only: append.simps append_assoc)
    qed (use es in \<open>auto simp: executes_nothing_def intro: nothing_licensed\<close>)
  qed (auto simp: executes_nothing_def intro: nothing_licensed)
qed

lemma licenses_dispatch_once: "licenses.keeps e p (dispatch_once e p)"
proof -
  have none: "licenses.keeps e p (without_claim e p)"
    unfolding without_claim_def
    by (auto intro!: licenses.keeps_before licensed_try_entries split: option.split)
  have listed: "ensures (selected_claim e) (\<lambda>r es. executes_nothing es \<and> (\<forall>i c. r = Inr (Some (i, c)) \<longrightarrow>
      (\<exists>cs. es = [Listed_comments cs] \<and> select_dispatch_runtime (en_dates e) cs = Inr (Some (i, c)))))"
    by (rule ensuresI)
      (auto simp: selected_claim_def list_comments_def before_def perform_def answer_of_def give_def refuse_def
         executes_nothing_def split: option.splits sum.splits)
  show ?thesis
    unfolding licenses.keeps_def dispatch_once_def
  proof (rule ensures_before[OF listed])
    fix x es
    assume es: "executes_nothing es \<and> (\<forall>i c. Inr x = (Inr (Some (i, c)) :: dispatch_refusal + _) \<longrightarrow>
      (\<exists>cs. es = [Listed_comments cs] \<and> select_dispatch_runtime (en_dates e) cs = Inr (Some (i, c))))"
    show "ensures (case x of Some (i, c) \<Rightarrow> with_claim e p i c | None \<Rightarrow> without_claim e p)
        (\<lambda>r fs. licensed e p (es @ fs))"
    proof (cases x)
      case None
      have "licensed e p es" using es by (simp add: nothing_licensed)
      then have "ensures (without_claim e p) (\<lambda>r fs. licensed e p (es @ fs))"
        using none unfolding licenses.keeps_def by (elim ensures_weaken) (rule licenses.proper_append)
      with None show ?thesis by simp
    next
      case (Some y)
      obtain i c where y: "y = (i, c)" by fastforce
      with Some es obtain cs where "es = [Listed_comments cs]"
        "select_dispatch_runtime (en_dates e) cs = Inr (Some (i, c))" by blast
      with licensed_with_claim[of e cs i c p] Some y show ?thesis by simp
    qed
  qed (auto intro: nothing_licensed)
qed

section \<open>Properties\<close>

text \<open>C21. One attempt executes at most one entry, whatever its calls answer, whether it resumes a
  retained claim, releases a settled one and goes on, or claims anew.\<close>

theorem one_execution_per_attempt:
  "length (filter (\<lambda>x. execution_cost x = 1) (snd (dispatch_once e p []))) \<le> 1"
  using executed_count[OF costs_dispatch_once] by simp

text \<open>C20. No blind write: the claim comment is only created directly after a listing without any
  claim, only updated directly after a listing that selects that very comment, and work only
  starts directly after a listing that shows its own running claim. An attempt that reports a
  dispatched run ended with a listing that shows the claim with that run and its state.\<close>

theorem claims_are_fenced:
  "well_dispatched e (fst (dispatch_once e p [])) (snd (dispatch_once e p []))"
  using settles_dispatch_once[of e p] unfolding settles_def ensures_def by (metis append_Nil)

text \<open>C31. The restricted modes start no work of their own: under a maintenance hold only a run with
  a possibly issued merge or an unresolved native request is executed, in merge recovery only
  the former, in lead recovery only the latter.\<close>

theorem restricted_modes_start_nothing:
  "list_all (permitted e p) (snd (dispatch_once e p []))"
  using holds.keeps_trace[OF holds_dispatch_once, of e p "[]"] by auto

text \<open>C19. New work is licensed: an entry executed without a run has a valid authority and the Codex
  route, and either its issue was read open without an open pull request while the listed runs
  held no dispatch of the issue under the same authority revision, or it continues a claim
  found on the control issue which no listed run holds or could have produced.\<close>

theorem new_work_is_licensed:
  "licensed e p (snd (dispatch_once e p []))"
  using licenses.keeps_trace[OF licenses_dispatch_once, of e p "[]"] by auto

end
