(* ===== verification/Dispatch_Driver.thy ===== *)
theory Dispatch_Driver
  imports Dispatch_Guarantees
begin

text \<open>
  The serial driver, \<open>dispatchContinuously\<close> of \<^verbatim>\<open>src/dispatch/continuous.ts\<close>, over dispatch
  attempts of \<^verbatim>\<open>Dispatch_Runner\<close>: settled work is reconciled again at once, any other outcome
  sleeps first. The options of an attempt are read again for every cycle; without a cycle limit
  the loop does not end by itself, so it runs on fuel.
\<close>

definition DEFAULT_DISPATCH_IDLE_POLL_MS :: int where
  "DEFAULT_DISPATCH_IDLE_POLL_MS = 30000"

record driver_result =
  dr_cycles :: int
  dr_idleWaits :: int
  dr_last :: "dispatch_outcome option"

definition is_terminal_dispatch :: "dispatch_outcome \<Rightarrow> bool" where
  "is_terminal_dispatch x =
     (case x of
        Dispatched q c i s poll \<Rightarrow> \<not> poll \<and> s \<in> {MERGED, MERGE_READY, NEEDS_HUMAN, FAILED}
      | _ \<Rightarrow> False)"

definition idle_sleep :: "dispatch_environment \<Rightarrow> int \<Rightarrow> unit dispatching" where
  "idle_sleep e poll =
     perform (\<lambda>_. Slept poll) Api_fault (\<lambda>t. if en_sleep e poll t then Some () else None)"

definition next_attempt ::
  "dispatch_environment \<Rightarrow> (dispatch_trace \<Rightarrow> dispatch_options) \<Rightarrow> dispatch_outcome dispatching" where
  "next_attempt e options = before (look options) (dispatch_once e)"

fun drive ::
  "dispatch_environment \<Rightarrow> (dispatch_trace \<Rightarrow> dispatch_options) \<Rightarrow> int \<Rightarrow> int option \<Rightarrow> nat \<Rightarrow> driver_result \<Rightarrow>
   driver_result option dispatching" where
  "drive e options poll limit 0 d = give None"
| "drive e options poll limit (Suc k) d =
     (if \<not> absent_or (\<lambda>n. dr_cycles d < n) limit then give (Some d)
      else before (next_attempt e options) (\<lambda>x.
        let d' = d\<lparr>dr_cycles := dr_cycles d + 1, dr_last := Some x\<rparr> in
        if is_terminal_dispatch x then drive e options poll limit k d'
        else if present_and (\<lambda>n. n \<le> dr_cycles d') limit then give (Some d')
        else before (idle_sleep e poll) (\<lambda>_.
          drive e options poll limit k (d'\<lparr>dr_idleWaits := dr_idleWaits d' + 1\<rparr>))))"

definition dispatch_continuously ::
  "dispatch_environment \<Rightarrow> (dispatch_trace \<Rightarrow> dispatch_options) \<Rightarrow> int \<Rightarrow> int option \<Rightarrow> nat \<Rightarrow>
   driver_result option dispatching" where
  "dispatch_continuously e options poll limit fuel =
     before (require (is_safe_integer poll \<and> 1 \<le> poll) Invalid_idle_poll) (\<lambda>_.
     before (require (absent_or (\<lambda>n. is_safe_integer n \<and> 1 \<le> n) limit) Invalid_max_cycles) (\<lambda>_.
       drive e options poll limit fuel \<lparr>dr_cycles = 0, dr_idleWaits = 0, dr_last = None\<rparr>))"

section \<open>Disciplines of an attempt are disciplines of the driver\<close>

lemma costs_next_attempt: "executions.costs (Suc 0) (next_attempt e options)"
  by (auto simp: next_attempt_def intro!: cost_intros costs_dispatch_once)

lemma costs_idle_sleep [simp]: "executions.costs n (idle_sleep e poll)"
  by (auto simp: idle_sleep_def intro!: cost_intros)

lemma fences_dispatch_once: "fences.keeps (en_dates e) (dispatch_once e p)"
  using settles_dispatch_once[of e p] unfolding settles_def fences.keeps_def
  by (elim ensures_weaken) (simp add: well_dispatched_def)

lemma fences_next_attempt: "fences.keeps (en_dates e) (next_attempt e options)"
  by (auto simp: next_attempt_def intro!: fences.keeps_before fences_dispatch_once)

lemma fences_idle_sleep: "fences.keeps h (idle_sleep e poll)"
  by (auto simp: idle_sleep_def intro!: fences.keeps_perform)

lemma fences_drive: "fences.keeps (en_dates e) (drive e options poll limit k d)"
  by (induction k arbitrary: d)
    (auto simp: Let_def intro!: fences.keeps_before fences_next_attempt fences_idle_sleep)

lemma costs_drive:
  assumes "dr_cycles d \<le> n"
  shows "executions.costs (nat (n - dr_cycles d)) (drive e options poll (Some n) k d)"
  using assms
proof (induction k arbitrary: d)
  case (Suc k)
  show ?case
  proof (cases "dr_cycles d < n")
    case True
    have "executions.costs (nat (n - dr_cycles d)) (before (next_attempt e options) (\<lambda>x.
        let d' = d\<lparr>dr_cycles := dr_cycles d + 1, dr_last := Some x\<rparr> in
        if is_terminal_dispatch x then drive e options poll (Some n) k d'
        else if present_and (\<lambda>m. m \<le> dr_cycles d') (Some n) then give (Some d')
        else before (idle_sleep e poll) (\<lambda>_.
          drive e options poll (Some n) k (d'\<lparr>dr_idleWaits := dr_idleWaits d' + 1\<rparr>))))"
    proof (rule executions.costs_before[OF costs_next_attempt, where k = "nat (n - (dr_cycles d + 1))"])
      show "Suc 0 + nat (n - (dr_cycles d + 1)) \<le> nat (n - dr_cycles d)" using True by simp
    next
      fix x
      have "executions.costs (nat (n - (dr_cycles d + 1))) (drive e options poll (Some n) k
          (d\<lparr>dr_cycles := dr_cycles d + 1, dr_last := Some x, dr_idleWaits := w\<rparr>))" for w
        using Suc.IH[of "d\<lparr>dr_cycles := dr_cycles d + 1, dr_last := Some x, dr_idleWaits := w\<rparr>"] True by simp
      moreover have "executions.costs (nat (n - (dr_cycles d + 1))) (drive e options poll (Some n) k
          (d\<lparr>dr_cycles := dr_cycles d + 1, dr_last := Some x\<rparr>))"
        using Suc.IH[of "d\<lparr>dr_cycles := dr_cycles d + 1, dr_last := Some x\<rparr>"] True by simp
      ultimately show "executions.costs (nat (n - (dr_cycles d + 1)))
          (let d' = d\<lparr>dr_cycles := dr_cycles d + 1, dr_last := Some x\<rparr> in
           if is_terminal_dispatch x then drive e options poll (Some n) k d'
           else if present_and (\<lambda>m. m \<le> dr_cycles d') (Some n) then give (Some d')
           else before (idle_sleep e poll) (\<lambda>_.
             drive e options poll (Some n) k (d'\<lparr>dr_idleWaits := dr_idleWaits d' + 1\<rparr>)))"
        by (auto simp: Let_def intro!: executions.costs_free)
    qed
    with True show ?thesis by simp
  qed (simp add: executions.costs_simple)
qed simp

section \<open>The bounded driver returns\<close>

text \<open>With a limit, every cycle counts and enough fuel is one more than the cycles left.\<close>

definition finished_by :: "int \<Rightarrow> int \<Rightarrow> dispatch_refusal + driver_result option \<Rightarrow> bool" where
  "finished_by n waits r =
     (case r of
        Inl _ \<Rightarrow> True
      | Inr None \<Rightarrow> False
      | Inr (Some d) \<Rightarrow> dr_cycles d = n \<and> 0 \<le> dr_idleWaits d \<and> dr_idleWaits d \<le> waits \<and> dr_last d \<noteq> None)"

lemma any_program: "executions.costs n m \<Longrightarrow> ensures m (\<lambda>_ _. True)"
  unfolding executions.costs_def by (erule ensures_weaken) simp

lemma drive_finishes:
  assumes "nat (n - dr_cycles d) < k" and "dr_cycles d \<le> n" and "0 \<le> dr_idleWaits d"
    and "dr_idleWaits d \<le> dr_cycles d" and "dr_cycles d < n \<or> dr_last d \<noteq> None"
    and "dr_idleWaits d < n"
  shows "ensures (drive e options poll (Some n) k d) (\<lambda>r _. finished_by n (n - 1) r)"
  using assms
proof (induction k arbitrary: d)
  case (Suc k)
  show ?case
  proof (cases "dr_cycles d < n")
    case False
    with Suc.prems show ?thesis by (simp add: finished_by_def)
  next
    case True
    let ?d = "\<lambda>x. d\<lparr>dr_cycles := dr_cycles d + 1, dr_last := Some x\<rparr>"
    have step: "ensures (if is_terminal_dispatch x then drive e options poll (Some n) k (?d x)
        else if n \<le> dr_cycles (?d x) then give (Some (?d x))
        else before (idle_sleep e poll) (\<lambda>_.
          drive e options poll (Some n) k ((?d x)\<lparr>dr_idleWaits := dr_idleWaits d + 1\<rparr>)))
        (\<lambda>r _. finished_by n (n - 1) r)" for x
    proof -
      have "ensures (drive e options poll (Some n) k (?d x)) (\<lambda>r _. finished_by n (n - 1) r)"
        using Suc.prems True by (intro Suc.IH) auto
      moreover have "ensures (before (idle_sleep e poll) (\<lambda>_.
          drive e options poll (Some n) k ((?d x)\<lparr>dr_idleWaits := dr_idleWaits d + 1\<rparr>)))
          (\<lambda>r _. finished_by n (n - 1) r)" if "dr_cycles d + 1 < n"
        using any_program[OF costs_idle_sleep]
        by (rule ensures_before)
          (use Suc.prems True that in \<open>auto simp: finished_by_def[of _ _ "Inl _"] intro!: Suc.IH\<close>)
      moreover have "finished_by n (n - 1) (Inr (Some (?d x)))" if "n \<le> dr_cycles d + 1"
        using Suc.prems True that by (simp add: finished_by_def)
      ultimately show ?thesis by auto
    qed
    have "ensures (before (next_attempt e options) (\<lambda>x.
        if is_terminal_dispatch x then drive e options poll (Some n) k (?d x)
        else if n \<le> dr_cycles (?d x) then give (Some (?d x))
        else before (idle_sleep e poll) (\<lambda>_.
          drive e options poll (Some n) k ((?d x)\<lparr>dr_idleWaits := dr_idleWaits d + 1\<rparr>))))
        (\<lambda>r _. finished_by n (n - 1) r)"
      using any_program[OF costs_next_attempt]
      by (rule ensures_before) (simp add: finished_by_def, rule step)
    with True show ?thesis by (simp add: Let_def cong: if_cong)
  qed
qed simp

section \<open>Properties\<close>

lemma continuous_costs: "executions.costs (nat n) (dispatch_continuously e options poll (Some n) fuel)"
proof (cases "1 \<le> n")
  case True
  then show ?thesis
    unfolding dispatch_continuously_def
    using costs_drive[of "\<lparr>dr_cycles = 0, dr_idleWaits = 0, dr_last = None\<rparr>" n e options poll fuel]
    by (intro executions.costs_free) simp_all
next
  case False
  then show ?thesis
    unfolding dispatch_continuously_def by (cases fuel) (auto intro!: executions.costs_free)
qed

lemma continuous_fences: "fences.keeps (en_dates e) (dispatch_continuously e options poll limit fuel)"
  unfolding dispatch_continuously_def by (intro fences.keeps_before fences_drive) simp_all

lemma continuous_finishes:
  assumes "nat n < fuel"
  shows "ensures (dispatch_continuously e options poll (Some n) fuel) (\<lambda>r _. finished_by n (n - 1) r)"
proof (cases "is_safe_integer poll \<and> 1 \<le> poll \<and> is_safe_integer n \<and> 1 \<le> n")
  case True
  then show ?thesis
    unfolding dispatch_continuously_def require_def
    using drive_finishes[of n "\<lparr>dr_cycles = 0, dr_idleWaits = 0, dr_last = None\<rparr>" fuel e options poll] assms
    by (simp add: before_give)
next
  case False
  then show ?thesis
    by (auto simp: dispatch_continuously_def require_def ensures_def before_def give_def refuse_def finished_by_def)
qed

text \<open>C32. A driver limited to \<open>n\<close> cycles ends, on fuel \<open>n + 1\<close>, by an error or after exactly \<open>n\<close>
  attempts and at most \<open>n - 1\<close> sleeps, with at most one execution per cycle; over all its cycles
  no claim is created, updated or worked under without being directly read before.\<close>

theorem bounded_driver_returns:
  "let (r, t) = dispatch_continuously e options poll (Some n) (nat n + 1) [] in
     finished_by n (n - 1) r \<and> length (filter (\<lambda>x. execution_cost x = 1) t) \<le> nat n
     \<and> fenced (en_dates e) None t"
proof -
  let ?m = "dispatch_continuously e options poll (Some n) (nat n + 1)"
  obtain r t where m: "?m [] = (r, t)" by fastforce
  have "finished_by n (n - 1) r"
    using ensuresD[OF continuous_finishes m] by simp
  moreover have "length (filter (\<lambda>x. execution_cost x = 1) t) \<le> nat n"
    using executed_count[OF continuous_costs[of n e options poll "nat n + 1"]] m by simp
  moreover have "fenced (en_dates e) None t"
    using fences.keeps_trace[OF continuous_fences[of e options poll "Some n" "nat n + 1"], of "[]"] m by auto
  ultimately show ?thesis using m by simp
qed

end
