(* ===== verification/Spec2Isabelle.thy ===== *)
theory Spec2Isabelle
  imports Transition_Witnesses Review_Witnesses Workflow_Witnesses Restart_Witnesses Wait_Witnesses Execution_Profiles Dispatch_Protocol Merge_Protocol Mission_Ownership Dispatch_Driver
begin

text \<open>
  A verification library for Tachiko Conductor, the TypeScript program under
  \<^verbatim>\<open>src/\<close> that drives one GitHub issue at a time from dispatch through implementation,
  validation and review to a merge. Paths below are relative to the repository's \<^verbatim>\<open>src/\<close>
  directory; the theories keep the source's function and type names (in snake case, fields
  with a short prefix).

  \<^bold>\<open>How the program is put together.\<close> A \<^emph>\<open>run\<close> is the persisted record of one issue. The workflow
  core (\<^verbatim>\<open>domain/\<close>) decides which transitions a run accepts; every accepted transition is
  written by the run store (\<^verbatim>\<open>store/\<close>), which repeats its own guards on what may change
  between two versions of a run. External models review and lead through native request ledgers
  (\<^verbatim>\<open>oracle/\<close>) whose completions are authenticated from files. A dispatcher
  (\<^verbatim>\<open>dispatch/\<close>) reads a queue from a control issue, holds a claim there and executes at most
  one run; a mission registry (\<^verbatim>\<open>mission-admission/\<close>) decides which production lanes may
  own which work; a wait observer (\<^verbatim>\<open>domain/wait.ts\<close>, \<^verbatim>\<open>workflow/wait-*.ts\<close>) turns
  the state of a run into wake-ups for a parent; the merge transaction (\<^verbatim>\<open>workflow/merge.ts\<close>)
  submits one squash merge.

  \<^bold>\<open>Shared theories.\<close> \<open>Prelude\<close>: JavaScript texts (trim, blank, lower), optional values, safe integers,
  decimal text, lists and their prefixes. \<open>Interfaces\<close>: guards in source order
  (\<open>first_error\<close>) and the contracts as locales: guarded and logged machines, interleaved
  systems, codecs, event ledgers. \<open>Ordered_Machines\<close>: machines whose steps only move up a
  preorder. \<open>Effects\<close>: programs over a trace of calls, with trace disciplines (what every
  call keeps true) and call budgets. Every locale is interpreted on the model in the theory
  that provides the operations.

  \<^bold>\<open>Workflow core.\<close>
  \<^item> \<open>Domain_Types\<close>, \<open>Native_Types\<close>, \<open>Run_Types\<close>: the records and enumerations of
    \<^verbatim>\<open>domain/types.ts\<close>, \<^verbatim>\<open>domain/run.ts\<close>, \<^verbatim>\<open>domain/decisions.ts\<close> and the ledgers of
    \<^verbatim>\<open>oracle/types.ts\<close>.
  \<^item> \<open>Validation\<close>: coherence of local and hosted evidence (\<^verbatim>\<open>domain/validation.ts\<close>).
  \<^item> \<open>Repair_Admission\<close>: task-shape decisions, bindings, snapshots and executor hand-offs
    (\<^verbatim>\<open>domain/repair-admission.ts\<close>).
  \<^item> \<open>State_Machine\<close>: the transition table, each guard of \<^verbatim>\<open>assertPayload\<close> and \<^verbatim>\<open>applyTransition\<close>
    (\<^verbatim>\<open>domain/state-machine.ts\<close>); \<open>Transition_Properties\<close> proves what accepted transitions
    keep, \<open>Transition_Witnesses\<close> drives concrete runs through it.
  \<^item> \<open>Telemetry\<close>, \<open>Telemetry_Projection\<close>: the efficiency ledger, its validator, projection and
    signals (\<^verbatim>\<open>domain/telemetry.ts\<close>).
  \<^item> \<open>Implementation_Packet\<close>: authority, rendering and byte bounds of the packet an executor receives
    (\<^verbatim>\<open>agents/implementation-packet.ts\<close>, \<^verbatim>\<open>domain/implementation-authority.ts\<close>).
  \<^item> \<open>Execution_Profiles\<close>: operator profiles (\<^verbatim>\<open>execution-profiles.ts\<close>).

  \<^bold>\<open>Native evidence.\<close> \<open>Native_Evidence\<close> (\<^verbatim>\<open>oracle/completion-proof.ts\<close>), \<open>Native_Review\<close> and
  \<open>Native_Lead\<close> (\<^verbatim>\<open>oracle/native-reviewer.ts\<close>, \<^verbatim>\<open>oracle/native-lead.ts\<close>), \<open>Native_Merge\<close>:
  authentication of completions, coherence of the ledgers and the progress relations the store
  enforces between two writes.

  \<^bold>\<open>Store and merge.\<close> \<open>Run_Store\<close>, \<open>Store_Operations\<close>: which files read as a run, the guards of
  \<^verbatim>\<open>create\<close>, \<^verbatim>\<open>update\<close> and \<^verbatim>\<open>updateIfUnchanged\<close>, over a directory as a map from file names
  (\<^verbatim>\<open>store/json-file-store.ts\<close>). \<open>Merge_Protocol\<close>: the merge transaction as moves of any
  number of processes over one store (\<^verbatim>\<open>workflow/merge.ts\<close>), with the GitHub data of
  \<open>GitHub_Types\<close> (\<^verbatim>\<open>adapters/github.ts\<close>).

  \<^bold>\<open>Waiting.\<close> \<open>Wait_Observation\<close>, \<open>Wait_Ledger\<close> (\<^verbatim>\<open>domain/wait.ts\<close>), \<open>Wait_Runtime\<close>
  (\<^verbatim>\<open>workflow/wait-observation.ts\<close>) and \<open>Wait_Command\<close> (\<^verbatim>\<open>workflow/wait-command.ts\<close>,
  \<^verbatim>\<open>workflow/wait-ledger-store.ts\<close>); \<open>Wait_Properties\<close> and \<open>Wait_Guarantees\<close> prove the ledger's
  promises over histories of observations, deadlines, deliveries and restarts, \<open>Wait_Witnesses\<close>
  runs them.

  \<^bold>\<open>Dispatch.\<close> \<open>Json_Text\<close>: \<^verbatim>\<open>JSON.stringify\<close> and \<^verbatim>\<open>JSON.parse\<close> on texts. \<open>Dispatch_Queue\<close>:
  the queue and the runtime claim (\<^verbatim>\<open>dispatch/queue.ts\<close>). \<open>Dispatch_Protocol\<close>: dispatchers
  that race for one control issue. \<open>Dispatch_Runner\<close>: \<^verbatim>\<open>dispatchOnce\<close> of
  \<^verbatim>\<open>dispatch/runner.ts\<close> as a program whose calls are recorded in a trace;
  \<open>Dispatch_Guarantees\<close>: what every such trace satisfies. \<open>Dispatch_Driver\<close>:
  \<^verbatim>\<open>dispatch/continuous.ts\<close>.

  \<^bold>\<open>Review loop.\<close> \<open>Review_Admission\<close>: what is decided without effects (\<^verbatim>\<open>reviewers/loop.ts\<close>,
  \<^verbatim>\<open>workflow/pull-request-identity.ts\<close>, \<^verbatim>\<open>workflow/bootstrap-failure.ts\<close>, the waits of
  \<^verbatim>\<open>oracle/native-reviewer.ts\<close>). \<open>Review_Effects\<close>: its calls, thrown values and early
  returns; \<open>Review_Repair\<close>, \<open>Review_Worker\<close>: the repair pass up to the lead's disposition,
  and from the consumed admission to the verified HEAD; \<open>Review_Loop\<close>: the review pass and
  \<^verbatim>\<open>runReviewLoop\<close>. \<open>Review_Guarantees\<close> proves contracts of every step, \<open>Review_Models\<close> where
  models start, \<open>Review_Properties\<close> what the loop promises, \<open>Review_Witnesses\<close> runs a review to
  its approval. Adapters may call their callbacks in any number and order.

  \<^bold>\<open>Workflow runner.\<close> \<open>Workflow_Decisions\<close>: the hosted-check policy (\<^verbatim>\<open>validation/hosted-policy.ts\<close>)
  and the pure decisions of \<^verbatim>\<open>workflow/run.ts\<close>: combined evidence, policy identities, readiness
  problems, the marker of the final gate. \<open>Workflow_Effects\<close>: its calls, the admission fence and the
  ways to stop; \<open>Workflow_Passes\<close>: one definition for each state of the loop, where a turn that needs
  the implementation worker, the review loop or the merge hands the run over. \<open>Workflow_Guarantees\<close>
  proves which programs never promote a run, \<open>Workflow_Warrants\<close> the evidence of those that do,
  \<open>Workflow_Properties\<close> what the loop promises; \<open>Workflow_Witnesses\<close> runs the validation and the gate.

  \<^bold>\<open>Mission admission.\<close> \<open>Mission_Types\<close>, \<open>Mission_Registry\<close>: the registry's state, its validator and
  every operation of \<^verbatim>\<open>mission-admission/registry.ts\<close>; \<open>Mission_Ownership\<close>: exclusive
  ownership and the advance of lanes.

  \<^bold>\<open>Restart readiness.\<close> \<open>Owner_Receipts\<close>: the private receipts of Runs and worktrees
  (\<^verbatim>\<open>mission-admission/run-owner-receipt.ts\<close>, \<^verbatim>\<open>manual-owner-receipt.ts\<close>). \<open>Runtime_Projection\<close>: the
  registry's bounded projection and the operational file with its validator, composition and restart
  verdict (\<^verbatim>\<open>operational/\<close>). \<open>Restart_Readiness\<close>: its publication in \<^verbatim>\<open>cli.ts\<close>, which re-proves
  every settled lane from the Run and the receipt, and the maintenance hold it carries.
  \<open>Restart_Properties\<close>: a safe verdict is proved, a hold lasts until its release, and which projections
  read back; \<open>Restart_Witnesses\<close>: a registry with both kinds of lane.

  \<^bold>\<open>The environment.\<close> Code outside the repository, and effects, are parameters: \<open>oracle_host\<close>
  (file reads, digests and URL parsing of the completion proofs), \<open>store_host\<close> and
  \<open>packet_host\<close> (packet digests and texts of evidence), \<open>wait_host\<close> (SHA-256 of a wait
  state), \<open>mission_host\<close> (SHA-256 and \<^verbatim>\<open>realpath\<close>), \<open>dispatch_host\<close> (\<^verbatim>\<open>Date.parse\<close> and
  \<^verbatim>\<open>toISOString\<close>), \<open>owner_host\<close> (physical paths, the place of a receipt, \<^verbatim>\<open>localeCompare\<close>), \<open>dispatch_environment\<close>, \<open>review_environment\<close>,
  \<open>workflow_environment\<close> and \<open>merge_environment\<close> (every call of
  adapters, store and host; an answer is a function of the trace so far, or an argument of the
  move, so it is free to change at any time), \<open>review_host\<close> and \<open>workflow_host\<close>
  (digests, and \<open>rh_text\<close> and \<open>wh_text\<close>, the text of a reason the model names by a constructor). No property assumes more of them than its statement shows.

  \<^bold>\<open>Errors, loops and numbers.\<close> A thrown error is the left of a sum, an ignored one the value it
  leaves; the text of messages is not modelled. The wait loop recurses over the list of rounds the
  environment provides; the driver takes fuel, and with a limit of \<open>n\<close> cycles \<open>n + 1\<close> is
  enough (\<open>bounded_driver_returns\<close>); two passes are enough for the review loop
  (\<open>review_loop_returns\<close>), six turns for the workflow's (\<open>workflow_loop_yields\<close>); every other loop is structural recursion. JavaScript
  numbers are integers with the code's \<^verbatim>\<open>isSafeInteger\<close> guards written out. Texts are lists of
  HOL's 8-bit characters, so a text is a sequence of code points below 256: \<open>utf8_length\<close> counts one
  byte below 128 and two from there on.

  \<^bold>\<open>What is not modelled.\<close> Message texts; file locks, \<^verbatim>\<open>fsync\<close> and rename (the store's and the
  registry's operations are atomic steps); process execution, git, browsers, provider protocols
  and the HTTP transport; the command line beyond the publication of the runtime projection, the control tower and the composition of the
  production host; of \<^verbatim>\<open>workflow/run.ts\<close> the implementation pass, which the review loop's repair
  resembles, and the native recovery before the loop.
\<close>

end
